(* ===== verification/Prelude.thy ===== *)
theory Prelude
  imports Complex_Main "HOL-Library.List_Lexorder" "HOL-Library.Char_ord" "HOL-Library.Sublist"
begin

text \<open>
  What every component of the model shares: Go errors and results as values, Go maps as
  association lists and partial functions, and the lemma collections the component proofs use.

  A Go \<open>string\<close> or \<open>[]byte\<close> is a \<open>string\<close> of HOL (a list of bytes); comparison of Go strings
  is byte-wise lexicographic, which is the order of \<open>List_Lexorder\<close> over \<open>Char_ord\<close>. A Go
  \<open>error\<close> is a \<open>gerror\<close> (\<open>None\<close> is \<open>nil\<close>), a pair \<open>(T, error)\<close> is a \<open>'a result\<close>. An error made by
  \<open>fmt.Errorf\<close> keeps its format string and its arguments, a \<open>%w\<close> wraps the inner error.
\<close>

named_theorems go_string_simps "evaluation and characterisation of the string operations"
named_theorems err_simps "results and errors: when an operation succeeds"

section \<open>Errors and results\<close>

datatype goarg = S string | I int

datatype goerr =
    Errorf string "goarg list"
  | Wrapf string "goarg list" goerr
  | Sentinel string

type_synonym gerror = "goerr option"
type_synonym 'a result = "goerr + 'a"

text \<open>\<open>errors.Is\<close>\<close>

fun errors_is :: "goerr \<Rightarrow> goerr \<Rightarrow> bool" where
  "errors_is (Wrapf f as e) target \<longleftrightarrow> Wrapf f as e = target \<or> errors_is e target"
| "errors_is e target \<longleftrightarrow> e = target"

definition bindR :: "'e + 'a \<Rightarrow> ('a \<Rightarrow> 'e + 'b) \<Rightarrow> 'e + 'b" where
  "bindR r f = (case r of Inl e \<Rightarrow> Inl e | Inr x \<Rightarrow> f x)"

lemma bindR_simps [simp]:
  "bindR (Inl e) f = Inl e"
  "bindR (Inr x) f = f x"
  by (simp_all add: bindR_def)

lemma bindR_Inr_iff [err_simps]: "bindR r f = Inr y \<longleftrightarrow> (\<exists>x. r = Inr x \<and> f x = Inr y)"
  by (cases r) auto

lemma bindR_Inl_iff [err_simps]:
  "bindR r f = Inl e \<longleftrightarrow> r = Inl e \<or> (\<exists>x. r = Inr x \<and> f x = Inl e)"
  by (cases r) auto

text \<open>\<open>if err := f(); err != nil { return fmt.Errorf(fmt, args, err) }\<close> on a pure check.\<close>

definition wrap_err :: "string \<Rightarrow> goarg list \<Rightarrow> gerror \<Rightarrow> gerror" where
  "wrap_err f as e = map_option (Wrapf f as) e"

lemma wrap_err_None [simp]: "wrap_err f as e = None \<longleftrightarrow> e = None"
  by (simp add: wrap_err_def)

text \<open>Sequencing of checks: the first error is returned.\<close>

definition orelse_err :: "gerror \<Rightarrow> gerror \<Rightarrow> gerror" where
  "orelse_err a b = (case a of None \<Rightarrow> b | Some e \<Rightarrow> Some e)"

lemma orelse_err_None [simp]: "orelse_err a b = None \<longleftrightarrow> a = None \<and> b = None"
  by (simp add: orelse_err_def split: option.splits)

lemma orelse_err_simps [simp]:
  "orelse_err None b = b"
  "orelse_err (Some e) b = Some e"
  by (simp_all add: orelse_err_def)

text \<open>A loop over a slice (or over a map in some iteration order) that returns the first error.\<close>

fun first_err :: "('a \<Rightarrow> gerror) \<Rightarrow> 'a list \<Rightarrow> gerror" where
  "first_err f [] = None"
| "first_err f (x # xs) = (case f x of None \<Rightarrow> first_err f xs | Some e \<Rightarrow> Some e)"

lemma first_err_None_iff [simp]: "first_err f xs = None \<longleftrightarrow> (\<forall>x \<in> set xs. f x = None)"
  by (induction xs) (auto split: option.splits)

lemma first_err_Some_ex: "first_err f xs = Some e \<Longrightarrow> \<exists>x \<in> set xs. f x = Some e"
  by (induction xs) (auto split: option.splits)

lemma first_err_cong [fundef_cong]:
  "xs = ys \<Longrightarrow> (\<And>x. x \<in> set ys \<Longrightarrow> f x = g x) \<Longrightarrow> first_err f xs = first_err g ys"
  by (induction ys arbitrary: xs) (auto split: option.splits)

text \<open>The same loop with an index, \<open>for i, x := range xs\<close>.\<close>

fun first_err_idx :: "nat \<Rightarrow> (nat \<Rightarrow> 'a \<Rightarrow> gerror) \<Rightarrow> 'a list \<Rightarrow> gerror" where
  "first_err_idx n f [] = None"
| "first_err_idx n f (x # xs) =
     (case f n x of None \<Rightarrow> first_err_idx (Suc n) f xs | Some e \<Rightarrow> Some e)"

lemma first_err_idx_None_iff [simp]:
  "first_err_idx n f xs = None \<longleftrightarrow> (\<forall>i < length xs. f (n + i) (xs ! i) = None)"
proof (induction xs arbitrary: n)
  case Nil
  then show ?case by simp
next
  case (Cons x xs)
  show ?case
    by (cases "f n x") (auto simp: Cons.IH less_Suc_eq_0_disj split: option.splits)
qed

section \<open>Go maps as association lists\<close>

text \<open>
  A Go map that the code ranges over is an association list with distinct keys: the list is
  one of the orders in which Go may iterate. A lookup is \<open>map_of\<close>. \<open>alist_eq\<close> is equality of
  maps: what a result that does not depend on the iteration order may use.
\<close>

type_synonym 'v gomap = "(string \<times> 'v) list"

definition gomap_ok :: "('k \<times> 'v) list \<Rightarrow> bool" where
  "gomap_ok m \<longleftrightarrow> distinct (map fst m)"

definition alist_eq :: "('k \<times> 'v) list \<Rightarrow> ('k \<times> 'v) list \<Rightarrow> bool" where
  "alist_eq m m' \<longleftrightarrow> map_of m = map_of m'"

definition has_key :: "('k \<times> 'v) list \<Rightarrow> 'k \<Rightarrow> bool" where
  "has_key m k \<longleftrightarrow> map_of m k \<noteq> None"

lemma has_key_iff [simp]: "has_key m k \<longleftrightarrow> k \<in> fst ` set m"
  by (auto simp: has_key_def map_of_eq_None_iff)

text \<open>\<open>m[k] = v\<close>: an existing key keeps its place, a new one is added.\<close>

fun put_key :: "'k \<Rightarrow> 'v \<Rightarrow> ('k \<times> 'v) list \<Rightarrow> ('k \<times> 'v) list" where
  "put_key k v [] = [(k, v)]"
| "put_key k v ((k', v') # m) = (if k = k' then (k, v) # m else (k', v') # put_key k v m)"

definition del_key :: "'k \<Rightarrow> ('k \<times> 'v) list \<Rightarrow> ('k \<times> 'v) list" where
  "del_key k m = filter (\<lambda>(k', _). k' \<noteq> k) m"

lemma map_of_put_key [simp]: "map_of (put_key k v m) = (map_of m)(k \<mapsto> v)"
  by (induction m) auto

lemma keys_put_key [simp]: "fst ` set (put_key k v m) = insert k (fst ` set m)"
  by (simp flip: dom_map_of_conv_image_fst)

lemma gomap_ok_put_key [simp]: "gomap_ok m \<Longrightarrow> gomap_ok (put_key k v m)"
proof (induction m)
  case Nil
  then show ?case by (simp add: gomap_ok_def)
next
  case (Cons a m)
  have keys: "set (map fst (put_key k v m)) = insert k (set (map fst m))"
    using keys_put_key [of k v m] by (simp del: keys_put_key)
  from Cons show ?case
    by (cases a) (auto simp: gomap_ok_def keys simp del: set_map)
qed

lemma map_of_del_key [simp]: "map_of (del_key k m) = (map_of m)(k := None)"
  by (induction m) (auto simp: del_key_def fun_eq_iff)

lemma keys_del_key [simp]: "fst ` set (del_key k m) = fst ` set m - {k}"
  by (auto simp: del_key_def)

lemma gomap_ok_del_key [simp]: "gomap_ok m \<Longrightarrow> gomap_ok (del_key k m)"
  by (induction m) (auto simp: gomap_ok_def del_key_def)

lemma gomap_ok_simps [simp]:
  "gomap_ok []"
  "gomap_ok ((k, v) # m) \<longleftrightarrow> k \<notin> fst ` set m \<and> gomap_ok m"
  by (simp_all add: gomap_ok_def)

lemma gomap_ok_map_of: "gomap_ok m \<Longrightarrow> (k, v) \<in> set m \<longleftrightarrow> map_of m k = Some v"
  by (auto simp: gomap_ok_def)

text \<open>\<open>slices.Sorted(maps.Keys(m))\<close> and \<open>sort.Strings\<close>: sorted, and without duplicates.\<close>

definition sorted_keys :: "('k::linorder \<times> 'v) list \<Rightarrow> 'k list" where
  "sorted_keys m = sort (remdups (map fst m))"

lemma sorted_keys_props [simp]:
  "set (sorted_keys m) = fst ` set m"
  "sorted (sorted_keys m)"
  "distinct (sorted_keys m)"
  by (simp_all add: sorted_keys_def)

lemma sorted_keys_unique:
  "fst ` set m = fst ` set m' \<Longrightarrow> sorted_keys m = sorted_keys m'"
  by (rule sorted_distinct_set_unique) simp_all

text \<open>The map's content in key order: the order in which \<open>json.Marshal\<close> writes a map.\<close>

definition canon_map :: "('k::linorder \<times> 'v) list \<Rightarrow> ('k \<times> 'v) list" where
  "canon_map m = map (\<lambda>k. (k, the (map_of m k))) (sorted_keys m)"

lemma keys_canon_map [simp]: "map fst (canon_map m) = sorted_keys m"
  by (simp add: canon_map_def comp_def)

lemma map_of_map_keys: "map_of (map (\<lambda>k. (k, f k)) ks) k = (if k \<in> set ks then Some (f k) else None)"
  by (induction ks) auto

lemma map_of_canon_map [simp]: "map_of (canon_map m) = map_of m"
proof
  fix k
  show "map_of (canon_map m) k = map_of m k"
  proof (cases "map_of m k")
    case None
    then have "k \<notin> fst ` set m" by (simp add: map_of_eq_None_iff)
    with None show ?thesis by (simp add: canon_map_def map_of_map_keys)
  next
    case (Some v)
    then have "k \<in> fst ` set m" by (metis domI dom_map_of_conv_image_fst)
    with Some show ?thesis by (simp add: canon_map_def map_of_map_keys)
  qed
qed

lemma canon_map_cong: "map_of m = map_of m' \<Longrightarrow> canon_map m = canon_map m'"
proof -
  assume eq: "map_of m = map_of m'"
  then have "fst ` set m = fst ` set m'" by (metis dom_map_of_conv_image_fst)
  then have "sorted_keys m = sorted_keys m'" by (rule sorted_keys_unique)
  with eq show ?thesis by (simp add: canon_map_def)
qed

lemma gomap_ok_canon_map [simp]: "gomap_ok (canon_map m)"
  by (simp add: gomap_ok_def)

section \<open>Stateful operations that may fail\<close>

text \<open>
  A method that returns \<open>(T, error)\<close> and changes the receiver: the state is returned updated in
  both cases, so what an operation changed before it failed is kept.
\<close>

type_synonym ('s, 'a) op = "'s \<Rightarrow> 'a result \<times> 's"

definition bindS :: "('s, 'a) op \<Rightarrow> ('a \<Rightarrow> ('s, 'b) op) \<Rightarrow> ('s, 'b) op" where
  "bindS m f s = (case m s of (Inl e, s') \<Rightarrow> (Inl e, s') | (Inr x, s') \<Rightarrow> f x s')"

definition liftS :: "'a result \<Rightarrow> ('s, 'a) op" where
  "liftS r s = (r, s)"

definition wrapS :: "string \<Rightarrow> goarg list \<Rightarrow> ('s, 'a) op \<Rightarrow> ('s, 'a) op" where
  "wrapS f as m s = (case m s of (Inl e, s') \<Rightarrow> (Inl (Wrapf f as e), s') | (Inr x, s') \<Rightarrow> (Inr x, s'))"

definition err_result :: "gerror \<Rightarrow> unit result" where
  "err_result e = (case e of None \<Rightarrow> Inr () | Some x \<Rightarrow> Inl x)"

definition result_err :: "'a result \<Rightarrow> gerror" where
  "result_err r = (case r of Inl e \<Rightarrow> Some e | Inr _ \<Rightarrow> None)"

lemma err_result_simps [simp]:
  "err_result None = Inr ()" "err_result (Some e) = Inl e"
  by (simp_all add: err_result_def)

lemma result_err_simps [simp]:
  "result_err (Inl e) = Some e" "result_err (Inr x) = None"
  by (simp_all add: result_err_def)

lemma result_err_None_iff: "result_err r = None \<longleftrightarrow> (\<exists>x. r = Inr x)"
  by (cases r) auto

lemma bindS_Pair [simp]:
  "m s = (Inr x, s') \<Longrightarrow> bindS m f s = f x s'"
  "m s = (Inl e, s') \<Longrightarrow> bindS m f s = (Inl e, s')"
  by (simp_all add: bindS_def)

lemma liftS_simps [simp]: "bindS (liftS (Inr x)) f = f x" "bindS (liftS (Inl e)) f = liftS (Inl e)"
  by (simp_all add: bindS_def liftS_def fun_eq_iff)

lemma bindS_Inr_iff [err_simps]:
  "bindS m f s = (Inr y, t) \<longleftrightarrow> (\<exists>x u. m s = (Inr x, u) \<and> f x u = (Inr y, t))"
  by (auto simp: bindS_def split: prod.splits sum.splits)

lemma bindS_Inl_iff [err_simps]:
  "bindS m f s = (Inl e, t) \<longleftrightarrow> m s = (Inl e, t) \<or> (\<exists>x u. m s = (Inr x, u) \<and> f x u = (Inl e, t))"
  by (auto simp: bindS_def split: prod.splits sum.splits)

lemma liftS_eq_iff [err_simps]: "liftS r s = (r', t) \<longleftrightarrow> r' = r \<and> t = s"
  by (auto simp: liftS_def)

lemma wrapS_Inr_iff [err_simps]: "wrapS f as m s = (Inr y, t) \<longleftrightarrow> m s = (Inr y, t)"
  by (auto simp: wrapS_def split: prod.splits sum.splits)

text \<open>An invariant of every step is an invariant of the sequence.\<close>

lemma bindS_preserves:
  assumes "P s" "\<And>s. P s \<Longrightarrow> P (snd (m s))" "\<And>x s. P s \<Longrightarrow> P (snd (f x s))"
  shows "P (snd (bindS m f s))"
  using assms(2) [OF assms(1)] assms(3)
  by (auto simp: bindS_def split: prod.splits sum.splits)

lemma snd_wrapS [simp]: "snd (wrapS f as m s) = snd (m s)"
  by (auto simp: wrapS_def split: prod.splits sum.splits)

lemma snd_liftS [simp]: "snd (liftS r s) = s"
  by (simp add: liftS_def)

text \<open>A Go \<open>int\<close> has 64 bits: addition wraps.\<close>

definition wrap64 :: "int \<Rightarrow> int" where
  "wrap64 n = (n + 2 ^ 63) mod 2 ^ 64 - 2 ^ 63"

lemma wrap64_id: "- (2 ^ 63) \<le> n \<Longrightarrow> n < 2 ^ 63 \<Longrightarrow> wrap64 n = n"
  by (simp add: wrap64_def)

end
