(* ===== verification/GoStrings.thy ===== *)
theory GoStrings
  imports Prelude
begin

text \<open>
  The functions of Go's \<open>strings\<close>, \<open>strconv\<close> and \<open>slices\<close> packages that the modelled sources call,
  on byte strings. Separators and cut sets of the sources are single bytes; \<open>TrimSpace\<close> removes
  the UTF-8 encodings of every code point of \<open>unicode.IsSpace\<close>; \<open>ToLower\<close> maps the ASCII letters
  (a byte above 127 is left as it is: the sources reject such names by a later check).
\<close>

section \<open>Prefixes and suffixes\<close>

definition has_prefix :: "string \<Rightarrow> string \<Rightarrow> bool" where
  "has_prefix s p \<longleftrightarrow> take (length p) s = p"

definition has_suffix :: "string \<Rightarrow> string \<Rightarrow> bool" where
  "has_suffix s p \<longleftrightarrow> has_prefix (rev s) (rev p)"

definition trim_prefix :: "string \<Rightarrow> string \<Rightarrow> string" where
  "trim_prefix s p = (if has_prefix s p then drop (length p) s else s)"

definition trim_suffix :: "string \<Rightarrow> string \<Rightarrow> string" where
  "trim_suffix s p = (if has_suffix s p then take (length s - length p) s else s)"

lemma has_prefix_iff: "has_prefix s p \<longleftrightarrow> (\<exists>r. s = p @ r)"
  by (metis append_eq_conv_conj append_take_drop_id has_prefix_def)

lemma has_prefix_append [simp]: "has_prefix (p @ r) p"
  by (simp add: has_prefix_def)

lemma has_prefix_Nil [simp]: "has_prefix s []"
  by (simp add: has_prefix_def)

lemma has_prefix_Cons [simp]: "has_prefix (c # s) (d # p) \<longleftrightarrow> c = d \<and> has_prefix s p"
  by (simp add: has_prefix_def)

lemma has_prefix_Nil_Cons [simp]: "\<not> has_prefix [] (d # p)"
  by (simp add: has_prefix_def)

lemma has_prefix_trans: "has_prefix s q \<Longrightarrow> has_prefix q p \<Longrightarrow> has_prefix s p"
  by (auto simp: has_prefix_iff)

lemma has_suffix_iff: "has_suffix s p \<longleftrightarrow> (\<exists>r. s = r @ p)"
  unfolding has_suffix_def has_prefix_iff
  by (metis rev_append rev_rev_ident)

lemma has_suffix_append [simp]: "has_suffix (r @ p) p"
  by (auto simp: has_suffix_iff)

lemma trim_prefix_append [simp]: "trim_prefix (p @ r) p = r"
  by (simp add: trim_prefix_def)

lemma trim_suffix_append [simp]: "trim_suffix (r @ p) p = r"
  by (simp add: trim_suffix_def)

lemma trim_suffix_id: "\<not> has_suffix s p \<Longrightarrow> trim_suffix s p = s"
  by (simp add: trim_suffix_def)

lemma trim_prefix_id: "\<not> has_prefix s p \<Longrightarrow> trim_prefix s p = s"
  by (simp add: trim_prefix_def)

section \<open>Trimming\<close>

text \<open>\<open>strings.TrimLeft\<close>, \<open>TrimRight\<close> and \<open>Trim\<close> with a cut set.\<close>

definition trim_left :: "char list \<Rightarrow> string \<Rightarrow> string" where
  "trim_left cs s = dropWhile (\<lambda>c. c \<in> set cs) s"

definition trim_right :: "char list \<Rightarrow> string \<Rightarrow> string" where
  "trim_right cs s = rev (dropWhile (\<lambda>c. c \<in> set cs) (rev s))"

definition go_trim :: "char list \<Rightarrow> string \<Rightarrow> string" where
  "go_trim cs s = trim_right cs (trim_left cs s)"

text \<open>The UTF-8 encodings of the white space code points of \<open>unicode.IsSpace\<close>.\<close>

definition go_spaces :: "string list" where
  "go_spaces =
     [[CHR 0x09], [CHR 0x0A], [CHR 0x0B], [CHR 0x0C], [CHR 0x0D], [CHR 0x20],
      [CHR 0xC2, CHR 0x85], [CHR 0xC2, CHR 0xA0], [CHR 0xE1, CHR 0x9A, CHR 0x80],
      [CHR 0xE2, CHR 0x80, CHR 0x80], [CHR 0xE2, CHR 0x80, CHR 0x81],
      [CHR 0xE2, CHR 0x80, CHR 0x82], [CHR 0xE2, CHR 0x80, CHR 0x83],
      [CHR 0xE2, CHR 0x80, CHR 0x84], [CHR 0xE2, CHR 0x80, CHR 0x85],
      [CHR 0xE2, CHR 0x80, CHR 0x86], [CHR 0xE2, CHR 0x80, CHR 0x87],
      [CHR 0xE2, CHR 0x80, CHR 0x88], [CHR 0xE2, CHR 0x80, CHR 0x89],
      [CHR 0xE2, CHR 0x80, CHR 0x8A], [CHR 0xE2, CHR 0x80, CHR 0xA8],
      [CHR 0xE2, CHR 0x80, CHR 0xA9], [CHR 0xE2, CHR 0x80, CHR 0xAF],
      [CHR 0xE2, CHR 0x81, CHR 0x9F], [CHR 0xE3, CHR 0x80, CHR 0x80]]"

text \<open>Strip any of the given non-empty words from the front, as long as one fits.\<close>

function strip_words :: "string list \<Rightarrow> string \<Rightarrow> string" where
  "strip_words ws s =
     (case find (\<lambda>w. w \<noteq> [] \<and> has_prefix s w) ws of
        None \<Rightarrow> s
      | Some w \<Rightarrow> strip_words ws (drop (length w) s))"
  by pat_completeness auto
termination
  by (relation "measure (\<lambda>(ws, s). length s)")
    (auto simp: find_Some_iff has_prefix_iff)

declare strip_words.simps [simp del]

definition trim_space :: "string \<Rightarrow> string" where
  "trim_space s = rev (strip_words (map rev go_spaces) (rev (strip_words go_spaces s)))"

text \<open>No word of the list fits at the front of the stripped string, and only words were cut.\<close>

lemma strip_words_fixed: "find (\<lambda>w. w \<noteq> [] \<and> has_prefix s w) ws = None \<Longrightarrow> strip_words ws s = s"
  by (subst strip_words.simps) simp

lemma strip_words_no_prefix:
  "find (\<lambda>w. w \<noteq> [] \<and> has_prefix (strip_words ws s) w) ws = None"
proof (induction ws s rule: strip_words.induct)
  case (1 ws s)
  show ?case
  proof (cases "find (\<lambda>w. w \<noteq> [] \<and> has_prefix s w) ws")
    case None
    then show ?thesis by (simp add: strip_words_fixed)
  next
    case (Some w)
    with "1.IH" [OF Some] show ?thesis by (subst (1) strip_words.simps) simp
  qed
qed

lemma strip_words_split: "\<exists>l. concat l @ strip_words ws s = s \<and> set l \<subseteq> set ws"
proof (induction ws s rule: strip_words.induct)
  case (1 ws s)
  show ?case
  proof (cases "find (\<lambda>w. w \<noteq> [] \<and> has_prefix s w) ws")
    case None
    then show ?thesis by (auto simp: strip_words_fixed intro: exI [of _ "[]"])
  next
    case (Some w)
    from "1.IH" [OF Some] obtain l
      where l: "concat l @ strip_words ws (drop (length w) s) = drop (length w) s" "set l \<subseteq> set ws"
      by blast
    from Some have w: "w \<in> set ws" "take (length w) s = w"
      by (auto simp: find_Some_iff has_prefix_def)
    have "concat (w # l) @ strip_words ws s = s"
      using Some l(1) w(2) by (subst strip_words.simps) (metis append.assoc append_take_drop_id concat.simps(2) option.simps(5))
    with l(2) w(1) show ?thesis by (auto intro!: exI [of _ "w # l"])
  qed
qed

lemma strip_words_mono:
  assumes "find (\<lambda>w. w \<noteq> [] \<and> has_prefix s w) ws = None"
  shows "find (\<lambda>w. w \<noteq> [] \<and> has_prefix (take n s) w) ws = None"
  using assms unfolding find_None_iff has_prefix_iff
  by (metis append.assoc append_take_drop_id)

lemma trim_space_split: "\<exists>l r. s = l @ trim_space s @ r"
proof -
  obtain l where l: "concat l @ strip_words go_spaces s = s"
    using strip_words_split by blast
  obtain r where r: "concat r @ strip_words (map rev go_spaces) (rev (strip_words go_spaces s))
      = rev (strip_words go_spaces s)"
    using strip_words_split by blast
  then have "trim_space s @ rev (concat r) = strip_words go_spaces s"
    unfolding trim_space_def by (metis rev_append rev_rev_ident)
  with l show ?thesis by metis
qed

lemma trim_space_idem [simp]: "trim_space (trim_space s) = trim_space s"
proof -
  let ?u = "strip_words go_spaces s"
  obtain r where r: "concat r @ strip_words (map rev go_spaces) (rev ?u) = rev ?u"
    using strip_words_split by blast
  then have u: "?u = trim_space s @ rev (concat r)"
    unfolding trim_space_def by (metis rev_append rev_rev_ident)
  then have t: "trim_space s = take (length (trim_space s)) ?u" by simp
  have "find (\<lambda>w. w \<noteq> [] \<and> has_prefix (trim_space s) w) go_spaces = None"
    by (subst t) (rule strip_words_mono [OF strip_words_no_prefix])
  then have 1: "strip_words go_spaces (trim_space s) = trim_space s"
    by (rule strip_words_fixed)
  have "strip_words (map rev go_spaces) (rev (trim_space s)) = rev (trim_space s)"
    unfolding trim_space_def by (simp add: strip_words_fixed strip_words_no_prefix)
  with 1 show ?thesis by (metis rev_rev_ident trim_space_def)
qed

lemma trim_left_split: "\<exists>l. s = l @ trim_left cs s \<and> set l \<subseteq> set cs"
  unfolding trim_left_def
  by (metis set_takeWhileD subsetI takeWhile_dropWhile_id)

lemma trim_right_split: "\<exists>r. s = trim_right cs s @ r \<and> set r \<subseteq> set cs"
proof -
  obtain l where l: "rev s = l @ trim_left cs (rev s)" "set l \<subseteq> set cs"
    using trim_left_split by blast
  then have "s = rev (trim_left cs (rev s)) @ rev l"
    by (metis rev_append rev_rev_ident)
  with l(2) show ?thesis unfolding trim_left_def trim_right_def by (metis set_rev)
qed

lemma trim_left_hd: "trim_left cs s \<noteq> [] \<Longrightarrow> hd (trim_left cs s) \<notin> set cs"
  unfolding trim_left_def by (rule hd_dropWhile)

lemma trim_right_last: "trim_right cs s \<noteq> [] \<Longrightarrow> last (trim_right cs s) \<notin> set cs"
  using trim_left_hd [of cs "rev s"] by (simp add: trim_right_def trim_left_def last_rev)

lemma trim_left_id: "s = [] \<or> hd s \<notin> set cs \<Longrightarrow> trim_left cs s = s"
  unfolding trim_left_def by (cases s) auto

lemma trim_right_id: "s = [] \<or> last s \<notin> set cs \<Longrightarrow> trim_right cs s = s"
  using trim_left_id [of "rev s" cs] by (auto simp: trim_right_def trim_left_def hd_rev)

lemma trim_ends:
  assumes "go_trim cs s \<noteq> []"
  shows "hd (go_trim cs s) \<notin> set cs" and "last (go_trim cs s) \<notin> set cs"
proof -
  from assms show "last (go_trim cs s) \<notin> set cs" unfolding go_trim_def by (rule trim_right_last)
  obtain r where r: "trim_left cs s = go_trim cs s @ r"
    using trim_right_split unfolding go_trim_def by blast
  with assms have "hd (go_trim cs s) = hd (trim_left cs s)" "trim_left cs s \<noteq> []" by auto
  then show "hd (go_trim cs s) \<notin> set cs" by (simp add: trim_left_hd)
qed

lemma trim_id: "s = [] \<or> hd s \<notin> set cs \<and> last s \<notin> set cs \<Longrightarrow> go_trim cs s = s"
  unfolding go_trim_def by (metis trim_left_id trim_right_id)

lemma trim_idem [simp]: "go_trim cs (go_trim cs s) = go_trim cs s"
  by (rule trim_id) (metis trim_ends)

lemma trim_split: "\<exists>l r. s = l @ go_trim cs s @ r \<and> set l \<subseteq> set cs \<and> set r \<subseteq> set cs"
  unfolding go_trim_def by (metis trim_left_split trim_right_split)

lemma trim_Nil [simp]: "go_trim cs [] = []"
  by (simp add: trim_id)

section \<open>Searching, cutting, splitting\<close>

text \<open>\<open>strings.Contains\<close>, \<open>ContainsAny\<close>, \<open>LastIndex\<close> of one byte.\<close>

fun go_contains :: "string \<Rightarrow> string \<Rightarrow> bool" where
  "go_contains [] p = (p = [])"
| "go_contains (c # s) p = (has_prefix (c # s) p \<or> go_contains s p)"

lemma go_contains_iff: "go_contains s p \<longleftrightarrow> (\<exists>l r. s = l @ p @ r)"
proof (induction s)
  case Nil
  then show ?case by simp
next
  case (Cons c s)
  have "(\<exists>l r. c # s = l @ p @ r) \<longleftrightarrow> (\<exists>r. c # s = p @ r) \<or> (\<exists>l r. s = l @ p @ r)" (is "?L \<longleftrightarrow> ?R")
  proof
    assume ?L
    then obtain l r where lr: "c # s = l @ p @ r" by blast
    then show ?R by (cases l) auto
  next
    assume ?R
    then show ?L
    proof (elim disjE exE)
      fix r assume "c # s = p @ r"
      then show ?L by (intro exI [of _ "[]"] exI [of _ r]) simp
    next
      fix l r assume "s = l @ p @ r"
      then show ?L by (intro exI [of _ "c # l"] exI [of _ r]) simp
    qed
  qed
  with Cons show ?case by (simp add: has_prefix_iff)
qed

definition contains_any :: "string \<Rightarrow> char list \<Rightarrow> bool" where
  "contains_any s cs \<longleftrightarrow> list_ex (\<lambda>c. c \<in> set cs) s"

lemma contains_any_iff: "contains_any s cs \<longleftrightarrow> set s \<inter> set cs \<noteq> {}"
  by (auto simp: contains_any_def list_ex_iff)

text \<open>\<open>strings.Cut\<close> at a one-byte separator: \<open>None\<close> when it does not occur.\<close>

fun go_cut :: "char \<Rightarrow> string \<Rightarrow> (string \<times> string) option" where
  "go_cut c [] = None"
| "go_cut c (x # s) =
     (if x = c then Some ([], s)
      else map_option (\<lambda>(a, b). (x # a, b)) (go_cut c s))"

lemma cut_None_iff [simp]: "go_cut c s = None \<longleftrightarrow> c \<notin> set s"
  by (induction s) auto

lemma cut_Some_iff: "go_cut c s = Some (a, b) \<longleftrightarrow> s = a @ c # b \<and> c \<notin> set a"
proof (induction s arbitrary: a)
  case Nil
  then show ?case by simp
next
  case (Cons x s)
  show ?case
  proof (cases "x = c")
    case True
    then show ?thesis by (auto simp: Cons_eq_append_conv)
  next
    case False
    then show ?thesis
      by (cases a) (auto simp: Cons.IH)
  qed
qed

lemma cut_append [simp]: "c \<notin> set a \<Longrightarrow> go_cut c (a @ c # b) = Some (a, b)"
  by (simp add: cut_Some_iff)

text \<open>\<open>strings.Split\<close> and \<open>strings.SplitN\<close> at a one-byte separator, and \<open>strings.Join\<close>.\<close>

fun go_split :: "char \<Rightarrow> string \<Rightarrow> string list" where
  "go_split c [] = [[]]"
| "go_split c (x # s) =
     (if x = c then [] # go_split c s
      else (case go_split c s of [] \<Rightarrow> [[x]] | p # ps \<Rightarrow> (x # p) # ps))"

fun go_splitn :: "nat \<Rightarrow> char \<Rightarrow> string \<Rightarrow> string list" where
  "go_splitn 0 c s = []"
| "go_splitn (Suc 0) c s = [s]"
| "go_splitn (Suc (Suc n)) c s =
     (case go_cut c s of None \<Rightarrow> [s] | Some (a, b) \<Rightarrow> a # go_splitn (Suc n) c b)"

fun go_join :: "char \<Rightarrow> string list \<Rightarrow> string" where
  "go_join c [] = []"
| "go_join c [p] = p"
| "go_join c (p # q # ps) = p @ c # go_join c (q # ps)"

lemma go_split_nonempty [simp]: "go_split c s \<noteq> []"
  by (induction s) (auto split: list.splits)

lemma join_Cons: "ps \<noteq> [] \<Longrightarrow> go_join c (p # ps) = p @ c # go_join c ps"
  by (cases ps) auto

lemma join_split [simp]: "go_join c (go_split c s) = s"
proof (induction s)
  case Nil
  then show ?case by simp
next
  case (Cons x s)
  obtain p ps where p: "go_split c s = p # ps" by (metis neq_Nil_conv go_split_nonempty)
  with Cons show ?case by (cases ps) (auto simp: join_Cons)
qed

lemma split_parts: "p \<in> set (go_split c s) \<Longrightarrow> c \<notin> set p"
  by (induction s arbitrary: p) (auto split: if_splits list.splits)

lemma split_no_sep: "c \<notin> set s \<Longrightarrow> go_split c s = [s]"
  by (induction s) auto

lemma split_append: "c \<notin> set a \<Longrightarrow> go_split c (a @ c # b) = a # go_split c b"
  by (induction a) auto

lemma split_join: "ps \<noteq> [] \<Longrightarrow> \<forall>p \<in> set ps. c \<notin> set p \<Longrightarrow> go_split c (go_join c ps) = ps"
proof (induction ps)
  case Nil
  then show ?case by simp
next
  case (Cons p ps)
  show ?case
  proof (cases ps)
    case Nil
    with Cons.prems show ?thesis by (simp add: split_no_sep)
  next
    case (Cons q qs)
    with Cons.IH Cons.prems show ?thesis by (simp add: split_append)
  qed
qed

lemma mem_split: "x \<in> set s \<and> x \<noteq> c \<longleftrightarrow> (\<exists>p \<in> set (go_split c s). x \<in> set p)"
proof (induction s)
  case Nil
  then show ?case by simp
next
  case (Cons y s)
  obtain p ps where "go_split c s = p # ps" by (metis neq_Nil_conv go_split_nonempty)
  with Cons show ?case by auto
qed

lemma split_eq_iff: "go_split c s = go_split c t \<longleftrightarrow> s = t"
  by (metis join_split)

section \<open>Case, numbers\<close>

definition to_lower_char :: "char \<Rightarrow> char" where
  "to_lower_char c =
     (if CHR ''A'' \<le> c \<and> c \<le> CHR ''Z'' then char_of (of_char c + 32 :: nat) else c)"

definition to_lower :: "string \<Rightarrow> string" where
  "to_lower s = map to_lower_char s"

definition is_lower :: "char \<Rightarrow> bool" where
  "is_lower c \<longleftrightarrow> CHR ''a'' \<le> c \<and> c \<le> CHR ''z''"

definition is_digit :: "char \<Rightarrow> bool" where
  "is_digit c \<longleftrightarrow> CHR ''0'' \<le> c \<and> c \<le> CHR ''9''"

definition digit_char :: "nat \<Rightarrow> char" where
  "digit_char d = char_of (48 + d)"

definition digit_val :: "char \<Rightarrow> nat" where
  "digit_val c = of_char c - 48"

text \<open>Decimal digits, \<open>fmt\<close>'s \<open>%d\<close> of a non-negative integer and \<open>%0nd\<close>.\<close>

fun dec_digits :: "nat \<Rightarrow> string" where
  "dec_digits n = (if n < 10 then [digit_char n] else dec_digits (n div 10) @ [digit_char (n mod 10)])"

declare dec_digits.simps [simp del]

definition pad_dec :: "nat \<Rightarrow> nat \<Rightarrow> string" where
  "pad_dec w n = replicate (w - length (dec_digits n)) (CHR ''0'') @ dec_digits n"

definition dec_val :: "string \<Rightarrow> nat" where
  "dec_val s = foldl (\<lambda>v c. 10 * v + digit_val c) 0 s"

text \<open>
  \<open>strconv.Atoi\<close>: an optional sign, then decimal digits; \<open>None\<close> for a syntax error or for a
  value outside the 64-bit range.
\<close>

definition atoi :: "string \<Rightarrow> int option" where
  "atoi s =
     (let (neg, ds) = (case s of [] \<Rightarrow> (False, []) | c # r \<Rightarrow>
        if c = CHR ''-'' then (True, r) else if c = CHR ''+'' then (False, r) else (False, s));
        v = int (dec_val ds); n = (if neg then - v else v)
      in if ds = [] \<or> \<not> list_all is_digit ds \<or> n < - (2 ^ 63) \<or> n \<ge> 2 ^ 63 then None else Some n)"

lemma digit_char_props [simp]:
  assumes "d < 10"
  shows "is_digit (digit_char d)" and "digit_val (digit_char d) = d"
proof -
  have "d \<in> {0,1,2,3,4,5,6,7,8,9}" using assms by auto
  then show "is_digit (digit_char d)" "digit_val (digit_char d) = d"
    by (auto simp: is_digit_def digit_char_def digit_val_def less_eq_char_def)
qed

lemma dec_digits_props: "list_all is_digit (dec_digits n) \<and> dec_digits n \<noteq> []"
proof (induction n rule: dec_digits.induct)
  case (1 n)
  then show ?case by (subst (1 2) dec_digits.simps) auto
qed

lemma dec_val_snoc: "dec_val (s @ [c]) = 10 * dec_val s + digit_val c"
  by (simp add: dec_val_def)

lemma dec_val_digits [simp]: "dec_val (dec_digits n) = n"
proof (induction n rule: dec_digits.induct)
  case (1 n)
  show ?case
  proof (cases "n < 10")
    case True
    then show ?thesis by (subst dec_digits.simps) (simp add: dec_val_def)
  next
    case False
    with 1 show ?thesis by (subst dec_digits.simps) (simp add: dec_val_snoc)
  qed
qed

lemma dec_val_zeros: "dec_val (replicate k (CHR ''0'') @ s) = dec_val s"
  by (induction k) (auto simp: dec_val_def digit_val_def)

lemma atoi_digits:
  assumes "list_all is_digit s" "s \<noteq> []" "dec_val s < 2 ^ 63"
  shows "atoi s = Some (int (dec_val s))"
proof -
  obtain c r where s: "s = c # r" using assms(2) by (cases s) auto
  with assms(1) have "c \<noteq> CHR ''-''" "c \<noteq> CHR ''+''"
    by (auto simp: is_digit_def less_eq_char_def)
  moreover have "int (dec_val s) < 2 ^ 63"
    using assms(3) by (metis of_nat_less_iff of_nat_numeral of_nat_power)
  ultimately show ?thesis
    using assms(1,2) s by (simp add: atoi_def Let_def)
qed

lemma pad_dec_props:
  "list_all is_digit (pad_dec w n)" "pad_dec w n \<noteq> []" "dec_val (pad_dec w n) = n"
  using dec_digits_props [of n]
  by (auto simp: pad_dec_def dec_val_zeros list_all_iff is_digit_def less_eq_char_def)

text \<open>The zero-padded number parses back to itself.\<close>

lemma atoi_pad_dec: "n < 2 ^ 63 \<Longrightarrow> atoi (pad_dec w n) = Some (int n)"
  using atoi_digits [of "pad_dec w n"] by (simp add: pad_dec_props)

section \<open>Hexadecimal digits\<close>

text \<open>\<open>hex.EncodeToString\<close>, and \<open>%x\<close> of bytes.\<close>

definition hex_digit :: "nat \<Rightarrow> char" where
  "hex_digit n = ''0123456789abcdef'' ! n"

definition hex_string :: "string \<Rightarrow> string" where
  "hex_string s = concat (map (\<lambda>c. let n = of_char c :: nat in [hex_digit (n div 16), hex_digit (n mod 16)]) s)"

lemma length_hex_string [simp]: "length (hex_string s) = 2 * length s"
  by (induction s) (simp_all add: hex_string_def Let_def)

text \<open>\<open>crypto/rand.Read\<close> of \<open>n\<close> bytes: the bytes that were drawn, or an error.\<close>

definition rand_read :: "(nat \<Rightarrow> char) result \<Rightarrow> nat \<Rightarrow> string result" where
  "rand_read rnd n = map_sum id (\<lambda>f. map f [0..<n]) rnd"

text \<open>\<open>strings.Join\<close> with any separator.\<close>

fun join_with :: "string \<Rightarrow> string list \<Rightarrow> string" where
  "join_with sep [] = []"
| "join_with sep [p] = p"
| "join_with sep (p # q # ps) = p @ sep @ join_with sep (q # ps)"

text \<open>\<open>strings.CutSuffix\<close>\<close>

definition cut_suffix :: "string \<Rightarrow> string \<Rightarrow> string option" where
  "cut_suffix s p = (if has_suffix s p then Some (trim_suffix s p) else None)"

end
