(* ===== verification/FakevaultPaths.thy ===== *)
theory FakevaultPaths
  imports GoStrings
begin

text \<open>
  The path handling of \<open>internal/fakevault\<close>: \<open>CleanPath\<close>, \<open>cleanClusterID\<close>, \<open>cleanClusterPath\<close>,
  \<open>clusterDir\<close> and \<open>secretFilePath\<close> of \<open>store.go\<close>, the KV-v2 path rewriting of \<open>handler.go\<close>, and
  \<open>serviceAccountSubject\<close> of \<open>kubernetes_token.go\<close>. A file path is the list of its components below
  the store's root directory. The lemmas say that an accepted path cannot leave the cluster's
  directory and that distinct secrets have distinct files.
\<close>

section \<open>Cleaning\<close>

definition CleanPath :: "string \<Rightarrow> string" where
  "CleanPath path =
     (let path = trim_space path;
          path = trim_prefix path ''/'';
          path = trim_prefix path ''v1/''
      in go_trim ''/'' path)"

definition slash_chars :: "char list" where
  "slash_chars = [CHR ''/'', CHR 0x5C]"

definition cleanClusterID :: "string \<Rightarrow> string result" where
  "cleanClusterID clusterID =
     (let clusterID = trim_space clusterID in
      if clusterID = [] then Inl (Errorf ''cluster ID is required'' [])
      else if clusterID = ''.'' \<or> clusterID = ''..'' \<or> contains_any clusterID slash_chars
      then Inl (Errorf ''invalid cluster ID %q'' [S clusterID])
      else Inr clusterID)"

definition bad_segment :: "string \<Rightarrow> bool" where
  "bad_segment segment \<longleftrightarrow>
     segment = [] \<or> segment = ''.'' \<or> segment = ''..'' \<or> contains_any segment slash_chars"

definition cleanClusterPath :: "string \<Rightarrow> string \<Rightarrow> (string \<times> string) result" where
  "cleanClusterPath clusterID path =
     bindR (cleanClusterID clusterID) (\<lambda>cleanID.
       let path = CleanPath path in
       if path = [] then Inl (Errorf ''secret path is required'' [])
       else if list_ex bad_segment (go_split CHR ''/'' path)
       then Inl (Errorf ''invalid secret path %q'' [S path])
       else Inr (cleanID, path))"

text \<open>What a cleaned cluster ID and a cleaned path look like.\<close>

definition safe_segment :: "string \<Rightarrow> bool" where
  "safe_segment s \<longleftrightarrow> s \<noteq> [] \<and> s \<noteq> ''.'' \<and> s \<noteq> ''..'' \<and> CHR ''/'' \<notin> set s \<and> CHR 0x5C \<notin> set s"

definition safe_path :: "string \<Rightarrow> bool" where
  "safe_path p \<longleftrightarrow> (\<forall>s \<in> set (go_split CHR ''/'' p). safe_segment s)"

lemma contains_any_two: "contains_any s [a, b] \<longleftrightarrow> a \<in> set s \<or> b \<in> set s"
  by (auto simp: contains_any_iff)

lemma bad_segment_iff: "bad_segment s \<longleftrightarrow> \<not> safe_segment s"
  by (simp only: bad_segment_def safe_segment_def slash_chars_def contains_any_two
      de_Morgan_conj not_not)

lemma safe_path_Nil [simp]: "\<not> safe_path []"
  by (simp add: safe_path_def safe_segment_def)

lemma safe_path_nonempty: "safe_path p \<Longrightarrow> p \<noteq> []"
  using safe_path_Nil by metis

lemma cleanClusterID_Inr: "cleanClusterID c = Inr i \<longleftrightarrow> i = trim_space c \<and> safe_segment i"
proof -
  have "cleanClusterID c = Inr i \<longleftrightarrow> i = trim_space c \<and> \<not> bad_segment (trim_space c)"
    by (auto simp: cleanClusterID_def Let_def bad_segment_def)
  then show ?thesis by (auto simp: bad_segment_iff)
qed

lemma cleanClusterPath_Inr:
  "cleanClusterPath c p = Inr (i, q) \<longleftrightarrow>
     i = trim_space c \<and> safe_segment i \<and> q = CleanPath p \<and> safe_path q"
proof -
  have safe: "list_ex bad_segment (go_split CHR ''/'' q) \<longleftrightarrow> \<not> safe_path q" for q
    by (auto simp: safe_path_def list_ex_iff bad_segment_iff)
  have "cleanClusterPath c p = Inr (i, q) \<longleftrightarrow>
      cleanClusterID c = Inr i \<and> CleanPath p \<noteq> [] \<and> safe_path (CleanPath p) \<and> q = CleanPath p"
    unfolding cleanClusterPath_def bindR_Inr_iff Let_def safe by (auto split: if_splits)
  then show ?thesis
    using safe_path_nonempty by (auto simp: cleanClusterID_Inr)
qed

lemma cleanClusterID_idem: "cleanClusterID c = Inr i \<Longrightarrow> cleanClusterID i = Inr i"
  by (auto simp: cleanClusterID_Inr)

section \<open>Files\<close>

definition clusterDir :: "string \<Rightarrow> string list" where
  "clusterDir clusterID = [clusterID, ''fakevault'']"

definition json_ext :: string where
  "json_ext = ''.json''"

text \<open>
  \<open>filepath.Join\<close> on components: empty and \<open>.\<close> components are dropped and \<open>..\<close> removes the one
  before it.
\<close>

definition join_step :: "string list \<Rightarrow> string \<Rightarrow> string list" where
  "join_step acc s =
     (if s = [] \<or> s = ''.'' then acc else if s = ''..'' then butlast acc else acc @ [s])"

definition path_join :: "string list \<Rightarrow> string list" where
  "path_join segs = foldl join_step [] segs"

definition add_ext :: "string list \<Rightarrow> string list" where
  "add_ext f = butlast f @ [last f @ json_ext]"

definition secretFilePath :: "string \<Rightarrow> string \<Rightarrow> string list" where
  "secretFilePath clusterID path =
     add_ext (path_join (clusterDir clusterID @ go_split CHR ''/'' path))"

text \<open>The path \<open>ListSecrets\<close> derives from a file found by walking the cluster's directory.\<close>

definition listed_path :: "string list \<Rightarrow> string" where
  "listed_path rel = trim_suffix (go_join CHR ''/'' rel) json_ext"

definition is_json_file :: "string list \<Rightarrow> bool" where
  "is_json_file f \<longleftrightarrow> f \<noteq> [] \<and> has_suffix (last f) json_ext"

definition vaultKeyName :: "string \<Rightarrow> string" where
  "vaultKeyName clusterID = ''dev.podplane.local.'' @ clusterID @ ''.fakevault.key''"

lemma vaultKeyName_inj [simp]: "vaultKeyName a = vaultKeyName b \<longleftrightarrow> a = b"
  by (simp add: vaultKeyName_def)

lemma go_join_append_last:
  "ps \<noteq> [] \<Longrightarrow> go_join c (butlast ps @ [last ps @ x]) = go_join c ps @ x"
proof (induction ps)
  case Nil
  then show ?case by simp
next
  case (Cons p ps)
  then show ?case by (cases "ps = []") (auto simp: join_Cons)
qed

lemma path_join_safe: "list_all safe_segment segs \<Longrightarrow> path_join segs = segs"
proof -
  have "list_all safe_segment segs \<Longrightarrow> foldl join_step acc segs = acc @ segs" for acc
    by (induction segs arbitrary: acc) (auto simp: join_step_def safe_segment_def)
  then show "list_all safe_segment segs \<Longrightarrow> path_join segs = segs"
    by (simp add: path_join_def)
qed

lemma safe_fakevault [simp]: "safe_segment ''fakevault''"
  by (simp add: safe_segment_def)

lemma secretFilePath_alt:
  assumes "safe_segment i" "safe_path p"
  shows "secretFilePath i p = clusterDir i @ add_ext (go_split CHR ''/'' p)"
proof -
  have "path_join (clusterDir i @ go_split CHR ''/'' p) = clusterDir i @ go_split CHR ''/'' p"
    using assms by (intro path_join_safe) (simp add: clusterDir_def list_all_iff safe_path_def)
  then show ?thesis by (simp add: secretFilePath_def add_ext_def butlast_append)
qed

lemma listed_path_add_ext [simp]: "listed_path (add_ext (go_split CHR ''/'' p)) = p"
  by (simp add: listed_path_def add_ext_def go_join_append_last)

lemma is_json_secretFilePath [simp]: "is_json_file (secretFilePath i p)"
  by (simp add: is_json_file_def secretFilePath_def add_ext_def)

lemma secretFilePath_inj:
  assumes "safe_segment i" "safe_path p" "safe_segment j" "safe_path q"
  shows "secretFilePath i p = secretFilePath j q \<longleftrightarrow> i = j \<and> p = q"
proof -
  have "add_ext (go_split CHR ''/'' p) = add_ext (go_split CHR ''/'' q) \<longleftrightarrow> p = q"
    by (metis listed_path_add_ext)
  with assms show ?thesis by (simp add: secretFilePath_alt clusterDir_def)
qed

lemma prefix_clusterDir:
  "safe_segment j \<Longrightarrow> safe_path p \<Longrightarrow> prefix (clusterDir i) (secretFilePath j p) \<longleftrightarrow> i = j"
  by (auto simp: secretFilePath_alt clusterDir_def)

text \<open>A component of a safe secret's file never climbs out of the directory it is in.\<close>

lemma secretFilePath_components:
  assumes "safe_segment i" "safe_path p" "s \<in> set (secretFilePath i p)"
  shows "safe_segment s"
proof -
  have ne: "go_split CHR ''/'' p \<noteq> []" by simp
  have "s = i \<or> s = ''fakevault'' \<or> s \<in> set (go_split CHR ''/'' p) \<or>
        s = last (go_split CHR ''/'' p) @ json_ext"
    using assms by (auto simp: secretFilePath_alt add_ext_def clusterDir_def dest: in_set_butlastD)
  moreover have "safe_segment (last (go_split CHR ''/'' p))"
    using assms(2) ne by (simp add: safe_path_def)
  then have "safe_segment (last (go_split CHR ''/'' p) @ json_ext)"
    by (auto simp: safe_segment_def json_ext_def append_eq_Cons_conv)
  ultimately show ?thesis using assms(1,2) by (auto simp: safe_path_def)
qed

section \<open>KV-v2 API paths\<close>

text \<open>\<open>apiPath\<close>: the cluster ID and the Vault API path of a request path, if it has both.\<close>

definition apiPath :: "string \<Rightarrow> (string \<times> string) option" where
  "apiPath path =
     (let path = trim_prefix path ''/vault/'';
          path = go_trim ''/'' path
      in if path = [] then None
         else (case go_splitn 2 CHR ''/'' path of
             [clusterID, rest] \<Rightarrow>
               (if \<not> has_prefix rest ''v1/'' then None
                else (let pathWithoutV1 = trim_prefix rest ''v1'' in
                  if clusterID = [] \<or> pathWithoutV1 = [] then None
                  else Some (clusterID, pathWithoutV1)))
           | _ \<Rightarrow> None))"

definition kv_parts :: "string \<Rightarrow> string list" where
  "kv_parts api = go_splitn 3 CHR ''/'' (go_trim ''/'' api)"

definition dataPath :: "string \<Rightarrow> string option" where
  "dataPath api =
     (case kv_parts api of
        [p0, p1, p2] \<Rightarrow> (if p1 \<noteq> ''data'' \<or> p2 = [] then None else Some (p0 @ ''/data/'' @ p2))
      | _ \<Rightarrow> None)"

definition metadataDataPath :: "string \<Rightarrow> string option" where
  "metadataDataPath api =
     (case kv_parts api of
        p0 # p1 # ps \<Rightarrow>
          (if p1 \<noteq> ''metadata'' then None
           else Some (p0 @ ''/data'' @
             (case ps of [p2] \<Rightarrow> if p2 \<noteq> [] then CHR ''/'' # p2 else [] | _ \<Rightarrow> [])))
      | _ \<Rightarrow> None)"

definition undeleteDataPath :: "string \<Rightarrow> string option" where
  "undeleteDataPath api =
     (case kv_parts api of
        [p0, p1, p2] \<Rightarrow> (if p1 \<noteq> ''undelete'' \<or> p2 = [] then None else Some (p0 @ ''/data/'' @ p2))
      | _ \<Rightarrow> None)"

definition destroyDataPath :: "string \<Rightarrow> string option" where
  "destroyDataPath api =
     (case kv_parts api of
        [p0, p1, p2] \<Rightarrow> (if p1 \<noteq> ''destroy'' \<or> p2 = [] then None else Some (p0 @ ''/data/'' @ p2))
      | _ \<Rightarrow> None)"

lemma numeral_splitn:
  "go_splitn 2 c s = (case go_cut c s of None \<Rightarrow> [s] | Some (a, b) \<Rightarrow> [a, b])"
  "go_splitn 3 c s = (case go_cut c s of None \<Rightarrow> [s] | Some (a, b) \<Rightarrow>
     a # (case go_cut c b of None \<Rightarrow> [b] | Some (x, y) \<Rightarrow> [x, y]))"
  by (simp_all add: numeral_2_eq_2 numeral_3_eq_3 del: cut_None_iff cong: option.case_cong)

lemma splitn2_iff: "go_splitn 2 c s = [a, b] \<longleftrightarrow> s = a @ c # b \<and> c \<notin> set a"
proof -
  have "go_splitn 2 c s = [a, b] \<longleftrightarrow> go_cut c s = Some (a, b)"
    by (simp add: numeral_splitn del: cut_None_iff split: option.split)
  then show ?thesis by (simp only: cut_Some_iff)
qed

lemma splitn3_iff:
  "go_splitn 3 c s = [x, y, z] \<longleftrightarrow> s = x @ c # y @ c # z \<and> c \<notin> set x \<and> c \<notin> set y"
proof -
  have "go_splitn 3 c s = [x, y, z] \<longleftrightarrow>
      (\<exists>t. go_cut c s = Some (x, t) \<and> go_cut c t = Some (y, z))"
    by (auto simp add: numeral_splitn simp del: cut_None_iff split: option.split)
  then show ?thesis by (auto simp: cut_Some_iff)
qed

lemma kv_parts_3: "kv_parts p = [a, b, c] \<longleftrightarrow>
    go_trim ''/'' p = a @ ''/'' @ b @ ''/'' @ c \<and> CHR ''/'' \<notin> set a \<and> CHR ''/'' \<notin> set b"
  by (simp add: kv_parts_def splitn3_iff)

lemma apiPath_Some:
  "apiPath path = Some (c, r) \<longleftrightarrow>
     go_trim ''/'' (trim_prefix path ''/vault/'') = c @ ''/v1'' @ r \<and>
     c \<noteq> [] \<and> CHR ''/'' \<notin> set c \<and> has_prefix r ''/''"
proof -
  let ?t = "go_trim ''/'' (trim_prefix path ''/vault/'')"
  have "apiPath path = Some (c, r) \<longleftrightarrow>
     (\<exists>rest. go_splitn 2 CHR ''/'' ?t = [c, rest] \<and> has_prefix rest ''v1/'' \<and> c \<noteq> [] \<and>
        r = trim_prefix rest ''v1'' \<and> r \<noteq> [])"
    by (auto simp: apiPath_def Let_def numeral_splitn split: list.splits if_splits)
  also have "\<dots> \<longleftrightarrow> ?t = c @ ''/v1'' @ r \<and> c \<noteq> [] \<and> CHR ''/'' \<notin> set c \<and> has_prefix r ''/''"
    (is "?l \<longleftrightarrow> ?r")
  proof
    assume ?l
    then obtain rest q where "?t = c @ CHR ''/'' # rest" "CHR ''/'' \<notin> set c" "c \<noteq> []"
      "rest = ''v1/'' @ q" "r = trim_prefix rest ''v1''"
      unfolding splitn2_iff has_prefix_iff by blast
    moreover from this have "r = CHR ''/'' # q" using trim_prefix_append [of "''v1''" "CHR ''/'' # q"] by simp
    ultimately show ?r by simp
  next
    assume r: ?r
    then obtain q where q: "r = CHR ''/'' # q" by (auto simp: has_prefix_iff)
    have "trim_prefix (''v1/'' @ q) ''v1'' = r" using trim_prefix_append [of "''v1''" r] q by simp
    moreover have "?t = c @ CHR ''/'' # ''v1/'' @ q" using r q by simp
    ultimately show ?l unfolding splitn2_iff using r q
      by (intro exI [of _ "''v1/'' @ q"] conjI) simp_all
  qed
  finally show ?thesis .
qed

lemma three_parts:
  "(case ps of [p0, p1, p2] \<Rightarrow> (if p1 \<noteq> w \<or> p2 = [] then None else Some (p0 @ ''/data/'' @ p2)) | _ \<Rightarrow> None)
     = Some q \<longleftrightarrow> (\<exists>a c. ps = [a, w, c] \<and> c \<noteq> [] \<and> q = a @ ''/data/'' @ c)"
  by (auto split: list.splits if_splits)

lemma dataPath_Some:
  "dataPath p = Some q \<longleftrightarrow>
     (\<exists>a c. go_trim ''/'' p = a @ ''/data/'' @ c \<and> CHR ''/'' \<notin> set a \<and> c \<noteq> [] \<and> q = a @ ''/data/'' @ c)"
proof -
  have "dataPath p = Some q \<longleftrightarrow> (\<exists>a c. kv_parts p = [a, ''data'', c] \<and> c \<noteq> [] \<and> q = a @ ''/data/'' @ c)"
    unfolding dataPath_def by (rule three_parts)
  then show ?thesis by (simp add: kv_parts_3)
qed

section \<open>Identities\<close>

definition validIdentitySegment :: "string \<Rightarrow> bool" where
  "validIdentitySegment value \<longleftrightarrow>
     value \<noteq> [] \<and> value \<noteq> ''.'' \<and> value \<noteq> ''..'' \<and>
     \<not> contains_any value [CHR ''/'', CHR 0x5C, CHR '' '', CHR 0x09, CHR 0x0D, CHR 0x0A]"

definition serviceAccountSubject :: "string \<Rightarrow> (string \<times> string) option" where
  "serviceAccountSubject subject =
     (case go_split CHR '':'' subject of
        [p0, p1, p2, p3] \<Rightarrow>
          (if p0 \<noteq> ''system'' \<or> p1 \<noteq> ''serviceaccount'' \<or> p2 = [] \<or> p3 = [] then None
           else Some (p2, p3))
      | _ \<Rightarrow> None)"

lemma serviceAccountSubject_Some:
  "serviceAccountSubject s = Some (ns, n) \<longleftrightarrow>
     s = ''system:serviceaccount:'' @ ns @ '':'' @ n \<and> ns \<noteq> [] \<and> n \<noteq> [] \<and>
     CHR '':'' \<notin> set ns \<and> CHR '':'' \<notin> set n"
proof
  assume "serviceAccountSubject s = Some (ns, n)"
  then have sp: "go_split CHR '':'' s = [''system'', ''serviceaccount'', ns, n]" "ns \<noteq> []" "n \<noteq> []"
    by (auto simp: serviceAccountSubject_def split: list.splits if_splits)
  then have "s = go_join CHR '':'' [''system'', ''serviceaccount'', ns, n]" by (metis join_split)
  with sp show "s = ''system:serviceaccount:'' @ ns @ '':'' @ n \<and> ns \<noteq> [] \<and> n \<noteq> [] \<and>
     CHR '':'' \<notin> set ns \<and> CHR '':'' \<notin> set n"
    using split_parts [of _ "CHR '':''" s] by auto
next
  assume a: "s = ''system:serviceaccount:'' @ ns @ '':'' @ n \<and> ns \<noteq> [] \<and> n \<noteq> [] \<and>
     CHR '':'' \<notin> set ns \<and> CHR '':'' \<notin> set n"
  then have "go_split CHR '':'' s = [''system'', ''serviceaccount'', ns, n]"
    using split_join [of "[''system'', ''serviceaccount'', ns, n]" "CHR '':''"] by simp
  with a show "serviceAccountSubject s = Some (ns, n)" by (simp add: serviceAccountSubject_def)
qed

end
