(* ===== verification/GoBase64.thy ===== *)
theory GoBase64
  imports GoStrings
begin

text \<open>
  Go's \<open>encoding/base64\<close>: \<open>StdEncoding\<close> with padding and \<open>RawURLEncoding\<close> without, on byte
  strings. Like Go's decoder, decoding skips carriage returns and newlines and does not look at
  the unused low bits of a last character. The decoders invert the encoders.
\<close>

definition upper_lower_digits :: string where
  "upper_lower_digits =
     ''ABCDEFGHIJKLMNOPQRSTUVWXYZabcdefghijklmnopqrstuvwxyz0123456789''"

definition std_alphabet :: string where
  "std_alphabet = upper_lower_digits @ ''+/''"

definition url_alphabet :: string where
  "url_alphabet = upper_lower_digits @ ''-_''"

definition index_in :: "char list \<Rightarrow> char \<Rightarrow> nat option" where
  "index_in cs c = (let i = length (takeWhile (\<lambda>x. x \<noteq> c) cs) in if i < length cs then Some i else None)"

definition byte_of :: "char \<Rightarrow> nat" where
  "byte_of c = of_char c"

fun b64_groups :: "string \<Rightarrow> string \<Rightarrow> string \<Rightarrow> string" where
  "b64_groups al pad (a # b # c # s) =
     [al ! (byte_of a div 4), al ! (byte_of a mod 4 * 16 + byte_of b div 16),
      al ! (byte_of b mod 16 * 4 + byte_of c div 64), al ! (byte_of c mod 64)] @ b64_groups al pad s"
| "b64_groups al pad [a, b] =
     [al ! (byte_of a div 4), al ! (byte_of a mod 4 * 16 + byte_of b div 16), al ! (byte_of b mod 16 * 4)] @ pad"
| "b64_groups al pad [a] = [al ! (byte_of a div 4), al ! (byte_of a mod 4 * 16)] @ pad @ pad"
| "b64_groups al pad [] = []"

definition std_encode :: "string \<Rightarrow> string" where
  "std_encode s = b64_groups std_alphabet ''='' s"

definition rawurl_encode :: "string \<Rightarrow> string" where
  "rawurl_encode s = b64_groups url_alphabet [] s"

definition corrupt_input :: goerr where
  "corrupt_input = Sentinel ''illegal base64 data''"

definition bytes2 :: "nat \<Rightarrow> nat \<Rightarrow> string" where
  "bytes2 w x = [char_of (w * 4 + x div 16)]"

definition bytes3 :: "nat \<Rightarrow> nat \<Rightarrow> nat \<Rightarrow> string" where
  "bytes3 w x y = bytes2 w x @ [char_of (x mod 16 * 16 + y div 4)]"

definition bytes4 :: "nat \<Rightarrow> nat \<Rightarrow> nat \<Rightarrow> nat \<Rightarrow> string" where
  "bytes4 w x y z = bytes3 w x y @ [char_of (y mod 4 * 64 + z)]"

fun std_groups :: "string \<Rightarrow> string result" where
  "std_groups [] = Inr []"
| "std_groups (a # b # c # d # s) =
     (case (index_in std_alphabet a, index_in std_alphabet b) of
        (Some w, Some x) \<Rightarrow>
          (case index_in std_alphabet c of
             None \<Rightarrow> (if c = CHR ''='' \<and> d = CHR ''='' \<and> s = [] then Inr (bytes2 w x) else Inl corrupt_input)
           | Some y \<Rightarrow>
               (case index_in std_alphabet d of
                  None \<Rightarrow> (if d = CHR ''='' \<and> s = [] then Inr (bytes3 w x y) else Inl corrupt_input)
                | Some z \<Rightarrow> bindR (std_groups s) (\<lambda>r. Inr (bytes4 w x y z @ r))))
      | _ \<Rightarrow> Inl corrupt_input)"
| "std_groups _ = Inl corrupt_input"

definition std_decode :: "string \<Rightarrow> string result" where
  "std_decode s = std_groups (filter (\<lambda>c. c \<noteq> CHR 0x0D \<and> c \<noteq> CHR 0x0A) s)"

section \<open>Round trip\<close>

lemma index_in_nth:
  assumes "distinct cs" "i < length cs"
  shows "index_in cs (cs ! i) = Some i"
proof -
  have cs: "cs = take i cs @ cs ! i # drop (Suc i) cs" using assms(2) by (simp add: id_take_nth_drop)
  have "cs ! i \<notin> set (take i cs)"
    using assms by (metis cs distinct_append disjoint_iff list.set_intros(1))
  then have "takeWhile (\<lambda>x. x \<noteq> cs ! i) cs = take i cs"
    by (subst cs) (auto simp: takeWhile_append)
  then show ?thesis using assms(2) by (simp add: index_in_def)
qed

lemma std_alphabet_props: "distinct std_alphabet" "length std_alphabet = 64"
  by (simp_all add: std_alphabet_def upper_lower_digits_def)

lemma std_index [simp]: "i < 64 \<Longrightarrow> index_in std_alphabet (std_alphabet ! i) = Some i"
  using index_in_nth std_alphabet_props by simp

lemma std_alphabet_plain: "list_all (\<lambda>c. c \<noteq> CHR 0x0D \<and> c \<noteq> CHR 0x0A) std_alphabet"
  by (simp add: std_alphabet_def upper_lower_digits_def)

lemma std_alphabet_nth_plain: "i < 64 \<Longrightarrow> std_alphabet ! i \<noteq> CHR 0x0D \<and> std_alphabet ! i \<noteq> CHR 0x0A"
  using std_alphabet_plain std_alphabet_props(2) by (auto simp: list_all_length)

lemma byte_of_less [simp]: "byte_of c < 256"
  by (simp add: byte_of_def)

lemma char_byte_of [simp]: "char_of (byte_of c) = c"
  by (simp add: byte_of_def)

lemma index_eq [simp]: "index_in std_alphabet CHR ''='' = None"
  by (simp add: index_in_def std_alphabet_def upper_lower_digits_def)

lemma byte_small: "byte_of a div 4 < 64" "byte_of b div 16 < 16" "byte_of c div 64 < 4"
  by (rule less_mult_imp_div_less, simp)+

lemma byte_digits:
  "byte_of a div 4 < 64" "byte_of a mod 4 * 16 + byte_of b div 16 < 64"
  "byte_of a mod 4 * 16 < 64" "byte_of b mod 16 * 4 + byte_of c div 64 < 64"
  "byte_of b mod 16 * 4 < 64" "byte_of c mod 64 < 64"
proof -
  have "byte_of a mod 4 < 4" "byte_of b mod 16 < 16" "byte_of c mod 64 < 64" by simp_all
  with byte_small(1) [of a] byte_small(2) [of b] byte_small(3) [of c] show "byte_of a div 4 < 64"
    "byte_of a mod 4 * 16 + byte_of b div 16 < 64" "byte_of a mod 4 * 16 < 64"
    "byte_of b mod 16 * 4 + byte_of c div 64 < 64" "byte_of b mod 16 * 4 < 64" "byte_of c mod 64 < 64"
    by linarith+
qed

lemma low_high: "(m * k + t) div k = (m::nat)" "(m * k + t) mod k = t" if "t < k"
  using that by simp_all

lemma byte_first: "r < 16 \<Longrightarrow> byte_of a div 4 * 4 + (byte_of a mod 4 * 16 + r) div 16 = byte_of a"
  by (simp only: low_high div_mult_mod_eq)

lemma byte_second: "t < 4 \<Longrightarrow>
    (r * 16 + byte_of b div 16) mod 16 * 16 + (byte_of b mod 16 * 4 + t) div 4 = byte_of b"
  by (simp only: low_high byte_small div_mult_mod_eq)

lemma byte_third: "(r * 4 + byte_of c div 64) mod 4 * 64 + byte_of c mod 64 = byte_of c"
  by (simp only: low_high byte_small div_mult_mod_eq)

lemma bytes4_bytes:
  "bytes4 (byte_of a div 4) (byte_of a mod 4 * 16 + byte_of b div 16) (byte_of b mod 16 * 4 + byte_of c div 64)
     (byte_of c mod 64) = [a, b, c]"
  by (simp only: bytes4_def bytes3_def bytes2_def byte_first byte_second byte_small
      byte_third char_byte_of append.simps)

lemma bytes3_bytes:
  "bytes3 (byte_of a div 4) (byte_of a mod 4 * 16 + byte_of b div 16) (byte_of b mod 16 * 4) = [a, b]"
  using byte_second [of 0 "byte_of a mod 4" b]
  by (simp only: bytes3_def bytes2_def byte_first byte_small char_byte_of append.simps) simp

lemma bytes2_bytes: "bytes2 (byte_of a div 4) (byte_of a mod 4 * 16) = [a]"
  using byte_first [of 0 a] by (simp only: bytes2_def) simp

lemma std_groups_encode: "std_groups (b64_groups std_alphabet ''='' s) = Inr s"
  by (induction std_alphabet "''=''" s rule: b64_groups.induct)
    (simp_all add: byte_digits bytes4_bytes bytes3_bytes bytes2_bytes)

lemma b64_groups_plain:
  "filter (\<lambda>c. c \<noteq> CHR 0x0D \<and> c \<noteq> CHR 0x0A) (b64_groups std_alphabet ''='' s) =
     b64_groups std_alphabet ''='' s"
  by (induction std_alphabet "''=''" s rule: b64_groups.induct)
    (simp_all add: byte_digits std_alphabet_nth_plain)

lemma std_decode_encode [simp]: "std_decode (std_encode s) = Inr s"
  by (simp only: std_decode_def std_encode_def b64_groups_plain std_groups_encode)

section \<open>UTF-8\<close>

text \<open>\<open>utf8.ValidString\<close>.\<close>

definition in_range :: "nat \<Rightarrow> nat \<Rightarrow> char \<Rightarrow> bool" where
  "in_range lo hi c \<longleftrightarrow> lo \<le> byte_of c \<and> byte_of c \<le> hi"

definition utf8_len :: "string \<Rightarrow> nat" where
  "utf8_len s =
     (let cont = in_range 0x80 0xBF in
      case s of [] \<Rightarrow> 0
      | a # r1 \<Rightarrow> if byte_of a < 0x80 then 1 else
        (case r1 of [] \<Rightarrow> 0
         | b # r2 \<Rightarrow> if in_range 0xC2 0xDF a then (if cont b then 2 else 0) else
           (case r2 of [] \<Rightarrow> 0
            | c # r3 \<Rightarrow>
              if in_range 0xE0 0xEF a then
                (if (if a = CHR 0xE0 then in_range 0xA0 0xBF b
                     else if a = CHR 0xED then in_range 0x80 0x9F b else cont b) \<and> cont c
                 then 3 else 0)
              else (case r3 of [] \<Rightarrow> 0
                | d # _ \<Rightarrow>
                  if in_range 0xF0 0xF4 a \<and>
                     (if a = CHR 0xF0 then in_range 0x90 0xBF b
                      else if a = CHR 0xF4 then in_range 0x80 0x8F b else cont b) \<and> cont c \<and> cont d
                  then 4 else 0))))"

function utf8_valid :: "string \<Rightarrow> bool" where
  "utf8_valid s =
     (if s = [] then True else if utf8_len s = 0 then False else utf8_valid (drop (utf8_len s) s))"
  by pat_completeness auto
termination
  by (relation "measure length") auto

declare utf8_valid.simps [simp del]

end
