(* ===== verification/Filesystem.thy ===== *)
theory Filesystem
  imports GoStrings
begin

text \<open>
  The part of \<open>os\<close> and \<open>path/filepath\<close> the fakevault store uses, on a tree of files and
  directories below the store's root, with \<open>writeFileAtomic\<close> of \<open>internal/fakevault/store.go\<close>. A path is
  the list of its components. Every system call asks an oracle first whether it fails, so that
  the theorems cover any combination of I/O failures. The lemmas say what \<open>writeFileAtomic\<close> may
  leave behind, whether it returns, fails, or the process dies between two of its calls.
\<close>

section \<open>Files and directories\<close>

type_synonym fpath = "string list"
type_synonym fault = "string \<Rightarrow> fpath \<Rightarrow> gerror"

record 'd fs =
  fs_files :: "(fpath \<times> 'd) list"
  fs_dirs :: "fpath list"

definition ENOENT :: goerr where "ENOENT = Sentinel ''no such file or directory''"
definition ENOTDIR :: goerr where "ENOTDIR = Sentinel ''not a directory''"
definition EISDIR :: goerr where "EISDIR = Sentinel ''is a directory''"
definition EEXIST :: goerr where "EEXIST = Sentinel ''file exists''"
definition ENOTEMPTY :: goerr where "ENOTEMPTY = Sentinel ''directory not empty''"

definition is_not_exist :: "goerr \<Rightarrow> bool" where
  "is_not_exist e \<longleftrightarrow> e = ENOENT"

lemma errno_distinct [simp]:
  "ENOTDIR \<noteq> ENOENT" "EISDIR \<noteq> ENOENT" "ENOTEMPTY \<noteq> ENOENT" "EEXIST \<noteq> ENOENT"
  by (simp_all add: ENOENT_def ENOTDIR_def EISDIR_def ENOTEMPTY_def EEXIST_def)

definition file_at :: "'d fs \<Rightarrow> fpath \<Rightarrow> 'd option" where
  "file_at fs p = map_of (fs_files fs) p"

definition dir_at :: "'d fs \<Rightarrow> fpath \<Rightarrow> bool" where
  "dir_at fs p \<longleftrightarrow> p = [] \<or> p \<in> set (fs_dirs fs)"

text \<open>Why a path that is neither a file nor a directory cannot be opened.\<close>

definition missing :: "'d fs \<Rightarrow> fpath \<Rightarrow> goerr" where
  "missing fs p = (if list_ex (\<lambda>q. file_at fs q \<noteq> None) (prefixes p) then ENOTDIR else ENOENT)"

definition put_file :: "fpath \<Rightarrow> 'd \<Rightarrow> 'd fs \<Rightarrow> 'd fs" where
  "put_file p d fs = fs\<lparr>fs_files := put_key p d (fs_files fs)\<rparr>"

definition del_file :: "fpath \<Rightarrow> 'd fs \<Rightarrow> 'd fs" where
  "del_file p fs = fs\<lparr>fs_files := del_key p (fs_files fs)\<rparr>"

lemma file_at_put [simp]: "file_at (put_file p d fs) q = (if q = p then Some d else file_at fs q)"
  by (simp add: file_at_def put_file_def)

lemma file_at_del [simp]: "file_at (del_file p fs) q = (if q = p then None else file_at fs q)"
  by (simp add: file_at_def del_file_def)

lemma file_at_dirs [simp]: "file_at (fs\<lparr>fs_dirs := ds\<rparr>) p = file_at fs p"
  by (simp add: file_at_def)

section \<open>System calls\<close>

definition fs_read :: "fault \<Rightarrow> fpath \<Rightarrow> 'd fs \<Rightarrow> 'd result" where
  "fs_read fault p fs =
     (case fault ''ReadFile'' p of Some e \<Rightarrow> Inl e
      | None \<Rightarrow> (case file_at fs p of Some d \<Rightarrow> Inr d
          | None \<Rightarrow> Inl (if dir_at fs p then EISDIR else missing fs p)))"

definition fs_stat :: "fault \<Rightarrow> fpath \<Rightarrow> 'd fs \<Rightarrow> gerror" where
  "fs_stat fault p fs =
     (case fault ''Stat'' p of Some e \<Rightarrow> Some e
      | None \<Rightarrow> (if file_at fs p \<noteq> None \<or> dir_at fs p then None else Some (missing fs p)))"

definition fs_mkdir_all :: "fault \<Rightarrow> fpath \<Rightarrow> 'd fs \<Rightarrow> gerror \<times> 'd fs" where
  "fs_mkdir_all fault p fs =
     (case fault ''MkdirAll'' p of Some e \<Rightarrow> (Some e, fs)
      | None \<Rightarrow>
          if list_ex (\<lambda>q. file_at fs q \<noteq> None) (prefixes p) then (Some ENOTDIR, fs)
          else (None, fs\<lparr>fs_dirs := fs_dirs fs @ filter (\<lambda>q. \<not> dir_at fs q) (prefixes p)\<rparr>))"

definition fs_create :: "fault \<Rightarrow> 'd \<Rightarrow> fpath \<Rightarrow> 'd fs \<Rightarrow> gerror \<times> 'd fs" where
  "fs_create fault d p fs =
     (case fault ''CreateTemp'' p of Some e \<Rightarrow> (Some e, fs)
      | None \<Rightarrow>
          if \<not> dir_at fs (butlast p) then (Some (missing fs (butlast p)), fs)
          else if file_at fs p \<noteq> None \<or> dir_at fs p then (Some EEXIST, fs)
          else (None, put_file p d fs))"

text \<open>A call on an open file that leaves the tree as it is: \<open>Chmod\<close>, \<open>Sync\<close>, \<open>Close\<close>, \<open>Open\<close>.\<close>

definition fs_touch :: "string \<Rightarrow> fault \<Rightarrow> fpath \<Rightarrow> 'd fs \<Rightarrow> gerror \<times> 'd fs" where
  "fs_touch call fault p fs = (fault call p, fs)"

text \<open>A failed \<open>Write\<close> leaves what it has written, which is not yet the document.\<close>

definition fs_write :: "fault \<Rightarrow> 'd \<Rightarrow> 'd \<Rightarrow> fpath \<Rightarrow> 'd fs \<Rightarrow> gerror \<times> 'd fs" where
  "fs_write fault torn d p fs =
     (case fault ''Write'' p of Some e \<Rightarrow> (Some e, put_file p torn fs)
      | None \<Rightarrow> (None, put_file p d fs))"

definition fs_rename :: "fault \<Rightarrow> fpath \<Rightarrow> fpath \<Rightarrow> 'd fs \<Rightarrow> gerror \<times> 'd fs" where
  "fs_rename fault p q fs =
     (case fault ''Rename'' q of Some e \<Rightarrow> (Some e, fs)
      | None \<Rightarrow> (case file_at fs p of None \<Rightarrow> (Some (missing fs p), fs)
          | Some d \<Rightarrow>
              if \<not> dir_at fs (butlast q) then (Some (missing fs (butlast q)), fs)
              else if dir_at fs q then (Some EEXIST, fs)
              else (None, put_file q d (del_file p fs))))"

definition fs_remove :: "fault \<Rightarrow> fpath \<Rightarrow> 'd fs \<Rightarrow> gerror \<times> 'd fs" where
  "fs_remove fault p fs =
     (case fault ''Remove'' p of Some e \<Rightarrow> (Some e, fs)
      | None \<Rightarrow>
          if file_at fs p \<noteq> None then (None, del_file p fs)
          else if dir_at fs p then
            (if list_ex (\<lambda>q. strict_prefix p q) (fs_dirs fs @ map fst (fs_files fs)) then (Some ENOTEMPTY, fs)
             else (None, fs\<lparr>fs_dirs := removeAll p (fs_dirs fs)\<rparr>))
          else (Some (missing fs p), fs))"

text \<open>
  \<open>os.RemoveAll\<close> goes on after a file it cannot remove and returns an error; what cannot be
  removed and the directories above it stay.
\<close>

definition fs_remove_all :: "fault \<Rightarrow> fpath \<Rightarrow> 'd fs \<Rightarrow> gerror \<times> 'd fs" where
  "fs_remove_all fault p fs =
     (if file_at fs p = None \<and> \<not> dir_at fs p then
        ((if missing fs p = ENOENT then None else Some (missing fs p)), fs)
      else
        (let stuck = filter (\<lambda>f. prefix p f \<and> fault ''Remove'' f \<noteq> None) (map fst (fs_files fs)) in
         (first_err (fault ''Remove'') stuck,
          fs\<lparr>fs_files := filter (\<lambda>(f, _). prefix p f \<longrightarrow> f \<in> set stuck) (fs_files fs),
             fs_dirs := filter (\<lambda>d. prefix p d \<longrightarrow> list_ex (prefix d) stuck) (fs_dirs fs)\<rparr>)))"

text \<open>
  \<open>filepath.WalkDir\<close> visits a directory before what is in it and its entries in lexical order:
  the lexicographic order on component lists.
\<close>

definition walk_entries :: "fpath \<Rightarrow> 'd fs \<Rightarrow> fpath list" where
  "walk_entries base fs = sort (remdups (filter (prefix base) (fs_dirs fs @ map fst (fs_files fs))))"

lemma set_walk_entries:
  "set (walk_entries base fs) = {q. prefix base q \<and> (q \<in> set (fs_dirs fs) \<or> file_at fs q \<noteq> None)}"
  by (auto simp: walk_entries_def file_at_def map_of_eq_None_iff)

section \<open>\<open>writeFileAtomic\<close>\<close>

fun run_steps :: "(string \<times> ('s \<Rightarrow> gerror \<times> 's)) list \<Rightarrow> 's \<Rightarrow> gerror \<times> 's" where
  "run_steps [] s = (None, s)"
| "run_steps ((msg, step) # steps) s =
     (case step s of (None, s') \<Rightarrow> run_steps steps s' | (Some e, s') \<Rightarrow> (Some (Wrapf msg [] e), s'))"

definition temp_name :: "nat \<Rightarrow> fpath \<Rightarrow> fpath" where
  "temp_name rnd name = butlast name @ [''.'' @ last name @ ''-'' @ dec_digits rnd]"

definition create_steps :: "fault \<Rightarrow> nat \<Rightarrow> 'd \<Rightarrow> fpath \<Rightarrow> (string \<times> ('d fs \<Rightarrow> gerror \<times> 'd fs)) list" where
  "create_steps fault rnd torn name =
     [(''create parent directory: %w'', fs_mkdir_all fault (butlast name)),
      (''create temporary file: %w'', fs_create fault torn (temp_name rnd name))]"

definition install_steps :: "fault \<Rightarrow> nat \<Rightarrow> 'd \<Rightarrow> fpath \<Rightarrow> 'd \<Rightarrow> (string \<times> ('d fs \<Rightarrow> gerror \<times> 'd fs)) list" where
  "install_steps fault rnd torn name data =
     [(''set temporary file permissions: %w'', fs_touch ''Chmod'' fault (temp_name rnd name)),
      (''write temporary file: %w'', fs_write fault torn data (temp_name rnd name)),
      (''sync temporary file: %w'', fs_touch ''Sync'' fault (temp_name rnd name)),
      (''close temporary file: %w'', fs_touch ''Close'' fault (temp_name rnd name)),
      (''install file: %w'', fs_rename fault (temp_name rnd name) name),
      (''open parent directory: %w'', fs_touch ''Open'' fault (butlast name)),
      (''sync parent directory: %w'', fs_touch ''Sync'' fault (butlast name))]"

text \<open>Once the temporary file exists, its deferred removal runs on every return path.\<close>

definition writeFileAtomic :: "fault \<Rightarrow> nat \<Rightarrow> 'd \<Rightarrow> fpath \<Rightarrow> 'd \<Rightarrow> 'd fs \<Rightarrow> gerror \<times> 'd fs" where
  "writeFileAtomic fault rnd torn name data fs =
     (case run_steps (create_steps fault rnd torn name) fs of
        (Some e, fs1) \<Rightarrow> (Some e, fs1)
      | (None, fs1) \<Rightarrow>
          (case run_steps (install_steps fault rnd torn name data) fs1 of
             (r, fs2) \<Rightarrow> (r, snd (fs_remove fault (temp_name rnd name) fs2))))"

text \<open>The process dies after \<open>n\<close> of the system calls.\<close>

definition write_crash :: "nat \<Rightarrow> fault \<Rightarrow> nat \<Rightarrow> 'd \<Rightarrow> fpath \<Rightarrow> 'd \<Rightarrow> 'd fs \<Rightarrow> 'd fs" where
  "write_crash n fault rnd torn name data fs =
     snd (run_steps (take n (create_steps fault rnd torn name @ install_steps fault rnd torn name data)) fs)"

lemma length_dec_digits [simp]: "dec_digits n \<noteq> []"
  using dec_digits_props by blast

lemma temp_name_neq [simp]: "name \<noteq> [] \<Longrightarrow> temp_name rnd name \<noteq> name"
proof
  assume "name \<noteq> []" "temp_name rnd name = name"
  then have "length (last (temp_name rnd name)) = length (last name)" by simp
  then show False by (simp add: temp_name_def)
qed

lemma last_dec_digit: "is_digit (last (dec_digits n))"
  using dec_digits_props [of n] by (metis last_in_set list_all_iff)

lemma temp_name_suffix: "x \<noteq> [] \<Longrightarrow> \<not> is_digit (last x) \<Longrightarrow> \<not> has_suffix (last (temp_name rnd name)) x"
  using last_dec_digit [of rnd]
  by (auto simp: temp_name_def has_suffix_iff dest!: arg_cong [where f = last])

text \<open>What the steps may do to the tree, as a relation every step satisfies.\<close>

definition only_touches :: "fpath \<Rightarrow> fpath \<Rightarrow> 'd \<Rightarrow> 'd fs \<Rightarrow> 'd fs \<Rightarrow> bool" where
  "only_touches tmp name data fs fs' \<longleftrightarrow>
     (\<forall>q. q \<noteq> tmp \<and> q \<noteq> name \<longrightarrow> file_at fs' q = file_at fs q) \<and>
     (file_at fs' name = file_at fs name \<or> file_at fs' name = Some data)"

lemma only_touches_refl [simp]: "only_touches tmp name data fs fs"
  by (simp add: only_touches_def)

lemma only_touches_trans:
  "only_touches tmp name data fs fs' \<Longrightarrow> only_touches tmp name data fs' fs'' \<Longrightarrow>
   only_touches tmp name data fs fs''"
  by (auto simp: only_touches_def)

lemma mkdir_only: "only_touches tmp name data fs (snd (fs_mkdir_all fault d fs))"
  by (auto simp: fs_mkdir_all_def only_touches_def split: option.splits)

lemma create_only: "tmp \<noteq> name \<Longrightarrow> only_touches tmp name data fs (snd (fs_create fault torn tmp fs))"
  by (auto simp: fs_create_def only_touches_def split: option.splits)

lemma touch_only: "only_touches tmp name data fs (snd (fs_touch c fault d fs))"
  by (simp add: fs_touch_def)

lemma write_only: "tmp \<noteq> name \<Longrightarrow> only_touches tmp name data fs (snd (fs_write fault torn d tmp fs))"
  by (auto simp: fs_write_def only_touches_def split: option.splits)

lemma remove_only: "tmp \<noteq> name \<Longrightarrow> only_touches tmp name data fs (snd (fs_remove fault tmp fs))"
  by (auto simp: fs_remove_def only_touches_def split: option.splits)

lemma run_steps_invariant:
  assumes "\<And>msg step s. (msg, step) \<in> set steps \<Longrightarrow> P s \<Longrightarrow> P (snd (step s))" "P s"
  shows "P (snd (run_steps steps s))"
  using assms
proof (induction steps arbitrary: s)
  case Nil
  then show ?case by simp
next
  case (Cons a steps)
  obtain msg step where a: "a = (msg, step)" by fastforce
  obtain r s' where st: "step s = (r, s')" by fastforce
  have s': "P s'" using Cons.prems(1) [of msg step s] Cons.prems(2) a st by simp
  show ?case
  proof (cases r)
    case None
    have "P (snd (run_steps steps s'))"
      by (rule Cons.IH) (use Cons.prems(1) s' in auto)
    with None a st show ?thesis by simp
  next
    case Some
    with a st s' show ?thesis by simp
  qed
qed

lemma run_steps_append:
  "run_steps (xs @ ys) s =
     (case run_steps xs s of (None, s') \<Rightarrow> run_steps ys s' | (Some e, s') \<Rightarrow> (Some e, s'))"
  by (induction xs s rule: run_steps.induct) (auto split: option.splits prod.splits)

definition before_install :: "fault \<Rightarrow> nat \<Rightarrow> 'd \<Rightarrow> fpath \<Rightarrow> 'd \<Rightarrow> (string \<times> ('d fs \<Rightarrow> gerror \<times> 'd fs)) list" where
  "before_install fault rnd torn name data =
     create_steps fault rnd torn name @ take 4 (install_steps fault rnd torn name data)"

definition from_install :: "fault \<Rightarrow> nat \<Rightarrow> 'd \<Rightarrow> fpath \<Rightarrow> 'd \<Rightarrow> (string \<times> ('d fs \<Rightarrow> gerror \<times> 'd fs)) list" where
  "from_install fault rnd torn name data = drop 4 (install_steps fault rnd torn name data)"

lemma steps_split:
  "create_steps fault rnd torn name @ install_steps fault rnd torn name data =
     before_install fault rnd torn name data @ from_install fault rnd torn name data"
  by (simp add: before_install_def from_install_def)

lemma before_install_only:
  assumes "name \<noteq> []"
  shows "only_touches (temp_name rnd name) name data fs
           (snd (run_steps (take n (before_install fault rnd torn name data)) fs))"
proof (rule run_steps_invariant)
  fix msg step s
  assume step: "(msg, step) \<in> set (take n (before_install fault rnd torn name data))"
    and s: "only_touches (temp_name rnd name) name data fs s"
  from step have "(msg, step) \<in> set (before_install fault rnd torn name data)"
    by (rule in_set_takeD)
  then have "only_touches (temp_name rnd name) name data s (snd (step s))"
    using assms
    by (auto simp: before_install_def create_steps_def install_steps_def
        intro: mkdir_only create_only touch_only write_only)
  with s show "only_touches (temp_name rnd name) name data fs (snd (step s))"
    by (rule only_touches_trans)
qed simp

lemma before_install_data:
  assumes "run_steps (before_install fault rnd torn name data) fs = (None, fs')"
  shows "file_at fs' (temp_name rnd name) = Some data"
  using assms
  by (auto simp: before_install_def create_steps_def install_steps_def fs_write_def fs_touch_def
      split: option.splits prod.splits)

lemma rename_step:
  assumes "file_at fs tmp = Some data" "tmp \<noteq> name"
  shows "only_touches tmp name data fs (snd (fs_rename fault tmp name fs))"
    "fs_rename fault tmp name fs = (None, fs') \<Longrightarrow> file_at fs' name = Some data"
  using assms by (auto simp: fs_rename_def only_touches_def split: option.splits if_splits)

lemma touch_steps_same:
  assumes "\<And>msg step. (msg, step) \<in> set steps \<Longrightarrow> \<exists>c p. step = fs_touch c fault p"
  shows "snd (run_steps steps s) = s"
  by (rule run_steps_invariant) (auto simp: fs_touch_def dest!: assms)

lemma from_install_run:
  assumes "file_at fs (temp_name rnd name) = Some data" "name \<noteq> []"
  shows "only_touches (temp_name rnd name) name data fs
           (snd (run_steps (take n (from_install fault rnd torn name data)) fs))" (is ?touch)
    and "run_steps (from_install fault rnd torn name data) fs = (None, fs') \<Longrightarrow> file_at fs' name = Some data"
proof -
  let ?rename = "fs_rename fault (temp_name rnd name) name"
  let ?rest = "[(''open parent directory: %w'', fs_touch ''Open'' fault (butlast name)),
      (''sync parent directory: %w'', fs_touch ''Sync'' fault (butlast name))]"
  have post: "from_install fault rnd torn name data = (''install file: %w'', ?rename) # ?rest"
    by (simp add: from_install_def install_steps_def)
  obtain r fs1 where rn: "?rename fs = (r, fs1)" by fastforce
  have same: "snd (run_steps (take k ?rest) t) = t" for k and t :: "'a fs"
  proof (rule touch_steps_same [where fault = fault])
    fix msg step
    assume "(msg, step) \<in> set (take k ?rest)"
    then have "(msg, step) \<in> set ?rest" by (rule in_set_takeD)
    then show "\<exists>c p. step = fs_touch c fault p" by auto
  qed
  have touch1: "only_touches (temp_name rnd name) name data fs fs1"
    using rename_step(1) [OF assms(1), of name fault] assms(2) rn by simp
  show ?touch
  proof (cases n)
    case 0
    then show ?thesis by simp
  next
    case (Suc k)
    then show ?thesis
      using post rn touch1 same [of k fs1] by (cases r) auto
  qed
  show "file_at fs' name = Some data"
    if "run_steps (from_install fault rnd torn name data) fs = (None, fs')"
  proof -
    from that have "r = None" using post rn by (cases r) auto
    then have "fs' = fs1" using that post rn same [of 2 fs1] by simp
    then show ?thesis
      using rename_step(2) [OF assms(1), of name fault fs1] assms(2) rn \<open>r = None\<close> by simp
  qed
qed

text \<open>
  After any number of the calls, under any faults: the file has its old or its new content, and
  no file but it and the temporary one has changed.
\<close>

lemma write_crash_only:
  assumes "name \<noteq> []"
  shows "only_touches (temp_name rnd name) name data fs (write_crash n fault rnd torn name data fs)"
proof -
  let ?b = "before_install fault rnd torn name data"
  let ?f = "from_install fault rnd torn name data"
  obtain r fs1 where r: "run_steps (take n ?b) fs = (r, fs1)" by fastforce
  have b: "only_touches (temp_name rnd name) name data fs fs1"
    using before_install_only [OF assms, of rnd data fs n fault torn] r by simp
  show ?thesis
  proof (cases "n \<le> length ?b \<or> r \<noteq> None")
    case True
    then show ?thesis
      using b r by (auto simp: write_crash_def steps_split run_steps_append split: option.splits)
  next
    case False
    then have "run_steps ?b fs = (None, fs1)" using r by simp
    then have d: "file_at fs1 (temp_name rnd name) = Some data" by (rule before_install_data)
    have "write_crash n fault rnd torn name data fs = snd (run_steps (take (n - length ?b) ?f) fs1)"
      using r False by (simp add: write_crash_def steps_split run_steps_append)
    then show ?thesis
      using only_touches_trans [OF b from_install_run(1) [OF d assms]] by simp
  qed
qed

lemma writeFileAtomic_alt:
  "writeFileAtomic fault rnd torn name data fs =
     (let (r, fs') = run_steps (create_steps fault rnd torn name @ install_steps fault rnd torn name data) fs
      in (r, if fst (run_steps (create_steps fault rnd torn name) fs) = None
             then snd (fs_remove fault (temp_name rnd name) fs') else fs'))"
  by (simp add: writeFileAtomic_def run_steps_append split: prod.splits option.splits)

lemma writeFileAtomic_only:
  assumes "name \<noteq> []"
  shows "only_touches (temp_name rnd name) name data fs (snd (writeFileAtomic fault rnd torn name data fs))"
proof -
  let ?steps = "create_steps fault rnd torn name @ install_steps fault rnd torn name data"
  obtain r fs1 where r: "run_steps ?steps fs = (r, fs1)" by fastforce
  have "only_touches (temp_name rnd name) name data fs fs1"
    using write_crash_only [OF assms, of rnd data fs "length ?steps" fault torn] r
    by (simp add: write_crash_def)
  moreover have "only_touches (temp_name rnd name) name data fs1
      (snd (fs_remove fault (temp_name rnd name) fs1))"
    using assms by (intro remove_only) simp
  ultimately show ?thesis
    by (auto simp: writeFileAtomic_alt r intro: only_touches_trans)
qed

lemma writeFileAtomic_None:
  assumes "name \<noteq> []" "writeFileAtomic fault rnd torn name data fs = (None, fs')"
  shows "file_at fs' name = Some data"
proof -
  let ?b = "before_install fault rnd torn name data"
  let ?f = "from_install fault rnd torn name data"
  from assms(2) obtain fs1 fs2 where s: "run_steps ?b fs = (None, fs1)" "run_steps ?f fs1 = (None, fs2)"
    "fs' = fs2 \<or> fs' = snd (fs_remove fault (temp_name rnd name) fs2)"
    by (auto simp: writeFileAtomic_alt steps_split run_steps_append split: prod.splits option.splits if_splits)
  have "file_at fs2 name = Some data"
    using from_install_run(2) [OF before_install_data [OF s(1)] assms(1) s(2)] .
  moreover have "file_at (snd (fs_remove fault (temp_name rnd name) fs2)) name = file_at fs2 name"
    using temp_name_neq [OF assms(1), of rnd] by (auto simp: fs_remove_def split: option.splits)
  ultimately show ?thesis using s(3) by auto
qed

text \<open>Without faults, and with a place for the file, the write succeeds and leaves no temporary file.\<close>

definition quiet :: "fault \<Rightarrow> bool" where
  "quiet fault \<longleftrightarrow> fault = (\<lambda>_ _. None)"

definition can_place :: "'d fs \<Rightarrow> nat \<Rightarrow> fpath \<Rightarrow> bool" where
  "can_place fs rnd name \<longleftrightarrow>
     name \<noteq> [] \<and> \<not> dir_at fs name \<and> list_all (\<lambda>q. file_at fs q = None) (prefixes (butlast name)) \<and>
     file_at fs (temp_name rnd name) = None \<and> \<not> dir_at fs (temp_name rnd name)"

lemma dir_at_mkdir: "dir_at (fs\<lparr>fs_dirs := fs_dirs fs @ ds\<rparr>) q \<longleftrightarrow> dir_at fs q \<or> q \<in> set ds"
  by (auto simp: dir_at_def)

lemma not_prefix_butlast: "p \<noteq> [] \<Longrightarrow> \<not> prefix p (butlast p)"
  using prefix_length_le [of p "butlast p"] by (cases p) auto

lemma length_temp_name: "length (temp_name rnd name) = Suc (length (butlast name))"
  by (simp add: temp_name_def)

lemma butlast_temp_name [simp]: "butlast (temp_name rnd name) = butlast name"
  by (simp add: temp_name_def)

lemma not_prefix_temp: "\<not> prefix (temp_name rnd name) (butlast name)"
  using prefix_length_le [of "temp_name rnd name" "butlast name"] length_temp_name [of rnd name] by auto

lemma writeFileAtomic_success:
  assumes "quiet fault" "can_place fs rnd name"
  shows "\<exists>fs'. writeFileAtomic fault rnd torn name data fs = (None, fs') \<and>
    (\<forall>q. file_at fs' q = (if q = name then Some data else file_at fs q))"
proof -
  have q [simp]: "fault c p = None" for c p using assms(1) by (simp add: quiet_def)
  note cp = assms(2) [unfolded can_place_def]
  define ds where "ds = filter (\<lambda>q. \<not> dir_at fs q) (prefixes (butlast name))"
  define fs1 where "fs1 = fs\<lparr>fs_dirs := fs_dirs fs @ ds\<rparr>"
  let ?tmp = "temp_name rnd name"
  have mk: "fs_mkdir_all fault (butlast name) fs = (None, fs1)"
    using cp by (auto simp: fs_mkdir_all_def fs1_def ds_def list_ex_iff list_all_iff)
  have d1: "dir_at fs1 (butlast name)" "\<not> dir_at fs1 ?tmp" "\<not> dir_at fs1 name"
    using cp not_prefix_temp not_prefix_butlast [of name]
    by (auto simp: fs1_def dir_at_mkdir ds_def)
  have f1: "file_at fs1 q = file_at fs q" for q by (simp add: fs1_def)
  define fs2 where "fs2 = put_file ?tmp torn fs1"
  have cr: "fs_create fault torn ?tmp fs1 = (None, fs2)"
    using d1 cp by (simp add: fs_create_def f1 fs2_def)
  define fs3 where "fs3 = put_file ?tmp data fs2"
  have wr: "fs_write fault torn data ?tmp fs2 = (None, fs3)" by (simp add: fs_write_def fs3_def)
  have dirs: "dir_at fs3 = dir_at fs1" by (simp add: fs3_def fs2_def dir_at_def put_file_def fun_eq_iff)
  define fs4 where "fs4 = put_file name data (del_file ?tmp fs3)"
  have rn: "fs_rename fault ?tmp name fs3 = (None, fs4)"
    using d1 dirs by (simp add: fs_rename_def fs3_def fs4_def)
  have "dir_at fs4 = dir_at fs3"
    by (simp add: fs4_def dir_at_def put_file_def del_file_def fun_eq_iff)
  then have "file_at fs4 ?tmp = None" "\<not> dir_at fs4 ?tmp"
    using cp d1 dirs by (simp_all add: fs4_def)
  then have rm: "fs_remove fault ?tmp fs4 = (Some (missing fs4 ?tmp), fs4)"
    by (simp add: fs_remove_def)
  have "writeFileAtomic fault rnd torn name data fs = (None, fs4)"
    by (simp add: writeFileAtomic_def create_steps_def install_steps_def mk cr wr rn rm fs_touch_def)
  moreover have "file_at fs4 q = (if q = name then Some data else file_at fs q)" for q
    using cp by (simp add: fs4_def fs3_def fs2_def f1)
  ultimately show ?thesis by blast
qed

section \<open>Trees\<close>

text \<open>Every parent of a file or a directory is a directory.\<close>

definition tree_ok :: "'d fs \<Rightarrow> bool" where
  "tree_ok fs \<longleftrightarrow>
     (\<forall>p q. file_at fs p \<noteq> None \<or> dir_at fs p \<longrightarrow> strict_prefix q p \<longrightarrow> dir_at fs q)"

lemma tree_ok_parent: "tree_ok fs \<Longrightarrow> file_at fs p = Some d \<Longrightarrow> strict_prefix q p \<Longrightarrow> dir_at fs q"
  unfolding tree_ok_def by (metis option.distinct(1))

lemma strict_prefix_butlast: "strict_prefix q p \<Longrightarrow> prefix q (butlast p)"
  by (auto simp: strict_prefix_def prefix_def butlast_append)

lemma tree_ok_put:
  assumes "tree_ok fs" "dir_at fs (butlast p)"
  shows "tree_ok (put_file p d fs)"
proof -
  have dirs: "dir_at (put_file p d fs) = dir_at fs"
    by (simp add: put_file_def dir_at_def fun_eq_iff)
  have "dir_at fs q" if "strict_prefix q p" for q
    using strict_prefix_butlast [OF that] assms unfolding tree_ok_def
    by (metis prefix_order.dual_order.strict_iff_order)
  with assms(1) show ?thesis unfolding tree_ok_def dirs by (auto split: if_splits)
qed

lemma tree_ok_del: "tree_ok fs \<Longrightarrow> tree_ok (del_file p fs)"
  unfolding tree_ok_def by (auto simp: del_file_def dir_at_def file_at_def)

lemma tree_ok_mkdir: "tree_ok fs \<Longrightarrow> tree_ok (snd (fs_mkdir_all fault p fs))"
proof -
  assume t: "tree_ok fs"
  have "tree_ok (fs\<lparr>fs_dirs := fs_dirs fs @ filter (\<lambda>q. \<not> dir_at fs q) (prefixes p)\<rparr>)" (is "tree_ok ?fs")
  proof -
    have d: "dir_at ?fs q \<longleftrightarrow> dir_at fs q \<or> prefix q p" for q
      by (auto simp: dir_at_mkdir)
    have "dir_at ?fs q" if "file_at fs p' \<noteq> None \<or> dir_at fs p'" "strict_prefix q p'" for p' q
      using t that unfolding tree_ok_def d by blast
    moreover have "dir_at ?fs q" if "prefix p' p" "strict_prefix q p'" for p' q
      using that unfolding d by (meson prefix_order.less_imp_le prefix_order.trans)
    ultimately show ?thesis unfolding tree_ok_def by (metis d file_at_dirs)
  qed
  with t show ?thesis by (auto simp: fs_mkdir_all_def split: option.splits)
qed

lemma tree_ok_create: "tree_ok fs \<Longrightarrow> tree_ok (snd (fs_create fault d p fs))"
  by (auto simp: fs_create_def tree_ok_put split: option.splits)

lemma tree_ok_touch: "tree_ok fs \<Longrightarrow> tree_ok (snd (fs_touch c fault p fs))"
  by (simp add: fs_touch_def)

lemma tree_ok_rename: "tree_ok fs \<Longrightarrow> tree_ok (snd (fs_rename fault p q fs))"
proof -
  assume t: "tree_ok fs"
  have "tree_ok (put_file q d (del_file p fs))" if "dir_at fs (butlast q)" for d
    using that tree_ok_put [OF tree_ok_del [OF t, of p], of q d]
    by (simp add: dir_at_def del_file_def)
  with t show ?thesis by (auto simp: fs_rename_def split: option.splits)
qed

lemma tree_ok_remove: "tree_ok fs \<Longrightarrow> tree_ok (snd (fs_remove fault p fs))"
proof -
  assume t: "tree_ok fs"
  have "tree_ok (fs\<lparr>fs_dirs := removeAll p (fs_dirs fs)\<rparr>)"
    if none: "\<not> list_ex (\<lambda>q. strict_prefix p q) (fs_dirs fs @ map fst (fs_files fs))"
  proof -
    have no: "\<not> strict_prefix p q" if "q \<in> set (fs_dirs fs) \<or> q \<in> fst ` set (fs_files fs)" for q
      using that none by (auto simp: list_ex_iff)
    show ?thesis
      unfolding tree_ok_def
    proof (intro allI impI)
      fix r q
      assume r: "file_at (fs\<lparr>fs_dirs := removeAll p (fs_dirs fs)\<rparr>) r \<noteq> None \<or>
          dir_at (fs\<lparr>fs_dirs := removeAll p (fs_dirs fs)\<rparr>) r" and q: "strict_prefix q r"
      then have r': "file_at fs r \<noteq> None \<or> dir_at fs r" by (auto simp: dir_at_def)
      then have "dir_at fs q" using t q unfolding tree_ok_def by blast
      moreover have "r \<in> set (fs_dirs fs) \<or> r \<in> fst ` set (fs_files fs)"
        using r' q by (auto simp: dir_at_def file_at_def map_of_eq_None_iff)
      then have "q \<noteq> p" using no q by blast
      ultimately show "dir_at (fs\<lparr>fs_dirs := removeAll p (fs_dirs fs)\<rparr>) q"
        by (auto simp: dir_at_def)
    qed
  qed
  with t show ?thesis by (auto simp: fs_remove_def tree_ok_del split: option.splits)
qed

text \<open>The temporary file is still there when it is written, so its parent is.\<close>

lemma dir_at_put [simp]: "dir_at (put_file p d fs) q = dir_at fs q"
  by (simp add: put_file_def dir_at_def)

lemma dir_at_del [simp]: "dir_at (del_file p fs) q = dir_at fs q"
  by (simp add: del_file_def dir_at_def)

lemma tree_ok_write:
  "tree_ok fs \<Longrightarrow> dir_at fs (butlast p) \<Longrightarrow> tree_ok (snd (fs_write fault torn d p fs))"
  by (auto simp: fs_write_def tree_ok_put split: option.splits)

lemma writeFileAtomic_tree:
  assumes "tree_ok fs"
  shows "tree_ok (snd (writeFileAtomic fault rnd torn name data fs))"
proof -
  let ?create = "create_steps fault rnd torn name" and ?install = "install_steps fault rnd torn name data"
  obtain r1 fs1 where r1: "run_steps ?create fs = (r1, fs1)" by fastforce
  have "tree_ok (snd (run_steps ?create fs))"
    by (rule run_steps_invariant)
      (use assms in \<open>auto simp: create_steps_def tree_ok_mkdir tree_ok_create\<close>)
  then have t1: "tree_ok fs1" using r1 by simp
  show ?thesis
  proof (cases r1)
    case (Some e)
    with r1 t1 show ?thesis by (simp add: writeFileAtomic_def)
  next
    case None
    have d1: "dir_at fs1 (butlast name)"
      using r1 None by (auto simp: create_steps_def fs_create_def split: option.splits prod.splits if_splits)
    obtain r2 fs2 where r2: "run_steps ?install fs1 = (r2, fs2)" by fastforce
    have "(\<lambda>s. tree_ok s \<and> dir_at s (butlast name)) (snd (run_steps ?install fs1))"
    proof (rule run_steps_invariant)
      fix msg step and s :: "'a fs"
      assume "(msg, step) \<in> set ?install" "tree_ok s \<and> dir_at s (butlast name)"
      then show "tree_ok (snd (step s)) \<and> dir_at (snd (step s)) (butlast name)"
        by (auto simp: install_steps_def tree_ok_touch tree_ok_write tree_ok_rename)
          (auto simp: fs_touch_def fs_write_def fs_rename_def split: option.splits)
    qed (use t1 d1 in simp)
    with r1 None r2 show ?thesis by (simp add: writeFileAtomic_def tree_ok_remove)
  qed
qed

lemma tree_ok_remove_all:
  assumes "tree_ok fs"
  shows "tree_ok (snd (fs_remove_all fault p fs))"
proof -
  define stuck where "stuck = filter (\<lambda>f. prefix p f \<and> fault ''Remove'' f \<noteq> None) (map fst (fs_files fs))"
  define fs' where "fs' = fs\<lparr>fs_files := filter (\<lambda>(f, _). prefix p f \<longrightarrow> f \<in> set stuck) (fs_files fs),
     fs_dirs := filter (\<lambda>d. prefix p d \<longrightarrow> list_ex (prefix d) stuck) (fs_dirs fs)\<rparr>"
  have d: "dir_at fs' q \<longleftrightarrow> dir_at fs q \<and> (q = [] \<or> prefix p q \<longrightarrow> q = [] \<or> (\<exists>f \<in> set stuck. prefix q f))" for q
    by (auto simp: fs'_def dir_at_def list_ex_iff)
  have f: "file_at fs q \<noteq> None" "prefix p q \<Longrightarrow> q \<in> set stuck" if "file_at fs' q \<noteq> None" for q
    using that by (auto simp: fs'_def file_at_def map_of_eq_None_iff)
  have "tree_ok fs'"
    unfolding tree_ok_def
  proof (intro allI impI)
    fix r q
    assume r: "file_at fs' r \<noteq> None \<or> dir_at fs' r" and q: "strict_prefix q r"
    then have "file_at fs r \<noteq> None \<or> dir_at fs r" using d f(1) by blast
    then have dq: "dir_at fs q" using assms q unfolding tree_ok_def by blast
    have rn: "r \<noteq> []" using q by auto
    have "\<exists>g \<in> set stuck. prefix q g" if "prefix p q"
    proof -
      have pr: "prefix p r" using that q by (meson prefix_order.less_imp_le prefix_order.trans)
      from r show ?thesis
      proof
        assume "file_at fs' r \<noteq> None"
        then show ?thesis using f(2) pr q by (meson prefix_order.less_imp_le)
      next
        assume "dir_at fs' r"
        then obtain g where "g \<in> set stuck" "prefix r g" using d pr rn by blast
        then show ?thesis using q by (meson prefix_order.less_imp_le prefix_order.trans)
      qed
    qed
    with dq d show "dir_at fs' q" by blast
  qed
  with assms show ?thesis
    by (simp add: fs_remove_all_def Let_def stuck_def fs'_def)
qed

end
