(* ===== verification/FakevaultStore.thy ===== *)
theory FakevaultStore
  imports FakevaultPaths GoBase64 Filesystem
begin

text \<open>
  \<open>FileStore\<close> of \<open>internal/fakevault/store.go\<close> over the keyring operations of
  \<open>internal/config/keyring.go\<close>: one encrypted file per secret and one key per cluster, cached in
  memory. A file or keyring item is kept as the document its JSON text decodes to, or \<open>Junk\<close> when it
  does not decode. AES-256-GCM is symbolic: a ciphertext records the key, nonce, plaintext and
  additional data it was sealed with and opens under exactly these.
\<close>

section \<open>Data\<close>

datatype plaintext = PlainMap "string gomap" | PlainJunk

text \<open>The text of a \<open>ciphertext\<close> field: the base64 encoding of a sealed message, or any other text.\<close>

datatype cipher_text =
    SealedText (seal_key: string) (seal_nonce: string) (seal_plain: plaintext) (seal_aad: string)
  | OtherText string

record secretFile =
  Version :: int
  Algorithm :: string
  Nonce :: string
  Ciphertext :: cipher_text
  Keys :: "string list"
  Archived :: bool
  UpdatedAt :: string

datatype filedoc = Doc secretFile | Junk

record vaultKeyFile =
  KeyVersion :: int
  KeyAlgorithm :: string
  KeyText :: string

datatype ringdoc = RingKey vaultKeyFile | RingJunk

record Secret =
  sPath :: string
  sKeys :: "string list"
  sArchived :: bool
  sVersion :: int

text \<open>
  The state of a store: the tree below its root, the keyring, and the in-memory keys. The
  environment of a call: the current time in RFC 3339, what \<open>crypto/rand\<close> returns for a key and
  for a nonce, the number \<open>CreateTemp\<close> picks, and the failures of the file system and the keyring.
\<close>

record fstore =
  st_fs :: "filedoc fs"
  st_ring :: "(string \<times> ringdoc) list"
  st_keys :: "(string \<times> string) list"

record senv =
  env_now :: string
  env_key_rand :: "(nat \<Rightarrow> char) result"
  env_nonce_rand :: "(nat \<Rightarrow> char) result"
  env_tmp :: nat
  env_fault :: fault
  env_ring_fault :: "string \<Rightarrow> string \<Rightarrow> gerror"

definition aes256gcm :: string where
  "aes256gcm = ''aes-256-gcm''"

definition vaultKeySize :: nat where
  "vaultKeySize = 32"

definition nonceSize :: nat where
  "nonceSize = 12"

section \<open>The keyring\<close>

definition KeyringWrite :: "senv \<Rightarrow> string \<Rightarrow> ringdoc \<Rightarrow> (fstore, unit) op" where
  "KeyringWrite env key v st =
     (case env_ring_fault env ''write'' key of Some e \<Rightarrow> (Inl e, st)
      | None \<Rightarrow> (Inr (), st\<lparr>st_ring := put_key key v (st_ring st)\<rparr>))"

definition KeyringRead :: "senv \<Rightarrow> string \<Rightarrow> (fstore, ringdoc option) op" where
  "KeyringRead env key st =
     (case env_ring_fault env ''read'' key of Some e \<Rightarrow> (Inl e, st)
      | None \<Rightarrow> (Inr (map_of (st_ring st) key), st))"

definition KeyringDelete :: "senv \<Rightarrow> string \<Rightarrow> (fstore, unit) op" where
  "KeyringDelete env key st =
     (case env_ring_fault env ''delete'' key of Some e \<Rightarrow> (Inl e, st)
      | None \<Rightarrow> (Inr (), st\<lparr>st_ring := del_key key (st_ring st)\<rparr>))"

section \<open>Keys, files and ciphertexts\<close>

definition cache_key :: "string \<Rightarrow> string \<Rightarrow> (fstore, string) op" where
  "cache_key clusterID key st = (Inr key, st\<lparr>st_keys := put_key clusterID key (st_keys st)\<rparr>)"

definition new_key_file :: "string \<Rightarrow> vaultKeyFile" where
  "new_key_file key = \<lparr>KeyVersion = 1, KeyAlgorithm = aes256gcm, KeyText = std_encode key\<rparr>"

definition decode_key_file :: "ringdoc \<Rightarrow> string result" where
  "decode_key_file d =
     (case d of
        RingJunk \<Rightarrow> Inl (Errorf ''decode fakevault key: %w'' [])
      | RingKey payload \<Rightarrow>
          if KeyAlgorithm payload \<noteq> aes256gcm
          then Inl (Errorf ''unsupported fakevault key algorithm %q'' [S (KeyAlgorithm payload)])
          else (case std_decode (KeyText payload) of
              Inl e \<Rightarrow> Inl (Wrapf ''decode fakevault key bytes: %w'' [] e)
            | Inr key \<Rightarrow>
                if length key \<noteq> vaultKeySize
                then Inl (Errorf ''fakevault key has %d bytes, want %d'' [I (int (length key)), I (int vaultKeySize)])
                else Inr key))"

definition vaultKey :: "senv \<Rightarrow> string \<Rightarrow> (fstore, string) op" where
  "vaultKey env clusterID =
     bindS (liftS (cleanClusterID clusterID)) (\<lambda>clusterID st.
       let cached = (case map_of (st_keys st) clusterID of None \<Rightarrow> [] | Some k \<Rightarrow> k) in
       if cached \<noteq> [] then (Inr cached, st)
       else
         let itemKey = vaultKeyName clusterID in
         bindS (wrapS ''read fakevault key: %w'' [] (KeyringRead env itemKey)) (\<lambda>data.
           case data of
             None \<Rightarrow>
               bindS (wrapS ''create fakevault key: %w'' [] (liftS (rand_read (env_key_rand env) vaultKeySize))) (\<lambda>key.
               bindS (wrapS ''write fakevault key: %w'' [] (KeyringWrite env itemKey (RingKey (new_key_file key)))) (\<lambda>_.
               cache_key clusterID key))
           | Some d \<Rightarrow> bindS (liftS (decode_key_file d)) (cache_key clusterID)) st)"

definition readFile :: "senv \<Rightarrow> string \<Rightarrow> string \<Rightarrow> fstore \<Rightarrow> secretFile option result" where
  "readFile env clusterID path st =
     (case fs_read (env_fault env) (secretFilePath clusterID path) (st_fs st) of
        Inl e \<Rightarrow> if is_not_exist e then Inr None else Inl (Wrapf ''read fakevault secret file: %w'' [] e)
      | Inr Junk \<Rightarrow> Inl (Errorf ''decode fakevault secret file: %w'' [])
      | Inr (Doc file) \<Rightarrow> Inr (Some file))"

definition readS :: "senv \<Rightarrow> string \<Rightarrow> string \<Rightarrow> (fstore, secretFile option) op" where
  "readS env clusterID path st = (readFile env clusterID path st, st)"

definition writeFile :: "senv \<Rightarrow> string \<Rightarrow> string \<Rightarrow> secretFile \<Rightarrow> (fstore, unit) op" where
  "writeFile env clusterID path file st =
     (case writeFileAtomic (env_fault env) (env_tmp env) Junk (secretFilePath clusterID path) (Doc file) (st_fs st) of
        (e, fs') \<Rightarrow> (err_result (wrap_err ''write fakevault secret file: %w'' [] e), st\<lparr>st_fs := fs'\<rparr>))"

text \<open>\<open>aes.NewCipher\<close> accepts keys of 16, 24 and 32 bytes; \<open>cipher.NewGCM\<close> of an AES block succeeds.\<close>

definition aes_new :: "string \<Rightarrow> unit result" where
  "aes_new key =
     (if length key = 16 \<or> length key = 24 \<or> length key = 32 then Inr ()
      else Inl (Errorf ''crypto/aes: invalid key size %d'' [I (int (length key))]))"

text \<open>\<open>aead.Open\<close>, which panics on a nonce of another length than the AEAD's.\<close>

definition gcm_open :: "string \<Rightarrow> string \<Rightarrow> cipher_text \<Rightarrow> string \<Rightarrow> plaintext result" where
  "gcm_open key nonce c aad =
     (if length nonce \<noteq> nonceSize then Inl (Sentinel ''panic: crypto/cipher: incorrect nonce length given to GCM'')
      else (case c of
          SealedText k n m a \<Rightarrow>
            if k = key \<and> n = nonce \<and> a = aad then Inr m
            else Inl (Sentinel ''cipher: message authentication failed'')
        | OtherText _ \<Rightarrow> Inl (Sentinel ''cipher: message authentication failed'')))"

definition decode_ciphertext :: "cipher_text \<Rightarrow> unit result" where
  "decode_ciphertext c =
     (case c of SealedText _ _ _ _ \<Rightarrow> Inr () | OtherText t \<Rightarrow> map_sum id (\<lambda>_. ()) (std_decode t))"

definition decrypt :: "senv \<Rightarrow> string \<Rightarrow> string \<Rightarrow> secretFile \<Rightarrow> (fstore, string gomap) op" where
  "decrypt env clusterID path file =
     (if Algorithm file \<noteq> aes256gcm
      then liftS (Inl (Errorf ''unsupported fakevault secret algorithm %q'' [S (Algorithm file)]))
      else
        bindS (vaultKey env clusterID) (\<lambda>key.
        bindS (wrapS ''decode fakevault nonce: %w'' [] (liftS (std_decode (Nonce file)))) (\<lambda>nonce.
        bindS (wrapS ''decode fakevault ciphertext: %w'' [] (liftS (decode_ciphertext (Ciphertext file)))) (\<lambda>_.
        bindS (wrapS ''create fakevault cipher: %w'' [] (liftS (aes_new key))) (\<lambda>_.
        bindS (wrapS ''decrypt fakevault secret: %w'' [] (liftS (gcm_open key nonce (Ciphertext file) path))) (\<lambda>plain.
        liftS (case plain of PlainMap m \<Rightarrow> Inr m
               | PlainJunk \<Rightarrow> Inl (Errorf ''decode fakevault secret %q: %w'' [S path]))))))))"

section \<open>Operations\<close>

definition currentVersionOf :: "secretFile option \<Rightarrow> int" where
  "currentVersionOf current =
     (case current of None \<Rightarrow> 0 | Some f \<Rightarrow> if Version f \<le> 0 then 1 else Version f)"

definition sealed_file :: "senv \<Rightarrow> string \<Rightarrow> string \<Rightarrow> string \<Rightarrow> int \<Rightarrow> string gomap \<Rightarrow> secretFile" where
  "sealed_file env key nonce path nextVersion values =
     \<lparr>Version = nextVersion, Algorithm = aes256gcm, Nonce = std_encode nonce,
      Ciphertext = SealedText key nonce (PlainMap (canon_map values)) path,
      Keys = sorted_keys values, Archived = False, UpdatedAt = env_now env\<rparr>"

definition setSecret :: "senv \<Rightarrow> string \<Rightarrow> string \<Rightarrow> string gomap \<Rightarrow> int option \<Rightarrow> (fstore, bool) op" where
  "setSecret env clusterID path values version =
     bindS (liftS (cleanClusterPath clusterID path)) (\<lambda>(clusterID, path).
     if values = [] then liftS (Inl (Errorf ''at least one key=value pair is required'' []))
     else if list_ex (\<lambda>(k, v). \<not> utf8_valid k \<or> \<not> utf8_valid v) values
     then liftS (Inl (Errorf ''secret keys and values must be valid UTF-8 text'' []))
     else
       bindS (readS env clusterID path) (\<lambda>current.
       let currentVersion = currentVersionOf current in
       if version \<noteq> None \<and> version \<noteq> Some currentVersion then liftS (Inr False)
       else
         bindS (vaultKey env clusterID) (\<lambda>key.
         bindS (wrapS ''create fakevault nonce: %w'' [] (liftS (rand_read (env_nonce_rand env) nonceSize))) (\<lambda>nonce.
         bindS (wrapS ''create fakevault cipher: %w'' [] (liftS (aes_new key))) (\<lambda>_.
         let nextVersion = (if current \<noteq> None then wrap64 (currentVersion + 1) else 1) in
         bindS (writeFile env clusterID path (sealed_file env key nonce path nextVersion values)) (\<lambda>_.
         liftS (Inr True)))))))"

definition SetSecret :: "senv \<Rightarrow> string \<Rightarrow> string \<Rightarrow> string gomap \<Rightarrow> (fstore, unit) op" where
  "SetSecret env clusterID path values = bindS (setSecret env clusterID path values None) (\<lambda>_. liftS (Inr ()))"

definition CreateSecret :: "senv \<Rightarrow> string \<Rightarrow> string \<Rightarrow> string gomap \<Rightarrow> (fstore, bool) op" where
  "CreateSecret env clusterID path values = setSecret env clusterID path values (Some 0)"

definition CompareAndSetSecret ::
    "senv \<Rightarrow> string \<Rightarrow> string \<Rightarrow> int \<Rightarrow> string gomap \<Rightarrow> (fstore, bool) op" where
  "CompareAndSetSecret env clusterID path version values = setSecret env clusterID path values (Some version)"

definition GetSecret :: "senv \<Rightarrow> string \<Rightarrow> string \<Rightarrow> (fstore, string gomap option) op" where
  "GetSecret env clusterID path =
     bindS (liftS (cleanClusterPath clusterID path)) (\<lambda>(clusterID, path).
     bindS (readS env clusterID path) (\<lambda>file.
       case file of
         None \<Rightarrow> liftS (Inr None)
       | Some f \<Rightarrow>
           if Archived f then liftS (Inr None)
           else bindS (decrypt env clusterID path f) (\<lambda>values. liftS (Inr (Some values)))))"

definition setArchived :: "senv \<Rightarrow> string \<Rightarrow> string \<Rightarrow> bool \<Rightarrow> (fstore, unit) op" where
  "setArchived env clusterID path archived =
     bindS (liftS (cleanClusterPath clusterID path)) (\<lambda>(clusterID, path).
     bindS (readS env clusterID path) (\<lambda>file.
       case file of
         None \<Rightarrow> liftS (Inr ())
       | Some f \<Rightarrow> writeFile env clusterID path (f\<lparr>Archived := archived, UpdatedAt := env_now env\<rparr>)))"

definition ArchiveSecret :: "senv \<Rightarrow> string \<Rightarrow> string \<Rightarrow> (fstore, unit) op" where
  "ArchiveSecret env clusterID path = setArchived env clusterID path True"

definition RestoreSecret :: "senv \<Rightarrow> string \<Rightarrow> string \<Rightarrow> (fstore, unit) op" where
  "RestoreSecret env clusterID path = setArchived env clusterID path False"

definition DeleteSecret :: "senv \<Rightarrow> string \<Rightarrow> string \<Rightarrow> (fstore, unit) op" where
  "DeleteSecret env clusterID path =
     bindS (liftS (cleanClusterPath clusterID path)) (\<lambda>(clusterID, path) st.
       case fs_remove (env_fault env) (secretFilePath clusterID path) (st_fs st) of
         (None, fs') \<Rightarrow> (Inr (), st\<lparr>st_fs := fs'\<rparr>)
       | (Some e, fs') \<Rightarrow>
           ((if is_not_exist e then Inr () else Inl (Wrapf ''delete fakevault secret file: %w'' [] e)),
            st\<lparr>st_fs := fs'\<rparr>))"

definition DeleteCluster :: "senv \<Rightarrow> string \<Rightarrow> (fstore, unit) op" where
  "DeleteCluster env clusterID =
     bindS (liftS (cleanClusterID clusterID)) (\<lambda>clusterID.
     bindS (\<lambda>st. case fs_remove_all (env_fault env) (clusterDir clusterID) (st_fs st) of
              (e, fs') \<Rightarrow> (err_result (wrap_err ''remove fakevault cluster data: %w'' [] e), st\<lparr>st_fs := fs'\<rparr>)) (\<lambda>_.
     bindS (wrapS ''delete fakevault key: %w'' [] (KeyringDelete env (vaultKeyName clusterID))) (\<lambda>_ st.
     (Inr (), st\<lparr>st_keys := del_key clusterID (st_keys st)\<rparr>))))"

definition Unlock :: "senv \<Rightarrow> string \<Rightarrow> (fstore, unit) op" where
  "Unlock env clusterID = bindS (vaultKey env clusterID) (\<lambda>_. liftS (Inr ()))"

text \<open>The callback of \<open>WalkDir\<close> on the entries in their order; the first error ends the walk.\<close>

fun walk_secrets :: "senv \<Rightarrow> string \<Rightarrow> fstore \<Rightarrow> fpath list \<Rightarrow> Secret list result" where
  "walk_secrets env clusterID st [] = Inr []"
| "walk_secrets env clusterID st (name # names) =
     (if file_at (st_fs st) name = None then
        (case env_fault env ''ReadDir'' name of
           Some e \<Rightarrow> Inl e
         | None \<Rightarrow> walk_secrets env clusterID st names)
      else if \<not> is_json_file name then walk_secrets env clusterID st names
      else
        let path = listed_path (drop (length (clusterDir clusterID)) name) in
        (case readFile env clusterID path st of
           Inl e \<Rightarrow> Inl e
         | Inr None \<Rightarrow> walk_secrets env clusterID st names
         | Inr (Some file) \<Rightarrow>
             bindR (walk_secrets env clusterID st names) (\<lambda>rest.
               Inr (\<lparr>sPath = path, sKeys = sort (Keys file), sArchived = Archived file,
                     sVersion = (if Version file \<le> 0 then 1 else Version file)\<rparr> # rest))))"

definition ListSecrets :: "senv \<Rightarrow> string \<Rightarrow> (fstore, Secret list) op" where
  "ListSecrets env clusterID =
     bindS (liftS (cleanClusterID clusterID)) (\<lambda>clusterID st.
       let base = clusterDir clusterID in
       case fs_stat (env_fault env) base (st_fs st) of
         Some e \<Rightarrow> ((if is_not_exist e then Inr [] else Inl (Wrapf ''stat fakevault directory: %w'' [] e)), st)
       | None \<Rightarrow>
           (case walk_secrets env clusterID st (walk_entries base (st_fs st)) of
              Inl e \<Rightarrow> (Inl (Wrapf ''walk fakevault directory: %w'' [] e), st)
            | Inr secrets \<Rightarrow> (Inr (sort_key sPath secrets), st)))"

end
