(* ===== verification/FakevaultStoreSpec.thy ===== *)
theory FakevaultStoreSpec
  imports FakevaultStore
begin

text \<open>
  What \<open>FileStore\<close> promises: an abstract view of a store as a map from cluster and path to an entry,
  the invariant \<open>store_ok\<close> every operation keeps under any failure of the file system, the keyring or
  the random source, and each operation's effect on the view.
\<close>

section \<open>The abstract view\<close>

record entry =
  e_values :: "string gomap"
  e_archived :: bool
  e_version :: int

definition file_version :: "secretFile \<Rightarrow> int" where
  "file_version f = (if Version f \<le> 0 then 1 else Version f)"

definition abs_entry :: "secretFile \<Rightarrow> entry" where
  "abs_entry f =
     \<lparr>e_values = (case Ciphertext f of SealedText _ _ (PlainMap m) _ \<Rightarrow> m | _ \<Rightarrow> []),
      e_archived = Archived f, e_version = file_version f\<rparr>"

definition view :: "fstore \<Rightarrow> string \<Rightarrow> string \<Rightarrow> entry option" where
  "view st i p =
     (case file_at (st_fs st) (secretFilePath i p) of Some (Doc f) \<Rightarrow> Some (abs_entry f) | _ \<Rightarrow> None)"

section \<open>The invariant\<close>

text \<open>The key a keyring holds for a cluster, if it holds a usable one.\<close>

definition ring_key :: "fstore \<Rightarrow> string \<Rightarrow> string option" where
  "ring_key st i =
     (case map_of (st_ring st) (vaultKeyName i) of
        None \<Rightarrow> None
      | Some d \<Rightarrow> (case decode_key_file d of Inr k \<Rightarrow> Some k | Inl _ \<Rightarrow> None))"

text \<open>The cached keys are the keyring's keys.\<close>

definition keys_ok :: "fstore \<Rightarrow> bool" where
  "keys_ok st \<longleftrightarrow> (\<forall>i k. map_of (st_keys st) i = Some k \<longrightarrow> ring_key st i = Some k)"

text \<open>A secret's file is sealed under its cluster's key, for its own path.\<close>

definition sealed_ok :: "string option \<Rightarrow> string \<Rightarrow> secretFile \<Rightarrow> bool" where
  "sealed_ok key p f \<longleftrightarrow>
     Algorithm f = aes256gcm \<and>
     (\<exists>k n m. key = Some k \<and> length n = nonceSize \<and> Nonce f = std_encode n \<and>
        Ciphertext f = SealedText k n (PlainMap m) p \<and> gomap_ok m \<and> Keys f = map fst m)"

definition files_ok :: "fstore \<Rightarrow> bool" where
  "files_ok st \<longleftrightarrow>
     (\<forall>i p d. safe_segment i \<longrightarrow> safe_path p \<longrightarrow> file_at (st_fs st) (secretFilePath i p) = Some d \<longrightarrow>
        (\<exists>f. d = Doc f \<and> sealed_ok (ring_key st i) p f))"

text \<open>The tree is well-formed and a cluster's directory holds no JSON file but the secrets' own.\<close>

definition shape_ok :: "filedoc fs \<Rightarrow> bool" where
  "shape_ok fs \<longleftrightarrow>
     tree_ok fs \<and>
     (\<forall>i f. safe_segment i \<longrightarrow> prefix (clusterDir i) f \<longrightarrow> is_json_file f \<longrightarrow> file_at fs f \<noteq> None \<longrightarrow>
        (\<exists>p. safe_path p \<and> f = secretFilePath i p))"

definition store_ok :: "fstore \<Rightarrow> bool" where
  "store_ok st \<longleftrightarrow> keys_ok st \<and> files_ok st \<and> shape_ok (st_fs st)"

definition NewFileStore :: "(string \<times> ringdoc) list \<Rightarrow> filedoc fs \<Rightarrow> fstore" where
  "NewFileStore ring fs = \<lparr>st_fs = fs, st_ring = ring, st_keys = []\<rparr>"

lemma store_ok_empty [simp]: "store_ok (NewFileStore ring \<lparr>fs_files = [], fs_dirs = []\<rparr>)"
  by (simp add: store_ok_def NewFileStore_def keys_ok_def files_ok_def file_at_def shape_ok_def
      tree_ok_def dir_at_def)

lemma view_file: "store_ok st \<Longrightarrow> safe_segment i \<Longrightarrow> safe_path p \<Longrightarrow>
    view st i p = None \<longleftrightarrow> file_at (st_fs st) (secretFilePath i p) = None"
  unfolding store_ok_def files_ok_def view_def by (fastforce split: option.splits filedoc.splits)

lemma view_Some_file:
  assumes "store_ok st" "safe_segment i" "safe_path p" "file_at (st_fs st) (secretFilePath i p) = Some d"
  shows "\<exists>f. d = Doc f \<and> sealed_ok (ring_key st i) p f \<and> view st i p = Some (abs_entry f)"
  using assms unfolding store_ok_def files_ok_def view_def by fastforce

lemma view_same_fs: "st_fs st' = st_fs st \<Longrightarrow> view st' = view st"
  by (simp add: view_def fun_eq_iff)

section \<open>Keys\<close>

lemma decode_new_key [simp]: "length key = vaultKeySize \<Longrightarrow> decode_key_file (RingKey (new_key_file key)) = Inr key"
  by (simp add: decode_key_file_def new_key_file_def)

lemma decode_key_length: "decode_key_file d = Inr key \<Longrightarrow> length key = vaultKeySize"
  by (auto simp: decode_key_file_def split: ringdoc.splits if_splits sum.splits)

lemma ring_key_length: "ring_key st i = Some k \<Longrightarrow> length k = vaultKeySize"
  by (auto simp: ring_key_def split: option.splits sum.splits intro: decode_key_length)

lemma aes_new_ok [simp]: "length k = vaultKeySize \<Longrightarrow> aes_new k = Inr ()"
  by (simp add: aes_new_def vaultKeySize_def)

lemma rand_read_length: "rand_read r n = Inr x \<Longrightarrow> length x = n"
  by (cases r) (auto simp: rand_read_def)

text \<open>The keyring only gains keys.\<close>

definition keys_grow :: "fstore \<Rightarrow> fstore \<Rightarrow> bool" where
  "keys_grow st st' \<longleftrightarrow> st_fs st' = st_fs st \<and> (\<forall>j k. ring_key st j = Some k \<longrightarrow> ring_key st' j = Some k)"

lemma sealed_ok_grow:
  "sealed_ok (ring_key st i) p f \<Longrightarrow> keys_grow st st' \<Longrightarrow> sealed_ok (ring_key st' i) p f"
  by (auto simp: sealed_ok_def keys_grow_def)

lemma files_ok_grow: "files_ok st \<Longrightarrow> keys_grow st st' \<Longrightarrow> files_ok st'"
proof -
  assume f: "files_ok st" and g: "keys_grow st st'"
  have fs: "st_fs st' = st_fs st" using g by (simp add: keys_grow_def)
  from f show "files_ok st'"
    unfolding files_ok_def fs using sealed_ok_grow [OF _ g] by blast
qed

lemma ring_key_put: "ring_key (st\<lparr>st_ring := put_key (vaultKeyName i) d (st_ring st)\<rparr>) j =
    (if j = i then (case decode_key_file d of Inr k \<Rightarrow> Some k | Inl _ \<Rightarrow> None) else ring_key st j)"
  by (simp add: ring_key_def)

lemma ring_key_keys [simp]: "ring_key (st\<lparr>st_keys := ks\<rparr>) j = ring_key st j"
  by (simp add: ring_key_def)

lemma ring_key_fs [simp]: "ring_key (st\<lparr>st_fs := f\<rparr>) j = ring_key st j"
  by (simp add: ring_key_def)

lemma keys_ok_fs [simp]: "keys_ok (st\<lparr>st_fs := f\<rparr>) \<longleftrightarrow> keys_ok st"
  by (simp add: keys_ok_def)

text \<open>
  Every way \<open>vaultKey\<close> can end: with the cached key, with a new key that the keyring now holds,
  with the keyring's key, or with an error and the store as it was.
\<close>

lemma vaultKey_cases:
  assumes "keys_ok st" "vaultKey env c st = (r, st')"
  obtains (error) e where "r = Inl e" "st' = st"
  | (cached) i k where "cleanClusterID c = Inr i" "r = Inr k" "st' = st" "ring_key st i = Some k"
  | (loaded) i k where "cleanClusterID c = Inr i" "r = Inr k" "ring_key st i = Some k"
      "st' = st\<lparr>st_keys := put_key i k (st_keys st)\<rparr>"
  | (created) i k where "cleanClusterID c = Inr i" "r = Inr k" "length k = vaultKeySize" "ring_key st i = None"
      "map_of (st_ring st) (vaultKeyName i) = None"
      "st' = st\<lparr>st_ring := put_key (vaultKeyName i) (RingKey (new_key_file k)) (st_ring st),
               st_keys := put_key i k (st_keys st)\<rparr>"
proof -
  show thesis
  proof (cases "cleanClusterID c")
    case (Inl e)
    with assms(2) show ?thesis by (intro error [of e]) (auto simp: vaultKey_def liftS_def bindS_def)
  next
    case (Inr i)
    let ?cached = "case map_of (st_keys st) i of None \<Rightarrow> [] | Some k \<Rightarrow> k"
    show ?thesis
    proof (cases "?cached = []")
      case False
      then obtain k where k: "map_of (st_keys st) i = Some k" "k \<noteq> []" by (cases "map_of (st_keys st) i") auto
      then have "ring_key st i = Some k" using assms(1) by (simp add: keys_ok_def)
      with k Inr assms(2) cached show ?thesis by (auto simp: vaultKey_def)
    next
      case True
      let ?key = "rand_read (env_key_rand env) vaultKeySize"
      note vk = assms(2) [unfolded vaultKey_def Inr liftS_simps Let_def]
      show ?thesis
      proof (cases "env_ring_fault env ''read'' (vaultKeyName i)")
        case (Some e)
        with vk True error show ?thesis by (auto simp: bindS_def wrapS_def KeyringRead_def)
      next
        case None
        show ?thesis
        proof (cases "map_of (st_ring st) (vaultKeyName i)")
          case (Some d)
          show ?thesis
          proof (cases "decode_key_file d")
            case (Inl e)
            with vk True None Some show ?thesis
              by (intro error [of e]) (auto simp: bindS_def wrapS_def KeyringRead_def liftS_def)
          next
            case dk: (Inr k)
            with Some have "ring_key st i = Some k" by (simp add: ring_key_def)
            with dk vk True None Some Inr show ?thesis
              by (intro loaded [of i k]) (auto simp: bindS_def wrapS_def KeyringRead_def liftS_def cache_key_def)
          qed
        next
          case absent: None
          then have rk: "ring_key st i = None" by (simp add: ring_key_def)
          show ?thesis
          proof (cases "\<exists>k. ?key = Inr k \<and> env_ring_fault env ''write'' (vaultKeyName i) = None")
            case True': True
            then obtain k where k: "?key = Inr k" "env_ring_fault env ''write'' (vaultKeyName i) = None" by blast
            have "length k = vaultKeySize" using k(1) by (rule rand_read_length)
            with rk k vk True None absent Inr show ?thesis
              by (intro created [of i k]) (auto simp: bindS_def wrapS_def KeyringRead_def KeyringWrite_def liftS_def cache_key_def)
          next
            case False
            then consider e where "?key = Inl e"
              | k e where "?key = Inr k" "env_ring_fault env ''write'' (vaultKeyName i) = Some e"
              by (cases ?key) auto
            then show ?thesis
            proof cases
              case (1 e)
              with vk True None absent show ?thesis
                by (intro error [of "Wrapf ''create fakevault key: %w'' [] e"])
                  (auto simp: bindS_def wrapS_def KeyringRead_def liftS_def)
            next
              case (2 k e)
              with vk True None absent show ?thesis
                by (intro error [of "Wrapf ''write fakevault key: %w'' [] e"])
                  (auto simp: bindS_def wrapS_def KeyringRead_def KeyringWrite_def liftS_def)
            qed
          qed
        qed
      qed
    qed
  qed
qed

text \<open>So the keyring and the cache stay consistent, and a returned key is the keyring's.\<close>

lemma vaultKey_spec:
  assumes "keys_ok st" "vaultKey env c st = (r, st')"
  shows "keys_ok st'" "keys_grow st st'"
    "r = Inr k \<Longrightarrow> \<exists>i. cleanClusterID c = Inr i \<and> ring_key st' i = Some k \<and> length k = vaultKeySize"
proof -
  have "keys_ok st' \<and> keys_grow st st' \<and>
    (r = Inr k \<longrightarrow> (\<exists>i. cleanClusterID c = Inr i \<and> ring_key st' i = Some k \<and> length k = vaultKeySize))"
    using assms
  proof (cases rule: vaultKey_cases)
    case (error e)
    with assms(1) show ?thesis by (simp add: keys_grow_def)
  next
    case (cached i k)
    with assms(1) show ?thesis by (auto simp: keys_grow_def intro: ring_key_length)
  next
    case (loaded i k)
    with assms(1) show ?thesis
      by (auto simp: keys_grow_def keys_ok_def intro: ring_key_length split: if_splits)
  next
    case (created i k)
    have rk: "ring_key st' j = (if j = i then Some k else ring_key st j)" for j
      using created(3,6) by (simp add: ring_key_def)
    with created assms(1) show ?thesis
      by (auto simp: keys_grow_def keys_ok_def split: if_splits)
  qed
  then show "keys_ok st'" "keys_grow st st'"
    "r = Inr k \<Longrightarrow> \<exists>i. cleanClusterID c = Inr i \<and> ring_key st' i = Some k \<and> length k = vaultKeySize"
    by simp_all
qed

lemma store_ok_vaultKey:
  "store_ok st \<Longrightarrow> vaultKey env c st = (r, st') \<Longrightarrow> store_ok st'"
  unfolding store_ok_def
  using vaultKey_spec(1,2) [of st env c r st'] files_ok_grow [of st st']
  by (auto simp: keys_grow_def)

lemma view_vaultKey: "keys_ok st \<Longrightarrow> vaultKey env c st = (r, st') \<Longrightarrow> view st' = view st"
  using vaultKey_spec(2) [of st env c r st'] view_same_fs [of st' st] by (simp add: keys_grow_def)

text \<open>Without failures the key of a cluster that has one is found, and a cluster without one gets one.\<close>

definition env_quiet :: "senv \<Rightarrow> bool" where
  "env_quiet env \<longleftrightarrow>
     quiet (env_fault env) \<and> env_ring_fault env = (\<lambda>_ _. None) \<and>
     (\<exists>f. env_key_rand env = Inr f) \<and> (\<exists>f. env_nonce_rand env = Inr f)"

lemma vaultKey_known:
  assumes "keys_ok st" "env_ring_fault env = (\<lambda>_ _. None)" "cleanClusterID c = Inr i" "ring_key st i = Some k"
  shows "\<exists>st'. vaultKey env c st = (Inr k, st')"
proof -
  obtain r st' where vk: "vaultKey env c st = (r, st')" by fastforce
  have "r = Inr k"
    using assms(1) vk
  proof (cases rule: vaultKey_cases)
    case (error e)
    obtain d where d: "map_of (st_ring st) (vaultKeyName i) = Some d" "decode_key_file d = Inr k"
      using assms(4) by (auto simp: ring_key_def split: option.splits sum.splits)
    with vk error assms show ?thesis
      by (auto simp: vaultKey_def bindS_def wrapS_def KeyringRead_def cache_key_def liftS_def Let_def
          split: if_splits)
  qed (use assms in auto)
  with vk show ?thesis by blast
qed

section \<open>Writing a secret\<close>

text \<open>The view after an operation on one secret: every other secret is as before.\<close>

definition same_but :: "fstore \<Rightarrow> string \<Rightarrow> string \<Rightarrow> fstore \<Rightarrow> bool" where
  "same_but st i p st' \<longleftrightarrow>
     (\<forall>j q. safe_segment j \<longrightarrow> safe_path q \<longrightarrow> (j, q) \<noteq> (i, p) \<longrightarrow> view st' j q = view st j q)"

lemma same_but_refl [simp]: "same_but st i p st"
  by (simp add: same_but_def)

lemma json_ext_last: "json_ext \<noteq> []" "\<not> is_digit (last json_ext)"
  by (simp_all add: json_ext_def is_digit_def less_eq_char_def)

lemma temp_name_not_secret: "temp_name n name \<noteq> secretFilePath j q"
proof
  assume "temp_name n name = secretFilePath j q"
  then have "is_json_file (temp_name n name)" by simp
  then show False using temp_name_suffix json_ext_last by (simp add: is_json_file_def)
qed

lemma secretFilePath_nonempty [simp]: "secretFilePath i p \<noteq> []"
  by (simp add: secretFilePath_def add_ext_def)

lemma writeFile_spec:
  assumes "writeFile env i p f st = (r, st')"
  shows "st' = st\<lparr>st_fs := st_fs st'\<rparr>"
    "only_touches (temp_name (env_tmp env) (secretFilePath i p)) (secretFilePath i p) (Doc f) (st_fs st) (st_fs st')"
    "r = Inr () \<Longrightarrow> file_at (st_fs st') (secretFilePath i p) = Some (Doc f)"
proof -
  obtain e fs' where w: "writeFileAtomic (env_fault env) (env_tmp env) Junk (secretFilePath i p) (Doc f)
      (st_fs st) = (e, fs')" by fastforce
  with assms have r: "r = err_result (wrap_err ''write fakevault secret file: %w'' [] e)" "st' = st\<lparr>st_fs := fs'\<rparr>"
    by (simp_all add: writeFile_def)
  then show "st' = st\<lparr>st_fs := st_fs st'\<rparr>" by simp
  show "only_touches (temp_name (env_tmp env) (secretFilePath i p)) (secretFilePath i p) (Doc f) (st_fs st) (st_fs st')"
    using writeFileAtomic_only [of "secretFilePath i p" "env_tmp env" "Doc f" "st_fs st" "env_fault env" Junk] w r
    by simp
  show "file_at (st_fs st') (secretFilePath i p) = Some (Doc f)" if "r = Inr ()"
  proof -
    have "e = None" using that r(1) by (cases e) (simp_all add: wrap_err_def)
    then show ?thesis using writeFileAtomic_None [OF secretFilePath_nonempty] w r(2) by simp
  qed
qed

lemma writeFile_files:
  assumes "writeFile env i p f st = (r, st')" "safe_segment i" "safe_path p"
    "safe_segment j" "safe_path q"
  shows "(j, q) \<noteq> (i, p) \<Longrightarrow>
      file_at (st_fs st') (secretFilePath j q) = file_at (st_fs st) (secretFilePath j q)"
    "file_at (st_fs st') (secretFilePath i p) = file_at (st_fs st) (secretFilePath i p) \<or>
     file_at (st_fs st') (secretFilePath i p) = Some (Doc f)"
  using writeFile_spec(2) [OF assms(1)] temp_name_not_secret
    secretFilePath_inj [OF assms(4,5,2,3)]
  unfolding only_touches_def by (auto; metis)+

lemma writeFile_shape:
  assumes "writeFile env i p f st = (r, st')" "safe_segment i" "safe_path p" "shape_ok (st_fs st)"
  shows "shape_ok (st_fs st')"
proof -
  obtain e fs' where w: "writeFileAtomic (env_fault env) (env_tmp env) Junk (secretFilePath i p) (Doc f)
      (st_fs st) = (e, fs')" by fastforce
  with assms(1) have "st_fs st' = fs'" by (auto simp: writeFile_def)
  with writeFileAtomic_tree [of "st_fs st"] w assms(4) have "tree_ok (st_fs st')"
    by (metis shape_ok_def snd_conv)
  moreover have "\<exists>q. safe_path q \<and> g = secretFilePath j q"
    if g: "safe_segment j" "prefix (clusterDir j) g" "is_json_file g" "file_at (st_fs st') g \<noteq> None" for j g
  proof (cases "g = secretFilePath i p")
    case True
    then have "j = i" using g(2) prefix_clusterDir [OF assms(2,3)] by simp
    with True assms(3) show ?thesis by blast
  next
    case False
    have "g \<noteq> temp_name (env_tmp env) (secretFilePath i p)"
      using g(3) temp_name_suffix json_ext_last by (auto simp: is_json_file_def)
    with False have "file_at (st_fs st) g \<noteq> None"
      using g(4) writeFile_spec(2) [OF assms(1)] by (simp add: only_touches_def)
    with assms(4) g(1-3) show ?thesis by (simp add: shape_ok_def)
  qed
  ultimately show ?thesis by (simp add: shape_ok_def)
qed

lemma writeFile_ok:
  assumes "writeFile env i p f st = (r, st')" "safe_segment i" "safe_path p" "store_ok st"
    "sealed_ok (ring_key st i) p f"
  shows "store_ok st'" "same_but st i p st'"
    "view st' i p = view st i p \<or> view st' i p = Some (abs_entry f)"
    "r = Inr () \<Longrightarrow> view st' i p = Some (abs_entry f)"
proof -
  have st': "st' = st\<lparr>st_fs := st_fs st'\<rparr>" by (rule writeFile_spec(1) [OF assms(1)])
  then have rk: "ring_key st' j = ring_key st j" for j by (metis ring_key_fs)
  have ko: "keys_ok st'" using st' assms(4) keys_ok_fs unfolding store_ok_def by metis
  note files = writeFile_files [OF assms(1-3)]
  have "files_ok st'"
    unfolding files_ok_def
  proof (intro allI impI)
    fix j q d
    assume j: "safe_segment j" "safe_path q" and d: "file_at (st_fs st') (secretFilePath j q) = Some d"
    have old: "\<exists>f. d' = Doc f \<and> sealed_ok (ring_key st j) q f"
      if "file_at (st_fs st) (secretFilePath j q) = Some d'" for d'
      using that assms(4) j unfolding store_ok_def files_ok_def by blast
    show "\<exists>f. d = Doc f \<and> sealed_ok (ring_key st' j) q f"
    proof (cases "(j, q) = (i, p)")
      case False
      with files(1) [OF j] d old rk show ?thesis by simp
    next
      case True
      then show ?thesis using files(2) [OF j] d old rk assms(5) by auto
    qed
  qed
  moreover have "shape_ok (st_fs st')"
    using writeFile_shape [OF assms(1-3)] assms(4) by (simp add: store_ok_def)
  ultimately show "store_ok st'" using ko by (simp add: store_ok_def)
  show "same_but st i p st'" using files(1) by (simp add: same_but_def view_def)
  show "view st' i p = view st i p \<or> view st' i p = Some (abs_entry f)"
    using files(2) [OF assms(2,3)] by (auto simp: view_def)
  show "view st' i p = Some (abs_entry f)" if "r = Inr ()"
    using writeFile_spec(3) [OF assms(1) that] by (simp add: view_def)
qed

definition new_entry :: "string gomap \<Rightarrow> entry option \<Rightarrow> entry" where
  "new_entry values old =
     \<lparr>e_values = canon_map values, e_archived = False,
      e_version = (case old of None \<Rightarrow> 1 | Some e \<Rightarrow>
        let v = wrap64 (e_version e + 1) in if v \<le> 0 then 1 else v)\<rparr>"

definition entry_version :: "entry option \<Rightarrow> int" where
  "entry_version e = (case e of None \<Rightarrow> 0 | Some e \<Rightarrow> e_version e)"

lemma readFile_Inr:
  assumes "store_ok st" "safe_segment i" "safe_path p" "readFile env i p st = Inr c"
  shows "c = None \<or> (\<exists>f. c = Some f \<and> file_at (st_fs st) (secretFilePath i p) = Some (Doc f) \<and>
           sealed_ok (ring_key st i) p f \<and> view st i p = Some (abs_entry f))"
  using assms(4) view_Some_file [OF assms(1-3)]
  by (auto simp: readFile_def fs_read_def split: sum.splits option.splits filedoc.splits if_splits)

text \<open>A file that the disk reports missing is one that is not there, unless the disk is at fault.\<close>

definition reads_true :: "senv \<Rightarrow> bool" where
  "reads_true env \<longleftrightarrow> (\<forall>p. env_fault env ''ReadFile'' p \<noteq> Some ENOENT)"

lemma readFile_None:
  assumes "readFile env i p st = Inr None" "reads_true env"
  shows "file_at (st_fs st) (secretFilePath i p) = None"
  using assms
  by (auto simp: readFile_def fs_read_def reads_true_def is_not_exist_def
      split: sum.splits option.splits filedoc.splits if_splits)

lemma readFile_version:
  assumes "store_ok st" "safe_segment i" "safe_path p" "readFile env i p st = Inr c" "reads_true env"
  shows "currentVersionOf c = entry_version (view st i p)"
    "c = None \<longleftrightarrow> view st i p = None"
  using readFile_Inr [OF assms(1-4)] readFile_None [OF _ assms(5)] assms(4) view_file [OF assms(1-3)]
  by (auto simp: currentVersionOf_def entry_version_def abs_entry_def file_version_def)

lemma setSecret_cases:
  assumes "setSecret env c p values ver st = (r, st')" "cleanClusterPath c p = Inr (i, q)"
  obtains (refused) e where "r = Inl e" "st' = st"
  | (mismatch) current where "readFile env i q st = Inr current" "r = Inr False" "st' = st"
      "ver \<noteq> None" "ver \<noteq> Some (currentVersionOf current)"
  | (unready) e k where "r = Inl e" "vaultKey env i st = (k, st')"
  | (written) current key nonce st1 w where
      "readFile env i q st = Inr current" "ver = None \<or> ver = Some (currentVersionOf current)"
      "vaultKey env i st = (Inr key, st1)" "length nonce = nonceSize"
      "writeFile env i q (sealed_file env key nonce q
         (if current \<noteq> None then wrap64 (currentVersionOf current + 1) else 1) values) st1 = (w, st')"
      "r = map_sum id (\<lambda>_. True) w"
proof -
  note set = assms(1) [unfolded setSecret_def assms(2) liftS_simps prod.case]
  show thesis
  proof (cases "values = [] \<or> list_ex (\<lambda>(k, v). \<not> utf8_valid k \<or> \<not> utf8_valid v) values")
    case True
    with set refused show ?thesis by (auto simp: liftS_def split: if_splits)
  next
    case ok: False
    show ?thesis
    proof (cases "readFile env i q st")
      case (Inl e)
      with set ok show ?thesis by (intro refused [of e]) (auto simp: bindS_def readS_def)
    next
      case rd: (Inr current)
      show ?thesis
      proof (cases "ver \<noteq> None \<and> ver \<noteq> Some (currentVersionOf current)")
        case True
        with set ok rd mismatch show ?thesis by (auto simp: bindS_def readS_def liftS_def Let_def)
      next
        case ver: False
        obtain k st1 where vk: "vaultKey env i st = (k, st1)" by fastforce
        show ?thesis
        proof (cases "\<exists>key nonce. k = Inr key \<and> rand_read (env_nonce_rand env) nonceSize = Inr nonce \<and> aes_new key = Inr ()")
          case False
          then have "\<exists>e. r = Inl e \<and> st' = st1"
            using set ok rd ver vk
            by (auto simp: bindS_def readS_def liftS_def wrapS_def Let_def split: sum.splits prod.splits)
          with vk unready show ?thesis by blast
        next
          case True
          then obtain key nonce where kn: "k = Inr key" "rand_read (env_nonce_rand env) nonceSize = Inr nonce"
            "aes_new key = Inr ()" by blast
          obtain w st2 where wr: "writeFile env i q (sealed_file env key nonce q
              (if current \<noteq> None then wrap64 (currentVersionOf current + 1) else 1) values) st1 = (w, st2)"
            by fastforce
          have "r = map_sum id (\<lambda>_. True) w" "st' = st2"
            using set ok rd ver vk kn wr
            by (cases w; auto simp: bindS_def readS_def liftS_def wrapS_def Let_def)+
          with wr vk kn(1) ver show ?thesis
            by (intro written [OF rd _ _ rand_read_length [OF kn(2)]]) auto
        qed
      qed
    qed
  qed
qed

lemma cleaned_safe:
  assumes "cleanClusterPath c p = Inr (i, q)"
  shows "safe_segment i" "safe_path q" "cleanClusterID i = Inr i"
  using assms by (auto simp: cleanClusterPath_Inr cleanClusterID_Inr)

lemma abs_sealed_file:
  assumes "st_old = currentVersionOf cur" "cur = None \<longleftrightarrow> old = None" "st_old = entry_version old"
  shows "abs_entry (sealed_file env key nonce q (if cur \<noteq> None then wrap64 (st_old + 1) else 1) values)
    = new_entry values old"
  using assms
  by (cases old) (auto simp: abs_entry_def sealed_file_def new_entry_def file_version_def entry_version_def Let_def)

lemma sealed_sealed_file:
  "length nonce = nonceSize \<Longrightarrow> sealed_ok (Some key) q (sealed_file env key nonce q v values)"
  by (simp add: sealed_ok_def sealed_file_def)

text \<open>
  Writing a secret under any failures: the invariant stays, no other secret changes, the entry is the
  new one when the call succeeds, untouched when the version does not match, and the old or the new
  one when the call fails.
\<close>

lemma setSecret_spec:
  assumes "store_ok st" "reads_true env" "setSecret env c p values ver st = (r, st')"
    "cleanClusterPath c p = Inr (i, q)"
  shows "store_ok st' \<and> same_but st i q st' \<and>
    (case r of
       Inr True \<Rightarrow> view st' i q = Some (new_entry values (view st i q)) \<and>
         (ver = None \<or> ver = Some (entry_version (view st i q)))
     | Inr False \<Rightarrow> st' = st \<and> ver \<noteq> None \<and> ver \<noteq> Some (entry_version (view st i q))
     | Inl e \<Rightarrow> view st' i q = view st i q \<or> view st' i q = Some (new_entry values (view st i q)))"
  using assms(3,4)
proof (cases rule: setSecret_cases)
  case (refused e)
  with assms(1) show ?thesis by simp
next
  case (mismatch current)
  then show ?thesis
    using assms(1) readFile_version(1) [OF assms(1) cleaned_safe(1,2) [OF assms(4)] mismatch(1) assms(2)] by simp
next
  case (unready e k)
  have v: "store_ok st'" "view st' = view st"
    using store_ok_vaultKey [OF assms(1) unready(2)] view_vaultKey [OF _ unready(2)] assms(1)
    by (simp_all add: store_ok_def)
  with unready show ?thesis by (simp add: same_but_def)
next
  case (written current key nonce st1 w)
  note safe = cleaned_safe [OF assms(4)]
  have ko: "keys_ok st" using assms(1) by (simp add: store_ok_def)
  have v: "store_ok st1" "view st1 = view st"
    using store_ok_vaultKey [OF assms(1) written(3)] view_vaultKey [OF ko written(3)] by simp_all
  have key: "ring_key st1 i = Some key"
    using vaultKey_spec(3) [OF ko written(3)] safe(3) by auto
  let ?f = "sealed_file env key nonce q
      (if current \<noteq> None then wrap64 (currentVersionOf current + 1) else 1) values"
  have ent: "abs_entry ?f = new_entry values (view st i q)"
    by (rule abs_sealed_file [OF refl])
      (simp_all add: readFile_version [OF assms(1) safe(1,2) written(1) assms(2)])
  have so: "sealed_ok (ring_key st1 i) q ?f" using key written(4) by (simp add: sealed_sealed_file)
  note wo = writeFile_ok [OF written(5) safe(1,2) v(1) so]
  have "ver = None \<or> ver = Some (entry_version (view st i q))"
    using written(2) readFile_version(1) [OF assms(1) safe(1,2) written(1) assms(2)] by simp
  with wo v ent written(6) show ?thesis
    by (cases w) (auto simp: same_but_def)
qed

lemma setSecret_inv:
  assumes "store_ok st" "setSecret env c p values ver st = (r, st')" "cleanClusterPath c p = Inr (i, q)"
  shows "store_ok st' \<and> same_but st i q st'"
  using assms(2,3)
proof (cases rule: setSecret_cases)
  case (unready e k)
  have "store_ok st'" "view st' = view st"
    using store_ok_vaultKey [OF assms(1) unready(2)] view_vaultKey [OF _ unready(2)] assms(1)
    by (simp_all add: store_ok_def)
  then show ?thesis by (simp add: same_but_def)
next
  case (written current key nonce st1 w)
  note safe = cleaned_safe [OF assms(3)]
  have ko: "keys_ok st" using assms(1) by (simp add: store_ok_def)
  have v: "store_ok st1" "view st1 = view st"
    using store_ok_vaultKey [OF assms(1) written(3)] view_vaultKey [OF ko written(3)] by simp_all
  have "ring_key st1 i = Some key" using vaultKey_spec(3) [OF ko written(3)] safe(3) by auto
  then have "sealed_ok (ring_key st1 i) q (sealed_file env key nonce q
      (if current \<noteq> None then wrap64 (currentVersionOf current + 1) else 1) values)"
    using written(4) by (simp add: sealed_sealed_file)
  with writeFile_ok(1,2) [OF written(5) safe(1,2) v(1)] v(2) show ?thesis by (simp add: same_but_def)
qed (use assms(1) in simp_all)

lemma setSecret_rejected:
  "cleanClusterPath c p = Inl e \<Longrightarrow> setSecret env c p values ver st = (Inl e, st)"
  by (simp add: setSecret_def liftS_def)

section \<open>Reading a secret\<close>

lemma decrypt_spec:
  assumes "store_ok st" "safe_segment i" "cleanClusterID i = Inr i" "sealed_ok (ring_key st i) p f"
    "decrypt env i p f st = (r, st')"
  shows "store_ok st'" "view st' = view st"
    "r = Inr m \<Longrightarrow> m = e_values (abs_entry f)"
    "env_ring_fault env = (\<lambda>_ _. None) \<Longrightarrow> r = Inr (e_values (abs_entry f))"
proof -
  obtain k n m' where f: "Algorithm f = aes256gcm" "ring_key st i = Some k" "length n = nonceSize"
    "Nonce f = std_encode n" "Ciphertext f = SealedText k n (PlainMap m') p"
    using assms(4) by (auto simp: sealed_ok_def)
  obtain key st1 where vk: "vaultKey env i st = (key, st1)" by fastforce
  have ko: "keys_ok st" using assms(1) by (simp add: store_ok_def)
  have v: "store_ok st1" "view st1 = view st"
    using store_ok_vaultKey [OF assms(1) vk] view_vaultKey [OF ko vk] by simp_all
  have st': "st' = st1 \<and> (key = Inr k \<longrightarrow> r = Inr m') \<and> (\<forall>e. key = Inl e \<longrightarrow> r = Inl e)"
    using assms(5) f vk ring_key_length [OF f(2)]
    by (auto simp: decrypt_def bindS_def wrapS_def liftS_def decode_ciphertext_def gcm_open_def
        split: sum.splits if_splits)
  then show "store_ok st'" "view st' = view st" using v by simp_all
  have m': "e_values (abs_entry f) = m'" using f by (simp add: abs_entry_def)
  have kk: "key = Inr k" if "key = Inr k'" for k'
  proof -
    have "ring_key st1 i = Some k'" using vaultKey_spec(3) [OF ko vk that] assms(3) by auto
    moreover have "ring_key st1 i = Some k" using vaultKey_spec(2) [OF ko vk] f(2) by (simp add: keys_grow_def)
    ultimately show ?thesis using that by simp
  qed
  show "m = e_values (abs_entry f)" if "r = Inr m"
    using that st' kk m' by (cases key) auto
  show "r = Inr (e_values (abs_entry f))" if "env_ring_fault env = (\<lambda>_ _. None)"
    using vaultKey_known [OF ko that assms(3) f(2)] vk st' m' by auto
qed

text \<open>Reading returns what the view holds and leaves the view as it is.\<close>

lemma GetSecret_spec:
  assumes "store_ok st" "GetSecret env c p st = (r, st')"
  shows "store_ok st'" "view st' = view st"
    "r = Inr (Some m) \<Longrightarrow> \<exists>i q e. cleanClusterPath c p = Inr (i, q) \<and> view st i q = Some e \<and>
       \<not> e_archived e \<and> m = e_values e"
    "r = Inr None \<Longrightarrow> reads_true env \<Longrightarrow> \<exists>i q. cleanClusterPath c p = Inr (i, q) \<and>
       (\<forall>e. view st i q = Some e \<longrightarrow> e_archived e)"
proof -
  have "store_ok st' \<and> view st' = view st \<and>
    (\<forall>m. r = Inr (Some m) \<longrightarrow> (\<exists>i q e. cleanClusterPath c p = Inr (i, q) \<and> view st i q = Some e \<and>
       \<not> e_archived e \<and> m = e_values e)) \<and>
    (r = Inr None \<longrightarrow> reads_true env \<longrightarrow> (\<exists>i q. cleanClusterPath c p = Inr (i, q) \<and>
       (\<forall>e. view st i q = Some e \<longrightarrow> e_archived e)))"
  proof (cases "cleanClusterPath c p")
    case (Inl e)
    with assms show ?thesis by (auto simp: GetSecret_def liftS_def)
  next
    case (Inr iq)
    then obtain i q where iq: "cleanClusterPath c p = Inr (i, q)" by (cases iq) auto
    note safe = cleaned_safe [OF iq]
    note get = assms(2) [unfolded GetSecret_def iq liftS_simps prod.case]
    show ?thesis
    proof (cases "readFile env i q st")
      case (Inl e)
      with get assms(1) show ?thesis by (auto simp: bindS_def readS_def)
    next
      case rd: (Inr cur)
      show ?thesis
      proof (cases cur)
        case None
        then have "view st i q = None" if "reads_true env"
          using readFile_version(2) [OF assms(1) safe(1,2) rd that] by simp
        with get rd None assms(1) iq show ?thesis by (auto simp: bindS_def readS_def liftS_def)
      next
        case (Some f)
        then have f: "sealed_ok (ring_key st i) q f" "view st i q = Some (abs_entry f)"
          using readFile_Inr [OF assms(1) safe(1,2) rd] by auto
        show ?thesis
        proof (cases "Archived f")
          case True
          with get rd Some f iq assms(1) show ?thesis
            by (auto simp: bindS_def readS_def liftS_def abs_entry_def)
        next
          case False
          obtain d st1 where dc: "decrypt env i q f st = (d, st1)" by fastforce
          have "r = map_sum id Some d" "st' = st1"
            using get rd Some False dc by (cases d; auto simp: bindS_def readS_def liftS_def)+
          moreover note decrypt_spec(1-3) [OF assms(1) safe(1,3) f(1) dc]
          moreover have "\<not> e_archived (abs_entry f)" using False by (simp add: abs_entry_def)
          ultimately show ?thesis using iq f(2) by (cases d) auto
        qed
      qed
    qed
  qed
  then show "store_ok st'" "view st' = view st"
    "r = Inr (Some m) \<Longrightarrow> \<exists>i q e. cleanClusterPath c p = Inr (i, q) \<and> view st i q = Some e \<and>
       \<not> e_archived e \<and> m = e_values e"
    "r = Inr None \<Longrightarrow> reads_true env \<Longrightarrow> \<exists>i q. cleanClusterPath c p = Inr (i, q) \<and>
       (\<forall>e. view st i q = Some e \<longrightarrow> e_archived e)"
    by blast+
qed

text \<open>Without failures a readable secret is returned, with the values last stored.\<close>

lemma readFile_quiet:
  "quiet (env_fault env) \<Longrightarrow> file_at (st_fs st) (secretFilePath i p) = Some (Doc f) \<Longrightarrow>
   readFile env i p st = Inr (Some f)"
  by (simp add: readFile_def fs_read_def quiet_def)

lemma quiet_reads_true: "quiet (env_fault env) \<Longrightarrow> reads_true env"
  by (simp add: quiet_def reads_true_def)

lemma GetSecret_found:
  assumes "store_ok st" "env_quiet env" "cleanClusterPath c p = Inr (i, q)" "view st i q = Some e"
  shows "fst (GetSecret env c p st) = Inr (if e_archived e then None else Some (e_values e))"
proof -
  note safe = cleaned_safe [OF assms(3)]
  have env: "quiet (env_fault env)" "env_ring_fault env = (\<lambda>_ _. None)"
    using assms(2) by (simp_all add: env_quiet_def)
  obtain d where d: "file_at (st_fs st) (secretFilePath i q) = Some d"
    using view_file [OF assms(1) safe(1,2)] assms(4) by auto
  obtain f where f: "d = Doc f" "sealed_ok (ring_key st i) q f" "view st i q = Some (abs_entry f)"
    using view_Some_file [OF assms(1) safe(1,2) d] by blast
  have rd: "readFile env i q st = Inr (Some f)" using d f(1) env(1) by (simp add: readFile_quiet)
  have e: "e = abs_entry f" using f(3) assms(4) by simp
  show ?thesis
  proof (cases "Archived f")
    case True
    with rd e assms(3) show ?thesis
      by (simp add: GetSecret_def bindS_def readS_def liftS_def abs_entry_def)
  next
    case False
    obtain r st1 where dc: "decrypt env i q f st = (r, st1)" by fastforce
    have "r = Inr (e_values (abs_entry f))"
      by (rule decrypt_spec(4) [OF assms(1) safe(1,3) f(2) dc env(2)])
    with dc rd e assms(3) False show ?thesis
      by (simp add: GetSecret_def bindS_def readS_def liftS_def abs_entry_def)
  qed
qed

lemma GetSecret_error: "cleanClusterPath c p = Inl e \<Longrightarrow> GetSecret env c p st = (Inl e, st)"
  by (simp add: GetSecret_def liftS_def)

section \<open>Archiving, deleting\<close>

definition archived_entry :: "bool \<Rightarrow> entry option \<Rightarrow> entry option" where
  "archived_entry b = map_option (\<lambda>e. e\<lparr>e_archived := b\<rparr>)"

lemma setArchived_spec:
  assumes "store_ok st" "setArchived env c p b st = (r, st')" "cleanClusterPath c p = Inr (i, q)"
  shows "store_ok st' \<and> same_but st i q st' \<and>
    (view st' i q = view st i q \<or> view st' i q = archived_entry b (view st i q)) \<and>
    (r = Inr () \<longrightarrow> reads_true env \<longrightarrow> view st' i q = archived_entry b (view st i q))"
proof -
  note safe = cleaned_safe [OF assms(3)]
  note sa = assms(2) [unfolded setArchived_def assms(3) liftS_simps prod.case]
  show ?thesis
  proof (cases "readFile env i q st")
    case (Inl e)
    with sa assms(1) show ?thesis by (auto simp: bindS_def readS_def)
  next
    case rd: (Inr cur)
    show ?thesis
    proof (cases cur)
      case None
      then have "view st i q = None" if "reads_true env"
        using readFile_version(2) [OF assms(1) safe(1,2) rd that] by simp
      with sa rd None assms(1) show ?thesis
        by (auto simp: bindS_def readS_def liftS_def archived_entry_def)
    next
      case (Some f)
      then have f: "sealed_ok (ring_key st i) q f" "view st i q = Some (abs_entry f)"
        using readFile_Inr [OF assms(1) safe(1,2) rd] by auto
      let ?f = "f\<lparr>Archived := b, UpdatedAt := env_now env\<rparr>"
      have w: "writeFile env i q ?f st = (r, st')"
        using sa rd Some by (simp add: bindS_def readS_def)
      have so: "sealed_ok (ring_key st i) q ?f" using f(1) by (simp add: sealed_ok_def)
      have "Some (abs_entry ?f) = archived_entry b (view st i q)"
        using f(2) by (simp add: archived_entry_def abs_entry_def file_version_def)
      with writeFile_ok [OF w safe(1,2) assms(1) so] f(2) show ?thesis by auto
    qed
  qed
qed

lemma setArchived_rejected: "cleanClusterPath c p = Inl e \<Longrightarrow> setArchived env c p b st = (Inl e, st)"
  by (simp add: setArchived_def liftS_def)

text \<open>Removing files keeps the invariant.\<close>

definition fewer_files :: "'d fs \<Rightarrow> 'd fs \<Rightarrow> bool" where
  "fewer_files fs fs' \<longleftrightarrow> (\<forall>f. file_at fs' f = file_at fs f \<or> file_at fs' f = None)"

lemma fewer_files_ok:
  assumes "store_ok st" "fewer_files (st_fs st) fs'" "tree_ok fs'"
  shows "store_ok (st\<lparr>st_fs := fs'\<rparr>)"
proof -
  have f: "file_at fs' g = Some d \<Longrightarrow> file_at (st_fs st) g = Some d" for g d
    using assms(2) unfolding fewer_files_def by (metis option.distinct(1))
  have "files_ok (st\<lparr>st_fs := fs'\<rparr>)"
    using assms(1) f unfolding store_ok_def files_ok_def by simp
  moreover have "shape_ok fs'"
    using assms(1,3) f unfolding store_ok_def shape_ok_def by (metis not_None_eq)
  ultimately show ?thesis using assms(1) by (simp add: store_ok_def)
qed

lemma fs_remove_fewer: "fewer_files fs (snd (fs_remove fault p fs))"
  by (auto simp: fewer_files_def fs_remove_def split: option.splits)

lemma fs_remove_other: "q \<noteq> p \<Longrightarrow> file_at (snd (fs_remove fault p fs)) q = file_at fs q"
  by (auto simp: fs_remove_def split: option.splits)

lemma fs_remove_gone: "fs_remove fault p fs = (None, fs') \<Longrightarrow> file_at fs' p = None"
  by (auto simp: fs_remove_def split: option.splits if_splits)

lemma fs_remove_missing:
  "fs_remove fault p fs = (Some e, fs') \<Longrightarrow> fault ''Remove'' p \<noteq> Some ENOENT \<Longrightarrow> is_not_exist e \<Longrightarrow> file_at fs' p = None"
  by (auto simp: fs_remove_def is_not_exist_def split: option.splits if_splits)

definition removes_true :: "senv \<Rightarrow> bool" where
  "removes_true env \<longleftrightarrow> (\<forall>p. env_fault env ''Remove'' p \<noteq> Some ENOENT)"

lemma DeleteSecret_spec:
  assumes "store_ok st" "DeleteSecret env c p st = (r, st')" "cleanClusterPath c p = Inr (i, q)"
  shows "store_ok st' \<and> same_but st i q st' \<and> (view st' i q = view st i q \<or> view st' i q = None) \<and>
    (r = Inr () \<longrightarrow> removes_true env \<longrightarrow> view st' i q = None)"
proof -
  note safe = cleaned_safe [OF assms(3)]
  obtain e fs' where rm: "fs_remove (env_fault env) (secretFilePath i q) (st_fs st) = (e, fs')" by fastforce
  have st': "st' = st\<lparr>st_fs := fs'\<rparr>"
    using assms(2,3) rm by (cases e) (auto simp: DeleteSecret_def)
  have t: "tree_ok fs'"
    using tree_ok_remove [of "st_fs st"] assms(1) rm by (metis shape_ok_def store_ok_def snd_conv)
  have fw: "fewer_files (st_fs st) fs'" using fs_remove_fewer rm by (metis snd_conv)
  have so: "store_ok st'" using fewer_files_ok [OF assms(1) fw t] st' by simp
  have other: "file_at fs' (secretFilePath j q') = file_at (st_fs st) (secretFilePath j q')"
    if "safe_segment j" "safe_path q'" "(j, q') \<noteq> (i, q)" for j q'
    using fs_remove_other [of "secretFilePath j q'" "secretFilePath i q" "env_fault env" "st_fs st"] rm
      secretFilePath_inj [OF that(1,2) safe(1,2)] that(3) by auto
  have "view st' i q = view st i q \<or> view st' i q = None"
    using fw st' by (auto simp: view_def fewer_files_def split: option.splits)
       (metis option.distinct(1) option.inject)+
  moreover have "view st' i q = None" if "r = Inr ()" "removes_true env"
  proof -
    have "e = None \<or> (\<exists>x. e = Some x \<and> is_not_exist x)"
      using that(1) assms(2,3) rm by (cases e) (auto simp: DeleteSecret_def split: if_splits)
    then have "file_at fs' (secretFilePath i q) = None"
      using fs_remove_gone fs_remove_missing rm that(2) unfolding removes_true_def by blast
    then show ?thesis using st' by (simp add: view_def)
  qed
  ultimately show ?thesis using so other st' by (auto simp: same_but_def view_def)
qed

lemma DeleteSecret_rejected: "cleanClusterPath c p = Inl e \<Longrightarrow> DeleteSecret env c p st = (Inl e, st)"
  by (simp add: DeleteSecret_def liftS_def)

lemma remove_all_files:
  "file_at (snd (fs_remove_all fault p fs)) q = file_at fs q \<or>
   prefix p q \<and> file_at (snd (fs_remove_all fault p fs)) q = None"
proof -
  have "map_of (filter (\<lambda>(f, _). P f) xs) q = (if P q then map_of xs q else None)" for P and xs :: "(fpath \<times> 'a) list"
    by (induction xs) auto
  then show ?thesis by (auto simp: fs_remove_all_def Let_def file_at_def)
qed

lemma remove_all_gone:
  assumes "fs_remove_all fault p fs = (None, fs')" "tree_ok fs" "prefix p q"
  shows "file_at fs' q = None"
proof (cases "file_at fs p = None \<and> \<not> dir_at fs p")
  case True
  then have "fs' = fs" using assms(1) by (simp add: fs_remove_all_def)
  moreover have "file_at fs q = None"
  proof (rule ccontr)
    assume f: "file_at fs q \<noteq> None"
    then have "q \<noteq> p" using True by auto
    then have "strict_prefix p q" using assms(3) by (simp add: strict_prefix_def)
    then show False using True f assms(2) unfolding tree_ok_def by blast
  qed
  ultimately show ?thesis by simp
next
  case False
  let ?stuck = "filter (\<lambda>f. prefix p f \<and> fault ''Remove'' f \<noteq> None) (map fst (fs_files fs))"
  from False assms(1) have fs': "first_err (fault ''Remove'') ?stuck = None"
    "fs_files fs' = filter (\<lambda>(f, _). prefix p f \<longrightarrow> f \<in> set ?stuck) (fs_files fs)"
    by (auto simp: fs_remove_all_def Let_def split: if_splits)
  then have "?stuck = []" by (auto simp: filter_empty_conv)
  then show ?thesis using fs'(2) assms(3) by (auto simp: file_at_def map_of_eq_None_iff)
qed

lemma ring_key_del: "ring_key (st\<lparr>st_ring := del_key (vaultKeyName i) (st_ring st)\<rparr>) j =
    (if j = i then None else ring_key st j)"
  by (simp add: ring_key_def)

text \<open>
  Deleting a cluster removes all its secrets and its key, or fails with some of them left; another
  cluster loses nothing.
\<close>

lemma DeleteCluster_spec:
  assumes "store_ok st" "DeleteCluster env c st = (r, st')" "cleanClusterID c = Inr i"
  shows "store_ok st' \<and> (\<forall>j. safe_segment j \<longrightarrow> j \<noteq> i \<longrightarrow> (\<forall>p. safe_path p \<longrightarrow> view st' j p = view st j p)) \<and>
    (\<forall>p. safe_path p \<longrightarrow> view st' i p = view st i p \<or> view st' i p = None) \<and>
    (r = Inr () \<longrightarrow> (\<forall>p. safe_path p \<longrightarrow> view st' i p = None) \<and> ring_key st' i = None)"
proof -
  have safe: "safe_segment i" using assms(3) cleanClusterID_Inr by blast
  obtain e fs' where rm: "fs_remove_all (env_fault env) (clusterDir i) (st_fs st) = (e, fs')" by fastforce
  define st1 where "st1 = st\<lparr>st_fs := fs'\<rparr>"
  have tree: "tree_ok (st_fs st)" using assms(1) by (simp add: store_ok_def shape_ok_def)
  have t: "tree_ok fs'" using tree_ok_remove_all [OF tree] rm by (metis snd_conv)
  have rmf: "file_at fs' q = file_at (st_fs st) q \<or> prefix (clusterDir i) q \<and> file_at fs' q = None" for q
    using remove_all_files [of "env_fault env" "clusterDir i" "st_fs st" q] rm by simp
  have "file_at fs' q = file_at (st_fs st) q \<or> file_at fs' q = None" for q
    using rmf [of q] by argo
  then have fw: "fewer_files (st_fs st) fs'" by (simp add: fewer_files_def)
  have so1: "store_ok st1" unfolding st1_def by (rule fewer_files_ok [OF assms(1) fw t])
  have v1: "view st1 j p = view st j p" if "safe_segment j" "safe_path p" "j \<noteq> i" for j p
    using rmf [of "secretFilePath j p"] prefix_clusterDir [OF that(1,2)] that(3) by (simp add: view_def st1_def)
  have v1i: "view st1 i p = view st i p \<or> view st1 i p = None" for p
    using rmf [of "secretFilePath i p"] by (auto simp: view_def st1_def)
  show ?thesis
  proof (cases "e = None \<and> env_ring_fault env ''delete'' (vaultKeyName i) = None")
    case False
    then have "st' = st1 \<and> (\<exists>x. r = Inl x)"
      using assms(2,3) rm unfolding st1_def
      by (cases e; cases "env_ring_fault env ''delete'' (vaultKeyName i)")
        (auto simp: DeleteCluster_def bindS_def wrap_err_def KeyringDelete_def wrapS_def)
    then show ?thesis using so1 v1 v1i by auto
  next
    case True
    define st2 where "st2 = st1\<lparr>st_ring := del_key (vaultKeyName i) (st_ring st1)\<rparr>"
    have r: "r = Inr ()" "st' = st2\<lparr>st_keys := del_key i (st_keys st2)\<rparr>"
      using True assms(2,3) rm unfolding st2_def st1_def
      by (auto simp: DeleteCluster_def bindS_def wrap_err_def KeyringDelete_def wrapS_def)
    have rk: "ring_key st' j = (if j = i then None else ring_key st j)" for j
      unfolding r(2) ring_key_keys st2_def ring_key_del by (simp add: st1_def)
    have fs: "st_fs st' = fs'" using r(2) by (simp add: st2_def st1_def)
    have gone: "file_at fs' (secretFilePath i p) = None" if "safe_path p" for p
      using remove_all_gone [of "env_fault env" "clusterDir i" "st_fs st" fs'] rm True tree
        prefix_clusterDir [OF safe that] by simp
    have "keys_ok st'"
      using so1 rk r(2) unfolding store_ok_def keys_ok_def st2_def st1_def by auto
    moreover have "files_ok st'"
      unfolding files_ok_def fs
    proof (intro allI impI)
      fix j p d
      assume a: "safe_segment j" "safe_path p" "file_at fs' (secretFilePath j p) = Some d"
      then have "j \<noteq> i" using gone by auto
      moreover have "files_ok st1" "st_fs st1 = fs'" using so1 by (simp_all add: store_ok_def st1_def)
      then have "\<exists>f. d = Doc f \<and> sealed_ok (ring_key st1 j) p f"
        using a unfolding files_ok_def by simp
      then obtain f where "d = Doc f" "sealed_ok (ring_key st1 j) p f" by blast
      ultimately show "\<exists>f. d = Doc f \<and> sealed_ok (ring_key st' j) p f"
        using rk by (auto simp: st1_def)
    qed
    moreover have "shape_ok (st_fs st')" using so1 fs by (simp add: store_ok_def st1_def)
    ultimately have "store_ok st'" by (simp add: store_ok_def)
    moreover have "view st' = view st1" using fs by (simp add: view_def st1_def fun_eq_iff)
    ultimately show ?thesis using v1 v1i gone rk by (auto simp: view_def st1_def)
  qed
qed

lemma DeleteCluster_rejected: "cleanClusterID c = Inl e \<Longrightarrow> DeleteCluster env c st = (Inl e, st)"
  by (simp add: DeleteCluster_def liftS_def)

lemma Unlock_spec:
  assumes "store_ok st" "Unlock env c st = (r, st')"
  shows "store_ok st'" "view st' = view st"
    "r = Inr () \<Longrightarrow> \<exists>i k. cleanClusterID c = Inr i \<and> ring_key st' i = Some k"
proof -
  obtain k st1 where vk: "vaultKey env c st = (k, st1)" by fastforce
  have u: "st' = st1" "r = map_sum id (\<lambda>_. ()) k"
    using assms(2) vk by (cases k; auto simp: Unlock_def bindS_def liftS_def)+
  have ko: "keys_ok st" using assms(1) by (simp add: store_ok_def)
  show "store_ok st'" "view st' = view st"
    using u store_ok_vaultKey [OF assms(1) vk] view_vaultKey [OF ko vk] by simp_all
  show "\<exists>i k. cleanClusterID c = Inr i \<and> ring_key st' i = Some k" if "r = Inr ()"
    using that u vaultKey_spec(3) [OF ko vk] by (cases k) auto
qed

section \<open>Listing\<close>

definition secret_of :: "string \<Rightarrow> entry \<Rightarrow> Secret" where
  "secret_of p e = \<lparr>sPath = p, sKeys = sort (map fst (e_values e)), sArchived = e_archived e, sVersion = e_version e\<rparr>"

lemma walk_secrets_spec:
  assumes "store_ok st" "reads_true env" "safe_segment i" "distinct names"
    "\<forall>f \<in> set names. prefix (clusterDir i) f" "walk_secrets env i st names = Inr ss"
  shows "distinct (map sPath ss) \<and>
    (\<forall>s. s \<in> set ss \<longleftrightarrow> (\<exists>p e. safe_path p \<and> secretFilePath i p \<in> set names \<and> view st i p = Some e \<and> s = secret_of p e))"
  using assms(4-6)
proof (induction names arbitrary: ss)
  case Nil
  then show ?case by simp
next
  case (Cons f names)
  have skip: ?case if same: "walk_secrets env i st names = Inr ss"
    and none: "\<And>p. safe_path p \<Longrightarrow> secretFilePath i p = f \<Longrightarrow> view st i p = None"
  proof -
    have "distinct names" "\<forall>f \<in> set names. prefix (clusterDir i) f" using Cons.prems by simp_all
    note ih = Cons.IH [OF this same]
    have "(\<exists>p e. safe_path p \<and> secretFilePath i p \<in> set (f # names) \<and> view st i p = Some e \<and> s = secret_of p e) \<longleftrightarrow>
          (\<exists>p e. safe_path p \<and> secretFilePath i p \<in> set names \<and> view st i p = Some e \<and> s = secret_of p e)" for s
      using none by (auto; metis option.distinct(1))
    with ih show ?thesis by simp
  qed
  show ?case
  proof (cases "file_at (st_fs st) f = None \<or> \<not> is_json_file f")
    case True
    then have "walk_secrets env i st names = Inr ss"
      using Cons.prems(3) by (auto split: option.splits if_splits)
    moreover have "view st i p = None" if "safe_path p" "secretFilePath i p = f" for p
      using True that is_json_secretFilePath [of i p] by (auto simp: view_def)
    ultimately show ?thesis by (rule skip)
  next
    case False
    then obtain p where p: "safe_path p" "f = secretFilePath i p"
    proof -
      have "prefix (clusterDir i) f" using Cons.prems(2) by simp
      then have "\<exists>p. safe_path p \<and> f = secretFilePath i p"
        using assms(1,3) False unfolding store_ok_def shape_ok_def by blast
      then show ?thesis using that by blast
    qed
    have path: "listed_path (drop (length (clusterDir i)) f) = p"
      by (simp add: p(2) secretFilePath_alt [OF assms(3) p(1)])
    obtain d where "file_at (st_fs st) (secretFilePath i p) = Some d" using False p(2) by auto
    then obtain g where g: "sealed_ok (ring_key st i) p g" "view st i p = Some (abs_entry g)"
      "file_at (st_fs st) (secretFilePath i p) = Some (Doc g)"
      using view_Some_file [OF assms(1,3) p(1)] by blast
    obtain cur where cur: "readFile env i p st = Inr cur"
      using Cons.prems(3) False path by (auto simp: Let_def split: sum.splits)
    then have "cur = Some g"
      using readFile_Inr [OF assms(1,3) p(1) cur] readFile_version(2) [OF assms(1,3) p(1) cur assms(2)] g by auto
    with cur Cons.prems(3) False path obtain rest where rest: "walk_secrets env i st names = Inr rest"
      "ss = \<lparr>sPath = p, sKeys = sort (Keys g), sArchived = Archived g, sVersion = file_version g\<rparr> # rest"
      by (auto simp: Let_def bindR_Inr_iff file_version_def)
    have s: "hd ss = secret_of p (abs_entry g)"
      using g(1) rest(2) by (auto simp: secret_of_def abs_entry_def sealed_ok_def)
    have "distinct names" "\<forall>f \<in> set names. prefix (clusterDir i) f" using Cons.prems by simp_all
    note ih = Cons.IH [OF this rest(1)]
    have "p \<notin> set (map sPath rest)"
      using ih Cons.prems(1) p(2) by (auto simp: secret_of_def)
    moreover have only: "q = p" if "safe_path q" "secretFilePath i q = f" for q
      using that p secretFilePath_inj [OF assms(3) that(1) assms(3) p(1)] by simp
    have ss: "ss = secret_of p (abs_entry g) # rest" using s rest(2) by simp
    have "x \<in> set ss \<longleftrightarrow> (\<exists>q e. safe_path q \<and> secretFilePath i q \<in> set (f # names) \<and> view st i q = Some e \<and> x = secret_of q e)" for x
    proof
      assume "x \<in> set ss"
      then consider "x = secret_of p (abs_entry g)" | "x \<in> set rest" using ss by auto
      then show "\<exists>q e. safe_path q \<and> secretFilePath i q \<in> set (f # names) \<and> view st i q = Some e \<and> x = secret_of q e"
      proof cases
        case 1
        then show ?thesis using p g(2) by (intro exI [of _ p] exI [of _ "abs_entry g"]) simp
      next
        case 2
        then show ?thesis using ih by (metis list.set_intros(2))
      qed
    next
      assume "\<exists>q e. safe_path q \<and> secretFilePath i q \<in> set (f # names) \<and> view st i q = Some e \<and> x = secret_of q e"
      then obtain q e where q: "safe_path q" "secretFilePath i q \<in> set (f # names)" "view st i q = Some e"
        "x = secret_of q e" by blast
      show "x \<in> set ss"
      proof (cases "secretFilePath i q = f")
        case True
        then have "q = p" using only q(1) by simp
        with q g(2) ss show ?thesis by simp
      next
        case False
        with q have "x \<in> set rest" using ih by auto
        with ss show ?thesis by simp
      qed
    qed
    ultimately show ?thesis using ih ss by (simp add: secret_of_def)
  qed
qed

definition stats_true :: "senv \<Rightarrow> bool" where
  "stats_true env \<longleftrightarrow> (\<forall>p. env_fault env ''Stat'' p \<noteq> Some ENOENT)"

lemma ListSecrets_state: "snd (ListSecrets env c st) = st"
  by (auto simp: ListSecrets_def bindS_def liftS_def Let_def split: sum.splits option.splits prod.splits)

lemma strict_prefix_secret: "safe_segment i \<Longrightarrow> safe_path p \<Longrightarrow> strict_prefix (clusterDir i) (secretFilePath i p)"
  by (simp add: secretFilePath_alt add_ext_def strict_prefix_def prefix_def)

text \<open>The listing is exactly the view of the cluster, sorted by path.\<close>

lemma ListSecrets_spec:
  assumes "store_ok st" "reads_true env" "stats_true env" "ListSecrets env c st = (Inr ss, st')"
  shows "\<exists>i. cleanClusterID c = Inr i \<and> sorted (map sPath ss) \<and> distinct (map sPath ss) \<and>
    (\<forall>s. s \<in> set ss \<longleftrightarrow> (\<exists>p e. safe_path p \<and> view st i p = Some e \<and> s = secret_of p e))"
proof -
  obtain i where i: "cleanClusterID c = Inr i"
    using assms(4) by (cases "cleanClusterID c") (auto simp: ListSecrets_def liftS_def)
  then have safe: "safe_segment i" using cleanClusterID_Inr by blast
  have tree: "tree_ok (st_fs st)" using assms(1) by (simp add: store_ok_def shape_ok_def)
  show ?thesis
  proof (cases "fs_stat (env_fault env) (clusterDir i) (st_fs st)")
    case (Some e)
    with assms(4) i have ss: "ss = []" "is_not_exist e" by (auto simp: ListSecrets_def split: if_splits)
    then have "\<not> dir_at (st_fs st) (clusterDir i)"
      using Some assms(3) by (auto simp: fs_stat_def stats_true_def is_not_exist_def split: option.splits if_splits)
    then have "view st i p = None" if "safe_path p" for p
      using tree_ok_parent [OF tree _ strict_prefix_secret [OF safe that]]
      by (auto simp: view_def split: option.splits)
    with i ss(1) show ?thesis by auto
  next
    case None
    then obtain ws where ws: "walk_secrets env i st (walk_entries (clusterDir i) (st_fs st)) = Inr ws"
      "ss = sort_key sPath ws"
      using assms(4) i by (auto simp: ListSecrets_def Let_def split: sum.splits)
    have "distinct (walk_entries (clusterDir i) (st_fs st))" by (simp add: walk_entries_def)
    moreover have "\<forall>f \<in> set (walk_entries (clusterDir i) (st_fs st)). prefix (clusterDir i) f"
      by (simp add: set_walk_entries)
    ultimately have w: "distinct (map sPath ws)"
      "\<And>s. s \<in> set ws \<longleftrightarrow> (\<exists>p e. safe_path p \<and> secretFilePath i p \<in> set (walk_entries (clusterDir i) (st_fs st)) \<and>
         view st i p = Some e \<and> s = secret_of p e)"
      using walk_secrets_spec [OF assms(1,2) safe _ _ ws(1)] by blast+
    have "secretFilePath i p \<in> set (walk_entries (clusterDir i) (st_fs st))"
      if "safe_path p" "view st i p = Some e" for p e
      using that prefix_clusterDir [OF safe that(1)]
      by (auto simp: set_walk_entries view_def split: option.splits)
    then have "s \<in> set ss \<longleftrightarrow> (\<exists>p e. safe_path p \<and> view st i p = Some e \<and> s = secret_of p e)" for s
      using w(2) ws(2) by auto
    moreover have "distinct (map sPath ss)"
      using w(1) ws(2) by (simp add: distinct_map)
    ultimately show ?thesis using i ws(2) by auto
  qed
qed

end
