(* ===== verification/Json.thy ===== *)
theory Json
  imports GoStrings
begin

text \<open>
  JSON values as Go decodes them into \<open>any\<close>, and the helpers of \<open>pkg/netsyseed\<close> on decoded objects:
  \<open>ensureMap\<close>, \<open>mapField\<close>, \<open>stringValue\<close>, \<open>nestedSlice\<close> and \<open>deepMerge\<close>. An object is an association list with
  distinct keys. A Go function that changes a nested map in place returns the changed object here.
\<close>

section \<open>Values\<close>

datatype json =
    JNull
  | JBool bool
  | JNum rat
  | JStr string
  | JArr "json list"
  | JObj "(string \<times> json) list"

type_synonym fields = "json gomap"

lemma json_size_arr: "x \<in> set xs \<Longrightarrow> size x < Suc (size_list size xs)"
  by (induction xs) auto

lemma json_size_obj: "(k, v) \<in> set kvs \<Longrightarrow> size v < Suc (size_list (size_prod (\<lambda>x. 0) size) kvs)"
  by (induction kvs) auto

lemma json_size_field: "map_of kvs k = Some v \<Longrightarrow> size v < Suc (size_list (size_prod (\<lambda>x. 0) size) kvs)"
  by (rule json_size_obj [OF map_of_SomeD])

text \<open>The keys of every object are distinct: what decoding into Go maps gives.\<close>

function json_ok :: "json \<Rightarrow> bool" where
  "json_ok JNull = True"
| "json_ok (JBool b) = True"
| "json_ok (JNum x) = True"
| "json_ok (JStr s) = True"
| "json_ok (JArr xs) = list_all json_ok xs"
| "json_ok (JObj kvs) = (distinct (map fst kvs) \<and> list_all (\<lambda>(k, v). json_ok v) kvs)"
  by pat_completeness auto
termination
  by (relation "measure size") (auto simp: json_size_arr json_size_obj)

text \<open>The value at a path of keys.\<close>

fun value_at :: "string list \<Rightarrow> json \<Rightarrow> json option" where
  "value_at [] j = Some j"
| "value_at (k # ks) (JObj kvs) = Option.bind (map_of kvs k) (value_at ks)"
| "value_at (k # ks) j = None"

definition is_obj :: "json \<Rightarrow> bool" where
  "is_obj j = (case j of JObj kvs \<Rightarrow> True | _ \<Rightarrow> False)"

lemma is_obj_simps [simp]:
  "is_obj (JObj kvs)" "\<not> is_obj JNull" "\<not> is_obj (JBool b)" "\<not> is_obj (JNum x)" "\<not> is_obj (JStr s)" "\<not> is_obj (JArr xs)"
  by (simp_all add: is_obj_def)

lemma is_obj_iff: "is_obj j \<longleftrightarrow> (\<exists>kvs. j = JObj kvs)"
  by (cases j) simp_all

lemma at_not_obj: "\<not> is_obj j \<Longrightarrow> value_at ks j = (if ks = [] then Some j else None)"
  by (cases ks; cases j) simp_all

lemma at_append: "value_at (ks @ ls) j = Option.bind (value_at ks j) (value_at ls)"
  by (induction ks j rule: value_at.induct) (simp_all split: bind_split)

section \<open>Fields\<close>

definition stringValue :: "json option \<Rightarrow> string" where
  "stringValue v = (case v of Some (JStr s) \<Rightarrow> s | _ \<Rightarrow> [])"

text \<open>
  \<open>ensureMap\<close> (\<open>ensureChildMap\<close> in \<open>values.go\<close>) and \<open>mapField\<close> answer the child object and the parent, in which a
  missing child has been created; the caller puts a changed child back.
\<close>

definition ensureMap :: "fields \<Rightarrow> string \<Rightarrow> fields \<times> fields" where
  "ensureMap parent key =
     (case map_of parent key of Some (JObj child) \<Rightarrow> (child, parent) | _ \<Rightarrow> ([], put_key key (JObj []) parent))"

definition mapField :: "fields \<Rightarrow> string \<Rightarrow> string \<Rightarrow> (fields \<times> fields) result" where
  "mapField parent key context =
     (case map_of parent key of
        None \<Rightarrow> Inr ([], put_key key (JObj []) parent)
      | Some (JObj child) \<Rightarrow> Inr (child, parent)
      | Some _ \<Rightarrow> Inl (Errorf ''%s has malformed %s'' [S context, S key]))"

text \<open>A change of the object below a path of keys, made with \<open>ensureMap\<close>; and one made with \<open>mapField\<close>.\<close>

fun ensure_at :: "string list \<Rightarrow> (fields \<Rightarrow> fields) \<Rightarrow> fields \<Rightarrow> fields" where
  "ensure_at [] f obj = f obj"
| "ensure_at (k # ks) f obj = (case ensureMap obj k of (child, parent) \<Rightarrow> put_key k (JObj (ensure_at ks f child)) parent)"

fun field_at :: "(string \<times> string) list \<Rightarrow> (fields \<Rightarrow> fields result) \<Rightarrow> fields \<Rightarrow> fields result" where
  "field_at [] f obj = f obj"
| "field_at ((k, context) # ks) f obj =
     bindR (mapField obj k context) (\<lambda>(child, parent).
       bindR (field_at ks f child) (\<lambda>child'. Inr (put_key k (JObj child') parent)))"

text \<open>\<open>nestedSlice\<close>: the array at a path.\<close>

definition nestedSlice :: "fields \<Rightarrow> string \<Rightarrow> string list \<Rightarrow> json list result" where
  "nestedSlice obj context path =
     (case value_at path (JObj obj) of
        Some (JArr xs) \<Rightarrow> Inr xs
      | _ \<Rightarrow> Inl (Errorf ''record value_at %s has malformed %s'' [S context, S (go_join CHR ''.'' path)]))"

text \<open>A change of the value at a path that exists, in place.\<close>

fun update_at :: "string list \<Rightarrow> (json \<Rightarrow> json) \<Rightarrow> json \<Rightarrow> json" where
  "update_at [] f j = f j"
| "update_at (k # ks) f (JObj kvs) =
     (case map_of kvs k of None \<Rightarrow> JObj kvs | Some v \<Rightarrow> JObj (put_key k (update_at ks f v) kvs))"
| "update_at (k # ks) f j = j"

lemma at_update_at: "value_at ks j = Some v \<Longrightarrow> value_at ks (update_at ks f j) = Some (f v)"
  by (induction ks f j rule: update_at.induct) (auto split: bind_split_asm)

lemma at_ensure_at: "\<exists>sub. value_at ks (JObj (ensure_at ks f obj)) = Some (JObj (f sub))"
proof (induction ks f obj rule: ensure_at.induct)
  case (2 k ks f obj)
  obtain child parent where e: "ensureMap obj k = (child, parent)" by fastforce
  show ?case using "2.IH" [unfolded e, OF refl] by (simp add: e)
qed auto

lemma stringValue_eq_iff: "s \<noteq> [] \<Longrightarrow> stringValue v = s \<longleftrightarrow> v = Some (JStr s)"
  by (auto simp: stringValue_def split: option.split json.split)

lemma stringValue_simps [simp]: "stringValue None = []" "stringValue (Some (JStr s)) = s"
  by (simp_all add: stringValue_def)

section \<open>Merging\<close>

function deepMerge :: "fields \<Rightarrow> fields \<Rightarrow> fields" where
  "deepMerge dst [] = dst"
| "deepMerge dst ((key, value) # src) =
     (case (value, map_of dst key) of
        (JObj srcMap, Some (JObj dstMap)) \<Rightarrow> deepMerge (put_key key (JObj (deepMerge dstMap srcMap)) dst) src
      | _ \<Rightarrow> deepMerge (put_key key value dst) src)"
  by pat_completeness auto
termination
  by (relation "measure (\<lambda>(dst, src). size_list (size_prod (\<lambda>x. 0) size) src)") auto

text \<open>What a key of the source becomes.\<close>

definition merged :: "json option \<Rightarrow> json \<Rightarrow> json" where
  "merged d v = (case (v, d) of (JObj s, Some (JObj t)) \<Rightarrow> JObj (deepMerge t s) | _ \<Rightarrow> v)"

lemma merged_simps [simp]:
  "merged (Some (JObj t)) (JObj s) = JObj (deepMerge t s)"
  "\<not> is_obj v \<Longrightarrow> merged d v = v"
  "merged None v = v"
  "\<not> is_obj w \<Longrightarrow> merged (Some w) v = v"
  by (simp_all add: merged_def is_obj_def split: json.splits)

lemma deepMerge_Cons: "deepMerge dst ((k, v) # src) = deepMerge (put_key k (merged (map_of dst k) v) dst) src"
  by (simp add: merged_def split: json.splits option.splits)

declare deepMerge.simps(2) [simp del]

lemma map_of_deepMerge:
  "distinct (map fst src) \<Longrightarrow>
     map_of (deepMerge dst src) k = (case map_of src k of None \<Rightarrow> map_of dst k | Some v \<Rightarrow> Some (merged (map_of dst k) v))"
proof (induction src arbitrary: dst)
  case (Cons kv src)
  obtain k' v where kv: "kv = (k', v)" by fastforce
  have "map_of src k' = None" using Cons.prems by (simp add: kv map_of_eq_None_iff)
  with Cons show ?case by (auto simp: kv deepMerge_Cons split: option.split)
qed simp

lemma keys_deepMerge_distinct: "distinct (map fst dst) \<Longrightarrow> distinct (map fst (deepMerge dst src))"
proof (induction src arbitrary: dst)
  case (Cons kv src)
  obtain k v where kv: "kv = (k, v)" by fastforce
  show ?case unfolding kv deepMerge_Cons
    by (rule Cons.IH) (rule gomap_ok_put_key [unfolded gomap_ok_def, OF Cons.prems])
qed simp

lemma json_ok_fields: "json_ok (JObj kvs) \<Longrightarrow> map_of kvs k = Some v \<Longrightarrow> json_ok v"
  by (auto simp: list_all_iff dest!: map_of_SomeD)

text \<open>A path is free in an object when no value other than an object is on the way along it, and nothing at its end.\<close>

fun free_path :: "string list \<Rightarrow> json \<Rightarrow> bool" where
  "free_path [] j = False"
| "free_path (k # ks) (JObj kvs) = (case map_of kvs k of None \<Rightarrow> True | Some v \<Rightarrow> free_path ks v)"
| "free_path (k # ks) j = False"

theorem at_deepMerge:
  assumes "json_ok (JObj src)" "\<not> is_obj v" "ks \<noteq> []"
  shows "value_at ks (JObj (deepMerge dst src)) = Some v \<longleftrightarrow>
    value_at ks (JObj src) = Some v \<or> value_at ks (JObj dst) = Some v \<and> free_path ks (JObj src)"
  using assms(1,3)
proof (induction ks arbitrary: dst src)
  case (Cons k ks)
  have d: "distinct (map fst src)" using Cons.prems by simp
  show ?case
  proof (cases "map_of src k")
    case None
    thus ?thesis by (simp add: map_of_deepMerge [OF d])
  next
    case (Some w)
    have ok: "json_ok w" by (rule json_ok_fields [OF Cons.prems(1) Some])
    show ?thesis
    proof (cases "\<exists>s t. w = JObj s \<and> map_of dst k = Some (JObj t)")
      case True
      then obtain s t where w: "w = JObj s" "map_of dst k = Some (JObj t)" by blast
      show ?thesis
      proof (cases "ks = []")
        case True
        thus ?thesis using Some w assms(2) by (auto simp: map_of_deepMerge [OF d])
      next
        case False
        thus ?thesis using Cons.IH [of s t] ok Some w by (simp add: map_of_deepMerge [OF d])
      qed
    next
      case False
      have m: "merged (map_of dst k) w = w" using False by (auto simp: merged_def split: json.splits option.splits)
      have "value_at (k # ks) (JObj dst) \<noteq> Some v \<or> \<not> free_path ks w"
      proof (cases "is_obj w")
        case True
        hence "\<nexists>t. map_of dst k = Some (JObj t)" using False by (auto simp: is_obj_iff)
        thus ?thesis by (cases ks; cases "map_of dst k") (auto simp: at_not_obj is_obj_iff)
      next
        case False
        thus ?thesis by (cases ks; cases w) simp_all
      qed
      thus ?thesis using m Some by (auto simp: map_of_deepMerge [OF d])
    qed
  qed
qed simp

end
