(* ===== verification/FakevaultHandler.thy ===== *)
theory FakevaultHandler
  imports FakevaultStoreSpec Json
begin

text \<open>
  The HTTP handler of \<open>internal/fakevault/handler.go\<close> and the token validator of
  \<open>kubernetes_token.go\<close>. The store is the Go interface \<open>Store\<close>, a record of operations; the handler
  keeps the store's state and its login tokens. A request carries the readings of the clock and the
  environment of each store call it may make. \<open>jwt.Parse\<close>, the JWKS download and the formatting of
  a \<open>float64\<close> are parameters.
\<close>

section \<open>Requests, JSON and responses\<close>

text \<open>A request body: not JSON, or a JSON value and whether its bytes are valid UTF-8.\<close>

datatype body = BadBody | JsonBody bool json

datatype message = Msg string | ErrorText goerr

datatype rbody = NoContent | Errors message | Data json

record response =
  rs_status :: nat
  rs_allow :: string
  rs_body :: rbody

record 'e request =
  r_method :: string
  r_path :: string
  r_token :: string
  r_list :: string
  r_body :: body
  r_clock :: "nat \<Rightarrow> int"
  r_token_rand :: "(nat \<Rightarrow> char) result"
  r_now_text :: string
  r_env :: "nat \<Rightarrow> 'e"

record token =
  t_cluster :: string
  t_expires :: int
  t_namespace :: string
  t_role :: string
  t_operator :: bool

record identity =
  id_namespace :: string
  id_account :: string
  id_expires :: int

section \<open>The \<open>Store\<close> interface\<close>

record ('s, 'e) store_ops =
  op_set :: "'e \<Rightarrow> string \<Rightarrow> string \<Rightarrow> string gomap \<Rightarrow> ('s, unit) op"
  op_create :: "'e \<Rightarrow> string \<Rightarrow> string \<Rightarrow> string gomap \<Rightarrow> ('s, bool) op"
  op_cas :: "'e \<Rightarrow> string \<Rightarrow> string \<Rightarrow> int \<Rightarrow> string gomap \<Rightarrow> ('s, bool) op"
  op_get :: "'e \<Rightarrow> string \<Rightarrow> string \<Rightarrow> ('s, string gomap option) op"
  op_archive :: "'e \<Rightarrow> string \<Rightarrow> string \<Rightarrow> ('s, unit) op"
  op_restore :: "'e \<Rightarrow> string \<Rightarrow> string \<Rightarrow> ('s, unit) op"
  op_delete :: "'e \<Rightarrow> string \<Rightarrow> string \<Rightarrow> ('s, unit) op"
  op_list :: "'e \<Rightarrow> string \<Rightarrow> ('s, Secret list) op"
  op_delete_cluster :: "'e \<Rightarrow> string \<Rightarrow> ('s, unit) op"
  op_unlock :: "'e \<Rightarrow> string \<Rightarrow> ('s, unit) op"

record 's hstate =
  h_store :: 's
  h_tokens :: "token gomap"

record ('s, 'e) hconf =
  c_ops :: "('s, 'e) store_ops"
  c_trusted :: bool
  c_validator :: "(string \<Rightarrow> string \<Rightarrow> string \<Rightarrow> identity \<times> gerror) option"
  c_float :: "rat \<Rightarrow> string"

type_synonym 's reply = "response \<times> 's hstate"

definition NewTrustedHandler :: "('s, 'e) store_ops \<Rightarrow> (rat \<Rightarrow> string) \<Rightarrow> ('s, 'e) hconf" where
  "NewTrustedHandler store fl = \<lparr>c_ops = store, c_trusted = True, c_validator = None, c_float = fl\<rparr>"

definition NewHandler ::
    "('s, 'e) store_ops \<Rightarrow> (string \<Rightarrow> string \<Rightarrow> string \<Rightarrow> identity \<times> gerror) \<Rightarrow> (rat \<Rightarrow> string) \<Rightarrow> ('s, 'e) hconf" where
  "NewHandler store validator fl =
     \<lparr>c_ops = store, c_trusted = False, c_validator = Some validator, c_float = fl\<rparr>"

definition call :: "('s, 'a) op \<Rightarrow> 's hstate \<Rightarrow> 'a result \<times> 's hstate" where
  "call f h = (case f (h_store h) of (r, s) \<Rightarrow> (r, h\<lparr>h_store := s\<rparr>))"

definition jsonResponse :: "nat \<Rightarrow> rbody \<Rightarrow> response" where
  "jsonResponse status b = \<lparr>rs_status = status, rs_allow = [], rs_body = b\<rparr>"

definition errorResponse :: "nat \<Rightarrow> message \<Rightarrow> response" where
  "errorResponse status m = jsonResponse status (Errors m)"

definition methodNotAllowed :: "string \<Rightarrow> response" where
  "methodNotAllowed allow =
     (errorResponse 405 (Msg ''method not allowed''))\<lparr>rs_allow := allow\<rparr>"

section \<open>Tokens\<close>

definition randomToken :: "(nat \<Rightarrow> char) result \<Rightarrow> string result" where
  "randomToken rnd =
     (case rand_read rnd 24 of
        Inl e \<Rightarrow> Inl (Wrapf ''read random token: %w'' [] e)
      | Inr b \<Rightarrow> Inr (''fakevault.'' @ hex_string b))"

definition tokenEntry :: "int \<Rightarrow> string \<Rightarrow> 's hstate \<Rightarrow> token option \<times> 's hstate" where
  "tokenEntry now clientToken h =
     (if clientToken = [] then (None, h)
      else (case map_of (h_tokens h) clientToken of
          None \<Rightarrow> (None, h)
        | Some entry \<Rightarrow>
            if \<not> t_expires entry > now then (None, h\<lparr>h_tokens := del_key clientToken (h_tokens h)\<rparr>)
            else (Some entry, h)))"

definition authenticate :: "int \<Rightarrow> string \<Rightarrow> string \<Rightarrow> 's hstate \<Rightarrow> token option \<times> 's hstate" where
  "authenticate now clientToken clusterID h =
     (case tokenEntry now clientToken h of
        (Some entry, h') \<Rightarrow> (if t_cluster entry = clusterID then Some entry else None, h')
      | (None, h') \<Rightarrow> (None, h'))"

definition authorize ::
    "('s, 'e) hconf \<Rightarrow> 'e request \<Rightarrow> string \<Rightarrow> 's hstate \<Rightarrow> string option \<times> 's hstate" where
  "authorize cf r clusterID h =
     (if c_trusted cf then (Some clusterID, h)
      else (case authenticate (r_clock r 1) (r_token r) clusterID h of
          (entry, h') \<Rightarrow> (map_option t_cluster entry, h')))"

section \<open>Login\<close>

definition operatorRole :: string where "operatorRole = ''podplane-operator''"
definition operatorServiceAccountNamespace :: string where
  "operatorServiceAccountNamespace = ''platform-podplane-operator''"
definition operatorServiceAccountName :: string where
  "operatorServiceAccountName = ''platform-podplane-operator''"

text \<open>
  Decoding into \<open>loginRequest\<close>: an object whose \<open>jwt\<close> and \<open>role\<close> fields, in any letter case, are
  strings or null; later fields win, other fields are ignored. \<open>null\<close> decodes to the zero request.
\<close>

definition set_field :: "json \<Rightarrow> string \<Rightarrow> string option" where
  "set_field v old = (case v of JStr s \<Rightarrow> Some s | JNull \<Rightarrow> Some old | _ \<Rightarrow> None)"

fun decode_login_fields :: "(string \<times> json) list \<Rightarrow> string \<times> string \<Rightarrow> (string \<times> string) option" where
  "decode_login_fields [] acc = Some acc"
| "decode_login_fields ((k, v) # kvs) (jwt, role) =
     (if to_lower k = ''jwt'' then
        (case set_field v jwt of None \<Rightarrow> None | Some s \<Rightarrow> decode_login_fields kvs (s, role))
      else if to_lower k = ''role'' then
        (case set_field v role of None \<Rightarrow> None | Some s \<Rightarrow> decode_login_fields kvs (jwt, s))
      else decode_login_fields kvs (jwt, role))"

definition decode_login :: "body \<Rightarrow> (string \<times> string) option" where
  "decode_login b =
     (case b of
        JsonBody _ (JObj kvs) \<Rightarrow> decode_login_fields kvs ([], [])
      | JsonBody _ JNull \<Rightarrow> Some ([], [])
      | _ \<Rightarrow> None)"

definition hour_ns :: int where "hour_ns = 3600 * 10 ^ 9"

definition seconds_of :: "int \<Rightarrow> int" where
  "seconds_of d = (if d \<ge> 0 then d div 10 ^ 9 else - ((- d) div 10 ^ 9))"

definition is_operator :: "string \<Rightarrow> identity \<Rightarrow> bool" where
  "is_operator role identity \<longleftrightarrow>
     role = operatorRole \<and> id_namespace identity = operatorServiceAccountNamespace \<and>
     id_account identity = operatorServiceAccountName"

definition login_rejected :: "int \<Rightarrow> string \<Rightarrow> identity \<Rightarrow> gerror \<Rightarrow> bool" where
  "login_rejected now role identity err \<longleftrightarrow>
     err \<noteq> None \<or> \<not> validIdentitySegment (id_namespace identity) \<or>
     \<not> validIdentitySegment (id_account identity) \<or> \<not> id_expires identity > now \<or>
     (role = operatorRole \<and> \<not> is_operator role identity) \<or>
     (\<not> is_operator role identity \<and> role \<noteq> id_account identity)"

definition serveLogin :: "('s, 'e) hconf \<Rightarrow> 'e request \<Rightarrow> string \<Rightarrow> 's hstate \<Rightarrow> 's reply" where
  "serveLogin cf r clusterID h =
     (if r_method r \<noteq> ''POST'' \<and> r_method r \<noteq> ''PUT'' then (methodNotAllowed ''POST, PUT'', h)
      else (case decode_login (r_body r) of
          None \<Rightarrow> (errorResponse 400 (Msg ''invalid login request''), h)
        | Some (jwt, role) \<Rightarrow>
            if trim_space role = [] then (errorResponse 400 (Msg ''role is required''), h)
            else if trim_space jwt = [] then (errorResponse 400 (Msg ''jwt is required''), h)
            else (case c_validator cf of
                None \<Rightarrow> (errorResponse 403 (Msg ''login unavailable''), h)
              | Some validator \<Rightarrow>
                  (case validator clusterID role jwt of (identity, err) \<Rightarrow>
                    if login_rejected (r_clock r 0) role identity err
                    then (errorResponse 403 (Msg ''invalid jwt''), h)
                    else (case randomToken (r_token_rand r) of
                        Inl e \<Rightarrow> (errorResponse 500 (Msg ''create token''), h)
                      | Inr clientToken \<Rightarrow>
                          let expiresAt = r_clock r 1 + hour_ns;
                              expiresAt = (if id_expires identity < expiresAt then id_expires identity else expiresAt);
                              entry = \<lparr>t_cluster = clusterID, t_expires = expiresAt,
                                t_namespace = id_namespace identity, t_role = role,
                                t_operator = is_operator role identity\<rparr>
                          in (jsonResponse 200 (Data (JObj [(''auth'', JObj
                                [(''client_token'', JStr clientToken),
                                 (''lease_duration'', JNum (of_int (seconds_of (expiresAt - r_clock r 2)))),
                                 (''renewable'', JBool False)])])),
                              h\<lparr>h_tokens := put_key clientToken entry (h_tokens h)\<rparr>))))))"

definition serveMount :: "'e request \<Rightarrow> 's hstate \<Rightarrow> 's reply" where
  "serveMount r h =
     (if r_method r \<noteq> ''GET'' then (methodNotAllowed ''GET'', h)
      else (jsonResponse 200 (Data (JObj [(''data'', JObj
        [(''path'', JStr ''secret/''), (''type'', JStr ''kv''),
         (''options'', JObj [(''version'', JStr ''2'')])])])), h))"

section \<open>The trusted endpoints\<close>

definition store_failed :: "goerr \<Rightarrow> response" where
  "store_failed e = errorResponse 500 (ErrorText e)"

definition unit_reply :: "unit result \<times> 's hstate \<Rightarrow> 's reply" where
  "unit_reply x = (case x of
      (Inl e, h) \<Rightarrow> (store_failed e, h)
    | (Inr _, h) \<Rightarrow> (jsonResponse 204 NoContent, h))"

definition serveClusterDelete :: "('s, 'e) hconf \<Rightarrow> 'e request \<Rightarrow> string \<Rightarrow> 's hstate \<Rightarrow> 's reply" where
  "serveClusterDelete cf r clusterID h =
     (if \<not> c_trusted cf then (errorResponse 404 (Msg ''not found''), h)
      else if r_method r \<noteq> ''DELETE'' then (methodNotAllowed ''DELETE'', h)
      else unit_reply (call (op_delete_cluster (c_ops cf) (r_env r 0) clusterID) h))"

definition serveUnlock :: "('s, 'e) hconf \<Rightarrow> 'e request \<Rightarrow> string \<Rightarrow> 's hstate \<Rightarrow> 's reply" where
  "serveUnlock cf r clusterID h =
     (if \<not> c_trusted cf then (errorResponse 404 (Msg ''not found''), h)
      else if r_method r \<noteq> ''POST'' then (methodNotAllowed ''POST'', h)
      else unit_reply (call (op_unlock (c_ops cf) (r_env r 0) clusterID) h))"

section \<open>KV-v2\<close>

definition slash :: "char list" where "slash = ''/''"

definition versioned :: "string \<Rightarrow> Secret \<Rightarrow> bool" where
  "versioned path secret \<longleftrightarrow> go_trim slash (sPath secret) = path \<and> sVersion secret > 0"

definition secretVersion ::
    "('s, 'e) hconf \<Rightarrow> 'e \<Rightarrow> string \<Rightarrow> string \<Rightarrow> 's hstate \<Rightarrow> int \<times> 's hstate" where
  "secretVersion cf env clusterID path h =
     (case call (op_list (c_ops cf) env clusterID) h of
        (Inl _, h') \<Rightarrow> (1, h')
      | (Inr secrets, h') \<Rightarrow>
          (case find (versioned (go_trim slash path)) secrets of
             None \<Rightarrow> (1, h') | Some s \<Rightarrow> (sVersion s, h')))"

definition json_int :: "int \<Rightarrow> json" where
  "json_int n = JNum (of_int n)"

definition json_map :: "string gomap \<Rightarrow> json" where
  "json_map m = JObj (map (\<lambda>(k, v). (k, JStr v)) m)"

definition metadata_json :: "'e request \<Rightarrow> Secret \<Rightarrow> json" where
  "metadata_json r secret =
     (let version = (if sVersion secret \<le> 0 then 1 else sVersion secret);
          deletedAt = (if sArchived secret then r_now_text r else [])
      in JObj [(''data'', JObj
           [(''current_version'', json_int version),
            (''versions'', JObj [(dec_digits (nat version), JObj
               [(''deletion_time'', JStr deletedAt), (''destroyed'', JBool False)])])])])"

definition serveMetadata :: "('s, 'e) hconf \<Rightarrow> 'e request \<Rightarrow> string \<Rightarrow> string \<Rightarrow> 's hstate \<Rightarrow> 's reply" where
  "serveMetadata cf r clusterID path h =
     (case call (op_list (c_ops cf) (r_env r 0) clusterID) h of
        (Inl e, h') \<Rightarrow> (store_failed e, h')
      | (Inr secrets, h') \<Rightarrow>
          (case find (\<lambda>s. go_trim slash (sPath s) = go_trim slash path) secrets of
             None \<Rightarrow> (errorResponse 404 (Msg ''secret not found''), h')
           | Some s \<Rightarrow> (jsonResponse 200 (Data (metadata_json r s)), h')))"

definition serveRead :: "('s, 'e) hconf \<Rightarrow> 'e request \<Rightarrow> string \<Rightarrow> string \<Rightarrow> 's hstate \<Rightarrow> 's reply" where
  "serveRead cf r clusterID api h =
     (case metadataDataPath api of
        Some path \<Rightarrow> serveMetadata cf r clusterID path h
      | None \<Rightarrow>
          (case dataPath api of
             None \<Rightarrow> (errorResponse 404 (Msg ''not found''), h)
           | Some path \<Rightarrow>
               (case call (op_get (c_ops cf) (r_env r 0) clusterID path) h of
                  (Inl e, h1) \<Rightarrow> (store_failed e, h1)
                | (Inr None, h1) \<Rightarrow> (errorResponse 404 (Msg ''secret not found''), h1)
                | (Inr (Some values), h1) \<Rightarrow>
                    (case secretVersion cf (r_env r 1) clusterID path h1 of (version, h2) \<Rightarrow>
                      (jsonResponse 200 (Data (JObj [(''data'', JObj
                         [(''data'', json_map values),
                          (''metadata'', JObj [(''version'', json_int version)])])])), h2)))))"

text \<open>Decoding an object into a Go map: a later field with the same key replaces an earlier one.\<close>

fun go_map :: "(string \<times> json) list \<Rightarrow> json gomap \<Rightarrow> json gomap" where
  "go_map [] m = m"
| "go_map ((k, v) # kvs) m = go_map kvs (put_key k v m)"

text \<open>The body as \<open>map[string]any\<close>: \<open>null\<close> gives a nil map.\<close>

definition decode_map :: "json \<Rightarrow> json gomap option" where
  "decode_map j = (case j of JObj kvs \<Rightarrow> Some (go_map kvs []) | JNull \<Rightarrow> Some [] | _ \<Rightarrow> None)"

text \<open>\<open>fmt.Sprint\<close> of a decoded JSON value.\<close>

definition join_words :: "string list \<Rightarrow> string" where
  "join_words ws = go_join CHR '' '' ws"

function sprint :: "(rat \<Rightarrow> string) \<Rightarrow> json \<Rightarrow> string" where
  "sprint fl JNull = ''<nil>''"
| "sprint fl (JBool b) = (if b then ''true'' else ''false'')"
| "sprint fl (JNum x) = fl x"
| "sprint fl (JStr s) = s"
| "sprint fl (JArr xs) = ''['' @ join_words (map (sprint fl) xs) @ '']''"
| "sprint fl (JObj kvs) =
     ''map['' @ join_words (map (\<lambda>(k, s). k @ '':'' @ s)
        (canon_map (rev (map (\<lambda>(k, v). (k, sprint fl v)) kvs)))) @ '']''"
  by pat_completeness auto
termination
  by (relation "measure (size \<circ> snd)") (auto simp: json_size_arr json_size_obj)

definition value_text :: "('s, 'e) hconf \<Rightarrow> json \<Rightarrow> string" where
  "value_text cf v = (case v of JStr s \<Rightarrow> s | _ \<Rightarrow> sprint (c_float cf) v)"

text \<open>The check-and-set option: \<open>float64\<close> to \<open>int\<close> as on amd64, where a value out of range gives the least int.\<close>

definition int_of_float :: "rat \<Rightarrow> int" where
  "int_of_float x =
     (let t = (if x \<ge> 0 then \<lfloor>x\<rfloor> else - \<lfloor>- x\<rfloor>)
      in if - (2 ^ 63) \<le> t \<and> t < 2 ^ 63 then t else - (2 ^ 63))"

definition parse_cas :: "json option \<Rightarrow> bool \<Rightarrow> string + int option" where
  "parse_cas rawOptions nestedData =
     (case rawOptions of
        None \<Rightarrow> Inr None
      | Some (JObj okvs) \<Rightarrow>
          if \<not> nestedData then Inl ''invalid check-and-set options''
          else (case map_of (go_map okvs []) ''cas'' of
              None \<Rightarrow> Inl ''cas is required''
            | Some (JNum x) \<Rightarrow>
                if x < 0 \<or> x \<noteq> of_int (int_of_float x) then Inl ''cas must be a non-negative integer''
                else Inr (Some (int_of_float x))
            | Some _ \<Rightarrow> Inl ''cas must be a non-negative integer'')
      | Some _ \<Rightarrow> Inl ''invalid check-and-set options'')"

definition write_result ::
    "('s, 'e) hconf \<Rightarrow> 'e request \<Rightarrow> string \<Rightarrow> string \<Rightarrow> bool result \<times> 's hstate \<Rightarrow> 's reply" where
  "write_result cf r clusterID path x =
     (case x of
        (Inl e, h1) \<Rightarrow> (store_failed e, h1)
      | (Inr False, h1) \<Rightarrow>
          (errorResponse 400 (Msg ''check-and-set parameter did not match the current version''), h1)
      | (Inr True, h1) \<Rightarrow>
          (case secretVersion cf (r_env r 1) clusterID path h1 of (version, h2) \<Rightarrow>
            (jsonResponse 200 (Data (JObj [(''data'', JObj [(''version'', json_int version)])])), h2)))"

text \<open>The body of a write: the version to compare with, if any, and the values; or why it is refused.\<close>

definition write_request :: "('s, 'e) hconf \<Rightarrow> body \<Rightarrow> string + (int option \<times> string gomap)" where
  "write_request cf b =
     (case b of
        BadBody \<Rightarrow> Inl ''invalid secret data''
      | JsonBody valid j \<Rightarrow>
          if \<not> valid then Inl ''secret data must be valid UTF-8 text''
          else (case decode_map j of
              None \<Rightarrow> Inl ''invalid secret data''
            | Some body \<Rightarrow>
                let nested = (case map_of body ''data'' of Some (JObj kvs) \<Rightarrow> Some (go_map kvs []) | _ \<Rightarrow> None);
                    data = (case nested of None \<Rightarrow> body | Some m \<Rightarrow> m)
                in bindR (parse_cas (map_of body ''options'') (nested \<noteq> None)) (\<lambda>cas.
                     if data = [] then Inl ''secret data is required''
                     else if list_ex (\<lambda>(k, _). k = []) data then Inl ''secret data keys must be non-empty''
                     else Inr (cas, map (\<lambda>(k, v). (k, value_text cf v)) data))))"

definition write_call ::
    "('s, 'e) hconf \<Rightarrow> 'e \<Rightarrow> string \<Rightarrow> string \<Rightarrow> int option \<Rightarrow> string gomap \<Rightarrow> 's hstate \<Rightarrow> bool result \<times> 's hstate" where
  "write_call cf env clusterID path cas values h =
     (case cas of
        Some n \<Rightarrow>
          if n = 0 then call (op_create (c_ops cf) env clusterID path values) h
          else call (op_cas (c_ops cf) env clusterID path n values) h
      | None \<Rightarrow>
          (case call (op_set (c_ops cf) env clusterID path values) h of
             (x, h1) \<Rightarrow> (map_sum id (\<lambda>_. True) x, h1)))"

definition serveWrite :: "('s, 'e) hconf \<Rightarrow> 'e request \<Rightarrow> string \<Rightarrow> string \<Rightarrow> 's hstate \<Rightarrow> 's reply" where
  "serveWrite cf r clusterID api h =
     (case dataPath api of
        None \<Rightarrow> (errorResponse 404 (Msg ''not found''), h)
      | Some path \<Rightarrow>
          (case write_request cf (r_body r) of
             Inl msg \<Rightarrow> (errorResponse 400 (Msg msg), h)
           | Inr (cas, values) \<Rightarrow>
               write_result cf r clusterID path (write_call cf (r_env r 0) clusterID path cas values h)))"

definition serveDelete :: "('s, 'e) hconf \<Rightarrow> 'e request \<Rightarrow> string \<Rightarrow> string \<Rightarrow> 's hstate \<Rightarrow> 's reply" where
  "serveDelete cf r clusterID api h =
     (case metadataDataPath api of
        Some path \<Rightarrow> unit_reply (call (op_delete (c_ops cf) (r_env r 0) clusterID path) h)
      | None \<Rightarrow>
          (case dataPath api of
             None \<Rightarrow> (errorResponse 404 (Msg ''not found''), h)
           | Some path \<Rightarrow> unit_reply (call (op_archive (c_ops cf) (r_env r 0) clusterID path) h)))"

text \<open>The name a secret's path contributes below the listed prefix, if any.\<close>

definition list_name :: "string \<Rightarrow> Secret \<Rightarrow> string option" where
  "list_name matchPrefix secret =
     (let path = go_trim slash (sPath secret) in
      if \<not> has_prefix path matchPrefix then None
      else
        let rel = trim_prefix path matchPrefix;
            (name, rest) = (case go_cut CHR ''/'' rel of None \<Rightarrow> (rel, []) | Some (a, b) \<Rightarrow> (a, b));
            name = (if rest \<noteq> [] then name @ ''/'' else name)
        in if name = [] then None else Some name)"

definition list_names :: "string \<Rightarrow> Secret list \<Rightarrow> string list" where
  "list_names matchPrefix secrets = sort (remdups (List.map_filter (list_name matchPrefix) secrets))"

definition serveList :: "('s, 'e) hconf \<Rightarrow> 'e request \<Rightarrow> string \<Rightarrow> string \<Rightarrow> 's hstate \<Rightarrow> 's reply" where
  "serveList cf r clusterID api h =
     (case metadataDataPath api of
        None \<Rightarrow> (errorResponse 404 (Msg ''not found''), h)
      | Some pre \<Rightarrow>
          (case call (op_list (c_ops cf) (r_env r 0) clusterID) h of
             (Inl e, h1) \<Rightarrow> (store_failed e, h1)
           | (Inr secrets, h1) \<Rightarrow>
               let list = list_names (go_trim slash pre @ ''/'') secrets in
               if list = [] then (errorResponse 404 (Msg ''secret not found''), h1)
               else (jsonResponse 200 (Data (JObj [(''data'', JObj [(''keys'', JArr (map JStr list))])])), h1)))"

definition serveUndelete :: "('s, 'e) hconf \<Rightarrow> 'e request \<Rightarrow> string \<Rightarrow> string \<Rightarrow> 's hstate \<Rightarrow> 's reply" where
  "serveUndelete cf r clusterID path h =
     (case authorize cf r clusterID h of
        (None, h1) \<Rightarrow> (errorResponse 403 (Msg ''permission denied''), h1)
      | (Some clusterID, h1) \<Rightarrow> unit_reply (call (op_restore (c_ops cf) (r_env r 0) clusterID path) h1))"

definition serveDestroy :: "('s, 'e) hconf \<Rightarrow> 'e request \<Rightarrow> string \<Rightarrow> string \<Rightarrow> 's hstate \<Rightarrow> 's reply" where
  "serveDestroy cf r clusterID path h =
     (case authorize cf r clusterID h of
        (None, h1) \<Rightarrow> (errorResponse 403 (Msg ''permission denied''), h1)
      | (Some clusterID, h1) \<Rightarrow> unit_reply (call (op_delete (c_ops cf) (r_env r 0) clusterID path) h1))"

definition serveKV :: "('s, 'e) hconf \<Rightarrow> 'e request \<Rightarrow> string \<Rightarrow> string \<Rightarrow> 's hstate \<Rightarrow> 's reply" where
  "serveKV cf r clusterID api h =
     (case authorize cf r clusterID h of
        (None, h1) \<Rightarrow> (errorResponse 403 (Msg ''permission denied''), h1)
      | (Some clusterID, h1) \<Rightarrow>
          if r_method r = ''LIST'' \<or> (r_method r = ''GET'' \<and> r_list r = ''true'')
          then serveList cf r clusterID api h1
          else if r_method r = ''DELETE'' then serveDelete cf r clusterID api h1
          else if r_method r = ''POST'' \<or> r_method r = ''PUT'' then serveWrite cf r clusterID api h1
          else if r_method r = ''GET'' then serveRead cf r clusterID api h1
          else (methodNotAllowed ''GET, POST, PUT, DELETE, LIST'', h1))"

section \<open>Routing\<close>

text \<open>The paths a workload token may read: below its namespace and role.\<close>

definition token_prefix :: "string \<Rightarrow> token \<Rightarrow> string" where
  "token_prefix clusterID entry =
     ''secret/data/'' @ clusterID @ ''/'' @ t_namespace entry @ ''/'' @ t_role entry @ ''/''"

definition token_allows :: "'e request \<Rightarrow> string \<Rightarrow> string \<Rightarrow> token \<Rightarrow> bool" where
  "token_allows r clusterID cleanPath entry \<longleftrightarrow>
     t_operator entry \<or>
     \<not> (r_method r \<noteq> ''GET'' \<or> r_list r \<noteq> [] \<or> \<not> has_prefix cleanPath (token_prefix clusterID entry))"

definition serve_allowed :: "('s, 'e) hconf \<Rightarrow> 'e request \<Rightarrow> string \<Rightarrow> string \<Rightarrow> 's hstate \<Rightarrow> 's reply" where
  "serve_allowed cf r clusterID api h =
     (if r_method r = ''POST'' \<or> r_method r = ''PUT'' then
        (case undeleteDataPath api of
           Some path \<Rightarrow> serveUndelete cf r clusterID path h
         | None \<Rightarrow>
             (case destroyDataPath api of
                Some path \<Rightarrow> serveDestroy cf r clusterID path h
              | None \<Rightarrow> serveKV cf r clusterID api h))
      else serveKV cf r clusterID api h)"

definition ServeHTTP :: "('s, 'e) hconf \<Rightarrow> 'e request \<Rightarrow> 's hstate \<Rightarrow> 's reply" where
  "ServeHTTP cf r h =
     (case apiPath (r_path r) of
        None \<Rightarrow> (errorResponse 404 (Msg ''not found''), h)
      | Some (clusterID, api) \<Rightarrow>
          if has_prefix api ''/auth/'' \<and> has_suffix api ''/login'' then serveLogin cf r clusterID h
          else if has_prefix api ''/sys/internal/ui/mounts/'' then serveMount r h
          else if api = ''/sys/podplane/cluster'' then serveClusterDelete cf r clusterID h
          else if api = ''/sys/podplane/unlock'' then serveUnlock cf r clusterID h
          else (case cleanClusterPath clusterID api of
              Inl _ \<Rightarrow> (errorResponse 403 (Msg ''permission denied''), h)
            | Inr (_, cleanPath) \<Rightarrow>
                let api = CHR ''/'' # cleanPath in
                if c_trusted cf then serve_allowed cf r clusterID api h
                else (case authenticate (r_clock r 0) (r_token r) clusterID h of
                    (None, h1) \<Rightarrow> (errorResponse 403 (Msg ''permission denied''), h1)
                  | (Some entry, h1) \<Rightarrow>
                      if token_allows r clusterID cleanPath entry then serve_allowed cf r clusterID api h1
                      else (errorResponse 403 (Msg ''permission denied''), h1))))"

section \<open>The Kubernetes token validator\<close>

record claims =
  cl_subject :: string
  cl_expires :: int

record validator =
  v_api_url :: "(string \<Rightarrow> string result) option"
  v_issuer_of :: "(string \<Rightarrow> string result) option"
  v_issuer :: string

text \<open>The checks on the claims of a verified token.\<close>

definition check_claims :: "int \<Rightarrow> string \<Rightarrow> claims \<Rightarrow> identity result" where
  "check_claims now role tok =
     (case serviceAccountSubject (cl_subject tok) of
        None \<Rightarrow> Inl (Errorf ''jwt subject is not a kubernetes service account'' [])
      | Some (ns, name) \<Rightarrow>
          if \<not> cl_expires tok > now
          then Inl (Errorf ''jwt expiration is required and must be in the future'' [])
          else if role = operatorRole then
            (if ns \<noteq> operatorServiceAccountNamespace \<or> name \<noteq> operatorServiceAccountName
             then Inl (Errorf ''operator role %q is only valid for service account %s/%s''
               [S role, S operatorServiceAccountNamespace, S operatorServiceAccountName])
             else Inr \<lparr>id_namespace = ns, id_account = name, id_expires = cl_expires tok\<rparr>)
          else if role \<noteq> name
          then Inl (Errorf ''role %q does not match service account %q'' [S role, S name])
          else Inr \<lparr>id_namespace = ns, id_account = name, id_expires = cl_expires tok\<rparr>)"

definition ValidateIdentity ::
    "(string \<Rightarrow> string \<Rightarrow> 'k result) \<Rightarrow> ('k \<Rightarrow> string \<Rightarrow> string \<Rightarrow> claims result) \<Rightarrow> int \<Rightarrow>
     validator \<Rightarrow> string \<Rightarrow> string \<Rightarrow> string \<Rightarrow> identity result" where
  "ValidateIdentity fetchJWKSet jwt_parse now v clusterID role rawToken =
     (case v_api_url v of
        None \<Rightarrow> Inl (Errorf ''kubernetes api url resolver is required'' [])
      | Some KubernetesAPIURL \<Rightarrow>
          bindR (KubernetesAPIURL clusterID) (\<lambda>apiURL.
          bindR (case v_issuer_of v of
                   None \<Rightarrow> Inr (v_issuer v)
                 | Some f \<Rightarrow> (case f clusterID of
                     Inl e \<Rightarrow> Inl (Wrapf ''resolve kubernetes service-account issuer: %w'' [] e)
                   | Inr i \<Rightarrow> Inr i)) (\<lambda>issuer.
          if issuer = [] then Inl (Errorf ''kubernetes service-account issuer is required'' [])
          else (case fetchJWKSet (trim_right slash apiURL @ ''/openid/v1/jwks'') rawToken of
              Inl e \<Rightarrow> Inl (Wrapf ''fetch kubernetes jwks: %w'' [] e)
            | Inr keySet \<Rightarrow>
                (case jwt_parse keySet issuer rawToken of
                   Inl e \<Rightarrow> Inl (Wrapf ''verify kubernetes service-account jwt: %w'' [] e)
                 | Inr tok \<Rightarrow>
                     check_claims now role tok)))))"

end
