(* ===== verification/FakevaultService.thy ===== *)
theory FakevaultService
  imports FakevaultHandler
begin

text \<open>
  The Go interface \<open>Store\<close> as a locale: what the handler relies on, stated over an abstract view of a
  store. \<open>FileStore\<close> is an interpretation. The handler's effect on a store is a sequence of calls,
  from which the lemmas on isolation and on read-only requests follow for any store that keeps the
  contract.
\<close>

section \<open>Calls\<close>

datatype 'e store_call =
    CSet 'e string string "string gomap"
  | CCreate 'e string string "string gomap"
  | CCas 'e string string int "string gomap"
  | CGet 'e string string
  | CArchive 'e string string
  | CRestore 'e string string
  | CDelete 'e string string
  | CList 'e string
  | CDeleteCluster 'e string
  | CUnlock 'e string

fun call_state :: "('s, 'e) store_ops \<Rightarrow> 'e store_call \<Rightarrow> 's \<Rightarrow> 's" where
  "call_state ops (CSet e c p m) s = snd (op_set ops e c p m s)"
| "call_state ops (CCreate e c p m) s = snd (op_create ops e c p m s)"
| "call_state ops (CCas e c p n m) s = snd (op_cas ops e c p n m s)"
| "call_state ops (CGet e c p) s = snd (op_get ops e c p s)"
| "call_state ops (CArchive e c p) s = snd (op_archive ops e c p s)"
| "call_state ops (CRestore e c p) s = snd (op_restore ops e c p s)"
| "call_state ops (CDelete e c p) s = snd (op_delete ops e c p s)"
| "call_state ops (CList e c) s = snd (op_list ops e c s)"
| "call_state ops (CDeleteCluster e c) s = snd (op_delete_cluster ops e c s)"
| "call_state ops (CUnlock e c) s = snd (op_unlock ops e c s)"

definition run_calls :: "('s, 'e) store_ops \<Rightarrow> 'e store_call list \<Rightarrow> 's \<Rightarrow> 's" where
  "run_calls ops cls s = foldl (\<lambda>s cl. call_state ops cl s) s cls"

lemma run_calls_simps [simp]:
  "run_calls ops [] s = s"
  "run_calls ops (cl # cls) s = run_calls ops cls (call_state ops cl s)"
  "run_calls ops (xs @ ys) s = run_calls ops ys (run_calls ops xs s)"
  by (simp_all add: run_calls_def)

text \<open>The secret a call may change, and the cluster it is about.\<close>

fun touches :: "'e store_call \<Rightarrow> string \<Rightarrow> string \<Rightarrow> bool" where
  "touches (CSet e c p m) j q \<longleftrightarrow> cleanClusterPath c p = Inr (j, q)"
| "touches (CCreate e c p m) j q \<longleftrightarrow> cleanClusterPath c p = Inr (j, q)"
| "touches (CCas e c p n m) j q \<longleftrightarrow> cleanClusterPath c p = Inr (j, q)"
| "touches (CArchive e c p) j q \<longleftrightarrow> cleanClusterPath c p = Inr (j, q)"
| "touches (CRestore e c p) j q \<longleftrightarrow> cleanClusterPath c p = Inr (j, q)"
| "touches (CDelete e c p) j q \<longleftrightarrow> cleanClusterPath c p = Inr (j, q)"
| "touches (CDeleteCluster e c) j q \<longleftrightarrow> cleanClusterID c = Inr j"
| "touches (CGet e c p) j q \<longleftrightarrow> False"
| "touches (CList e c) j q \<longleftrightarrow> False"
| "touches (CUnlock e c) j q \<longleftrightarrow> False"

fun call_cluster :: "'e store_call \<Rightarrow> string" where
  "call_cluster (CSet e c p m) = c"
| "call_cluster (CCreate e c p m) = c"
| "call_cluster (CCas e c p n m) = c"
| "call_cluster (CGet e c p) = c"
| "call_cluster (CArchive e c p) = c"
| "call_cluster (CRestore e c p) = c"
| "call_cluster (CDelete e c p) = c"
| "call_cluster (CList e c) = c"
| "call_cluster (CDeleteCluster e c) = c"
| "call_cluster (CUnlock e c) = c"

fun reading :: "'e store_call \<Rightarrow> bool" where
  "reading (CGet e c p) = True"
| "reading (CList e c) = True"
| "reading (CUnlock e c) = True"
| "reading _ = False"

lemma reading_touches: "reading cl \<Longrightarrow> \<not> touches cl j q"
  by (cases cl) auto

lemma touches_cluster: "touches cl j q \<Longrightarrow> j = trim_space (call_cluster cl)"
  by (cases cl) (auto simp: cleanClusterPath_Inr cleanClusterID_Inr)

section \<open>The contract\<close>

text \<open>A disk that does not report a file missing that is there.\<close>

definition honest :: "senv \<Rightarrow> bool" where
  "honest env \<longleftrightarrow> reads_true env \<and> stats_true env \<and> removes_true env"

text \<open>What a conditional write may do to the entry at a clean path.\<close>

definition write_contract ::
    "string gomap \<Rightarrow> int option \<Rightarrow> entry option \<Rightarrow> bool result \<Rightarrow> entry option \<Rightarrow> bool" where
  "write_contract values ver old r new \<longleftrightarrow>
     (case r of
        Inr True \<Rightarrow> new = Some (new_entry values old) \<and> (ver = None \<or> ver = Some (entry_version old))
      | Inr False \<Rightarrow> new = old \<and> ver \<noteq> None \<and> ver \<noteq> Some (entry_version old)
      | Inl e \<Rightarrow> new = old \<or> new = Some (new_entry values old))"

locale vault_store =
  fixes ops :: "('s, 'e) store_ops"
    and inv :: "'s \<Rightarrow> bool"
    and vw :: "'s \<Rightarrow> string \<Rightarrow> string \<Rightarrow> entry option"
    and fair :: "'e \<Rightarrow> bool"
  assumes inv_call: "inv s \<Longrightarrow> inv (call_state ops cl s)"
    and frame_call: "inv s \<Longrightarrow> safe_segment j \<Longrightarrow> safe_path q \<Longrightarrow> \<not> touches cl j q \<Longrightarrow>
      vw (call_state ops cl s) j q = vw s j q"
    and set_law: "inv s \<Longrightarrow> fair e \<Longrightarrow> cleanClusterPath c p = Inr (i, q) \<Longrightarrow>
      write_contract m None (vw s i q) (map_sum id (\<lambda>_. True) (fst (op_set ops e c p m s)))
        (vw (snd (op_set ops e c p m s)) i q)"
    and create_law: "inv s \<Longrightarrow> fair e \<Longrightarrow> cleanClusterPath c p = Inr (i, q) \<Longrightarrow>
      write_contract m (Some 0) (vw s i q) (fst (op_create ops e c p m s)) (vw (snd (op_create ops e c p m s)) i q)"
    and cas_law: "inv s \<Longrightarrow> fair e \<Longrightarrow> cleanClusterPath c p = Inr (i, q) \<Longrightarrow>
      write_contract m (Some n) (vw s i q) (fst (op_cas ops e c p n m s)) (vw (snd (op_cas ops e c p n m s)) i q)"
    and reject_law: "cleanClusterPath c p = Inl er \<Longrightarrow>
      op_set ops e c p m s = (Inl er, s) \<and> op_create ops e c p m s = (Inl er, s) \<and> op_cas ops e c p n m s = (Inl er, s)"
    and get_law: "inv s \<Longrightarrow> fst (op_get ops e c p s) = Inr (Some m) \<Longrightarrow>
      \<exists>i q en. cleanClusterPath c p = Inr (i, q) \<and> vw s i q = Some en \<and> \<not> e_archived en \<and> m = e_values en"
    and list_law: "inv s \<Longrightarrow> fair e \<Longrightarrow> fst (op_list ops e c s) = Inr ss \<Longrightarrow>
      \<exists>i. cleanClusterID c = Inr i \<and> sorted (map sPath ss) \<and> distinct (map sPath ss) \<and>
        (\<forall>x. x \<in> set ss \<longleftrightarrow> (\<exists>p en. safe_path p \<and> vw s i p = Some en \<and> x = secret_of p en))"
    and archive_law: "inv s \<Longrightarrow> fair e \<Longrightarrow> cleanClusterPath c p = Inr (i, q) \<Longrightarrow>
      fst (op_archive ops e c p s) = Inr () \<Longrightarrow>
      vw (snd (op_archive ops e c p s)) i q = archived_entry True (vw s i q)"
    and restore_law: "inv s \<Longrightarrow> fair e \<Longrightarrow> cleanClusterPath c p = Inr (i, q) \<Longrightarrow>
      fst (op_restore ops e c p s) = Inr () \<Longrightarrow>
      vw (snd (op_restore ops e c p s)) i q = archived_entry False (vw s i q)"
    and delete_law: "inv s \<Longrightarrow> fair e \<Longrightarrow> cleanClusterPath c p = Inr (i, q) \<Longrightarrow>
      fst (op_delete ops e c p s) = Inr () \<Longrightarrow> vw (snd (op_delete ops e c p s)) i q = None"
    and delete_cluster_law: "inv s \<Longrightarrow> cleanClusterID c = Inr i \<Longrightarrow>
      fst (op_delete_cluster ops e c s) = Inr () \<Longrightarrow> safe_path q \<Longrightarrow>
      vw (snd (op_delete_cluster ops e c s)) i q = None"
begin

lemma inv_calls: "inv s \<Longrightarrow> inv (run_calls ops cls s)"
  by (induction cls arbitrary: s) (auto intro: inv_call)

lemma frame_calls:
  assumes "inv s" "safe_segment j" "safe_path q" "\<forall>cl \<in> set cls. \<not> touches cl j q"
  shows "vw (run_calls ops cls s) j q = vw s j q"
  using assms(1,4)
proof (induction cls arbitrary: s)
  case Nil
  then show ?case by simp
next
  case (Cons cl cls)
  have "inv (call_state ops cl s)" by (rule inv_call [OF Cons.prems(1)])
  moreover have "vw (call_state ops cl s) j q = vw s j q"
    using Cons.prems assms(2,3) by (intro frame_call) auto
  ultimately show ?case using Cons.IH Cons.prems(2) by simp
qed

end

text \<open>\<open>FileStore\<close> as a provider of the interface.\<close>

definition file_store_ops :: "(fstore, senv) store_ops" where
  "file_store_ops =
     \<lparr>op_set = SetSecret, op_create = CreateSecret, op_cas = CompareAndSetSecret, op_get = GetSecret,
      op_archive = ArchiveSecret, op_restore = RestoreSecret, op_delete = DeleteSecret,
      op_list = ListSecrets, op_delete_cluster = DeleteCluster, op_unlock = Unlock\<rparr>"

lemma ops_sel [simp]:
  "op_set file_store_ops = SetSecret" "op_create file_store_ops = CreateSecret"
  "op_cas file_store_ops = CompareAndSetSecret" "op_get file_store_ops = GetSecret"
  "op_archive file_store_ops = ArchiveSecret" "op_restore file_store_ops = RestoreSecret"
  "op_delete file_store_ops = DeleteSecret" "op_list file_store_ops = ListSecrets"
  "op_delete_cluster file_store_ops = DeleteCluster" "op_unlock file_store_ops = Unlock"
  by (simp_all add: file_store_ops_def)

lemma snd_bind_return: "snd (bindS m (\<lambda>_. liftS (Inr x)) s) = snd (m s)"
  by (auto simp: bindS_def liftS_def split: prod.splits sum.splits)

lemma fst_bind_return: "fst (bindS m (\<lambda>_. liftS (Inr x)) s) = map_sum id (\<lambda>_. x) (fst (m s))"
  by (auto simp: bindS_def liftS_def split: prod.splits sum.splits)

lemma file_store_call:
  "store_ok s \<Longrightarrow> store_ok (call_state file_store_ops cl s) \<and>
     (\<forall>j q. safe_segment j \<longrightarrow> safe_path q \<longrightarrow> \<not> touches cl j q \<longrightarrow>
        view (call_state file_store_ops cl s) j q = view s j q)"
proof -
  assume ok: "store_ok s"
  have set: "store_ok (snd (setSecret e c p m n s)) \<and> (\<forall>j q. safe_segment j \<longrightarrow> safe_path q \<longrightarrow>
      cleanClusterPath c p \<noteq> Inr (j, q) \<longrightarrow> view (snd (setSecret e c p m n s)) j q = view s j q)" for e c p m n
  proof (cases "cleanClusterPath c p")
    case (Inl er)
    then show ?thesis using ok by (simp add: setSecret_rejected)
  next
    case (Inr iq)
    then obtain i q where iq: "cleanClusterPath c p = Inr (i, q)" by (cases iq) auto
    show ?thesis
      using setSecret_inv [OF ok prod.collapse [symmetric] iq] iq by (auto simp: same_but_def)
  qed
  have arch: "store_ok (snd (setArchived e c p b s)) \<and> (\<forall>j q. safe_segment j \<longrightarrow> safe_path q \<longrightarrow>
      cleanClusterPath c p \<noteq> Inr (j, q) \<longrightarrow> view (snd (setArchived e c p b s)) j q = view s j q)" for e c p b
  proof (cases "cleanClusterPath c p")
    case (Inl er)
    then show ?thesis using ok by (simp add: setArchived_rejected)
  next
    case (Inr iq)
    then obtain i q where iq: "cleanClusterPath c p = Inr (i, q)" by (cases iq) auto
    show ?thesis
      using setArchived_spec [OF ok prod.collapse [symmetric] iq] iq by (auto simp: same_but_def)
  qed
  show ?thesis
  proof (cases cl)
    case (CSet e c p m)
    with set [of e c p m None] show ?thesis by (simp add: SetSecret_def snd_bind_return)
  next
    case (CCreate e c p m)
    with set [of e c p m "Some 0"] show ?thesis by (simp add: CreateSecret_def)
  next
    case (CCas e c p n m)
    with set [of e c p m "Some n"] show ?thesis by (simp add: CompareAndSetSecret_def)
  next
    case (CGet e c p)
    with GetSecret_spec(1,2) [OF ok prod.collapse [symmetric]] show ?thesis by simp
  next
    case (CArchive e c p)
    with arch [of e c p True] show ?thesis by (simp add: ArchiveSecret_def)
  next
    case (CRestore e c p)
    with arch [of e c p False] show ?thesis by (simp add: RestoreSecret_def)
  next
    case (CDelete e c p)
    show ?thesis
    proof (cases "cleanClusterPath c p")
      case (Inl er)
      then show ?thesis using ok CDelete by (simp add: DeleteSecret_rejected)
    next
      case (Inr iq)
      then obtain i q where iq: "cleanClusterPath c p = Inr (i, q)" by (cases iq) auto
      show ?thesis
        using DeleteSecret_spec [OF ok prod.collapse [symmetric] iq] iq CDelete by (auto simp: same_but_def)
    qed
  next
    case (CList e c)
    with ok show ?thesis by (simp add: ListSecrets_state)
  next
    case (CDeleteCluster e c)
    show ?thesis
    proof (cases "cleanClusterID c")
      case (Inl er)
      then show ?thesis using ok CDeleteCluster by (simp add: DeleteCluster_rejected)
    next
      case (Inr i)
      show ?thesis
        using DeleteCluster_spec [OF ok prod.collapse [symmetric] Inr] Inr CDeleteCluster by auto
    qed
  next
    case (CUnlock e c)
    with Unlock_spec(1,2) [OF ok prod.collapse [symmetric]] show ?thesis by simp
  qed
qed

lemma setSecret_contract:
  assumes "store_ok s" "honest e" "cleanClusterPath c p = Inr (i, q)"
  shows "write_contract m ver (view s i q) (fst (setSecret e c p m ver s)) (view (snd (setSecret e c p m ver s)) i q)"
proof -
  have "reads_true e" using assms(2) by (simp add: honest_def)
  moreover obtain r t where x: "setSecret e c p m ver s = (r, t)" by fastforce
  ultimately show ?thesis
    using setSecret_spec [OF assms(1) _ x assms(3)] unfolding x fst_conv snd_conv write_contract_def
    by (cases r) (auto split: bool.splits)
qed

interpretation fsv: vault_store file_store_ops store_ok view honest
proof
  show "store_ok s \<Longrightarrow> store_ok (call_state file_store_ops cl s)" for s cl
    using file_store_call by blast
  show "store_ok s \<Longrightarrow> safe_segment j \<Longrightarrow> safe_path q \<Longrightarrow> \<not> touches cl j q \<Longrightarrow>
      view (call_state file_store_ops cl s) j q = view s j q" for s j q cl
    using file_store_call by blast
  show "write_contract m None (view s i q) (map_sum id (\<lambda>_. True) (fst (op_set file_store_ops e c p m s)))
        (view (snd (op_set file_store_ops e c p m s)) i q)"
    if h: "store_ok s" "honest e" "cleanClusterPath c p = Inr (i, q)" for s e c p i q m
  proof -
    have w: "write_contract m None (view s i q) (fst (setSecret e c p m None s)) (view (snd (setSecret e c p m None s)) i q)"
      by (rule setSecret_contract [OF h])
    then have "map_sum id (\<lambda>_. True) (fst (setSecret e c p m None s)) = fst (setSecret e c p m None s)"
      by (cases "fst (setSecret e c p m None s)") (auto simp: write_contract_def split: bool.splits)
    with w show ?thesis by (simp add: SetSecret_def snd_bind_return fst_bind_return sum.map_comp comp_def id_def)
  qed
  show "write_contract m (Some 0) (view s i q) (fst (op_create file_store_ops e c p m s))
      (view (snd (op_create file_store_ops e c p m s)) i q)"
    if "store_ok s" "honest e" "cleanClusterPath c p = Inr (i, q)" for s e c p i q m
    using setSecret_contract [OF that] by (simp add: CreateSecret_def)
  show "write_contract m (Some n) (view s i q) (fst (op_cas file_store_ops e c p n m s))
      (view (snd (op_cas file_store_ops e c p n m s)) i q)"
    if "store_ok s" "honest e" "cleanClusterPath c p = Inr (i, q)" for s e c p i q n m
    using setSecret_contract [OF that] by (simp add: CompareAndSetSecret_def)
  show "cleanClusterPath c p = Inl er \<Longrightarrow>
      op_set file_store_ops e c p m s = (Inl er, s) \<and> op_create file_store_ops e c p m s = (Inl er, s) \<and>
      op_cas file_store_ops e c p n m s = (Inl er, s)" for e c p m n s er
    by (simp add: SetSecret_def CreateSecret_def CompareAndSetSecret_def setSecret_rejected)
  show "store_ok s \<Longrightarrow> fst (op_get file_store_ops e c p s) = Inr (Some m) \<Longrightarrow>
      \<exists>i q en. cleanClusterPath c p = Inr (i, q) \<and> view s i q = Some en \<and> \<not> e_archived en \<and> m = e_values en"
    for s e c p m
    using GetSecret_spec(3) [OF _ prod.collapse [symmetric], of s e c p m] by simp
  show "\<exists>i. cleanClusterID c = Inr i \<and> sorted (map sPath ss) \<and> distinct (map sPath ss) \<and>
      (\<forall>x. x \<in> set ss \<longleftrightarrow> (\<exists>p en. safe_path p \<and> view s i p = Some en \<and> x = secret_of p en))"
    if "store_ok s" "honest e" "fst (op_list file_store_ops e c s) = Inr ss" for s e c ss
  proof -
    have "ListSecrets e c s = (Inr ss, snd (ListSecrets e c s))" using that(3) by (simp add: prod_eq_iff)
    with that(1,2) show ?thesis by (intro ListSecrets_spec) (simp_all add: honest_def)
  qed
  show "view (snd (op_archive file_store_ops e c p s)) i q = archived_entry True (view s i q)"
    if "store_ok s" "honest e" "cleanClusterPath c p = Inr (i, q)" "fst (op_archive file_store_ops e c p s) = Inr ()"
    for s e c p i q
    using setArchived_spec [OF that(1) prod.collapse [symmetric] that(3)] that(2,4)
    by (simp add: ArchiveSecret_def honest_def)
  show "view (snd (op_restore file_store_ops e c p s)) i q = archived_entry False (view s i q)"
    if "store_ok s" "honest e" "cleanClusterPath c p = Inr (i, q)" "fst (op_restore file_store_ops e c p s) = Inr ()"
    for s e c p i q
    using setArchived_spec [OF that(1) prod.collapse [symmetric] that(3)] that(2,4)
    by (simp add: RestoreSecret_def honest_def)
  show "view (snd (op_delete file_store_ops e c p s)) i q = None"
    if "store_ok s" "honest e" "cleanClusterPath c p = Inr (i, q)" "fst (op_delete file_store_ops e c p s) = Inr ()"
    for s e c p i q
    using DeleteSecret_spec [OF that(1) prod.collapse [symmetric] that(3)] that(2,4) by (simp add: honest_def)
  show "view (snd (op_delete_cluster file_store_ops e c s)) i q = None"
    if "store_ok s" "cleanClusterID c = Inr i" "fst (op_delete_cluster file_store_ops e c s) = Inr ()" "safe_path q"
    for s e c i q
    using DeleteCluster_spec [OF that(1) prod.collapse [symmetric] that(2)] that(3,4) by simp
qed

section \<open>What the handler does to the store\<close>

definition effect :: "('s, 'e) store_ops \<Rightarrow> string \<Rightarrow> ('e store_call \<Rightarrow> bool) \<Rightarrow> 's hstate \<Rightarrow> 's hstate \<Rightarrow> bool" where
  "effect ops c P h h' \<longleftrightarrow>
     (\<exists>cls. h_store h' = run_calls ops cls (h_store h) \<and> (\<forall>cl \<in> set cls. call_cluster cl = c \<and> P cl))"

lemma effect_none: "h_store h' = h_store h \<Longrightarrow> effect ops c P h h'"
  unfolding effect_def by (rule exI [of _ "[]"]) simp

lemma effect_refl [simp]: "effect ops c P h h"
  by (rule effect_none) simp

lemma effect_trans: "effect ops c P h h' \<Longrightarrow> effect ops c P h' h'' \<Longrightarrow> effect ops c P h h''"
  unfolding effect_def by (metis Un_iff run_calls_simps(3) set_append)

lemma effect_mono: "effect ops c P h h' \<Longrightarrow> (\<And>cl. P cl \<Longrightarrow> Q cl) \<Longrightarrow> effect ops c Q h h'"
  unfolding effect_def by blast

lemma effect_one: "h_store h' = call_state ops cl (h_store h) \<Longrightarrow> call_cluster cl = c \<Longrightarrow> P cl \<Longrightarrow> effect ops c P h h'"
  unfolding effect_def by (rule exI [of _ "[cl]"]) simp

lemma call_store [simp]: "h_store (snd (call f h)) = snd (f (h_store h))"
  by (simp add: call_def split: prod.splits)

lemma call_tokens [simp]: "h_tokens (snd (call f h)) = h_tokens h"
  by (simp add: call_def split: prod.splits)

lemma fst_call [simp]: "fst (call f h) = fst (f (h_store h))"
  by (simp add: call_def split: prod.splits)

lemma tokenEntry_store [simp]: "h_store (snd (tokenEntry now t h)) = h_store h"
  by (auto simp: tokenEntry_def split: option.splits)

lemma tokenEntry_pair: "tokenEntry now t h = (x, h') \<Longrightarrow> h_store h' = h_store h"
  using tokenEntry_store [of now t h] by (simp del: tokenEntry_store)

lemma authenticate_pair: "authenticate now t c h = (x, h') \<Longrightarrow> h_store h' = h_store h"
  by (auto simp: authenticate_def split: prod.splits option.splits dest: tokenEntry_pair)

lemma authenticate_store [simp]: "h_store (snd (authenticate now t c h)) = h_store h"
  using authenticate_pair [of now t c h] by (cases "authenticate now t c h") simp

lemma authorize_pair: "authorize cf r c h = (x, h') \<Longrightarrow> h_store h' = h_store h"
  by (auto simp: authorize_def split: prod.splits if_splits dest: authenticate_pair)

lemma authorize_store [simp]: "h_store (snd (authorize cf r c h)) = h_store h"
  using authorize_pair [of cf r c h] by (cases "authorize cf r c h") simp

lemma authenticate_Some:
  "fst (authenticate now t c h) = Some en \<longleftrightarrow>
     t \<noteq> [] \<and> map_of (h_tokens h) t = Some en \<and> t_expires en > now \<and> t_cluster en = c"
  by (auto simp: authenticate_def tokenEntry_def split: option.splits if_splits)

lemma authorize_Some: "fst (authorize cf r c h) = Some c' \<Longrightarrow> c' = c"
  using authenticate_Some [of "r_clock r 1" "r_token r" c h]
  by (auto simp: authorize_def split: if_splits prod.splits)

lemma snd_unit_reply [simp]: "snd (unit_reply x) = snd x"
  by (auto simp: unit_reply_def split: prod.splits sum.splits)

lemma snd_write_result: "effect (c_ops cf) c reading (snd x) (snd (write_result cf r c path x))"
  by (cases x) (auto simp: write_result_def secretVersion_def effect_def call_def
      split: sum.splits bool.splits prod.splits option.splits
      intro: exI [of _ "[]"] exI [of _ "[CList (r_env r 1) c]"])

lemma call_pair: "call f h = (x, h') \<Longrightarrow> f (h_store h) = (x, h_store h') \<and> h_tokens h' = h_tokens h"
  by (auto simp: call_def split: prod.splits)

lemma effect_list: "call (op_list ops e c) h = (x, h') \<Longrightarrow> effect ops c reading h h'"
  by (rule effect_one [of _ _ "CList e c"]) (auto dest: call_pair)

lemma effect_get: "call (op_get ops e c p) h = (x, h') \<Longrightarrow> effect ops c reading h h'"
  by (rule effect_one [of _ _ "CGet e c p"]) (auto dest: call_pair)

lemma effect_version: "secretVersion cf e c p h = (x, h') \<Longrightarrow> effect (c_ops cf) c reading h h'"
  by (auto simp: secretVersion_def split: prod.splits sum.splits option.splits dest: effect_list)

lemma effect_metadata: "effect (c_ops cf) c reading h (snd (serveMetadata cf r c p h))"
  by (auto simp: serveMetadata_def split: prod.splits sum.splits option.splits dest: effect_list)

lemma effect_read: "effect (c_ops cf) c reading h (snd (serveRead cf r c api h))"
  by (auto simp: serveRead_def effect_metadata split: prod.splits sum.splits option.splits
      dest: effect_get effect_version intro: effect_trans)

lemma effect_serveList: "effect (c_ops cf) c reading h (snd (serveList cf r c api h))"
  by (auto simp: serveList_def Let_def split: prod.splits sum.splits option.splits dest: effect_list)

lemma effect_any: "effect ops c reading h h' \<Longrightarrow> effect ops c (\<lambda>_. True) h h'"
  by (rule effect_mono) simp_all

lemma effect_write_call: "effect (c_ops cf) c (\<lambda>_. True) h (snd (write_call cf e c p cas m h))"
proof (cases cas)
  case None
  then show ?thesis
    by (cases "call (op_set (c_ops cf) e c p m) h")
      (auto simp: write_call_def dest: call_pair intro!: effect_one [of _ _ "CSet e c p m"])
next
  case (Some n)
  then show ?thesis
    by (auto simp: write_call_def intro: effect_one [of _ _ "CCreate e c p m"]
        effect_one [of _ _ "CCas e c p n m"])
qed

lemma effect_write: "effect (c_ops cf) c (\<lambda>_. True) h (snd (serveWrite cf r c api h))"
  by (auto simp: serveWrite_def split: option.splits sum.splits
      intro: effect_trans [OF effect_write_call effect_any [OF snd_write_result]])

lemma effect_call: "snd (f (h_store h)) = call_state ops cl (h_store h) \<Longrightarrow> call_cluster cl = c \<Longrightarrow>
    effect ops c (\<lambda>_. True) h (snd (call f h))"
  by (rule effect_one [of _ _ cl]) simp_all

lemma effect_delete: "effect (c_ops cf) c (\<lambda>_. True) h (snd (serveDelete cf r c api h))"
  by (auto simp: serveDelete_def split: option.splits
      intro: effect_call [of _ _ _ "CDelete (r_env r 0) c p" for p]
        effect_call [of _ _ _ "CArchive (r_env r 0) c p" for p])

lemma authorize_cases:
  obtains (no) h1 where "authorize cf r c h = (None, h1)" "h_store h1 = h_store h"
  | (yes) h1 where "authorize cf r c h = (Some c, h1)" "h_store h1 = h_store h"
proof (cases "authorize cf r c h")
  case (Pair a h1)
  with that authorize_pair [OF Pair] authorize_Some [of cf r c h] show ?thesis by (cases a) auto
qed

lemma effect_after: "h_store h1 = h_store h \<Longrightarrow> effect ops c P h1 h2 \<Longrightarrow> effect ops c P h h2"
  by (simp add: effect_def)

lemma effect_kv: "effect (c_ops cf) c (\<lambda>_. True) h (snd (serveKV cf r c api h))"
proof (cases rule: authorize_cases [of cf r c h])
  case (no h1)
  then show ?thesis by (simp add: serveKV_def effect_none)
next
  case (yes h1)
  show ?thesis
    using yes(1) effect_any [OF effect_serveList [of cf c h1 r api]] effect_delete [of cf c h1 r api]
      effect_write [of cf c h1 r api] effect_any [OF effect_read [of cf c h1 r api]]
    by (auto simp: serveKV_def intro!: effect_after [OF yes(2)])
qed

text \<open>A GET without a list query only reads, unless it asks for a mount that is not there.\<close>

lemma effect_kv_get:
  assumes "r_method r = ''GET''"
  shows "effect (c_ops cf) c reading h (snd (serveKV cf r c api h))"
proof (cases rule: authorize_cases [of cf r c h])
  case (no h1)
  then show ?thesis by (simp add: serveKV_def effect_none)
next
  case (yes h1)
  show ?thesis
    using yes(1) assms effect_serveList [of cf c h1 r api] effect_read [of cf c h1 r api]
    by (auto simp: serveKV_def intro!: effect_after [OF yes(2)])
qed

lemma effect_undelete: "effect (c_ops cf) c (\<lambda>_. True) h (snd (serveUndelete cf r c path h))"
proof (cases rule: authorize_cases [of cf r c h])
  case (no h1)
  then show ?thesis by (simp add: serveUndelete_def effect_none)
next
  case (yes h1)
  then show ?thesis
    by (auto simp: serveUndelete_def intro!: effect_after [OF yes(2)] effect_call [of _ _ _ "CRestore (r_env r 0) c path"])
qed

lemma effect_destroy: "effect (c_ops cf) c (\<lambda>_. True) h (snd (serveDestroy cf r c path h))"
proof (cases rule: authorize_cases [of cf r c h])
  case (no h1)
  then show ?thesis by (simp add: serveDestroy_def effect_none)
next
  case (yes h1)
  then show ?thesis
    by (auto simp: serveDestroy_def intro!: effect_after [OF yes(2)] effect_call [of _ _ _ "CDelete (r_env r 0) c path"])
qed

lemma effect_allowed: "effect (c_ops cf) c (\<lambda>_. True) h (snd (serve_allowed cf r c api h))"
  by (auto simp: serve_allowed_def effect_kv effect_undelete effect_destroy split: option.splits)

lemma effect_allowed_get:
  "r_method r = ''GET'' \<Longrightarrow> effect (c_ops cf) c reading h (snd (serve_allowed cf r c api h))"
  by (simp add: serve_allowed_def effect_kv_get)

lemma serveLogin_store [simp]: "h_store (snd (serveLogin cf r c h)) = h_store h"
  by (auto simp: serveLogin_def Let_def split: option.splits prod.splits sum.splits)

lemma serveMount_store [simp]: "snd (serveMount r h) = h"
  by (simp add: serveMount_def)

text \<open>Every request is a sequence of store calls on the cluster its path names.\<close>

lemma effect_http:
  assumes "apiPath (r_path r) = Some (c, api)"
  shows "effect (c_ops cf) c (\<lambda>_. True) h (snd (ServeHTTP cf r h))"
proof -
  have del: "effect (c_ops cf) c (\<lambda>_. True) h (snd (serveClusterDelete cf r c h))"
    by (auto simp: serveClusterDelete_def intro: effect_call [of _ _ _ "CDeleteCluster (r_env r 0) c"])
  have unl: "effect (c_ops cf) c (\<lambda>_. True) h (snd (serveUnlock cf r c h))"
    by (auto simp: serveUnlock_def intro: effect_call [of _ _ _ "CUnlock (r_env r 0) c"])
  have auth: "effect (c_ops cf) c (\<lambda>_. True) h h1"
    if "authenticate now t c h = (x, h1)" for now t x h1
    using authenticate_pair [OF that] by (rule effect_none)
  have allow: "effect (c_ops cf) c (\<lambda>_. True) h (snd (serve_allowed cf r c api' h1))"
    if "authenticate now t c h = (x, h1)" for now t x h1 api'
    using effect_trans [OF auth [OF that] effect_allowed] .
  show ?thesis
    using assms del unl
    by (auto simp: ServeHTTP_def effect_none Let_def effect_allowed split: sum.splits prod.splits option.splits
        intro: auth allow)
qed

lemma http_no_route: "apiPath (r_path r) = None \<Longrightarrow> ServeHTTP cf r h = (errorResponse 404 (Msg ''not found''), h)"
  by (simp add: ServeHTTP_def)

end
