(* ===== verification/FakevaultAccess.thy ===== *)
theory FakevaultAccess
  imports FakevaultService
begin

text \<open>
  Access control of the fakevault handler: what a request may do to the store, what a request with a
  workload's token can read, and how a written secret is read back. The path the handler checks is
  cleaned once more by the store, so the lemmas follow the path through both cleanings.
\<close>

section \<open>Cleaning a path twice\<close>

lemma split_append_gen: "go_split c (a @ c # b) = go_split c a @ go_split c b"
proof (induction a)
  case Nil
  then show ?case by simp
next
  case (Cons x a)
  obtain q qs where "go_split c a = q # qs" by (metis neq_Nil_conv go_split_nonempty)
  with Cons show ?case by simp
qed

lemma safe_path_no_double: "safe_path p \<Longrightarrow> p \<noteq> a @ ''//'' @ b"
proof
  assume "safe_path p" "p = a @ ''//'' @ b"
  then have "[] \<in> set (go_split CHR ''/'' p)"
    using split_append_gen [of "CHR ''/''" a "CHR ''/'' # b"] by simp
  with \<open>safe_path p\<close> show False by (auto simp: safe_path_def safe_segment_def)
qed

lemma spaces_no_slash: "list_all (\<lambda>w. CHR ''/'' \<notin> set w \<and> CHR ''s'' \<notin> set w) go_spaces"
  by (simp add: go_spaces_def)

lemma trim_space_front:
  assumes "p = CHR ''s'' # r"
  shows "\<exists>w. p = trim_space p @ w \<and> CHR ''/'' \<notin> set w"
proof -
  have "find (\<lambda>w. w \<noteq> [] \<and> has_prefix p w) go_spaces = None"
    using assms by (simp add: go_spaces_def)
  then have sp: "strip_words go_spaces p = p" by (rule strip_words_fixed)
  obtain l where l: "concat l @ strip_words (map rev go_spaces) (rev p) = rev p" "set l \<subseteq> set (map rev go_spaces)"
    using strip_words_split by blast
  have "p = trim_space p @ rev (concat l)"
    using l(1) unfolding trim_space_def sp by (metis rev_append rev_rev_ident)
  moreover have "CHR ''/'' \<notin> set (rev (concat l))"
    using l(2) spaces_no_slash by (auto simp: list_all_iff)
  ultimately show ?thesis by blast
qed

lemma CleanPath_front:
  assumes "p = CHR ''s'' # r"
  shows "\<exists>s w. p = CleanPath p @ s @ w \<and> set s \<subseteq> {CHR ''/''} \<and> CHR ''/'' \<notin> set w"
proof -
  obtain w where w: "p = trim_space p @ w" "CHR ''/'' \<notin> set w" using trim_space_front [OF assms] by blast
  let ?t = "trim_space p"
  have hd: "?t = [] \<or> hd ?t = CHR ''s''"
    using w(1) assms by (cases ?t) auto
  then have "trim_prefix ?t ''/'' = ?t" "trim_prefix ?t ''v1/'' = ?t"
    by (cases ?t; simp add: trim_prefix_def)+
  then have cp: "CleanPath p = go_trim ''/'' ?t" by (simp add: CleanPath_def Let_def)
  have "trim_left ''/'' ?t = ?t" by (rule trim_left_id) (use hd in auto)
  then have "CleanPath p = trim_right ''/'' ?t" using cp by (simp add: go_trim_def)
  then obtain s where "?t = CleanPath p @ s" "set s \<subseteq> {CHR ''/''}"
    using trim_right_split [of ?t "''/''"] by auto
  with w show ?thesis by (metis append.assoc)
qed

lemma reclean_stays:
  assumes "safe_path p" "has_prefix p (pre @ ''/'')" "hd pre = CHR ''s''" "pre \<noteq> []"
  shows "CleanPath p = pre \<or> has_prefix (CleanPath p) (pre @ ''/'')"
proof -
  obtain rest where rest: "p = pre @ CHR ''/'' # rest" using assms(2) by (auto simp: has_prefix_iff)
  obtain r where "p = CHR ''s'' # r" using assms(3,4) rest by (cases pre) auto
  then obtain s w where sw: "p = CleanPath p @ s @ w" "set s \<subseteq> {CHR ''/''}" "CHR ''/'' \<notin> set w"
    using CleanPath_front by blast
  let ?q = "CleanPath p"
  show ?thesis
  proof (cases "length pre < length ?q")
    case True
    have "take (Suc (length pre)) p = pre @ ''/''" using rest by simp
    moreover have "take (Suc (length pre)) p = take (Suc (length pre)) ?q"
      using sw(1) True by (metis Suc_leI take_append diff_is_0_eq take_0 append_Nil2)
    ultimately show ?thesis by (simp add: has_prefix_def)
  next
    case False
    then obtain u where u: "pre = ?q @ u" "u @ CHR ''/'' # rest = s @ w"
      using rest sw(1) by (metis append_eq_append_conv_if append_eq_conv_conj append_take_drop_id drop_append
          linorder_not_less append.assoc)
    have us: "set u \<subseteq> {CHR ''/''}"
    proof (cases "length u < length s")
      case True
      then have "u = take (length u) s" using u(2) by (metis append_eq_conv_conj less_imp_le take_append
          diff_is_0_eq take_0 append_Nil2)
      then show ?thesis using sw(2) by (metis set_take_subset subset_trans)
    next
      case False
      then have "CHR ''/'' # rest = drop (length u - length s) w"
        using u(2) by (metis append_eq_conv_conj drop_append drop_all linorder_not_less append_Nil)
      then have "CHR ''/'' \<in> set w" by (metis in_set_dropD list.set_intros(1))
      with sw(3) show ?thesis by simp
    qed
    have "u = []"
    proof (rule ccontr)
      assume "u \<noteq> []"
      then obtain u' where "u = u' @ ''/''" using us by (cases u rule: rev_cases) auto
      then have "p = (?q @ u') @ ''//'' @ rest" using u(1) rest by simp
      with safe_path_no_double [OF assms(1)] show False by blast
    qed
    with u(1) show ?thesis by simp
  qed
qed

text \<open>
  The path the handler checks and the path the store uses differ: cleaning is not idempotent.
\<close>

lemma CleanPath_not_idem: "CleanPath ''a/ / '' = ''a/ '' \<and> CleanPath (CleanPath ''a/ / '') = ''a''"
  by code_simp


section \<open>Workload tokens\<close>

definition kv_route :: "string \<Rightarrow> bool" where
  "kv_route api \<longleftrightarrow>
     \<not> (has_prefix api ''/auth/'' \<and> has_suffix api ''/login'') \<and>
     \<not> has_prefix api ''/sys/internal/ui/mounts/'' \<and>
     api \<noteq> ''/sys/podplane/cluster'' \<and> api \<noteq> ''/sys/podplane/unlock''"

lemma safe_path_ends:
  assumes "safe_path q"
  shows "q \<noteq> []" "hd q \<noteq> CHR ''/''" "last q \<noteq> CHR ''/''"
proof -
  show "q \<noteq> []" using assms by (rule safe_path_nonempty)
  show "hd q \<noteq> CHR ''/''"
  proof
    assume "hd q = CHR ''/''"
    then obtain r where "q = CHR ''/'' # r" using \<open>q \<noteq> []\<close> by (cases q) auto
    then have "[] \<in> set (go_split CHR ''/'' q)" by simp
    then show False using assms by (auto simp: safe_path_def safe_segment_def)
  qed
  show "last q \<noteq> CHR ''/''"
  proof
    assume "last q = CHR ''/''"
    then obtain r where "q = r @ CHR ''/'' # []" using \<open>q \<noteq> []\<close> by (metis append_butlast_last_id)
    then have "[] \<in> set (go_split CHR ''/'' q)" by (simp add: split_append_gen)
    then show False using assms by (auto simp: safe_path_def safe_segment_def)
  qed
qed

lemma trim_slash_clean: "safe_path q \<Longrightarrow> go_trim ''/'' (CHR ''/'' # q) = q"
proof -
  assume q: "safe_path q"
  have "trim_left ''/'' (CHR ''/'' # q) = trim_left ''/'' q" by (simp add: trim_left_def)
  then have "go_trim ''/'' (CHR ''/'' # q) = go_trim ''/'' q" by (simp add: go_trim_def)
  also have "\<dots> = q" by (rule trim_id) (use safe_path_ends [OF q] in simp)
  finally show ?thesis .
qed

lemma kv_parts_clean:
  "safe_path q \<Longrightarrow> kv_parts (CHR ''/'' # q) = go_splitn 3 CHR ''/'' q"
  by (simp add: kv_parts_def trim_slash_clean)

lemma token_path_parts:
  assumes "safe_path q" "has_prefix q (token_prefix c t)"
  shows "dataPath (CHR ''/'' # q) = Some q" "metadataDataPath (CHR ''/'' # q) = None"
proof -
  obtain x where x: "q = token_prefix c t @ x" using assms(2) by (auto simp: has_prefix_iff)
  then obtain y where q: "q = ''secret'' @ CHR ''/'' # ''data'' @ CHR ''/'' # y" "y \<noteq> []"
    by (simp add: token_prefix_def)
  then have kv: "kv_parts (CHR ''/'' # q) = [''secret'', ''data'', y]"
    unfolding kv_parts_clean [OF assms(1)] splitn3_iff by simp
  show "dataPath (CHR ''/'' # q) = Some q" using kv q by (simp add: dataPath_def)
  show "metadataDataPath (CHR ''/'' # q) = None" using kv by (simp add: metadataDataPath_def)
qed

lemma cleaned_parts: "cleanClusterPath c api = Inr (i, q) \<Longrightarrow> safe_path q \<and> i = trim_space c"
  unfolding cleanClusterPath_Inr by blast

context vault_store
begin

lemma http_inv:
  assumes "inv (h_store h)" "c_ops cf = ops"
  shows "inv (h_store (snd (ServeHTTP cf r h)))"
proof (cases "apiPath (r_path r)")
  case None
  with assms show ?thesis by (simp add: http_no_route)
next
  case (Some ca)
  then obtain c api where "apiPath (r_path r) = Some (c, api)" by (cases ca) auto
  from effect_http [OF this, of cf h] assms inv_calls show ?thesis
    by (auto simp: effect_def)
qed

lemma http_frame:
  assumes "inv (h_store h)" "c_ops cf = ops" "apiPath (r_path r) = Some (c, api)"
    "safe_segment j" "safe_path q" "j \<noteq> trim_space c"
  shows "vw (h_store (snd (ServeHTTP cf r h))) j q = vw (h_store h) j q"
proof -
  obtain cls where cls: "h_store (snd (ServeHTTP cf r h)) = run_calls ops cls (h_store h)"
    "\<forall>cl \<in> set cls. call_cluster cl = c"
    using effect_http [OF assms(3), of cf h] assms(2) by (auto simp: effect_def)
  have "\<forall>cl \<in> set cls. \<not> touches cl j q" using cls(2) assms(6) by (metis touches_cluster)
  with frame_calls [OF assms(1,4,5)] cls(1) show ?thesis by simp
qed

lemma reading_frame:
  assumes "effect ops c reading h h'" "inv (h_store h)" "safe_segment j" "safe_path q"
  shows "vw (h_store h') j q = vw (h_store h) j q"
proof -
  obtain cls where cls: "h_store h' = run_calls ops cls (h_store h)" "\<forall>cl \<in> set cls. reading cl"
    using assms(1) by (auto simp: effect_def)
  with reading_touches have "\<forall>cl \<in> set cls. \<not> touches cl j q" by blast
  with frame_calls [OF assms(2-4)] cls(1) show ?thesis by simp
qed

end

text \<open>The workload part of a request without the trust of the local transport.\<close>

lemma workload_effect:
  assumes "\<not> c_trusted cf" "\<And>t. map_of (h_tokens h) (r_token r) = Some t \<Longrightarrow> \<not> t_operator t"
  shows "\<exists>c. effect (c_ops cf) c reading h (snd (ServeHTTP cf r h))"
proof (cases "apiPath (r_path r)")
  case None
  then show ?thesis by (simp add: http_no_route)
next
  case (Some ca)
  then obtain c api where ca: "apiPath (r_path r) = Some (c, api)" by (cases ca) auto
  have "effect (c_ops cf) c reading h (snd (ServeHTTP cf r h))"
  proof (cases "kv_route api")
    case False
    then show ?thesis
      using ca assms(1)
      by (auto simp: ServeHTTP_def kv_route_def effect_none serveClusterDelete_def serveUnlock_def)
  next
    case kv: True
    show ?thesis
    proof (cases "cleanClusterPath c api")
      case (Inl e)
      with ca kv show ?thesis by (auto simp: ServeHTTP_def kv_route_def)
    next
      case (Inr iq)
      then obtain i q where iq: "cleanClusterPath c api = Inr (i, q)" by (cases iq) auto
      obtain en h1 where au: "authenticate (r_clock r 0) (r_token r) c h = (en, h1)" by fastforce
      have http: "ServeHTTP cf r h = (case en of
          None \<Rightarrow> (errorResponse 403 (Msg ''permission denied''), h1)
        | Some entry \<Rightarrow> if token_allows r c q entry then serve_allowed cf r c (CHR ''/'' # q) h1
            else (errorResponse 403 (Msg ''permission denied''), h1))"
        using ca kv iq assms(1) au by (auto simp: ServeHTTP_def kv_route_def)
      have s: "h_store h1 = h_store h" using au by (rule authenticate_pair)
      show ?thesis
      proof (cases "\<exists>t. en = Some t \<and> token_allows r c q t")
        case False
        with http s show ?thesis by (auto simp: effect_none split: option.splits)
      next
        case True
        then obtain t where t: "en = Some t" "token_allows r c q t" by blast
        then have "map_of (h_tokens h) (r_token r) = Some t"
          using authenticate_Some [of "r_clock r 0" "r_token r" c h t] au by simp
        then have "r_method r = ''GET''" using assms(2) t(2) by (auto simp: token_allows_def)
        with http t effect_after [OF s effect_allowed_get] show ?thesis by simp
      qed
    qed
  qed
  then show ?thesis by blast
qed

text \<open>What a successful request with a workload's token is: one read below its prefix.\<close>

lemma workload_response:
  assumes "\<not> c_trusted cf" "\<And>t. map_of (h_tokens h) (r_token r) = Some t \<Longrightarrow> \<not> t_operator t"
    "apiPath (r_path r) = Some (c, api)" "kv_route api" "rs_status (fst (ServeHTTP cf r h)) = 200"
  obtains t q m v where "map_of (h_tokens h) (r_token r) = Some t" "t_cluster t = c"
    "r_clock r 0 < t_expires t" "r_method r = ''GET''"
    "safe_path q" "has_prefix q (token_prefix c t)"
    "fst (op_get (c_ops cf) (r_env r 0) c q (h_store h)) = Inr (Some m)"
    "rs_body (fst (ServeHTTP cf r h)) = Data (JObj [(''data'', JObj
       [(''data'', json_map m), (''metadata'', JObj [(''version'', json_int v)])])])"
proof -
  note err = errorResponse_def jsonResponse_def
  obtain i q where iq: "cleanClusterPath c api = Inr (i, q)"
    using assms(3,4,5) by (cases "cleanClusterPath c api") (auto simp: ServeHTTP_def kv_route_def err)
  obtain en h1 where au: "authenticate (r_clock r 0) (r_token r) c h = (en, h1)" by fastforce
  have http: "ServeHTTP cf r h = (case en of
      None \<Rightarrow> (errorResponse 403 (Msg ''permission denied''), h1)
    | Some entry \<Rightarrow> if token_allows r c q entry then serve_allowed cf r c (CHR ''/'' # q) h1
        else (errorResponse 403 (Msg ''permission denied''), h1))"
    using assms(1,3,4) iq au by (auto simp: ServeHTTP_def kv_route_def)
  then obtain t where t: "en = Some t" "token_allows r c q t"
    using assms(5) by (auto simp: err split: option.splits if_splits)
  have tok: "map_of (h_tokens h) (r_token r) = Some t" "r_clock r 0 < t_expires t" "t_cluster t = c"
    using authenticate_Some [of "r_clock r 0" "r_token r" c h t] au t(1) by simp_all
  have allow: "r_method r = ''GET''" "r_list r = []" "has_prefix q (token_prefix c t)"
    using assms(2) [OF tok(1)] t(2) by (auto simp: token_allows_def)
  have safe: "safe_path q" using cleaned_parts [OF iq] by simp
  have kv: "ServeHTTP cf r h = serveKV cf r c (CHR ''/'' # q) h1"
    using http t allow(1) by (simp add: serve_allowed_def)
  obtain a h2 where au2: "authorize cf r c h1 = (a, h2)" by fastforce
  have s: "h_store h2 = h_store h" using authenticate_pair [OF au] authorize_pair [OF au2] by simp
  have a: "a = Some c"
    using kv assms(5) au2 authorize_Some [of cf r c h1] by (cases a) (auto simp: serveKV_def err)
  have rd: "ServeHTTP cf r h = serveRead cf r c (CHR ''/'' # q) h2"
    using kv au2 a allow(1,2) by (simp add: serveKV_def)
  obtain g h3 where g: "call (op_get (c_ops cf) (r_env r 0) c q) h2 = (g, h3)" by fastforce
  obtain m where m: "g = Inr (Some m)"
    using rd assms(5) g by (cases g)
      (auto simp: serveRead_def token_path_parts [OF safe allow(3)] store_failed_def err split: option.splits)
  obtain v h4 where v: "secretVersion cf (r_env r 1) c q h3 = (v, h4)" by fastforce
  have body: "rs_body (fst (ServeHTTP cf r h)) = Data (JObj [(''data'', JObj
       [(''data'', json_map m), (''metadata'', JObj [(''version'', json_int v)])])])"
    using rd g m v by (simp add: serveRead_def token_path_parts [OF safe allow(3)] err)
  have "fst (op_get (c_ops cf) (r_env r 0) c q (h_store h2)) = Inr (Some m)"
    using call_pair [OF g] m by simp
  then have "fst (op_get (c_ops cf) (r_env r 0) c q (h_store h)) = Inr (Some m)" using s by simp
  from that [OF tok(1,3,2) allow(1) safe allow(3) this body] show thesis .
qed

lemma token_prefix_split: "token_prefix c t = (''secret/data/'' @ c @ ''/'' @ t_namespace t @ ''/'' @ t_role t) @ ''/''"
  by (simp add: token_prefix_def)

section \<open>Writing through the handler\<close>

lemma http_trusted:
  assumes "c_trusted cf" "apiPath (r_path r) = Some (c, api)" "kv_route api" "cleanClusterPath c api = Inr (i, q)"
  shows "ServeHTTP cf r h = serve_allowed cf r c (CHR ''/'' # q) h"
  using assms by (auto simp: ServeHTTP_def kv_route_def)

lemma dataPath_others:
  assumes "dataPath api = Some p"
  shows "undeleteDataPath api = None" "destroyDataPath api = None" "metadataDataPath api = None"
  using assms
  by (auto simp: dataPath_def undeleteDataPath_def destroyDataPath_def metadataDataPath_def split: list.splits if_splits)

lemma json_resp [simp]: "rs_status (jsonResponse n b) = n" "rs_body (jsonResponse n b) = b"
  by (simp_all add: jsonResponse_def)

lemma err_resp [simp]: "rs_status (errorResponse n m) = n"
  by (simp add: errorResponse_def)

lemma failed_resp [simp]: "rs_status (store_failed e) = 500"
  by (simp add: store_failed_def)

context vault_store
begin

lemma write_call_contract:
  assumes "c_ops cf = ops" "inv (h_store h)" "fair e" "cleanClusterPath c p = Inr (i, q)"
    "write_call cf e c p cas m h = (x, h')"
  shows "write_contract m cas (vw (h_store h) i q) x (vw (h_store h') i q)"
proof (cases cas)
  case None
  obtain y h1 where y: "call (op_set ops e c p m) h = (y, h1)" by fastforce
  with None assms(1,5) have "x = map_sum id (\<lambda>_. True) y" "h' = h1" by (simp_all add: write_call_def)
  with call_pair [OF y] set_law [OF assms(2-4), of m] None show ?thesis by simp
next
  case (Some n)
  have a: "(x, h') = (if n = 0 then call (op_create ops e c p m) h else call (op_cas ops e c p n m) h)"
    using Some assms(1,5) by (auto simp: write_call_def)
  show ?thesis
  proof (cases "n = 0")
    case True
    with a have "call (op_create ops e c p m) h = (x, h')" by simp
    with call_pair [OF this] create_law [OF assms(2-4), of m] Some True show ?thesis by simp
  next
    case False
    with a have "call (op_cas ops e c p n m) h = (x, h')" by simp
    with call_pair [OF this] cas_law [OF assms(2-4), of m n] Some show ?thesis by simp
  qed
qed

text \<open>A successful write through the trusted handler stores the body's values at the body's version.\<close>

lemma put_contract:
  assumes "c_ops cf = ops" "inv (h_store h)" "fair (r_env r 0)" "c_trusted cf"
    "apiPath (r_path r) = Some (c, api)" "kv_route api" "cleanClusterPath c api = Inr (i, q0)"
    "dataPath (CHR ''/'' # q0) = Some p" "r_method r = ''PUT'' \<or> r_method r = ''POST''"
    "rs_status (fst (ServeHTTP cf r h)) = 200"
  obtains cas m q where "write_request cf (r_body r) = Inr (cas, m)"
    "cleanClusterPath c p = Inr (i, q)"
    "vw (h_store (snd (ServeHTTP cf r h))) i q = Some (new_entry m (vw (h_store h) i q))"
    "cas = None \<or> cas = Some (entry_version (vw (h_store h) i q))"
proof -
  have http: "ServeHTTP cf r h = serveWrite cf r c (CHR ''/'' # q0) h"
    using http_trusted [OF assms(4-7)] assms(4,8,9) dataPath_others [OF assms(8)]
    by (auto simp: serve_allowed_def serveKV_def authorize_def)
  obtain cas m where req: "write_request cf (r_body r) = Inr (cas, m)"
    using http assms(8,10) by (cases "write_request cf (r_body r)") (auto simp: serveWrite_def)
  obtain x h1 where wc: "write_call cf (r_env r 0) c p cas m h = (x, h1)" by fastforce
  have wr: "ServeHTTP cf r h = write_result cf r c p (x, h1)"
    using http req assms(8) wc by (simp add: serveWrite_def)
  then have x: "x = Inr True" using assms(10)
    by (cases x) (auto simp: write_result_def split: bool.splits)
  have inv1: "inv (h_store h1)"
    using effect_write_call [of cf c h "r_env r 0" p cas m] assms(1,2) inv_calls wc by (auto simp: effect_def)
  show thesis
  proof (cases "cleanClusterPath c p")
    case (Inl e)
    have "x = Inl e"
      using wc assms(1) reject_law [OF Inl]
      by (auto simp: write_call_def call_def split: option.splits if_splits)
    with x show thesis by simp
  next
    case (Inr iq)
    then obtain q where iq: "cleanClusterPath c p = Inr (i, q)"
      using cleaned_parts assms(7) by (cases iq) metis
    have "write_contract m cas (vw (h_store h) i q) (Inr True) (vw (h_store h1) i q)"
      using write_call_contract [OF assms(1,2,3) iq wc] x by simp
    moreover have "effect ops c reading h1 (snd (ServeHTTP cf r h))"
      using snd_write_result [of cf c "(x, h1)" r p] wr assms(1) by simp
    then have "vw (h_store (snd (ServeHTTP cf r h))) i q = vw (h_store h1) i q"
      using cleaned_safe [OF iq] by (intro reading_frame [OF _ inv1])
    ultimately show thesis using that [OF req iq] by (auto simp: write_contract_def)
  qed
qed

end

section \<open>Logins\<close>

text \<open>What a token stands for: an identity the validator vouched for, valid no longer than it.\<close>

definition token_ok :: "(string \<Rightarrow> string \<Rightarrow> string \<Rightarrow> identity \<times> gerror) \<Rightarrow> token \<Rightarrow> bool" where
  "token_ok validator t \<longleftrightarrow>
     (\<exists>jwt identity. validator (t_cluster t) (t_role t) jwt = (identity, None) \<and>
        t_namespace t = id_namespace identity \<and> t_expires t \<le> id_expires identity \<and>
        validIdentitySegment (t_namespace t) \<and>
        (if t_operator t
         then t_role t = operatorRole \<and> id_namespace identity = operatorServiceAccountNamespace \<and>
              id_account identity = operatorServiceAccountName
         else t_role t = id_account identity \<and> validIdentitySegment (t_role t) \<and> t_role t \<noteq> operatorRole))"

lemma login_token_ok:
  assumes "validator c role jwt = (identity, err)" "\<not> login_rejected now role identity err" "x \<le> id_expires identity"
  shows "token_ok validator \<lparr>t_cluster = c, t_expires = x, t_namespace = id_namespace identity, t_role = role,
     t_operator = is_operator role identity\<rparr>"
  unfolding token_ok_def
  by (rule exI [of _ jwt], rule exI [of _ identity]) (use assms in \<open>auto simp: login_rejected_def is_operator_def\<close>)

lemma login_tokens:
  assumes "map_of (h_tokens (snd (serveLogin cf r c h))) k = Some t"
  shows "map_of (h_tokens h) k = Some t \<or>
    (\<exists>validator. c_validator cf = Some validator \<and> token_ok validator t \<and> t_cluster t = c \<and>
       t_expires t \<le> r_clock r 1 + hour_ns)"
  using assms
  by (auto simp: serveLogin_def Let_def split: if_splits option.splits prod.splits sum.splits
      intro: login_token_ok)

lemma unit_reply_tokens [simp]: "h_tokens (snd (unit_reply (call f h))) = h_tokens h"
  by simp

lemma tokenEntry_tokens: "tokenEntry now t h = (x, h') \<Longrightarrow> map_of (h_tokens h') k = Some y \<Longrightarrow> map_of (h_tokens h) k = Some y"
  by (auto simp: tokenEntry_def split: if_splits option.splits)

lemma authenticate_tokens: "authenticate now t c h = (x, h') \<Longrightarrow> map_of (h_tokens h') k = Some y \<Longrightarrow> map_of (h_tokens h) k = Some y"
  by (auto simp: authenticate_def split: prod.splits option.splits dest: tokenEntry_tokens)

lemma authorize_tokens: "authorize cf r c h = (x, h') \<Longrightarrow> map_of (h_tokens h') k = Some y \<Longrightarrow> map_of (h_tokens h) k = Some y"
  by (auto simp: authorize_def split: prod.splits if_splits dest: authenticate_tokens)

lemma secretVersion_tokens: "secretVersion cf e c p h = (x, h') \<Longrightarrow> h_tokens h' = h_tokens h"
  by (auto simp: secretVersion_def split: prod.splits sum.splits option.splits dest: call_pair)

lemma write_result_tokens: "h_tokens (snd (write_result cf r c p x)) = h_tokens (snd x)"
  by (cases x) (auto simp: write_result_def split: sum.splits bool.splits prod.splits dest: secretVersion_tokens)

lemma write_call_tokens: "h_tokens (snd (write_call cf e c p cas m h)) = h_tokens h"
  by (auto simp: write_call_def split: option.splits prod.splits dest: call_pair)

lemma kv_tokens: "map_of (h_tokens (snd (serveKV cf r c api h))) k = Some y \<Longrightarrow> map_of (h_tokens h) k = Some y"
proof -
  obtain a h1 where au: "authorize cf r c h = (a, h1)" by fastforce
  have "h_tokens (snd (serveList cf r c' api h1)) = h_tokens h1" for c'
    by (auto simp: serveList_def Let_def split: option.splits prod.splits sum.splits dest: call_pair)
  moreover have "h_tokens (snd (serveDelete cf r c' api h1)) = h_tokens h1" for c'
    by (auto simp: serveDelete_def split: option.splits)
  moreover have "h_tokens (snd (serveWrite cf r c' api h1)) = h_tokens h1" for c'
    by (auto simp: serveWrite_def write_result_tokens write_call_tokens split: option.splits sum.splits)
  moreover have "h_tokens (snd (serveRead cf r c' api h1)) = h_tokens h1" for c'
    by (auto simp: serveRead_def serveMetadata_def split: option.splits prod.splits sum.splits
        dest!: call_pair secretVersion_tokens)
  ultimately have "h_tokens (snd (serveKV cf r c api h)) = h_tokens h1"
    using au by (cases a) (auto simp: serveKV_def)
  then show "map_of (h_tokens (snd (serveKV cf r c api h))) k = Some y \<Longrightarrow> map_of (h_tokens h) k = Some y"
    using authorize_tokens [OF au] by simp
qed

lemma allowed_tokens: "map_of (h_tokens (snd (serve_allowed cf r c api h))) k = Some y \<Longrightarrow> map_of (h_tokens h) k = Some y"
  by (auto simp: serve_allowed_def serveUndelete_def serveDestroy_def split: if_splits option.splits prod.splits
      dest: kv_tokens authorize_tokens)

lemma http_tokens:
  assumes "map_of (h_tokens (snd (ServeHTTP cf r h))) k = Some t"
  shows "map_of (h_tokens h) k = Some t \<or>
    (\<exists>c api validator. apiPath (r_path r) = Some (c, api) \<and> c_validator cf = Some validator \<and> token_ok validator t \<and>
       t_cluster t = c \<and> t_expires t \<le> r_clock r 1 + hour_ns)"
proof (cases "apiPath (r_path r)")
  case None
  with assms show ?thesis by (simp add: http_no_route)
next
  case (Some ca)
  then obtain c api where ca: "apiPath (r_path r) = Some (c, api)" by (cases ca) auto
  show ?thesis
  proof (cases "has_prefix api ''/auth/'' \<and> has_suffix api ''/login''")
    case True
    with ca assms login_tokens [of cf r c h k t] show ?thesis by (auto simp: ServeHTTP_def)
  next
    case False
    have "map_of (h_tokens h) k = Some t"
      using assms ca False
      by (auto simp: ServeHTTP_def serveClusterDelete_def serveUnlock_def Let_def
          split: if_splits sum.splits prod.splits option.splits dest: allowed_tokens authenticate_tokens)
    then show ?thesis by simp
  qed
qed

section \<open>Reachable states\<close>

text \<open>A server's history: it starts with an empty store, answers requests, and may be restarted.\<close>

inductive http_reach :: "(fstore, senv) hconf \<Rightarrow> fstore hstate \<Rightarrow> bool" for cf where
  start: "http_reach cf \<lparr>h_store = NewFileStore ring \<lparr>fs_files = [], fs_dirs = []\<rparr>, h_tokens = []\<rparr>"
| request: "http_reach cf h \<Longrightarrow> http_reach cf (snd (ServeHTTP cf r h))"
| restart: "http_reach cf h \<Longrightarrow>
    http_reach cf \<lparr>h_store = NewFileStore (st_ring (h_store h)) (st_fs (h_store h)), h_tokens = []\<rparr>"

lemma store_ok_restart: "store_ok s \<Longrightarrow> store_ok (NewFileStore (st_ring s) (st_fs s))"
  by (simp add: store_ok_def keys_ok_def files_ok_def NewFileStore_def ring_key_def)

lemma reach_inv:
  assumes "http_reach cf h" "c_ops cf = file_store_ops" "c_validator cf = Some validator"
  shows "store_ok (h_store h) \<and> (\<forall>k t. map_of (h_tokens h) k = Some t \<longrightarrow> token_ok validator t)"
  using assms(1)
proof induction
  case (start ring)
  then show ?case by simp
next
  case (request h r)
  have "token_ok validator t" if "map_of (h_tokens (snd (ServeHTTP cf r h))) k = Some t" for k t
    using http_tokens [OF that] request.IH assms(3) by auto
  with fsv.http_inv [OF _ assms(2)] request.IH show ?case by blast
next
  case (restart h)
  then show ?case by (simp add: store_ok_restart)
qed

end
