(* ===== verification/FakevaultProps.thy ===== *)
theory FakevaultProps
  imports FakevaultAccess
begin

text \<open>
  The properties of fakevault, over the definitions of \<open>FakevaultStore\<close> and \<open>FakevaultHandler\<close>, and
  concrete stores and requests on which they are evaluated.
\<close>

section \<open>A concrete store, handler and requests\<close>

definition ex_env :: senv where
  "ex_env = \<lparr>env_now = ''2026-01-01T00:00:00Z'', env_key_rand = Inr (\<lambda>_. CHR ''k''),
     env_nonce_rand = Inr (\<lambda>_. CHR ''n''), env_tmp = 7, env_fault = (\<lambda>_ _. None), env_ring_fault = (\<lambda>_ _. None)\<rparr>"

definition ex_store :: fstore where
  "ex_store = NewFileStore [] \<lparr>fs_files = [], fs_dirs = []\<rparr>"

definition ex_request :: "string \<Rightarrow> string \<Rightarrow> string \<Rightarrow> body \<Rightarrow> senv request" where
  "ex_request meth path tok b =
     \<lparr>r_method = meth, r_path = path, r_token = tok, r_list = [], r_body = b, r_clock = (\<lambda>_. 0),
      r_token_rand = Inr (\<lambda>_. CHR ''t''), r_now_text = ''2026-01-01T00:00:00Z'', r_env = (\<lambda>_. ex_env)\<rparr>"

definition ex_path :: string where "ex_path = ''secret/data/c1/ns/app/db''"
definition ex_url :: string where "ex_url = ''/vault/c1/v1/secret/data/c1/ns/app/db''"
definition ex_values :: "string gomap" where "ex_values = [(''pw'', ''x'')]"

definition ex_put :: "senv request" where
  "ex_put = ex_request ''PUT'' ex_url [] (JsonBody True (JObj [(''data'', JObj [(''pw'', JStr ''x'')])]))"

definition ex_get :: "string \<Rightarrow> senv request" where
  "ex_get tok = ex_request ''GET'' ex_url tok BadBody"

definition ex_trusted :: "(fstore, senv) hconf" where
  "ex_trusted = NewTrustedHandler file_store_ops (\<lambda>_. ''0'')"

definition ex_validator :: "string \<Rightarrow> string \<Rightarrow> string \<Rightarrow> identity \<times> gerror" where
  "ex_validator c role jwt = (\<lparr>id_namespace = ''ns'', id_account = ''app'', id_expires = 5\<rparr>, None)"

definition ex_untrusted :: "(fstore, senv) hconf" where
  "ex_untrusted = NewHandler file_store_ops ex_validator (\<lambda>_. ''0'')"

definition ex_token :: token where
  "ex_token = \<lparr>t_cluster = ''c1'', t_expires = 5, t_namespace = ''ns'', t_role = ''app'', t_operator = False\<rparr>"

text \<open>The store after one secret is written.\<close>

definition ex_store1 :: fstore where
  "ex_store1 = snd (SetSecret ex_env ''c1'' ex_path ex_values ex_store)"

definition ex_state :: "fstore hstate" where
  "ex_state = \<lparr>h_store = ex_store1, h_tokens = [(''tok'', ex_token)]\<rparr>"

lemma ex_quiet [simp]: "env_quiet ex_env" "honest ex_env" "quiet (env_fault ex_env)"
  by (auto simp: env_quiet_def honest_def quiet_def ex_env_def reads_true_def stats_true_def removes_true_def)

lemma ex_store_ok [simp]: "store_ok ex_store" "store_ok ex_store1"
proof -
  show 1: "store_ok ex_store" by (simp add: ex_store_def)
  show "store_ok ex_store1"
    using fsv.inv_call [OF 1, of "CSet ex_env ''c1'' ex_path ex_values"] by (simp add: ex_store1_def)
qed

lemma ex_clean [simp]: "cleanClusterPath ''c1'' ex_path = Inr (''c1'', ex_path)"
  by code_simp

lemma ex_set [simp]: "SetSecret ex_env ''c1'' ex_path ex_values ex_store = (Inr (), ex_store1)"
proof -
  have "fst (SetSecret ex_env ''c1'' ex_path ex_values ex_store) = Inr ()" by code_simp
  then show ?thesis by (simp add: ex_store1_def prod_eq_iff)
qed

lemma ex_view: "view ex_store1 ''c1'' ex_path = Some \<lparr>e_values = ex_values, e_archived = False, e_version = 1\<rparr>"
  by code_simp

section \<open>Access\<close>



text \<open>
  C8: A request that does not present an operator's token, on a transport that is not trusted, whatever
  its method, path and body, leaves every secret of every cluster as it was.
\<close>

theorem workload_readonly:
  assumes "store_ok (h_store h)" "c_ops cf = file_store_ops" "\<not> c_trusted cf"
    "\<And>t. map_of (h_tokens h) (r_token r) = Some t \<Longrightarrow> \<not> t_operator t"
    "safe_segment j" "safe_path q"
  shows "view (h_store (snd (ServeHTTP cf r h))) j q = view (h_store h) j q"
proof -
  obtain c where "effect (c_ops cf) c reading h (snd (ServeHTTP cf r h))"
    using workload_effect [OF assms(3,4)] by blast
  then show ?thesis unfolding assms(2) by (rule fsv.reading_frame [OF _ assms(1,5,6)])
qed

theorem workload_readonly_witness:
  "view (h_store (snd (ServeHTTP ex_untrusted (ex_request ''DELETE'' ex_url ''tok'' BadBody) ex_state))) ''c1'' ex_path =
   view (h_store ex_state) ''c1'' ex_path"
proof (rule workload_readonly)
  show "safe_path ex_path" "safe_segment ''c1''" using ex_clean cleanClusterPath_Inr by blast+
qed (auto simp: ex_state_def ex_untrusted_def NewHandler_def ex_token_def ex_request_def)

text \<open>
  C3: In every state a server with a login validator can reach, by any requests and restarts, under any
  failures of disk, keyring and random source, every secret's file is sealed under its cluster's
  key for its own path, the cached keys are the keyring's, and every token stands for an identity the
  validator vouched for, in a role that is the account's own or the operator's.
\<close>

theorem reachable_ok:
  assumes "http_reach cf h" "c_ops cf = file_store_ops" "c_validator cf = Some validator"
  shows "store_ok (h_store h) \<and> (\<forall>k t. map_of (h_tokens h) k = Some t \<longrightarrow> token_ok validator t)"
  by (rule reach_inv [OF assms])

definition ex_login :: "senv request" where
  "ex_login = ex_request ''POST'' ''/vault/c1/v1/auth/kubernetes/login'' []
     (JsonBody True (JObj [(''role'', JStr ''app''), (''jwt'', JStr ''j'')]))"

theorem reachable_ok_witness:
  "(let h = snd (ServeHTTP ex_untrusted ex_login \<lparr>h_store = ex_store, h_tokens = []\<rparr>) in
    length (h_tokens h) = 1 \<and> store_ok (h_store h) \<and>
    (\<forall>k t. map_of (h_tokens h) k = Some t \<longrightarrow> token_ok ex_validator t))"
proof -
  have "http_reach ex_untrusted (snd (ServeHTTP ex_untrusted ex_login \<lparr>h_store = ex_store, h_tokens = []\<rparr>))"
    unfolding ex_store_def by (intro http_reach.request http_reach.start)
  moreover have "length (h_tokens (snd (ServeHTTP ex_untrusted ex_login \<lparr>h_store = ex_store, h_tokens = []\<rparr>))) = 1"
    by code_simp
  ultimately show ?thesis
    using reachable_ok by (simp add: ex_untrusted_def NewHandler_def)
qed

text \<open>
  C17: A request whose path names one cluster changes no secret of another, on either transport.
\<close>

theorem cluster_isolation:
  assumes "store_ok (h_store h)" "c_ops cf = file_store_ops" "apiPath (r_path r) = Some (c, api)"
    "safe_segment j" "safe_path q" "j \<noteq> trim_space c"
  shows "view (h_store (snd (ServeHTTP cf r h))) j q = view (h_store h) j q"
  by (rule fsv.http_frame [OF assms])

theorem cluster_isolation_witness:
  "view (h_store (snd (ServeHTTP ex_trusted (ex_request ''DELETE'' ''/vault/c2/v1/sys/podplane/cluster'' [] BadBody) ex_state)))
     ''c1'' ex_path = view (h_store ex_state) ''c1'' ex_path"
proof (rule cluster_isolation [where c = "''c2''" and api = "''/sys/podplane/cluster''"])
  show "safe_path ex_path" "safe_segment ''c1''" using ex_clean cleanClusterPath_Inr by blast+
  show "apiPath (r_path (ex_request ''DELETE'' ''/vault/c2/v1/sys/podplane/cluster'' [] BadBody)) =
      Some (''c2'', ''/sys/podplane/cluster'')" by code_simp
  show "''c1'' \<noteq> trim_space ''c2''" by code_simp
qed (simp_all add: ex_state_def ex_trusted_def NewTrustedHandler_def)

text \<open>
  What a successful trusted PUT or POST stores is what the next GET of the same URL answers: the
  values of the body in key order, when that read meets no failure.
\<close>

theorem put_then_get:
  assumes "store_ok (h_store h)" "c_ops cf = file_store_ops" "honest (r_env r 0)" "c_trusted cf"
    "apiPath (r_path r) = Some (c, api)" "kv_route api" "cleanClusterPath c api = Inr (i, q)"
    "dataPath (CHR ''/'' # q) = Some p" "r_method r = ''PUT'' \<or> r_method r = ''POST''"
    "rs_status (fst (ServeHTTP cf r h)) = 200"
    "r_path r2 = r_path r" "r_method r2 = ''GET''" "r_list r2 = []" "env_quiet (r_env r2 0)"
  shows "\<exists>cas m v. write_request cf (r_body r) = Inr (cas, m) \<and>
    rs_body (fst (ServeHTTP cf r2 (snd (ServeHTTP cf r h)))) = Data (JObj [(''data'', JObj
      [(''data'', json_map (canon_map m)), (''metadata'', JObj [(''version'', json_int v)])])])"
proof -
  let ?h = "snd (ServeHTTP cf r h)"
  obtain cas m q' where w: "write_request cf (r_body r) = Inr (cas, m)" "cleanClusterPath c p = Inr (i, q')"
    "view (h_store ?h) i q' = Some (new_entry m (view (h_store h) i q'))"
    using fsv.put_contract [OF assms(2,1,3-10)] .
  have ok: "store_ok (h_store ?h)" by (rule fsv.http_inv [OF assms(1,2)])
  have g: "fst (GetSecret (r_env r2 0) c p (h_store ?h)) = Inr (Some (canon_map m))"
    using GetSecret_found [OF ok assms(14) w(2,3)] by (simp add: new_entry_def)
  obtain x h1 where x: "call (GetSecret (r_env r2 0) c p) ?h = (x, h1)" by fastforce
  then have x': "x = Inr (Some (canon_map m))" using g call_pair [OF x] by simp
  obtain v h2 where v: "secretVersion cf (r_env r2 1) c p h1 = (v, h2)" by fastforce
  have "ServeHTTP cf r2 ?h = serveRead cf r2 c (CHR ''/'' # q) ?h"
    using http_trusted [OF assms(4) _ assms(6,7), of r2 ?h] assms(5,11,12,13,4)
    by (simp add: serve_allowed_def serveKV_def authorize_def)
  then have "rs_body (fst (ServeHTTP cf r2 ?h)) = Data (JObj [(''data'', JObj
      [(''data'', json_map (canon_map m)), (''metadata'', JObj [(''version'', json_int v)])])])"
    using dataPath_others(3) [OF assms(8)] assms(2,8) x x' v by (simp add: serveRead_def)
  with w(1) show ?thesis by blast
qed

theorem put_then_get_witness:
  "\<exists>v. rs_body (fst (ServeHTTP ex_trusted (ex_get []) (snd (ServeHTTP ex_trusted ex_put ex_state)))) =
     Data (JObj [(''data'', JObj [(''data'', JObj [(''pw'', JStr ''x'')]), (''metadata'', JObj [(''version'', json_int v)])])])"
proof -
  have r: "apiPath (r_path ex_put) = Some (''c1'', ''/secret/data/c1/ns/app/db'')"
    "kv_route ''/secret/data/c1/ns/app/db''"
    "cleanClusterPath ''c1'' ''/secret/data/c1/ns/app/db'' = Inr (''c1'', ex_path)"
    "dataPath (CHR ''/'' # ex_path) = Some ex_path"
    "rs_status (fst (ServeHTTP ex_trusted ex_put ex_state)) = 200"
    "write_request ex_trusted (r_body ex_put) = Inr (None, ex_values)"
    by code_simp+
  have e: "json_map (canon_map ex_values) = JObj [(''pw'', JStr ''x'')]" by code_simp
  from put_then_get [OF _ _ _ _ r(1-4) _ r(5), of "ex_get []"] r(6) show ?thesis
    unfolding e [symmetric]
    by (auto simp: ex_state_def ex_trusted_def NewTrustedHandler_def ex_get_def ex_put_def ex_request_def)
qed

section \<open>The store\<close>

text \<open>
  C15: A write, conditional or not, under any failures that do not misreport a file as missing: it
  keeps the invariant and every other secret; when it succeeds the secret has the new values and the next
  version and the expected version was the current one; when it reports a mismatch nothing has changed;
  when it fails the secret is the old or the new one.
\<close>

theorem setSecret_correct:
  assumes "store_ok s" "reads_true env" "cleanClusterPath c p = Inr (i, q)"
    "setSecret env c p m ver s = (r, s')"
  shows "store_ok s' \<and> same_but s i q s' \<and> write_contract m ver (view s i q) r (view s' i q)"
  using setSecret_spec [OF assms(1,2,4,3)]
  by (cases r) (auto simp: write_contract_def split: bool.splits)

definition ex_full_disk :: senv where
  "ex_full_disk = ex_env\<lparr>env_fault := (\<lambda>op p. if op = ''Sync'' \<and> length p = 7 then Some (Sentinel ''EIO'') else None)\<rparr>"

theorem setSecret_correct_witness:
  "(let s' = snd (setSecret ex_full_disk ''c1'' ex_path [(''pw'', ''y'')] (Some 1) ex_store1) in
     fst (setSecret ex_full_disk ''c1'' ex_path [(''pw'', ''y'')] (Some 1) ex_store1) =
       Inl (Wrapf ''write fakevault secret file: %w'' [] (Wrapf ''sync parent directory: %w'' [] (Sentinel ''EIO''))) \<and>
     store_ok s' \<and> same_but ex_store1 ''c1'' ex_path s' \<and>
     (view s' ''c1'' ex_path = view ex_store1 ''c1'' ex_path \<or>
      view s' ''c1'' ex_path = Some (new_entry [(''pw'', ''y'')] (view ex_store1 ''c1'' ex_path))))"
proof -
  have e: "fst (setSecret ex_full_disk ''c1'' ex_path [(''pw'', ''y'')] (Some 1) ex_store1) =
       Inl (Wrapf ''write fakevault secret file: %w'' [] (Wrapf ''sync parent directory: %w'' [] (Sentinel ''EIO'')))"
    by code_simp
  have "reads_true ex_full_disk" by (simp add: reads_true_def ex_full_disk_def)
  from setSecret_correct [OF ex_store_ok(2) this ex_clean prod.collapse [symmetric],
      where m = "[(''pw'', ''y'')]" and ver = "Some 1"] e
  show ?thesis by (simp add: Let_def write_contract_def)
qed

text \<open>
  Without failures, with usable keyring and a place for the file, a write of valid text succeeds:
  the hypotheses name everything that can go wrong.
\<close>

lemma missing_ENOENT: "list_all (\<lambda>q. file_at fs q = None) (prefixes p) \<Longrightarrow> missing fs p = ENOENT"
  by (auto simp: missing_def list_ex_iff list_all_iff)

lemma vaultKey_fresh:
  assumes "env_ring_fault env = (\<lambda>_ _. None)" "env_key_rand env = Inr f" "cleanClusterID c = Inr i"
    "keys_ok st" "map_of (st_ring st) (vaultKeyName i) = None"
  shows "fst (vaultKey env c st) = Inr (map f [0..<vaultKeySize])"
proof -
  have "map_of (st_keys st) i = None"
    using assms(4,5) unfolding keys_ok_def ring_key_def by (metis not_None_eq option.simps(3,4))
  with assms show ?thesis
    by (simp add: vaultKey_def Let_def bindS_def wrapS_def KeyringRead_def KeyringWrite_def liftS_def
        rand_read_def cache_key_def)
qed

theorem setSecret_succeeds:
  assumes "store_ok s" "env_quiet env" "cleanClusterPath c p = Inr (i, q)" "m \<noteq> []"
    "list_all (\<lambda>(k, v). utf8_valid k \<and> utf8_valid v) m"
    "map_of (st_ring s) (vaultKeyName i) = None \<or> ring_key s i \<noteq> None"
    "file_at (st_fs s) (secretFilePath i q) \<noteq> None \<or>
     list_all (\<lambda>f. file_at (st_fs s) f = None) (prefixes (secretFilePath i q))"
    "can_place (st_fs s) (env_tmp env) (secretFilePath i q)"
  shows "fst (setSecret env c p m None s) = Inr True"
proof -
  note safe = cleaned_safe [OF assms(3)]
  have env: "quiet (env_fault env)" "env_ring_fault env = (\<lambda>_ _. None)"
    "\<exists>f. env_key_rand env = Inr f" "\<exists>f. env_nonce_rand env = Inr f"
    using assms(2) by (simp_all add: env_quiet_def)
  have rd: "\<exists>cur. readFile env i q s = Inr cur"
  proof (cases "file_at (st_fs s) (secretFilePath i q)")
    case None
    then have "missing (st_fs s) (secretFilePath i q) = ENOENT" using assms(7) by (auto intro: missing_ENOENT)
    with None assms(8) env(1) show ?thesis
      by (simp add: readFile_def fs_read_def quiet_def can_place_def is_not_exist_def)
  next
    case (Some d)
    then obtain f where "d = Doc f" using view_Some_file [OF assms(1) safe(1,2)] by blast
    with Some env(1) show ?thesis by (auto simp: readFile_quiet)
  qed
  have ko: "keys_ok s" using assms(1) by (simp add: store_ok_def)
  have "\<exists>key. fst (vaultKey env i s) = Inr key"
    using assms(6) vaultKey_known [OF ko env(2) safe(3)] vaultKey_fresh [OF env(2) _ safe(3) ko] env(3)
    by fastforce
  then obtain key s1 where vk: "vaultKey env i s = (Inr key, s1)" by (cases "vaultKey env i s") auto
  have len: "length key = vaultKeySize" using vaultKey_spec(3) [OF ko vk] by blast
  have fs: "st_fs s1 = st_fs s" using vaultKey_spec(2) [OF ko vk] by (simp add: keys_grow_def)
  have wr: "\<exists>s2. writeFile env i q f s1 = (Inr (), s2)" for f
    using writeFileAtomic_success [OF env(1) assms(8), of Junk "Doc f"] fs by (auto simp: writeFile_def wrap_err_def)
  obtain cur where cur: "readFile env i q s = Inr cur" using rd by blast
  obtain nf where nf: "env_nonce_rand env = Inr nf" using env(4) by blast
  have v: "\<not> list_ex (\<lambda>(k, v). \<not> utf8_valid k \<or> \<not> utf8_valid v) m"
    using assms(5) by (auto simp: list_ex_iff list_all_iff)
  obtain s2 where s2: "writeFile env i q (sealed_file env key (map nf [0..<nonceSize]) q
      (if cur \<noteq> None then wrap64 (currentVersionOf cur + 1) else 1) m) s1 = (Inr (), s2)"
    using wr by blast
  show ?thesis
    using assms(3,4) v cur vk nf len s2
    by (simp add: setSecret_def bindS_def readS_def liftS_def wrapS_def rand_read_def Let_def)
qed

theorem setSecret_succeeds_witness: "fst (setSecret ex_env ''c1'' ex_path ex_values None ex_store) = Inr True"
proof (rule setSecret_succeeds [OF ex_store_ok(1) ex_quiet(1) ex_clean])
  show "can_place (st_fs ex_store) (env_tmp ex_env) (secretFilePath ''c1'' ex_path)"
    "map_of (st_ring ex_store) (vaultKeyName ''c1'') = None \<or> ring_key ex_store ''c1'' \<noteq> None"
    "list_all (\<lambda>(k, v). utf8_valid k \<and> utf8_valid v) ex_values" "ex_values \<noteq> []"
    "file_at (st_fs ex_store) (secretFilePath ''c1'' ex_path) \<noteq> None \<or>
     list_all (\<lambda>f. file_at (st_fs ex_store) f = None) (prefixes (secretFilePath ''c1'' ex_path))"
    by code_simp+
qed




text \<open>
  C16: \<open>writeFileAtomic\<close> is atomic: if the process dies after any number of its system calls, or the
  function returns after any failure, the file has its old or its new content and no file other than it
  and the temporary file has changed; after success it has the new content.
\<close>

theorem write_atomic:
  assumes "name \<noteq> []"
  shows "only_touches (temp_name rnd name) name data fs (write_crash n fault rnd torn name data fs) \<and>
    (case writeFileAtomic fault rnd torn name data fs of
       (None, fs') \<Rightarrow> file_at fs' name = Some data \<and> only_touches (temp_name rnd name) name data fs fs'
     | (Some e, fs') \<Rightarrow> only_touches (temp_name rnd name) name data fs fs')"
  using write_crash_only [OF assms, of rnd data fs n fault torn]
    writeFileAtomic_only [OF assms, of rnd data fs fault torn] writeFileAtomic_None [OF assms, of fault rnd torn data fs]
  by (auto split: prod.splits option.splits)

theorem write_atomic_witness:
  "(let fs = \<lparr>fs_files = [([''d'', ''f''], ''old'')], fs_dirs = [[''d'']]\<rparr> in
     file_at (write_crash 4 (\<lambda>_ _. None) 7 [] [''d'', ''f''] ''new'' fs) [''d'', ''f''] = Some ''old'' \<and>
     file_at (write_crash 4 (\<lambda>_ _. None) 7 [] [''d'', ''f''] ''new'' fs) [''d'', ''.f-7''] = Some ''new'' \<and>
     only_touches (temp_name 7 [''d'', ''f'']) [''d'', ''f''] ''new'' fs
       (write_crash 4 (\<lambda>_ _. None) 7 [] [''d'', ''f''] ''new'' fs))"
proof -
  have "file_at (write_crash 4 (\<lambda>_ _. None) 7 [] [''d'', ''f''] ''new''
        \<lparr>fs_files = [([''d'', ''f''], ''old'')], fs_dirs = [[''d'']]\<rparr>) [''d'', ''f''] = Some ''old''"
    "file_at (write_crash 4 (\<lambda>_ _. None) 7 [] [''d'', ''f''] ''new''
        \<lparr>fs_files = [([''d'', ''f''], ''old'')], fs_dirs = [[''d'']]\<rparr>) [''d'', ''.f-7''] = Some ''new''"
    by code_simp+
  moreover note write_atomic [of "[''d'', ''f'']" 7 "''new''"
      "\<lparr>fs_files = [([''d'', ''f''], ''old'')], fs_dirs = [[''d'']]\<rparr>" 4 "\<lambda>_ _. None" "[]"]
  ultimately show ?thesis by (simp add: Let_def)
qed

text \<open>
  C23: Archiving hides a secret from reads and keeps its values and version; restoring makes the
  same values readable again.
\<close>

theorem archive_restore:
  assumes "store_ok s" "honest e1" "honest e2" "env_quiet e3" "cleanClusterPath c p = Inr (i, q)"
    "view s i q = Some en" "ArchiveSecret e1 c p s = (Inr (), s1)" "RestoreSecret e2 c p s1 = (Inr (), s2)"
  shows "fst (GetSecret e3 c p s1) = Inr None \<and> fst (GetSecret e3 c p s2) = Inr (Some (e_values en)) \<and>
    view s2 i q = Some (en\<lparr>e_archived := False\<rparr>)"
proof -
  have ok1: "store_ok s1" using fsv.inv_call [OF assms(1), of "CArchive e1 c p"] assms(7) by simp
  have ok2: "store_ok s2" using fsv.inv_call [OF ok1, of "CRestore e2 c p"] assms(8) by simp
  have v1: "view s1 i q = Some (en\<lparr>e_archived := True\<rparr>)"
    using fsv.archive_law [OF assms(1,2,5)] assms(6,7) by (simp add: archived_entry_def)
  have v2: "view s2 i q = Some (en\<lparr>e_archived := False\<rparr>)"
    using fsv.restore_law [OF ok1 assms(3,5)] v1 assms(8) by (simp add: archived_entry_def)
  show ?thesis
    using GetSecret_found [OF ok1 assms(4,5) v1] GetSecret_found [OF ok2 assms(4,5) v2] v2 by simp
qed

theorem archive_restore_witness:
  "(let s1 = snd (ArchiveSecret ex_env ''c1'' ex_path ex_store1);
        s2 = snd (RestoreSecret ex_env ''c1'' ex_path s1) in
     fst (GetSecret ex_env ''c1'' ex_path s1) = Inr None \<and>
     fst (GetSecret ex_env ''c1'' ex_path s2) = Inr (Some ex_values))"
proof -
  let ?s1 = "snd (ArchiveSecret ex_env ''c1'' ex_path ex_store1)"
  let ?s2 = "snd (RestoreSecret ex_env ''c1'' ex_path ?s1)"
  have "fst (ArchiveSecret ex_env ''c1'' ex_path ex_store1) = Inr ()"
    "fst (RestoreSecret ex_env ''c1'' ex_path ?s1) = Inr ()"
    by code_simp+
  then have "ArchiveSecret ex_env ''c1'' ex_path ex_store1 = (Inr (), ?s1)"
    "RestoreSecret ex_env ''c1'' ex_path ?s1 = (Inr (), ?s2)"
    by (simp_all add: prod_eq_iff)
  from archive_restore [OF ex_store_ok(2) ex_quiet(2,2,1) ex_clean ex_view this] show ?thesis
    by (simp add: Let_def)
qed

text \<open>
  C19: A listing is exact: sorted by path, without duplicates, and its elements are the cluster's secrets
  with their sorted keys, archived flag and version.
\<close>

theorem list_exact:
  assumes "store_ok s" "honest env" "fst (ListSecrets env c s) = Inr ss"
  shows "\<exists>i. cleanClusterID c = Inr i \<and> sorted (map sPath ss) \<and> distinct (map sPath ss) \<and>
    (\<forall>x. x \<in> set ss \<longleftrightarrow> (\<exists>p en. safe_path p \<and> view s i p = Some en \<and> x = secret_of p en))"
  by (rule fsv.list_law [OF assms(1,2)]) (simp add: assms(3))

theorem list_exact_witness:
  "\<exists>i. cleanClusterID ''c1'' = Inr i \<and> (\<forall>x. x = secret_of ex_path \<lparr>e_values = ex_values, e_archived = False, e_version = 1\<rparr> \<longleftrightarrow>
     (\<exists>p en. safe_path p \<and> view ex_store1 i p = Some en \<and> x = secret_of p en))"
proof -
  have "fst (ListSecrets ex_env ''c1'' ex_store1) =
      Inr [secret_of ex_path \<lparr>e_values = ex_values, e_archived = False, e_version = 1\<rparr>]" by code_simp
  from list_exact [OF ex_store_ok(2) ex_quiet(2) this] show ?thesis by simp
qed

text \<open>
  Deleting a cluster, when it succeeds, leaves none of its secrets and no key in the keyring, and a
  later read finds nothing.
\<close>

theorem delete_cluster:
  assumes "store_ok s" "DeleteCluster e1 c s = (Inr (), s1)" "cleanClusterPath c p = Inr (i, q)"
  shows "view s1 i q = None \<and> ring_key s1 i = None \<and> store_ok s1 \<and> fst (GetSecret e2 c p s1) \<noteq> Inr (Some m)"
proof -
  note safe = cleaned_safe [OF assms(3)]
  have i: "cleanClusterID c = Inr i" using assms(3) by (auto simp: cleanClusterPath_Inr cleanClusterID_Inr)
  have d: "store_ok s1" "view s1 i q = None" "ring_key s1 i = None"
    using DeleteCluster_spec [OF assms(1,2) i] safe(2) by simp_all
  have "fst (GetSecret e2 c p s1) \<noteq> Inr (Some m)"
  proof
    assume "fst (GetSecret e2 c p s1) = Inr (Some m)"
    with GetSecret_spec(3) [OF d(1) prod.collapse [symmetric]] assms(3) d(2) show False by fastforce
  qed
  with d show ?thesis by simp
qed

theorem delete_cluster_witness:
  "(let s1 = snd (DeleteCluster ex_env ''c1'' ex_store1) in
     view s1 ''c1'' ex_path = None \<and> ring_key s1 ''c1'' = None \<and> ring_key ex_store1 ''c1'' \<noteq> None)"
proof -
  have "fst (DeleteCluster ex_env ''c1'' ex_store1) = Inr ()" by code_simp
  then have "DeleteCluster ex_env ''c1'' ex_store1 = (Inr (), snd (DeleteCluster ex_env ''c1'' ex_store1))"
    by (simp add: prod_eq_iff)
  moreover have "ring_key ex_store1 ''c1'' \<noteq> None" by code_simp
  ultimately show ?thesis
    using delete_cluster [OF ex_store_ok(2) _ ex_clean] by (simp add: Let_def)
qed

text \<open>
  An accepted cluster ID and path name a file below the cluster's own directory, none of whose
  components is empty, \<open>.\<close>, \<open>..\<close> or contains a separator, and two accepted pairs name the same file
  exactly when they clean to the same cluster and path.
\<close>

theorem secret_paths:
  assumes "cleanClusterPath c p = Inr (i, q)" "cleanClusterPath d r = Inr (j, s)"
  shows "strict_prefix (clusterDir i) (secretFilePath i q) \<and> list_all safe_segment (secretFilePath i q) \<and>
    (secretFilePath i q = secretFilePath j s \<longleftrightarrow> i = j \<and> q = s)"
proof -
  note a = cleaned_safe(1,2) [OF assms(1)] and b = cleaned_safe(1,2) [OF assms(2)]
  show ?thesis
    using strict_prefix_secret [OF a] secretFilePath_components [OF a] secretFilePath_inj [OF a b]
    by (simp add: list_all_iff)
qed

theorem secret_paths_witness:
  "strict_prefix (clusterDir ''c1'') (secretFilePath ''c1'' ex_path) \<and> list_all safe_segment (secretFilePath ''c1'' ex_path)"
  using secret_paths [OF ex_clean ex_clean] by simp

text \<open>
  C29: The validator vouches only for a service account: the token parsed under the cluster's issuer has
  the subject \<open>system:serviceaccount:namespace:name\<close> and has not expired, and the requested role is the
  account's name, or the operator's role for the operator's account alone.
\<close>

theorem validate_identity:
  assumes "ValidateIdentity fetch parse now v c role raw = Inr identity"
  shows "\<exists>keySet issuer tok ns name. issuer \<noteq> [] \<and> parse keySet issuer raw = Inr tok \<and>
    cl_subject tok = ''system:serviceaccount:'' @ ns @ '':'' @ name \<and> ns \<noteq> [] \<and> name \<noteq> [] \<and>
    CHR '':'' \<notin> set ns \<and> CHR '':'' \<notin> set name \<and>
    identity = \<lparr>id_namespace = ns, id_account = name, id_expires = cl_expires tok\<rparr> \<and> now < cl_expires tok \<and>
    (if role = operatorRole
     then ns = operatorServiceAccountNamespace \<and> name = operatorServiceAccountName else role = name)"
proof -
  note v = assms [unfolded ValidateIdentity_def]
  obtain url where url: "v_api_url v = Some url" using v by (cases "v_api_url v") auto
  obtain apiURL issuer where iss: "issuer \<noteq> []"
    and rest: "(case fetch (trim_right slash apiURL @ ''/openid/v1/jwks'') raw of
            Inl e \<Rightarrow> Inl (Wrapf ''fetch kubernetes jwks: %w'' [] e)
          | Inr keySet \<Rightarrow>
              (case parse keySet issuer raw of
                 Inl e \<Rightarrow> Inl (Wrapf ''verify kubernetes service-account jwt: %w'' [] e)
               | Inr tok \<Rightarrow> check_claims now role tok)) = Inr identity"
    using v unfolding url option.case bindR_Inr_iff check_claims_def by (auto split: if_splits)
  obtain keySet where ks: "fetch (trim_right slash apiURL @ ''/openid/v1/jwks'') raw = Inr keySet"
    using rest by (auto split: sum.splits)
  obtain tok where tok: "parse keySet issuer raw = Inr tok" "check_claims now role tok = Inr identity"
    using rest ks by (auto split: sum.splits)
  obtain ns name where sub: "serviceAccountSubject (cl_subject tok) = Some (ns, name)"
    using tok(2) by (auto simp: check_claims_def split: option.splits)
  have "now < cl_expires tok" "identity = \<lparr>id_namespace = ns, id_account = name, id_expires = cl_expires tok\<rparr>"
    "if role = operatorRole
     then ns = operatorServiceAccountNamespace \<and> name = operatorServiceAccountName else role = name"
    using tok(2) sub by (auto simp: check_claims_def split: if_splits)
  with iss tok(1)
  have "issuer \<noteq> []" "parse keySet issuer raw = Inr tok" "now < cl_expires tok"
    "identity = \<lparr>id_namespace = ns, id_account = name, id_expires = cl_expires tok\<rparr>"
    "if role = operatorRole
     then ns = operatorServiceAccountNamespace \<and> name = operatorServiceAccountName else role = name"
    by blast+
  moreover note sub [unfolded serviceAccountSubject_Some]
  ultimately show ?thesis by blast
qed

definition ex_kube :: validator where
  "ex_kube = \<lparr>v_api_url = Some (\<lambda>c. Inr (''https://'' @ c @ ''/'')), v_issuer_of = None, v_issuer = ''iss''\<rparr>"

definition ex_parse :: "string \<Rightarrow> string \<Rightarrow> string \<Rightarrow> claims result" where
  "ex_parse keySet issuer raw =
     (if keySet = ''https://c1/openid/v1/jwks'' \<and> issuer = ''iss''
      then Inr \<lparr>cl_subject = ''system:serviceaccount:ns:app'', cl_expires = 5\<rparr> else Inl (Sentinel ''bad''))"

theorem validate_identity_witness:
  "ValidateIdentity (\<lambda>url raw. Inr url) ex_parse 3 ex_kube ''c1'' ''app'' ''jwt'' =
     Inr \<lparr>id_namespace = ''ns'', id_account = ''app'', id_expires = 5\<rparr> \<and>
   (\<exists>keySet issuer tok. issuer \<noteq> [] \<and> ex_parse keySet issuer ''jwt'' = Inr tok)"
proof -
  have e: "ValidateIdentity (\<lambda>url raw. Inr url) ex_parse 3 ex_kube ''c1'' ''app'' ''jwt'' =
     Inr \<lparr>id_namespace = ''ns'', id_account = ''app'', id_expires = 5\<rparr>" by code_simp
  with validate_identity [OF e] show ?thesis by blast
qed

section \<open>Two behaviours worth knowing\<close>

text \<open>
  Secrets share the directory tree with their own file names: once a secret exists below
  \<open>p.json/\<close>, reading the absent secret \<open>p\<close> is an error rather than the answer that it does not exist.
\<close>

lemma json_below:
  assumes "safe_segment i" "safe_path p" "safe_path (p @ json_ext @ ''/'' @ x)"
  shows "strict_prefix (secretFilePath i p) (secretFilePath i (p @ json_ext @ ''/'' @ x))"
proof -
  let ?sp = "go_split CHR ''/''"
  have no: "CHR ''/'' \<notin> set json_ext" by (simp add: json_ext_def)
  have "?sp (a @ y) = butlast (?sp a) @ [last (?sp a) @ y]" if "CHR ''/'' \<notin> set y" for a y
  proof -
    have "?sp (go_join CHR ''/'' (butlast (?sp a) @ [last (?sp a) @ y])) = butlast (?sp a) @ [last (?sp a) @ y]"
      using that split_parts [OF last_in_set [OF go_split_nonempty]]
      by (intro split_join) (auto dest: in_set_butlastD split_parts)
    then show ?thesis by (simp add: go_join_append_last)
  qed
  then have "?sp (p @ json_ext @ ''/'' @ x) = add_ext (?sp p) @ ?sp x"
    using split_append_gen [of "CHR ''/''" "p @ json_ext" x] no by (simp add: add_ext_def)
  then have "secretFilePath i (p @ json_ext @ ''/'' @ x) = secretFilePath i p @ add_ext (?sp x)"
    using assms by (simp add: secretFilePath_alt add_ext_def butlast_append)
  then show ?thesis by (simp add: strict_prefix_def prefix_def add_ext_def)
qed

theorem json_name_collision:
  assumes "store_ok s" "cleanClusterPath c p = Inr (i, q)" "view s i q = None"
    "safe_path (q @ json_ext @ ''/'' @ x)" "view s i (q @ json_ext @ ''/'' @ x) = Some e" "env_quiet env"
  shows "fst (GetSecret env c p s) = Inl (Wrapf ''read fakevault secret file: %w'' [] EISDIR)"
proof -
  note safe = cleaned_safe [OF assms(2)]
  have t: "tree_ok (st_fs s)" using assms(1) by (simp add: store_ok_def shape_ok_def)
  obtain d where "file_at (st_fs s) (secretFilePath i (q @ json_ext @ ''/'' @ x)) = Some d"
    using assms(5) by (auto simp: view_def split: option.splits)
  then have "dir_at (st_fs s) (secretFilePath i q)"
    by (rule tree_ok_parent [OF t _ json_below [OF safe(1,2) assms(4)]])
  moreover have "file_at (st_fs s) (secretFilePath i q) = None"
    using view_file [OF assms(1) safe(1,2)] assms(3) by simp
  ultimately have "readFile env i q s = Inl (Wrapf ''read fakevault secret file: %w'' [] EISDIR)"
    using assms(6) by (simp add: readFile_def fs_read_def env_quiet_def quiet_def is_not_exist_def)
  with assms(2) show ?thesis by (simp add: GetSecret_def bindS_def readS_def)
qed

theorem json_name_collision_witness:
  "(let s = snd (SetSecret ex_env ''c1'' ''a.json/b'' ex_values ex_store) in
     fst (GetSecret ex_env ''c1'' ''a'' s) = Inl (Wrapf ''read fakevault secret file: %w'' [] EISDIR))"
proof -
  let ?s = "snd (SetSecret ex_env ''c1'' ''a.json/b'' ex_values ex_store)"
  have ok: "store_ok ?s"
    using fsv.inv_call [OF ex_store_ok(1), of "CSet ex_env ''c1'' ''a.json/b'' ex_values"] by simp
  have c: "cleanClusterPath ''c1'' ''a'' = Inr (''c1'', ''a'')" by code_simp
  have v: "view ?s ''c1'' ''a'' = None" by code_simp
  have w: "view ?s ''c1'' (''a'' @ json_ext @ ''/'' @ ''b'') = Some \<lparr>e_values = ex_values, e_archived = False, e_version = 1\<rparr>"
    by code_simp
  have p: "safe_path (''a'' @ json_ext @ ''/'' @ ''b'')" by code_simp
  from json_name_collision [OF ok c v p w ex_quiet(1)] show ?thesis by (simp add: Let_def)
qed

text \<open>
  The path the handler checks is not always the path the store uses: cleaning is not idempotent, so
  a GET of a URL that the check accepts below a role's prefix may read the secret named by the prefix itself.
\<close>

theorem clean_twice:
  "cleanClusterPath ''c1'' ''/secret/data/c1/ns/app/ / '' = Inr (''c1'', ''secret/data/c1/ns/app/ '') \<and>
   has_prefix ''secret/data/c1/ns/app/ '' (token_prefix ''c1'' ex_token) \<and>
   cleanClusterPath ''c1'' ''secret/data/c1/ns/app/ '' = Inr (''c1'', ''secret/data/c1/ns/app'') \<and>
   \<not> has_prefix ''secret/data/c1/ns/app'' (token_prefix ''c1'' ex_token)"
  by (intro conjI) code_simp+

end
