(* ===== verification/Netip.thy ===== *)
theory Netip
  imports GoStrings "HOL-Library.Word"
begin

unbundle bit_operations_syntax

text \<open>
  Go's \<open>net/netip\<close> as far as the cluster configuration uses it: addresses, prefixes, parsing and
  printing. An IPv4 address is a 32-bit word, an IPv6 address a 128-bit word with its zone. The
  zero \<open>Addr\<close> is \<open>NoAddr\<close>.
\<close>

section \<open>Addresses and prefixes\<close>

datatype addr = NoAddr | V4 "32 word" | V6 "128 word" string

record pfx =
  px_addr :: addr
  px_bits :: nat

definition bit_len :: "addr \<Rightarrow> nat" where
  "bit_len a = (case a of NoAddr \<Rightarrow> 0 | V4 _ \<Rightarrow> 32 | V6 _ _ \<Rightarrow> 128)"

definition is4 :: "addr \<Rightarrow> bool" where
  "is4 a = (case a of V4 _ \<Rightarrow> True | _ \<Rightarrow> False)"

definition addr_value :: "addr \<Rightarrow> int" where
  "addr_value a = (case a of NoAddr \<Rightarrow> 0 | V4 w \<Rightarrow> uint w | V6 w _ \<Rightarrow> uint w)"

definition addr_zone :: "addr \<Rightarrow> string" where
  "addr_zone a = (case a of V6 _ z \<Rightarrow> z | _ \<Rightarrow> [])"

text \<open>\<open>Addr.Compare\<close>: by length, value and zone.\<close>

instantiation addr :: linorder
begin

definition less_eq_addr :: "addr \<Rightarrow> addr \<Rightarrow> bool" where
  "a \<le> b \<longleftrightarrow> bit_len a < bit_len b \<or> bit_len a = bit_len b \<and>
     (addr_value a < addr_value b \<or> addr_value a = addr_value b \<and> addr_zone a \<le> addr_zone b)"

definition less_addr :: "addr \<Rightarrow> addr \<Rightarrow> bool" where
  "a < b \<longleftrightarrow> bit_len a < bit_len b \<or> bit_len a = bit_len b \<and>
     (addr_value a < addr_value b \<or> addr_value a = addr_value b \<and> addr_zone a < addr_zone b)"

instance
proof
  fix a b c :: addr
  show "a < b \<longleftrightarrow> a \<le> b \<and> \<not> b \<le> a" by (auto simp: less_eq_addr_def less_addr_def)
  show "a \<le> a" by (simp add: less_eq_addr_def)
  show "a \<le> b \<Longrightarrow> b \<le> c \<Longrightarrow> a \<le> c" by (auto simp: less_eq_addr_def)
  show "a \<le> b \<or> b \<le> a" by (auto simp: less_eq_addr_def)
  show "a \<le> b \<Longrightarrow> b \<le> a \<Longrightarrow> a = b"
    by (cases a; cases b) (auto simp: less_eq_addr_def bit_len_def addr_value_def addr_zone_def word_uint_eq_iff)
qed

end

definition addr_next :: "addr \<Rightarrow> addr" where
  "addr_next a =
     (case a of NoAddr \<Rightarrow> NoAddr
      | V4 w \<Rightarrow> if w + 1 = 0 then NoAddr else V4 (w + 1)
      | V6 w z \<Rightarrow> if w + 1 = 0 then NoAddr else V6 (w + 1) z)"

text \<open>\<open>Prefix.Masked\<close> clears the host bits; \<open>Prefix.Contains\<close> compares the network bits.\<close>

definition mask_word :: "nat \<Rightarrow> 'a::len word \<Rightarrow> 'a word" where
  "mask_word host w = push_bit host (drop_bit host w)"

definition masked :: "pfx \<Rightarrow> pfx" where
  "masked p =
     (case px_addr p of
        NoAddr \<Rightarrow> p
      | V4 w \<Rightarrow> p\<lparr>px_addr := V4 (mask_word (32 - px_bits p) w)\<rparr>
      | V6 w z \<Rightarrow> p\<lparr>px_addr := V6 (mask_word (128 - px_bits p) w) z\<rparr>)"

definition px_contains :: "pfx \<Rightarrow> addr \<Rightarrow> bool" where
  "px_contains p a \<longleftrightarrow>
     (case (px_addr p, a) of
        (V4 w, V4 x) \<Rightarrow> drop_bit (32 - px_bits p) w = drop_bit (32 - px_bits p) x
      | (V6 w _, V6 x z) \<Rightarrow> z = [] \<and> drop_bit (128 - px_bits p) w = drop_bit (128 - px_bits p) x
      | _ \<Rightarrow> False)"

section \<open>Parsing\<close>

text \<open>An octet: one to three decimal digits without a leading zero, at most 255.\<close>

definition parse_octet :: "string \<Rightarrow> nat option" where
  "parse_octet s =
     (if s \<noteq> [] \<and> list_all is_digit s \<and> length s \<le> 3 \<and> (hd s = CHR ''0'' \<longrightarrow> length s = 1) \<and> dec_val s \<le> 255
      then Some (dec_val s) else None)"

definition parse_quad :: "string \<Rightarrow> (nat \<times> nat \<times> nat \<times> nat) option" where
  "parse_quad s =
     (case map parse_octet (go_split CHR ''.'' s) of
        [Some a, Some b, Some c, Some d] \<Rightarrow> Some (a, b, c, d)
      | _ \<Rightarrow> None)"

definition quad_word :: "nat \<times> nat \<times> nat \<times> nat \<Rightarrow> 32 word" where
  "quad_word q = (case q of (a, b, c, d) \<Rightarrow>
     ((of_nat a * 256 + of_nat b) * 256 + of_nat c) * 256 + of_nat d)"

definition hex_val :: "char \<Rightarrow> int option" where
  "hex_val c =
     (let n = of_char c :: int in
      if is_digit c then Some (n - 48)
      else if CHR ''a'' \<le> c \<and> c \<le> CHR ''f'' then Some (n - 87)
      else if CHR ''A'' \<le> c \<and> c \<le> CHR ''F'' then Some (n - 55)
      else None)"

text \<open>The hexadecimal digits at the front: their number, value and what follows.\<close>

fun hex_run :: "string \<Rightarrow> nat \<Rightarrow> int \<Rightarrow> nat \<times> int \<times> string" where
  "hex_run [] n v = (n, v, [])"
| "hex_run (c # s) n v =
     (case hex_val c of None \<Rightarrow> (n, v, c # s) | Some d \<Rightarrow> hex_run s (Suc n) (16 * v + d))"

text \<open>
  The loop of \<open>parseIPv6\<close> with room for \<open>k\<close> more 16-bit groups: the groups read so far, the place of
  the ellipsis, and the rest of the text.
\<close>

fun v6_groups :: "nat \<Rightarrow> int list \<Rightarrow> nat option \<Rightarrow> string \<Rightarrow> (int list \<times> nat option \<times> string) option" where
  "v6_groups 0 gs el s = Some (gs, el, s)"
| "v6_groups (Suc k) gs el s =
     (case hex_run s 0 0 of (n, v, r) \<Rightarrow>
       if n = 0 \<or> n > 4 then None
       else if r \<noteq> [] \<and> hd r = CHR ''.'' then
         (if (el = None \<and> length gs \<noteq> 6) \<or> k = 0 then None
          else (case parse_quad s of None \<Rightarrow> None
            | Some (a, b, c, d) \<Rightarrow> Some (gs @ [int a * 256 + int b, int c * 256 + int d], el, [])))
       else
         let gs = gs @ [v] in
         (case r of
            [] \<Rightarrow> Some (gs, el, [])
          | c # t \<Rightarrow>
              if c \<noteq> CHR '':'' \<or> t = [] then None
              else if hd t = CHR '':'' then
                (if el \<noteq> None then None
                 else if tl t = [] then Some (gs, Some (length gs), [])
                 else v6_groups k gs (Some (length gs)) (tl t))
              else v6_groups k gs el t))"

definition groups_word :: "int list \<Rightarrow> 128 word" where
  "groups_word gs = foldl (\<lambda>w g. w * 65536 + of_int g) 0 gs"

definition parse_v6 :: "string \<Rightarrow> addr option" where
  "parse_v6 s =
     (let (s, zone, ok) = (case go_cut CHR ''%'' s of None \<Rightarrow> (s, [], True) | Some (a, z) \<Rightarrow> (a, z, z \<noteq> []));
          lead = has_prefix s ''::'';
          body = (if lead then drop 2 s else s)
      in if \<not> ok then None
         else if lead \<and> body = [] then Some (V6 0 zone)
         else (case v6_groups 8 [] (if lead then Some 0 else None) body of
             None \<Rightarrow> None
           | Some (gs, el, rest) \<Rightarrow>
               if rest \<noteq> [] then None
               else if length gs < 8 then
                 (case el of None \<Rightarrow> None
                  | Some i \<Rightarrow> Some (V6 (groups_word (take i gs @ replicate (8 - length gs) 0 @ drop i gs)) zone))
               else if el \<noteq> None then None
               else Some (V6 (groups_word gs) zone)))"

definition ParseAddr :: "string \<Rightarrow> addr option" where
  "ParseAddr s =
     (case find (\<lambda>c. c \<in> {CHR ''.'', CHR '':'', CHR ''%''}) s of
        None \<Rightarrow> None
      | Some c \<Rightarrow>
          if c = CHR ''.'' then map_option (\<lambda>q. V4 (quad_word q)) (parse_quad s)
          else if c = CHR '':'' then parse_v6 s
          else None)"

text \<open>The text before and after the last slash.\<close>

definition cut_last :: "char \<Rightarrow> string \<Rightarrow> (string \<times> string) option" where
  "cut_last c s = map_option (\<lambda>(a, b). (rev b, rev a)) (go_cut c (rev s))"

definition ParsePrefix :: "string \<Rightarrow> pfx option" where
  "ParsePrefix s =
     (case cut_last CHR ''/'' s of
        None \<Rightarrow> None
      | Some (a, b) \<Rightarrow>
          (case ParseAddr a of
             None \<Rightarrow> None
           | Some ip \<Rightarrow>
               if addr_zone ip \<noteq> [] then None
               else if length b > 1 \<and> (hd b < CHR ''1'' \<or> hd b > CHR ''9'') then None
               else (case atoi b of
                   None \<Rightarrow> None
                 | Some n \<Rightarrow>
                     if n < 0 \<or> n > int (bit_len ip) then None
                     else Some \<lparr>px_addr = ip, px_bits = nat n\<rparr>)))"

section \<open>Printing\<close>

definition v6_groups_of :: "128 word \<Rightarrow> int list" where
  "v6_groups_of w = rev (map (\<lambda>i. uint (drop_bit (i * 16) w) mod 65536) [0..<8])"

definition octets :: "32 word \<Rightarrow> nat list" where
  "octets w = map nat [uint w div 16777216, uint w div 65536 mod 256, uint w div 256 mod 256, uint w mod 256]"

definition v4_string :: "32 word \<Rightarrow> string" where
  "v4_string w = go_join CHR ''.'' (map dec_digits (octets w))"

definition hex_group :: "int \<Rightarrow> string" where
  "hex_group g =
     (let ds = dropWhile (\<lambda>d. d = 0) [g div 4096, g div 256 mod 16, g div 16 mod 16, g mod 16]
      in map (\<lambda>d. ''0123456789abcdef'' ! nat d) (if ds = [] then [0] else ds))"

fun zero_run :: "int list \<Rightarrow> nat" where
  "zero_run [] = 0"
| "zero_run (g # gs) = (if g = 0 then Suc (zero_run gs) else 0)"

text \<open>The first of the longest runs of at least two zero groups: its start and length.\<close>

definition longest_zeros :: "int list \<Rightarrow> nat \<times> nat" where
  "longest_zeros gs =
     foldl (\<lambda>(i, n) j. let m = zero_run (drop j gs) in if m > n \<and> m \<ge> 2 then (j, m) else (i, n)) (0, 0)
       [0..<length gs]"

definition v6_string :: "128 word \<Rightarrow> string \<Rightarrow> string" where
  "v6_string w zone =
     (let gs = v6_groups_of w; z = (if zone = [] then [] else CHR ''%'' # zone);
          text = (\<lambda>gs. go_join CHR '':'' (map hex_group gs)) in
      if take 6 gs = [0, 0, 0, 0, 0, 65535] then ''::ffff:'' @ v4_string (ucast w) @ z
      else (case longest_zeros gs of (i, n) \<Rightarrow>
        if n = 0 then text gs @ z
        else text (take i gs) @ ''::'' @ text (drop (i + n) gs) @ z))"

definition addr_string :: "addr \<Rightarrow> string" where
  "addr_string a = (case a of NoAddr \<Rightarrow> ''invalid IP'' | V4 w \<Rightarrow> v4_string w | V6 w z \<Rightarrow> v6_string w z)"

definition pfx_string :: "pfx \<Rightarrow> string" where
  "pfx_string p = addr_string (px_addr p) @ ''/'' @ dec_digits (px_bits p)"

section \<open>Parsing inverts printing\<close>

lemma dec_digits_head: "n \<noteq> 0 \<Longrightarrow> hd (dec_digits n) \<noteq> CHR ''0''"
proof (induction n rule: dec_digits.induct)
  case (1 n)
  show ?case
  proof (cases "n < 10")
    case True
    have "digit_val CHR ''0'' = 0" by (simp add: digit_val_def)
    then have "digit_char n \<noteq> CHR ''0''" using "1.prems" digit_char_props(2) [OF True] by metis
    with True show ?thesis by (subst dec_digits.simps) simp
  next
    case False
    then have "n div 10 \<noteq> 0" by simp
    then have "hd (dec_digits (n div 10)) \<noteq> CHR ''0''" using "1.IH" False by blast
    moreover have "dec_digits (n div 10) \<noteq> []" using dec_digits_props by blast
    ultimately show ?thesis using False by (subst dec_digits.simps) simp
  qed
qed

lemma length_dec_digits3: "n < 1000 \<Longrightarrow> length (dec_digits n) \<le> 3"
proof -
  assume "n < 1000"
  then have "n div 10 div 10 < 10" by linarith
  then show ?thesis
    by (subst dec_digits.simps, subst dec_digits.simps, subst dec_digits.simps) simp
qed

lemma parse_octet_digits [simp]: "n \<le> 255 \<Longrightarrow> parse_octet (dec_digits n) = Some n"
proof -
  assume n: "n \<le> 255"
  have "hd (dec_digits n) = CHR ''0'' \<longrightarrow> length (dec_digits n) = 1"
    using dec_digits_head [of n] by (cases "n = 0") (auto simp: dec_digits.simps [of 0])
  with n dec_digits_props [of n] length_dec_digits3 [of n] show ?thesis by (simp add: parse_octet_def)
qed

lemma dec_digits_no_sep: "\<not> is_digit c \<Longrightarrow> c \<notin> set (dec_digits n)"
  using dec_digits_props [of n] by (auto simp: list_all_iff)

lemma octets_unat:
  "octets w = [unat w div 16777216, unat w div 65536 mod 256, unat w div 256 mod 256, unat w mod 256]"
  by (simp add: octets_def nat_div_distrib nat_mod_distrib pos_imp_zdiv_nonneg_iff)

lemma octets_props: "length (octets w) = 4" "\<forall>n \<in> set (octets w). n \<le> 255"
proof -
  have "unat w < 4294967296" using unsigned_less [of w] by simp
  then have "unat w div 16777216 < 256" by (intro less_mult_imp_div_less) simp
  then show "\<forall>n \<in> set (octets w). n \<le> 255" by (auto simp: octets_unat less_Suc_eq_le [symmetric])
qed (simp add: octets_unat)

lemma digits256:
  fixes v :: nat
  shows "((v div 16777216 * 256 + v div 65536 mod 256) * 256 + v div 256 mod 256) * 256 + v mod 256 = v"
proof -
  have "v div 65536 = v div 256 div 256" "v div 16777216 = v div 65536 div 256"
    by (simp_all flip: div_mult2_eq)
  then show ?thesis by (simp only: div_mult_mod_eq)
qed

lemma quad_word_octets:
  "quad_word (unat w div 16777216, unat w div 65536 mod 256, unat w div 256 mod 256, unat w mod 256) = w"
proof -
  have "quad_word (a, b, c, d) = of_nat (((a * 256 + b) * 256 + c) * 256 + d)" for a b c d
    by (simp add: quad_word_def)
  then show ?thesis by (simp only: digits256) simp
qed

lemma parse_quad_octets:
  "parse_quad (v4_string w) =
     Some (unat w div 16777216, unat w div 65536 mod 256, unat w div 256 mod 256, unat w mod 256)"
proof -
  have "go_split CHR ''.'' (v4_string w) = map dec_digits (octets w)"
    unfolding v4_string_def
    by (intro split_join) (auto simp: octets_unat dec_digits_no_sep is_digit_def less_eq_char_def)
  moreover have "map parse_octet (map dec_digits (octets w)) = map Some (octets w)"
    using octets_props(2) [of w] by simp
  ultimately show ?thesis by (simp add: parse_quad_def octets_unat)
qed

lemma find_first: "\<forall>x \<in> set a. \<not> P x \<Longrightarrow> P c \<Longrightarrow> find P (a @ c # b) = Some c"
  by (induction a) auto

lemma ParseAddr_v4_string: "ParseAddr (v4_string w) = Some (V4 w)"
proof -
  have "v4_string w = dec_digits (unat w div 16777216) @ CHR ''.'' #
      go_join CHR ''.'' (map dec_digits (tl (octets w)))"
    by (simp add: v4_string_def octets_unat)
  moreover have "\<forall>x \<in> set (dec_digits (unat w div 16777216)). x \<notin> {CHR ''.'', CHR '':'', CHR ''%''}"
    using dec_digits_props [of "unat w div 16777216"] by (auto simp: list_all_iff is_digit_def less_eq_char_def)
  ultimately have "find (\<lambda>c. c \<in> {CHR ''.'', CHR '':'', CHR ''%''}) (v4_string w) = Some CHR ''.''"
    by (simp only:) (rule find_first, auto)
  then show ?thesis by (simp add: ParseAddr_def parse_quad_octets quad_word_octets)
qed

section \<open>Ranges of prefixes\<close>

lemma ParsePrefix_ok:
  assumes "ParsePrefix s = Some p"
  shows "px_bits p \<le> bit_len (px_addr p)" "addr_zone (px_addr p) = []"
  using assms by (auto simp: ParsePrefix_def bit_len_def addr_zone_def split: option.splits if_splits addr.splits)

lemma uint_drop_bit: "uint (drop_bit n w) = uint w div 2 ^ n" for w :: "'a::len word"
proof -
  have "take_bit LENGTH('a) (uint w) = uint w" by (rule take_bit_int_eq_self) (simp_all add: unsigned_less)
  hence "uint (drop_bit n w) = drop_bit n (uint w)" by (simp only: unsigned_drop_bit_eq)
  thus ?thesis by (simp only: drop_bit_eq_div)
qed

lemma uint_mask_word: "uint (mask_word h w) = uint w div 2 ^ h * 2 ^ h" for w :: "'a::len word"
proof -
  have "0 \<le> uint w div 2 ^ h * 2 ^ h" by (simp add: pos_imp_zdiv_nonneg_iff)
  moreover have "uint w div 2 ^ h * 2 ^ h \<le> uint w"
    using mult_div_mod_eq [of "2 ^ h" "uint w"] pos_mod_sign [of "2 ^ h" "uint w", OF zero_less_power [OF zero_less_numeral]]
    by (simp only: mult.commute)
  moreover have "uint w < 2 ^ LENGTH('a)" by (rule uint_lt2p)
  ultimately have "uint w div 2 ^ h * 2 ^ h < 2 ^ LENGTH('a)" by (rule_tac order_le_less_trans)
  with \<open>0 \<le> uint w div 2 ^ h * 2 ^ h\<close> have "take_bit LENGTH('a) (uint w div 2 ^ h * 2 ^ h) = uint w div 2 ^ h * 2 ^ h"
    by (intro take_bit_int_eq_self) auto
  moreover have "uint (mask_word h w) = take_bit LENGTH('a) (push_bit h (uint (drop_bit h w)))"
    unfolding mask_word_def by (rule unsigned_push_bit_eq)
  ultimately show ?thesis by (simp only: uint_drop_bit push_bit_eq_mult)
qed

lemma same_block:
  assumes "h > (0::int)" "a = a div h * h"
  shows "a div h = b div h \<longleftrightarrow> a \<le> b \<and> b < a + h"
proof
  assume "a div h = b div h"
  hence "a = b div h * h" using assms(2) by simp
  moreover have "b = b div h * h + b mod h" by simp
  moreover have "0 \<le> b mod h" "b mod h < h" using assms(1) by auto
  ultimately show "a \<le> b \<and> b < a + h" by linarith
next
  assume ab: "a \<le> b \<and> b < a + h"
  have "b div h = a div h"
  proof (rule int_div_pos_eq [of _ _ _ "b - a"])
    show "b = h * (a div h) + (b - a)" using assms(2) by (simp add: mult.commute)
  qed (use ab in auto)
  thus "a div h = b div h" by simp
qed

lemma drop_bit_eq_range:
  fixes v w :: "'a::len word"
  assumes "w = mask_word h w"
  shows "drop_bit h w = drop_bit h v \<longleftrightarrow> uint w \<le> uint v \<and> uint v < uint w + 2 ^ h"
proof -
  have "drop_bit h w = drop_bit h v \<longleftrightarrow> uint w div 2 ^ h = uint v div 2 ^ h"
    by (simp add: word_uint_eq_iff uint_drop_bit)
  moreover have "uint w = uint w div 2 ^ h * 2 ^ h" using arg_cong [OF assms, of uint] by (simp only: uint_mask_word)
  ultimately show ?thesis by (simp only: same_block zero_less_power zero_less_numeral)
qed

definition host_bits :: "pfx \<Rightarrow> nat" where
  "host_bits p = bit_len (px_addr p) - px_bits p"

lemma px_contains_simps:
  "px_addr p = V4 w \<Longrightarrow> px_contains p (V4 x) \<longleftrightarrow> drop_bit (32 - px_bits p) w = drop_bit (32 - px_bits p) x"
  "px_addr p = V6 v z \<Longrightarrow> px_contains p (V6 y z') \<longleftrightarrow> z' = [] \<and> drop_bit (128 - px_bits p) v = drop_bit (128 - px_bits p) y"
  "px_addr p = V4 w \<Longrightarrow> \<not> px_contains p (V6 y z')" "px_addr p = V6 v z \<Longrightarrow> \<not> px_contains p (V4 x)"
  "\<not> px_contains p NoAddr" "px_addr p = NoAddr \<Longrightarrow> \<not> px_contains p a"
  by (simp_all add: px_contains_def split: addr.splits)

lemma contains_range:
  assumes "p = masked p" "px_addr p \<noteq> NoAddr"
  shows "px_contains p a \<longleftrightarrow> bit_len a = bit_len (px_addr p) \<and> addr_zone a = [] \<and>
    addr_value (px_addr p) \<le> addr_value a \<and> addr_value a < addr_value (px_addr p) + 2 ^ host_bits p"
proof (cases "px_addr p")
  case (V4 w)
  have "px_addr p = px_addr (masked p)" using assms(1) by simp
  hence w: "w = mask_word (32 - px_bits p) w" using V4 by (simp add: masked_def)
  show ?thesis
  proof (cases a)
    case a: (V4 v)
    from drop_bit_eq_range [OF w, of v] show ?thesis
      unfolding a px_contains_simps(1) [OF V4] V4 host_bits_def by (simp only: bit_len_def addr_zone_def addr_value_def addr.case simp_thms)
  qed (simp_all add: px_contains_simps V4 bit_len_def)
next
  case (V6 w z)
  have "px_addr p = px_addr (masked p)" using assms(1) by simp
  hence w: "w = mask_word (128 - px_bits p) w" using V6 by (simp add: masked_def)
  show ?thesis
  proof (cases a)
    case a: (V6 v z')
    from drop_bit_eq_range [OF w, of v] show ?thesis
      unfolding a px_contains_simps(2) [OF V6] V6 host_bits_def by (simp only: bit_len_def addr_zone_def addr_value_def addr.case simp_thms)
  qed (simp_all add: px_contains_simps V6 bit_len_def)
qed (use assms in simp)

lemma drop_bit_coarser:
  fixes v w :: "'a::len word"
  assumes "drop_bit (n - j) w = drop_bit (n - j) v" "i \<le> j" "j \<le> n"
  shows "drop_bit (n - i) w = drop_bit (n - i) v"
proof -
  have e: "n - i = (j - i) + (n - j)" using assms by simp
  have "drop_bit (n - i) u = drop_bit (j - i) (drop_bit (n - j) u)" for u :: "'a word"
    unfolding e by (simp only: drop_bit_drop_bit)
  thus ?thesis using assms(1) by metis
qed

lemma contains_nested:
  assumes "px_contains p (px_addr q)" "px_bits p \<le> px_bits q" "px_bits q \<le> bit_len (px_addr q)" "px_contains q a"
  shows "px_contains p a"
proof (cases "px_addr q")
  case (V4 w)
  then obtain v x where "px_addr p = V4 v" "a = V4 x" using assms by (cases "px_addr p"; cases a) (simp_all add: px_contains_simps)
  with V4 assms drop_bit_coarser [of 32 "px_bits q" w x "px_bits p"] show ?thesis
    by (simp add: px_contains_simps bit_len_def)
next
  case (V6 w z)
  then obtain v z2 x z3 where "px_addr p = V6 v z2" "a = V6 x z3" using assms by (cases "px_addr p"; cases a) (simp_all add: px_contains_simps)
  with V6 assms drop_bit_coarser [of 128 "px_bits q" w x "px_bits p"] show ?thesis
    by (simp add: px_contains_simps bit_len_def)
qed (use assms in \<open>simp add: px_contains_simps\<close>)

lemma uint_less_top: "uint w < 2 ^ LENGTH('a)" for w :: "'a::len word"
  by (rule uint_lt2p)

lemma mask_word_next:
  fixes x :: "'a::len word"
  assumes "x = mask_word h x" "0 < h"
  shows "uint (x + 1) = uint x + 1" "x + 1 \<noteq> 0"
proof -
  have "uint x = uint x div 2 ^ h * 2 ^ h" using arg_cong [OF assms(1), of uint] by (simp only: uint_mask_word)
  hence "2 ^ h dvd uint x" by (metis dvd_triv_right)
  moreover have "(2::int) dvd 2 ^ h" using assms(2) by (rule dvd_power [OF disjI1])
  ultimately have ev: "2 dvd uint x" by (rule dvd_trans [rotated])
  have "uint x \<noteq> 2 ^ LENGTH('a) - 1" using ev by (auto simp: dvd_diff_right_iff)
  with uint_less_top [of x] have "uint x + 1 < 2 ^ LENGTH('a)" by linarith
  thus 1: "uint (x + 1) = uint x + 1" using uint_add_lem [of x 1] by simp
  show "x + 1 \<noteq> 0"
  proof
    assume "x + 1 = 0"
    hence "uint x + 1 = 0" using 1 by simp
    moreover have "0 \<le> uint x" by simp
    ultimately show False by linarith
  qed
qed

lemma ucast_low: "uint (ucast x :: 'b::len word) = uint x mod 2 ^ LENGTH('b)" for x :: "'a::len word"
  by (simp only: unsigned_ucast_eq take_bit_eq_mod)

lemma block_below_top:
  fixes w :: "'a::len word"
  assumes "w = mask_word h w" "h \<le> LENGTH('a)"
  shows "uint w + 2 ^ h \<le> 2 ^ LENGTH('a)"
proof -
  have w: "uint w = uint w div 2 ^ h * 2 ^ h" using arg_cong [OF assms(1), of uint] by (simp only: uint_mask_word)
  have L: "(2::int) ^ LENGTH('a) = 2 ^ (LENGTH('a) - h) * 2 ^ h" using assms(2) by (simp flip: power_add)
  have "uint w div 2 ^ h < 2 ^ (LENGTH('a) - h)"
    using uint_less_top [of w] w L by (metis mult_less_cancel_right_pos zero_less_numeral zero_less_power)
  hence "(uint w div 2 ^ h + 1) * 2 ^ h \<le> 2 ^ (LENGTH('a) - h) * (2::int) ^ h"
    by (intro mult_right_mono) auto
  thus ?thesis using w L by (simp add: algebra_simps)
qed

end
