(* ===== verification/ClusterConfig.thy ===== *)
theory ClusterConfig
  imports Netip
begin

text \<open>
  The cluster configuration of \<open>internal/clusterconfig\<close>: the types of \<open>types.go\<close> as records (a pointer
  is an option, a map an association list in some iteration order), the resolved values, the
  registry mirror of \<open>registry.go\<close>, the service networks of \<open>service_network.go\<close> and the drafts of
  \<open>draft.go\<close>.
\<close>

section \<open>Types\<close>

record spiffe =
  sp_trust_domain :: string

record registry_ingress =
  ri_enabled :: bool

record registry =
  rg_hostname :: string
  rg_ingress :: registry_ingress

record secrets_provider =
  sv_kind :: string
  sv_key_prefix :: string
  sv_object_type :: string
  sv_region :: string
  sv_project_id :: string
  sv_location :: string
  sv_address :: string
  sv_mount_path :: string
  sv_ca_cert :: string
  sv_auth_path :: string
  sv_operator_role :: string

record secrets =
  sc_default :: string
  sc_providers :: "secrets_provider gomap"

record seed =
  se_name :: string
  se_version :: string
  se_digest :: string

record source_ref =
  sr_branch :: string
  sr_tag :: string
  sr_semver :: string
  sr_commit :: string

record components_source =
  cs_url :: string
  cs_ref :: source_ref
  cs_secret_ref :: "string option"

record registry_mirror =
  rm_enabled :: bool
  rm_hostname :: string
  rm_prefix :: string

record components =
  co_source :: "components_source option"
  co_registry :: "registry_mirror option"

record acme =
  ac_server :: string
  ac_email :: string

record oidc =
  oi_issuer_url :: string
  oi_client_id :: string
  oi_username_claim :: string
  oi_groups_claim :: string
  oi_signing_algs :: "string list"
  oi_ca_cert :: string

record domain_provider =
  dp_kind :: string
  dp_account :: string
  dp_profile :: string
  dp_region :: string
  dp_hosted_zone_id :: string
  dp_role_arn :: string
  dp_project :: string
  dp_hosted_zone_name :: string

record cdomain =
  do_zone :: string
  do_provider :: "domain_provider option"
  do_load_balancer :: string

record tunnel =
  tu_kind :: string
  tu_id :: string
  tu_credential_secret :: string

record nat_group =
  ng_arch :: string
  ng_instance_type :: string
  ng_subnet_pool :: string

record tenant_nat =
  tn_group :: string
  tn_ladder :: "string list"

record nat_config =
  na_mode :: string
  na_fixed_count :: int
  na_groups :: "nat_group gomap"
  na_tenants :: "tenant_nat gomap"

record pool =
  po_arch :: string
  po_instance_type :: string
  po_size :: int
  po_disk_size :: int

record vpc =
  vp_id :: string
  vp_v4cidr :: string
  vp_v6cidr :: string

record subnet =
  su_pool :: string
  su_services :: "string list"
  su_public :: bool
  su_id :: string
  su_v4cidr :: string
  su_v6cidr :: string

record listener =
  li_port :: int
  li_target_port :: int
  li_proxy_port :: "int option"
  li_pool :: string

record load_balancer =
  lb_public :: bool
  lb_subnets :: string
  lb_listeners :: "listener list"

record role =
  ro_buckets :: "string list"
  ro_permissions :: string

record provider =
  pr_kind :: string
  pr_region :: string
  pr_account :: string
  pr_profile :: string
  pr_project :: string
  pr_tags :: "string gomap"
  pr_vpc :: vpc
  pr_zones :: "subnet list gomap"
  pr_load_balancers :: "load_balancer gomap"
  pr_buckets :: "string list"
  pr_roles :: "role gomap"

record kubernetes =
  ku_api_hostname :: string
  ku_api_port :: int
  ku_api_load_balancer :: string
  ku_cluster_cidr :: "string list"
  ku_service_cidr :: "string list"

record cluster =
  cl_id :: string
  cl_name :: string
  cl_oidc :: oidc
  cl_acme :: "acme option"
  cl_domains :: "cdomain list"
  cl_tunnel :: "tunnel option"
  cl_registry :: registry
  cl_pools :: "pool gomap"
  cl_providers :: "provider list"
  cl_secrets :: secrets
  cl_spiffe :: spiffe
  cl_kubernetes :: kubernetes
  cl_seed :: seed
  cl_components :: components
  cl_nat :: "nat_config option"

record cluster_config =
  cc_schema :: string
  cc_cluster :: cluster

section \<open>Resolved values\<close>

definition SupportsACME :: "domain_provider option \<Rightarrow> bool" where
  "SupportsACME p = (case p of None \<Rightarrow> False | Some d \<Rightarrow> dp_kind d = ''aws-route53'')"

definition ResolvedRole :: "subnet \<Rightarrow> string" where
  "ResolvedRole s =
     (if su_pool s \<noteq> [] then su_pool s
      else if ''nstance'' \<in> set (su_services s) then ''nstance''
      else if su_public s \<and> (''nat'' \<in> set (su_services s) \<or> ''nlb'' \<in> set (su_services s)) then ''public''
      else ''services'')"

definition ResolvedTargetPort :: "listener \<Rightarrow> int" where
  "ResolvedTargetPort l = (if li_target_port l \<noteq> 0 then li_target_port l else li_port l)"

definition ResolvedProxyPort :: "listener \<Rightarrow> int" where
  "ResolvedProxyPort l = (case li_proxy_port l of Some p \<Rightarrow> p | None \<Rightarrow> ResolvedTargetPort l)"

definition DefaultDomain :: "cluster_config \<Rightarrow> cdomain option" where
  "DefaultDomain c = (case cl_domains (cc_cluster c) of [] \<Rightarrow> None | d # _ \<Rightarrow> Some d)"

definition ResolvedDomainLoadBalancer :: "cdomain \<Rightarrow> string" where
  "ResolvedDomainLoadBalancer d = (if do_load_balancer d \<noteq> [] then do_load_balancer d else ''main'')"

definition ResolvedRegistryHostname :: "cluster_config \<Rightarrow> string" where
  "ResolvedRegistryHostname c =
     (let cl = cc_cluster c in
      if rg_hostname (cl_registry cl) \<noteq> [] then rg_hostname (cl_registry cl)
      else if cl_domains cl \<noteq> [] then []
      else cl_id cl @ ''-registry.local'')"

definition ResolvedClientID :: "cluster_config \<Rightarrow> string" where
  "ResolvedClientID c =
     (let cl = cc_cluster c in if oi_client_id (cl_oidc cl) \<noteq> [] then oi_client_id (cl_oidc cl) else cl_id cl)"

definition ResolvedUsernameClaim :: "cluster_config \<Rightarrow> string" where
  "ResolvedUsernameClaim c =
     (let o' = cl_oidc (cc_cluster c) in if oi_username_claim o' \<noteq> [] then oi_username_claim o' else ''sub'')"

definition ResolvedGroupsClaim :: "cluster_config \<Rightarrow> string" where
  "ResolvedGroupsClaim c =
     (let o' = cl_oidc (cc_cluster c) in if oi_groups_claim o' \<noteq> [] then oi_groups_claim o' else ''groups'')"

definition UsesPublicAPIRoots :: "cluster_config \<Rightarrow> bool" where
  "UsesPublicAPIRoots c \<longleftrightarrow> cl_tunnel (cc_cluster c) \<noteq> None"

definition ResolvedAPIPort :: "cluster_config \<Rightarrow> int" where
  "ResolvedAPIPort c =
     (if ku_api_port (cl_kubernetes (cc_cluster c)) \<noteq> 0 then ku_api_port (cl_kubernetes (cc_cluster c))
      else if UsesPublicAPIRoots c then 443 else 6443)"

text \<open>Of \<open>pkg/seeds\<close>: the seeds with the platform components.\<close>

definition HasPlatformComponents :: "string \<Rightarrow> bool" where
  "HasPlatformComponents name \<longleftrightarrow> name = ''platform'' \<or> name = ''agentic''"

text \<open>\<open>%d\<close> of an int.\<close>

definition int_string :: "int \<Rightarrow> string" where
  "int_string n = (if n < 0 then CHR ''-'' # dec_digits (nat (- n)) else dec_digits (nat n))"

definition ResolvedKubernetesAPIURL :: "cluster_config \<Rightarrow> string" where
  "ResolvedKubernetesAPIURL c =
     (let host = ku_api_hostname (cl_kubernetes (cc_cluster c)) in
      if host = [] then [] else ''https://'' @ host @ '':'' @ int_string (ResolvedAPIPort c))"

section \<open>The registry mirror\<close>

definition CleanRegistryMirrorPrefix :: "string \<Rightarrow> string" where
  "CleanRegistryMirrorPrefix p = go_trim ''/'' (trim_space p)"

definition mirror_of :: "cluster \<Rightarrow> registry_mirror option" where
  "mirror_of c = co_registry (cl_components c)"

definition RegistryMirrorHostname :: "cluster \<Rightarrow> string" where
  "RegistryMirrorHostname c =
     (case mirror_of c of
        Some m \<Rightarrow>
          if rm_hostname m \<noteq> [] then rm_hostname m
          else if rg_hostname (cl_registry c) \<noteq> [] then rg_hostname (cl_registry c)
          else if cl_domains c = [] then cl_id c @ ''-registry.local'' else []
      | None \<Rightarrow>
          if rg_hostname (cl_registry c) \<noteq> [] then rg_hostname (cl_registry c)
          else if cl_domains c = [] then cl_id c @ ''-registry.local'' else [])"

definition RegistryMirrorPrefix :: "cluster \<Rightarrow> string" where
  "RegistryMirrorPrefix c =
     (case mirror_of c of
        Some m \<Rightarrow> if rm_prefix m \<noteq> [] then CleanRegistryMirrorPrefix (rm_prefix m) else ''mirror''
      | None \<Rightarrow> ''mirror'')"

section \<open>Service networks\<close>

definition defaultServiceCIDRs :: "string list" where
  "defaultServiceCIDRs = [''198.18.0.0/15'', ''fdc6::/108'']"

definition ipv6DNSOffset :: int where
  "ipv6DNSOffset = 65535"

record service_network =
  sn_cidrs :: "string list"
  sn_api :: "addr list"
  sn_dns :: "addr list"

text \<open>
  \<open>coreDNSAddr\<close>: for IPv4 the offset is the last address but one; the addition runs on the 16-byte form
  of the address, which is turned back with \<open>Unmap\<close>.
\<close>

definition as16 :: "addr \<Rightarrow> 128 word" where
  "as16 a = (case a of NoAddr \<Rightarrow> 0 | V4 w \<Rightarrow> 0xFFFF00000000 + ucast w | V6 w _ \<Rightarrow> w)"

definition unmap :: "128 word \<Rightarrow> addr" where
  "unmap w = (if drop_bit 32 w = 0xFFFF then V4 (ucast w) else V6 w [])"

definition coreDNSAddr :: "pfx \<Rightarrow> addr" where
  "coreDNSAddr p =
     (let four = is4 (px_addr p); hostBits = 32 - int (px_bits p) in
      if four \<and> hostBits < 2 then NoAddr
      else
        let offset = (if four then 2 ^ nat hostBits - 2 else of_int ipv6DNSOffset);
            sum = as16 (px_addr p) + offset
        in if four then unmap sum else V6 sum [])"

fun network_loop :: "nat \<Rightarrow> string list \<Rightarrow> bool \<Rightarrow> bool \<Rightarrow> service_network \<Rightarrow> service_network result" where
  "network_loop i [] seen4 seen6 out = Inr out"
| "network_loop i (raw # cidrs) seen4 seen6 out =
     (case ParsePrefix raw of
        None \<Rightarrow> Inl (Errorf ''service_cidr[%d] %q is invalid: %w'' [I (int i), S raw])
      | Some p \<Rightarrow>
          if p \<noteq> masked p then
            Inl (Errorf ''service_cidr[%d] %q is not canonical (use %q)'' [I (int i), S raw, S (pfx_string (masked p))])
          else
            let four = is4 (px_addr p) in
            if (four \<and> seen4) \<or> (\<not> four \<and> seen6) then
              Inl (Errorf ''service_cidr contains duplicate %s networks'' [S (if four then ''IPv4'' else ''IPv6'')])
            else if i = 0 \<and> \<not> four then
              Inl (Errorf ''service_cidr must be IPv4-primary; IPv6-primary configurations are unsupported'' [])
            else
              let dns = coreDNSAddr p in
              if \<not> px_contains p dns \<or> dns \<le> addr_next (px_addr p) then
                Inl (Errorf ''service_cidr %q has insufficient capacity for the Kubernetes API and DNS services'' [S raw])
              else
                network_loop (Suc i) cidrs (seen4 \<or> four) (seen6 \<or> \<not> four)
                  \<lparr>sn_cidrs = sn_cidrs out @ [pfx_string p], sn_api = sn_api out @ [addr_next (px_addr p)],
                   sn_dns = sn_dns out @ [dns]\<rparr>)"

definition ServiceNetworkFromCIDRs :: "string list \<Rightarrow> service_network result" where
  "ServiceNetworkFromCIDRs cidrs =
     (let cidrs = (if cidrs = [] then defaultServiceCIDRs else cidrs) in
      if length cidrs > 2 then Inl (Errorf ''service_cidr supports at most two networks'' [])
      else network_loop 0 cidrs False False \<lparr>sn_cidrs = [], sn_api = [], sn_dns = []\<rparr>)"

section \<open>Drafts\<close>

definition no_provider :: secrets_provider where
  "no_provider = \<lparr>sv_kind = [], sv_key_prefix = [], sv_object_type = [], sv_region = [], sv_project_id = [],
     sv_location = [], sv_address = [], sv_mount_path = [], sv_ca_cert = [], sv_auth_path = [], sv_operator_role = []\<rparr>"

definition defaultDraftConfig :: cluster_config where
  "defaultDraftConfig =
     \<lparr>cc_schema = [], cc_cluster =
       \<lparr>cl_id = ''example-cluster'', cl_name = ''Example Cluster'',
        cl_oidc = \<lparr>oi_issuer_url = ''https://auth.example.com'', oi_client_id = [], oi_username_claim = [],
          oi_groups_claim = [], oi_signing_algs = [], oi_ca_cert = []\<rparr>,
        cl_acme = None, cl_domains = [], cl_tunnel = None,
        cl_registry = \<lparr>rg_hostname = ''example-cluster-registry.local'', rg_ingress = \<lparr>ri_enabled = False\<rparr>\<rparr>,
        cl_pools = [], cl_providers = [], cl_secrets = \<lparr>sc_default = [], sc_providers = []\<rparr>,
        cl_spiffe = \<lparr>sp_trust_domain = []\<rparr>,
        cl_kubernetes = \<lparr>ku_api_hostname = ''example-cluster.k8s.local'', ku_api_port = 0,
          ku_api_load_balancer = [], ku_cluster_cidr = [''100.64.0.0/10''], ku_service_cidr = [''198.18.0.0/15'']\<rparr>,
        cl_seed = \<lparr>se_name = [], se_version = [], se_digest = []\<rparr>,
        cl_components = \<lparr>co_source = None, co_registry = None\<rparr>, cl_nat = None\<rparr>\<rparr>"

definition draft_subnets :: "string \<Rightarrow> subnet list" where
  "draft_subnets v6 =
     [\<lparr>su_pool = [], su_services = [''nat'', ''nlb''], su_public = True, su_id = [],
       su_v4cidr = ''172.18.10.0/28'', su_v6cidr = v6\<rparr>,
      \<lparr>su_pool = [], su_services = [''nstance''], su_public = False, su_id = [],
       su_v4cidr = ''172.18.20.0/28'', su_v6cidr = v6\<rparr>,
      \<lparr>su_pool = ''control-plane'', su_services = [], su_public = False, su_id = [],
       su_v4cidr = ''172.18.1.0/26'', su_v6cidr = v6\<rparr>]"

definition draft_provider :: "string \<Rightarrow> string \<Rightarrow> string \<Rightarrow> string \<Rightarrow> provider" where
  "draft_provider kind region v6 zone =
     \<lparr>pr_kind = kind, pr_region = region, pr_account = [], pr_profile = [], pr_project = [], pr_tags = [],
      pr_vpc = \<lparr>vp_id = [], vp_v4cidr = ''172.18.0.0/16'', vp_v6cidr = v6\<rparr>,
      pr_zones = [(zone, draft_subnets v6)], pr_load_balancers = [], pr_buckets = [], pr_roles = []\<rparr>"

definition draft_with :: "secrets \<Rightarrow> provider \<Rightarrow> pool \<Rightarrow> cluster_config" where
  "draft_with sec prov p =
     (let cl = cc_cluster defaultDraftConfig in
      defaultDraftConfig\<lparr>cc_cluster := cl\<lparr>cl_secrets := sec, cl_providers := [prov],
        cl_pools := [(''control-plane'', p)],
        cl_spiffe := \<lparr>sp_trust_domain = ku_api_hostname (cl_kubernetes cl)\<rparr>\<rparr>\<rparr>)"

definition NewDraftConfig :: "string \<Rightarrow> cluster_config result" where
  "NewDraftConfig providerKind =
     (if providerKind = ''google'' then
        Inr (draft_with
          \<lparr>sc_default = ''gcp-secret-manager'', sc_providers = [(''gcp-secret-manager'', no_provider\<lparr>sv_kind := ''gcp''\<rparr>)]\<rparr>
          (draft_provider ''google'' ''us-central1'' [] ''us-central1-a'')
          \<lparr>po_arch = ''amd64'', po_instance_type = ''e2-medium'', po_size = 1, po_disk_size = 0\<rparr>)
      else if providerKind = ''aws'' then
        Inr (draft_with
          \<lparr>sc_default = ''aws-secrets-manager'', sc_providers =
             [(''aws-secrets-manager'', no_provider\<lparr>sv_kind := ''aws'', sv_object_type := ''secretsmanager''\<rparr>)]\<rparr>
          (draft_provider ''aws'' ''us-east-1'' ''auto'' ''us-east-1a'')
          \<lparr>po_arch = ''arm64'', po_instance_type = ''t4g.medium'', po_size = 1, po_disk_size = 0\<rparr>)
      else Inl (Errorf ''unsupported cloud provider %q; must be aws or google'' [S providerKind]))"

end
