(* ===== verification/ClusterValidate.thy ===== *)
theory ClusterValidate
  imports ClusterConfig
begin

text \<open>
  The validation of \<open>internal/clusterconfig/validate.go\<close>, function by function. A validator returns the
  first error or \<open>None\<close>; a loop over a map runs over its association list. \<open>mail.ParseAddress\<close> and
  \<open>url.ParseRequestURI\<close> are the parsers of an environment record.
\<close>

section \<open>Patterns\<close>

definition is_label_char :: "char \<Rightarrow> bool" where
  "is_label_char c \<longleftrightarrow> is_lower c \<or> is_digit c"

text \<open>\<open>^[a-z0-9]([a-z0-9-]*[a-z0-9])?$\<close>\<close>

definition label_pattern :: "string \<Rightarrow> bool" where
  "label_pattern s \<longleftrightarrow>
     s \<noteq> [] \<and> is_label_char (hd s) \<and> is_label_char (last s) \<and>
     list_all (\<lambda>c. is_label_char c \<or> c = CHR ''-'') s"

text \<open>\<open>^[a-z0-9._-]+$\<close>\<close>

definition trust_domain_pattern :: "string \<Rightarrow> bool" where
  "trust_domain_pattern s \<longleftrightarrow> s \<noteq> [] \<and> list_all (\<lambda>c. is_label_char c \<or> c \<in> set ''._-'') s"

text \<open>\<open>^[a-z]{2}(?:-[a-z0-9]+)+-[1-9][0-9]*$\<close>\<close>

definition aws_region_pattern :: "string \<Rightarrow> bool" where
  "aws_region_pattern s \<longleftrightarrow>
     (let ps = go_split CHR ''-'' s in
      length ps \<ge> 3 \<and> length (hd ps) = 2 \<and> list_all is_lower (hd ps) \<and>
      list_all (\<lambda>p. p \<noteq> [] \<and> list_all is_label_char p) (butlast (tl ps)) \<and>
      last ps \<noteq> [] \<and> list_all is_digit (last ps) \<and> hd (last ps) \<noteq> CHR ''0'')"

definition err :: "string \<Rightarrow> gerror" where
  "err m = Some (Errorf m [])"

section \<open>Names, regions and zones\<close>

definition ValidateTrustDomain :: "string \<Rightarrow> gerror" where
  "ValidateTrustDomain d =
     (if d = [] then err ''is required; existing clusters must persist a trust domain before workload certificates can be enabled''
      else if length d > 255 then err ''must be at most 255 bytes''
      else if \<not> trust_domain_pattern d
      then err ''must contain only lowercase ASCII letters, digits, dots, hyphens, and underscores''
      else None)"

definition ValidateDomainName :: "string \<Rightarrow> gerror" where
  "ValidateDomainName name =
     (if name = [] then err ''is required''
      else if length name > 253 then err ''must be at most 253 characters''
      else if name \<noteq> to_lower name \<or> has_suffix name ''.''
      then err ''must be lowercase and must not end with a dot''
      else if ParseAddr name \<noteq> None then err ''must be a DNS hostname, not an IP address''
      else if list_ex (\<lambda>label. length label > 63 \<or> \<not> label_pattern label) (go_split CHR ''.'' name)
      then err ''must contain only DNS labels''
      else None)"

definition ValidateClusterID :: "string \<Rightarrow> gerror" where
  "ValidateClusterID i =
     (if i = [] then err ''is required''
      else if length i > 32 then err ''must be at most 32 characters''
      else if go_contains i ''--'' then err ''must not contain consecutive hyphens''
      else if \<not> label_pattern i
      then err ''must be lowercase alphanumeric with hyphens, no leading/trailing hyphens''
      else if i = ''local'' \<or> i = ''k8s'' \<or> i = ''oidc'' then Some (Errorf ''%q is reserved'' [S i])
      else None)"

definition ValidateAWSRegion :: "string \<Rightarrow> gerror" where
  "ValidateAWSRegion region =
     (if \<not> aws_region_pattern region then err ''must be a valid AWS region'' else None)"

definition ValidateAWSAvailabilityZone :: "string \<Rightarrow> string \<Rightarrow> gerror" where
  "ValidateAWSAvailabilityZone region zone =
     (let ok = has_prefix zone region; suffix = trim_prefix zone region;
          standardZone = (length suffix = 1 \<and> is_lower (hd suffix));
          localZone = (has_prefix suffix ''-'' \<and> length suffix > 1)
      in if \<not> ok \<or> (\<not> standardZone \<and> \<not> localZone)
         then Some (Errorf ''must be an availability zone in region %s'' [S region]) else None)"

section \<open>Seed, components, ACME\<close>

definition is_hex_digit :: "char \<Rightarrow> bool" where
  "is_hex_digit c \<longleftrightarrow> c \<in> set ''0123456789abcdef''"

definition ValidateSeed :: "seed \<Rightarrow> gerror" where
  "ValidateSeed s =
     (if se_name s \<notin> {[], ''none'', ''minimal'', ''platform'', ''agentic''}
      then err ''seed.name must be none, minimal, platform, or agentic''
      else if se_name s = ''platform'' \<or> se_name s = ''agentic'' \<or> se_name s = ''minimal'' then
        (if se_digest s = [] then err ''seed.digest is required''
         else (case go_cut CHR '':'' (se_digest s) of
             None \<Rightarrow> err ''seed.digest must be a sha512 digest in sha512:<hex> format''
           | Some (algorithm, encoded) \<Rightarrow>
               if algorithm \<noteq> ''sha512'' \<or> length encoded \<noteq> 128 \<or> list_ex (\<lambda>c. \<not> is_hex_digit c) encoded
               then err ''seed.digest must be a sha512 digest in sha512:<hex> format'' else None))
      else None)"

definition count_set :: "string list \<Rightarrow> nat" where
  "count_set fs = length (filter (\<lambda>f. f \<noteq> []) fs)"

definition ValidateComponents :: "components \<Rightarrow> gerror" where
  "ValidateComponents c =
     (case co_source c of
        None \<Rightarrow> None
      | Some src \<Rightarrow>
          let ref = cs_ref src in
          if trim_space (cs_url src) = [] then err ''components.source.url is required''
          else if count_set [sr_branch ref, sr_tag ref, sr_semver ref, sr_commit ref] > 1
          then err ''components.source.ref must set at most one of branch, tag, semver, or commit''
          else (case cs_secret_ref src of
              Some name \<Rightarrow>
                if trim_space name = [] then err ''components.source.secretRef.name is required when secretRef is set''
                else None
            | None \<Rightarrow> None))"

text \<open>What \<open>url.ParseRequestURI\<close> returns, as far as it is looked at.\<close>

record parsed_url =
  u_scheme :: string
  u_host :: string
  u_raw_query :: string
  u_fragment :: string
  u_user :: bool

record parsers =
  parse_url :: "string \<Rightarrow> parsed_url option"
  parse_mail :: "string \<Rightarrow> string option"

definition ValidateACME :: "parsers \<Rightarrow> acme option \<Rightarrow> cdomain list \<Rightarrow> gerror" where
  "ValidateACME pa a domains =
     (case a of
        None \<Rightarrow> None
      | Some ac \<Rightarrow>
          if parse_mail pa (ac_email ac) \<noteq> Some (ac_email ac) then err ''email must be a valid email address''
          else if ac_server ac \<noteq> [] \<and>
             (case parse_url pa (ac_server ac) of None \<Rightarrow> True | Some u \<Rightarrow> u_scheme u \<noteq> ''https'' \<or> u_host u = [])
          then err ''server must be a valid HTTPS URL''
          else if list_ex (\<lambda>d. SupportsACME (do_provider d)) domains then None
          else err ''requires at least one domain with a supported ACME DNS provider'')"

section \<open>Secrets providers\<close>

definition validateSecretsProviderAddress :: "parsers \<Rightarrow> string \<Rightarrow> gerror" where
  "validateSecretsProviderAddress pa value =
     (if (case parse_url pa value of None \<Rightarrow> True
          | Some u \<Rightarrow> u_scheme u \<noteq> ''https'' \<or> u_host u = [] \<or> u_raw_query u \<noteq> [] \<or> u_fragment u \<noteq> [] \<or> u_user u)
      then err ''must be an absolute HTTPS URL without credentials, query, or fragment'' else None)"

definition validateSecretsProviderName :: "string \<Rightarrow> string \<Rightarrow> gerror" where
  "validateSecretsProviderName pre name =
     (if name = [] then Some (Errorf ''%s is required'' [S pre])
      else if length name > 32 \<or> \<not> label_pattern name \<or> go_contains name ''--''
      then Some (Errorf ''%s must be lowercase alphanumeric with hyphens, no leading/trailing hyphens, no consecutive hyphens, no dots, and at most 32 characters'' [S pre])
      else None)"

definition validateSecretsKind :: "parsers \<Rightarrow> string \<Rightarrow> secrets_provider \<Rightarrow> gerror" where
  "validateSecretsKind pa pre p =
     (if sv_kind p = ''aws'' then
        (if sv_object_type p \<noteq> ''secretsmanager'' \<and> sv_object_type p \<noteq> ''ssmparameter''
         then Some (Errorf ''%s.object_type must be secretsmanager or ssmparameter for aws'' [S pre]) else None)
      else if sv_kind p = ''gcp'' then
        (if sv_project_id p = [] then Some (Errorf ''%s.project_id is required for gcp'' [S pre]) else None)
      else if sv_kind p = ''vault'' \<or> sv_kind p = ''openbao'' then
        wrap_err ''%s.address %w'' [S pre] (validateSecretsProviderAddress pa (sv_address p))
      else if sv_kind p = [] then Some (Errorf ''%s.kind is required'' [S pre])
      else Some (Errorf ''%s.kind must be aws, gcp, vault, or openbao'' [S pre]))"

definition validateSecretsProvider :: "parsers \<Rightarrow> string \<times> secrets_provider \<Rightarrow> gerror" where
  "validateSecretsProvider pa np =
     (case np of (name, p) \<Rightarrow>
       let pre = ''providers.'' @ name in
       orelse_err (validateSecretsProviderName pre name)
        (orelse_err (if sv_key_prefix p \<noteq> [] then validateSecretsProviderName (pre @ ''.key_prefix'') (sv_key_prefix p) else None)
          (validateSecretsKind pa pre p)))"

definition ValidateSecrets :: "parsers \<Rightarrow> secrets \<Rightarrow> gerror" where
  "ValidateSecrets pa s =
     (if sc_providers s = [] then
        (if sc_default s \<noteq> [] then err ''default_provider requires at least one provider'' else None)
      else if sc_default s = [] then err ''default_provider is required when providers are configured''
      else
        orelse_err (validateSecretsProviderName ''default_provider'' (sc_default s))
         (orelse_err (first_err (validateSecretsProvider pa) (sc_providers s))
           (if has_key (sc_providers s) (sc_default s) then None
            else Some (Errorf ''default_provider %q does not match a configured provider'' [S (sc_default s)]))))"

definition ValidateWorkloadCAProvider :: "parsers \<Rightarrow> secrets \<Rightarrow> gerror" where
  "ValidateWorkloadCAProvider pa s =
     (case map_of (sc_providers s) (sc_default s) of
        None \<Rightarrow> err ''default_provider must select a configured AWS, GCP, Vault, or OpenBao provider for workload CA provisioning''
      | Some p \<Rightarrow>
          if sv_kind p = ''aws'' \<and> (sv_object_type p = ''secretsmanager'' \<or> sv_object_type p = ''ssmparameter'') then None
          else if sv_kind p = ''gcp'' \<and> sv_project_id p \<noteq> [] then None
          else if (sv_kind p = ''vault'' \<or> sv_kind p = ''openbao'') \<and>
             validateSecretsProviderAddress pa (sv_address p) = None then None
          else Some (Errorf ''default_provider %q does not support workload CA provisioning; use AWS Secrets Manager, AWS SSM Parameter Store, GCP Secret Manager, Vault, or OpenBao'' [S (sc_default s)]))"

section \<open>Subnets and providers\<close>

definition validateService :: "string \<Rightarrow> subnet \<Rightarrow> string \<Rightarrow> gerror" where
  "validateService pre su service =
     (if service = ''nstance'' then None
      else if service = ''nat'' \<or> service = ''nlb'' then
        (if \<not> su_public su then Some (Errorf ''%s with service %q must be public'' [S pre, S service]) else None)
      else Some (Errorf ''%s.services contains unsupported service %q'' [S pre, S service]))"

definition validateSubnet :: "cluster \<Rightarrow> string \<Rightarrow> subnet \<Rightarrow> gerror" where
  "validateSubnet cl pre su =
     (let hasPool = (su_pool su \<noteq> []); hasServices = (su_services su \<noteq> []) in
      if su_id su \<noteq> [] \<and> (su_v4cidr su \<noteq> [] \<or> su_v6cidr su \<noteq> [])
      then Some (Errorf ''%s.id cannot be combined with subnet CIDRs'' [S pre])
      else if su_id su = [] \<and> su_v4cidr su = [] then Some (Errorf ''%s.id or v4cidr is required'' [S pre])
      else if su_v6cidr su \<noteq> [] \<and> su_v6cidr su \<noteq> ''auto''
      then Some (Errorf ''%s.v6cidr only supports \"auto\" for managed AWS generation'' [S pre])
      else if hasPool = hasServices then Some (Errorf ''%s must set exactly one of pool or services'' [S pre])
      else if hasPool then
        (if has_key (cl_pools cl) (su_pool su) then None
         else Some (Errorf ''%s.pool references unknown pool %q'' [S pre, S (su_pool su)]))
      else first_err (validateService pre su) (su_services su))"

definition canonical_v4 :: "string \<Rightarrow> pfx option" where
  "canonical_v4 s =
     (case ParsePrefix s of None \<Rightarrow> None
      | Some p \<Rightarrow> if is4 (px_addr p) \<and> p = masked p then Some p else None)"

definition validateSubnetCIDR :: "string \<Rightarrow> string \<Rightarrow> pfx option \<Rightarrow> subnet \<Rightarrow> gerror" where
  "validateSubnetCIDR subnetPrefix vpcCIDR vpcPrefix su =
     (if su_v4cidr su = [] then None
      else (case canonical_v4 (su_v4cidr su) of
          None \<Rightarrow> Some (Errorf ''%s.v4cidr must be a canonical IPv4 CIDR'' [S subnetPrefix])
        | Some parsed \<Rightarrow>
            (case vpcPrefix of
               None \<Rightarrow> None
             | Some v \<Rightarrow>
                 if px_bits parsed < px_bits v \<or> \<not> px_contains v (px_addr parsed)
                 then Some (Errorf ''%s.v4cidr must be contained within VPC CIDR %s'' [S subnetPrefix, S vpcCIDR])
                 else None)))"

definition validateZone :: "cluster \<Rightarrow> string \<Rightarrow> provider \<Rightarrow> pfx option \<Rightarrow> string \<times> subnet list \<Rightarrow> gerror" where
  "validateZone cl pre p vpcPrefix zs =
     (case zs of (zone, subnets) \<Rightarrow>
       if zone = [] then Some (Errorf ''%s.zones contains an empty zone name'' [S pre])
       else
         orelse_err (if pr_kind p = ''aws''
             then wrap_err ''%s.zones.%s %w'' [S pre, S zone] (ValidateAWSAvailabilityZone (pr_region p) zone) else None)
          (if subnets = [] then Some (Errorf ''%s.zones.%s must contain at least one subnet'' [S pre, S zone])
           else first_err_idx 0 (\<lambda>i su.
             let subnetPrefix = pre @ ''.zones.'' @ zone @ ''['' @ dec_digits i @ '']'' in
             orelse_err (validateSubnet cl subnetPrefix su)
               (validateSubnetCIDR subnetPrefix (vp_v4cidr (pr_vpc p)) vpcPrefix su)) subnets))"

definition subnet_roles :: "provider \<Rightarrow> string set" where
  "subnet_roles p = ResolvedRole ` set (concat (map snd (pr_zones p)))"

definition validateRole :: "string \<Rightarrow> provider \<Rightarrow> string \<times> role \<Rightarrow> gerror" where
  "validateRole pre p nr =
     (case nr of (name, r) \<Rightarrow>
       orelse_err (first_err (\<lambda>bucket. if bucket \<in> set (pr_buckets p) then None
           else Some (Errorf ''%s.roles.%s.buckets references unknown bucket %q'' [S pre, S name, S bucket])) (ro_buckets r))
        (if ro_permissions r \<noteq> [] \<and> ro_permissions r \<noteq> ''read-write'' \<and> ro_permissions r \<noteq> ''read-only''
         then Some (Errorf ''%s.roles.%s.permissions must be read-write or read-only'' [S pre, S name]) else None))"

text \<open>The listeners of a load balancer in order, with the ports seen so far.\<close>

fun validateListeners :: "cluster \<Rightarrow> string \<Rightarrow> provider \<Rightarrow> nat \<Rightarrow> int list \<Rightarrow> listener list \<Rightarrow> gerror" where
  "validateListeners cl pre p i ports [] = None"
| "validateListeners cl pre p i ports (l # ls) =
     (let listenerPrefix = pre @ ''.listeners['' @ dec_digits i @ '']'' in
      if li_port l < 1 \<or> li_port l > 65535 then Some (Errorf ''%s.port must be 1-65535'' [S listenerPrefix])
      else if li_port l \<in> set ports
      then Some (Errorf ''%s.port duplicates port %d'' [S listenerPrefix, I (li_port l)])
      else if li_target_port l < 0 \<or> li_target_port l > 65535
      then Some (Errorf ''%s.target_port must be 1-65535 when set'' [S listenerPrefix])
      else if li_proxy_port l \<noteq> None \<and> pr_kind p \<noteq> ''aws''
      then Some (Errorf ''%s.proxy_port is only supported on AWS; omit it for %s'' [S listenerPrefix, S (pr_kind p)])
      else if (case li_proxy_port l of Some q \<Rightarrow> q < 1 \<or> q > 65535 | None \<Rightarrow> False)
      then Some (Errorf ''%s.proxy_port must be 1-65535 when set'' [S listenerPrefix])
      else if pr_kind p = ''google'' \<and> ResolvedTargetPort l \<noteq> li_port l
      then Some (Errorf ''%s Google passthrough frontend and target ports must be equal'' [S listenerPrefix])
      else if \<not> has_key (cl_pools cl) (li_pool l)
      then Some (Errorf ''%s.pool references unknown pool %q'' [S listenerPrefix, S (li_pool l)])
      else validateListeners cl pre p (Suc i) (li_port l # ports) ls)"

definition validateLoadBalancer :: "cluster \<Rightarrow> string \<Rightarrow> provider \<Rightarrow> string \<times> load_balancer \<Rightarrow> gerror" where
  "validateLoadBalancer cl pre p nl =
     (case nl of (name, lb) \<Rightarrow>
       if name = [] then Some (Errorf ''%s.load_balancers contains an empty name'' [S pre])
       else if lb_subnets lb = [] then Some (Errorf ''%s.load_balancers.%s.subnets is required'' [S pre, S name])
       else if lb_subnets lb \<notin> subnet_roles p
       then Some (Errorf ''%s.load_balancers.%s.subnets references unknown subnet role %q'' [S pre, S name, S (lb_subnets lb)])
       else validateListeners cl (pre @ ''.load_balancers.'' @ name) p 0 [] (lb_listeners lb))"

definition validateProviderKind :: "string \<Rightarrow> provider \<Rightarrow> gerror" where
  "validateProviderKind pre p =
     (if pr_kind p = ''aws'' then wrap_err ''%s.region %w'' [S pre] (ValidateAWSRegion (pr_region p))
      else if pr_kind p = ''google'' then
        (if pr_region p = [] \<or> pr_project p = []
         then Some (Errorf ''%s Google configuration requires region and project'' [S pre]) else None)
      else if pr_kind p = ''proxmox'' then Some (Errorf ''%s.kind proxmox is not supported by cluster create'' [S pre])
      else Some (Errorf ''%s.kind must be aws or google'' [S pre]))"

definition validateProvider :: "cluster \<Rightarrow> nat \<Rightarrow> provider \<Rightarrow> gerror" where
  "validateProvider cl index p =
     (let pre = ''cluster.providers['' @ dec_digits index @ '']''; v = pr_vpc p in
      orelse_err (validateProviderKind pre p)
      (if vp_id v \<noteq> [] \<and> (vp_v4cidr v \<noteq> [] \<or> vp_v6cidr v \<noteq> [])
       then Some (Errorf ''%s.vpc.id cannot be combined with vpc CIDRs'' [S pre])
       else if vp_id v = [] \<and> vp_v4cidr v = [] then Some (Errorf ''%s.vpc.id or vpc.v4cidr is required'' [S pre])
       else if vp_v4cidr v \<noteq> [] \<and> canonical_v4 (vp_v4cidr v) = None
       then Some (Errorf ''%s.vpc.v4cidr must be a canonical IPv4 CIDR'' [S pre])
       else if vp_v6cidr v \<noteq> [] \<and> vp_v6cidr v \<noteq> ''auto''
       then Some (Errorf ''%s.vpc.v6cidr only supports \"auto\" for managed AWS generation'' [S pre])
       else if pr_zones p = [] then Some (Errorf ''%s.zones must contain at least one zone'' [S pre])
       else
         let vpcPrefix = (if vp_v4cidr v = [] then None else canonical_v4 (vp_v4cidr v)) in
         orelse_err (first_err (validateZone cl pre p vpcPrefix) (pr_zones p))
         (orelse_err (first_err (validateRole pre p) (pr_roles p))
           (first_err (validateLoadBalancer cl pre p) (pr_load_balancers p)))))"

section \<open>Networking and domains\<close>

definition requireListener :: "provider \<Rightarrow> string \<Rightarrow> int \<Rightarrow> int \<Rightarrow> string \<Rightarrow> gerror" where
  "requireListener p loadBalancer port targetPort pl =
     (case map_of (pr_load_balancers p) loadBalancer of
        None \<Rightarrow> Some (Errorf ''references unknown load balancer %q'' [S loadBalancer])
      | Some lb \<Rightarrow>
          if list_ex (\<lambda>l. li_port l = port \<and>
               (if li_target_port l = 0 then li_port l else li_target_port l) = targetPort \<and>
               (pl = [] \<or> li_pool l = pl)) (lb_listeners lb)
          then None
          else if pl \<noteq> []
          then Some (Errorf ''load balancer %q requires listener port %d targeting port %d for pool %q''
            [S loadBalancer, I port, I targetPort, S pl])
          else Some (Errorf ''load balancer %q requires listener port %d targeting port %d''
            [S loadBalancer, I port, I targetPort]))"

fun checkLadder :: "string \<Rightarrow> string list \<Rightarrow> string list \<Rightarrow> gerror" where
  "checkLadder tenant seen [] = None"
| "checkLadder tenant seen (t # ts) =
     (if trim_space t = [] \<or> t \<in> set seen
      then Some (Errorf ''NAT tenant %q ladder contains empty or duplicate instance types'' [S tenant])
      else checkLadder tenant (t # seen) ts)"

definition nat_subnet :: "nat_group \<Rightarrow> subnet \<Rightarrow> bool" where
  "nat_subnet g su \<longleftrightarrow> ResolvedRole su = ng_subnet_pool g \<and> su_public su \<and> ''nat'' \<in> set (su_services su)"

definition validateNATZone :: "nat_config \<Rightarrow> string \<Rightarrow> nat_group \<Rightarrow> string \<times> subnet list \<Rightarrow> gerror" where
  "validateNATZone n gname g zs =
     (case zs of (zone, subnets) \<Rightarrow>
       if na_mode n = ''nstance'' \<and>
          (list_ex (\<lambda>su. ''nstance'' \<in> set (su_services su) \<and> \<not> su_public su) subnets \<or>
           \<not> list_ex (\<lambda>su. ''nstance'' \<in> set (su_services su)) subnets)
       then Some (Errorf ''nstance NAT requires public/direct Nstance placement in %s'' [S zone])
       else if \<not> list_ex (nat_subnet g) subnets
       then Some (Errorf ''NAT group %q requires a public NAT service subnet in %s'' [S gname, S zone])
       else None)"

definition validateNATTenant :: "cluster \<Rightarrow> provider \<Rightarrow> nat_config \<Rightarrow> string \<times> tenant_nat \<Rightarrow> gerror" where
  "validateNATTenant cl p n tp =
     (case tp of (tenant, policy) \<Rightarrow>
       if tenant \<noteq> ''default'' then err ''cluster.nat.tenants: only the default Kubernetes tenant is supported''
       else (case (if tn_group policy = [] then None else map_of (na_groups n) (tn_group policy)) of
           None \<Rightarrow> Some (Errorf ''NAT tenant %q references unknown group %q'' [S tenant, S (tn_group policy)])
         | Some g \<Rightarrow>
             if ng_arch g \<noteq> ''amd64'' \<and> ng_arch g \<noteq> ''arm64''
             then Some (Errorf ''NAT group %q arch must be amd64 or arm64'' [S (tn_group policy)])
             else if has_key (cl_pools cl) (tn_group policy)
             then Some (Errorf ''NAT group %q conflicts with a Kubernetes pool'' [S (tn_group policy)])
             else if tn_ladder policy = [] \<or> ng_instance_type g \<notin> set (tn_ladder policy)
             then Some (Errorf ''NAT tenant %q ladder must include its starting instance type'' [S tenant])
             else orelse_err (checkLadder tenant [] (tn_ladder policy))
               (first_err (validateNATZone n (tn_group policy) g) (pr_zones p))))"

definition validateNAT :: "cluster \<Rightarrow> provider \<Rightarrow> nat_config \<Rightarrow> gerror" where
  "validateNAT cl p n =
     (if na_mode n \<noteq> ''provider'' \<and> na_mode n \<noteq> ''nstance'' then err ''cluster.nat.mode must be provider or nstance''
      else if na_fixed_count n < 0 then err ''cluster.nat.fixed_public_ipv4_count must be non-negative''
      else if na_mode n = ''nstance'' \<and> na_tenants n = [] then err ''nstance NAT requires tenant configuration''
      else
        orelse_err (first_err (validateNATTenant cl p n) (na_tenants n))
          (first_err (\<lambda>(g, _). if g \<in> (tn_group \<circ> snd) ` set (na_tenants n) then None
             else Some (Errorf ''NAT group %q has no owning tenant'' [S g])) (na_groups n)))"

text \<open>The proxy ports of the load balancers in iteration order, with the owner of each port seen.\<close>

definition lb_listener_list :: "provider \<Rightarrow> (string \<times> listener) list" where
  "lb_listener_list p = concat (map (\<lambda>(name, lb). map (Pair name) (lb_listeners lb)) (pr_load_balancers p))"

fun checkProxyPorts :: "string \<Rightarrow> (int \<times> string) list \<Rightarrow> (string \<times> listener) list \<Rightarrow> gerror" where
  "checkProxyPorts kind owners [] = None"
| "checkProxyPorts kind owners ((name, l) # ls) =
     (let port = ResolvedProxyPort l in
      if port \<ge> 8990 \<and> port \<le> 8994
      then Some (Errorf ''load balancer %q proxy port collides with Nstance server port %d'' [S name, I port])
      else (case (if kind = ''aws'' then map_of owners port else None) of
          Some owner \<Rightarrow> Some (Errorf ''load balancer %q proxy port %d collides with %q'' [S name, I port, S owner])
        | None \<Rightarrow> checkProxyPorts kind ((port, name) # owners) ls))"

definition validateTunnel :: "cluster \<Rightarrow> provider \<Rightarrow> tunnel \<Rightarrow> gerror" where
  "validateTunnel cl p t =
     (if tu_kind t \<noteq> ''cloudflare'' then Some (Errorf ''unsupported tunnel provider %q'' [S (tu_kind t)])
      else if trim_space (tu_id t) = [] \<or> trim_space (tu_credential_secret t) = []
      then err ''cluster.tunnel requires id and credential_secret for an existing tunnel''
      else if pr_load_balancers p \<noteq> [] \<or> ku_api_load_balancer (cl_kubernetes cl) \<noteq> []
      then err ''cluster.tunnel cannot be combined with load balancers''
      else orelse_err (first_err (\<lambda>d. if do_load_balancer d \<noteq> []
            then Some (Errorf ''domain %q load_balancer cannot be combined with cluster.tunnel'' [S (do_zone d)])
            else None) (cl_domains cl))
        (if ku_api_port (cl_kubernetes cl) \<noteq> 0 \<and> ku_api_port (cl_kubernetes cl) \<noteq> 443
         then err ''cluster.tunnel requires external api_port 443'' else None))"

definition validateNetworking :: "cluster \<Rightarrow> gerror" where
  "validateNetworking cl =
     (if length (cl_providers cl) \<noteq> 1 \<and> (cl_tunnel cl \<noteq> None \<or> cl_nat cl \<noteq> None)
      then err ''tunnel and NAT settings require exactly one infrastructure provider''
      else
        let p = hd (cl_providers cl) in
        orelse_err (case cl_tunnel cl of None \<Rightarrow> None | Some t \<Rightarrow> validateTunnel cl p t)
        (orelse_err (checkProxyPorts (pr_kind p) [] (lb_listener_list p))
          (case cl_nat cl of None \<Rightarrow> None | Some n \<Rightarrow> validateNAT cl p n)))"

fun checkDomains :: "cluster \<Rightarrow> provider \<Rightarrow> nat \<Rightarrow> string list \<Rightarrow> cdomain list \<Rightarrow> gerror" where
  "checkDomains cl p i zones [] = None"
| "checkDomains cl p i zones (d # ds) =
     (let pre = ''cluster.domains['' @ dec_digits i @ '']'' in
      case ValidateDomainName (do_zone d) of
        Some e \<Rightarrow> Some (Wrapf ''%s.zone: %w'' [S pre] e)
      | None \<Rightarrow>
          if do_zone d \<in> set zones then Some (Errorf ''%s.zone duplicates %q'' [S pre, S (do_zone d)])
          else if (case do_provider d of None \<Rightarrow> False
             | Some dp \<Rightarrow> dp_kind dp \<notin> {''aws-route53'', ''cloudflare'', ''google-cloud-dns'', ''local''})
          then Some (Errorf ''%s.provider.kind must be aws-route53, cloudflare, google-cloud-dns, or local'' [S pre])
          else (case (if cl_tunnel cl = None
                 then wrap_err ''%s.load_balancer: %w'' [S pre] (requireListener p (ResolvedDomainLoadBalancer d) 443 443 [])
                 else None) of
              Some e \<Rightarrow> Some e
            | None \<Rightarrow> checkDomains cl p (Suc i) (do_zone d # zones) ds))"

definition validateDomains :: "cluster \<Rightarrow> provider \<Rightarrow> gerror" where
  "validateDomains cl p =
     orelse_err (checkDomains cl p 0 [] (cl_domains cl))
     (let lb = ku_api_load_balancer (cl_kubernetes cl);
          port = (if ku_api_port (cl_kubernetes cl) = 0 then 6443 else ku_api_port (cl_kubernetes cl)) in
      if cl_tunnel cl \<noteq> None \<or> lb = [] then None
      else orelse_err (first_err (\<lambda>d.
            if do_zone d = ku_api_hostname (cl_kubernetes cl) \<and> ResolvedDomainLoadBalancer d \<noteq> lb
            then Some (Errorf ''cluster.kubernetes.api_load_balancer %q conflicts with domain apex %q load balancer %q''
              [S lb, S (do_zone d), S (ResolvedDomainLoadBalancer d)]) else None) (cl_domains cl))
        (wrap_err ''cluster.kubernetes.api_load_balancer: %w'' [] (requireListener p lb port 6443 ''control-plane'')))"

section \<open>The whole configuration\<close>

definition validatePool :: "string \<times> pool \<Rightarrow> gerror" where
  "validatePool np =
     (case np of (name, p) \<Rightarrow>
       if name = [] then err ''cluster.pools contains an empty pool name''
       else if po_arch p \<noteq> ''amd64'' \<and> po_arch p \<noteq> ''arm64''
       then Some (Errorf ''cluster.pools.%s.arch must be amd64 or arm64'' [S name])
       else if po_instance_type p = [] then Some (Errorf ''cluster.pools.%s.instance_type is required'' [S name])
       else if po_size p < 0 then Some (Errorf ''cluster.pools.%s.size must be >= 0'' [S name])
       else None)"

definition require :: "bool \<Rightarrow> string \<Rightarrow> gerror" where
  "require b m = (if b then None else err m)"

lemma require_None [simp]: "require b m = None \<longleftrightarrow> b"
  by (simp add: require_def err_def)

text \<open>The checks of \<open>Validate\<close> in their order; the first error is returned.\<close>

definition validate_checks :: "parsers \<Rightarrow> cluster \<Rightarrow> gerror list" where
  "validate_checks pa cl =
     [wrap_err ''cluster.id: %w'' [] (ValidateClusterID (cl_id cl)),
      require (oi_issuer_url (cl_oidc cl) \<noteq> []) ''cluster.oidc.issuer_url is required'',
      wrap_err ''cluster.kubernetes.api_hostname: %w'' [] (ValidateDomainName (ku_api_hostname (cl_kubernetes cl))),
      wrap_err ''cluster.spiffe.trust_domain: %w'' [] (ValidateTrustDomain (sp_trust_domain (cl_spiffe cl))),
      require (0 \<le> ku_api_port (cl_kubernetes cl) \<and> ku_api_port (cl_kubernetes cl) \<le> 65535)
        ''cluster.kubernetes.api_port must be 1-65535 when set'',
      (if rg_hostname (cl_registry cl) = [] then None
       else wrap_err ''cluster.registry.hostname: %w'' [] (ValidateDomainName (rg_hostname (cl_registry cl)))),
      require (cl_domains cl = [] \<or> rg_hostname (cl_registry cl) \<noteq> [])
        ''cluster.registry.hostname is required when domains are configured'',
      require (cl_tunnel cl = None \<or> cl_acme cl = None)
        ''cluster.acme cannot be combined with cluster.tunnel; the tunnel provider supplies public TLS'',
      wrap_err ''cluster.acme: %w'' [] (ValidateACME pa (cl_acme cl) (cl_domains cl)),
      wrap_err ''cluster.kubernetes.service_cidr: %w'' []
        (result_err (ServiceNetworkFromCIDRs (ku_service_cidr (cl_kubernetes cl)))),
      require (case mirror_of cl of None \<Rightarrow> True | Some m \<Rightarrow> rm_enabled m \<longrightarrow> RegistryMirrorHostname cl \<noteq> [])
        ''cluster.registry.hostname is required when components.registry.mirror.enabled is true without components.registry.mirror.hostname'',
      wrap_err ''cluster.seed: %w'' [] (ValidateSeed (cl_seed cl)),
      wrap_err ''cluster.components: %w'' [] (ValidateComponents (cl_components cl)),
      wrap_err ''cluster.secrets: %w'' [] (ValidateSecrets pa (cl_secrets cl)),
      require (cl_providers cl \<noteq> []) ''cluster.providers must contain at least one provider'',
      require (cl_pools cl \<noteq> []) ''cluster.pools must contain at least one pool'',
      first_err validatePool (cl_pools cl),
      first_err_idx 0 (validateProvider cl) (cl_providers cl)]"

definition Validate :: "parsers \<Rightarrow> cluster_config option \<Rightarrow> gerror" where
  "Validate pa cfg =
     (case cfg of
        None \<Rightarrow> err ''config is required''
      | Some c \<Rightarrow>
          let cl = cc_cluster c in
          orelse_err (first_err (\<lambda>e. e) (validate_checks pa cl))
          (orelse_err (validateNetworking cl) (validateDomains cl (hd (cl_providers cl)))))"

end
