(* ===== verification/ClusterFacts.thy ===== *)
theory ClusterFacts
  imports ClusterValidate "HOL-Library.Multiset"
begin

text \<open>
  What the validators of the cluster configuration establish: the addresses of a service network, and the
  facts that follow from the absence of an error, function by function.
\<close>

section \<open>Service networks\<close>

text \<open>What is kept of a network: canonical, with the API address and the DNS address inside.\<close>

definition service_net :: "pfx \<Rightarrow> bool" where
  "service_net p \<longleftrightarrow> p = masked p \<and> px_bits p \<le> bit_len (px_addr p) \<and> addr_zone (px_addr p) = [] \<and>
     px_contains p (coreDNSAddr p) \<and> addr_next (px_addr p) < coreDNSAddr p"

lemma network_loop_spec:
  assumes "network_loop i cs s4 s6 out = Inr n"
  shows "\<exists>ps. map ParsePrefix cs = map Some ps \<and>
    n = \<lparr>sn_cidrs = sn_cidrs out @ map pfx_string ps, sn_api = sn_api out @ map (\<lambda>p. addr_next (px_addr p)) ps,
         sn_dns = sn_dns out @ map coreDNSAddr ps\<rparr> \<and>
    (\<forall>p \<in> set ps. service_net p) \<and>
    length (filter (\<lambda>p. is4 (px_addr p)) ps) \<le> (if s4 then 0 else 1) \<and>
    length (filter (\<lambda>p. \<not> is4 (px_addr p)) ps) \<le> (if s6 then 0 else 1) \<and>
    (i = 0 \<and> ps \<noteq> [] \<longrightarrow> is4 (px_addr (hd ps)))"
  using assms
proof (induction i cs s4 s6 out rule: network_loop.induct)
  case (1 i s4 s6 out)
  thus ?case by (intro exI [of _ "[]"]) simp
next
  case (2 i raw cidrs s4 s6 out)
  show ?case
  proof (cases "ParsePrefix raw")
    case None thus ?thesis using 2 by simp
  next
    case (Some p)
    from "2.prems" have c: "p = masked p" "\<not> (is4 (px_addr p) \<and> s4 \<or> \<not> is4 (px_addr p) \<and> s6)"
      "\<not> (i = 0 \<and> \<not> is4 (px_addr p))" "px_contains p (coreDNSAddr p)" "addr_next (px_addr p) < coreDNSAddr p"
      unfolding network_loop.simps Some option.case Let_def by (simp_all only: split: if_splits) (auto simp: not_le)
    have L: "network_loop (Suc i) cidrs (s4 \<or> is4 (px_addr p)) (s6 \<or> \<not> is4 (px_addr p))
        \<lparr>sn_cidrs = sn_cidrs out @ [pfx_string p], sn_api = sn_api out @ [addr_next (px_addr p)],
         sn_dns = sn_dns out @ [coreDNSAddr p]\<rparr> = Inr n"
      using "2.prems" c unfolding network_loop.simps Some option.case Let_def by (simp split: if_splits)
    have nc: "\<not> (\<not> px_contains p (coreDNSAddr p) \<or> coreDNSAddr p \<le> addr_next (px_addr p))"
      using c by (simp add: not_le)
    note IH = "2.IH" [OF Some _ refl _ _ refl nc L, simplified not_not, OF c(1) c(2) c(3)]
    obtain ps where ps: "map ParsePrefix cidrs = map Some ps"
      "n = \<lparr>sn_cidrs = (sn_cidrs out @ [pfx_string p]) @ map pfx_string ps,
         sn_api = (sn_api out @ [addr_next (px_addr p)]) @ map (\<lambda>p. addr_next (px_addr p)) ps,
         sn_dns = (sn_dns out @ [coreDNSAddr p]) @ map coreDNSAddr ps\<rparr>"
      "\<forall>p \<in> set ps. service_net p"
      "length (filter (\<lambda>p. is4 (px_addr p)) ps) \<le> (if s4 \<or> is4 (px_addr p) then 0 else 1)"
      "length (filter (\<lambda>p. \<not> is4 (px_addr p)) ps) \<le> (if s6 \<or> \<not> is4 (px_addr p) then 0 else 1)"
      using IH by (simp only: service_network.select_convs) (elim exE conjE, rule that, assumption+)
    have "service_net p" using c ParsePrefix_ok [OF Some] by (simp add: service_net_def)
    with ps c Some show ?thesis by (intro exI [of _ "p # ps"]) (auto split: if_splits)
  qed
qed

lemma unmap_sum:
  fixes w :: "32 word"
  assumes "h \<le> 32" "2 \<le> h" "uint w + 2 ^ h \<le> 2 ^ 32" "unmap (as16 (V4 w) + (2 ^ h - 2)) = V4 v"
  shows "uint v = uint w + 2 ^ h - 2"
proof -
  let ?s = "as16 (V4 w) + (2 ^ h - 2)"
  have v: "v = ucast ?s" using assms(4) by (simp add: unmap_def split: if_splits)
  have p: "uint (2 ^ h :: 128 word) = 2 ^ h" using assms(1) by (intro uint_2p) (simp add: word_neq_0_conv [symmetric])
  have h: "(4::int) \<le> 2 ^ h" using power_increasing [OF assms(2), of "2::int"] by simp
  have w: "0 \<le> uint w" by simp
  have a: "uint (as16 (V4 w)) = 0xFFFF00000000 + uint w"
    unfolding as16_def addr.case using uint_less_top [of w] uint_add_lem [of "0xFFFF00000000 :: 128 word" "ucast w"]
    by (simp add: ucast_low)
  have d: "uint (2 ^ h - 2 :: 128 word) = 2 ^ h - 2"
    using uint_sub_lem [of "2 :: 128 word" "2 ^ h"] p h by simp
  have "0xFFFF00000000 + uint w + (2 ^ h - 2) < 2 ^ 128" using assms(3) by simp
  hence "uint ?s = 0xFFFF00000000 + uint w + (2 ^ h - 2)"
    using uint_add_lem [of "as16 (V4 w)" "2 ^ h - 2"] a d by simp
  hence "uint v = (0xFFFF00000000 + (uint w + (2 ^ h - 2))) mod 2 ^ 32" by (simp add: v ucast_low add.assoc)
  also have "\<dots> = (0xFFFF * 2 ^ 32 + (uint w + (2 ^ h - 2))) mod 2 ^ 32" by simp
  also have "\<dots> = (uint w + (2 ^ h - 2)) mod 2 ^ 32" by (rule mod_mult_self3)
  also have "\<dots> = uint w + (2 ^ h - 2)" using assms(3) h w by (intro mod_pos_pos_trivial) linarith+
  finally show ?thesis by simp
qed

text \<open>The API server has the first address of a service network, CoreDNS the last but one or the fixed IPv6 offset.\<close>

lemma service_net_addrs:
  assumes "service_net p"
  shows "px_contains p (addr_next (px_addr p))" "addr_value (addr_next (px_addr p)) = addr_value (px_addr p) + 1"
    "addr_value (coreDNSAddr p) = addr_value (px_addr p) + (if is4 (px_addr p) then 2 ^ host_bits p - 2 else ipv6DNSOffset)"
proof -
  from assms have m: "p = masked p" and b: "px_bits p \<le> bit_len (px_addr p)" and c: "px_contains p (coreDNSAddr p)"
    and zone: "addr_zone (px_addr p) = []" and less: "addr_next (px_addr p) < coreDNSAddr p" by (simp_all add: service_net_def)
  have m': "px_addr p = px_addr (masked p)" using m by simp
  have n: "px_addr p \<noteq> NoAddr" using c by (auto simp: px_contains_simps)
  note R = contains_range [OF m n]
  have "px_contains p (addr_next (px_addr p)) \<and> addr_value (addr_next (px_addr p)) = addr_value (px_addr p) + 1 \<and>
    addr_value (coreDNSAddr p) = addr_value (px_addr p) + (if is4 (px_addr p) then 2 ^ host_bits p - 2 else ipv6DNSOffset)"
  proof (cases "px_addr p")
    case (V4 w)
    let ?h = "32 - px_bits p"
    have w: "w = mask_word ?h w" using m' V4 by (simp add: masked_def)
    have hb: "host_bits p = ?h" using V4 by (simp add: host_bits_def bit_len_def)
    have h2: "2 \<le> ?h" using c V4 b by (auto simp: coreDNSAddr_def px_contains_simps is4_def bit_len_def split: if_splits)
    note nx = mask_word_next [OF w]
    have "\<not> 30 < px_bits p" using h2 by simp
    hence d: "coreDNSAddr p = unmap (as16 (V4 w) + (2 ^ ?h - 2))"
      using V4 h2 b by (simp add: coreDNSAddr_def is4_def bit_len_def nat_diff_distrib of_nat_diff)
    obtain v where v: "coreDNSAddr p = V4 v" using c V4 by (cases "coreDNSAddr p") (simp_all add: px_contains_simps)
    have dv: "uint v = uint w + 2 ^ ?h - 2"
      using unmap_sum [of ?h w v] h2 block_below_top [OF w] v d by simp
    have "(4::int) \<le> 2 ^ ?h" using power_increasing [OF h2, of "2::int"] by simp
    thus ?thesis unfolding R using V4 nx dv v h2 hb
      by (simp add: addr_next_def bit_len_def addr_zone_def addr_value_def is4_def)
  next
    case (V6 w z)
    let ?h = "128 - px_bits p"
    have w: "w = mask_word ?h w" using m' V6 by (simp add: masked_def)
    have hb: "host_bits p = ?h" using V6 by (simp add: host_bits_def bit_len_def)
    have d: "coreDNSAddr p = V6 (w + of_int ipv6DNSOffset) []"
      using V6 by (simp add: coreDNSAddr_def is4_def as16_def)
    let ?v = "w + of_int ipv6DNSOffset"
    have in_net: "uint w \<le> uint ?v" "uint ?v < uint w + 2 ^ ?h"
      using c unfolding d R V6 by (simp_all only: addr_value_def addr.case hb)
    have o: "uint (of_int ipv6DNSOffset :: 128 word) = ipv6DNSOffset" by (simp add: ipv6DNSOffset_def)
    have off: "(0::int) < ipv6DNSOffset" by (simp add: ipv6DNSOffset_def)
    have v: "uint ?v = uint w + ipv6DNSOffset"
      using in_net(1) by (metis o uint_add_lem uint_plus_simple_iff word_le_def)
    have h1: "0 < ?h" using in_net(2) v off by (cases "?h = 0") auto
    have "(2::int) \<le> 2 ^ ?h" using power_increasing [of 1 ?h "2::int"] h1 by simp
    thus ?thesis unfolding R using V6 mask_word_next [OF w h1] d v zone h1 hb
      by (simp add: addr_next_def bit_len_def addr_zone_def addr_value_def is4_def)
  qed (use n in simp)
  thus "px_contains p (addr_next (px_addr p))" "addr_value (addr_next (px_addr p)) = addr_value (px_addr p) + 1"
    "addr_value (coreDNSAddr p) = addr_value (px_addr p) + (if is4 (px_addr p) then 2 ^ host_bits p - 2 else ipv6DNSOffset)"
    by blast+
qed

section \<open>Providers\<close>

text \<open>The guards of a validator, read as a conjunction.\<close>

lemma guard_None:
  "(if b then Some e else r) = None \<longleftrightarrow> \<not> b \<and> r = None"
  "(if b then r else Some e) = None \<longleftrightarrow> b \<and> r = None"
  "(if b then err m else r) = None \<longleftrightarrow> \<not> b \<and> r = None"
  by (simp_all add: err_def)

lemma validateService_None:
  "validateService pre su sv = None \<longleftrightarrow> sv \<in> {''nstance'', ''nat'', ''nlb''} \<and> (sv \<noteq> ''nstance'' \<longrightarrow> su_public su)"
  by (auto simp: validateService_def)

text \<open>A subnet is given by its ID or its CIDR, and carries one pool or some services.\<close>

definition subnet_ok :: "cluster \<Rightarrow> subnet \<Rightarrow> bool" where
  "subnet_ok cl su \<longleftrightarrow>
     (su_id su \<noteq> []) \<noteq> (su_v4cidr su \<noteq> []) \<and> (su_v6cidr su = [] \<or> su_v6cidr su = ''auto'' \<and> su_id su = []) \<and>
     (su_pool su \<noteq> []) \<noteq> (su_services su \<noteq> []) \<and> (su_pool su \<noteq> [] \<longrightarrow> has_key (cl_pools cl) (su_pool su)) \<and>
     set (su_services su) \<subseteq> {''nstance'', ''nat'', ''nlb''} \<and>
     (set (su_services su) \<inter> {''nat'', ''nlb''} \<noteq> {} \<longrightarrow> su_public su)"

lemma all_services:
  assumes "n \<noteq> a" "n \<noteq> b"
  shows "(\<forall>sv \<in> A. sv \<in> {n, a, b} \<and> (sv \<noteq> n \<longrightarrow> P)) \<longleftrightarrow> A \<subseteq> {n, a, b} \<and> (A \<inter> {a, b} \<noteq> {} \<longrightarrow> P)"
  using assms by auto

lemma validateSubnet_None: "validateSubnet cl pre su = None \<longleftrightarrow> subnet_ok cl su"
proof -
  have "validateSubnet cl pre su = None \<longleftrightarrow>
      \<not> (su_id su \<noteq> [] \<and> (su_v4cidr su \<noteq> [] \<or> su_v6cidr su \<noteq> [])) \<and> \<not> (su_id su = [] \<and> su_v4cidr su = []) \<and>
      \<not> (su_v6cidr su \<noteq> [] \<and> su_v6cidr su \<noteq> ''auto'') \<and> (su_pool su \<noteq> []) \<noteq> (su_services su \<noteq> []) \<and>
      (su_pool su \<noteq> [] \<longrightarrow> has_key (cl_pools cl) (su_pool su)) \<and>
      (su_pool su = [] \<longrightarrow> (\<forall>sv \<in> set (su_services su). validateService pre su sv = None))"
    unfolding validateSubnet_def Let_def guard_None first_err_None_iff by (cases "su_pool su = []") (simp_all add: guard_None)
  also have "(\<forall>sv \<in> set (su_services su). validateService pre su sv = None) \<longleftrightarrow>
      set (su_services su) \<subseteq> {''nstance'', ''nat'', ''nlb''} \<and>
      (set (su_services su) \<inter> {''nat'', ''nlb''} \<noteq> {} \<longrightarrow> su_public su)"
    unfolding validateService_None by (rule all_services) simp_all
  finally show ?thesis unfolding subnet_ok_def
    by (cases "su_services su = []"; cases "su_pool su = []"; cases "su_id su = []"; cases "su_v4cidr su = []";
        cases "su_v6cidr su = []") simp_all
qed

definition subnet_cidr_ok :: "provider \<Rightarrow> subnet \<Rightarrow> bool" where
  "subnet_cidr_ok p su \<longleftrightarrow> su_v4cidr su \<noteq> [] \<longrightarrow>
     (\<exists>s. canonical_v4 (su_v4cidr su) = Some s \<and>
       (\<forall>v. vp_v4cidr (pr_vpc p) \<noteq> [] \<longrightarrow> canonical_v4 (vp_v4cidr (pr_vpc p)) = Some v \<longrightarrow>
         px_bits v \<le> px_bits s \<and> px_contains v (px_addr s)))"

lemma validateSubnetCIDR_None:
  "validateSubnetCIDR pre c (if vp_v4cidr (pr_vpc p) = [] then None else canonical_v4 (vp_v4cidr (pr_vpc p))) su = None \<longleftrightarrow>
   subnet_cidr_ok p su"
  by (auto simp: validateSubnetCIDR_def subnet_cidr_ok_def split: option.splits)

definition zone_ok :: "cluster \<Rightarrow> provider \<Rightarrow> string \<times> subnet list \<Rightarrow> bool" where
  "zone_ok cl p zs \<longleftrightarrow> fst zs \<noteq> [] \<and> snd zs \<noteq> [] \<and>
     (pr_kind p = ''aws'' \<longrightarrow> ValidateAWSAvailabilityZone (pr_region p) (fst zs) = None) \<and>
     (\<forall>su \<in> set (snd zs). subnet_ok cl su \<and> subnet_cidr_ok p su)"

lemma validateZone_None:
  "validateZone cl pre p (if vp_v4cidr (pr_vpc p) = [] then None else canonical_v4 (vp_v4cidr (pr_vpc p))) zs = None \<longleftrightarrow>
   zone_ok cl p zs"
proof (cases zs)
  case (Pair z sus)
  have "(\<forall>i < length sus. subnet_ok cl (sus ! i) \<and> subnet_cidr_ok p (sus ! i)) \<longleftrightarrow>
        (\<forall>su \<in> set sus. subnet_ok cl su \<and> subnet_cidr_ok p su)" by (simp add: all_set_conv_all_nth)
  thus ?thesis
    by (simp add: Pair validateZone_def zone_ok_def Let_def validateSubnet_None validateSubnetCIDR_None)
qed

definition role_ok :: "provider \<Rightarrow> string \<times> role \<Rightarrow> bool" where
  "role_ok p nr \<longleftrightarrow> set (ro_buckets (snd nr)) \<subseteq> set (pr_buckets p) \<and>
     ro_permissions (snd nr) \<in> {[], ''read-write'', ''read-only''}"

lemma validateRole_None: "validateRole pre p nr = None \<longleftrightarrow> role_ok p nr"
  by (cases nr) (auto simp: validateRole_def role_ok_def split: if_splits)

definition listener_ok :: "cluster \<Rightarrow> provider \<Rightarrow> listener \<Rightarrow> bool" where
  "listener_ok cl p l \<longleftrightarrow> li_port l \<in> {1..65535} \<and> li_target_port l \<in> {0..65535} \<and>
     (\<forall>q. li_proxy_port l = Some q \<longrightarrow> pr_kind p = ''aws'' \<and> q \<in> {1..65535}) \<and>
     (pr_kind p = ''google'' \<longrightarrow> ResolvedTargetPort l = li_port l) \<and> has_key (cl_pools cl) (li_pool l)"

lemma validateListeners_None:
  "validateListeners cl pre p i ports ls = None \<longleftrightarrow>
   (\<forall>l \<in> set ls. listener_ok cl p l) \<and> distinct (map li_port ls) \<and> set (map li_port ls) \<inter> set ports = {}"
proof (induction ls arbitrary: i ports)
  case (Cons l ls)
  have "validateListeners cl pre p i ports (l # ls) = None \<longleftrightarrow>
      listener_ok cl p l \<and> li_port l \<notin> set ports \<and> validateListeners cl pre p (Suc i) (li_port l # ports) ls = None"
    unfolding validateListeners.simps Let_def listener_ok_def
    by (auto simp: not_less guard_None split: option.split)
  thus ?case using Cons.IH by auto
qed simp

definition lb_ok :: "cluster \<Rightarrow> provider \<Rightarrow> string \<times> load_balancer \<Rightarrow> bool" where
  "lb_ok cl p nl \<longleftrightarrow> fst nl \<noteq> [] \<and> lb_subnets (snd nl) \<noteq> [] \<and> lb_subnets (snd nl) \<in> subnet_roles p \<and>
     (\<forall>l \<in> set (lb_listeners (snd nl)). listener_ok cl p l) \<and> distinct (map li_port (lb_listeners (snd nl)))"

lemma validateLoadBalancer_None: "validateLoadBalancer cl pre p nl = None \<longleftrightarrow> lb_ok cl p nl"
  by (cases nl) (auto simp: validateLoadBalancer_def lb_ok_def validateListeners_None)

definition kind_ok :: "provider \<Rightarrow> bool" where
  "kind_ok p \<longleftrightarrow> pr_kind p = ''aws'' \<and> aws_region_pattern (pr_region p) \<or>
     pr_kind p = ''google'' \<and> pr_region p \<noteq> [] \<and> pr_project p \<noteq> []"

lemma validateProviderKind_None: "validateProviderKind pre p = None \<longleftrightarrow> kind_ok p"
  by (auto simp: validateProviderKind_def kind_ok_def ValidateAWSRegion_def err_def)

definition vpc_ok :: "provider \<Rightarrow> bool" where
  "vpc_ok p \<longleftrightarrow> (let v = pr_vpc p in
     (vp_id v \<noteq> []) \<noteq> (vp_v4cidr v \<noteq> []) \<and> (vp_v4cidr v \<noteq> [] \<longrightarrow> canonical_v4 (vp_v4cidr v) \<noteq> None) \<and>
     (vp_v6cidr v = [] \<or> vp_v6cidr v = ''auto'' \<and> vp_id v = []))"

definition provider_ok :: "cluster \<Rightarrow> provider \<Rightarrow> bool" where
  "provider_ok cl p \<longleftrightarrow> kind_ok p \<and> vpc_ok p \<and> pr_zones p \<noteq> [] \<and>
     (\<forall>zs \<in> set (pr_zones p). zone_ok cl p zs) \<and> (\<forall>nr \<in> set (pr_roles p). role_ok p nr) \<and>
     (\<forall>nl \<in> set (pr_load_balancers p). lb_ok cl p nl)"

lemma validateProvider_None: "validateProvider cl i p = None \<longleftrightarrow> provider_ok cl p"
  unfolding validateProvider_def provider_ok_def Let_def orelse_err_None validateProviderKind_None guard_None
    first_err_None_iff validateZone_None validateRole_None validateLoadBalancer_None vpc_ok_def
  by (cases "vp_id (pr_vpc p) = []"; cases "vp_v4cidr (pr_vpc p) = []") auto

section \<open>Networking and domains\<close>

lemma requireListener_None:
  "requireListener p lb port target pl = None \<longleftrightarrow>
   (\<exists>b. map_of (pr_load_balancers p) lb = Some b \<and>
     (\<exists>l \<in> set (lb_listeners b). li_port l = port \<and> ResolvedTargetPort l = target \<and> (pl = [] \<or> li_pool l = pl)))"
  by (auto simp: requireListener_def ResolvedTargetPort_def list_ex_iff split: option.splits)

lemma checkLadder_None:
  "checkLadder tenant seen ts = None \<longleftrightarrow> (\<forall>t \<in> set ts. trim_space t \<noteq> []) \<and> distinct ts \<and> set ts \<inter> set seen = {}"
  by (induction ts arbitrary: seen) auto

lemma checkProxyPorts_None:
  "checkProxyPorts kind owners ls = None \<longleftrightarrow>
   (\<forall>nl \<in> set ls. ResolvedProxyPort (snd nl) \<notin> {8990..8994}) \<and>
   (kind = ''aws'' \<longrightarrow> distinct (map (ResolvedProxyPort \<circ> snd) ls) \<and>
     (ResolvedProxyPort \<circ> snd) ` set ls \<inter> fst ` set owners = {})"
proof (induction ls arbitrary: owners)
  case (Cons nl ls)
  obtain n l where nl: "nl = (n, l)" by fastforce
  have "checkProxyPorts kind owners (nl # ls) = None \<longleftrightarrow>
      ResolvedProxyPort l \<notin> {8990..8994} \<and> (kind = ''aws'' \<longrightarrow> map_of owners (ResolvedProxyPort l) = None) \<and>
      checkProxyPorts kind ((ResolvedProxyPort l, n) # owners) ls = None"
    unfolding nl checkProxyPorts.simps Let_def guard_None
    by (cases "kind = ''aws''"; cases "map_of owners (ResolvedProxyPort l)") simp_all
  moreover have "map_of owners (ResolvedProxyPort l) = None \<longleftrightarrow> ResolvedProxyPort l \<notin> fst ` set owners"
    by (rule map_of_eq_None_iff)
  ultimately have "checkProxyPorts kind owners (nl # ls) = None \<longleftrightarrow>
      ResolvedProxyPort l \<notin> {8990..8994} \<and> (kind = ''aws'' \<longrightarrow> ResolvedProxyPort l \<notin> fst ` set owners) \<and>
      checkProxyPorts kind ((ResolvedProxyPort l, n) # owners) ls = None" by simp
  thus ?case unfolding Cons.IH by (auto simp: nl comp_def)
qed simp

definition domain_ok :: "cluster \<Rightarrow> provider \<Rightarrow> cdomain \<Rightarrow> bool" where
  "domain_ok cl p d \<longleftrightarrow> ValidateDomainName (do_zone d) = None \<and>
     (\<forall>dp. do_provider d = Some dp \<longrightarrow> dp_kind dp \<in> {''aws-route53'', ''cloudflare'', ''google-cloud-dns'', ''local''}) \<and>
     (cl_tunnel cl = None \<longrightarrow> requireListener p (ResolvedDomainLoadBalancer d) 443 443 [] = None)"

lemma checkDomains_None:
  "checkDomains cl p i zones ds = None \<longleftrightarrow>
   (\<forall>d \<in> set ds. domain_ok cl p d) \<and> distinct (map do_zone ds) \<and> set (map do_zone ds) \<inter> set zones = {}"
proof (induction ds arbitrary: i zones)
  case (Cons d ds)
  have "checkDomains cl p i zones (d # ds) = None \<longleftrightarrow>
      domain_ok cl p d \<and> do_zone d \<notin> set zones \<and> checkDomains cl p (Suc i) (do_zone d # zones) ds = None"
    unfolding checkDomains.simps Let_def domain_ok_def
    by (cases "ValidateDomainName (do_zone d)"; cases "do_provider d"; cases "cl_tunnel cl"; 
        cases "requireListener p (ResolvedDomainLoadBalancer d) 443 443 []")
      (simp_all add: wrap_err_def guard_None conj_left_commute [of "do_zone d \<notin> set zones"])
  thus ?case unfolding Cons.IH by auto
qed simp

section \<open>The order of map iteration\<close>

text \<open>Two configurations that differ in the iteration order of their maps only.\<close>

definition same_map :: "('k \<times> 'v) list \<Rightarrow> ('k \<times> 'v) list \<Rightarrow> bool" where
  "same_map m m' \<longleftrightarrow> gomap_ok m \<and> gomap_ok m' \<and> set m = set m'"

lemma same_map_facts:
  assumes "same_map m m'"
  shows "set m' = set m" "map_of m' = map_of m" "has_key m' k \<longleftrightarrow> has_key m k" "m' = [] \<longleftrightarrow> m = []" "mset m' = mset m"
proof -
  from assms have d: "distinct (map fst m)" "distinct (map fst m')" and s: "set m = set m'"
    by (simp_all add: same_map_def gomap_ok_def)
  show "set m' = set m" "has_key m' k \<longleftrightarrow> has_key m k" using s by simp_all
  show "map_of m' = map_of m" using map_of_inject_set [OF d] s by simp
  show "m' = [] \<longleftrightarrow> m = []" using s by (metis set_empty)
  show "mset m' = mset m" using d s by (simp add: set_eq_iff_mset_eq_distinct distinct_map)
qed

definition same_provider :: "provider \<Rightarrow> provider \<Rightarrow> bool" where
  "same_provider p q \<longleftrightarrow> (\<exists>zs lbs rs. q = p\<lparr>pr_zones := zs, pr_load_balancers := lbs, pr_roles := rs\<rparr> \<and>
     same_map (pr_zones p) zs \<and> same_map (pr_load_balancers p) lbs \<and> same_map (pr_roles p) rs)"

definition same_nat :: "nat_config \<Rightarrow> nat_config \<Rightarrow> bool" where
  "same_nat n n' \<longleftrightarrow> (\<exists>gs ts. n' = n\<lparr>na_groups := gs, na_tenants := ts\<rparr> \<and>
     same_map (na_groups n) gs \<and> same_map (na_tenants n) ts)"

definition same_secrets :: "secrets \<Rightarrow> secrets \<Rightarrow> bool" where
  "same_secrets s s' \<longleftrightarrow> (\<exists>ps. s' = s\<lparr>sc_providers := ps\<rparr> \<and> same_map (sc_providers s) ps)"

definition same_cluster :: "cluster \<Rightarrow> cluster \<Rightarrow> bool" where
  "same_cluster cl cl' \<longleftrightarrow> (\<exists>pools ps sec n. cl' = cl\<lparr>cl_pools := pools, cl_providers := ps, cl_secrets := sec, cl_nat := n\<rparr> \<and>
     same_map (cl_pools cl) pools \<and> list_all2 same_provider (cl_providers cl) ps \<and>
     same_secrets (cl_secrets cl) sec \<and> rel_option same_nat (cl_nat cl) n)"

lemma same_subnet_roles: "same_provider p q \<Longrightarrow> subnet_roles q = subnet_roles p"
  by (unfold same_provider_def, elim exE conjE)
    (simp add: subnet_roles_def same_map_facts(1))

lemma provider_ok_same:
  assumes "same_provider p q" "same_map (cl_pools cl) (cl_pools cl')"
  shows "provider_ok cl' q \<longleftrightarrow> provider_ok cl p"
proof -
  from assms(1) obtain zs lbs rs where q: "q = p\<lparr>pr_zones := zs, pr_load_balancers := lbs, pr_roles := rs\<rparr>"
    and m: "same_map (pr_zones p) zs" "same_map (pr_load_balancers p) lbs" "same_map (pr_roles p) rs"
    by (auto simp: same_provider_def)
  note pools = same_map_facts(3) [OF assms(2)]
  have "subnet_ok cl' = subnet_ok cl" by (intro ext) (simp only: subnet_ok_def pools)
  moreover have "subnet_cidr_ok q = subnet_cidr_ok p" by (intro ext) (simp add: subnet_cidr_ok_def q)
  ultimately have "zone_ok cl' q = zone_ok cl p" by (intro ext) (simp add: zone_ok_def q)
  moreover have "role_ok q = role_ok p" by (intro ext) (simp add: role_ok_def q)
  moreover have "listener_ok cl' q = listener_ok cl p" by (intro ext) (simp only: listener_ok_def pools, simp add: q)
  hence "lb_ok cl' q = lb_ok cl p" by (intro ext) (simp only: lb_ok_def same_subnet_roles [OF assms(1)])
  moreover have "kind_ok q = kind_ok p" "vpc_ok q = vpc_ok p" by (simp_all add: kind_ok_def vpc_ok_def q)
  moreover have "pr_zones q = [] \<longleftrightarrow> pr_zones p = []" "set (pr_zones q) = set (pr_zones p)"
    "set (pr_roles q) = set (pr_roles p)" "set (pr_load_balancers q) = set (pr_load_balancers p)"
    using same_map_facts [OF m(1)] same_map_facts [OF m(2)] same_map_facts [OF m(3)] by (simp_all add: q)
  ultimately show ?thesis unfolding provider_ok_def by (simp only:)
qed

lemma ValidateSecrets_same: "same_secrets s s' \<Longrightarrow> ValidateSecrets pa s' = None \<longleftrightarrow> ValidateSecrets pa s = None"
  unfolding same_secrets_def ValidateSecrets_def
  by (elim exE conjE) (simp add: guard_None same_map_facts)

lemma validateNATTenant_same:
  assumes "same_provider p q" "same_map (cl_pools cl) (cl_pools cl')" "same_nat n n'"
  shows "validateNATTenant cl' q n' tp = None \<longleftrightarrow> validateNATTenant cl p n tp = None"
proof -
  obtain zs lbs rs where q: "q = p\<lparr>pr_zones := zs, pr_load_balancers := lbs, pr_roles := rs\<rparr>" and z: "same_map (pr_zones p) zs"
    using assms(1) by (auto simp: same_provider_def)
  obtain gs ts where n: "n' = n\<lparr>na_groups := gs, na_tenants := ts\<rparr>" and g: "same_map (na_groups n) gs"
    using assms(3) by (auto simp: same_nat_def)
  obtain tenant policy where tp: "tp = (tenant, policy)" by fastforce
  have zone: "validateNATZone n' = validateNATZone n" by (intro ext) (simp add: validateNATZone_def n)
  show ?thesis
    unfolding tp validateNATTenant_def prod.case zone same_map_facts(3) [OF assms(2)]
    by (simp add: n q same_map_facts [OF z] same_map_facts [OF g] guard_None split: option.split)
qed

lemma validateNAT_same:
  assumes "same_provider p q" "same_map (cl_pools cl) (cl_pools cl')" "same_nat n n'"
  shows "validateNAT cl' q n' = None \<longleftrightarrow> validateNAT cl p n = None"
proof -
  obtain gs ts where n: "n' = n\<lparr>na_groups := gs, na_tenants := ts\<rparr>" and m: "same_map (na_groups n) gs" "same_map (na_tenants n) ts"
    using assms(3) by (auto simp: same_nat_def)
  have "na_groups n' = gs" "na_tenants n' = ts" "na_mode n' = na_mode n" "na_fixed_count n' = na_fixed_count n"
    by (simp_all add: n)
  thus ?thesis unfolding validateNAT_def guard_None
    by (simp add: validateNATTenant_same [OF assms] same_map_facts [OF m(1)] same_map_facts [OF m(2)])
qed

lemma mset_concat_map: "mset m = mset m' \<Longrightarrow> mset (concat (map f m)) = mset (concat (map f m'))"
  by (simp add: mset_concat flip: sum_mset_sum_list)

lemma proxy_ports_same:
  assumes "same_provider p q"
  shows "checkProxyPorts (pr_kind q) [] (lb_listener_list q) = None \<longleftrightarrow> checkProxyPorts (pr_kind p) [] (lb_listener_list p) = None"
proof -
  obtain zs lbs rs where q: "q = p\<lparr>pr_zones := zs, pr_load_balancers := lbs, pr_roles := rs\<rparr>"
    and l: "same_map (pr_load_balancers p) lbs" using assms by (auto simp: same_provider_def)
  have m: "mset (lb_listener_list q) = mset (lb_listener_list p)"
    unfolding lb_listener_list_def by (rule mset_concat_map) (simp add: q same_map_facts(5) [OF l])
  hence "mset (map (ResolvedProxyPort \<circ> snd) (lb_listener_list q)) = mset (map (ResolvedProxyPort \<circ> snd) (lb_listener_list p))"
    by simp
  hence "distinct (map (ResolvedProxyPort \<circ> snd) (lb_listener_list q)) = distinct (map (ResolvedProxyPort \<circ> snd) (lb_listener_list p))"
    by (rule mset_eq_imp_distinct_iff)
  thus ?thesis unfolding checkProxyPorts_None mset_eq_setD [OF m] by (simp add: q)
qed

lemma requireListener_same:
  "same_provider p q \<Longrightarrow> requireListener q lb port target pl = None \<longleftrightarrow> requireListener p lb port target pl = None"
  unfolding same_provider_def requireListener_None by (elim exE conjE) (simp add: same_map_facts)

section \<open>Acceptance\<close>

lemma Validate_accepts:
  "Validate pa (Some c) = None \<longleftrightarrow>
   (\<forall>e \<in> set (validate_checks pa (cc_cluster c)). e = None) \<and> validateNetworking (cc_cluster c) = None \<and>
   validateDomains (cc_cluster c) (hd (cl_providers (cc_cluster c))) = None"
  by (simp add: Validate_def Let_def)

lemma accepted_parts:
  assumes "Validate pa (Some c) = None"
  defines "cl \<equiv> cc_cluster c"
  shows "ValidateClusterID (cl_id cl) = None" "cl_providers cl \<noteq> []" "ValidateSecrets pa (cl_secrets cl) = None"
    "result_err (ServiceNetworkFromCIDRs (ku_service_cidr (cl_kubernetes cl))) = None"
    "\<forall>p \<in> set (cl_providers cl). provider_ok cl p"
    "validateNetworking cl = None" "validateDomains cl (hd (cl_providers cl)) = None"
    "ValidateDomainName (ku_api_hostname (cl_kubernetes cl)) = None"
  using assms(1) unfolding Validate_accepts validate_checks_def cl_def [symmetric]
  by (simp_all add: validateProvider_None all_set_conv_all_nth)

text \<open>What an accepted provider guarantees of its subnets, load balancers and roles.\<close>

lemma subnet_refs:
  assumes "provider_ok cl p" "(z, sus) \<in> set (pr_zones p)" "su \<in> set sus"
  shows "subnet_ok cl su" "subnet_cidr_ok p su"
  using assms by (auto simp: provider_ok_def zone_ok_def)

lemma lb_refs:
  assumes "provider_ok cl p" "(name, lb) \<in> set (pr_load_balancers p)"
  shows "\<exists>z sus su. (z, sus) \<in> set (pr_zones p) \<and> su \<in> set sus \<and> ResolvedRole su = lb_subnets lb"
    and "distinct (map li_port (lb_listeners lb))"
    and "\<forall>l \<in> set (lb_listeners lb). has_key (cl_pools cl) (li_pool l) \<and> li_port l \<in> {1..65535} \<and>
      ResolvedTargetPort l \<in> {1..65535} \<and> ResolvedProxyPort l \<in> {1..65535}"
proof -
  have ok: "lb_ok cl p (name, lb)" using assms by (auto simp: provider_ok_def)
  hence "lb_subnets lb \<in> subnet_roles p" by (simp add: lb_ok_def)
  thus "\<exists>z sus su. (z, sus) \<in> set (pr_zones p) \<and> su \<in> set sus \<and> ResolvedRole su = lb_subnets lb"
    by (fastforce simp: subnet_roles_def)
  show "distinct (map li_port (lb_listeners lb))" using ok by (simp add: lb_ok_def)
  show "\<forall>l \<in> set (lb_listeners lb). has_key (cl_pools cl) (li_pool l) \<and> li_port l \<in> {1..65535} \<and>
      ResolvedTargetPort l \<in> {1..65535} \<and> ResolvedProxyPort l \<in> {1..65535}"
    using ok by (auto simp: lb_ok_def listener_ok_def ResolvedTargetPort_def ResolvedProxyPort_def split: option.split)
qed

lemma role_refs:
  "provider_ok cl p \<Longrightarrow> (name, r) \<in> set (pr_roles p) \<Longrightarrow> set (ro_buckets r) \<subseteq> set (pr_buckets p)"
  by (fastforce simp: provider_ok_def role_ok_def)

end
