(* ===== verification/ClusterNames.thy ===== *)
theory ClusterNames
  imports ClusterFacts FakevaultPaths
begin

text \<open>
  Where the names the cluster configuration accepts are used by other components: the vault takes a cluster ID as
  a path segment, the registry gets a host name derived from it, and workload certificates need a secrets
  provider the provisioning code supports.
\<close>

text \<open>Names made of label characters: what the other components need of an accepted cluster ID.\<close>

definition plain_char :: "char \<Rightarrow> bool" where
  "plain_char c \<longleftrightarrow> is_label_char c \<or> c = CHR ''-''"

lemma plain_char_facts:
  assumes "plain_char c"
  shows "c \<notin> set slash_chars" "c \<notin> {CHR ''.'', CHR '':'', CHR ''%''}" "c \<notin> set (concat go_spaces)" "to_lower_char c = c"
proof -
  have "\<forall>d \<in> set slash_chars \<union> {CHR ''.'', CHR '':'', CHR ''%''} \<union> set (concat go_spaces). \<not> plain_char d" by code_simp
  thus "c \<notin> set slash_chars" "c \<notin> {CHR ''.'', CHR '':'', CHR ''%''}" "c \<notin> set (concat go_spaces)" using assms by blast+
  show "to_lower_char c = c" using assms
    by (auto simp: plain_char_def is_label_char_def is_lower_def is_digit_def to_lower_char_def dest: order_trans)
qed

lemma strip_words_plain:
  assumes "set (concat ws) \<inter> set s = {}"
  shows "strip_words ws s = s"
proof (rule strip_words_fixed)
  have "\<not> (w \<noteq> [] \<and> has_prefix s w)" if "w \<in> set ws" for w
    using assms that by (cases w) (fastforce simp: has_prefix_iff)+
  thus "find (\<lambda>w. w \<noteq> [] \<and> has_prefix s w) ws = None" by (auto simp: find_None_iff)
qed

lemma trim_space_plain:
  assumes "\<forall>c \<in> set s. plain_char c"
  shows "trim_space s = s"
proof -
  have "set (concat go_spaces) \<inter> set s = {}" using assms plain_char_facts(3) by blast
  thus ?thesis by (simp add: trim_space_def strip_words_plain)
qed

lemma label_plain: "label_pattern s \<Longrightarrow> \<forall>c \<in> set s. plain_char c"
  by (auto simp: label_pattern_def list_all_iff plain_char_def)

lemma label_suffix:
  assumes "label_pattern s" "\<forall>c \<in> set t. plain_char c" "t \<noteq> []" "is_label_char (last t)"
  shows "label_pattern (s @ t)"
  using assms by (auto simp: label_pattern_def plain_char_def list_all_iff)

lemma cleanClusterID_label:
  assumes "label_pattern s"
  shows "cleanClusterID s = Inr s"
proof -
  have "s \<noteq> []" "s \<noteq> ''.''" "s \<noteq> ''..''" using assms by (auto simp: label_pattern_def is_label_char_def is_lower_def is_digit_def)
  moreover have "\<not> contains_any s slash_chars"
    using label_plain [OF assms] plain_char_facts(1) by (auto simp: contains_any_iff)
  ultimately show ?thesis using trim_space_plain [OF label_plain [OF assms]] by (simp add: cleanClusterID_def Let_def)
qed

lemma ValidateDomainName_two_labels:
  assumes "label_pattern a" "label_pattern b" "length a \<le> 63" "length b \<le> 63"
  shows "ValidateDomainName (a @ CHR ''.'' # b) = None"
proof -
  let ?s = "a @ CHR ''.'' # b"
  have pl: "\<forall>c \<in> set a. plain_char c" "\<forall>c \<in> set b. plain_char c" using assms label_plain by blast+
  hence dot: "CHR ''.'' \<notin> set a" "CHR ''.'' \<notin> set b" using plain_char_facts(2) by blast+
  have split: "go_split CHR ''.'' ?s = [a, b]" using dot by (simp add: split_append split_no_sep)
  have low: "to_lower ?s = ?s" using pl plain_char_facts(4)
    by (simp add: to_lower_def map_idI) (simp add: to_lower_char_def)
  have b: "b \<noteq> []" using assms by (simp add: label_pattern_def)
  hence "last ?s \<noteq> CHR ''.''" using dot(2) by (metis last_ConsR last_appendR last_in_set list.distinct(1))
  hence suf: "\<not> has_suffix ?s ''.''" unfolding has_suffix_iff by (metis last_snoc)
  have "find (\<lambda>c. c \<in> {CHR ''.'', CHR '':'', CHR ''%''}) ?s = Some CHR ''.''"
    using pl(1) plain_char_facts(2) by (intro find_first) blast+
  moreover have "parse_quad ?s = None" by (simp add: parse_quad_def split split: option.split)
  ultimately have "ParseAddr ?s = None" by (simp add: ParseAddr_def)
  thus ?thesis using split low suf assms by (simp add: ValidateDomainName_def)
qed

lemma ValidateClusterID_None:
  "ValidateClusterID i = None \<longleftrightarrow>
   label_pattern i \<and> length i \<le> 32 \<and> \<not> go_contains i ''--'' \<and> i \<notin> {''local'', ''k8s'', ''oidc''}"
  by (auto simp: ValidateClusterID_def err_def label_pattern_def)

lemma registry_host_valid:
  assumes "ValidateClusterID i = None"
  shows "ValidateDomainName (i @ ''-registry.local'') = None"
proof -
  have i: "label_pattern i" "length i \<le> 32" using assms by (simp_all add: ValidateClusterID_None)
  have "\<forall>c \<in> set ''-registry''. plain_char c" "is_label_char (last ''-registry'')" "label_pattern ''local''" by code_simp+
  hence "label_pattern (i @ ''-registry'')" "label_pattern ''local''" using label_suffix [OF i(1)] by simp_all
  from ValidateDomainName_two_labels [OF this] i(2) show ?thesis by simp
qed

lemma ValidateSecrets_workload:
  assumes "ValidateSecrets pa s = None" "sc_providers s \<noteq> []"
  shows "ValidateWorkloadCAProvider pa s = None"
proof -
  have e: "first_err (validateSecretsProvider pa) (sc_providers s) = None" and k: "has_key (sc_providers s) (sc_default s)"
    using assms by (simp_all add: ValidateSecrets_def guard_None)
  from k obtain p where p: "map_of (sc_providers s) (sc_default s) = Some p"
    by (metis has_key_iff map_of_eq_None_iff not_None_eq)
  from e map_of_SomeD [OF p] have "validateSecretsProvider pa (sc_default s, p) = None" by simp
  hence "validateSecretsKind pa (''providers.'' @ sc_default s) p = None"
    unfolding validateSecretsProvider_def prod.case Let_def orelse_err_None by blast
  thus ?thesis unfolding validateSecretsKind_def guard_None wrap_err_None
    by (simp add: ValidateWorkloadCAProvider_def p guard_None split: if_splits)
qed

end
