(* ===== verification/ClusterProps.thy ===== *)
theory ClusterProps
  imports ClusterNames
begin

text \<open>
  The properties of the cluster configuration: what an accepted configuration guarantees to the code that
  provisions from it, and that acceptance does not depend on the iteration order of its maps.
\<close>

section \<open>An accepted configuration\<close>

text \<open>The AWS draft with a load balancer, a domain behind it and a second subnet role, and the parsers of a test.\<close>

definition sample_parsers :: parsers where
  "sample_parsers = \<lparr>parse_url = (\<lambda>_. None), parse_mail = (\<lambda>_. None)\<rparr>"

definition sample_provider :: provider where
  "sample_provider = (draft_provider ''aws'' ''us-east-1'' ''auto'' ''us-east-1a'')
     \<lparr>pr_load_balancers := [(''main'', \<lparr>lb_public = True, lb_subnets = ''public'', lb_listeners =
        \<lparr>li_port = 443, li_target_port = 443, li_proxy_port = Some 9443, li_pool = ''control-plane''\<rparr> #
        [\<lparr>li_port = 6443, li_target_port = 0, li_proxy_port = None, li_pool = ''control-plane''\<rparr>]\<rparr>)],
      pr_buckets := [''data''], pr_roles := [(''app'', \<lparr>ro_buckets = [''data''], ro_permissions = ''read-only''\<rparr>)]\<rparr>"

definition sample_cluster :: cluster where
  "sample_cluster = (cc_cluster (draft_with
       \<lparr>sc_default = ''aws'', sc_providers = [(''aws'', no_provider\<lparr>sv_kind := ''aws'', sv_object_type := ''ssmparameter''\<rparr>)]\<rparr>
       sample_provider \<lparr>po_arch = ''arm64'', po_instance_type = ''t4g.medium'', po_size = 1, po_disk_size = 0\<rparr>))
     \<lparr>cl_domains := [\<lparr>do_zone = ''apps.example.com'', do_provider = None, do_load_balancer = []\<rparr>],
      cl_registry := \<lparr>rg_hostname = ''registry.example.com'', rg_ingress = \<lparr>ri_enabled = True\<rparr>\<rparr>,
      cl_pools := [(''control-plane'', \<lparr>po_arch = ''arm64'', po_instance_type = ''t4g.medium'', po_size = 1, po_disk_size = 0\<rparr>),
        (''workers'', \<lparr>po_arch = ''amd64'', po_instance_type = ''t3.large'', po_size = 3, po_disk_size = 40\<rparr>)]\<rparr>"

definition sample_config :: cluster_config where
  "sample_config = \<lparr>cc_schema = [], cc_cluster = sample_cluster\<rparr>"

lemma sample_accepted: "Validate sample_parsers (Some sample_config) = None"
  by code_simp

section \<open>Acceptance and map order\<close>

lemma acceptance_same:
  assumes "same_cluster (cc_cluster c) (cc_cluster c')"
  shows "Validate pa (Some c') = None \<longleftrightarrow> Validate pa (Some c) = None"
proof -
  obtain pools ps sec n where eq: "cc_cluster c' = (cc_cluster c)\<lparr>cl_pools := pools, cl_providers := ps, cl_secrets := sec, cl_nat := n\<rparr>"
    and pools: "same_map (cl_pools (cc_cluster c)) pools" and ps: "list_all2 same_provider (cl_providers (cc_cluster c)) ps"
    and sec: "same_secrets (cl_secrets (cc_cluster c)) sec" and n: "rel_option same_nat (cl_nat (cc_cluster c)) n"
    using assms by (auto simp: same_cluster_def)
  define cl cl' where cl: "cl = cc_cluster c" and cl': "cl' = cc_cluster c'"
  note eq = eq [folded cl cl'] and pools = pools [folded cl] and ps = ps [folded cl] and sec = sec [folded cl] and n = n [folded cl]
  have f: "cl_pools cl' = pools" "cl_providers cl' = ps" "cl_secrets cl' = sec" "cl_nat cl' = n"
    "cl_id cl' = cl_id cl" "cl_oidc cl' = cl_oidc cl" "cl_kubernetes cl' = cl_kubernetes cl" "cl_spiffe cl' = cl_spiffe cl"
    "cl_registry cl' = cl_registry cl" "cl_domains cl' = cl_domains cl" "cl_tunnel cl' = cl_tunnel cl" "cl_acme cl' = cl_acme cl"
    "cl_seed cl' = cl_seed cl" "cl_components cl' = cl_components cl"
    by (simp_all add: eq)
  have mirror: "mirror_of cl' = mirror_of cl" "RegistryMirrorHostname cl' = RegistryMirrorHostname cl"
    unfolding RegistryMirrorHostname_def mirror_of_def f by (rule refl)+
  have pp: "provider_ok cl' (ps ! i) \<longleftrightarrow> provider_ok cl (cl_providers cl ! i)" if "i < length ps" for i
    using provider_ok_same [of "cl_providers cl ! i" "ps ! i"] ps pools that f(1) by (simp add: list_all2_conv_all_nth)
  have lens: "length ps = length (cl_providers cl)" "ps = [] \<longleftrightarrow> cl_providers cl = []"
    using ps by (auto dest: list_all2_lengthD)
  have checks: "(\<forall>e \<in> set (validate_checks pa cl'). e = None) \<longleftrightarrow> (\<forall>e \<in> set (validate_checks pa cl). e = None)"
    unfolding validate_checks_def mirror f
    by (simp add: validateProvider_None pp lens ValidateSecrets_same [OF sec] same_map_facts [OF pools])
  show ?thesis
  proof (cases "cl_providers cl")
    case Nil
    thus ?thesis unfolding Validate_accepts cl [symmetric] cl' [symmetric] checks by (simp add: validate_checks_def)
  next
    case (Cons p rest)
    then obtain q rest' where ps': "ps = q # rest'" and pq: "same_provider p q" using ps by (auto simp: list_all2_Cons1)
    have hd: "hd (cl_providers cl') = q" "hd (cl_providers cl) = p" by (simp_all add: f ps' Cons)
    have same: "pr_kind q = pr_kind p" "pr_load_balancers q = [] \<longleftrightarrow> pr_load_balancers p = []"
      using pq by (auto simp: same_provider_def same_map_facts)
    have tunnel: "validateTunnel cl' q t = None \<longleftrightarrow> validateTunnel cl p t = None" for t
      by (simp add: validateTunnel_def f same guard_None)
    have nat: "(case cl_nat cl' of None \<Rightarrow> None | Some m \<Rightarrow> validateNAT cl' q m) = None \<longleftrightarrow>
        (case cl_nat cl of None \<Rightarrow> None | Some m \<Rightarrow> validateNAT cl p m) = None"
      using n pools pq by (cases "cl_nat cl"; cases n) (simp_all add: f validateNAT_same)
    have net: "validateNetworking cl' = None \<longleftrightarrow> validateNetworking cl = None"
      unfolding validateNetworking_def guard_None Let_def hd orelse_err_None nat proxy_ports_same [OF pq]
      using n by (cases "cl_nat cl"; cases n; cases "cl_tunnel cl") (simp_all add: f lens tunnel)
    have "domain_ok cl' q = domain_ok cl p"
      by (intro ext) (simp add: domain_ok_def f requireListener_same [OF pq])
    hence dom: "validateDomains cl' q = None \<longleftrightarrow> validateDomains cl p = None"
      unfolding validateDomains_def Let_def orelse_err_None checkDomains_None f
      by (simp add: guard_None requireListener_same [OF pq])
    show ?thesis unfolding Validate_accepts cl [symmetric] cl' [symmetric] checks hd net dom ..
  qed
qed

text \<open>
  C30: Whether a cluster configuration is accepted does not depend on the order in which Go iterates over its
  pools, zones, load balancers, roles, secrets providers, NAT groups and NAT tenants; the error reported may.
\<close>

theorem acceptance_order_independent:
  assumes "same_cluster (cc_cluster c) (cc_cluster c')"
  shows "Validate pa (Some c') = None \<longleftrightarrow> Validate pa (Some c) = None"
  using assms by (rule acceptance_same)

definition sample_reordered :: cluster_config where
  "sample_reordered = sample_config\<lparr>cc_cluster := sample_cluster\<lparr>cl_pools := rev (cl_pools sample_cluster)\<rparr>\<rparr>"

lemma sample_same: "same_cluster (cc_cluster sample_config) (cc_cluster sample_reordered)"
  unfolding same_cluster_def
proof (intro exI conjI)
  show "cc_cluster sample_reordered = (cc_cluster sample_config)\<lparr>cl_pools := rev (cl_pools sample_cluster),
      cl_providers := cl_providers sample_cluster, cl_secrets := cl_secrets sample_cluster, cl_nat := cl_nat sample_cluster\<rparr>"
    by (simp add: sample_reordered_def sample_config_def)
  show "same_map (cl_pools (cc_cluster sample_config)) (rev (cl_pools sample_cluster))" by code_simp
  show "list_all2 same_provider (cl_providers (cc_cluster sample_config)) (cl_providers sample_cluster)"
  proof -
    have "same_map (pr_zones sample_provider) (pr_zones sample_provider)"
      "same_map (pr_load_balancers sample_provider) (pr_load_balancers sample_provider)"
      "same_map (pr_roles sample_provider) (pr_roles sample_provider)"
      by code_simp+
    hence "same_provider sample_provider sample_provider" unfolding same_provider_def
      by (intro exI [of _ "pr_zones sample_provider"] exI [of _ "pr_load_balancers sample_provider"]
          exI [of _ "pr_roles sample_provider"]) simp
    moreover have "cl_providers sample_cluster = [sample_provider]"
      by (simp add: sample_cluster_def draft_with_def Let_def)
    ultimately show ?thesis by (simp add: sample_config_def)
  qed
  show "same_secrets (cl_secrets (cc_cluster sample_config)) (cl_secrets sample_cluster)"
  proof -
    have "same_map (sc_providers (cl_secrets sample_cluster)) (sc_providers (cl_secrets sample_cluster))" by code_simp
    thus ?thesis unfolding same_secrets_def
      by (intro exI [of _ "sc_providers (cl_secrets sample_cluster)"]) (simp add: sample_config_def)
  qed
  have "cl_nat sample_cluster = None" by code_simp
  thus "rel_option same_nat (cl_nat (cc_cluster sample_config)) (cl_nat sample_cluster)" by (simp add: sample_config_def)
qed

theorem acceptance_order_independent_witness:
  "Validate sample_parsers (Some sample_reordered) = None"
  using acceptance_order_independent [OF sample_same, of sample_parsers] sample_accepted by simp

section \<open>What acceptance guarantees\<close>

text \<open>
  C31: In an accepted configuration every reference inside a provider resolves: subnets and listeners name pools
  that exist, load balancers name a subnet role some subnet of the provider has, roles name buckets of the
  provider, the ports of a load balancer are valid and pairwise distinct, and public services sit in public subnets.
\<close>

theorem accepted_references:
  assumes "Validate pa (Some c) = None" "p \<in> set (cl_providers (cc_cluster c))"
  shows "(\<forall>(z, sus) \<in> set (pr_zones p). \<forall>su \<in> set sus.
            (if su_pool su \<noteq> [] then su_services su = [] \<and> has_key (cl_pools (cc_cluster c)) (su_pool su)
             else su_services su \<noteq> [] \<and> set (su_services su) \<subseteq> {''nstance'', ''nat'', ''nlb''}) \<and>
            (''nat'' \<in> set (su_services su) \<or> ''nlb'' \<in> set (su_services su) \<longrightarrow> su_public su)) \<and>
         (\<forall>(name, lb) \<in> set (pr_load_balancers p).
            (\<exists>(z, sus) \<in> set (pr_zones p). \<exists>su \<in> set sus. ResolvedRole su = lb_subnets lb) \<and>
            distinct (map li_port (lb_listeners lb)) \<and>
            (\<forall>l \<in> set (lb_listeners lb). has_key (cl_pools (cc_cluster c)) (li_pool l) \<and> li_port l \<in> {1..65535} \<and>
               ResolvedTargetPort l \<in> {1..65535} \<and> ResolvedProxyPort l \<in> {1..65535})) \<and>
         (\<forall>(name, r) \<in> set (pr_roles p). set (ro_buckets r) \<subseteq> set (pr_buckets p))"
proof (intro conjI ballI case_prodI2)
  have ok: "provider_ok (cc_cluster c) p" using accepted_parts(5) [OF assms(1)] assms(2) by blast
  note clauses = subnet_refs(1) [OF ok, unfolded subnet_ok_def] lb_refs [OF ok] role_refs [OF ok]
  fix x z sus su assume "x \<in> set (pr_zones p)" "x = (z, sus)" "su \<in> set sus"
  with clauses(1) [of z sus su]
  show "if su_pool su \<noteq> [] then su_services su = [] \<and> has_key (cl_pools (cc_cluster c)) (su_pool su)
      else su_services su \<noteq> [] \<and> set (su_services su) \<subseteq> {''nstance'', ''nat'', ''nlb''}"
    and "''nat'' \<in> set (su_services su) \<or> ''nlb'' \<in> set (su_services su) \<longrightarrow> su_public su"
    by simp_all
next
  have ok: "provider_ok (cc_cluster c) p" using accepted_parts(5) [OF assms(1)] assms(2) by blast
  fix x name lb assume x: "x \<in> set (pr_load_balancers p)" "x = (name, lb)"
  note lb = lb_refs [OF ok, of name lb]
  from lb(1) x show "\<exists>(z, sus) \<in> set (pr_zones p). \<exists>su \<in> set sus. ResolvedRole su = lb_subnets lb" by fast
  from lb(2) x show "distinct (map li_port (lb_listeners lb))" by simp
  fix l assume l: "l \<in> set (lb_listeners lb)"
  from lb(3) x l show "has_key (cl_pools (cc_cluster c)) (li_pool l)" "li_port l \<in> {1..65535}"
    "ResolvedTargetPort l \<in> {1..65535}" "ResolvedProxyPort l \<in> {1..65535}" by simp_all
next
  have ok: "provider_ok (cc_cluster c) p" using accepted_parts(5) [OF assms(1)] assms(2) by blast
  fix x name r assume "x \<in> set (pr_roles p)" "x = (name, r)"
  with role_refs [OF ok] show "set (ro_buckets r) \<subseteq> set (pr_buckets p)" by simp
qed

lemma sample_provider_in: "sample_provider \<in> set (cl_providers (cc_cluster sample_config))"
  by (simp add: sample_config_def sample_cluster_def draft_with_def Let_def)

theorem accepted_references_witness:
  "\<exists>(z, sus) \<in> set (pr_zones sample_provider). \<exists>su \<in> set sus. ResolvedRole su = ''public''"
proof -
  obtain lb where lb: "(''main'', lb) \<in> set (pr_load_balancers sample_provider)" and r: "lb_subnets lb = ''public''"
    by (simp add: sample_provider_def)
  from accepted_references [OF sample_accepted sample_provider_in] lb
  have "\<exists>(z, sus) \<in> set (pr_zones sample_provider). \<exists>su \<in> set sus. ResolvedRole su = lb_subnets lb" by fast
  thus ?thesis unfolding r .
qed

text \<open>
  Every address of a managed subnet is an address of the managed VPC of its provider.
\<close>

theorem subnets_inside_vpc:
  assumes "Validate pa (Some c) = None" "p \<in> set (cl_providers (cc_cluster c))"
    and "(z, sus) \<in> set (pr_zones p)" "su \<in> set sus"
    and "ParsePrefix (su_v4cidr su) = Some s" "ParsePrefix (vp_v4cidr (pr_vpc p)) = Some v" "px_contains s a"
  shows "px_contains v a"
proof -
  have "subnet_cidr_ok p su"
    using accepted_parts(5) [OF assms(1)] assms(2-4) subnet_refs(2) by blast
  moreover have ne: "su_v4cidr su \<noteq> []" "vp_v4cidr (pr_vpc p) \<noteq> []"
    using assms(5,6) by (auto simp: ParsePrefix_def cut_last_def)
  moreover have "vpc_ok p" using accepted_parts(5) [OF assms(1)] assms(2) by (auto simp: provider_ok_def)
  ultimately have "px_bits v \<le> px_bits s \<and> px_contains v (px_addr s)"
    using assms(5,6) by (auto simp: subnet_cidr_ok_def vpc_ok_def Let_def canonical_v4_def split: if_splits)
  thus ?thesis using contains_nested [of v s a] ParsePrefix_ok(1) [OF assms(5)] assms(7) by blast
qed

theorem subnets_inside_vpc_witness:
  "px_contains \<lparr>px_addr = V4 0xAC120000, px_bits = 16\<rparr> (V4 0xAC120A05)"
proof -
  let ?su = "hd (draft_subnets ''auto'')"
  have z: "(''us-east-1a'', draft_subnets ''auto'') \<in> set (pr_zones sample_provider)" by code_simp
  have su: "?su \<in> set (draft_subnets ''auto'')" by code_simp
  have s: "ParsePrefix (su_v4cidr ?su) = Some \<lparr>px_addr = V4 0xAC120A00, px_bits = 28\<rparr>" by code_simp
  have v: "ParsePrefix (vp_v4cidr (pr_vpc sample_provider)) = Some \<lparr>px_addr = V4 0xAC120000, px_bits = 16\<rparr>" by code_simp
  have a: "px_contains \<lparr>px_addr = V4 0xAC120A00, px_bits = 28\<rparr> (V4 0xAC120A05)" by code_simp
  show ?thesis by (rule subnets_inside_vpc [OF sample_accepted sample_provider_in z su s v a])
qed

text \<open>
  On AWS no two listeners of the first provider share a proxy port, and on any provider none of its proxy
  ports is one of the Nstance server's own, 8990 to 8994.
\<close>

theorem proxy_ports_free:
  assumes "Validate pa (Some c) = None" "p = hd (cl_providers (cc_cluster c))"
  shows "(\<forall>(name, l) \<in> set (lb_listener_list p). ResolvedProxyPort l \<notin> {8990..8994}) \<and>
    (pr_kind p = ''aws'' \<longrightarrow> distinct (map (ResolvedProxyPort \<circ> snd) (lb_listener_list p)))"
proof -
  have "checkProxyPorts (pr_kind p) [] (lb_listener_list p) = None"
    using accepted_parts(6) [OF assms(1)] assms(2) by (simp add: validateNetworking_def Let_def guard_None)
  thus ?thesis unfolding checkProxyPorts_None by auto
qed

lemma sample_hd: "sample_provider = hd (cl_providers (cc_cluster sample_config))"
  by (simp add: sample_config_def sample_cluster_def draft_with_def Let_def)

theorem proxy_ports_free_witness:
  "distinct (map (ResolvedProxyPort \<circ> snd) (lb_listener_list sample_provider))"
  using proxy_ports_free [OF sample_accepted sample_hd]
  by (simp add: sample_provider_def draft_provider_def)

text \<open>
  C32: Without a tunnel every domain of an accepted configuration is routed: its load balancer is one of the first
  provider and has a listener from port 443 to port 443 of a pool that exists; the domain names are distinct.
\<close>

theorem domains_routed:
  assumes "Validate pa (Some c) = None" "cl_tunnel (cc_cluster c) = None" "d \<in> set (cl_domains (cc_cluster c))"
  shows "distinct (map do_zone (cl_domains (cc_cluster c))) \<and>
    (\<exists>lb. map_of (pr_load_balancers (hd (cl_providers (cc_cluster c)))) (ResolvedDomainLoadBalancer d) = Some lb \<and>
      (\<exists>l \<in> set (lb_listeners lb). li_port l = 443 \<and> ResolvedTargetPort l = 443 \<and> has_key (cl_pools (cc_cluster c)) (li_pool l)))"
proof -
  let ?p = "hd (cl_providers (cc_cluster c))"
  have dom: "checkDomains (cc_cluster c) ?p 0 [] (cl_domains (cc_cluster c)) = None"
    using accepted_parts(7) [OF assms(1)] by (simp add: validateDomains_def Let_def)
  from dom assms(2,3) have "requireListener ?p (ResolvedDomainLoadBalancer d) 443 443 [] = None"
    by (auto simp: checkDomains_None domain_ok_def)
  then obtain lb l where lb: "map_of (pr_load_balancers ?p) (ResolvedDomainLoadBalancer d) = Some lb"
    and l: "l \<in> set (lb_listeners lb)" "li_port l = 443" "ResolvedTargetPort l = 443"
    unfolding requireListener_None by blast
  have "provider_ok (cc_cluster c) ?p" using accepted_parts(2,5) [OF assms(1)] by simp
  from lb_refs(3) [OF this map_of_SomeD [OF lb]] l have "has_key (cl_pools (cc_cluster c)) (li_pool l)" by blast
  with lb l dom show ?thesis by (auto simp: checkDomains_None)
qed

theorem domains_routed_witness:
  "\<exists>lb. map_of (pr_load_balancers sample_provider) ''main'' = Some lb \<and>
    (\<exists>l \<in> set (lb_listeners lb). li_port l = 443 \<and> ResolvedTargetPort l = 443 \<and> has_key (cl_pools sample_cluster) (li_pool l))"
proof -
  have "cl_tunnel (cc_cluster sample_config) = None" by code_simp
  moreover have "\<lparr>do_zone = ''apps.example.com'', do_provider = None, do_load_balancer = []\<rparr> \<in> set (cl_domains (cc_cluster sample_config))"
    by (simp add: sample_config_def sample_cluster_def)
  ultimately show ?thesis
    using domains_routed [OF sample_accepted] unfolding sample_hd [symmetric]
    by (fastforce simp: sample_config_def ResolvedDomainLoadBalancer_def)
qed

section \<open>Service networks\<close>

text \<open>
  Accepted service CIDRs are one or two canonical networks, IPv4 first and the second one IPv6. In each the API
  server gets the first host address, CoreDNS the last but one IPv4 address or the IPv6 address at offset 65535;
  both lie inside the network and the API address is below the DNS address.
\<close>

theorem service_network_layout:
  assumes "ServiceNetworkFromCIDRs cidrs = Inr n"
  shows "\<exists>ps. map ParsePrefix (if cidrs = [] then defaultServiceCIDRs else cidrs) = map Some ps \<and>
    length ps \<in> {1, 2} \<and> is4 (px_addr (ps ! 0)) \<and> (length ps = 2 \<longrightarrow> \<not> is4 (px_addr (ps ! 1))) \<and>
    sn_cidrs n = map pfx_string ps \<and> length (sn_api n) = length ps \<and> length (sn_dns n) = length ps \<and>
    (\<forall>i < length ps. ps ! i = masked (ps ! i) \<and>
       px_contains (ps ! i) (sn_api n ! i) \<and> px_contains (ps ! i) (sn_dns n ! i) \<and> sn_api n ! i < sn_dns n ! i \<and>
       addr_value (sn_api n ! i) = addr_value (px_addr (ps ! i)) + 1 \<and>
       addr_value (sn_dns n ! i) = addr_value (px_addr (ps ! i)) +
         (if is4 (px_addr (ps ! i)) then 2 ^ host_bits (ps ! i) - 2 else ipv6DNSOffset))"
proof -
  let ?cs = "if cidrs = [] then defaultServiceCIDRs else cidrs"
  have loop: "network_loop 0 ?cs False False \<lparr>sn_cidrs = [], sn_api = [], sn_dns = []\<rparr> = Inr n"
    and len: "length ?cs \<le> 2" "?cs \<noteq> []"
    using assms by (auto simp: ServiceNetworkFromCIDRs_def Let_def defaultServiceCIDRs_def split: if_splits)
  from network_loop_spec [OF loop] obtain ps where ps: "map ParsePrefix ?cs = map Some ps"
    "n = \<lparr>sn_cidrs = map pfx_string ps, sn_api = map (\<lambda>p. addr_next (px_addr p)) ps, sn_dns = map coreDNSAddr ps\<rparr>"
    "\<forall>p \<in> set ps. service_net p" "length (filter (\<lambda>p. is4 (px_addr p)) ps) \<le> 1" "ps \<noteq> [] \<longrightarrow> is4 (px_addr (hd ps))"
    by auto
  have l: "length ps = length ?cs" using arg_cong [OF ps(1), of length] by simp
  hence "length ps \<in> {1, 2}" using len by (cases ?cs; cases "tl ?cs") (auto simp: le_Suc_eq)
  moreover have "ps \<noteq> []" using l len(2) by (cases ps) auto
  hence "is4 (px_addr (ps ! 0))" using ps(5) by (simp add: hd_conv_nth)
  moreover have "length ps = 2 \<longrightarrow> \<not> is4 (px_addr (ps ! 1))"
    using ps(4,5) by (cases ps; cases "tl ps") (auto split: if_splits)
  ultimately show ?thesis using ps(1-3) service_net_addrs
    by (intro exI [of _ ps]) (simp add: service_net_def all_set_conv_all_nth)
qed

theorem service_network_layout_witness:
  "\<exists>ps. map ParsePrefix defaultServiceCIDRs = map Some ps \<and> length ps \<in> {1, 2} \<and> is4 (px_addr (ps ! 0))"
proof -
  have "ServiceNetworkFromCIDRs [] = Inr \<lparr>sn_cidrs = [''198.18.0.0/15'', ''fdc6::/108''],
    sn_api = [V4 0xC6120001, V6 0xFDC60000000000000000000000000001 []],
    sn_dns = [V4 0xC613FFFE, V6 0xFDC6000000000000000000000000FFFF []]\<rparr>" by code_simp
  from service_network_layout [OF this] show ?thesis by auto
qed

section \<open>Names and addresses\<close>

text \<open>
  An accepted cluster ID is a DNS label the vault uses unchanged as a directory name, and the registry host
  derived from it is itself an acceptable domain name.
\<close>

theorem cluster_id_usable:
  assumes "Validate pa (Some c) = None"
  shows "cleanClusterID (cl_id (cc_cluster c)) = Inr (cl_id (cc_cluster c)) \<and>
    ValidateDomainName (cl_id (cc_cluster c) @ ''-registry.local'') = None"
  using accepted_parts(1) [OF assms] registry_host_valid cleanClusterID_label by (simp add: ValidateClusterID_None)

theorem cluster_id_usable_witness:
  "cleanClusterID (cl_id (cc_cluster sample_config)) = Inr (cl_id (cc_cluster sample_config))"
  using cluster_id_usable [OF sample_accepted] by simp

text \<open>
  With accepted secrets the workload CA can be provisioned exactly when a provider is configured: every
  kind of provider the secrets check accepts is one the provisioning supports.
\<close>

theorem workload_ca_supported:
  assumes "ValidateSecrets pa s = None"
  shows "ValidateWorkloadCAProvider pa s = None \<longleftrightarrow> sc_providers s \<noteq> []"
  using ValidateSecrets_workload [OF assms] by (auto simp: ValidateWorkloadCAProvider_def err_def)

theorem workload_ca_supported_witness:
  "ValidateWorkloadCAProvider sample_parsers (cl_secrets sample_cluster) = None"
proof -
  have "ValidateSecrets sample_parsers (cl_secrets sample_cluster) = None" "sc_providers (cl_secrets sample_cluster) \<noteq> []"
    by code_simp+
  thus ?thesis using workload_ca_supported by blast
qed

text \<open>
  In an accepted configuration the registry mirror always has a host, whether or not it is enabled, and the
  port of the Kubernetes API is a port number, 443 behind a tunnel.
\<close>

theorem accepted_endpoints:
  assumes "Validate pa (Some c) = None"
  shows "RegistryMirrorHostname (cc_cluster c) \<noteq> [] \<and> ResolvedAPIPort c \<in> {1..65535} \<and>
    (UsesPublicAPIRoots c \<longrightarrow> ResolvedAPIPort c = 443)"
proof -
  let ?cl = "cc_cluster c"
  have "(\<forall>e \<in> set (validate_checks pa ?cl). e = None)" and net: "validateNetworking ?cl = None"
    using assms by (simp_all add: Validate_accepts)
  hence "cl_domains ?cl = [] \<or> rg_hostname (cl_registry ?cl) \<noteq> []"
    and port: "0 \<le> ku_api_port (cl_kubernetes ?cl)" "ku_api_port (cl_kubernetes ?cl) \<le> 65535"
    by (simp_all add: validate_checks_def)
  hence "RegistryMirrorHostname ?cl \<noteq> []" by (auto simp: RegistryMirrorHostname_def split: option.split)
  moreover have "ku_api_port (cl_kubernetes ?cl) \<in> {0, 443}" if "UsesPublicAPIRoots c"
  proof -
    from that obtain t where t: "cl_tunnel ?cl = Some t" by (auto simp: UsesPublicAPIRoots_def)
    with net have "validateTunnel ?cl (hd (cl_providers ?cl)) t = None"
      by (simp add: validateNetworking_def guard_None Let_def)
    thus ?thesis unfolding validateTunnel_def guard_None orelse_err_None by auto
  qed
  ultimately show ?thesis using port by (auto simp: ResolvedAPIPort_def)
qed

theorem accepted_endpoints_witness:
  "ResolvedAPIPort sample_config \<in> {1..65535}"
  using accepted_endpoints [OF sample_accepted] by simp

section \<open>Drafts\<close>

text \<open>
  The AWS draft is an acceptable configuration as it stands; the Google draft is refused because the project
  of its secrets provider is left to be filled in, and any other kind has no draft.
\<close>

theorem drafts:
  "(\<exists>c. NewDraftConfig ''aws'' = Inr c \<and> Validate sample_parsers (Some c) = None) \<and>
   (\<exists>c. NewDraftConfig ''google'' = Inr c \<and> Validate sample_parsers (Some c) =
      Some (Wrapf ''cluster.secrets: %w'' [] (Errorf ''%s.project_id is required for gcp'' [S ''providers.gcp-secret-manager'']))) \<and>
   (\<forall>k. (\<exists>c. NewDraftConfig k = Inr c) \<longleftrightarrow> k \<in> {''aws'', ''google''})"
proof (intro conjI)
  show "\<exists>c. NewDraftConfig ''aws'' = Inr c \<and> Validate sample_parsers (Some c) = None"
  proof -
    have "case NewDraftConfig ''aws'' of Inr c \<Rightarrow> Validate sample_parsers (Some c) = None | Inl _ \<Rightarrow> False" by code_simp
    thus ?thesis by (auto split: sum.splits)
  qed
  show "\<exists>c. NewDraftConfig ''google'' = Inr c \<and> Validate sample_parsers (Some c) =
      Some (Wrapf ''cluster.secrets: %w'' [] (Errorf ''%s.project_id is required for gcp'' [S ''providers.gcp-secret-manager'']))"
  proof -
    have "case NewDraftConfig ''google'' of Inr c \<Rightarrow> Validate sample_parsers (Some c) =
      Some (Wrapf ''cluster.secrets: %w'' [] (Errorf ''%s.project_id is required for gcp'' [S ''providers.gcp-secret-manager'']))
      | Inl _ \<Rightarrow> False" by code_simp
    thus ?thesis by (auto split: sum.splits)
  qed
  show "\<forall>k. (\<exists>c. NewDraftConfig k = Inr c) \<longleftrightarrow> k \<in> {''aws'', ''google''}" by (auto simp: NewDraftConfig_def)
qed

end
