(* ===== verification/S3Listing.thy ===== *)
theory S3Listing
  imports GoStrings "HOL-Library.Product_Lexorder"
begin

text \<open>
  Pagination in the fake S3 server of \<open>internal/s3fake/s3fake.go\<close>: the pages of \<open>applyListBucketPage\<close>, the
  interface of a paged listing that the three list operations of the server share, and the client's walk
  over all pages.
\<close>

section \<open>Paged listings\<close>

text \<open>
  A client asks for pages until there is no next marker. \<open>None\<close> stands for the first page as a marker, and
  for more pages than the client is willing to ask for as a result.
\<close>

fun walk :: "nat \<Rightarrow> ('m option \<Rightarrow> 'i list \<times> 'm option) \<Rightarrow> 'm option \<Rightarrow> 'i list option" where
  "walk 0 page m = None"
| "walk (Suc n) page m =
     (case page m of
        (is, None) \<Rightarrow> Some is
      | (is, Some m') \<Rightarrow> map_option ((@) is) (walk n page (Some m')))"

text \<open>
  What a paged listing promises: a page goes on behind the item its marker names, has an item unless none is
  left, and names its last item as the next marker exactly when items are left.
\<close>

locale paged_listing =
  fixes page :: "'s \<Rightarrow> 'm option \<Rightarrow> 'i list \<times> 'm option"
    and all_items :: "'s \<Rightarrow> 'i list"
    and marker_of :: "'i \<Rightarrow> 'm"
    and listing_ok :: "'s \<Rightarrow> bool"
  assumes page_first: "listing_ok s \<Longrightarrow> all_items s = rest \<Longrightarrow>
      \<exists>n. page s None = (take n rest, if n < length rest then Some (marker_of (last (take n rest))) else None) \<and> (rest \<noteq> [] \<longrightarrow> 0 < n)"
    and page_next: "listing_ok s \<Longrightarrow> all_items s = done @ x # rest \<Longrightarrow>
      \<exists>n. page s (Some (marker_of x)) = (take n rest, if n < length rest then Some (marker_of (last (take n rest))) else None) \<and> (rest \<noteq> [] \<longrightarrow> 0 < n)"
begin

lemma walk_rest:
  "listing_ok s \<Longrightarrow> all_items s = done @ x # rest \<Longrightarrow> length rest < n \<Longrightarrow> walk n (page s) (Some (marker_of x)) = Some rest"
proof (induction n arbitrary: "done" x rest)
  case (Suc n)
  from page_next [OF Suc.prems(1,2)] obtain k where
    k: "page s (Some (marker_of x)) = (take k rest, if k < length rest then Some (marker_of (last (take k rest))) else None)"
    "rest \<noteq> [] \<longrightarrow> 0 < k" by blast
  show ?case
  proof (cases "k < length rest")
    case False
    thus ?thesis using k by simp
  next
    case True
    with k(2) have t: "take k rest \<noteq> []" by auto
    have "all_items s = (done @ x # butlast (take k rest)) @ last (take k rest) # drop k rest"
      using Suc.prems(2) t by (metis append.assoc append_Cons append_butlast_last_id append_take_drop_id self_append_conv2)
    moreover have "length (drop k rest) < n" using True k(2) Suc.prems(3) by auto
    ultimately have "walk n (page s) (Some (marker_of (last (take k rest)))) = Some (drop k rest)"
      by (rule Suc.IH [OF Suc.prems(1)])
    thus ?thesis using True k(1) by simp
  qed
qed simp

theorem walk_all: "listing_ok s \<Longrightarrow> length (all_items s) < n \<Longrightarrow> walk n (page s) None = Some (all_items s)"
proof (cases n)
  case (Suc n')
  assume ok: "listing_ok s" and n: "length (all_items s) < n"
  from page_first [OF ok refl] obtain k where
    k: "page s None = (take k (all_items s), if k < length (all_items s) then Some (marker_of (last (take k (all_items s)))) else None)"
    "all_items s \<noteq> [] \<longrightarrow> 0 < k" by blast
  show ?thesis
  proof (cases "k < length (all_items s)")
    case False
    thus ?thesis using k Suc by simp
  next
    case True
    with k(2) have t: "take k (all_items s) \<noteq> []" by auto
    have "all_items s = butlast (take k (all_items s)) @ last (take k (all_items s)) # drop k (all_items s)"
      using t by (metis append.assoc append_Cons append_butlast_last_id append_take_drop_id self_append_conv2)
    moreover have "length (drop k (all_items s)) < n'" using True k(2) n Suc by auto
    ultimately have "walk n' (page s) (Some (marker_of (last (take k (all_items s))))) = Some (drop k (all_items s))"
      by (rule walk_rest [OF ok])
    thus ?thesis using True k(1) Suc by simp
  qed
qed simp

end

section \<open>The pages of a bucket listing\<close>

datatype 'c item = Content string 'c | Pre string

primrec item_key :: "'c item \<Rightarrow> string" where
  "item_key (Content k c) = k"
| "item_key (Pre p) = p"

record 'c object_list =
  ol_contents :: "(string \<times> 'c) option list"
  ol_prefixes :: "string list"

record list_page =
  lp_marker :: string
  lp_has_marker :: bool
  lp_max_keys :: int

text \<open>A page under construction: the \<open>Add\<close> and \<open>AddPrefix\<close> calls, \<open>IsTruncated\<close> and \<open>NextMarker\<close>.\<close>

record 'c paged =
  pg_items :: "'c item list"
  pg_truncated :: bool
  pg_next :: string

definition list_items :: "'c object_list \<Rightarrow> 'c item list" where
  "list_items objects =
     map (\<lambda>(k, c). Content k c) (List.map_filter id (ol_contents objects)) @ map Pre (ol_prefixes objects)"

fun page_loop :: "list_page \<Rightarrow> int \<Rightarrow> 'c paged \<Rightarrow> 'c item list \<Rightarrow> 'c paged" where
  "page_loop page count paged [] = paged"
| "page_loop page count paged (item # items) =
     (if lp_has_marker page \<and> item_key item \<le> lp_marker page then page_loop page count paged items
      else if lp_max_keys page > 0 \<and> count \<ge> lp_max_keys page then paged\<lparr>pg_truncated := True\<rparr>
      else page_loop page (count + 1) (paged\<lparr>pg_items := pg_items paged @ [item], pg_next := item_key item\<rparr>) items)"

text \<open>\<open>isEmpty\<close> is the library's \<open>ListBucketPage.IsEmpty\<close>; an object list that is not paged is returned as it is.\<close>

definition applyListBucketPage :: "(list_page \<Rightarrow> bool) \<Rightarrow> 'c object_list option \<Rightarrow> list_page \<Rightarrow> 'c object_list option + 'c paged" where
  "applyListBucketPage isEmpty objects page =
     (case objects of
        None \<Rightarrow> Inl None
      | Some ol \<Rightarrow>
          if isEmpty page then Inl objects
          else Inr (page_loop page 0 \<lparr>pg_items = [], pg_truncated = False, pg_next = []\<rparr> (sort_key item_key (list_items ol))))"

text \<open>\<open>ListBucket\<close> of the cache bucket: the library's full listing, paged here.\<close>

definition ListBucket ::
  "(list_page \<Rightarrow> bool) \<Rightarrow> (string \<Rightarrow> 'p \<Rightarrow> list_page \<Rightarrow> 'c object_list option result) \<Rightarrow> string \<Rightarrow> 'p \<Rightarrow> list_page \<Rightarrow>
     ('c object_list option + 'c paged) result" where
  "ListBucket isEmpty backend_list name pfx page =
     bindR (backend_list name pfx \<lparr>lp_marker = [], lp_has_marker = False, lp_max_keys = 0\<rparr>)
       (\<lambda>objects. Inr (applyListBucketPage isEmpty objects page))"

text \<open>What the loop does to a list that is sorted and has no key twice.\<close>

lemma page_loop_take:
  assumes "\<not> lp_has_marker page" "count \<le> lp_max_keys page" "0 < lp_max_keys page"
  shows "page_loop page count paged items =
    (let n = nat (lp_max_keys page - count) in
     paged\<lparr>pg_items := pg_items paged @ take n items, pg_truncated := pg_truncated paged \<or> n < length items,
       pg_next := if take n items = [] then pg_next paged else item_key (last (take n items))\<rparr>)"
  using assms
proof (induction items arbitrary: count paged)
  case (Cons x xs)
  show ?case
  proof (cases "count = lp_max_keys page")
    case True
    thus ?thesis using Cons.prems by simp
  next
    case False
    hence "nat (lp_max_keys page - count) = Suc (nat (lp_max_keys page - (count + 1)))" using Cons.prems by simp
    thus ?thesis using Cons.prems False Cons.IH [of "count + 1"] by (simp add: Let_def)
  qed
qed (simp add: Let_def)

lemma page_loop_skip:
  assumes "lp_has_marker page" "\<forall>i \<in> set xs. item_key i \<le> lp_marker page"
  shows "page_loop page count paged (xs @ ys) = page_loop page count paged ys"
  using assms by (induction xs) auto

lemma page_loop_unmarked:
  assumes "\<forall>i \<in> set ys. \<not> item_key i \<le> lp_marker page"
  shows "page_loop page count paged ys = page_loop (page\<lparr>lp_has_marker := False\<rparr>) count paged ys"
  using assms by (induction ys arbitrary: count paged) auto

text \<open>The page of at most \<open>k\<close> keys behind a marker, as a client sees it.\<close>

definition bucket_page :: "int \<times> 'c item list \<Rightarrow> string option \<Rightarrow> 'c item list \<times> string option" where
  "bucket_page s m =
     (let r = page_loop (case m of None \<Rightarrow> \<lparr>lp_marker = [], lp_has_marker = False, lp_max_keys = fst s\<rparr>
                | Some k \<Rightarrow> \<lparr>lp_marker = k, lp_has_marker = True, lp_max_keys = fst s\<rparr>)
            0 \<lparr>pg_items = [], pg_truncated = False, pg_next = []\<rparr> (sort_key item_key (snd s))
      in (pg_items r, if pg_truncated r then Some (pg_next r) else None))"

definition bucket_ok :: "int \<times> 'c item list \<Rightarrow> bool" where
  "bucket_ok s \<longleftrightarrow> fst s > 0 \<and> distinct (map item_key (snd s))"

lemma sorted_split_above:
  assumes "distinct (map f xs)" "sorted (map f xs)" "xs = ys @ x # zs"
  shows "\<forall>i \<in> set (ys @ [x]). f i \<le> f x" "\<forall>i \<in> set zs. \<not> f i \<le> (f x :: 'a::linorder)"
  using assms by (auto simp: sorted_append not_le order.strict_iff_order) 

lemma distinct_sort_key: "distinct (map f xs) \<Longrightarrow> distinct (map f (sort_key g xs))"
  by (metis distinct_map distinct_sort set_sort)

interpretation bucket: paged_listing bucket_page "\<lambda>s. sort_key item_key (snd s)" item_key bucket_ok
proof unfold_locales
  fix s :: "int \<times> 'c item list" and rest assume ok: "bucket_ok s" and r: "sort_key item_key (snd s) = rest"
  show "\<exists>n. bucket_page s None = (take n rest, if n < length rest then Some (item_key (last (take n rest))) else None) \<and>
      (rest \<noteq> [] \<longrightarrow> 0 < n)"
    using ok r by (intro exI [of _ "nat (fst s)"]) (auto simp: bucket_page_def bucket_ok_def page_loop_take Let_def)
next
  fix s :: "int \<times> 'c item list" and "done" x rest
  assume ok: "bucket_ok s" and r: "sort_key item_key (snd s) = done @ x # rest"
  have d: "distinct (map item_key (done @ x # rest))" using ok distinct_sort_key [of item_key "snd s" item_key]
    by (simp add: bucket_ok_def r)
  have "sorted (map item_key (done @ x # rest))" using sorted_sort_key [of item_key "snd s"] by (simp add: r)
  note above = sorted_split_above [OF d this refl]
  let ?page = "\<lparr>lp_marker = item_key x, lp_has_marker = True, lp_max_keys = fst s\<rparr>"
  have "page_loop ?page 0 p (sort_key item_key (snd s)) = page_loop (?page\<lparr>lp_has_marker := False\<rparr>) 0 p rest" for p
    using page_loop_skip [of ?page "done @ [x]" 0 p rest] page_loop_unmarked [of rest ?page 0 p] above by (simp add: r)
  thus "\<exists>n. bucket_page s (Some (item_key x)) = (take n rest, if n < length rest then Some (item_key (last (take n rest))) else None) \<and>
      (rest \<noteq> [] \<longrightarrow> 0 < n)"
    using ok by (intro exI [of _ "nat (fst s)"]) (auto simp: bucket_page_def bucket_ok_def page_loop_take Let_def)
qed

end
