(* ===== verification/S3Multipart.thy ===== *)
theory S3Multipart
  imports S3Listing Filesystem
begin

text \<open>
  The durable multipart uploads of the fake S3 server, \<open>internal/s3fake/s3fake.go\<close>. The multipart directory
  is a map from upload IDs to their directories: the control record \<open>upload.json\<close>, whether its temporary file is
  there, and the part files with content and modification time (temporary part files among them). The object
  backend is the library's and a parameter, as is MD5. The mutex makes each operation a single step.
\<close>

section \<open>State\<close>

record upload =
  up_bucket :: string
  up_object :: string
  up_metadata :: "string gomap"
  up_initiated :: int

record updir =
  ud_control :: "upload option"
  ud_control_tmp :: bool
  ud_files :: "(string \<times> int) gomap"

record 'o s3 =
  s3_dirs :: "updir gomap"
  s3_objects :: 'o

text \<open>What an operation takes from its surroundings: random IDs, a temporary name, the time, failing system calls.\<close>

record s3env =
  ev_ids :: "string list"
  ev_tmp :: string
  ev_now :: int
  ev_fault :: "string \<Rightarrow> string \<Rightarrow> gerror"

definition ErrNoSuchUpload :: goerr where "ErrNoSuchUpload = Sentinel ''NoSuchUpload''"
definition ErrInvalidPart :: goerr where "ErrInvalidPart = Sentinel ''InvalidPart''"
definition ErrInvalidPartOrder :: goerr where "ErrInvalidPartOrder = Sentinel ''InvalidPartOrder''"
definition ErrIncompleteBody :: goerr where "ErrIncompleteBody = Sentinel ''IncompleteBody''"

definition is_exist :: "goerr \<Rightarrow> bool" where
  "is_exist e \<longleftrightarrow> e = EEXIST \<or> e = ENOTEMPTY"

definition in_dir :: "string \<Rightarrow> string \<Rightarrow> string" where
  "in_dir i name = i @ CHR ''/'' # name"

definition set_dir :: "string \<Rightarrow> updir \<Rightarrow> 'o s3 \<Rightarrow> 'o s3" where
  "set_dir i d s = s\<lparr>s3_dirs := put_key i d (s3_dirs s)\<rparr>"

definition put_part :: "string \<Rightarrow> string \<Rightarrow> string \<times> int \<Rightarrow> 'o s3 \<Rightarrow> 'o s3" where
  "put_part i name f s =
     (case map_of (s3_dirs s) i of None \<Rightarrow> s | Some d \<Rightarrow> set_dir i (d\<lparr>ud_files := put_key name f (ud_files d)\<rparr>) s)"

definition del_part :: "string \<Rightarrow> string \<Rightarrow> 'o s3 \<Rightarrow> 'o s3" where
  "del_part i name s =
     (case map_of (s3_dirs s) i of None \<Rightarrow> s | Some d \<Rightarrow> set_dir i (d\<lparr>ud_files := del_key name (ud_files d)\<rparr>) s)"

definition part_file :: "'o s3 \<Rightarrow> string \<Rightarrow> string \<Rightarrow> (string \<times> int) option" where
  "part_file s i name = Option.bind (map_of (s3_dirs s) i) (\<lambda>d. map_of (ud_files d) name)"

text \<open>
  \<open>os.RemoveAll\<close> of an upload directory: every file that can be removed goes, and the directory when nothing is left.
\<close>

definition remove_upload :: "s3env \<Rightarrow> string \<Rightarrow> 'o s3 \<Rightarrow> gerror \<times> 'o s3" where
  "remove_upload env i s =
     (case map_of (s3_dirs s) i of
        None \<Rightarrow> (None, s)
      | Some d \<Rightarrow>
          let keep = (\<lambda>name. ev_fault env ''Remove'' (in_dir i name) \<noteq> None);
              d' = \<lparr>ud_control = (if keep ''upload.json'' then ud_control d else None),
                    ud_control_tmp = (ud_control_tmp d \<and> keep ''upload.json.tmp''),
                    ud_files = filter (\<lambda>f. keep (fst f)) (ud_files d)\<rparr>
          in if ud_control d' = None \<and> \<not> ud_control_tmp d' \<and> ud_files d' = [] then
               (case ev_fault env ''Remove'' i of
                  None \<Rightarrow> (None, s\<lparr>s3_dirs := del_key i (s3_dirs s)\<rparr>)
                | Some e \<Rightarrow> (Some e, set_dir i d' s))
             else (Some ENOTEMPTY, set_dir i d' s))"

text \<open>\<open>os.Rename\<close> of an upload directory: an empty directory at the target is replaced, another one is in the way.\<close>

definition empty_dir :: updir where
  "empty_dir = \<lparr>ud_control = None, ud_control_tmp = False, ud_files = []\<rparr>"

definition rename_dir :: "s3env \<Rightarrow> string \<Rightarrow> string \<Rightarrow> 'o s3 \<Rightarrow> gerror \<times> 'o s3" where
  "rename_dir env i j s =
     (case ev_fault env ''Rename'' j of
        Some e \<Rightarrow> (Some e, s)
      | None \<Rightarrow>
          (case map_of (s3_dirs s) i of
             None \<Rightarrow> (Some ENOENT, s)
           | Some d \<Rightarrow>
               if map_of (s3_dirs s) j \<noteq> None \<and> map_of (s3_dirs s) j \<noteq> Some empty_dir then (Some ENOTEMPTY, s)
               else (None, s\<lparr>s3_dirs := put_key j d (del_key i (s3_dirs s))\<rparr>)))"

section \<open>Upload records\<close>

definition validMultipartUploadID :: "string \<Rightarrow> bool" where
  "validMultipartUploadID i \<longleftrightarrow> i \<noteq> [] \<and> go_trim ''ABCDEFGHIJKLMNOPQRSTUVWXYZ234567'' i = []"

definition multipartPartName :: "int \<Rightarrow> string" where
  "multipartPartName n = pad_dec 5 (nat n) @ ''.part''"

definition readMultipartUpload :: "s3env \<Rightarrow> string \<Rightarrow> 'o s3 \<Rightarrow> upload result" where
  "readMultipartUpload env i s =
     (if \<not> validMultipartUploadID i then Inl ErrNoSuchUpload
      else (case ev_fault env ''ReadFile'' (in_dir i ''upload.json'') of
          Some e \<Rightarrow> Inl e
        | None \<Rightarrow>
            (case Option.bind (map_of (s3_dirs s) i) ud_control of
               None \<Rightarrow> Inl ENOENT
             | Some u \<Rightarrow> (case ev_fault env ''Unmarshal'' i of Some e \<Rightarrow> Inl e | None \<Rightarrow> Inr u))))"

definition multipartUpload :: "s3env \<Rightarrow> string \<Rightarrow> string \<Rightarrow> string \<Rightarrow> 'o s3 \<Rightarrow> upload result" where
  "multipartUpload env bucket object i s =
     (case readMultipartUpload env i s of
        Inl e \<Rightarrow> Inl (if is_not_exist e then ErrNoSuchUpload else e)
      | Inr u \<Rightarrow> if up_bucket u \<noteq> bucket \<or> up_object u \<noteq> object then Inl ErrNoSuchUpload else Inr u)"

section \<open>Creating an upload\<close>

definition mkdir_upload :: "s3env \<Rightarrow> string \<Rightarrow> 'o s3 \<Rightarrow> gerror \<times> 'o s3" where
  "mkdir_upload env i s =
     (case ev_fault env ''Mkdir'' i of
        Some e \<Rightarrow> (Some e, s)
      | None \<Rightarrow>
          if has_key (s3_dirs s) i then (Some EEXIST, s)
          else (None, set_dir i empty_dir s))"

definition write_control :: "s3env \<Rightarrow> string \<Rightarrow> upload \<Rightarrow> 'o s3 \<Rightarrow> gerror \<times> 'o s3" where
  "write_control env i u s =
     (case ev_fault env ''WriteFile'' (in_dir i ''upload.json.tmp'') of
        Some e \<Rightarrow> (Some e, set_dir i (empty_dir\<lparr>ud_control_tmp := True\<rparr>) s)
      | None \<Rightarrow>
          (case ev_fault env ''Rename'' (in_dir i ''upload.json'') of
             Some e \<Rightarrow> (Some e, set_dir i (empty_dir\<lparr>ud_control_tmp := True\<rparr>) s)
           | None \<Rightarrow> (None, set_dir i (empty_dir\<lparr>ud_control := Some u\<rparr>) s)))"

text \<open>The loop takes another random ID while the directory exists; with no ID left it has not returned.\<close>

fun create_loop :: "s3env \<Rightarrow> upload \<Rightarrow> string list \<Rightarrow> 'o s3 \<Rightarrow> (string result \<times> 'o s3) option" where
  "create_loop env u [] s = None"
| "create_loop env u (i # ids) s =
     (case mkdir_upload env i s of
        (Some e, s1) \<Rightarrow> if is_exist e then create_loop env u ids s1 else Some (Inl e, s1)
      | (None, s1) \<Rightarrow>
          (case write_control env i u s1 of
             (None, s2) \<Rightarrow> Some (Inr i, s2)
           | (Some e, s2) \<Rightarrow> Some (Inl e, snd (remove_upload env i s2))))"

definition CreateMultipartUpload ::
  "s3env \<Rightarrow> string \<Rightarrow> string \<Rightarrow> string gomap \<Rightarrow> 'o s3 \<Rightarrow> (string result \<times> 'o s3) option" where
  "CreateMultipartUpload env bucket object metadata s =
     create_loop env \<lparr>up_bucket = bucket, up_object = object, up_metadata = metadata, up_initiated = ev_now env\<rparr>
       (ev_ids env) s"

section \<open>Uploading a part\<close>

definition quoted_hex :: "string \<Rightarrow> string" where
  "quoted_hex s = CHR 0x22 # hex_string s @ [CHR 0x22]"

text \<open>The body is what the reader has and how it ends; \<open>None\<close> is the end of the input.\<close>

definition UploadPart ::
  "(string \<Rightarrow> string) \<Rightarrow> int \<Rightarrow> s3env \<Rightarrow> string \<Rightarrow> string \<Rightarrow> string \<Rightarrow> int \<Rightarrow> int \<Rightarrow> string \<times> gerror \<Rightarrow> ('o s3, string) op" where
  "UploadPart md5 maxPart env bucket object i n contentLength input s =
     (if n \<le> 0 \<or> n > maxPart \<or> contentLength < 0 then (Inl ErrInvalidPart, s)
      else (case multipartUpload env bucket object i s of
          Inl e \<Rightarrow> (Inl e, s)
        | Inr u \<Rightarrow>
            (case ev_fault env ''CreateTemp'' i of
               Some e \<Rightarrow> (Inl e, s)
             | None \<Rightarrow>
                 let tmp = ''.part-'' @ ev_tmp env;
                     limit = nat (wrap64 (contentLength + 1));
                     content = take limit (fst input);
                     copyErr = (case ev_fault env ''Write'' (in_dir i tmp) of Some e \<Rightarrow> Some e
                       | None \<Rightarrow> if length (fst input) < limit then snd input else None);
                     closeErr = ev_fault env ''Close'' (in_dir i tmp);
                     s1 = put_part i tmp (content, ev_now env) s;
                     removed = (if ev_fault env ''Remove'' (in_dir i tmp) = None then del_part i tmp s1 else s1)
                 in case (copyErr, closeErr) of
                      (Some e, _) \<Rightarrow> (Inl e, removed)
                    | (None, Some e) \<Rightarrow> (Inl e, removed)
                    | (None, None) \<Rightarrow>
                        if int (length content) \<noteq> contentLength then (Inl ErrIncompleteBody, removed)
                        else (case ev_fault env ''Rename'' (in_dir i (multipartPartName n)) of
                            Some e \<Rightarrow> (Inl e, removed)
                          | None \<Rightarrow> (Inr (quoted_hex (md5 content)),
                              put_part i (multipartPartName n) (content, ev_now env) (del_part i tmp s1))))))"

section \<open>Reading parts\<close>

definition multipartPartInfo ::
  "(string \<Rightarrow> string) \<Rightarrow> s3env \<Rightarrow> string \<Rightarrow> string \<Rightarrow> 'o s3 \<Rightarrow> (string \<times> string \<times> int \<times> int) result" where
  "multipartPartInfo md5 env i name s =
     (case ev_fault env ''Open'' (in_dir i name) of Some e \<Rightarrow> Inl e
      | None \<Rightarrow>
          (case part_file s i name of
             None \<Rightarrow> Inl ENOENT
           | Some (content, t) \<Rightarrow>
               (case ev_fault env ''Read'' (in_dir i name) of Some e \<Rightarrow> Inl e
                | None \<Rightarrow> (case ev_fault env ''Stat'' (in_dir i name) of Some e \<Rightarrow> Inl e
                    | None \<Rightarrow> Inr (quoted_hex (md5 content), md5 content, int (length content), t)))))"

definition part_number :: "string \<Rightarrow> int option" where
  "part_number name =
     (if \<not> has_suffix name ''.part'' then None
      else (case atoi (trim_suffix name ''.part'') of Some n \<Rightarrow> if n > 0 then Some n else None | None \<Rightarrow> None))"

record part_item =
  pi_number :: int
  pi_etag :: string
  pi_size :: int
  pi_modified :: int

record part_listing =
  pl_parts :: "part_item list"
  pl_truncated :: bool
  pl_next :: int

fun parts_loop ::
  "(int \<Rightarrow> part_item result) \<Rightarrow> int \<Rightarrow> int \<Rightarrow> part_item list \<Rightarrow> int list \<Rightarrow> (part_item list \<times> bool) result" where
  "parts_loop info marker limit acc [] = Inr (acc, False)"
| "parts_loop info marker limit acc (n # ns) =
     (if n \<le> marker then parts_loop info marker limit acc ns
      else if int (length acc) \<ge> limit then Inr (acc, True)
      else (case info n of
          Inl e \<Rightarrow> Inl e
        | Inr p \<Rightarrow> parts_loop info marker limit (acc @ [p]) ns))"

definition part_info_item :: "(string \<Rightarrow> string) \<Rightarrow> s3env \<Rightarrow> string \<Rightarrow> 'o s3 \<Rightarrow> int \<Rightarrow> part_item result" where
  "part_info_item md5 env i s n =
     bindR (multipartPartInfo md5 env i (multipartPartName n) s)
       (\<lambda>(etag, _, size, t). Inr \<lparr>pi_number = n, pi_etag = etag, pi_size = size, pi_modified = t\<rparr>)"

definition ListParts ::
  "(string \<Rightarrow> string) \<Rightarrow> s3env \<Rightarrow> string \<Rightarrow> string \<Rightarrow> string \<Rightarrow> int \<Rightarrow> int \<Rightarrow> 'o s3 \<Rightarrow> part_listing result" where
  "ListParts md5 env bucket object i marker limit s =
     bindR (multipartUpload env bucket object i s) (\<lambda>_.
       case ev_fault env ''ReadDir'' i of Some e \<Rightarrow> Inl e
       | None \<Rightarrow>
           let names = (case map_of (s3_dirs s) i of None \<Rightarrow> [] | Some d \<Rightarrow> map fst (ud_files d));
               numbers = sort (List.map_filter part_number names)
           in bindR (parts_loop (part_info_item md5 env i s) marker limit [] numbers) (\<lambda>(parts, truncated).
                Inr \<lparr>pl_parts = parts, pl_truncated = truncated,
                     pl_next = (if truncated \<and> parts \<noteq> [] then pi_number (last parts) else 0)\<rparr>))"

section \<open>Listing uploads\<close>

fun uploads_loop :: "s3env \<Rightarrow> string \<Rightarrow> 'o s3 \<Rightarrow> string list \<Rightarrow> (string \<times> upload) list result" where
  "uploads_loop env bucket s [] = Inr []"
| "uploads_loop env bucket s (i # ids) =
     (if \<not> validMultipartUploadID i then uploads_loop env bucket s ids
      else (case readMultipartUpload env i s of
          Inl e \<Rightarrow> if is_not_exist e then uploads_loop env bucket s ids else Inl e
        | Inr u \<Rightarrow>
            bindR (uploads_loop env bucket s ids)
              (\<lambda>rest. Inr (if up_bucket u = bucket then (i, u) # rest else rest))))"

definition upload_order :: "string \<times> upload \<Rightarrow> string \<times> int \<times> string" where
  "upload_order iu = (up_object (snd iu), up_initiated (snd iu), fst iu)"

definition multipartUploads :: "s3env \<Rightarrow> string \<Rightarrow> 'o s3 \<Rightarrow> (string \<times> upload) list result" where
  "multipartUploads env bucket s =
     (case ev_fault env ''ReadDir'' [] of Some e \<Rightarrow> Inl e
      | None \<Rightarrow> bindR (uploads_loop env bucket s (sorted_keys (s3_dirs s))) (\<lambda>us. Inr (sort_key upload_order us)))"

text \<open>How the library's \<open>Prefix.Match\<close> answers: no match, a key, or a common prefix.\<close>

datatype prefix_match = NoMatch | KeyMatch | PrefixMatch string

record upload_listing =
  ul_uploads :: "(string \<times> upload) list"
  ul_prefixes :: "string list"
  ul_truncated :: bool
  ul_next :: "(string \<times> string) option"

fun upload_pages ::
  "(string \<Rightarrow> prefix_match) \<Rightarrow> (string \<times> string) option \<Rightarrow> int \<Rightarrow> bool \<Rightarrow> string list \<Rightarrow> upload_listing \<Rightarrow>
     (string \<times> upload) list \<Rightarrow> upload_listing" where
  "upload_pages match marker limit past seen r [] = r"
| "upload_pages match marker limit past seen r (iu # us) =
     (let skip = (\<not> past \<and> (case marker of None \<Rightarrow> False | Some m \<Rightarrow> \<not> up_object (snd iu) > fst m));
          past' = (past \<or> (case marker of None \<Rightarrow> False | Some m \<Rightarrow>
            if up_object (snd iu) < fst m then False
            else if up_object (snd iu) > fst m then True
            else snd m \<noteq> [] \<and> fst iu = snd m))
      in if skip then upload_pages match marker limit past' seen r us
         else (case match (up_object (snd iu)) of
             NoMatch \<Rightarrow> upload_pages match marker limit past' seen r us
           | PrefixMatch p \<Rightarrow>
               if p \<in> set seen then upload_pages match marker limit past' seen r us
               else upload_pages match marker limit past' (p # seen) (r\<lparr>ul_prefixes := ul_prefixes r @ [p]\<rparr>) us
           | KeyMatch \<Rightarrow>
               if int (length (ul_uploads r)) \<ge> limit then r\<lparr>ul_truncated := True\<rparr>
               else upload_pages match marker limit past' seen (r\<lparr>ul_uploads := ul_uploads r @ [iu]\<rparr>) us))"

definition ListMultipartUploads ::
  "s3env \<Rightarrow> string \<Rightarrow> (string \<times> string) option \<Rightarrow> (string \<Rightarrow> prefix_match) \<Rightarrow> int \<Rightarrow> 'o s3 \<Rightarrow> upload_listing result" where
  "ListMultipartUploads env bucket marker match limit s =
     bindR (multipartUploads env bucket s) (\<lambda>uploads.
       let r = upload_pages match marker limit (marker = None) []
             \<lparr>ul_uploads = [], ul_prefixes = [], ul_truncated = False, ul_next = None\<rparr> uploads
       in Inr (if ul_truncated r \<and> ul_uploads r \<noteq> []
               then r\<lparr>ul_next := Some (up_object (snd (last (ul_uploads r))), fst (last (ul_uploads r)))\<rparr> else r))"

section \<open>Ending an upload\<close>

definition AbortMultipartUpload :: "s3env \<Rightarrow> string \<Rightarrow> string \<Rightarrow> string \<Rightarrow> 'o s3 \<Rightarrow> gerror \<times> 'o s3" where
  "AbortMultipartUpload env bucket object i s =
     (case multipartUpload env bucket object i s of
        Inl e \<Rightarrow> (Some e, s)
      | Inr _ \<Rightarrow> remove_upload env i s)"

fun part_order_ok :: "int option \<Rightarrow> (int \<times> string) list \<Rightarrow> bool" where
  "part_order_ok prev [] = True"
| "part_order_ok prev ((n, etag) # ps) =
     (\<not> (n \<le> 0 \<or> (case prev of None \<Rightarrow> False | Some k \<Rightarrow> k \<ge> n)) \<and> part_order_ok (Some n) ps)"

text \<open>The requested parts in order: their paths, their digests one after the other and the total size.\<close>

fun collect_parts ::
  "(string \<Rightarrow> (string \<times> string \<times> int \<times> int) result) \<Rightarrow> string list \<Rightarrow> string \<Rightarrow> int \<Rightarrow> (int \<times> string) list \<Rightarrow>
     (string list \<times> string \<times> int) result" where
  "collect_parts info paths digests sum_len [] = Inr (paths, digests, sum_len)"
| "collect_parts info paths digests sum_len ((n, etag) # ps) =
     (case info (multipartPartName n) of
        Inl e \<Rightarrow> Inl (if is_not_exist e then ErrInvalidPart else e)
      | Inr (tag, digest, len, _) \<Rightarrow>
          if go_trim [CHR 0x22] tag \<noteq> go_trim [CHR 0x22] etag then Inl ErrInvalidPart
          else collect_parts info (paths @ [multipartPartName n]) (digests @ digest) (wrap64 (sum_len + len)) ps)"

text \<open>\<open>multipartPartsReader\<close>: the paths to open and what is left of the open file.\<close>

record parts_reader =
  rd_paths :: "string list"
  rd_current :: "string option"

datatype read_outcome = Bytes string | EOF | Failed goerr

function reader_read :: "(string \<Rightarrow> string result) \<Rightarrow> nat \<Rightarrow> parts_reader \<Rightarrow> read_outcome \<times> parts_reader" where
  "reader_read opn n r =
     (case rd_current r of
        None \<Rightarrow>
          (case rd_paths r of
             [] \<Rightarrow> (EOF, r)
           | p # ps \<Rightarrow>
               (case opn p of
                  Inl e \<Rightarrow> (Failed e, r)
                | Inr content \<Rightarrow> reader_read opn n \<lparr>rd_paths = ps, rd_current = Some content\<rparr>))
      | Some c \<Rightarrow>
          if c \<noteq> [] \<or> n = 0 then (Bytes (take n c), r\<lparr>rd_current := Some (drop n c)\<rparr>)
          else reader_read opn n (r\<lparr>rd_current := None\<rparr>))"
  by pat_completeness auto
termination
  by (relation "measure (\<lambda>(_, _, r). 2 * length (rd_paths r) + (if rd_current r = None then 0 else 1))") auto

declare reader_read.simps [simp del]

text \<open>A consumer that reads with buffers of the given sizes until the end.\<close>

fun drain :: "(string \<Rightarrow> string result) \<Rightarrow> nat list \<Rightarrow> parts_reader \<Rightarrow> string result option" where
  "drain opn [] r = None"
| "drain opn (n # ns) r =
     (case reader_read opn n r of
        (EOF, r') \<Rightarrow> Some (Inr [])
      | (Failed e, r') \<Rightarrow> Some (Inl e)
      | (Bytes b, r') \<Rightarrow> map_option (map_sum id ((@) b)) (drain opn ns r'))"

fun read_parts :: "(string \<Rightarrow> string result) \<Rightarrow> string list \<Rightarrow> string result" where
  "read_parts opn [] = Inr []"
| "read_parts opn (p # ps) = bindR (opn p) (\<lambda>c. bindR (read_parts opn ps) (\<lambda>rest. Inr (c @ rest)))"

definition open_part :: "s3env \<Rightarrow> string \<Rightarrow> 'o s3 \<Rightarrow> string \<Rightarrow> string result" where
  "open_part env i s name =
     (case ev_fault env ''Reopen'' (in_dir i name) of Some e \<Rightarrow> Inl e
      | None \<Rightarrow> (case part_file s i name of None \<Rightarrow> Inl ENOENT | Some (c, _) \<Rightarrow> Inr c))"

text \<open>
  \<open>putObject\<close> is the backend's \<open>PutObject\<close> with what its reader yields to the end; it answers a version.
\<close>

definition CompleteMultipartUpload ::
  "(string \<Rightarrow> string) \<Rightarrow> (string \<Rightarrow> string \<Rightarrow> string gomap \<Rightarrow> string result \<Rightarrow> int \<Rightarrow> ('o, string) op) \<Rightarrow>
   s3env \<Rightarrow> string \<Rightarrow> string \<Rightarrow> string \<Rightarrow> (int \<times> string) list \<Rightarrow> ('o s3, string \<times> string) op" where
  "CompleteMultipartUpload md5 putObject env bucket object i parts s =
     (case multipartUpload env bucket object i s of
        Inl e \<Rightarrow> (Inl e, s)
      | Inr u \<Rightarrow>
          if \<not> part_order_ok None parts then (Inl ErrInvalidPartOrder, s)
          else (case collect_parts (\<lambda>name. multipartPartInfo md5 env i name s) [] [] 0 parts of
              Inl e \<Rightarrow> (Inl e, s)
            | Inr (paths, digests, sum_len) \<Rightarrow>
                (case putObject bucket object (up_metadata u) (read_parts (open_part env i s) paths) sum_len (s3_objects s) of
                   (Inl e, ob) \<Rightarrow> (Inl e, s\<lparr>s3_objects := ob\<rparr>)
                 | (Inr version, ob) \<Rightarrow>
                     let s1 = s\<lparr>s3_objects := ob\<rparr>;
                         s2 = (case rename_dir env i (''.completed-'' @ i) s1 of
                             (None, t) \<Rightarrow> snd (remove_upload env (''.completed-'' @ i) t)
                           | (Some _, t) \<Rightarrow> snd (remove_upload env i t))
                     in (Inr (version, CHR 0x22 # hex_string (md5 digests) @ ''-'' @ dec_digits (length parts) @ [CHR 0x22]), s2))))"

end
