(* ===== verification/S3MultipartSpec.thy ===== *)
theory S3MultipartSpec
  imports S3Multipart
begin

text \<open>
  What the multipart operations do to the files of the upload directories: parts are replaced atomically, the
  assembling reader yields the parts one after the other, completion hands exactly the requested parts to the
  backend, other uploads are never touched, and every reachable state has canonical part files only.
\<close>

section \<open>Files of the upload directories\<close>

definition dir_of :: "'o s3 \<Rightarrow> string \<Rightarrow> updir option" where
  "dir_of s i = map_of (s3_dirs s) i"

definition control_of :: "'o s3 \<Rightarrow> string \<Rightarrow> upload option" where
  "control_of s i = Option.bind (dir_of s i) ud_control"

lemma dir_of_set [simp]: "dir_of (set_dir i d s) j = (if j = i then Some d else dir_of s j)"
  by (simp add: dir_of_def set_dir_def)

lemma dir_of_objects [simp]: "dir_of (s\<lparr>s3_objects := ob\<rparr>) j = dir_of s j"
  by (simp add: dir_of_def)

lemma objects_set [simp]: "s3_objects (set_dir i d s) = s3_objects s"
  by (simp add: set_dir_def)

lemma part_file_dir: "part_file s i name = Option.bind (dir_of s i) (\<lambda>d. map_of (ud_files d) name)"
  by (simp add: part_file_def dir_of_def)

lemma dir_of_put_part [simp]:
  "dir_of (put_part i name f s) j =
   (if j = i then map_option (\<lambda>d. d\<lparr>ud_files := put_key name f (ud_files d)\<rparr>) (dir_of s i) else dir_of s j)"
  by (auto simp: put_part_def dir_of_def set_dir_def split: option.split)

lemma dir_of_del_part [simp]:
  "dir_of (del_part i name s) j =
   (if j = i then map_option (\<lambda>d. d\<lparr>ud_files := del_key name (ud_files d)\<rparr>) (dir_of s i) else dir_of s j)"
  by (auto simp: del_part_def dir_of_def set_dir_def split: option.split)

lemma part_put_part [simp]:
  "part_file (put_part i name f s) j n = (if j = i \<and> n = name \<and> dir_of s i \<noteq> None then Some f else part_file s j n)"
  by (cases "dir_of s i") (auto simp: part_file_dir)

lemma part_del_part [simp]:
  "part_file (del_part i name s) j n = (if j = i \<and> n = name then None else part_file s j n)"
  by (cases "dir_of s i") (auto simp: part_file_dir)

lemma control_put_part [simp]: "control_of (put_part i name f s) j = control_of s j"
  by (cases "dir_of s i") (auto simp: control_of_def)

lemma control_del_part [simp]: "control_of (del_part i name s) j = control_of s j"
  by (cases "dir_of s i") (auto simp: control_of_def)

lemma objects_put_part [simp]: "s3_objects (put_part i name f s) = s3_objects s"
  by (simp add: put_part_def split: option.split)

lemma objects_del_part [simp]: "s3_objects (del_part i name s) = s3_objects s"
  by (simp add: del_part_def split: option.split)

lemma dir_of_remove_other: "j \<noteq> i \<Longrightarrow> dir_of (snd (remove_upload env i s)) j = dir_of s j"
  by (auto simp: remove_upload_def Let_def dir_of_def set_dir_def split: option.split)

lemma objects_remove [simp]: "s3_objects (snd (remove_upload env i s)) = s3_objects s"
  by (auto simp: remove_upload_def Let_def split: option.split)

section \<open>Finding an upload\<close>

lemma readMultipartUpload_cases:
  "readMultipartUpload env i s = Inr u \<longleftrightarrow> validMultipartUploadID i \<and> control_of s i = Some u \<and>
    ev_fault env ''ReadFile'' (in_dir i ''upload.json'') = None \<and> ev_fault env ''Unmarshal'' i = None"
  by (auto simp: readMultipartUpload_def control_of_def dir_of_def split: option.splits)

lemma multipartUpload_Inr:
  "multipartUpload env bucket object i s = Inr u \<longleftrightarrow>
   readMultipartUpload env i s = Inr u \<and> up_bucket u = bucket \<and> up_object u = object"
  by (auto simp: multipartUpload_def split: sum.split)

lemma found_upload:
  assumes "multipartUpload env bucket object i s = Inr u"
  shows "validMultipartUploadID i" "control_of s i = Some u" "up_bucket u = bucket" "up_object u = object" "dir_of s i \<noteq> None"
  using assms by (auto simp: multipartUpload_Inr readMultipartUpload_cases control_of_def bind_eq_Some_conv)

section \<open>Uploading\<close>

text \<open>A temporary part file is neither a part nor the file of another part.\<close>

lemma pad_dec_digits: "list_all is_digit (pad_dec w n)" "pad_dec w n \<noteq> []"
  using pad_dec_props by auto

lemma partName_not_temp: "multipartPartName n \<noteq> ''.part-'' @ t"
proof
  assume "multipartPartName n = ''.part-'' @ t"
  hence "hd (multipartPartName n) = CHR ''.''" by simp
  moreover have "hd (multipartPartName n) = hd (pad_dec 5 (nat n))" using pad_dec_digits(2) by (simp add: multipartPartName_def)
  moreover have "is_digit (hd (pad_dec 5 (nat n)))" using pad_dec_digits [of 5 "nat n"] by (cases "pad_dec 5 (nat n)") auto
  moreover have "\<not> is_digit CHR ''.''" by code_simp
  ultimately show False by simp
qed

lemma part_number_name:
  assumes "0 < n" "n < 2 ^ 63"
  shows "part_number (multipartPartName n) = Some n"
proof -
  have "has_suffix (multipartPartName n) ''.part''" "trim_suffix (multipartPartName n) ''.part'' = pad_dec 5 (nat n)"
    by (simp_all add: multipartPartName_def)
  moreover have "nat n < 2 ^ 63" using assms by (simp add: nat_less_iff)
  hence "atoi (pad_dec 5 (nat n)) = Some n" using atoi_pad_dec [of "nat n" 5] assms by simp
  ultimately show ?thesis using assms by (simp add: part_number_def)
qed

lemma partName_inj: "0 < n \<Longrightarrow> n < 2 ^ 63 \<Longrightarrow> 0 < m \<Longrightarrow> m < 2 ^ 63 \<Longrightarrow> multipartPartName n = multipartPartName m \<Longrightarrow> n = m"
  by (metis option.inject part_number_name)

text \<open>A part is replaced as a whole or not at all; nothing but temporary files changes besides.\<close>

definition part_kept :: "string \<Rightarrow> string \<Rightarrow> string \<Rightarrow> 'o s3 \<Rightarrow> 'o s3 \<Rightarrow> bool" where
  "part_kept i tmp name s s' \<longleftrightarrow> s3_objects s' = s3_objects s \<and> control_of s' = control_of s \<and>
     (\<forall>j f. \<not> (j = i \<and> f \<in> {tmp, name}) \<longrightarrow> part_file s' j f = part_file s j f)"

lemma part_kept_refl [simp]: "part_kept i tmp name s s"
  by (simp add: part_kept_def)

lemma part_kept_tmp [simp]:
  "part_kept i tmp name s (put_part i tmp f s)" "part_kept i tmp name s (del_part i tmp (put_part i tmp f s))"
  "part_kept i tmp name s (put_part i name g (del_part i tmp (put_part i tmp f s)))"
  by (auto simp: part_kept_def fun_eq_iff)

lemma limited_body:
  assumes "0 \<le> len" "len < 2 ^ 63" "int (length (take (nat (wrap64 (len + 1))) body)) = len"
  shows "int (length body) = len" "length body < nat (wrap64 (len + 1))"
proof -
  have "wrap64 (len + 1) = len + 1"
  proof (rule ccontr)
    assume w: "wrap64 (len + 1) \<noteq> len + 1"
    hence l: "len = 2 ^ 63 - 1" using wrap64_id [of "len + 1"] assms by linarith
    have "wrap64 (len + 1) = - (2 ^ 63)" unfolding l by code_simp
    thus False using assms(3) l by simp
  qed
  thus "int (length body) = len" "length body < nat (wrap64 (len + 1))" using assms by (auto simp: min_def split: if_splits)
qed

lemma UploadPart_spec:
  assumes up: "UploadPart md5 maxPart env bucket object i n len input s = (r, s')"
  shows "part_kept i (''.part-'' @ ev_tmp env) (multipartPartName n) s s'"
    and "r = Inl e \<Longrightarrow> part_file s' i (multipartPartName n) = part_file s i (multipartPartName n)"
    and "r = Inr etag \<Longrightarrow> len < 2 ^ 63 \<Longrightarrow> 0 < n \<and> n \<le> maxPart \<and> (\<exists>u. multipartUpload env bucket object i s = Inr u) \<and>
        int (length (fst input)) = len \<and> snd input = None \<and>
        part_file s' i (multipartPartName n) = Some (fst input, ev_now env) \<and> etag = quoted_hex (md5 (fst input))"
proof -
  let ?tmp = "''.part-'' @ ev_tmp env" and ?name = "multipartPartName n" and ?limit = "nat (wrap64 (len + 1))"
  have ne: "?name \<noteq> ?tmp" by (rule partName_not_temp)
  have kept: "part_kept i ?tmp ?name s s' \<and> (\<forall>e. r = Inl e \<longrightarrow> part_file s' i ?name = part_file s i ?name) \<and>
    (\<forall>etag. r = Inr etag \<longrightarrow> len < 2 ^ 63 \<longrightarrow> 0 < n \<and> n \<le> maxPart \<and> (\<exists>u. multipartUpload env bucket object i s = Inr u) \<and>
        int (length (fst input)) = len \<and> snd input = None \<and>
        part_file s' i ?name = Some (fst input, ev_now env) \<and> etag = quoted_hex (md5 (fst input)))"
  proof (cases "n \<le> 0 \<or> n > maxPart \<or> len < 0")
    case True
    thus ?thesis using up by (auto simp: UploadPart_def)
  next
    case ok: False
    show ?thesis
    proof (cases "multipartUpload env bucket object i s")
      case (Inl e)
      thus ?thesis using up ok by (auto simp: UploadPart_def)
    next
      case (Inr u)
      define content where content: "content = take ?limit (fst input)"
      define cErr where cErr: "cErr = (case ev_fault env ''Write'' (in_dir i ?tmp) of Some e \<Rightarrow> Some e
          | None \<Rightarrow> if length (fst input) < ?limit then snd input else None)"
      define s1 where s1: "s1 = put_part i ?tmp (content, ev_now env) s"
      define removed where removed: "removed = (if ev_fault env ''Remove'' (in_dir i ?tmp) = None then del_part i ?tmp s1 else s1)"
      define s2 where s2: "s2 = put_part i ?name (content, ev_now env) (del_part i ?tmp s1)"
      have rem: "part_kept i ?tmp ?name s removed" "part_file removed i ?name = part_file s i ?name"
        using ne by (simp_all add: removed s1 del: append.simps)
      have ins: "part_kept i ?tmp ?name s s2" "part_file s2 i ?name = Some (content, ev_now env)"
        using found_upload(5) [OF Inr] ne by (simp_all add: s2 s1 del: append.simps)
      have run: "(r, s') = (case ev_fault env ''CreateTemp'' i of Some e \<Rightarrow> (Inl e, s) | None \<Rightarrow>
          (case (cErr, ev_fault env ''Close'' (in_dir i ?tmp)) of
             (Some e, _) \<Rightarrow> (Inl e, removed) | (None, Some e) \<Rightarrow> (Inl e, removed)
           | (None, None) \<Rightarrow> if int (length content) \<noteq> len then (Inl ErrIncompleteBody, removed)
               else (case ev_fault env ''Rename'' (in_dir i ?name) of Some e \<Rightarrow> (Inl e, removed)
                 | None \<Rightarrow> (Inr (quoted_hex (md5 content)), s2))))"
        unfolding up [symmetric] UploadPart_def Let_def Inr sum.case content cErr s1 removed s2 using ok by (simp only: if_False)
      have fin: "int (length (fst input)) = len \<and> snd input = None \<and> content = fst input"
        if "cErr = None" "int (length content) = len" "len < 2 ^ 63"
      proof -
        have l: "0 \<le> len" using ok by simp
        note body = limited_body [OF l that(3) that(2) [unfolded content]]
        have "snd input = None" using that(1) body(2) unfolding cErr
          by (cases "ev_fault env ''Write'' (in_dir i ?tmp)") (simp_all only: option.case if_True option.distinct)
        moreover have "content = fst input" unfolding content by (rule take_all [OF order_less_imp_le [OF body(2)]])
        ultimately show ?thesis using body(1) by simp
      qed
      consider e where "r = Inl e" "s' \<in> {s, removed}"
        | "cErr = None" "int (length content) = len" "r = Inr (quoted_hex (md5 content))" "s' = s2"
        using run by (auto split: option.splits if_splits)
      thus ?thesis
      proof cases
        case 1
        thus ?thesis using rem by auto
      next
        case 2
        thus ?thesis using ins ok fin Inr by auto
      qed
    qed
  qed
  from kept show "part_kept i ?tmp ?name s s'" by blast
  from kept show "r = Inl e \<Longrightarrow> part_file s' i ?name = part_file s i ?name" by blast
  from kept show "r = Inr etag \<Longrightarrow> len < 2 ^ 63 \<Longrightarrow> 0 < n \<and> n \<le> maxPart \<and> (\<exists>u. multipartUpload env bucket object i s = Inr u) \<and>
        int (length (fst input)) = len \<and> snd input = None \<and>
        part_file s' i ?name = Some (fst input, ev_now env) \<and> etag = quoted_hex (md5 (fst input))" by blast
qed

section \<open>Reading\<close>

lemma multipartPartInfo_Inr:
  "multipartPartInfo md5 env i name s = Inr (etag, digest, len, t) \<Longrightarrow>
   \<exists>content. part_file s i name = Some (content, t) \<and> etag = quoted_hex (md5 content) \<and> digest = md5 content \<and> len = int (length content)"
  by (auto simp: multipartPartInfo_def split: option.splits)

text \<open>Whatever the sizes of the buffers, the reader yields the contents of its files one after the other.\<close>

definition reader_rest :: "(string \<Rightarrow> string result) \<Rightarrow> parts_reader \<Rightarrow> string result" where
  "reader_rest opn r = (case rd_current r of None \<Rightarrow> read_parts opn (rd_paths r)
     | Some c \<Rightarrow> bindR (read_parts opn (rd_paths r)) (\<lambda>rest. Inr (c @ rest)))"

lemma reader_read_rest:
  assumes "0 < n"
  shows "case reader_read opn n r of
      (EOF, r') \<Rightarrow> reader_rest opn r = Inr []
    | (Failed e, r') \<Rightarrow> reader_rest opn r = Inl e
    | (Bytes b, r') \<Rightarrow> b \<noteq> [] \<and> reader_rest opn r = bindR (reader_rest opn r') (\<lambda>rest. Inr (b @ rest))"
  using assms
proof (induction opn n r rule: reader_read.induct)
  case (1 opn n r)
  show ?case
  proof (cases "rd_current r")
    case None
    show ?thesis
    proof (cases "rd_paths r")
      case Nil
      thus ?thesis using None by (simp add: reader_read.simps reader_rest_def)
    next
      case (Cons p ps)
      show ?thesis
      proof (cases "opn p")
        case (Inl e)
        thus ?thesis using None Cons by (simp add: reader_read.simps reader_rest_def)
      next
        case (Inr c)
        have "reader_rest opn r = reader_rest opn \<lparr>rd_paths = ps, rd_current = Some c\<rparr>"
          using None Cons Inr by (simp add: reader_rest_def)
        moreover have "reader_read opn n r = reader_read opn n \<lparr>rd_paths = ps, rd_current = Some c\<rparr>"
          using None Cons Inr by (subst reader_read.simps) simp
        ultimately show ?thesis using "1.IH"(1) [OF None Cons Inr "1.prems"] by (simp only:)
      qed
    qed
  next
    case (Some c)
    show ?thesis
    proof (cases "c = []")
      case False
      have "bindR (read_parts opn (rd_paths r)) (\<lambda>rest. Inr (c @ rest)) =
          bindR (bindR (read_parts opn (rd_paths r)) (\<lambda>rest. Inr (drop n c @ rest))) (\<lambda>rest. Inr (take n c @ rest))"
        by (cases "read_parts opn (rd_paths r)") (simp_all add: bindR_def)
      thus ?thesis using Some False "1.prems" by (subst reader_read.simps) (simp add: reader_rest_def)
    next
      case True
      have "reader_rest opn r = reader_rest opn (r\<lparr>rd_current := None\<rparr>)"
        using Some True by (cases "read_parts opn (rd_paths r)") (simp_all add: reader_rest_def bindR_def)
      moreover have "reader_read opn n r = reader_read opn n (r\<lparr>rd_current := None\<rparr>)"
        using Some True "1.prems" by (subst reader_read.simps) simp
      moreover have "\<not> (c \<noteq> [] \<or> n = 0)" using True "1.prems" by simp
      ultimately show ?thesis using "1.IH"(2) [OF Some _ "1.prems"] by (simp only: not_False_eq_True)
    qed
  qed
qed

lemma drain_reads_all:
  assumes "\<forall>n \<in> set ns. 0 < n" "drain opn ns r = Some res"
  shows "res = reader_rest opn r"
  using assms
proof (induction ns arbitrary: r res)
  case (Cons n ns)
  have n: "0 < n" using Cons.prems by simp
  obtain out r' where read: "reader_read opn n r = (out, r')" by fastforce
  note step = reader_read_rest [OF n, of opn r, unfolded read prod.case]
  show ?case
  proof (cases out)
    case (Bytes b)
    with Cons.prems read obtain res' where res': "drain opn ns r' = Some res'" "res = map_sum id ((@) b) res'" by auto
    from Cons.IH [OF _ res'(1)] Cons.prems(1) have "res' = reader_rest opn r'" by simp
    thus ?thesis using step Bytes res'(2) by (cases "reader_rest opn r'") simp_all
  qed (use step Cons.prems read in auto)
qed simp

lemma drain_enough:
  assumes "\<forall>n \<in> set ns. 0 < n" "reader_rest opn r = Inr all" "length all < length ns"
  shows "drain opn ns r = Some (Inr all)"
  using assms
proof (induction ns arbitrary: r all)
  case (Cons n ns)
  have n: "0 < n" using Cons.prems by simp
  obtain out r' where read: "reader_read opn n r = (out, r')" by fastforce
  note step = reader_read_rest [OF n, of opn r, unfolded read prod.case]
  show ?case
  proof (cases out)
    case (Bytes b)
    with step Cons.prems(2) obtain rest where rest: "b \<noteq> []" "reader_rest opn r' = Inr rest" "all = b @ rest"
      by (cases "reader_rest opn r'") auto
    with Cons.IH [OF _ rest(2)] Cons.prems have "drain opn ns r' = Some (Inr rest)" by (cases b) auto
    thus ?thesis using read Bytes rest by simp
  qed (use step Cons.prems read in auto)
qed simp

section \<open>Completing an upload\<close>

lemma wrap64_add: "wrap64 (wrap64 a + b) = wrap64 (a + b)"
proof -
  have "(wrap64 a + b + 2 ^ 63) mod 2 ^ 64 = ((a + 2 ^ 63) mod 2 ^ 64 + b) mod 2 ^ 64" by (simp add: wrap64_def)
  also have "\<dots> = (a + 2 ^ 63 + b) mod 2 ^ 64" by (rule mod_add_left_eq)
  also have "a + 2 ^ 63 + b = a + b + 2 ^ 63" by simp
  finally show ?thesis by (simp only: wrap64_def)
qed

text \<open>The requested parts and the contents they have.\<close>

definition parts_match :: "(string \<Rightarrow> string) \<Rightarrow> 'o s3 \<Rightarrow> string \<Rightarrow> (int \<times> string) list \<Rightarrow> string list \<Rightarrow> bool" where
  "parts_match md5 s i parts contents \<longleftrightarrow> list_all2 (\<lambda>p c. (\<exists>t. part_file s i (multipartPartName (fst p)) = Some (c, t)) \<and>
     go_trim [CHR 0x22] (quoted_hex (md5 c)) = go_trim [CHR 0x22] (snd p)) parts contents"

lemma collect_parts_spec:
  assumes "collect_parts (\<lambda>name. multipartPartInfo md5 env i name s) paths dg sum_len ps = Inr (paths', dg', end_len)"
  shows "\<exists>contents. parts_match md5 s i ps contents \<and> paths' = paths @ map (multipartPartName \<circ> fst) ps \<and>
    dg' = dg @ concat (map md5 contents) \<and> wrap64 end_len = wrap64 (sum_len + int (length (concat contents)))"
  using assms
proof (induction ps arbitrary: paths dg sum_len)
  case Nil
  thus ?case by (intro exI [of _ "[]"]) (simp add: parts_match_def)
next
  case (Cons p ps)
  obtain n etag where p: "p = (n, etag)" by fastforce
  obtain tag digest len t where info: "multipartPartInfo md5 env i (multipartPartName n) s = Inr (tag, digest, len, t)"
    and tag: "go_trim [CHR 0x22] tag = go_trim [CHR 0x22] etag"
    and rest: "collect_parts (\<lambda>name. multipartPartInfo md5 env i name s) (paths @ [multipartPartName n]) (dg @ digest)
      (wrap64 (sum_len + len)) ps = Inr (paths', dg', end_len)"
    using Cons.prems by (auto simp: p split: sum.splits if_splits)
  from multipartPartInfo_Inr [OF info] obtain c where c: "part_file s i (multipartPartName n) = Some (c, t)"
    "tag = quoted_hex (md5 c)" "digest = md5 c" "len = int (length c)" by blast
  from Cons.IH [OF rest] obtain cs where cs: "parts_match md5 s i ps cs"
    "paths' = (paths @ [multipartPartName n]) @ map (multipartPartName \<circ> fst) ps" "dg' = (dg @ digest) @ concat (map md5 cs)"
    "wrap64 end_len = wrap64 (wrap64 (sum_len + len) + int (length (concat cs)))" by blast
  have "parts_match md5 s i (p # ps) (c # cs)" using cs(1) c tag by (simp add: parts_match_def p)
  moreover have "wrap64 end_len = wrap64 (sum_len + int (length (concat (c # cs))))"
    using cs(4) c(4) by (simp add: wrap64_add add.assoc)
  ultimately show ?case using cs(2,3) c(3) by (intro exI [of _ "c # cs"]) (simp add: p)
qed

lemma read_parts_contents:
  assumes "parts_match md5 s i parts contents"
  shows "read_parts (open_part env i s) (map (multipartPartName \<circ> fst) parts) = Inr (concat contents) \<or>
    (\<exists>e. read_parts (open_part env i s) (map (multipartPartName \<circ> fst) parts) = Inl e)"
  using assms unfolding parts_match_def
proof (induction parts contents rule: list_all2_induct)
  case (Cons p ps c cs)
  from Cons.hyps obtain t where c: "part_file s i (multipartPartName (fst p)) = Some (c, t)" by blast
  show ?case
  proof (cases "ev_fault env ''Reopen'' (in_dir i (multipartPartName (fst p)))")
    case (Some e)
    thus ?thesis by (simp add: open_part_def)
  next
    case None
    hence "open_part env i s (multipartPartName (fst p)) = Inr c" using c by (simp add: open_part_def)
    thus ?thesis using Cons.IH by auto
  qed
qed simp

lemma part_order_sorted:
  "part_order_ok prev ps \<longleftrightarrow> (\<forall>p \<in> set ps. 0 < fst p \<and> (\<forall>k. prev = Some k \<longrightarrow> k < fst p)) \<and> sorted_wrt (<) (map fst ps)"
proof (induction prev ps rule: part_order_ok.induct)
  case (2 prev n etag ps)
  thus ?case by (cases prev) auto
qed simp

lemma valid_chars: "validMultipartUploadID i \<Longrightarrow> set i \<subseteq> set ''ABCDEFGHIJKLMNOPQRSTUVWXYZ234567''"
  unfolding validMultipartUploadID_def using trim_split [of i] by (metis Un_subset_iff append_Nil set_append)

lemma completed_dir_invalid: "\<not> validMultipartUploadID (''.completed-'' @ i)"
proof
  assume "validMultipartUploadID (''.completed-'' @ i)"
  hence "CHR ''.'' \<in> set ''ABCDEFGHIJKLMNOPQRSTUVWXYZ234567''" using valid_chars by fastforce
  thus False by code_simp
qed

text \<open>No operation on one upload touches the directory of another.\<close>

definition others_kept :: "string \<Rightarrow> 'o s3 \<Rightarrow> 'o s3 \<Rightarrow> bool" where
  "others_kept i s s' \<longleftrightarrow> (\<forall>j. j \<noteq> i \<and> validMultipartUploadID j \<longrightarrow> dir_of s' j = dir_of s j)"

lemma others_kept_refl [simp]: "others_kept i s s" "others_kept i s (s\<lparr>s3_objects := ob\<rparr>)"
  by (simp_all add: others_kept_def)

lemma others_kept_remove: "others_kept i s (snd (remove_upload env i s))"
  by (simp add: others_kept_def dir_of_remove_other)

lemma others_kept_completed:
  assumes "rename_dir env i (''.completed-'' @ i) s = (r, t)"
  shows "others_kept i s (snd (remove_upload env (if r = None then ''.completed-'' @ i else i) t))"
  unfolding others_kept_def
proof (intro allI impI)
  fix j assume j: "j \<noteq> i \<and> validMultipartUploadID j"
  hence ne: "j \<noteq> ''.completed-'' @ i" using completed_dir_invalid by blast
  hence "dir_of t j = dir_of s j" using assms j
    by (auto simp: rename_dir_def dir_of_def split: option.splits if_splits)
  moreover have "dir_of (snd (remove_upload env (if r = None then ''.completed-'' @ i else i) t)) j = dir_of t j"
    using j ne by (simp add: dir_of_remove_other)
  ultimately show "dir_of (snd (remove_upload env (if r = None then ''.completed-'' @ i else i) t)) j = dir_of s j" by simp
qed

lemma CompleteMultipartUpload_run:
  assumes "CompleteMultipartUpload md5 putObject env bucket object i parts s = (r, s')"
  obtains (refused) e where "r = Inl e" "s' = s"
  | (failed) e ob where "r = Inl e" "s' = s\<lparr>s3_objects := ob\<rparr>"
  | (stored) u paths digests size v ob q t where "multipartUpload env bucket object i s = Inr u" "part_order_ok None parts"
      "collect_parts (\<lambda>name. multipartPartInfo md5 env i name s) [] [] 0 parts = Inr (paths, digests, size)"
      "putObject bucket object (up_metadata u) (read_parts (open_part env i s) paths) size (s3_objects s) = (Inr v, ob)"
      "rename_dir env i (''.completed-'' @ i) (s\<lparr>s3_objects := ob\<rparr>) = (q, t)"
      "s' = snd (remove_upload env (if q = None then ''.completed-'' @ i else i) t)"
      "r = Inr (v, CHR 0x22 # hex_string (md5 digests) @ ''-'' @ dec_digits (length parts) @ [CHR 0x22])"
proof (cases "multipartUpload env bucket object i s")
  case (Inl e)
  thus ?thesis using assms by (intro refused [of e]) (simp_all add: CompleteMultipartUpload_def)
next
  case u: (Inr u)
  show ?thesis
  proof (cases "part_order_ok None parts")
    case False
    thus ?thesis using assms u by (intro refused [of ErrInvalidPartOrder]) (simp_all add: CompleteMultipartUpload_def)
  next
    case order: True
    show ?thesis
    proof (cases "collect_parts (\<lambda>name. multipartPartInfo md5 env i name s) [] [] 0 parts")
      case (Inl e)
      thus ?thesis using assms u order by (intro refused [of e]) (simp_all add: CompleteMultipartUpload_def)
    next
      case (Inr c)
      obtain paths digests size where c: "c = (paths, digests, size)" by (cases c) auto
      obtain w ob where put: "putObject bucket object (up_metadata u) (read_parts (open_part env i s) paths) size (s3_objects s) = (w, ob)"
        by fastforce
      obtain q t where ren: "rename_dir env i (''.completed-'' @ i) (s\<lparr>s3_objects := ob\<rparr>) = (q, t)" by fastforce
      note run = assms [unfolded CompleteMultipartUpload_def u sum.case Inr c prod.case put Let_def ren]
      show ?thesis
      proof (cases w)
        case (Inl e)
        thus ?thesis using run order by (intro failed [of e ob]) simp_all
      next
        case w: (Inr v)
        have "s' = snd (remove_upload env (if q = None then ''.completed-'' @ i else i) t)"
          "r = Inr (v, CHR 0x22 # hex_string (md5 digests) @ ''-'' @ dec_digits (length parts) @ [CHR 0x22])"
          using run w order by (cases q; simp)+
        thus ?thesis using stored u order Inr c put w ren by blast
      qed
    qed
  qed
qed

lemma objects_rename: "rename_dir env i j s = (q, t) \<Longrightarrow> s3_objects t = s3_objects s"
  by (auto simp: rename_dir_def split: option.splits if_splits)

lemma CompleteMultipartUpload_spec:
  assumes run: "CompleteMultipartUpload md5 putObject env bucket object i parts s = (r, s')"
  shows "others_kept i s s'"
    and "r = Inl e \<Longrightarrow> s3_dirs s' = s3_dirs s"
    and "r = Inr (v, etag) \<Longrightarrow> \<exists>u contents data size. multipartUpload env bucket object i s = Inr u \<and>
        sorted_wrt (<) (map fst parts) \<and> (\<forall>p \<in> set parts. 0 < fst p) \<and> parts_match md5 s i parts contents \<and>
        wrap64 size = wrap64 (int (length (concat contents))) \<and> (data = Inr (concat contents) \<or> (\<exists>e. data = Inl e)) \<and>
        putObject bucket object (up_metadata u) data size (s3_objects s) = (Inr v, s3_objects s') \<and>
        etag = CHR 0x22 # hex_string (md5 (concat (map md5 contents))) @ ''-'' @ dec_digits (length parts) @ [CHR 0x22]"
proof -
  show "others_kept i s s'" using run
  proof (cases rule: CompleteMultipartUpload_run)
    case (stored u paths digests size v ob q t)
    from others_kept_completed [OF stored(5)] show ?thesis by (simp only: stored(6) others_kept_def dir_of_objects)
  qed simp_all
  show "r = Inl e \<Longrightarrow> s3_dirs s' = s3_dirs s" using run by (cases rule: CompleteMultipartUpload_run) simp_all
  assume r: "r = Inr (v, etag)"
  show "\<exists>u contents data size. multipartUpload env bucket object i s = Inr u \<and>
        sorted_wrt (<) (map fst parts) \<and> (\<forall>p \<in> set parts. 0 < fst p) \<and> parts_match md5 s i parts contents \<and>
        wrap64 size = wrap64 (int (length (concat contents))) \<and> (data = Inr (concat contents) \<or> (\<exists>e. data = Inl e)) \<and>
        putObject bucket object (up_metadata u) data size (s3_objects s) = (Inr v, s3_objects s') \<and>
        etag = CHR 0x22 # hex_string (md5 (concat (map md5 contents))) @ ''-'' @ dec_digits (length parts) @ [CHR 0x22]"
    using run
  proof (cases rule: CompleteMultipartUpload_run)
    case (stored u paths digests size w ob q t)
    from collect_parts_spec [OF stored(3)] obtain contents where c: "parts_match md5 s i parts contents"
      "paths = map (multipartPartName \<circ> fst) parts" "digests = concat (map md5 contents)"
      "wrap64 size = wrap64 (int (length (concat contents)))" by auto
    have "s3_objects s' = ob" using stored(6) objects_rename [OF stored(5)] by simp
    moreover have "v = w" "etag = CHR 0x22 # hex_string (md5 digests) @ ''-'' @ dec_digits (length parts) @ [CHR 0x22]"
      using r stored(7) by simp_all
    ultimately show ?thesis using stored(1,2,4) c read_parts_contents [OF c(1), of env] part_order_sorted [of None parts]
      by (intro exI [of _ u] exI [of _ contents] exI [of _ "read_parts (open_part env i s) paths"] exI [of _ size]) simp
  qed (use r in simp_all)
qed

section \<open>Reachable states\<close>

text \<open>
  The visible parts of an upload have positive numbers and the names those numbers give; only upload IDs and
  set-aside directories have a control record.
\<close>

definition updir_ok :: "string \<Rightarrow> updir \<Rightarrow> bool" where
  "updir_ok i d \<longleftrightarrow> gomap_ok (ud_files d) \<and>
     (\<forall>name \<in> fst ` set (ud_files d). \<forall>n. part_number name = Some n \<longrightarrow> 0 < n \<and> n < 2 ^ 63 \<and> name = multipartPartName n) \<and>
     (ud_control d \<noteq> None \<longrightarrow> validMultipartUploadID i \<or> has_prefix i ''.completed-'')"

definition uploads_ok :: "'o s3 \<Rightarrow> bool" where
  "uploads_ok s \<longleftrightarrow> gomap_ok (s3_dirs s) \<and> (\<forall>i d. dir_of s i = Some d \<longrightarrow> updir_ok i d)"

text \<open>The standard library gives IDs of its alphabet and digits for temporary names.\<close>

definition env_ok :: "s3env \<Rightarrow> bool" where
  "env_ok env \<longleftrightarrow> list_all validMultipartUploadID (ev_ids env) \<and> list_all is_digit (ev_tmp env)"

inductive s3_step :: "(string \<Rightarrow> string) \<Rightarrow> int \<Rightarrow> (string \<Rightarrow> string \<Rightarrow> string gomap \<Rightarrow> string result \<Rightarrow> int \<Rightarrow> ('o, string) op) \<Rightarrow> 'o s3 \<Rightarrow> 'o s3 \<Rightarrow> bool"
  for md5 maxPart putObject where
  create: "env_ok env \<Longrightarrow> CreateMultipartUpload env bucket object metadata s = Some (r, s') \<Longrightarrow> s3_step md5 maxPart putObject s s'"
| upload: "env_ok env \<Longrightarrow> UploadPart md5 maxPart env bucket object i n len input s = (r, s') \<Longrightarrow> s3_step md5 maxPart putObject s s'"
| abort: "AbortMultipartUpload env bucket object i s = (e, s') \<Longrightarrow> s3_step md5 maxPart putObject s s'"
| complete: "CompleteMultipartUpload md5 putObject env bucket object i parts s = (r, s') \<Longrightarrow> s3_step md5 maxPart putObject s s'"
| objects: "s3_step md5 maxPart putObject s (s\<lparr>s3_objects := ob\<rparr>)"

inductive s3_reach :: "(string \<Rightarrow> string) \<Rightarrow> int \<Rightarrow> (string \<Rightarrow> string \<Rightarrow> string gomap \<Rightarrow> string result \<Rightarrow> int \<Rightarrow> ('o, string) op) \<Rightarrow> 'o s3 \<Rightarrow> bool"
  for md5 maxPart putObject where
  init: "s3_reach md5 maxPart putObject \<lparr>s3_dirs = [], s3_objects = ob\<rparr>"
| step: "s3_reach md5 maxPart putObject s \<Longrightarrow> s3_step md5 maxPart putObject s s' \<Longrightarrow> s3_reach md5 maxPart putObject s'"

lemma updir_ok_empty [simp]: "updir_ok i empty_dir" "updir_ok i (empty_dir\<lparr>ud_control_tmp := b\<rparr>)"
  by (simp_all add: updir_ok_def empty_dir_def)

lemma uploads_ok_set: "uploads_ok s \<Longrightarrow> updir_ok i d \<Longrightarrow> uploads_ok (set_dir i d s)"
  by (auto simp: uploads_ok_def) (simp add: set_dir_def)

lemma uploads_ok_objects [simp]: "uploads_ok (s\<lparr>s3_objects := ob\<rparr>) \<longleftrightarrow> uploads_ok s"
  by (simp add: uploads_ok_def)

lemma uploads_ok_del: "uploads_ok s \<Longrightarrow> uploads_ok (s\<lparr>s3_dirs := del_key i (s3_dirs s)\<rparr>)"
  by (auto simp: uploads_ok_def dir_of_def split: if_splits)

lemma gomap_ok_filter: "gomap_ok m \<Longrightarrow> gomap_ok (filter P m)"
  by (simp add: gomap_ok_def distinct_map inj_on_def)

lemma updir_ok_remove:
  "updir_ok i d \<Longrightarrow> ud_control d' \<in> {None, ud_control d} \<Longrightarrow> ud_files d' = filter P (ud_files d) \<Longrightarrow> updir_ok i d'"
  by (fastforce simp: updir_ok_def gomap_ok_filter)

lemma remove_upload_state:
  "snd (remove_upload env i s) \<in> {s, s\<lparr>s3_dirs := del_key i (s3_dirs s)\<rparr>} \<or>
   (\<exists>d d' P. dir_of s i = Some d \<and> ud_control d' \<in> {None, ud_control d} \<and> ud_files d' = filter P (ud_files d) \<and>
     snd (remove_upload env i s) = set_dir i d' s)"
proof (cases "map_of (s3_dirs s) i")
  case (Some d)
  define keep where "keep = (\<lambda>name. ev_fault env ''Remove'' (in_dir i name) \<noteq> None)"
  define d' where "d' = \<lparr>ud_control = (if keep ''upload.json'' then ud_control d else None),
      ud_control_tmp = (ud_control_tmp d \<and> keep ''upload.json.tmp''), ud_files = filter (\<lambda>f. keep (fst f)) (ud_files d)\<rparr>"
  have "snd (remove_upload env i s) \<in> {s\<lparr>s3_dirs := del_key i (s3_dirs s)\<rparr>, set_dir i d' s}"
    unfolding remove_upload_def Some option.case Let_def keep_def [symmetric] d'_def [symmetric] by (simp split: option.split)
  moreover have "ud_control d' \<in> {None, ud_control d}" "ud_files d' = filter (\<lambda>f. keep (fst f)) (ud_files d)"
    by (simp_all add: d'_def)
  ultimately show ?thesis using Some by (auto simp: dir_of_def)
qed (simp add: remove_upload_def)

lemma uploads_ok_remove:
  assumes "uploads_ok s"
  shows "uploads_ok (snd (remove_upload env i s))"
  using remove_upload_state [of env i s]
proof
  assume "snd (remove_upload env i s) \<in> {s, s\<lparr>s3_dirs := del_key i (s3_dirs s)\<rparr>}"
  thus ?thesis using assms uploads_ok_del [OF assms, of i] by (elim insertE emptyE) (simp_all only:)
next
  assume "\<exists>d d' P. dir_of s i = Some d \<and> ud_control d' \<in> {None, ud_control d} \<and> ud_files d' = filter P (ud_files d) \<and>
     snd (remove_upload env i s) = set_dir i d' s"
  then obtain d d' P where d: "dir_of s i = Some d" "ud_control d' \<in> {None, ud_control d}" "ud_files d' = filter P (ud_files d)"
    and e: "snd (remove_upload env i s) = set_dir i d' s" by blast
  have "updir_ok i d" using assms d(1) by (simp add: uploads_ok_def)
  thus ?thesis unfolding e by (rule uploads_ok_set [OF assms updir_ok_remove [OF _ d(2,3)]])
qed

text \<open>Every step keeps the invariant.\<close>

lemma uploads_ok_mkdir: "uploads_ok s \<Longrightarrow> uploads_ok (snd (mkdir_upload env i s))"
  by (auto simp: mkdir_upload_def uploads_ok_set split: option.split)

lemma uploads_ok_control: "uploads_ok s \<Longrightarrow> validMultipartUploadID i \<Longrightarrow> uploads_ok (snd (write_control env i u s))"
  by (auto simp: write_control_def split: option.split intro!: uploads_ok_set) (simp add: updir_ok_def empty_dir_def)

lemma uploads_ok_create:
  assumes "create_loop env u ids s = Some (r, s')" "uploads_ok s" "list_all validMultipartUploadID ids"
  shows "uploads_ok s'"
  using assms
proof (induction env u ids s rule: create_loop.induct)
  case (2 env u i ids s)
  obtain e1 s1 where m: "mkdir_upload env i s = (e1, s1)" by fastforce
  have ok1: "uploads_ok s1" using uploads_ok_mkdir [OF "2.prems"(2), of env i] m by simp
  show ?case
  proof (cases e1)
    case (Some e)
    thus ?thesis using "2.prems" m ok1 "2.IH" [OF m [symmetric] Some] by (auto split: if_splits)
  next
    case None
    obtain e2 s2 where w: "write_control env i u s1 = (e2, s2)" by fastforce
    have "uploads_ok s2" using uploads_ok_control [OF ok1, of i env u] "2.prems"(3) w by simp
    thus ?thesis using "2.prems"(1) m None w uploads_ok_remove [of s2 env i] by (auto split: option.splits)
  qed
qed simp

lemma uploads_ok_put_part:
  assumes "uploads_ok s" "\<forall>n. part_number name = Some n \<longrightarrow> 0 < n \<and> n < 2 ^ 63 \<and> name = multipartPartName n"
  shows "uploads_ok (put_part i name f s)"
proof (cases "map_of (s3_dirs s) i")
  case (Some d)
  hence "updir_ok i (d\<lparr>ud_files := put_key name f (ud_files d)\<rparr>)"
    using assms by (auto simp: uploads_ok_def dir_of_def updir_ok_def)
  thus ?thesis using Some uploads_ok_set [OF assms(1)] by (simp add: put_part_def)
qed (use assms in \<open>simp add: put_part_def\<close>)

lemma uploads_ok_del_part:
  assumes "uploads_ok s"
  shows "uploads_ok (del_part i name s)"
proof (cases "map_of (s3_dirs s) i")
  case (Some d)
  hence "updir_ok i (d\<lparr>ud_files := del_key name (ud_files d)\<rparr>)"
    using assms by (auto simp: uploads_ok_def dir_of_def updir_ok_def)
  thus ?thesis using Some uploads_ok_set [OF assms(1)] by (simp add: del_part_def)
qed (use assms in \<open>simp add: del_part_def\<close>)

lemma temp_no_part: "list_all is_digit t \<Longrightarrow> part_number (''.part-'' @ t) = None"
proof -
  assume t: "list_all is_digit t"
  have "last (''.part-'' @ t) \<noteq> CHR ''t''"
  proof (cases "t = []")
    case False
    hence "is_digit (last t)" using t by (simp add: list_all_iff)
    moreover have "\<not> is_digit CHR ''t''" by code_simp
    ultimately show ?thesis using False by auto
  qed simp
  moreover have "has_suffix s ''.part'' \<Longrightarrow> last s = CHR ''t''" for s by (auto simp: has_suffix_iff)
  ultimately have "\<not> has_suffix (''.part-'' @ t) ''.part''" by blast
  thus ?thesis by (simp only: part_number_def simp_thms if_True)
qed

lemma UploadPart_states:
  assumes "UploadPart md5 maxPart env bucket object i n len input s = (r, s')"
  shows "s' = s \<or> (\<exists>c. s' = put_part i (''.part-'' @ ev_tmp env) c s \<or>
      s' = del_part i (''.part-'' @ ev_tmp env) (put_part i (''.part-'' @ ev_tmp env) c s) \<or>
      0 < n \<and> n \<le> maxPart \<and>
      s' = put_part i (multipartPartName n) c (del_part i (''.part-'' @ ev_tmp env) (put_part i (''.part-'' @ ev_tmp env) c s)))"
proof (cases "n \<le> 0 \<or> n > maxPart \<or> len < 0")
  case True
  thus ?thesis using assms by (simp add: UploadPart_def)
next
  case ok: False
  show ?thesis
  proof (cases "multipartUpload env bucket object i s")
    case (Inl e)
    thus ?thesis using assms ok by (simp add: UploadPart_def)
  next
    case (Inr u)
    let ?c = "(take (nat (wrap64 (len + 1))) (fst input), ev_now env)"
    have n: "0 < n" "n \<le> maxPart" using ok by simp_all
    show ?thesis
      using assms n unfolding UploadPart_def Let_def Inr sum.case
      by (simp only: ok if_False split: option.splits if_splits prod.splits) (metis prod.inject)+
  qed
qed

lemma UploadPart_others:
  assumes "UploadPart md5 maxPart env bucket object i n len input s = (r, s')" "j \<noteq> i"
  shows "dir_of s' j = dir_of s j"
proof -
  have p: "dir_of (put_part i f c t) j = dir_of t j" "dir_of (del_part i f t) j = dir_of t j" for f c and t :: "'a s3"
    using assms(2) by simp_all
  from UploadPart_states [OF assms(1)] show ?thesis by (elim disjE exE conjE) (simp_all only: p)
qed

lemma uploads_ok_upload:
  assumes "UploadPart md5 maxPart env bucket object i n len input s = (r, s')" "uploads_ok s" "env_ok env" "maxPart < 2 ^ 63"
  shows "uploads_ok s'"
proof -
  have tmp: "uploads_ok (put_part i (''.part-'' @ ev_tmp env) c s)" for c
    using assms(3) temp_no_part [of "ev_tmp env"] by (intro uploads_ok_put_part [OF assms(2)]) (simp add: env_ok_def)
  have name: "uploads_ok (put_part i (multipartPartName n) c t)" if "uploads_ok t" "0 < n" "n \<le> maxPart" for c t
  proof (rule uploads_ok_put_part [OF that(1)], intro allI impI)
    fix m assume m: "part_number (multipartPartName n) = Some m"
    have "n < 2 ^ 63" using that(3) assms(4) by (rule order_le_less_trans)
    with part_number_name [OF that(2)] m that(2) show "0 < m \<and> m < 2 ^ 63 \<and> multipartPartName n = multipartPartName m" by simp
  qed
  from UploadPart_states [OF assms(1)] show ?thesis using assms(2) tmp name uploads_ok_del_part by metis
qed

lemma rename_dir_states:
  "rename_dir env i j s = (r, t) \<Longrightarrow> t = s \<or> (\<exists>d. dir_of s i = Some d \<and> t = s\<lparr>s3_dirs := put_key j d (del_key i (s3_dirs s))\<rparr>)"
  by (auto simp: rename_dir_def dir_of_def split: option.splits if_splits)

lemma uploads_ok_rename:
  assumes "rename_dir env i (''.completed-'' @ i) s = (r, t)" "uploads_ok s"
  shows "uploads_ok t"
proof -
  consider "t = s" | d where "dir_of s i = Some d" "t = s\<lparr>s3_dirs := put_key (''.completed-'' @ i) d (del_key i (s3_dirs s))\<rparr>"
    using rename_dir_states [OF assms(1)] by blast
  thus ?thesis
  proof cases
    case 2
    have "updir_ok i d" using assms(2) 2(1) by (simp add: uploads_ok_def)
    hence "updir_ok (''.completed-'' @ i) d" unfolding updir_ok_def by (metis has_prefix_append)
    moreover have "t = set_dir (''.completed-'' @ i) d (s\<lparr>s3_dirs := del_key i (s3_dirs s)\<rparr>)" by (simp add: set_dir_def 2(2))
    ultimately show ?thesis using uploads_ok_set [OF uploads_ok_del [OF assms(2)]] by simp
  qed (use assms in simp)
qed

lemma uploads_ok_complete:
  assumes "CompleteMultipartUpload md5 putObject env bucket object i parts s = (r, s')" "uploads_ok s"
  shows "uploads_ok s'"
  using assms(1)
proof (cases rule: CompleteMultipartUpload_run)
  case (stored u paths digests size v ob q t)
  have "uploads_ok (s\<lparr>s3_objects := ob\<rparr>)" using assms(2) by simp
  from uploads_ok_rename [OF stored(5) this] have "uploads_ok t" .
  thus ?thesis unfolding stored(6) by (rule uploads_ok_remove)
qed (use assms in simp_all)

lemma uploads_ok_step:
  assumes "s3_step md5 maxPart putObject s s'" "uploads_ok s" "maxPart < 2 ^ 63"
  shows "uploads_ok s'"
  using assms
proof (cases rule: s3_step.cases)
  case (create env bucket object metadata r)
  thus ?thesis using uploads_ok_create [OF _ assms(2)] by (auto simp: CreateMultipartUpload_def env_ok_def)
next
  case (abort env bucket object i e)
  thus ?thesis using assms(2) uploads_ok_remove [OF assms(2), of env i] by (auto simp: AbortMultipartUpload_def split: sum.splits)
qed (use assms uploads_ok_upload uploads_ok_complete in \<open>auto\<close>)

lemma reach_uploads_ok:
  assumes "s3_reach md5 maxPart putObject s" "maxPart < 2 ^ 63"
  shows "uploads_ok s"
  using assms
proof (induction rule: s3_reach.induct)
  case (init ob)
  show ?case by (simp add: uploads_ok_def dir_of_def)
next
  case (step s s')
  from uploads_ok_step [OF step.hyps(2) step.IH [OF assms(2)] assms(2)] show ?case .
qed

end
