(* ===== verification/S3Pages.thy ===== *)
theory S3Pages
  imports S3MultipartSpec
begin

text \<open>
  \<open>ListParts\<close> and \<open>ListMultipartUploads\<close> as paged listings: the two interpretations of the paging interface on
  the multipart store, which give the client's walk over all pages.
\<close>

section \<open>Pages of parts\<close>

definition no_faults :: "s3env \<Rightarrow> bool" where
  "no_faults env \<longleftrightarrow> ev_fault env = (\<lambda>_ _. None)"

definition part_numbers :: "'o s3 \<Rightarrow> string \<Rightarrow> int list" where
  "part_numbers s i = sort (List.map_filter part_number (case map_of (s3_dirs s) i of None \<Rightarrow> [] | Some d \<Rightarrow> map fst (ud_files d)))"

definition part_item_of :: "(string \<Rightarrow> string) \<Rightarrow> 'o s3 \<Rightarrow> string \<Rightarrow> int \<Rightarrow> part_item" where
  "part_item_of md5 s i n = (case part_file s i (multipartPartName n) of
     None \<Rightarrow> \<lparr>pi_number = n, pi_etag = [], pi_size = 0, pi_modified = 0\<rparr>
   | Some (c, t) \<Rightarrow> \<lparr>pi_number = n, pi_etag = quoted_hex (md5 c), pi_size = int (length c), pi_modified = t\<rparr>)"

text \<open>The loop over sorted part numbers whose files are there: skip to the marker, take at most the limit.\<close>

lemma parts_loop_spec:
  assumes "\<forall>n \<in> set ns. info n = Inr (f n)" "sorted ns" "0 \<le> limit"
  shows "parts_loop info marker limit acc ns =
    (let rest = filter (\<lambda>n. marker < n) ns; k = nat (limit - int (length acc)) in
     Inr (acc @ map f (take k rest), k < length rest))"
  using assms
proof (induction ns arbitrary: acc)
  case (Cons n ns)
  hence IH: "parts_loop info marker limit acc' ns = (let rest = filter (\<lambda>n. marker < n) ns; k = nat (limit - int (length acc')) in
     Inr (acc' @ map f (take k rest), k < length rest))" for acc' by simp
  show ?case
  proof (cases "n \<le> marker")
    case True
    thus ?thesis using IH by simp
  next
    case False
    show ?thesis
    proof (cases "limit \<le> int (length acc)")
      case True
      thus ?thesis using False by simp
    next
      case less: False
      hence "nat (limit - int (length acc)) = Suc (nat (limit - int (length (acc @ [f n]))))" by simp
      thus ?thesis using False less IH [of "acc @ [f n]"] Cons.prems(1) by (simp add: Let_def)
    qed
  qed
qed (simp add: Let_def)

lemma set_map_filter: "set (List.map_filter f xs) = {y. \<exists>x \<in> set xs. f x = Some y}"
  by (induction xs) (auto simp: List.map_filter_simps split: option.split)

lemma distinct_map_filter:
  "distinct xs \<Longrightarrow> \<forall>x \<in> set xs. \<forall>y. f x = Some y \<longrightarrow> x = g y \<Longrightarrow> distinct (List.map_filter f xs)"
proof (induction xs)
  case (Cons x xs)
  have "y \<notin> set (List.map_filter f xs)" if "f x = Some y" for y
    using Cons.prems that by (auto simp: set_map_filter)
  thus ?case using Cons by (auto simp: List.map_filter_simps split: option.split)
qed (simp add: List.map_filter_simps)

lemma part_numbers_facts:
  assumes "uploads_ok s"
  shows "sorted (part_numbers s i)" "distinct (part_numbers s i)"
    "set (part_numbers s i) = {n. 0 < n \<and> n < 2 ^ 63 \<and> part_file s i (multipartPartName n) \<noteq> None}"
proof -
  show "sorted (part_numbers s i)" by (simp add: part_numbers_def)
  let ?names = "case map_of (s3_dirs s) i of None \<Rightarrow> [] | Some d \<Rightarrow> map fst (ud_files d)"
  have names: "distinct ?names" "\<forall>name \<in> set ?names. \<forall>n. part_number name = Some n \<longrightarrow> 0 < n \<and> n < 2 ^ 63 \<and> name = multipartPartName n"
    using assms by (auto simp: uploads_ok_def updir_ok_def dir_of_def gomap_ok_def split: option.split)
  have isfile: "part_file s i name \<noteq> None \<longleftrightarrow> name \<in> set ?names" for name
  proof -
    have "map_of m k \<noteq> None \<longleftrightarrow> k \<in> fst ` set m" for m :: "(string \<times> string \<times> int) list" and k
      by (simp add: map_of_eq_None_iff)
    thus ?thesis by (cases "map_of (s3_dirs s) i") (simp_all only: part_file_def bind.simps option.case list.set set_map empty_iff simp_thms)
  qed
  have "set (List.map_filter part_number ?names) = {n. \<exists>name \<in> set ?names. part_number name = Some n}"
    by (rule set_map_filter)
  also have "\<dots> = {n. 0 < n \<and> n < 2 ^ 63 \<and> multipartPartName n \<in> set ?names}" (is "?A = ?B")
  proof (rule set_eqI)
    fix n
    show "n \<in> ?A \<longleftrightarrow> n \<in> ?B" using names(2) part_number_name [of n] by blast
  qed
  finally show "set (part_numbers s i) = {n. 0 < n \<and> n < 2 ^ 63 \<and> part_file s i (multipartPartName n) \<noteq> None}"
    unfolding isfile by (simp only: part_numbers_def set_sort)
  have "distinct (List.map_filter part_number ?names)"
    using names(2) by (intro distinct_map_filter [OF names(1), of part_number multipartPartName]) blast
  thus "distinct (part_numbers s i)" by (simp add: part_numbers_def)
qed

text \<open>A client's page of parts: upload, limit and state, and the marker 0 before the first part.\<close>

type_synonym 'o parts_query = "(string \<Rightarrow> string) \<times> s3env \<times> string \<times> string \<times> string \<times> int \<times> 'o s3"

fun parts_page :: "'o parts_query \<Rightarrow> int option \<Rightarrow> part_item list \<times> int option" where
  "parts_page (md5, env, bucket, object, i, limit, s) m =
     (case ListParts md5 env bucket object i (case m of None \<Rightarrow> 0 | Some k \<Rightarrow> k) limit s of
        Inl e \<Rightarrow> ([], None)
      | Inr r \<Rightarrow> (pl_parts r, if pl_truncated r then Some (pl_next r) else None))"

fun parts_query_ok :: "'o parts_query \<Rightarrow> bool" where
  "parts_query_ok (md5, env, bucket, object, i, limit, s) \<longleftrightarrow>
     0 < limit \<and> no_faults env \<and> uploads_ok s \<and> (\<exists>u. multipartUpload env bucket object i s = Inr u)"

fun all_parts :: "'o parts_query \<Rightarrow> part_item list" where
  "all_parts (md5, env, bucket, object, i, limit, s) = map (part_item_of md5 s i) (part_numbers s i)"

lemma pi_number_item [simp]: "pi_number (part_item_of md5 s i n) = n"
  by (simp add: part_item_of_def split: option.split prod.split)

lemma parts_page_spec:
  assumes "parts_query_ok (md5, env, bucket, object, i, limit, s)" "0 \<le> k"
  shows "parts_page (md5, env, bucket, object, i, limit, s) (if k = 0 then None else Some k) =
    (let rest = map (part_item_of md5 s i) (filter (\<lambda>n. k < n) (part_numbers s i)) in
     (take (nat limit) rest, if nat limit < length rest then Some (pi_number (last (take (nat limit) rest))) else None))"
proof -
  have ok: "uploads_ok s" "no_faults env" "0 < limit" using assms by simp_all
  obtain u where u: "multipartUpload env bucket object i s = Inr u" using assms by auto
  have info: "\<forall>n \<in> set (part_numbers s i). part_info_item md5 env i s n = Inr (part_item_of md5 s i n)"
    unfolding part_numbers_facts(3) [OF ok(1)] using ok(2)
    by (auto simp: part_info_item_def multipartPartInfo_def part_item_of_def no_faults_def)
  note loop = parts_loop_spec [OF info part_numbers_facts(1) [OF ok(1)], of limit k "[]"]
  have "(case (if k = 0 then None else Some k) of None \<Rightarrow> 0 | Some k \<Rightarrow> k) = k" by simp
  hence "ListParts md5 env bucket object i (case (if k = 0 then None else Some k) of None \<Rightarrow> 0 | Some k \<Rightarrow> k) limit s =
    (let rest = filter (\<lambda>n. k < n) (part_numbers s i); ps = map (part_item_of md5 s i) (take (nat limit) rest); t = nat limit < length rest in
     Inr \<lparr>pl_parts = ps, pl_truncated = t, pl_next = (if t \<and> ps \<noteq> [] then pi_number (last ps) else 0)\<rparr>)"
    using ok loop u by (simp add: ListParts_def no_faults_def Let_def part_numbers_def del: split_paired_All)
  thus ?thesis using ok(3) by (auto simp: Let_def take_map)
qed

lemma filter_above:
  assumes "sorted xs" "distinct xs" "xs = ys @ (x::int) # zs"
  shows "filter (\<lambda>n. x < n) xs = zs"
proof -
  have "filter (\<lambda>n. x < n) ys = []" "filter (\<lambda>n. x < n) zs = zs"
    using assms by (auto simp: sorted_append filter_empty_conv not_less order.strict_iff_order filter_id_conv)
  thus ?thesis by (simp add: assms(3))
qed

interpretation parts: paged_listing parts_page all_parts pi_number parts_query_ok
proof unfold_locales
  fix q :: "'o parts_query" and rest assume ok: "parts_query_ok q" and r: "all_parts q = rest"
  obtain md5 env bucket object i limit s where q: "q = (md5, env, bucket, object, i, limit, s)" by (cases q) auto
  have pos: "filter (\<lambda>n. 0 < n) (part_numbers s i) = part_numbers s i"
    using ok part_numbers_facts(3) [of s i] by (auto simp: q intro!: filter_True)
  show "\<exists>n. parts_page q None = (take n rest, if n < length rest then Some (pi_number (last (take n rest))) else None) \<and> (rest \<noteq> [] \<longrightarrow> 0 < n)"
    using parts_page_spec [OF ok [unfolded q], of 0] ok pos unfolding r [symmetric] q
    by (intro exI [of _ "nat limit"]) (simp add: Let_def)
next
  fix q :: "'o parts_query" and "done" x rest assume ok: "parts_query_ok q" and r: "all_parts q = done @ x # rest"
  obtain md5 env bucket object i limit s where q: "q = (md5, env, bucket, object, i, limit, s)" by (cases q) auto
  from r obtain ys n zs where ns: "part_numbers s i = ys @ n # zs" "x = part_item_of md5 s i n" "rest = map (part_item_of md5 s i) zs"
    unfolding q all_parts.simps by (auto simp: map_eq_append_conv map_eq_Cons_conv)
  have s: "uploads_ok s" using ok by (simp add: q)
  note facts = part_numbers_facts [OF s, of i]
  have n: "0 < n" using facts(3) ns(1) by auto
  have "filter (\<lambda>m. n < m) (part_numbers s i) = zs" using filter_above [OF facts(1,2) ns(1)] .
  thus "\<exists>k. parts_page q (Some (pi_number x)) = (take k rest, if k < length rest then Some (pi_number (last (take k rest))) else None) \<and> (rest \<noteq> [] \<longrightarrow> 0 < k)"
    using parts_page_spec [OF ok [unfolded q], of n] n ok ns(2,3)
    by (intro exI [of _ "nat limit"]) (simp add: q Let_def)
qed

section \<open>Pages of uploads\<close>

type_synonym 'o uploads_query = "s3env \<times> string \<times> int \<times> 'o s3"

fun uploads_page :: "'o uploads_query \<Rightarrow> (string \<times> string) option \<Rightarrow> (string \<times> upload) list \<times> (string \<times> string) option" where
  "uploads_page (env, bucket, limit, s) m =
     (case ListMultipartUploads env bucket m (\<lambda>_. KeyMatch) limit s of
        Inl e \<Rightarrow> ([], None)
      | Inr r \<Rightarrow> (ul_uploads r, ul_next r))"

fun all_uploads :: "'o uploads_query \<Rightarrow> (string \<times> upload) list" where
  "all_uploads (env, bucket, limit, s) = (case multipartUploads env bucket s of Inl e \<Rightarrow> [] | Inr us \<Rightarrow> us)"

definition upload_marker :: "string \<times> upload \<Rightarrow> string \<times> string" where
  "upload_marker iu = (up_object (snd iu), fst iu)"

fun uploads_query_ok :: "'o uploads_query \<Rightarrow> bool" where
  "uploads_query_ok (env, bucket, limit, s) \<longleftrightarrow> 0 < limit \<and> no_faults env"

definition bucket_uploads :: "string \<Rightarrow> 'o s3 \<Rightarrow> string list \<Rightarrow> (string \<times> upload) list" where
  "bucket_uploads bucket s ids = List.map_filter (\<lambda>i. if validMultipartUploadID i
     then (case control_of s i of Some u \<Rightarrow> if up_bucket u = bucket then Some (i, u) else None | None \<Rightarrow> None) else None) ids"

lemma uploads_loop_spec:
  "no_faults env \<Longrightarrow> uploads_loop env bucket s ids = Inr (bucket_uploads bucket s ids)"
proof (induction ids)
  case (Cons i ids)
  show ?case
  proof (cases "validMultipartUploadID i")
    case False
    thus ?thesis using Cons by (simp add: bucket_uploads_def List.map_filter_simps)
  next
    case True
    show ?thesis
    proof (cases "control_of s i")
      case None
      hence "readMultipartUpload env i s = Inl ENOENT" using True Cons.prems
        by (auto simp: readMultipartUpload_def no_faults_def control_of_def dir_of_def)
      thus ?thesis using True Cons None by (simp add: is_not_exist_def bucket_uploads_def List.map_filter_simps)
    next
      case (Some u)
      hence "readMultipartUpload env i s = Inr u" using True Cons.prems by (simp add: readMultipartUpload_cases no_faults_def)
      thus ?thesis using True Cons Some by (simp add: bucket_uploads_def List.map_filter_simps)
    qed
  qed
qed (simp add: bucket_uploads_def List.map_filter_simps)

lemma multipartUploads_spec:
  assumes "no_faults env"
  shows "multipartUploads env bucket s = Inr (sort_key upload_order (bucket_uploads bucket s (sorted_keys (s3_dirs s))))"
proof -
  have "ev_fault env ''ReadDir'' [] = None" using assms by (simp add: no_faults_def)
  thus ?thesis by (simp add: multipartUploads_def uploads_loop_spec [OF assms])
qed

lemma bucket_uploads_ids:
  "fst ` set (bucket_uploads bucket s ids) \<subseteq> {i \<in> set ids. validMultipartUploadID i}"
  "distinct ids \<Longrightarrow> distinct (map fst (bucket_uploads bucket s ids))"
proof -
  have sub: "fst ` set (bucket_uploads bucket s ids) \<subseteq> {i \<in> set ids. validMultipartUploadID i}" for ids
  proof
    fix j assume "j \<in> fst ` set (bucket_uploads bucket s ids)"
    then obtain iu where iu: "iu \<in> set (bucket_uploads bucket s ids)" "j = fst iu" by blast
    from iu(1) obtain i where i: "i \<in> set ids" and e: "(if validMultipartUploadID i
        then (case control_of s i of Some u \<Rightarrow> if up_bucket u = bucket then Some (i, u) else None | None \<Rightarrow> None) else None) = Some iu"
      unfolding bucket_uploads_def set_map_filter mem_Collect_eq by blast
    have "validMultipartUploadID i" using e by (cases "validMultipartUploadID i") simp_all
    moreover have "fst iu = i" using e by (cases "validMultipartUploadID i"; cases "control_of s i"; cases "up_bucket (the (control_of s i)) = bucket") auto
    ultimately show "j \<in> {i \<in> set ids. validMultipartUploadID i}" using i iu(2) by simp
  qed
  thus "fst ` set (bucket_uploads bucket s ids) \<subseteq> {i \<in> set ids. validMultipartUploadID i}" .
  show "distinct ids \<Longrightarrow> distinct (map fst (bucket_uploads bucket s ids))"
  proof (induction ids)
    case (Cons i ids)
    have "bucket_uploads bucket s (i # ids) = bucket_uploads bucket s ids \<or>
        (\<exists>u. bucket_uploads bucket s (i # ids) = (i, u) # bucket_uploads bucket s ids)"
      by (auto simp: bucket_uploads_def List.map_filter_simps split: option.split)
    thus ?case using Cons sub [of ids] by (auto simp del: List.distinct.simps simp: distinct.simps)
  qed (simp add: bucket_uploads_def List.map_filter_simps)
qed

lemma upload_pages_past:
  assumes "int (length (ul_uploads r)) \<le> limit"
  shows "upload_pages (\<lambda>_. KeyMatch) m limit True seen r us =
    (let k = nat (limit - int (length (ul_uploads r))) in
     r\<lparr>ul_uploads := ul_uploads r @ take k us, ul_truncated := ul_truncated r \<or> k < length us\<rparr>)"
  using assms
proof (induction us arbitrary: r)
  case (Cons u us)
  show ?case
  proof (cases "limit \<le> int (length (ul_uploads r))")
    case True
    thus ?thesis using Cons.prems by simp
  next
    case False
    hence "nat (limit - int (length (ul_uploads r))) = Suc (nat (limit - int (length (ul_uploads (r\<lparr>ul_uploads := ul_uploads r @ [u]\<rparr>)))))"
      by simp
    thus ?thesis using False Cons.IH [of "r\<lparr>ul_uploads := ul_uploads r @ [u]\<rparr>"] by (simp add: Let_def)
  qed
qed (simp add: Let_def)

lemma upload_pages_skip:
  assumes "\<forall>iu \<in> set ys. up_object (snd iu) \<le> up_object (snd x) \<and> fst iu \<noteq> fst x" "fst x \<noteq> []"
  shows "upload_pages f (Some (upload_marker x)) limit False seen r (ys @ x # zs) =
    upload_pages f (Some (upload_marker x)) limit True seen r zs"
  using assms by (induction ys) (auto simp: upload_marker_def Let_def not_less)

lemma all_uploads_facts:
  assumes "no_faults env"
  shows "multipartUploads env bucket s = Inr (all_uploads (env, bucket, limit, s))"
    "sorted (map (\<lambda>iu. up_object (snd iu)) (all_uploads (env, bucket, limit, s)))"
    "distinct (map fst (all_uploads (env, bucket, limit, s)))" "\<forall>iu \<in> set (all_uploads (env, bucket, limit, s)). fst iu \<noteq> []"
proof -
  let ?us = "bucket_uploads bucket s (sorted_keys (s3_dirs s))"
  note spec = multipartUploads_spec [OF assms, of bucket s]
  thus "multipartUploads env bucket s = Inr (all_uploads (env, bucket, limit, s))" by simp
  have all: "all_uploads (env, bucket, limit, s) = sort_key upload_order ?us" using spec by simp
  have "sorted_wrt (\<lambda>x y. upload_order x \<le> upload_order y) (sort_key upload_order ?us)"
    using sorted_sort_key [of upload_order ?us] unfolding sorted_map .
  hence "sorted_wrt (\<lambda>x y. up_object (snd x) \<le> up_object (snd y)) (sort_key upload_order ?us)"
    by (rule sorted_wrt_mono_rel [rotated]) (auto simp: less_eq_prod_def upload_order_def)
  thus "sorted (map (\<lambda>iu. up_object (snd iu)) (all_uploads (env, bucket, limit, s)))"
    unfolding all sorted_map .
  show "distinct (map fst (all_uploads (env, bucket, limit, s)))"
    unfolding all by (rule distinct_sort_key [OF bucket_uploads_ids(2)]) simp
  show "\<forall>iu \<in> set (all_uploads (env, bucket, limit, s)). fst iu \<noteq> []"
    unfolding all set_sort using bucket_uploads_ids(1) [of bucket s "sorted_keys (s3_dirs s)"]
    by (fastforce simp: validMultipartUploadID_def)
qed

lemma uploads_page_rest:
  assumes "no_faults env" "0 < limit"
    and "upload_pages (\<lambda>_. KeyMatch) m limit (m = None) [] \<lparr>ul_uploads = [], ul_prefixes = [], ul_truncated = False, ul_next = None\<rparr>
        (all_uploads (env, bucket, limit, s)) =
      upload_pages (\<lambda>_. KeyMatch) m limit True [] \<lparr>ul_uploads = [], ul_prefixes = [], ul_truncated = False, ul_next = None\<rparr> rest"
  shows "uploads_page (env, bucket, limit, s) m =
    (take (nat limit) rest, if nat limit < length rest then Some (upload_marker (last (take (nat limit) rest))) else None)"
  unfolding uploads_page.simps ListMultipartUploads_def all_uploads_facts(1) [OF assms(1), of bucket s limit] bindR_simps assms(3)
  using assms(2) by (auto simp: upload_pages_past Let_def upload_marker_def)

interpretation uploads: paged_listing uploads_page all_uploads upload_marker uploads_query_ok
proof unfold_locales
  fix q :: "'o uploads_query" and rest assume ok: "uploads_query_ok q" and r: "all_uploads q = rest"
  obtain env bucket limit s where q: "q = (env, bucket, limit, s)" by (cases q) auto
  show "\<exists>n. uploads_page q None = (take n rest, if n < length rest then Some (upload_marker (last (take n rest))) else None) \<and>
      (rest \<noteq> [] \<longrightarrow> 0 < n)"
    using uploads_page_rest [of env limit None bucket s rest] ok r
    by (intro exI [of _ "nat limit"]) (simp add: q del: uploads_page.simps all_uploads.simps)
next
  fix q :: "'o uploads_query" and "done" x rest assume ok: "uploads_query_ok q" and r: "all_uploads q = done @ x # rest"
  obtain env bucket limit s where q: "q = (env, bucket, limit, s)" by (cases q) auto
  have nf: "no_faults env" "0 < limit" using ok by (simp_all add: q)
  note facts = all_uploads_facts [OF nf(1), where bucket = bucket and s = s and limit = limit, folded q, unfolded r]
  have before: "\<forall>iu \<in> set done. up_object (snd iu) \<le> up_object (snd x) \<and> fst iu \<noteq> fst x" "fst x \<noteq> []"
    using facts(2-4) by (auto simp: sorted_append dest: rev_image_eqI [of _ _ "fst x" fst])
  show "\<exists>n. uploads_page q (Some (upload_marker x)) = (take n rest, if n < length rest then Some (upload_marker (last (take n rest))) else None) \<and>
      (rest \<noteq> [] \<longrightarrow> 0 < n)"
    using uploads_page_rest [OF nf, of "Some (upload_marker x)" bucket s rest, folded q, unfolded r] upload_pages_skip [OF before] nf
    by (intro exI [of _ "nat limit"]) (simp add: q del: uploads_page.simps all_uploads.simps)
qed

end
