(* ===== verification/S3Client.thy ===== *)
theory S3Client
  imports S3Pages
begin

text \<open>
  A client's use of the multipart store: uploading all parts of an object without failures, and what completing
  such an upload then finds; and the copy of an object into a part, which the server routes here.
\<close>

section \<open>Uploading a whole object\<close>

text \<open>A client that uploads parts one by one and keeps the ETags it gets.\<close>

fun upload_run ::
  "(string \<Rightarrow> string) \<Rightarrow> int \<Rightarrow> s3env \<Rightarrow> string \<Rightarrow> string \<Rightarrow> string \<Rightarrow> (int \<times> string) list \<Rightarrow> ('o s3, (int \<times> string) list) op" where
  "upload_run md5 maxPart env bucket object i [] s = (Inr [], s)"
| "upload_run md5 maxPart env bucket object i ((n, body) # parts) s =
     (case UploadPart md5 maxPart env bucket object i n (int (length body)) (body, None) s of
        (Inl e, s1) \<Rightarrow> (Inl e, s1)
      | (Inr etag, s1) \<Rightarrow>
          (case upload_run md5 maxPart env bucket object i parts s1 of
             (Inl e, s2) \<Rightarrow> (Inl e, s2)
           | (Inr tags, s2) \<Rightarrow> (Inr ((n, etag) # tags), s2)))"

lemma multipartUpload_same: "control_of s' i = control_of s i \<Longrightarrow> multipartUpload env bucket object i s' = multipartUpload env bucket object i s"
  unfolding multipartUpload_def readMultipartUpload_def control_of_def dir_of_def by (simp only:)

lemma UploadPart_succeeds:
  assumes "no_faults env" "multipartUpload env bucket object i s = Inr u" "0 < n" "n \<le> maxPart" "int (length body) + 1 < 2 ^ 63"
  shows "UploadPart md5 maxPart env bucket object i n (int (length body)) (body, None) s =
    (Inr (quoted_hex (md5 body)), put_part i (multipartPartName n) (body, ev_now env)
      (del_part i (''.part-'' @ ev_tmp env) (put_part i (''.part-'' @ ev_tmp env) (body, ev_now env) s)))"
proof -
  have "nat (wrap64 (int (length body) + 1)) = Suc (length body)"
    using wrap64_id [of "int (length body) + 1"] assms(5) by simp
  thus ?thesis using assms by (simp add: UploadPart_def no_faults_def Let_def)
qed

lemma upload_run_spec:
  assumes "no_faults env" "multipartUpload env bucket object i s = Inr u"
    and "\<forall>p \<in> set parts. 0 < fst p \<and> fst p \<le> maxPart \<and> int (length (snd p)) + 1 < 2 ^ 63" "maxPart < 2 ^ 63" "distinct (map fst parts)"
  shows "\<exists>s1. upload_run md5 maxPart env bucket object i parts s = (Inr (map (\<lambda>(n, body). (n, quoted_hex (md5 body))) parts), s1) \<and>
    s3_objects s1 = s3_objects s \<and> control_of s1 i = control_of s i \<and>
    (\<forall>n. 0 < n \<and> n < 2 ^ 63 \<longrightarrow> part_file s1 i (multipartPartName n) =
       (case map_of parts n of Some body \<Rightarrow> Some (body, ev_now env) | None \<Rightarrow> part_file s i (multipartPartName n)))"
  using assms(2,3,5)
proof (induction parts arbitrary: s)
  case (Cons p parts)
  obtain n body where p: "p = (n, body)" by fastforce
  have n: "0 < n" "n \<le> maxPart" "int (length body) + 1 < 2 ^ 63" using Cons.prems(2) by (simp_all add: p)
  define s0 where "s0 = put_part i (multipartPartName n) (body, ev_now env)
      (del_part i (''.part-'' @ ev_tmp env) (put_part i (''.part-'' @ ev_tmp env) (body, ev_now env) s))"
  have up: "UploadPart md5 maxPart env bucket object i n (int (length body)) (body, None) s = (Inr (quoted_hex (md5 body)), s0)"
    unfolding s0_def by (rule UploadPart_succeeds [OF assms(1) Cons.prems(1) n])
  have kept: "control_of s0 = control_of s" "s3_objects s0 = s3_objects s" by (simp_all add: s0_def fun_eq_iff)
  have n63: "n < 2 ^ 63" using n(2) assms(4) by (rule order_le_less_trans)
  have files: "part_file s0 i (multipartPartName m) = (if m = n then Some (body, ev_now env) else part_file s i (multipartPartName m))"
    if "0 < m" "m < 2 ^ 63" for m
  proof -
    have "multipartPartName m = multipartPartName n \<longleftrightarrow> m = n" using partName_inj [OF that n(1) n63] by blast
    thus ?thesis using found_upload(5) [OF Cons.prems(1)] partName_not_temp [of m "ev_tmp env"]
      by (simp only: s0_def part_put_part part_del_part dir_of_put_part dir_of_del_part option.map_disc_iff simp_thms if_True if_False cong: if_cong)
  qed
  have "control_of s0 i = control_of s i" using kept(1) by simp
  hence found: "multipartUpload env bucket object i s0 = Inr u" using Cons.prems(1) by (simp only: multipartUpload_same [of s0 i s])
  have rest: "\<forall>p \<in> set parts. 0 < fst p \<and> fst p \<le> maxPart \<and> int (length (snd p)) + 1 < 2 ^ 63" "distinct (map fst parts)"
    using Cons.prems(2,3) by simp_all
  from Cons.IH [OF found rest] obtain s1 where
    s1: "upload_run md5 maxPart env bucket object i parts s0 = (Inr (map (\<lambda>(n, body). (n, quoted_hex (md5 body))) parts), s1)"
      "s3_objects s1 = s3_objects s0" "control_of s1 i = control_of s0 i"
      "\<forall>n. 0 < n \<and> n < 2 ^ 63 \<longrightarrow> part_file s1 i (multipartPartName n) =
       (case map_of parts n of Some body \<Rightarrow> Some (body, ev_now env) | None \<Rightarrow> part_file s0 i (multipartPartName n))"
    by (elim exE conjE) (rule that)
  have none: "map_of parts n = None" using Cons.prems(3) by (simp add: p map_of_eq_None_iff)
  have "\<forall>m. 0 < m \<and> m < 2 ^ 63 \<longrightarrow> part_file s1 i (multipartPartName m) =
       (case map_of (p # parts) m of Some body \<Rightarrow> Some (body, ev_now env) | None \<Rightarrow> part_file s i (multipartPartName m))"
  proof (intro allI impI)
    fix m :: int assume m: "0 < m \<and> m < 2 ^ 63"
    have "part_file s1 i (multipartPartName m) =
       (case map_of parts m of Some body \<Rightarrow> Some (body, ev_now env) | None \<Rightarrow> part_file s0 i (multipartPartName m))"
      using s1(4) m by blast
    moreover have "part_file s0 i (multipartPartName m) = (if m = n then Some (body, ev_now env) else part_file s i (multipartPartName m))"
      using files m by blast
    ultimately show "part_file s1 i (multipartPartName m) =
       (case map_of (p # parts) m of Some body \<Rightarrow> Some (body, ev_now env) | None \<Rightarrow> part_file s i (multipartPartName m))"
      using none by (cases "m = n") (simp_all add: p split: option.split)
  qed
  moreover have "upload_run md5 maxPart env bucket object i (p # parts) s =
      (Inr (map (\<lambda>(n, body). (n, quoted_hex (md5 body))) (p # parts)), s1)"
    by (simp add: p up s1(1))
  ultimately show ?case using s1(2,3) kept by (intro exI [of _ s1]) simp
qed simp

lemma collect_parts_succeeds:
  assumes "no_faults env" "\<forall>p \<in> set parts. part_file s i (multipartPartName (fst p)) = Some (snd p, t)"
    and "0 \<le> k" "k + int (length (concat (map snd parts))) < 2 ^ 63"
  shows "collect_parts (\<lambda>name. multipartPartInfo md5 env i name s) paths dg k (map (\<lambda>(n, body). (n, quoted_hex (md5 body))) parts) =
    Inr (paths @ map (multipartPartName \<circ> fst) parts, dg @ concat (map (md5 \<circ> snd) parts), k + int (length (concat (map snd parts))))"
  using assms(2-)
proof (induction parts arbitrary: paths dg k)
  case (Cons p parts)
  obtain n body where p: "p = (n, body)" by fastforce
  have "multipartPartInfo md5 env i (multipartPartName n) s = Inr (quoted_hex (md5 body), md5 body, int (length body), t)"
    using Cons.prems(1) assms(1) by (simp add: p multipartPartInfo_def no_faults_def)
  moreover have "wrap64 (k + int (length body)) = k + int (length body)"
    using Cons.prems(2,3) by (intro wrap64_id) (simp_all add: p)
  ultimately show ?case using Cons.prems Cons.IH [of "k + int (length body)"] by (simp add: p add.assoc)
qed simp

lemma read_parts_succeeds:
  assumes "no_faults env" "\<forall>p \<in> set parts. part_file s i (multipartPartName (fst p)) = Some (snd p, t)"
  shows "read_parts (open_part env i s) (map (multipartPartName \<circ> fst) parts) = Inr (concat (map snd parts))"
  using assms(2) by (induction parts) (use assms(1) in \<open>simp_all add: open_part_def no_faults_def\<close>)

lemma CompleteMultipartUpload_eval:
  assumes "multipartUpload env bucket object i s = Inr u" "part_order_ok None parts"
    and "collect_parts (\<lambda>name. multipartPartInfo md5 env i name s) [] [] 0 parts = Inr (paths, digests, len)"
    and "putObject bucket object (up_metadata u) (read_parts (open_part env i s) paths) len (s3_objects s) = (w, ob)"
  shows "case w of
      Inl e \<Rightarrow> fst (CompleteMultipartUpload md5 putObject env bucket object i parts s) = Inl e
    | Inr v \<Rightarrow> \<exists>etag s2. CompleteMultipartUpload md5 putObject env bucket object i parts s = (Inr (v, etag), s2) \<and> s3_objects s2 = ob"
proof (cases w)
  case (Inl e)
  thus ?thesis using assms by (simp add: CompleteMultipartUpload_def)
next
  case (Inr v)
  obtain q t where ren: "rename_dir env i (''.completed-'' @ i) (s\<lparr>s3_objects := ob\<rparr>) = (q, t)" by fastforce
  have "s3_objects t = ob" using objects_rename [OF ren] by simp
  thus ?thesis unfolding Inr sum.case CompleteMultipartUpload_def assms(1,3) assms(4) [unfolded Inr] prod.case Let_def ren
    using assms(2) by (cases q) simp_all
qed

section \<open>Copying an object into a part\<close>

definition unhex :: "char \<Rightarrow> nat option" where
  "unhex c =
     (if CHR ''0'' \<le> c \<and> c \<le> CHR ''9'' then Some (of_char c - 48)
      else if CHR ''a'' \<le> c \<and> c \<le> CHR ''f'' then Some (of_char c - 87)
      else if CHR ''A'' \<le> c \<and> c \<le> CHR ''F'' then Some (of_char c - 55)
      else None)"

text \<open>\<open>url.PathUnescape\<close>\<close>

fun path_unescape :: "string \<Rightarrow> string option" where
  "path_unescape [] = Some []"
| "path_unescape (c # s) =
     (if c = CHR ''%'' then
        (case s of
           a # b # rest \<Rightarrow>
             (case (unhex a, unhex b) of
                (Some x, Some y) \<Rightarrow> map_option (Cons (char_of (16 * x + y))) (path_unescape rest)
              | _ \<Rightarrow> None)
         | _ \<Rightarrow> None)
      else map_option (Cons c) (path_unescape s))"

record copy_request =
  cr_method :: string
  cr_source :: string
  cr_range :: string
  cr_upload :: string
  cr_part :: string
  cr_path :: string

text \<open>Source bucket and object, target bucket and object, and the part number; \<open>None\<close> is left to the library.\<close>

definition copy_target :: "copy_request \<Rightarrow> ((string \<times> string) \<times> (string \<times> string) \<times> int) option" where
  "copy_target r =
     (if cr_method r \<noteq> ''PUT'' \<or> cr_source r = [] \<or> cr_upload r = [] \<or> cr_part r = [] then None
      else (case atoi (cr_part r) of
          None \<Rightarrow> None
        | Some n \<Rightarrow>
            if n \<le> 0 \<or> cr_range r \<noteq> [] then None
            else (case path_unescape (hd (go_splitn 2 CHR ''?'' (cr_source r))) of
                None \<Rightarrow> None
              | Some source \<Rightarrow>
                  (case (go_cut CHR ''/'' (trim_prefix source ''/''), go_cut CHR ''/'' (trim_prefix (cr_path r) ''/'')) of
                     (Some src, Some dst) \<Rightarrow> Some (src, dst, n)
                   | _ \<Rightarrow> None))))"

text \<open>\<open>getObject\<close> is the backend's: the contents as a reader and the size. The result is the ETag of the part.\<close>

definition UploadPartCopy ::
  "(string \<Rightarrow> string) \<Rightarrow> int \<Rightarrow> ('o \<Rightarrow> string \<Rightarrow> string \<Rightarrow> ((string \<times> gerror) \<times> int) result) \<Rightarrow> s3env \<Rightarrow> copy_request \<Rightarrow>
     'o s3 \<Rightarrow> string option \<times> 'o s3" where
  "UploadPartCopy md5 maxPart getObject env r s =
     (case copy_target r of
        None \<Rightarrow> (None, s)
      | Some ((sb, so), (db, ob), n) \<Rightarrow>
          (case getObject (s3_objects s) sb so of
             Inl e \<Rightarrow> (None, s)
           | Inr (contents, len) \<Rightarrow>
               (case UploadPart md5 maxPart env db ob (cr_upload r) n len contents s of
                  (Inl e, s') \<Rightarrow> (None, s')
                | (Inr etag, s') \<Rightarrow> (Some etag, s'))))"

text \<open>
  \<open>decorateObjectMetadata\<close>: the modification time of the file backs a missing \<open>Last-Modified\<close>; \<open>stat\<close> gives the
  time in the HTTP format.
\<close>

definition decorateObjectMetadata :: "(string \<Rightarrow> string result) \<Rightarrow> string \<Rightarrow> string gomap \<Rightarrow> string gomap" where
  "decorateObjectMetadata stat name metadata =
     (if map_of metadata ''Last-Modified'' \<notin> {None, Some []} then metadata
      else (case stat name of Inl e \<Rightarrow> metadata | Inr t \<Rightarrow> put_key ''Last-Modified'' t metadata))"

end
