(* ===== verification/S3Props.thy ===== *)
theory S3Props
  imports S3Client
begin

text \<open>
  The properties of the fake S3 server: completing an upload stores its parts in order or changes nothing, parts
  are replaced atomically, uploads do not disturb each other, and paged listings list everything once.
\<close>

section \<open>An upload to try\<close>

text \<open>A backend that keeps the objects put last in front, and a digest that is the identity.\<close>

definition ex_s3put :: "string \<Rightarrow> string \<Rightarrow> string gomap \<Rightarrow> string result \<Rightarrow> int \<Rightarrow> (((string \<times> string) \<times> string) list, string) op" where
  "ex_s3put bucket object metadata data len objects =
     (case data of Inl e \<Rightarrow> (Inl e, objects) | Inr d \<Rightarrow> (Inr ''v1'', ((bucket, object), d) # objects))"

definition ex_s3env :: s3env where
  "ex_s3env = \<lparr>ev_ids = [''AAAA''], ev_tmp = ''17'', ev_now = 5, ev_fault = (\<lambda>_ _. None)\<rparr>"

definition ex_upload :: upload where
  "ex_upload = \<lparr>up_bucket = ''b'', up_object = ''o'', up_metadata = [], up_initiated = 1\<rparr>"

definition ex_s3 :: "((string \<times> string) \<times> string) list s3" where
  "ex_s3 = \<lparr>s3_dirs = [(''AAAA'', \<lparr>ud_control = Some ex_upload, ud_control_tmp = False,
        ud_files = [(''00001.part'', (''hello '', 3)), (''00004.part'', (''world'', 4))]\<rparr>),
      (''BBBB'', \<lparr>ud_control = Some ex_upload, ud_control_tmp = False, ud_files = []\<rparr>)], s3_objects = []\<rparr>"

lemma ex_found: "multipartUpload ex_s3env ''b'' ''o'' ''AAAA'' ex_s3 = Inr ex_upload"
  by code_simp

lemma ex_no_faults: "no_faults ex_s3env"
  by (simp add: no_faults_def ex_s3env_def)

section \<open>Completing an upload\<close>

text \<open>
  C33: When completing an upload succeeds, the requested part numbers are positive and increase, every requested part
  is there with the requested ETag, and the backend was given exactly the contents of these parts one after the other,
  with their total length and the metadata of the upload.
\<close>

theorem complete_assembles:
  assumes "CompleteMultipartUpload md5 putObject env bucket object i parts s = (Inr (v, etag), s')"
    and "\<And>b k m e n ob. \<exists>e'. fst (putObject b k m (Inl e) n ob) = Inl e'"
  shows "\<exists>u contents size. multipartUpload env bucket object i s = Inr u \<and>
    sorted_wrt (<) (map fst parts) \<and> list_all (\<lambda>p. 0 < fst p) parts \<and> parts_match md5 s i parts contents \<and>
    wrap64 size = wrap64 (int (length (concat contents))) \<and>
    putObject bucket object (up_metadata u) (Inr (concat contents)) size (s3_objects s) = (Inr v, s3_objects s')"
proof -
  from CompleteMultipartUpload_spec(3) [OF assms(1) refl] obtain u contents data size where
    c: "multipartUpload env bucket object i s = Inr u" "sorted_wrt (<) (map fst parts)" "\<forall>p \<in> set parts. 0 < fst p"
      "parts_match md5 s i parts contents" "wrap64 size = wrap64 (int (length (concat contents)))"
      "data = Inr (concat contents) \<or> (\<exists>e. data = Inl e)"
      "putObject bucket object (up_metadata u) data size (s3_objects s) = (Inr v, s3_objects s')" by blast
  have "data = Inr (concat contents)"
  proof (rule ccontr)
    assume "data \<noteq> Inr (concat contents)"
    then obtain e where "data = Inl e" using c(6) by blast
    with assms(2) [of bucket object "up_metadata u" e size "s3_objects s"] c(7) show False by auto
  qed
  thus ?thesis using c by (auto simp: list_all_iff)
qed

theorem complete_assembles_witness:
  "\<exists>u contents size. multipartUpload ex_s3env ''b'' ''o'' ''AAAA'' ex_s3 = Inr u \<and>
    parts_match (\<lambda>s. s) ex_s3 ''AAAA'' [(1, quoted_hex ''hello ''), (4, quoted_hex ''world'')] contents \<and>
    ex_s3put ''b'' ''o'' (up_metadata u) (Inr (concat contents)) size [] = (Inr ''v1'', [((''b'', ''o''), ''hello world'')])"
proof -
  define r where "r = CompleteMultipartUpload (\<lambda>s. s) ex_s3put ex_s3env ''b'' ''o'' ''AAAA'' [(1, quoted_hex ''hello ''), (4, quoted_hex ''world'')] ex_s3"
  have f: "fst (CompleteMultipartUpload (\<lambda>s. s) ex_s3put ex_s3env ''b'' ''o'' ''AAAA'' [(1, quoted_hex ''hello ''), (4, quoted_hex ''world'')] ex_s3) =
      Inr (''v1'', CHR 0x22 # hex_string ''hello world'' @ ''-2'' @ [CHR 0x22])" by code_simp
  have ob: "s3_objects (snd (CompleteMultipartUpload (\<lambda>s. s) ex_s3put ex_s3env ''b'' ''o'' ''AAAA'' [(1, quoted_hex ''hello ''), (4, quoted_hex ''world'')] ex_s3)) =
      [((''b'', ''o''), ''hello world'')]" by code_simp
  have run: "CompleteMultipartUpload (\<lambda>s. s) ex_s3put ex_s3env ''b'' ''o'' ''AAAA'' [(1, quoted_hex ''hello ''), (4, quoted_hex ''world'')] ex_s3 =
      (Inr (''v1'', CHR 0x22 # hex_string ''hello world'' @ ''-2'' @ [CHR 0x22]), snd r)"
    unfolding r_def using f by (simp only: prod_eq_iff fst_conv snd_conv)
  have put: "\<exists>e'. fst (ex_s3put b k m (Inl e) n ob) = Inl e'" for b k m e n ob by (simp add: ex_s3put_def)
  have "s3_objects ex_s3 = []" by (simp add: ex_s3_def)
  thus ?thesis using complete_assembles [OF run put] ob unfolding r_def by (elim exE conjE) (intro exI conjI; simp)
qed

section \<open>Uploading parts\<close>

text \<open>
  Uploading a part replaces it as a whole or not at all: on success the part is the complete body of the announced
  length under its digest, on an error the previous part is kept, and either way no record, no object and no other file
  than the temporary one changes.
\<close>

theorem upload_part_atomic:
  assumes "UploadPart md5 maxPart env bucket object i n len input s = (r, s')" "len < 2 ^ 63"
  shows "s3_objects s' = s3_objects s \<and> control_of s' = control_of s \<and>
    (\<forall>j f. \<not> (j = i \<and> f \<in> {''.part-'' @ ev_tmp env, multipartPartName n}) \<longrightarrow> part_file s' j f = part_file s j f) \<and>
    (case r of
       Inl e \<Rightarrow> part_file s' i (multipartPartName n) = part_file s i (multipartPartName n)
     | Inr etag \<Rightarrow> int (length (fst input)) = len \<and> snd input = None \<and> etag = quoted_hex (md5 (fst input)) \<and>
         part_file s' i (multipartPartName n) = Some (fst input, ev_now env))"
proof (cases r)
  case (Inl e)
  thus ?thesis using UploadPart_spec(1,2) [OF assms(1)] unfolding part_kept_def Inl sum.case by blast
next
  case (Inr etag)
  thus ?thesis using UploadPart_spec(1) [OF assms(1)] UploadPart_spec(3) [OF assms(1) Inr assms(2)]
    unfolding part_kept_def Inr sum.case by blast
qed

theorem upload_part_atomic_witness:
  "part_file (snd (UploadPart (\<lambda>s. s) 10000 ex_s3env ''b'' ''o'' ''AAAA'' 4 3 (''new'', None) ex_s3)) ''AAAA'' ''00004.part'' = Some (''new'', 5)"
proof -
  have f: "fst (UploadPart (\<lambda>s. s) 10000 ex_s3env ''b'' ''o'' ''AAAA'' 4 3 (''new'', None) ex_s3) = Inr (quoted_hex ''new'')"
    by code_simp
  have name: "multipartPartName 4 = ''00004.part''" by code_simp
  have run: "UploadPart (\<lambda>s. s) 10000 ex_s3env ''b'' ''o'' ''AAAA'' 4 3 (''new'', None) ex_s3 =
      (Inr (quoted_hex ''new''), snd (UploadPart (\<lambda>s. s) 10000 ex_s3env ''b'' ''o'' ''AAAA'' 4 3 (''new'', None) ex_s3))"
    using f by (simp only: prod_eq_iff fst_conv snd_conv)
  have now: "ev_now ex_s3env = 5" by (simp add: ex_s3env_def)
  have "(3::int) < 2 ^ 63" by simp
  from upload_part_atomic [OF run this] show ?thesis unfolding sum.case name now fst_conv by blast
qed

text \<open>
  What happens to one upload leaves the directory of every other upload as it is.
\<close>

theorem uploads_isolated:
  assumes "j \<noteq> i" "validMultipartUploadID j"
  shows "dir_of (snd (UploadPart md5 maxPart env bucket object i n len input s)) j = dir_of s j \<and>
    dir_of (snd (AbortMultipartUpload env bucket object i s)) j = dir_of s j \<and>
    dir_of (snd (CompleteMultipartUpload md5 putObject env bucket object i parts s)) j = dir_of s j"
proof (intro conjI)
  show "dir_of (snd (UploadPart md5 maxPart env bucket object i n len input s)) j = dir_of s j"
    by (rule UploadPart_others [OF prod.collapse [symmetric] assms(1)])
  show "dir_of (snd (AbortMultipartUpload env bucket object i s)) j = dir_of s j"
    by (simp add: AbortMultipartUpload_def dir_of_remove_other [OF assms(1)] split: sum.split)
  show "dir_of (snd (CompleteMultipartUpload md5 putObject env bucket object i parts s)) j = dir_of s j"
    using CompleteMultipartUpload_spec(1) [OF prod.collapse [symmetric]] assms unfolding others_kept_def by blast
qed

theorem uploads_isolated_witness:
  "dir_of (snd (CompleteMultipartUpload (\<lambda>s. s) ex_s3put ex_s3env ''b'' ''o'' ''AAAA'' [(1, quoted_hex ''hello '')] ex_s3)) ''BBBB'' = dir_of ex_s3 ''BBBB''"
proof -
  have "''BBBB'' \<noteq> ''AAAA''" "validMultipartUploadID ''BBBB''" by code_simp+
  from conjunct2 [OF conjunct2 [OF uploads_isolated [OF this]]] show ?thesis .
qed

section \<open>Reading parts\<close>

text \<open>
  The reader over part files yields exactly the concatenation of the files, in order, whatever the sizes of the
  buffers it is read with, or the error of the first file that cannot be opened; and it does end.
\<close>

theorem reader_streams_parts:
  assumes "list_all (\<lambda>n. 0 < n) sizes"
  shows "(drain opn sizes \<lparr>rd_paths = paths, rd_current = None\<rparr> = Some res \<longrightarrow> res = read_parts opn paths) \<and>
    (read_parts opn paths = Inr content \<and> length content < length sizes \<longrightarrow>
       drain opn sizes \<lparr>rd_paths = paths, rd_current = None\<rparr> = Some (Inr content))"
proof -
  let ?r = "\<lparr>rd_paths = paths, rd_current = None\<rparr>"
  have "reader_rest opn ?r = read_parts opn paths" by (simp add: reader_rest_def)
  thus ?thesis using drain_reads_all [of sizes opn ?r res] drain_enough [of sizes opn ?r content] assms
    by (simp add: list_all_iff)
qed

theorem reader_streams_parts_witness:
  "drain (\<lambda>p. Inr p) [3, 1, 2, 5, 5, 5, 1] \<lparr>rd_paths = [''abc'', [], ''de''], rd_current = None\<rparr> = Some (Inr ''abcde'')"
proof -
  have "list_all (\<lambda>n::nat. 0 < n) [3, 1, 2, 5, 5, 5, 1]" by simp
  moreover have "read_parts (\<lambda>p. Inr p) [''abc'', [], ''de''] = Inr ''abcde''" by simp
  moreover have "length ''abcde'' < length [3, 1, 2, 5, 5, 5, 1 :: nat]" by simp
  ultimately show ?thesis
    using reader_streams_parts [of "[3, 1, 2, 5, 5, 5, 1]" "\<lambda>p. Inr p" "[''abc'', [], ''de'']" "Inr []" "''abcde''"] by blast
qed

section \<open>A whole upload\<close>

text \<open>
  C34: Without failures a client that uploads parts with increasing numbers and completes the upload with the ETags it
  got stores the concatenation of the bodies: completing answers what the backend answers to putting just that.
\<close>

theorem multipart_roundtrip:
  assumes "no_faults env" "multipartUpload env bucket object i s = Inr u" "maxPart < 2 ^ 63"
    and "list_all (\<lambda>(n, body). 0 < n \<and> n \<le> maxPart) parts" "sorted_wrt (<) (map fst parts)"
    and "int (length (concat (map snd parts))) + 1 < 2 ^ 63"
  shows "\<exists>tags s1. upload_run md5 maxPart env bucket object i parts s = (Inr tags, s1) \<and>
    (case putObject bucket object (up_metadata u) (Inr (concat (map snd parts))) (int (length (concat (map snd parts)))) (s3_objects s) of
       (Inl e, ob) \<Rightarrow> fst (CompleteMultipartUpload md5 putObject env bucket object i tags s1) = Inl e
     | (Inr v, ob) \<Rightarrow> (\<exists>etag s2. CompleteMultipartUpload md5 putObject env bucket object i tags s1 = (Inr (v, etag), s2) \<and>
         s3_objects s2 = ob))"
proof -
  let ?tags = "map (\<lambda>(n, body). (n, quoted_hex (md5 body))) parts" and ?all = "concat (map snd parts)"
  have small: "int (length (snd p)) + 1 < 2 ^ 63" if "p \<in> set parts" for p
    using assms(6) member_le_sum_list [of "length (snd p)" "map (length \<circ> snd) parts"] that
    by (auto simp: length_concat comp_def)
  have pos: "\<forall>p \<in> set parts. 0 < fst p \<and> fst p \<le> maxPart" using assms(4) by (auto simp: list_all_iff)
  have dist: "distinct (map fst parts)" using assms(5) by (simp add: strict_sorted_iff)
  from upload_run_spec [OF assms(1,2) _ assms(3) dist] pos small obtain s1 where
    run: "upload_run md5 maxPart env bucket object i parts s = (Inr ?tags, s1)" and ob: "s3_objects s1 = s3_objects s"
    and ctl: "control_of s1 i = control_of s i"
    and files: "\<forall>n. 0 < n \<and> n < 2 ^ 63 \<longrightarrow> part_file s1 i (multipartPartName n) =
       (case map_of parts n of Some body \<Rightarrow> Some (body, ev_now env) | None \<Rightarrow> part_file s i (multipartPartName n))"
    by blast
  have file_of: "\<forall>p \<in> set parts. part_file s1 i (multipartPartName (fst p)) = Some (snd p, ev_now env)"
  proof
    fix p assume p: "p \<in> set parts"
    have "fst p < 2 ^ 63" using pos p assms(3) by fastforce
    with files pos p have "part_file s1 i (multipartPartName (fst p)) =
       (case map_of parts (fst p) of Some body \<Rightarrow> Some (body, ev_now env) | None \<Rightarrow> part_file s i (multipartPartName (fst p)))" by blast
    moreover have "map_of parts (fst p) = Some (snd p)" using dist p by simp
    ultimately show "part_file s1 i (multipartPartName (fst p)) = Some (snd p, ev_now env)" by simp
  qed
  have up: "multipartUpload env bucket object i s1 = Inr u" using assms(2) multipartUpload_same [OF ctl] by metis
  have order: "part_order_ok None ?tags"
    using assms(5) pos unfolding part_order_sorted by (auto simp: comp_def case_prod_beta sorted_wrt_map)
  have "int (length ?all) < 2 ^ 63" using assms(6) by simp
  note col = collect_parts_succeeds [OF assms(1) file_of _ , of 0 md5 "[]" "[]", simplified, OF this [simplified]]
  note reads = read_parts_succeeds [OF assms(1) file_of]
  show ?thesis
  proof (intro exI [of _ ?tags] exI [of _ s1] conjI run)
    obtain w ob where put: "putObject bucket object (up_metadata u) (Inr ?all) (int (length ?all)) (s3_objects s) = (w, ob)" by fastforce
    have "putObject bucket object (up_metadata u) (read_parts (open_part env i s1) (map (multipartPartName \<circ> fst) parts))
        (int (length ?all)) (s3_objects s1) = (w, ob)" using put reads by (simp only: \<open>s3_objects s1 = s3_objects s\<close>)
    from CompleteMultipartUpload_eval [where putObject = putObject, OF up order col this]
    show "case putObject bucket object (up_metadata u) (Inr ?all) (int (length ?all)) (s3_objects s) of
       (Inl e, ob) \<Rightarrow> fst (CompleteMultipartUpload md5 putObject env bucket object i ?tags s1) = Inl e
     | (Inr v, ob) \<Rightarrow> (\<exists>etag s2. CompleteMultipartUpload md5 putObject env bucket object i ?tags s1 = (Inr (v, etag), s2) \<and>
         s3_objects s2 = ob)"
      unfolding put prod.case .
  qed
qed

theorem multipart_roundtrip_witness:
  "\<exists>tags s1 etag s2. upload_run (\<lambda>s. s) 10000 ex_s3env ''b'' ''o'' ''BBBB'' [(2, ''ab''), (7, ''c'')] ex_s3 = (Inr tags, s1) \<and>
    CompleteMultipartUpload (\<lambda>s. s) ex_s3put ex_s3env ''b'' ''o'' ''BBBB'' tags s1 = (Inr (''v1'', etag), s2) \<and>
    s3_objects s2 = [((''b'', ''o''), ''abc'')]"
proof -
  have f: "multipartUpload ex_s3env ''b'' ''o'' ''BBBB'' ex_s3 = Inr ex_upload" by code_simp
  have m: "(10000::int) < 2 ^ 63" by simp
  have p: "list_all (\<lambda>(n, body). 0 < n \<and> n \<le> 10000) [(2 :: int, ''ab''), (7, ''c'')]"
    "sorted_wrt (<) (map fst [(2 :: int, ''ab''), (7, ''c'')])" by simp_all
  have l: "int (length (concat (map snd [(2 :: int, ''ab''), (7, ''c'')]))) + 1 < 2 ^ 63" by simp
  have "s3_objects ex_s3 = []" by (simp add: ex_s3_def)
  with multipart_roundtrip [OF ex_no_faults f m p l, of "\<lambda>s. s" ex_s3put] show ?thesis
    by (elim exE conjE) (simp only: ex_s3put_def sum.case prod.case list.map snd_conv concat.simps append.simps, blast)
qed

section \<open>Listings\<close>

text \<open>
  A client that asks \<open>ListParts\<close> for page after page, in a reachable state and without failures, gets every part
  of the upload once, in ascending order of part numbers, and the walk ends.
\<close>

theorem list_parts_complete:
  assumes "s3_reach md5' maxPart putObject s" "maxPart < 2 ^ 63" "no_faults env" "multipartUpload env bucket object i s = Inr u"
    and "0 < limit" "length (part_numbers s i) < pages"
  shows "walk pages (parts_page (md5, env, bucket, object, i, limit, s)) None = Some (map (part_item_of md5 s i) (part_numbers s i)) \<and>
    sorted_wrt (<) (part_numbers s i) \<and>
    set (part_numbers s i) = {n. 0 < n \<and> n < 2 ^ 63 \<and> part_file s i (multipartPartName n) \<noteq> None}"
proof -
  have ok: "uploads_ok s" by (rule reach_uploads_ok [OF assms(1,2)])
  have "parts_query_ok (md5, env, bucket, object, i, limit, s)" using assms ok by simp
  from parts.walk_all [OF this] assms(6)
  have "walk pages (parts_page (md5, env, bucket, object, i, limit, s)) None = Some (map (part_item_of md5 s i) (part_numbers s i))"
    by simp
  thus ?thesis using part_numbers_facts [OF ok, of i] by (simp add: strict_sorted_iff)
qed

definition ex_started :: "((string \<times> string) \<times> string) list s3" where
  "ex_started = snd (the (CreateMultipartUpload ex_s3env ''b'' ''o'' [] \<lparr>s3_dirs = [], s3_objects = []\<rparr>))"

definition ex_uploaded :: "((string \<times> string) \<times> string) list s3" where
  "ex_uploaded = snd (upload_run (\<lambda>s. s) 10000 ex_s3env ''b'' ''o'' ''AAAA'' [(3, ''c'')] ex_started)"

lemma ex_reach: "s3_reach (\<lambda>s. s) 10000 ex_s3put ex_uploaded"
proof -
  have ok: "env_ok ex_s3env" by code_simp
  have "fst (the (CreateMultipartUpload ex_s3env ''b'' ''o'' [] \<lparr>s3_dirs = [], s3_objects = [] :: ((string \<times> string) \<times> string) list\<rparr>)) = Inr ''AAAA''"
    "CreateMultipartUpload ex_s3env ''b'' ''o'' [] \<lparr>s3_dirs = [], s3_objects = [] :: ((string \<times> string) \<times> string) list\<rparr> \<noteq> None"
    by code_simp+
  hence c: "CreateMultipartUpload ex_s3env ''b'' ''o'' [] \<lparr>s3_dirs = [], s3_objects = []\<rparr> = Some (Inr ''AAAA'', ex_started)"
    unfolding ex_started_def by (metis option.collapse prod.collapse)
  have r1: "s3_reach (\<lambda>s. s) 10000 ex_s3put ex_started"
    by (rule s3_reach.step [OF s3_reach.init s3_step.create [OF ok c]])
  have u: "snd (UploadPart (\<lambda>s. s) 10000 ex_s3env ''b'' ''o'' ''AAAA'' 3 1 (''c'', None) ex_started) = ex_uploaded"
  proof -
    have "int (length ''c'') = 1" by simp
    thus ?thesis unfolding ex_uploaded_def upload_run.simps by (simp split: prod.split sum.split)
  qed
  show ?thesis unfolding u [symmetric]
    by (rule s3_reach.step [OF r1 s3_step.upload [OF ok prod.collapse [symmetric]]])
qed

theorem list_parts_complete_witness:
  "walk 2 (parts_page (\<lambda>s. s, ex_s3env, ''b'', ''o'', ''AAAA'', 1, ex_uploaded)) None =
    Some [\<lparr>pi_number = 3, pi_etag = quoted_hex ''c'', pi_size = 1, pi_modified = 5\<rparr>]"
proof -
  have m: "(10000::int) < 2 ^ 63" "(0::int) < 1" by simp_all
  have f: "multipartUpload ex_s3env ''b'' ''o'' ''AAAA'' ex_uploaded = Inr \<lparr>up_bucket = ''b'', up_object = ''o'', up_metadata = [], up_initiated = 5\<rparr>"
    by code_simp
  have n: "part_numbers ex_uploaded ''AAAA'' = [3]" by code_simp
  have i: "part_item_of (\<lambda>s. s) ex_uploaded ''AAAA'' 3 = \<lparr>pi_number = 3, pi_etag = quoted_hex ''c'', pi_size = 1, pi_modified = 5\<rparr>"
    by code_simp
  have "length (part_numbers ex_uploaded ''AAAA'') < 2" by (simp add: n)
  from list_parts_complete [OF ex_reach m(1) ex_no_faults f m(2) this, of "\<lambda>s. s"] show ?thesis by (simp add: n i)
qed

text \<open>
  A client that asks \<open>ListMultipartUploads\<close> without a delimiter for page after page gets every upload of the
  bucket once, ordered by object, start and ID, and the walk ends.
\<close>

theorem list_uploads_complete:
  assumes "no_faults env" "0 < limit" "length (bucket_uploads bucket s (sorted_keys (s3_dirs s))) < pages"
  shows "walk pages (uploads_page (env, bucket, limit, s)) None =
    Some (sort_key upload_order (bucket_uploads bucket s (sorted_keys (s3_dirs s))))"
proof -
  have all: "all_uploads (env, bucket, limit, s) = sort_key upload_order (bucket_uploads bucket s (sorted_keys (s3_dirs s)))"
    unfolding all_uploads.simps multipartUploads_spec [OF assms(1)] sum.case ..
  have "uploads_query_ok (env, bucket, limit, s)" using assms by simp
  from uploads.walk_all [OF this] assms(3) show ?thesis unfolding all by simp
qed

theorem list_uploads_complete_witness:
  "walk 3 (uploads_page (ex_s3env, ''b'', 1, ex_s3)) None = Some [(''AAAA'', ex_upload), (''BBBB'', ex_upload)]"
proof -
  have b: "length (bucket_uploads ''b'' ex_s3 (sorted_keys (s3_dirs ex_s3))) < 3" by code_simp
  have "sort_key upload_order (bucket_uploads ''b'' ex_s3 (sorted_keys (s3_dirs ex_s3))) = [(''AAAA'', ex_upload), (''BBBB'', ex_upload)]"
    by code_simp
  thus ?thesis using list_uploads_complete [OF ex_no_faults _ b, of 1] by simp
qed

text \<open>
  With a delimiter a client sees a common prefix again: prefixes do not count towards the limit of a page, and
  the marker of the next page is the last upload before them, so the next page lists the same prefix once more.
\<close>

definition ex_prefixes :: "unit s3" where
  "ex_prefixes = \<lparr>s3_dirs = map (\<lambda>(i, ob). (i, \<lparr>ud_control = Some \<lparr>up_bucket = ''b'', up_object = ob, up_metadata = [], up_initiated = 1\<rparr>,
       ud_control_tmp = False, ud_files = []\<rparr>)) [(''AAAA'', ''x''), (''BBBB'', ''y/1''), (''CCCC'', ''z'')], s3_objects = ()\<rparr>"

definition slash_match :: "string \<Rightarrow> prefix_match" where
  "slash_match k = (case go_cut CHR ''/'' k of None \<Rightarrow> KeyMatch | Some (a, b) \<Rightarrow> PrefixMatch (a @ ''/''))"

theorem uploads_prefix_repeated:
  "\<exists>first second m. ListMultipartUploads ex_s3env ''b'' None slash_match 1 ex_prefixes = Inr first \<and> ul_next first = Some m \<and>
    ListMultipartUploads ex_s3env ''b'' (Some m) slash_match 1 ex_prefixes = Inr second \<and>
    map fst (ul_uploads first) = [''AAAA''] \<and> map fst (ul_uploads second) = [''CCCC''] \<and>
    ul_prefixes first = [''y/''] \<and> ul_prefixes second = [''y/'']"
proof -
  let ?one = "\<lparr>ul_uploads = [(''AAAA'', \<lparr>up_bucket = ''b'', up_object = ''x'', up_metadata = [], up_initiated = 1\<rparr>)],
      ul_prefixes = [''y/''], ul_truncated = True, ul_next = Some (''x'', ''AAAA'')\<rparr>"
  let ?two = "\<lparr>ul_uploads = [(''CCCC'', \<lparr>up_bucket = ''b'', up_object = ''z'', up_metadata = [], up_initiated = 1\<rparr>)],
      ul_prefixes = [''y/''], ul_truncated = False, ul_next = None\<rparr>"
  have "ListMultipartUploads ex_s3env ''b'' None slash_match 1 ex_prefixes = Inr ?one"
    "ListMultipartUploads ex_s3env ''b'' (Some (''x'', ''AAAA'')) slash_match 1 ex_prefixes = Inr ?two" by code_simp+
  thus ?thesis by (intro exI [of _ ?one] exI [of _ ?two] exI [of _ "(''x'', ''AAAA'')"]) simp
qed



end
