(* ===== verification/SeedRecords.thy ===== *)
theory SeedRecords
  imports Json
begin

text \<open>
  The records of a seed (\<open>datafile.Record\<close> of the Netsy library, as far as \<open>pkg/netsyseed\<close> uses it), and the
  rewriting of container images in \<open>rewriteSeedImages\<close> and \<open>rewriteImageFields\<close> of \<open>snapshot.go\<close>.
  A record's value is what its bytes decode to, so two encodings of a value are the same; \<open>None\<close> is a value that
  is not JSON. Decoding \<open>null\<close> into a map gives a nil map, which panics when a field is set.
\<close>

section \<open>Records\<close>

record seed_record =
  rc_key :: string
  rc_value :: "json option"
  rc_revision :: int
  rc_create :: int
  rc_prev :: int
  rc_created :: bool
  rc_version :: int
  rc_leader :: string

definition decode_fields :: "seed_record \<Rightarrow> fields option" where
  "decode_fields r =
     (case rc_value r of Some (JObj kvs) \<Rightarrow> Some kvs | Some JNull \<Rightarrow> Some [] | _ \<Rightarrow> None)"

definition nil_map :: "seed_record \<Rightarrow> bool" where
  "nil_map r \<longleftrightarrow> rc_value r = Some JNull"

definition panic_nil_map :: goerr where
  "panic_nil_map = Sentinel ''panic: assignment to entry in nil map''"

definition set_value :: "seed_record \<Rightarrow> fields \<Rightarrow> seed_record" where
  "set_value r obj = r\<lparr>rc_value := Some (JObj obj)\<rparr>"

definition fields_of :: "seed_record \<Rightarrow> fields" where
  "fields_of r = (case decode_fields r of Some obj \<Rightarrow> obj | None \<Rightarrow> [])"

lemma set_value_simps [simp]:
  "rc_key (set_value r obj) = rc_key r"
  "rc_value (set_value r obj) = Some (JObj obj)"
  "rc_revision (set_value r obj) = rc_revision r"
  "fields_of (set_value r obj) = obj"
  "decode_fields (set_value r obj) = Some obj"
  by (simp_all add: set_value_def fields_of_def decode_fields_def)

section \<open>Images\<close>

definition mirrored_image :: "string \<Rightarrow> json \<Rightarrow> bool \<times> json" where
  "mirrored_image base child =
     (case child of
        JStr img \<Rightarrow>
          if img \<noteq> [] \<and> \<not> has_prefix img (base @ ''/'') then (True, JStr (base @ ''/'' @ img)) else (False, child)
      | _ \<Rightarrow> (False, child))"

function rewriteImageFields :: "string \<Rightarrow> json \<Rightarrow> bool \<times> json" where
  "rewriteImageFields base (JObj kvs) =
     (let rs = map (\<lambda>(k, v). (k, if k = ''image'' then mirrored_image base v else rewriteImageFields base v)) kvs
      in (list_ex (\<lambda>(k, c, v). c) rs, JObj (map (\<lambda>(k, c, v). (k, v)) rs)))"
| "rewriteImageFields base (JArr xs) =
     (let rs = map (rewriteImageFields base) xs in (list_ex fst rs, JArr (map snd rs)))"
| "rewriteImageFields base JNull = (False, JNull)"
| "rewriteImageFields base (JBool b) = (False, JBool b)"
| "rewriteImageFields base (JNum x) = (False, JNum x)"
| "rewriteImageFields base (JStr s) = (False, JStr s)"
  by pat_completeness auto
termination
  by (relation "measure (size \<circ> snd)") (auto simp: json_size_arr json_size_obj)

definition mirror_base :: "string \<Rightarrow> string \<Rightarrow> string" where
  "mirror_base mirrorHostname mirrorPrefix =
     (let host = trim_suffix mirrorHostname ''/''; p = go_trim ''/'' (trim_space mirrorPrefix)
      in if p \<noteq> [] then host @ ''/'' @ p else host)"

definition rewrite_record :: "string \<Rightarrow> seed_record \<Rightarrow> seed_record" where
  "rewrite_record base r =
     (case rc_value r of
        None \<Rightarrow> r
      | Some v \<Rightarrow> (case rewriteImageFields base v of (changed, v') \<Rightarrow> if changed then r\<lparr>rc_value := Some v'\<rparr> else r))"

definition rewriteSeedImages :: "seed_record list \<Rightarrow> fields \<Rightarrow> string \<Rightarrow> string \<Rightarrow> seed_record list \<times> fields" where
  "rewriteSeedImages records componentValues mirrorHostname mirrorPrefix =
     (if trim_suffix mirrorHostname ''/'' = [] then (records, componentValues)
      else
        let base = mirror_base mirrorHostname mirrorPrefix
        in (map (rewrite_record base) records,
            case snd (rewriteImageFields base (JObj componentValues)) of JObj kvs \<Rightarrow> kvs | _ \<Rightarrow> componentValues))"

text \<open>Every image is empty or comes from the mirror; the value with the mirror taken off its images.\<close>

function images_mirrored :: "string \<Rightarrow> json \<Rightarrow> bool" where
  "images_mirrored base (JObj kvs) =
     list_all (\<lambda>(k, v). if k = ''image'' then (case v of JStr s \<Rightarrow> s = [] \<or> has_prefix s (base @ ''/'') | _ \<Rightarrow> True)
       else images_mirrored base v) kvs"
| "images_mirrored base (JArr xs) = list_all (images_mirrored base) xs"
| "images_mirrored base JNull = True"
| "images_mirrored base (JBool b) = True"
| "images_mirrored base (JNum x) = True"
| "images_mirrored base (JStr s) = True"
  by pat_completeness auto
termination
  by (relation "measure (size \<circ> snd)") (auto simp: json_size_arr json_size_obj)

definition plain_image :: "string \<Rightarrow> json \<Rightarrow> json" where
  "plain_image base v = (case v of JStr s \<Rightarrow> JStr (trim_prefix s (base @ ''/'')) | _ \<Rightarrow> v)"

function plain_images :: "string \<Rightarrow> json \<Rightarrow> json" where
  "plain_images base (JObj kvs) =
     JObj (map (\<lambda>(k, v). (k, if k = ''image'' then plain_image base v
       else plain_images base v)) kvs)"
| "plain_images base (JArr xs) = JArr (map (plain_images base) xs)"
| "plain_images base JNull = JNull"
| "plain_images base (JBool b) = JBool b"
| "plain_images base (JNum x) = JNum x"
| "plain_images base (JStr s) = JStr s"
  by pat_completeness auto
termination
  by (relation "measure (size \<circ> snd)") (auto simp: json_size_arr json_size_obj)

lemma mirrored_image_spec:
  "(case snd (mirrored_image base v) of JStr s \<Rightarrow> s = [] \<or> has_prefix s (base @ ''/'') | _ \<Rightarrow> True)"
  "fst (mirrored_image base v) \<longleftrightarrow> snd (mirrored_image base v) \<noteq> v"
  "plain_image base (snd (mirrored_image base v)) = plain_image base v"
  using trim_prefix_append [of "base @ ''/''"] has_prefix_append [of "base @ ''/''"]
  by (auto simp: plain_image_def mirrored_image_def trim_prefix_id simp del: has_prefix_append split: json.split)

lemma map_snd_id: "map (\<lambda>(k, v). (k, f k v)) kvs = kvs \<longleftrightarrow> (\<forall>(k, v) \<in> set kvs. f k v = v)"
  by (induction kvs) auto

text \<open>What becomes of a field.\<close>

definition rewritten :: "string \<Rightarrow> string \<Rightarrow> json \<Rightarrow> bool \<times> json" where
  "rewritten base k v = (if k = ''image'' then mirrored_image base v else rewriteImageFields base v)"

lemma rewrite_obj:
  "rewriteImageFields base (JObj kvs) =
     (list_ex (\<lambda>(k, v). fst (rewritten base k v)) kvs, JObj (map (\<lambda>(k, v). (k, snd (rewritten base k v))) kvs))"
  by (simp add: rewritten_def Let_def list_ex_iff case_prod_unfold comp_def split_def)

declare rewriteImageFields.simps(1) [simp del]

lemma rewrite_images_mirrored: "images_mirrored base (snd (rewriteImageFields base v))"
proof (induction base v rule: rewriteImageFields.induct)
  case (1 base kvs)
  have "images_mirrored base (snd (rewritten base k v))" if "(k, v) \<in> set kvs" "k \<noteq> ''image''" for k v
    using 1 [OF that(1) refl that(2)] that(2) by (simp add: rewritten_def)
  moreover have "rewritten base ''image'' v = mirrored_image base v" for v by (simp add: rewritten_def)
  ultimately show ?case using mirrored_image_spec(1) by (auto simp: rewrite_obj list_all_iff)
qed (auto simp: Let_def list_all_iff)

lemma rewrite_images_changed: "fst (rewriteImageFields base v) \<longleftrightarrow> snd (rewriteImageFields base v) \<noteq> v"
proof (induction base v rule: rewriteImageFields.induct)
  case (1 base kvs)
  have "fst (rewritten base k v) \<longleftrightarrow> snd (rewritten base k v) \<noteq> v" if "(k, v) \<in> set kvs" for k v
    using mirrored_image_spec(2) [of base v] 1 [OF that refl] by (simp add: rewritten_def)
  thus ?case by (fastforce simp: rewrite_obj list_ex_iff map_snd_id)
next
  case (2 base xs)
  have "map (\<lambda>x. snd (rewriteImageFields base x)) xs = xs \<longleftrightarrow> (\<forall>x \<in> set xs. snd (rewriteImageFields base x) = x)"
    by (induction xs) auto
  thus ?case using 2 by (auto simp: Let_def list_ex_iff comp_def)
qed simp_all

lemma rewrite_images_fixed: "images_mirrored base v \<Longrightarrow> rewriteImageFields base v = (False, v)"
proof (induction base v rule: rewriteImageFields.induct)
  case (1 base kvs)
  have "rewritten base k v = (False, v)" if m: "(k, v) \<in> set kvs" for k v
  proof (cases "k = ''image''")
    case True
    have "case v of JStr s \<Rightarrow> s = [] \<or> has_prefix s (base @ ''/'') | _ \<Rightarrow> True"
      using 1(2) m by (auto simp: list_all_iff True)
    thus ?thesis by (auto simp: rewritten_def mirrored_image_def True split: json.splits)
  next
    case False
    moreover have "images_mirrored base v" using 1(2) m False by (auto simp: list_all_iff)
    ultimately show ?thesis using 1(1) [OF m refl False] by (simp add: rewritten_def)
  qed
  thus ?case by (force simp: rewrite_obj list_ex_iff map_snd_id)
next
  case (2 base xs)
  hence "\<forall>x \<in> set xs. rewriteImageFields base x = (False, x)" by (simp add: list_all_iff)
  thus ?case by (auto simp: Let_def list_ex_iff comp_def intro!: map_idI)
qed simp_all

lemma plain_rewritten: "plain_images base (snd (rewriteImageFields base v)) = plain_images base v"
proof (induction base v rule: rewriteImageFields.induct)
  case (1 base kvs)
  have "plain_images base (snd (rewritten base k v)) = plain_images base v" if "(k, v) \<in> set kvs" "k \<noteq> ''image''" for k v
    using 1 [OF that(1) refl that(2)] that(2) by (simp add: rewritten_def)
  moreover have "rewritten base ''image'' v = mirrored_image base v" for v by (simp add: rewritten_def)
  ultimately show ?case by (auto simp: rewrite_obj mirrored_image_spec(3))
qed (simp_all add: Let_def)

end
