(* ===== verification/SeedNetwork.thy ===== *)
theory SeedNetwork
  imports SeedRecords ClusterConfig
begin

text \<open>
  The service network of a seed: \<open>interpolateKubernetes\<close> of \<open>pkg/netsyseed/snapshot.go\<close> moves the Services and
  their IPAddress records of a captured cluster into the service network of the target cluster.
\<close>

section \<open>Keys\<close>

definition apiServiceKey :: string where "apiServiceKey = ''/registry/services/specs/default/kubernetes''"
definition coreDNSServiceKey :: string where "coreDNSServiceKey = ''/registry/services/specs/platform-coredns/platform-coredns''"
definition serviceCIDRKey :: string where "serviceCIDRKey = ''/registry/servicecidrs/kubernetes''"
definition coreDNSHelmReleaseKey :: string where
  "coreDNSHelmReleaseKey = ''/registry/helm.toolkit.fluxcd.io/helmreleases/platform-coredns/coredns''"

definition service_prefix :: string where "service_prefix = ''/registry/services/specs/''"
definition ip_prefix :: string where "ip_prefix = ''/registry/ipaddresses/''"
definition family_label :: string where "family_label = ''ipaddress.kubernetes.io/ip-family''"

section \<open>Addresses of a Service\<close>

definition ipFamily :: "addr \<Rightarrow> string" where
  "ipFamily ip = (if is4 ip then ''IPv4'' else ''IPv6'')"

definition serviceFamilyPolicy :: "addr list \<Rightarrow> string" where
  "serviceFamilyPolicy ips = (if length ips = 1 then ''SingleStack'' else ''PreferDualStack'')"

text \<open>\<open>values[0]\<close> of an empty slice panics.\<close>

definition setServiceIPs :: "fields \<Rightarrow> addr list \<Rightarrow> string \<Rightarrow> fields result" where
  "setServiceIPs spec ips policy =
     (let addrs = map (JStr \<circ> addr_string) ips; families = map (JStr \<circ> ipFamily) ips in
      case addrs of
        [] \<Rightarrow> Inl (Sentinel ''panic: index out of range'')
      | v # _ \<Rightarrow> Inr (put_key ''ipFamilyPolicy'' (JStr policy) (put_key ''ipFamilies'' (JArr families)
            (put_key ''clusterIPs'' (JArr addrs) (put_key ''clusterIP'' v spec)))))"

text \<open>The loop that counts from the first address of the default network up to \<open>ip\<close>; \<open>None\<close> if it never gets there.\<close>

partial_function (option) offset_loop :: "addr \<Rightarrow> addr \<Rightarrow> int \<Rightarrow> int option" where
  "offset_loop candidate ip n = (if candidate = ip then Some n else offset_loop (addr_next candidate) ip (n + 1))"

declare offset_loop.simps [code]

definition defaultCIDR :: "addr \<Rightarrow> string" where
  "defaultCIDR ip = (if is4 ip then ''198.18.0.0/15'' else ''fdc6::/108'')"

fun remap_cidrs :: "string list \<Rightarrow> addr \<Rightarrow> int \<Rightarrow> string \<Rightarrow> addr list result" where
  "remap_cidrs [] ip offset key = Inr []"
| "remap_cidrs (cidr # cidrs) ip offset key =
     (case ParsePrefix cidr of
        None \<Rightarrow> Inl (Sentinel ''panic: netip.MustParsePrefix'')
      | Some p \<Rightarrow>
          if is4 (px_addr p) \<noteq> is4 ip then remap_cidrs cidrs ip offset key
          else
            let mapped = (addr_next ^^ nat offset) (px_addr p) in
            if \<not> px_contains p mapped then
              Inl (Errorf ''seeded Service %s offset +%d does not fit service CIDR %s'' [S key, I offset, S cidr])
            else bindR (remap_cidrs cidrs ip offset key) (\<lambda>ips. Inr (mapped # ips)))"

fun remap_values :: "json list \<Rightarrow> string list \<Rightarrow> string \<Rightarrow> addr list result" where
  "remap_values [] cidrs key = Inr []"
| "remap_values (value # values) cidrs key =
     (case ParseAddr (stringValue (Some value)) of
        None \<Rightarrow> Inl (Errorf ''record at %s has invalid cluster IP %q'' [S key, S (stringValue (Some value))])
      | Some ip \<Rightarrow>
          (case ParsePrefix (defaultCIDR ip) of
             None \<Rightarrow> Inl (Sentinel ''panic: netip.MustParsePrefix'')
           | Some net \<Rightarrow>
               if \<not> px_contains net ip then
                 Inl (Errorf ''seeded Service %s IP %s is outside the default service CIDR %s''
                   [S key, S (addr_string ip), S (defaultCIDR ip)])
               else (case offset_loop (px_addr net) ip 0 of
                   None \<Rightarrow> Inl (Sentinel ''does not return'')
                 | Some offset \<Rightarrow>
                     bindR (remap_cidrs cidrs ip offset key) (\<lambda>mapped.
                       bindR (remap_values values cidrs key) (\<lambda>rest. Inr (mapped @ rest))))))"

definition remapSeededServiceIPs :: "fields \<Rightarrow> service_network \<Rightarrow> string \<Rightarrow> addr list result" where
  "remapSeededServiceIPs spec network key =
     (case map_of spec ''clusterIPs'' of
        Some (JArr values) \<Rightarrow> remap_values values (sn_cidrs network) key
      | _ \<Rightarrow> Inl (Errorf ''record at %s has malformed spec.clusterIPs'' [S key]))"

section \<open>Rewriting the owned records\<close>

type_synonym allocations = "addr gomap gomap"

definition service_policy :: "addr list \<Rightarrow> string \<Rightarrow> string" where
  "service_policy ips policy =
     (if length ips = 1 then ''SingleStack''
      else if policy = [] \<or> policy = ''SingleStack'' then ''PreferDualStack'' else policy)"

definition rewrite_cidr :: "service_network \<Rightarrow> seed_record \<Rightarrow> fields \<Rightarrow> seed_record result" where
  "rewrite_cidr network r obj =
     (if stringValue (map_of obj ''kind'') \<noteq> ''ServiceCIDR'' then
        Inl (Errorf ''record at %s is not a ServiceCIDR'' [S (rc_key r)])
      else bindR (mapField obj ''spec'' (rc_key r)) (\<lambda>(spec, obj').
        Inr (set_value r (put_key ''spec'' (JObj (put_key ''cidrs'' (JArr (map JStr (sn_cidrs network))) spec)) obj'))))"

text \<open>A Service answers its new addresses by family, unless it has none.\<close>

definition rewrite_service :: "service_network \<Rightarrow> seed_record \<Rightarrow> fields \<Rightarrow> (seed_record \<times> addr list) result" where
  "rewrite_service network r obj =
     (if stringValue (map_of obj ''kind'') \<noteq> ''Service'' then
        Inl (Errorf ''record at %s is not a Service'' [S (rc_key r)])
      else bindR (mapField obj ''spec'' (rc_key r)) (\<lambda>(spec, obj').
        bindR (if rc_key r = apiServiceKey then Inr (sn_api network)
               else if rc_key r = coreDNSServiceKey then Inr (sn_dns network)
               else remapSeededServiceIPs spec network (rc_key r)) (\<lambda>ips.
          if ips = [] then Inr (r, [])
          else bindR (setServiceIPs spec ips (service_policy ips (stringValue (map_of spec ''ipFamilyPolicy'')))) (\<lambda>spec'.
            Inr (set_value r (put_key ''spec'' (JObj spec') obj'), ips)))))"

definition rewrite_coredns :: "service_network \<Rightarrow> seed_record \<Rightarrow> fields \<Rightarrow> seed_record result" where
  "rewrite_coredns network r obj =
     (if nil_map r then Inl panic_nil_map
      else bindR (field_at [(''spec'', rc_key r), (''values'', rc_key r @ '' spec''), (''coredns'', rc_key r @ '' values''),
          (''service'', rc_key r @ '' coredns values'')]
        (\<lambda>service. setServiceIPs service (sn_dns network) (serviceFamilyPolicy (sn_dns network))) obj)
        (\<lambda>obj'. Inr (set_value r obj')))"

definition family_map :: "addr list \<Rightarrow> addr gomap" where
  "family_map ips = foldl (\<lambda>m ip. put_key (ipFamily ip) ip m) [] ips"

definition owned_key :: "string \<Rightarrow> bool" where
  "owned_key key \<longleftrightarrow> key = serviceCIDRKey \<or> has_prefix key service_prefix \<or> key = coreDNSHelmReleaseKey"

fun owned_loop ::
  "service_network \<Rightarrow> seed_record list \<Rightarrow> allocations \<Rightarrow> bool \<Rightarrow> (seed_record list \<times> allocations \<times> bool) result" where
  "owned_loop network [] desired found = Inr ([], desired, found)"
| "owned_loop network (r # rs) desired found =
     (if \<not> owned_key (rc_key r) then
        bindR (owned_loop network rs desired found) (\<lambda>(out, d, f). Inr (r # out, d, f))
      else (case decode_fields r of
          None \<Rightarrow> Inl (Errorf ''decode seed record %s: %w'' [S (rc_key r)])
        | Some obj \<Rightarrow>
            if rc_key r = serviceCIDRKey then
              bindR (rewrite_cidr network r obj) (\<lambda>r'.
                bindR (owned_loop network rs desired True) (\<lambda>(out, d, f). Inr (r' # out, d, f)))
            else if has_prefix (rc_key r) service_prefix then
              bindR (rewrite_service network r obj) (\<lambda>(r', ips).
                bindR (owned_loop network rs
                    (if ips = [] then desired else put_key (trim_prefix (rc_key r) service_prefix) (family_map ips) desired) found)
                  (\<lambda>(out, d, f). Inr (r' # out, d, f)))
            else
              bindR (rewrite_coredns network r obj) (\<lambda>r'.
                bindR (owned_loop network rs desired found) (\<lambda>(out, d, f). Inr (r' # out, d, f)))))"

section \<open>Moving the allocations\<close>

definition ipAddressParent :: "fields \<Rightarrow> string \<Rightarrow> (string \<times> fields) result" where
  "ipAddressParent obj key =
     bindR (mapField obj ''spec'' key) (\<lambda>(spec, obj').
       bindR (mapField spec ''parentRef'' (key @ '' spec'')) (\<lambda>(parent, spec').
         Inr (stringValue (map_of parent ''namespace'') @ ''/'' @ stringValue (map_of parent ''name''),
              put_key ''spec'' (JObj spec') obj')))"

text \<open>An IPAddress record of a moved Service takes the address of its family; without one, or a second time, it goes.\<close>

definition move_record :: "addr gomap \<Rightarrow> fields \<Rightarrow> seed_record \<Rightarrow> (string \<times> seed_record option) result" where
  "move_record wanted obj r =
     bindR (mapField obj ''metadata'' (rc_key r)) (\<lambda>(metadata, obj').
       bindR (mapField metadata ''labels'' (rc_key r @ '' metadata'')) (\<lambda>(labels, metadata').
         let family = stringValue (map_of labels family_label) in
         case map_of wanted family of
           None \<Rightarrow> Inr (family, None)
         | Some ip \<Rightarrow>
             Inr (family, Some (set_value (r\<lparr>rc_key := ip_prefix @ addr_string ip\<rparr>)
               (put_key ''metadata'' (JObj (put_key ''labels'' (JObj (put_key family_label (JStr (ipFamily ip)) labels))
                  (put_key ''name'' (JStr (addr_string ip)) metadata'))) obj')))))"

fun ip_loop :: "allocations \<Rightarrow> seed_record list \<Rightarrow> seed_record list result" where
  "ip_loop desired [] = Inr []"
| "ip_loop desired (r # rs) =
     (if \<not> has_prefix (rc_key r) ip_prefix then bindR (ip_loop desired rs) (\<lambda>out. Inr (r # out))
      else (case decode_fields r of
          None \<Rightarrow> Inl (Errorf ''decode seed record %s: %w'' [S (rc_key r)])
        | Some obj \<Rightarrow>
            if nil_map r then Inl panic_nil_map
            else bindR (ipAddressParent obj (rc_key r)) (\<lambda>(parent, obj').
              case map_of desired parent of
                None \<Rightarrow> bindR (ip_loop desired rs) (\<lambda>out. Inr (r # out))
              | Some wanted \<Rightarrow>
                  bindR (move_record wanted obj' r) (\<lambda>(family, r').
                    case r' of
                      None \<Rightarrow> ip_loop desired rs
                    | Some moved \<Rightarrow>
                        bindR (ip_loop (put_key parent (del_key family wanted) desired) rs) (\<lambda>out. Inr (moved # out))))))"

definition interpolateKubernetes :: "seed_record list \<Rightarrow> service_network \<Rightarrow> seed_record list result" where
  "interpolateKubernetes records network =
     bindR (owned_loop network records [] False) (\<lambda>(out, desired, found).
       if \<not> found then Inl (Errorf ''podplane seed file does not contain a ServiceCIDR record'' [])
       else ip_loop desired out)"

text \<open>The network settings of the platform-components values.\<close>

definition applyNetworkValues :: "fields \<Rightarrow> service_network \<Rightarrow> fields result" where
  "applyNetworkValues vals network =
     field_at [(''platform'', ''platform-components values''), (''components'', ''platform values''),
         (''values'', ''platform.components''), (''coredns'', ''platform.components.values''),
         (''coredns'', ''coredns component values''), (''service'', ''coredns values'')]
       (\<lambda>service. setServiceIPs service (sn_dns network) (serviceFamilyPolicy (sn_dns network))) vals"

end
