(* ===== verification/SeedValues.thy ===== *)
theory SeedValues
  imports SeedRecords ClusterValidate
begin

text \<open>
  The platform-components values of a new cluster: \<open>pkg/netsyseed/values.go\<close>. The values are built up in one
  nested map; the functions here take its \<open>components\<close> object and answer the changed one. Reading the CA file
  and SHA-256 are parameters, the URL parser belongs to the validators.
\<close>

section \<open>Names derived from domains\<close>

text \<open>\<open>envoyListenerSuffix\<close> and \<open>envoyBundleName\<close> of \<open>envoy.go\<close>.\<close>

fun dashed :: "bool \<Rightarrow> string \<Rightarrow> string" where
  "dashed previousDash [] = []"
| "dashed previousDash (r # rs) =
     (if is_lower r \<or> is_digit r \<or> r = CHR ''-'' then r # dashed (r = CHR ''-'') rs
      else if \<not> previousDash then CHR ''-'' # dashed True rs
      else dashed previousDash rs)"

definition envoyListenerSuffix :: "(string \<Rightarrow> string) \<Rightarrow> string \<Rightarrow> string" where
  "envoyListenerSuffix sha256 domain =
     go_trim ''-'' (take 25 (dashed False (to_lower domain))) @ ''-'' @ take 8 (hex_string (sha256 domain))"

definition envoyBundleName :: "(string \<Rightarrow> string) \<Rightarrow> string \<Rightarrow> string" where
  "envoyBundleName sha256 domain = ''bundle-'' @ take 24 (hex_string (sha256 domain))"

section \<open>The registry\<close>

fun registryIngressListener :: "(string \<Rightarrow> string) \<Rightarrow> string \<Rightarrow> cdomain list \<Rightarrow> string result" where
  "registryIngressListener sha256 hostname [] =
     Inl (Errorf ''registry hostname %q must match a cluster.domains zone or an immediate subdomain for HTTPS ingress'' [S hostname])"
| "registryIngressListener sha256 hostname (d # ds) =
     (if hostname = do_zone d then Inr (''https-'' @ envoyListenerSuffix sha256 (do_zone d))
      else (case cut_suffix hostname (''.'' @ do_zone d) of
          Some label \<Rightarrow>
            if label \<noteq> [] \<and> CHR ''.'' \<notin> set label then Inr (''https-wildcard-'' @ envoyListenerSuffix sha256 (do_zone d))
            else registryIngressListener sha256 hostname ds
        | None \<Rightarrow> registryIngressListener sha256 hostname ds))"

fun bucket_of_providers :: "string \<Rightarrow> provider list \<Rightarrow> string" where
  "bucket_of_providers i [] = i @ ''-registry''"
| "bucket_of_providers i (p # ps) =
     (if pr_kind p = ''aws'' \<and> pr_account p \<noteq> [] then i @ ''-'' @ pr_account p @ ''-registry''
      else if pr_kind p = ''google'' \<and> pr_project p \<noteq> [] then i @ ''-'' @ pr_project p @ ''-registry''
      else bucket_of_providers i ps)"

definition registryBucketName :: "cluster \<Rightarrow> string" where
  "registryBucketName c = (if cl_providers c = [] then ''registry'' else bucket_of_providers (cl_id c) (cl_providers c))"

definition registryDriver :: "cluster \<Rightarrow> string" where
  "registryDriver c = (if list_ex (\<lambda>p. pr_kind p = ''google'') (cl_providers c) then ''gcs'' else ''s3'')"

definition registryRegion :: "cluster \<Rightarrow> string" where
  "registryRegion c =
     (case find (\<lambda>p. pr_kind p = ''aws'' \<and> pr_region p \<noteq> []) (cl_providers c) of
        None \<Rightarrow> ''local'' | Some p \<Rightarrow> pr_region p)"

definition mirror_enabled :: "cluster \<Rightarrow> bool" where
  "mirror_enabled c \<longleftrightarrow> (case co_registry (cl_components c) of None \<Rightarrow> False | Some m \<Rightarrow> rm_enabled m)"

definition applyRegistryMirror :: "cluster \<Rightarrow> fields \<Rightarrow> fields" where
  "applyRegistryMirror c components =
     (if \<not> mirror_enabled c then components
      else put_key ''imageMirror'' (JObj [(''enabled'', JBool True), (''hostname'', JStr (RegistryMirrorHostname c)),
        (''prefix'', JStr (RegistryMirrorPrefix c))]) components)"

text \<open>The certificate of the OIDC issuer: a PEM text, or a file that is read when there is one.\<close>

definition oidc_certificate :: "(string \<Rightarrow> string result) \<Rightarrow> string \<Rightarrow> fields" where
  "oidc_certificate readFile ca =
     (if has_prefix (trim_space ca) ''-----BEGIN'' then [(''certificateAuthority'', JStr ca)]
      else if ca \<noteq> [] \<and> \<not> go_contains ca ''://'' then
        (case readFile ca of Inl e \<Rightarrow> [] | Inr contents \<Rightarrow> [(''certificateAuthority'', JStr contents)])
      else [])"

definition registry_hostname :: "cluster_config \<Rightarrow> string" where
  "registry_hostname cfg =
     (if rg_hostname (cl_registry (cc_cluster cfg)) = [] \<and> cl_providers (cc_cluster cfg) \<noteq> [] then ResolvedRegistryHostname cfg
      else rg_hostname (cl_registry (cc_cluster cfg)))"

definition registry_route :: "(string \<Rightarrow> string) \<Rightarrow> cluster_config \<Rightarrow> fields result" where
  "registry_route sha256 cfg =
     (let c = cc_cluster cfg; enabled = ri_enabled (rg_ingress (cl_registry c)); host = registry_hostname cfg in
      if enabled then
        bindR (registryIngressListener sha256 host (cl_domains c)) (\<lambda>listener.
          Inr [(''enabled'', JBool enabled), (''hostnames'', JArr [JStr host]),
            (''parentRefs'', JArr [JObj [(''name'', JStr ''platform-envoy-gateway''), (''namespace'', JStr ''platform-envoy-gateway''),
              (''sectionName'', JStr listener)]])])
      else Inr [(''enabled'', JBool enabled)])"

definition zot_entry :: "(string \<Rightarrow> string result) \<Rightarrow> cluster_config \<Rightarrow> fields \<Rightarrow> json" where
  "zot_entry readFile cfg route =
     (let c = cc_cluster cfg in
      JObj [(''platform'', JObj [(''zotRegistry'', JObj [
          (''registryHostname'', JStr (registry_hostname cfg)),
          (''storage'', JObj [(''driver'', JStr (registryDriver c)), (''bucket'', JStr (registryBucketName c)),
             (''region'', JStr (registryRegion c))]),
          (''oidc'', JObj ([(''issuer'', JStr (oi_issuer_url (cl_oidc c))), (''audience'', JStr (ResolvedClientID cfg)),
             (''usernameClaim'', JStr (ResolvedUsernameClaim cfg)), (''groupsClaim'', JStr (ResolvedGroupsClaim cfg))] @
             oidc_certificate readFile (oi_ca_cert (cl_oidc c))))])]),
        (''zot'', JObj [(''httproute'', JObj route)])])"

section \<open>Components\<close>

definition enabled_json :: json where
  "enabled_json = JObj [(''enabled'', JBool True)]"

definition enable :: "string \<Rightarrow> string \<Rightarrow> fields \<Rightarrow> fields" where
  "enable kind name components = ensure_at [kind] (put_key name enabled_json) components"

definition provider_apps :: "provider list \<Rightarrow> fields \<Rightarrow> fields" where
  "provider_apps ps apps =
     foldl (\<lambda>apps p. if pr_kind p = ''aws'' then put_key ''csi-aws-ebs'' enabled_json apps
       else if pr_kind p = ''google'' then put_key ''csi-gce-pd'' enabled_json apps else apps) apps ps"

definition applyProviderComponents :: "provider list \<Rightarrow> fields \<Rightarrow> fields" where
  "applyProviderComponents ps components = ensure_at [''apps''] (provider_apps ps) components"

definition applyPlatformProviderComponents :: "cluster_config \<Rightarrow> fields \<Rightarrow> fields result" where
  "applyPlatformProviderComponents cfg components =
     (let c = cc_cluster cfg in
      if \<not> HasPlatformComponents (se_name (cl_seed c)) \<or> length (cl_providers c) \<noteq> 1 then Inr components
      else if pr_kind (hd (cl_providers c)) \<notin> {''aws'', ''google''} then Inr components
      else if sc_providers (cl_secrets c) = [] then
        Inl (Errorf ''platform and agentic cloud seeds require cluster.secrets.providers for Podplane workload certificates used by Cluster API and Nstance operator webhooks'' [])
      else Inr (ensure_at [''values''] (put_key ''nstance-operator'' (JObj [
          (''config'', JObj [(''clusterID'', JStr (cl_id c)), (''tenant'', JStr ''default'')]),
          (''clusterCA'', JObj [(''enabled'', JBool False), (''name'', JStr ''nstance-cluster-ca'')]),
          (''registrationSecret'', JObj [(''name'', JStr ''nstance-operator-nonce''), (''key'', JStr ''nonce.jwt'')])]))
        (enable ''apps'' ''nstance-operator'' (enable ''apps'' ''cluster-api''
          (enable ''crds'' ''nstance-operator-crds'' (enable ''crds'' ''cluster-api-crds'' components))))))"

section \<open>Secrets providers\<close>

definition setIfNotEmpty :: "string \<Rightarrow> string \<Rightarrow> fields \<Rightarrow> fields" where
  "setIfNotEmpty key value m = (if value \<noteq> [] then put_key key (JStr value) m else m)"

definition secret_entry :: "secrets_provider \<Rightarrow> fields" where
  "secret_entry p =
     setIfNotEmpty ''operatorRole'' (sv_operator_role p) (setIfNotEmpty ''authPath'' (sv_auth_path p)
      (setIfNotEmpty ''caCert'' (sv_ca_cert p) (setIfNotEmpty ''mountPath'' (sv_mount_path p)
      (setIfNotEmpty ''address'' (sv_address p) (setIfNotEmpty ''location'' (sv_location p)
      (setIfNotEmpty ''projectID'' (sv_project_id p) (setIfNotEmpty ''region'' (sv_region p)
      (setIfNotEmpty ''objectType'' (sv_object_type p) (setIfNotEmpty ''keyPrefix'' (sv_key_prefix p)
      [(''kind'', JStr (sv_kind p))])))))))))"

text \<open>The providers in the order of their names.\<close>

definition sorted_providers :: "secrets \<Rightarrow> (string \<times> secrets_provider) list" where
  "sorted_providers s = canon_map (sc_providers s)"

definition secretsValues :: "secrets \<Rightarrow> json" where
  "secretsValues s =
     JObj [(''defaultProvider'', JStr (sc_default s)),
       (''providers'', JObj (foldl (\<lambda>m (name, p). put_key name (JObj (secret_entry p)) m) [] (sorted_providers s)))]"

definition ingressCertificateDeliveryValues :: "cluster_config \<Rightarrow> bool \<Rightarrow> fields result" where
  "ingressCertificateDeliveryValues cfg nodeCertificate =
     (let s = cl_secrets (cc_cluster cfg) in
      if nodeCertificate then Inr [(''provider'', JStr ''node'')]
      else (case map_of (sc_providers s) (sc_default s) of
          None \<Rightarrow> Inl (Errorf ''cluster.secrets.default_provider must select a configured provider for ingress certificates'' [])
        | Some p \<Rightarrow>
            let v = [(''keyPrefix'', JStr (if sv_key_prefix p = [] then cl_id (cc_cluster cfg) else sv_key_prefix p))] in
            if sv_kind p = ''aws'' \<and> (sv_object_type p = ''secretsmanager'' \<or> sv_object_type p = ''ssmparameter'') then
              Inr (v @ [(''provider'', JStr ''aws''), (''objectType'', JStr (sv_object_type p))])
            else if sv_kind p = ''gcp'' then
              Inr (v @ [(''provider'', JStr ''gcp''), (''projectID'', JStr (sv_project_id p))])
            else if sv_kind p = ''vault'' \<or> sv_kind p = ''openbao'' then
              (let auth = trim_prefix (go_trim ''/'' (sv_auth_path p)) ''auth/'' in
               Inr (v @ [(''provider'', JStr (sv_kind p)), (''address'', JStr (sv_address p)), (''mountPath'', JStr (sv_mount_path p))] @
                 (if auth \<noteq> [] then [(''authMountPath'', JStr auth)] else []) @
                 (if sv_ca_cert p \<noteq> [] then
                    [(''caCertPath'', JStr (''/var/run/podplane/secrets-providers/'' @ sc_default s @ ''/ca.crt''))] else [])))
            else Inl (Errorf ''cluster.secrets.default_provider %q does not support ingress certificate delivery'' [S (sc_default s)])))"

definition matching_providers :: "cluster_config \<Rightarrow> domain_provider \<Rightarrow> provider list" where
  "matching_providers cfg dp =
     filter (\<lambda>p. pr_kind p = ''aws'' \<and> (dp_account dp = [] \<or> pr_account p = dp_account dp) \<and>
       (dp_profile dp = [] \<or> pr_profile p = dp_profile dp)) (cl_providers (cc_cluster cfg))"

definition awsRegion :: "cluster_config \<Rightarrow> domain_provider \<Rightarrow> string result" where
  "awsRegion cfg dp =
     (if dp_region dp \<noteq> [] then Inr (dp_region dp)
      else (case matching_providers cfg dp of
          [p] \<Rightarrow> Inr (pr_region p)
        | [] \<Rightarrow> Inr []
        | _ \<Rightarrow> Inl (Errorf ''provider.region is required when multiple AWS providers match'' [])))"

definition domain_entry :: "cluster_config \<Rightarrow> cdomain \<Rightarrow> fields result" where
  "domain_entry cfg d =
     (if cl_acme (cc_cluster cfg) \<noteq> None \<and> SupportsACME (do_provider d) then
        (case do_provider d of
           None \<Rightarrow> Inr []
         | Some dp \<Rightarrow>
             (case awsRegion cfg dp of
                Inl e \<Rightarrow> Inl (Wrapf ''domain %s: %w'' [S (do_zone d)] e)
              | Inr region \<Rightarrow> Inr [(''dnsProvider'', JObj [(''kind'', JStr (dp_kind dp)), (''region'', JStr region),
                  (''hostedZoneID'', JStr (dp_hosted_zone_id dp)), (''roleARN'', JStr (dp_role_arn dp))])]))
      else Inr [])"

fun domain_entries :: "cluster_config \<Rightarrow> cdomain list \<Rightarrow> fields \<Rightarrow> fields result" where
  "domain_entries cfg [] domains = Inr domains"
| "domain_entries cfg (d # ds) domains =
     bindR (domain_entry cfg d) (\<lambda>entry. domain_entries cfg ds (put_key (do_zone d) (JObj entry) domains))"

definition DefaultACMEServer :: string where
  "DefaultACMEServer = ''https://acme-v02.api.letsencrypt.org/directory''"

text \<open>A provider that is not configured reads as the zero value: an empty key prefix.\<close>

definition ingressCertificateValues :: "cluster_config \<Rightarrow> fields result" where
  "ingressCertificateValues cfg =
     (let s = cl_secrets (cc_cluster cfg);
          key_prefix = (case map_of (sc_providers s) (sc_default s) of None \<Rightarrow> [] | Some p \<Rightarrow> sv_key_prefix p)
      in bindR (domain_entries cfg (cl_domains (cc_cluster cfg)) []) (\<lambda>domains.
        Inr ([(''provider'', JStr (sc_default s)), (''keyPrefix'', JStr key_prefix), (''domains'', JObj domains)] @
          (case cl_acme (cc_cluster cfg) of
             None \<Rightarrow> []
           | Some a \<Rightarrow> [(''acme'', JObj [(''server'', JStr (if ac_server a = [] then DefaultACMEServer else ac_server a)),
               (''email'', JStr (ac_email a))])]))))"

text \<open>\<open>append\<close> to an array field of an object.\<close>

definition append_field :: "string \<Rightarrow> json \<Rightarrow> fields \<Rightarrow> fields" where
  "append_field key x m =
     put_key key (JArr ((case map_of m key of Some (JArr xs) \<Rightarrow> xs | _ \<Rightarrow> []) @ [x])) m"

definition applyVaultLikeCSIProviderCAValues :: "string \<Rightarrow> string \<Rightarrow> string \<Rightarrow> secrets_provider \<Rightarrow> fields \<Rightarrow> fields" where
  "applyVaultLikeCSIProviderCAValues componentName chartRoot providerName p componentValues =
     (if sv_ca_cert p = [] then componentValues
      else ensure_at [componentName] (\<lambda>entry.
        let volumeName = ''provider-ca-'' @ providerName;
            entry1 = ensure_at [''podplane'', ''secrets'', ''providers'']
              (put_key providerName (JObj [(''caCert'', JStr (sv_ca_cert p))])) entry
        in ensure_at [chartRoot, ''csi''] (\<lambda>csi.
            append_field ''volumeMounts'' (JObj [(''name'', JStr volumeName),
                (''mountPath'', JStr (''/var/run/podplane/secrets-providers/'' @ providerName)), (''readOnly'', JBool True)])
              (append_field ''volumes'' (JObj [(''name'', JStr volumeName),
                (''configMap'', JObj [(''name'', JStr (''podplane-secrets-provider-ca-'' @ providerName))])]) csi)) entry1)
        componentValues)"

definition provider_component :: "string \<times> secrets_provider \<Rightarrow> fields \<Rightarrow> fields" where
  "provider_component np components =
     (case np of (name, p) \<Rightarrow>
        if sv_kind p = ''aws'' then enable ''apps'' ''secrets-store-csi-provider-aws'' components
        else if sv_kind p = ''gcp'' then enable ''apps'' ''secrets-store-csi-provider-gcp'' components
        else if sv_kind p = ''vault'' then
          ensure_at [''values''] (applyVaultLikeCSIProviderCAValues ''secrets-store-csi-provider-vault'' ''vault'' name p)
            (enable ''apps'' ''secrets-store-csi-provider-vault'' components)
        else if sv_kind p = ''openbao'' then
          ensure_at [''values''] (applyVaultLikeCSIProviderCAValues ''secrets-store-csi-provider-openbao'' ''openbao'' name p)
            (enable ''apps'' ''secrets-store-csi-provider-openbao'' components)
        else components)"

definition operator_config :: "cluster_config \<Rightarrow> json option \<Rightarrow> json" where
  "operator_config cfg certificates =
     (let c = cc_cluster cfg in
      JObj [(''podplane'', JObj [(''operator'', JObj [(''config'', JObj ([
          (''cluster'', JObj [(''id'', JStr (cl_id c)), (''spiffe'', JObj [(''trustDomain'', JStr (sp_trust_domain (cl_spiffe c)))]),
             (''oidc'', JObj [(''issuerURL'', JStr (oi_issuer_url (cl_oidc c))), (''clientID'', JStr (ResolvedClientID cfg)),
                (''usernameClaim'', JStr (ResolvedUsernameClaim cfg)), (''groupsClaim'', JStr (ResolvedGroupsClaim cfg))])]),
          (''secrets'', secretsValues (cl_secrets c))] @
          (case certificates of None \<Rightarrow> [] | Some v \<Rightarrow> [(''ingressCertificates'', v)])))])])])"

definition applySecretsComponents :: "parsers \<Rightarrow> cluster_config \<Rightarrow> bool \<Rightarrow> fields \<Rightarrow> fields result" where
  "applySecretsComponents pa cfg nodeCertificate components =
     (let c = cc_cluster cfg; s = cl_secrets c in
      if sc_providers s = [] then Inr components
      else (case (if sp_trust_domain (cl_spiffe c) \<noteq> [] then ValidateWorkloadCAProvider pa s else None) of
          Some e \<Rightarrow> Inl (Wrapf ''cluster.secrets: %w'' [] e)
        | None \<Rightarrow>
            let comps1 = enable ''apps'' ''secrets-store-csi-driver'' (enable ''apps'' ''podplane-operator''
                 (enable ''crds'' ''secrets-store-csi-driver-crds'' (enable ''crds'' ''podplane-operator-crds'' components)))
            in bindR (if cl_domains c \<noteq> [] \<and> \<not> nodeCertificate then map_sum id (\<lambda>v. Some (JObj v)) (ingressCertificateValues cfg)
                 else Inr None) (\<lambda>certificates.
               Inr (fold provider_component (sorted_providers s)
                 (ensure_at [''values''] (put_key ''podplane-operator'' (operator_config cfg certificates)) comps1)))))"

section \<open>The values\<close>

definition applyNodeCertificateValues :: "fields \<Rightarrow> fields" where
  "applyNodeCertificateValues vals =
     ensure_at [''platform'', ''components'', ''values'']
       (\<lambda>componentValues.
         ensure_at [''envoy-gateway'', ''platform'', ''envoyGateway'', ''ingress'']
           (put_key ''certificates'' (JObj [(''provider'', JStr ''node'')]))
           (ensure_at [''podplane-operator'', ''podplane'', ''operator'', ''config''] (put_key ''ingressCertificates'' JNull) componentValues))
       vals"

definition ingressDomains :: "cdomain list \<Rightarrow> json" where
  "ingressDomains ds =
     JArr (map (\<lambda>(i, d). JObj ((''apex'', JStr (do_zone d)) # (if i = 0 then [(''default'', JBool True)] else []))) (enumerate 0 ds))"

definition apply_domains :: "cluster_config \<Rightarrow> bool \<Rightarrow> fields \<Rightarrow> fields result" where
  "apply_domains cfg nodeCertificate components =
     bindR (ingressCertificateDeliveryValues cfg nodeCertificate) (\<lambda>delivery.
       Inr (ensure_at [''values''] (put_key ''envoy-gateway'' (JObj [(''platform'', JObj [(''envoyGateway'', JObj [(''ingress'', JObj [
           (''enabled'', JBool True), (''domains'', ingressDomains (cl_domains (cc_cluster cfg))),
           (''certificates'', JObj delivery)])])])]))
         (enable ''apps'' ''envoy-gateway'' (enable ''crds'' ''envoy-gateway-crds'' (enable ''crds'' ''gateway-api-crds'' components)))))"

definition registry_values ::
  "(string \<Rightarrow> string) \<Rightarrow> (string \<Rightarrow> string result) \<Rightarrow> cluster_config \<Rightarrow> fields \<Rightarrow> fields result" where
  "registry_values sha256 readFile cfg components =
     (let c = cc_cluster cfg; host = registry_hostname cfg in
      if ri_enabled (rg_ingress (cl_registry c)) \<and> host = [] then
        Inl (Errorf ''cluster.registry.hostname is required for registry ingress'' [])
      else if host = [] then Inr components
      else bindR (registry_route sha256 cfg) (\<lambda>route.
        Inr (ensure_at [''values''] (put_key ''zot-registry'' (zot_entry readFile cfg route)) components)))"

text \<open>Go keeps \<open>components\<close> as an alias into the values; the last change is made through the path of the alias.\<close>

definition buildPlatformComponentsValues ::
  "parsers \<Rightarrow> (string \<Rightarrow> string) \<Rightarrow> (string \<Rightarrow> string result) \<Rightarrow> cluster_config option \<Rightarrow> bool \<Rightarrow> fields result" where
  "buildPlatformComponentsValues pa sha256 readFile config nodeCertificate =
     (case config of
        None \<Rightarrow> Inl (Errorf ''cluster config is required'' [])
      | Some cfg \<Rightarrow>
          bindR (registry_values sha256 readFile cfg (applyRegistryMirror (cc_cluster cfg) [])) (\<lambda>c1.
          bindR (applySecretsComponents pa cfg nodeCertificate (applyProviderComponents (cl_providers (cc_cluster cfg)) c1)) (\<lambda>c2.
          bindR (applyPlatformProviderComponents cfg c2) (\<lambda>c3.
            let vals = [(''platform'', JObj [(''components'', JObj c3)])];
                vals1 = (if nodeCertificate then applyNodeCertificateValues vals else vals)
            in if cl_domains (cc_cluster cfg) = [] then Inr vals1
               else field_at [(''platform'', []), (''components'', [])] (apply_domains cfg nodeCertificate) vals1))))"

end
