(* ===== verification/SeedEnvoy.thy ===== *)
theory SeedEnvoy
  imports SeedValues GoBase64
begin

text \<open>
  The ingress records of a seed: \<open>interpolateEnvoyIngress\<close> of \<open>pkg/netsyseed/envoy.go\<close> replaces the listeners of the
  captured Gateway, the arguments of its certificate sidecar and the SecretProviderClass by those of the target
  cluster's domains, and adds the Secrets the sidecar serves.
\<close>

section \<open>Keys and records\<close>

definition envoyGatewayKey :: string where
  "envoyGatewayKey = ''/registry/gateway.networking.k8s.io/gateways/platform-envoy-gateway/platform-envoy-gateway''"
definition envoyProxyKey :: string where
  "envoyProxyKey = ''/registry/gateway.envoyproxy.io/envoyproxies/platform-envoy-gateway/platform-envoy-gateway''"
definition envoySPCKey :: string where
  "envoySPCKey = ''/registry/secrets-store.csi.x-k8s.io/secretproviderclasses/platform-envoy-gateway/platform-envoy-gateway-ingress-certificates''"
definition envoySecretBase :: string where
  "envoySecretBase = ''/registry/secrets/platform-envoy-gateway/bundle-''"
definition node_secret_key :: string where
  "node_secret_key = ''/registry/secrets/platform-envoy-gateway/node''"

definition decodeEnvoyRecord :: "seed_record \<Rightarrow> string \<Rightarrow> fields result" where
  "decodeEnvoyRecord r kind =
     (case decode_fields r of
        None \<Rightarrow> Inl (Errorf ''decode %s at %s: %w'' [S kind, S (rc_key r)])
      | Some obj \<Rightarrow>
          if stringValue (map_of obj ''kind'') \<noteq> kind then Inl (Errorf ''record at %s is not a %s'' [S (rc_key r), S kind])
          else Inr obj)"

definition valueOrDefault :: "fields \<Rightarrow> string \<Rightarrow> string \<Rightarrow> string" where
  "valueOrDefault vals key fallback =
     (let v = stringValue (map_of vals key) in if v \<noteq> [] then v else fallback)"

definition envoyResourceUID :: "(string \<Rightarrow> string) \<Rightarrow> string \<Rightarrow> string" where
  "envoyResourceUID sha256 name =
     (let h = hex_string (take 16 (sha256 (''podplane-envoy-sds-secret:'' @ name))) in
      take 8 h @ ''-'' @ take 4 (drop 8 h) @ ''-'' @ take 4 (drop 12 h) @ ''-'' @ take 4 (drop 16 h) @ ''-'' @ drop 20 h)"

section \<open>The Gateway\<close>

definition listener_name :: "string \<Rightarrow> string" where
  "listener_name name = (if length name > 63 then trim_suffix (take 63 name) ''-'' else name)"

definition envoyHTTPSListener :: "string \<Rightarrow> string \<Rightarrow> string \<Rightarrow> json" where
  "envoyHTTPSListener name hostname bundle =
     JObj [(''name'', JStr (listener_name name)), (''protocol'', JStr ''HTTPS''), (''port'', JNum 443), (''hostname'', JStr hostname),
       (''tls'', JObj [(''mode'', JStr ''Terminate''),
          (''certificateRefs'', JArr [JObj [(''group'', JStr []), (''kind'', JStr ''Secret''), (''name'', JStr bundle)]])]),
       (''allowedRoutes'', JObj [(''namespaces'', JObj [(''from'', JStr ''All'')])])]"

text \<open>The captured listeners that stay: every one that is not HTTPS; \<open>None\<close> for one that is not an object.\<close>

fun kept_listeners :: "json list \<Rightarrow> json list option" where
  "kept_listeners [] = Some []"
| "kept_listeners (v # vs) =
     (case v of
        JObj listener \<Rightarrow>
          if stringValue (map_of listener ''protocol'') \<noteq> ''HTTPS'' then map_option (Cons v) (kept_listeners vs) else kept_listeners vs
      | _ \<Rightarrow> None)"

definition bundle_name :: "(string \<Rightarrow> string) \<Rightarrow> bool \<Rightarrow> string \<Rightarrow> string" where
  "bundle_name sha256 nodeCertificate domain = (if nodeCertificate then ''node'' else envoyBundleName sha256 domain)"

definition domain_listeners :: "(string \<Rightarrow> string) \<Rightarrow> bool \<Rightarrow> string \<Rightarrow> json list" where
  "domain_listeners sha256 nodeCertificate domain =
     (let bundle = bundle_name sha256 nodeCertificate domain; suffix = envoyListenerSuffix sha256 domain in
      [envoyHTTPSListener (''https-'' @ suffix) domain bundle,
       envoyHTTPSListener (''https-wildcard-'' @ suffix) (''*.'' @ domain) bundle])"

definition rewriteEnvoyGateway :: "(string \<Rightarrow> string) \<Rightarrow> seed_record \<Rightarrow> string list \<Rightarrow> bool \<Rightarrow> seed_record result" where
  "rewriteEnvoyGateway sha256 r domains nodeCertificate =
     bindR (decodeEnvoyRecord r ''Gateway'') (\<lambda>obj.
       bindR (mapField obj ''spec'' envoyGatewayKey) (\<lambda>(spec, obj').
         case map_of spec ''listeners'' of
           Some (JArr listeners) \<Rightarrow>
             (case kept_listeners listeners of
                None \<Rightarrow> Inl (Errorf ''record at %s has malformed listener'' [S envoyGatewayKey])
              | Some kept \<Rightarrow> Inr (set_value r (put_key ''spec'' (JObj (put_key ''listeners''
                  (JArr (kept @ concat (map (domain_listeners sha256 nodeCertificate) domains))) spec)) obj')))
         | _ \<Rightarrow> Inl (Errorf ''record at %s has malformed spec.listeners'' [S envoyGatewayKey])))"

section \<open>The proxy\<close>

definition pod_path :: "string list" where
  "pod_path = [''spec'', ''provider'', ''kubernetes'', ''envoyDaemonSet'', ''patch'', ''value'', ''spec'', ''template'', ''spec'']"

definition named :: "string \<Rightarrow> json \<Rightarrow> bool" where
  "named name v = (case v of JObj m \<Rightarrow> stringValue (map_of m ''name'') = name | _ \<Rightarrow> False)"

definition map_obj :: "(fields \<Rightarrow> fields) \<Rightarrow> json \<Rightarrow> json" where
  "map_obj f v = (case v of JObj m \<Rightarrow> JObj (f m) | _ \<Rightarrow> v)"

definition certificate_volume :: "bool \<Rightarrow> fields \<Rightarrow> fields" where
  "certificate_volume nodeCertificate volume =
     (if nodeCertificate then
        put_key ''hostPath'' (JObj [(''path'', JStr ''/opt/podplane/secrets/ingress''), (''type'', JStr ''Directory'')]) (del_key ''csi'' volume)
      else put_key ''csi'' (JObj [(''driver'', JStr ''secrets-store.csi.k8s.io''), (''readOnly'', JBool True),
          (''volumeAttributes'', JObj [(''secretProviderClass'', JStr ''platform-envoy-gateway-ingress-certificates'')])])
        (del_key ''hostPath'' volume))"

definition rewrite_volume :: "bool \<Rightarrow> json \<Rightarrow> json" where
  "rewrite_volume nodeCertificate v =
     (if named ''ingress-certificates'' v then map_obj (certificate_volume nodeCertificate) v else v)"

definition rewrite_mount :: "json \<Rightarrow> json" where
  "rewrite_mount v =
     (if named ''ingress-certificates'' v
      then map_obj (put_key ''mountPath'' (JStr ''/var/run/podplane/ingress-certificates'')) v else v)"

definition certificate_flag :: "string \<Rightarrow> bool" where
  "certificate_flag arg \<longleftrightarrow> has_prefix arg ''--certificates-dir='' \<or> has_prefix arg ''--certificate='' \<or>
     has_prefix arg ''--domain-certificate='' \<or> has_prefix arg ''--node-certificate=''"

text \<open>The arguments that stay; \<open>--certificates-dir\<close> as a word of its own takes the next word with it.\<close>

fun kept_args :: "json list \<Rightarrow> json list" where
  "kept_args [] = []"
| "kept_args (a # as) =
     (let arg = stringValue (Some a) in
      if arg = ''--certificates-dir'' then (case as of [] \<Rightarrow> [] | _ # as' \<Rightarrow> kept_args as')
      else if certificate_flag arg then kept_args as
      else a # kept_args as)"

definition certificate_args :: "(string \<Rightarrow> string) \<Rightarrow> bool \<Rightarrow> string list \<Rightarrow> json list" where
  "certificate_args sha256 nodeCertificate domains =
     (if nodeCertificate then [JStr (''--node-certificate='' @ go_join CHR '','' domains)]
      else map (\<lambda>d. JStr (''--domain-certificate='' @ envoyBundleName sha256 d @ ''='' @ d)) domains)"

definition sds_container :: "(string \<Rightarrow> string) \<Rightarrow> bool \<Rightarrow> string list \<Rightarrow> json list \<Rightarrow> fields \<Rightarrow> fields" where
  "sds_container sha256 nodeCertificate domains args container =
     put_key ''args'' (JArr (kept_args args @ certificate_args sha256 nodeCertificate domains))
       (case map_of container ''volumeMounts'' of
          Some (JArr mounts) \<Rightarrow> put_key ''volumeMounts'' (JArr (map rewrite_mount mounts)) container
        | _ \<Rightarrow> container)"

text \<open>The first container of that name is rewritten.\<close>

fun rewrite_containers ::
  "(string \<Rightarrow> string) \<Rightarrow> bool \<Rightarrow> string list \<Rightarrow> json list \<Rightarrow> json list result" where
  "rewrite_containers sha256 nodeCertificate domains [] =
     Inl (Errorf ''record at %s does not contain the podplane-sds container'' [S envoyProxyKey])"
| "rewrite_containers sha256 nodeCertificate domains (v # vs) =
     (if \<not> named ''podplane-sds'' v then bindR (rewrite_containers sha256 nodeCertificate domains vs) (\<lambda>vs'. Inr (v # vs'))
      else (case value_at [''args''] v of
          Some (JArr args) \<Rightarrow> Inr (map_obj (sds_container sha256 nodeCertificate domains args) v # vs)
        | _ \<Rightarrow> Inl (Errorf ''record at %s has malformed podplane-sds args'' [S envoyProxyKey])))"

definition rewriteEnvoyProxy :: "(string \<Rightarrow> string) \<Rightarrow> seed_record \<Rightarrow> string list \<Rightarrow> bool \<Rightarrow> seed_record result" where
  "rewriteEnvoyProxy sha256 r domains nodeCertificate =
     bindR (decodeEnvoyRecord r ''EnvoyProxy'') (\<lambda>obj.
     bindR (nestedSlice obj envoyProxyKey (pod_path @ [''volumes''])) (\<lambda>volumes.
       if \<not> list_ex (named ''ingress-certificates'') volumes then
         Inl (Errorf ''record at %s does not contain the ingress-certificates volume'' [S envoyProxyKey])
       else
         let j1 = update_at (pod_path @ [''volumes'']) (\<lambda>_. JArr (map (rewrite_volume nodeCertificate) volumes)) (JObj obj) in
         bindR (nestedSlice obj envoyProxyKey (pod_path @ [''containers''])) (\<lambda>containers.
         bindR (rewrite_containers sha256 nodeCertificate domains containers) (\<lambda>containers'.
           Inr (r\<lparr>rc_value := Some (update_at (pod_path @ [''containers'']) (\<lambda>_. JArr containers') j1)\<rparr>)))))"

section \<open>The SecretProviderClass\<close>

text \<open>
  \<open>strconv.Quote\<close> of printable text: the quote, the backslash and the control bytes are escaped; bytes above 127 stand
  for themselves, as for printable UTF-8.
\<close>

definition quote_char :: "char \<Rightarrow> string" where
  "quote_char c =
     (let n = of_char c :: nat in
      if c = CHR 0x22 then [CHR 0x5C, CHR 0x22] else if c = CHR 0x5C then [CHR 0x5C, CHR 0x5C]
      else if n = 7 then CHR 0x5C # ''a'' else if n = 8 then CHR 0x5C # ''b'' else if n = 12 then CHR 0x5C # ''f''
      else if n = 10 then CHR 0x5C # ''n'' else if n = 13 then CHR 0x5C # ''r'' else if n = 9 then CHR 0x5C # ''t''
      else if n = 11 then CHR 0x5C # ''v''
      else if n < 32 \<or> n = 127 then CHR 0x5C # ''x'' @ hex_string [c]
      else [c])"

definition go_quote :: "string \<Rightarrow> string" where
  "go_quote s = CHR 0x22 # concat (map quote_char s) @ [CHR 0x22]"

definition nl :: string where "nl = [CHR 0x0A]"

definition spc_object :: "(string \<Rightarrow> string) \<Rightarrow> fields \<Rightarrow> string \<Rightarrow> string result" where
  "spc_object sha256 delivery domain =
     (let bundle = envoyBundleName sha256 domain; provider = stringValue (map_of delivery ''provider'');
          keyPrefix = go_trim ''/'' (stringValue (map_of delivery ''keyPrefix'')) in
      if provider = ''aws'' then
        Inr (''- objectName: '' @ go_quote (''/'' @ keyPrefix @ ''/platform-cluster/ingress-certificates/'' @ bundle) @ nl @
          ''  objectType: '' @ go_quote (stringValue (map_of delivery ''objectType'')) @ nl @ ''  objectAlias: '' @ go_quote bundle @ nl)
      else if provider = ''gcp'' then
        Inr (''- resourceName: '' @ go_quote (''projects/'' @ stringValue (map_of delivery ''projectID'') @ ''/secrets/'' @
            go_trim ''_'' keyPrefix @ ''_platform-cluster_ingress-certificates_'' @ bundle @ ''/versions/latest'') @ nl @
          ''  path: '' @ go_quote bundle @ nl)
      else if provider = ''vault'' \<or> provider = ''openbao'' then
        (let mountPath = stringValue (map_of delivery ''mountPath'');
             mount = (if mountPath = [] then ''secret'' else mountPath) in
         Inr (''- objectName: '' @ go_quote bundle @ nl @
           ''  secretPath: '' @ go_quote (go_trim ''/'' mount @ ''/data/'' @ keyPrefix @ ''/platform-cluster/ingress-certificates/'' @ bundle) @ nl @
           ''  secretKey: value'' @ nl))
      else Inl (Errorf ''unsupported Envoy ingress certificate provider %q'' [S provider]))"

fun spc_objects :: "(string \<Rightarrow> string) \<Rightarrow> fields \<Rightarrow> string list \<Rightarrow> string result" where
  "spc_objects sha256 delivery [] = Inr []"
| "spc_objects sha256 delivery (d # ds) =
     bindR (spc_object sha256 delivery d) (\<lambda>t. bindR (spc_objects sha256 delivery ds) (\<lambda>ts. Inr (t @ ts)))"

definition spc_parameters :: "fields \<Rightarrow> string \<Rightarrow> fields" where
  "spc_parameters delivery objects =
     (let provider = stringValue (map_of delivery ''provider''); ca = stringValue (map_of delivery ''caCertPath'');
          address = (case map_of delivery ''address'' of None \<Rightarrow> JNull | Some v \<Rightarrow> v);
          vault_like = (\<lambda>p. [(p @ ''Address'', address), (p @ ''AuthMountPath'', JStr (valueOrDefault delivery ''authMountPath'' ''kubernetes'')),
            (''roleName'', JStr ''platform-envoy-gateway-ingress-certificates'')] @
            (if ca \<noteq> [] then [(p @ ''CACertPath'', JStr ca)] else []))
      in (if provider = ''gcp'' then ''secrets'' else ''objects'', JStr (trim_suffix objects nl)) #
         (if provider = ''vault'' then vault_like ''vault'' else if provider = ''openbao'' then vault_like ''bao'' else []))"

definition rewriteEnvoySPC :: "(string \<Rightarrow> string) \<Rightarrow> seed_record \<Rightarrow> cluster_config \<Rightarrow> string list \<Rightarrow> seed_record result" where
  "rewriteEnvoySPC sha256 r cfg domains =
     bindR (decodeEnvoyRecord r ''SecretProviderClass'') (\<lambda>obj.
     bindR (ingressCertificateDeliveryValues cfg False) (\<lambda>delivery.
     bindR (mapField obj ''spec'' envoySPCKey) (\<lambda>(spec, obj').
     bindR (spc_objects sha256 delivery domains) (\<lambda>objects.
       Inr (set_value r (put_key ''spec'' (JObj
         (put_key ''parameters'' (JObj (spc_parameters delivery objects))
           (put_key ''provider'' (JStr (stringValue (map_of delivery ''provider''))) spec))) obj'))))))"

definition new_spc :: "(string \<Rightarrow> string) \<Rightarrow> cluster_config \<Rightarrow> seed_record" where
  "new_spc sha256 cfg =
     \<lparr>rc_key = envoySPCKey,
      rc_value = Some (JObj [(''apiVersion'', JStr ''secrets-store.csi.x-k8s.io/v1''), (''kind'', JStr ''SecretProviderClass''),
        (''metadata'', JObj [(''name'', JStr ''platform-envoy-gateway-ingress-certificates''), (''namespace'', JStr ''platform-envoy-gateway''),
          (''uid'', JStr (envoyResourceUID sha256 envoySPCKey)),
          (''annotations'', JObj [(''meta.helm.sh/release-name'', JStr ''platform-envoy-gateway''),
             (''meta.helm.sh/release-namespace'', JStr ''platform-envoy-gateway'')]),
          (''labels'', JObj [(''app.kubernetes.io/managed-by'', JStr ''Helm'')])]),
        (''spec'', JObj [])]),
      rc_revision = 0, rc_create = 0, rc_prev = 0, rc_created = True, rc_version = 1, rc_leader = cl_id (cc_cluster cfg)\<rparr>"

section \<open>The Secrets\<close>

definition envoySDSSecretRecord :: "(string \<Rightarrow> string) \<Rightarrow> string \<Rightarrow> int \<Rightarrow> string \<Rightarrow> bool \<Rightarrow> seed_record" where
  "envoySDSSecretRecord sha256 domain revision leaderID nodeCertificate =
     (let bundle = bundle_name sha256 nodeCertificate domain in
      \<lparr>rc_key = ''/registry/secrets/platform-envoy-gateway/'' @ bundle,
       rc_value = Some (JObj [(''apiVersion'', JStr ''v1''), (''kind'', JStr ''Secret''),
         (''metadata'', JObj [(''name'', JStr bundle), (''namespace'', JStr ''platform-envoy-gateway''),
           (''resourceVersion'', JStr (int_string revision)), (''uid'', JStr (envoyResourceUID sha256 domain)),
           (''annotations'', JObj [(''meta.helm.sh/release-name'', JStr ''platform-envoy-gateway''),
              (''meta.helm.sh/release-namespace'', JStr ''platform-envoy-gateway'')]),
           (''labels'', JObj [(''app.kubernetes.io/managed-by'', JStr ''Helm''), (''helm.toolkit.fluxcd.io/name'', JStr ''envoy-gateway''),
              (''helm.toolkit.fluxcd.io/namespace'', JStr ''platform-envoy-gateway'')])]),
         (''type'', JStr ''gateway.envoyproxy.io/sds''),
         (''data'', JObj [(''url'', JStr (std_encode ''unix:///var/run/podplane-sds/sds.sock'')),
            (''secretName'', JStr (std_encode bundle))])]),
       rc_revision = revision, rc_create = revision, rc_prev = 0, rc_created = True, rc_version = 1, rc_leader = leaderID\<rparr>)"

fun sds_records :: "(string \<Rightarrow> string) \<Rightarrow> string \<Rightarrow> bool \<Rightarrow> int \<Rightarrow> string list \<Rightarrow> seed_record list" where
  "sds_records sha256 leader nodeCertificate revision [] = []"
| "sds_records sha256 leader nodeCertificate revision (d # ds) =
     (let rev = wrap64 (revision + 1); r = envoySDSSecretRecord sha256 d rev leader nodeCertificate in
      if nodeCertificate then [r] else r # sds_records sha256 leader nodeCertificate rev ds)"

section \<open>All ingress records\<close>

text \<open>
  The loop keeps the last record of each key; a captured domain Secret is an error. \<open>at_last\<close> changes the record that
  the pointer stands for.
\<close>

definition domain_secret :: "seed_record \<Rightarrow> bool" where
  "domain_secret r \<longleftrightarrow> rc_key r \<notin> {envoyGatewayKey, envoyProxyKey, envoySPCKey} \<and>
     (has_prefix (rc_key r) envoySecretBase \<or> rc_key r = node_secret_key)"

definition last_index :: "string \<Rightarrow> seed_record list \<Rightarrow> nat option" where
  "last_index key rs = (case filter (\<lambda>i. rc_key (rs ! i) = key) [0..<length rs] of [] \<Rightarrow> None | is \<Rightarrow> Some (last is))"

definition last_revision :: "seed_record list \<Rightarrow> int" where
  "last_revision rs = foldl (\<lambda>m r. if rc_revision r > m then rc_revision r else m) 0 rs"

definition update_nth :: "(seed_record \<Rightarrow> seed_record result) \<Rightarrow> nat \<Rightarrow> seed_record list \<Rightarrow> seed_record list result" where
  "update_nth f i rs = bindR (f (rs ! i)) (\<lambda>r. Inr (rs[i := r]))"

definition spc_records ::
  "(string \<Rightarrow> string) \<Rightarrow> cluster_config \<Rightarrow> string list \<Rightarrow> bool \<Rightarrow> nat option \<Rightarrow> seed_record list \<Rightarrow> seed_record list result" where
  "spc_records sha256 cfg domains nodeCertificate spc records =
     (if nodeCertificate then Inr (case spc of None \<Rightarrow> records | Some i \<Rightarrow> take i records @ drop (Suc i) records)
      else (case spc of
          Some i \<Rightarrow> update_nth (\<lambda>r. rewriteEnvoySPC sha256 r cfg domains) i records
        | None \<Rightarrow> update_nth (\<lambda>r. rewriteEnvoySPC sha256 r cfg domains) (length records) (records @ [new_spc sha256 cfg])))"

definition interpolateEnvoyIngress ::
  "(string \<Rightarrow> string) \<Rightarrow> seed_record list \<Rightarrow> cluster_config \<Rightarrow> bool \<Rightarrow> seed_record list result" where
  "interpolateEnvoyIngress sha256 records cfg nodeCertificate =
     (let domains = map do_zone (cl_domains (cc_cluster cfg)) in
      if domains = [] then Inr records
      else (case find domain_secret records of
          Some r \<Rightarrow> Inl (Errorf ''generic seed unexpectedly contains domain-specific Envoy SDS Secret %s'' [S (rc_key r)])
        | None \<Rightarrow>
            let gateway = last_index envoyGatewayKey records; proxy = last_index envoyProxyKey records;
                spc = last_index envoySPCKey records
            in if gateway = None \<and> proxy = None \<and> spc = None then Inr records
               else (case (gateway, proxy) of
                   (Some g, Some p) \<Rightarrow>
                     bindR (update_nth (\<lambda>r. rewriteEnvoyGateway sha256 r domains nodeCertificate) g records) (\<lambda>records1.
                     bindR (update_nth (\<lambda>r. rewriteEnvoyProxy sha256 r domains nodeCertificate) p records1) (\<lambda>records2.
                     bindR (spc_records sha256 cfg domains nodeCertificate spc records2) (\<lambda>records3.
                       Inr (records3 @ sds_records sha256 (cl_id (cc_cluster cfg)) nodeCertificate (last_revision records3) domains))))
                 | _ \<Rightarrow> Inl (Errorf ''podplane seed file contains incomplete Envoy ingress resources'' []))))"

end
