(* ===== verification/SeedPrepare.thy ===== *)
theory SeedPrepare
  imports SeedNetwork SeedEnvoy
begin

text \<open>
  \<open>Prepare\<close> of \<open>pkg/netsyseed/snapshot.go\<close>: the values and the records of a new cluster's seed. The files, the HTTP
  client, the URL parser, the YAML decoder, the JSON text codec, SHA-256 and the snapshot reader of the Netsy library
  are the environment.
\<close>

record seed_env =
  en_parsers :: parsers
  en_sha256 :: "string \<Rightarrow> string"
  en_readFile :: "string \<Rightarrow> string result"
  en_url :: "string \<Rightarrow> (string \<times> string) option"
  en_get :: "string \<Rightarrow> (int \<times> string \<times> string result) result"
  en_yaml :: "string \<Rightarrow> fields option result"
  en_unmarshal :: "string \<Rightarrow> json result"
  en_marshal :: "json \<Rightarrow> string"
  en_snapshot :: "string \<Rightarrow> seed_record list result"

record snapshot_options =
  so_seed_path :: string
  so_node_certificate :: bool
  so_values_content :: string
  so_values_file :: string

record prepared_seed =
  ps_values :: fields
  ps_records :: "seed_record list"
  ps_cluster :: string

section \<open>Values overrides and the seed file\<close>

definition mergeValuesContent :: "seed_env \<Rightarrow> fields \<Rightarrow> string \<Rightarrow> string \<Rightarrow> fields result" where
  "mergeValuesContent env dst data source =
     (if data = [] then Inr dst
      else (case en_yaml env data of
          Inl e \<Rightarrow> Inl (Wrapf ''decode %s: %w'' [S source] e)
        | Inr None \<Rightarrow> Inr dst
        | Inr (Some vals) \<Rightarrow> Inr (deepMerge dst vals)))"

definition mergeValuesFile :: "seed_env \<Rightarrow> fields \<Rightarrow> string \<Rightarrow> fields result" where
  "mergeValuesFile env dst path =
     (if path = [] then Inr dst
      else (case en_readFile env path of
          Inl e \<Rightarrow> Inl (Wrapf ''read values file %s: %w'' [S path] e)
        | Inr data \<Rightarrow> mergeValuesContent env dst data (''values file '' @ path)))"

definition loadSeedFile :: "seed_env \<Rightarrow> string \<Rightarrow> string result" where
  "loadSeedFile env seed =
     (case en_url env seed of
        Some (scheme, host) \<Rightarrow>
          if host \<noteq> [] \<and> (scheme = ''http'' \<or> scheme = ''https'') then
            (case en_get env seed of
               Inl e \<Rightarrow> Inl (Wrapf ''download Podplane seed file %s: %w'' [S seed] e)
             | Inr (code, status, body) \<Rightarrow>
                 if code < 200 \<or> code \<ge> 300 then Inl (Errorf ''download Podplane seed file %s: HTTP %s'' [S seed, S status])
                 else (case body of Inl e \<Rightarrow> Inl (Wrapf ''read Podplane seed file response: %w'' [] e) | Inr data \<Rightarrow> Inr data))
          else (case en_readFile env seed of
              Inl e \<Rightarrow> Inl (Wrapf ''read Podplane seed file %s: %w'' [S seed] e) | Inr data \<Rightarrow> Inr data)
      | None \<Rightarrow>
          (case en_readFile env seed of
             Inl e \<Rightarrow> Inl (Wrapf ''read Podplane seed file %s: %w'' [S seed] e) | Inr data \<Rightarrow> Inr data))"

section \<open>Captured issuer settings\<close>

definition operator_config_key :: string where
  "operator_config_key = ''/registry/configmaps/platform-podplane-operator/platform-podplane-operator-config''"
definition operator_release_key :: string where
  "operator_release_key = ''/registry/helm.toolkit.fluxcd.io/helmreleases/platform-podplane-operator/podplane-operator''"

definition strip_config_map :: "seed_env \<Rightarrow> fields \<Rightarrow> fields result" where
  "strip_config_map env obj =
     (case ensureMap obj ''data'' of (data, obj') \<Rightarrow>
       (case en_unmarshal env (stringValue (map_of data ''config.json'')) of
          Inl e \<Rightarrow> Inl (Wrapf ''decode seeded operator config: %w'' [] e)
        | Inr (JObj config) \<Rightarrow>
            Inr (put_key ''data'' (JObj (put_key ''config.json''
              (JStr (en_marshal env (JObj (del_key ''ingress_certificates'' config)))) data)) obj')
        | Inr JNull \<Rightarrow> Inr (put_key ''data'' (JObj (put_key ''config.json'' (JStr (en_marshal env JNull)) data)) obj')
        | Inr _ \<Rightarrow> Inl (Errorf ''decode seeded operator config: %w'' [])))"

definition disable_record :: "seed_env \<Rightarrow> seed_record \<Rightarrow> seed_record result" where
  "disable_record env r =
     (if rc_key r \<noteq> operator_config_key \<and> rc_key r \<noteq> operator_release_key then Inr r
      else (case decode_fields r of
          None \<Rightarrow> Inl (Errorf ''decode operator seed record %s: %w'' [S (rc_key r)])
        | Some obj \<Rightarrow>
            if stringValue (map_of obj ''kind'') = ''ConfigMap'' then map_sum id (set_value r) (strip_config_map env obj)
            else if nil_map r then Inl panic_nil_map
            else Inr (set_value r (ensure_at [''spec'', ''values'', ''podplane'', ''operator'', ''config'']
              (put_key ''ingressCertificates'' JNull) obj))))"

fun disableSeedIngressCertificates :: "seed_env \<Rightarrow> seed_record list \<Rightarrow> seed_record list result" where
  "disableSeedIngressCertificates env [] = Inr []"
| "disableSeedIngressCertificates env (r # rs) =
     bindR (disable_record env r) (\<lambda>r'. bindR (disableSeedIngressCertificates env rs) (\<lambda>rs'. Inr (r' # rs')))"

section \<open>The Flux records\<close>

definition podplaneComponentsGitKey :: string where
  "podplaneComponentsGitKey = ''/registry/source.toolkit.fluxcd.io/gitrepositories/platform-components/podplane-components''"
definition platformComponentsHelmReleaseKey :: string where
  "platformComponentsHelmReleaseKey = ''/registry/helm.toolkit.fluxcd.io/helmreleases/platform-components/platform-components''"

text \<open>The object is of the Flux kind and API, and has the name; a nil map reads as an empty one.\<close>

definition flux_object :: "string \<Rightarrow> string \<Rightarrow> string \<Rightarrow> string \<Rightarrow> fields \<Rightarrow> gerror" where
  "flux_object key kind api name obj =
     (let metadata = (case map_of obj ''metadata'' of Some (JObj m) \<Rightarrow> m | _ \<Rightarrow> []);
          namespace = stringValue (map_of metadata ''namespace'') in
      if map_of obj ''kind'' \<noteq> Some (JStr kind) \<or> \<not> has_prefix (stringValue (map_of obj ''apiVersion'')) api then
        Some (Errorf ''record at %s is not a Flux %s'' [S key, S kind])
      else if map_of metadata ''name'' \<noteq> Some (JStr name) then
        Some (Errorf ''record at %s is not the %s %s'' [S key, S name, S kind])
      else if namespace \<noteq> [] \<and> namespace \<noteq> ''platform-components'' then
        Some (Errorf ''record at %s is in namespace %q, want platform-components'' [S key, S namespace])
      else None)"

definition merge_release :: "seed_record \<Rightarrow> fields \<Rightarrow> (seed_record \<times> fields) result" where
  "merge_release r vals =
     (case decode_fields r of
        None \<Rightarrow> Inl (Errorf ''decode platform-components HelmRelease at %s: %w'' [S (rc_key r)])
      | Some obj \<Rightarrow>
          (case flux_object (rc_key r) ''HelmRelease'' ''helm.toolkit.fluxcd.io/'' ''platform-components'' obj of
             Some e \<Rightarrow> Inl e
           | None \<Rightarrow>
               (case ensureMap obj ''spec'' of (spec, obj') \<Rightarrow>
               (case ensureMap spec ''values'' of (specValues, spec') \<Rightarrow>
                 let merged_values = deepMerge specValues vals in
                 Inr (set_value r (put_key ''spec'' (JObj (put_key ''values'' (JObj merged_values) spec')) obj'), merged_values)))))"

fun interpolatePlatformComponents :: "seed_record list \<Rightarrow> fields \<Rightarrow> (seed_record list \<times> fields) result" where
  "interpolatePlatformComponents [] vals =
     Inl (Errorf ''podplane seed file does not contain the platform-components HelmRelease at %s'' [S platformComponentsHelmReleaseKey])"
| "interpolatePlatformComponents (r # rs) vals =
     (if rc_key r \<noteq> platformComponentsHelmReleaseKey then
        bindR (interpolatePlatformComponents rs vals) (\<lambda>(rs', v). Inr (r # rs', v))
      else bindR (merge_release r vals) (\<lambda>(r', v). Inr (r' # rs, v)))"

definition source_ref_fields :: "source_ref \<Rightarrow> fields" where
  "source_ref_fields ref =
     (if sr_branch ref \<noteq> [] then [(''branch'', JStr (sr_branch ref))] else []) @
     (if sr_tag ref \<noteq> [] then [(''tag'', JStr (sr_tag ref))] else []) @
     (if sr_semver ref \<noteq> [] then [(''semver'', JStr (sr_semver ref))] else []) @
     (if sr_commit ref \<noteq> [] then [(''commit'', JStr (sr_commit ref))] else [])"

definition source_spec :: "components_source \<Rightarrow> fields \<Rightarrow> fields" where
  "source_spec source spec =
     (let s1 = put_key ''url'' (JStr (cs_url source)) spec;
          s2 = (case cs_secret_ref source of
              Some name \<Rightarrow> if name \<noteq> [] then put_key ''secretRef'' (JObj [(''name'', JStr name)]) s1 else del_key ''secretRef'' s1
            | None \<Rightarrow> del_key ''secretRef'' s1);
          ref = source_ref_fields (cs_ref source)
      in if ref \<noteq> [] then put_key ''ref'' (JObj ref) s2 else del_key ''ref'' s2)"

definition set_source :: "components_source \<Rightarrow> seed_record \<Rightarrow> seed_record result" where
  "set_source source r =
     (case decode_fields r of
        None \<Rightarrow> Inl (Errorf ''decode podplane-components GitRepository at %s: %w'' [S (rc_key r)])
      | Some obj \<Rightarrow>
          (case flux_object (rc_key r) ''GitRepository'' ''source.toolkit.fluxcd.io/'' ''podplane-components'' obj of
             Some e \<Rightarrow> Inl e
           | None \<Rightarrow> Inr (set_value r (ensure_at [''spec''] (source_spec source) obj))))"

fun set_first_source :: "components_source \<Rightarrow> seed_record list \<Rightarrow> seed_record list result" where
  "set_first_source source [] =
     Inl (Errorf ''podplane seed file does not contain the podplane-components GitRepository at %s'' [S podplaneComponentsGitKey])"
| "set_first_source source (r # rs) =
     (if rc_key r \<noteq> podplaneComponentsGitKey then bindR (set_first_source source rs) (\<lambda>rs'. Inr (r # rs'))
      else bindR (set_source source r) (\<lambda>r'. Inr (r' # rs)))"

definition interpolateComponentsSource :: "seed_record list \<Rightarrow> components_source option \<Rightarrow> seed_record list result" where
  "interpolateComponentsSource records source =
     (case source of
        None \<Rightarrow> Inr records
      | Some s \<Rightarrow> if cs_url s = [] then Inr records else set_first_source s records)"

section \<open>Prepare\<close>

definition renumber :: "nat \<Rightarrow> seed_record \<Rightarrow> seed_record" where
  "renumber i r = r\<lparr>rc_revision := int (Suc i), rc_create := int (Suc i), rc_prev := 0\<rparr>"

definition prepare_values :: "seed_env \<Rightarrow> cluster_config \<Rightarrow> bool \<Rightarrow> snapshot_options \<Rightarrow> fields result" where
  "prepare_values env cfg nodeCertificate opts =
     bindR (buildPlatformComponentsValues (en_parsers env) (en_sha256 env) (en_readFile env) (Some cfg) nodeCertificate) (\<lambda>v1.
     bindR (mergeValuesContent env v1 (so_values_content opts) ''values content'') (\<lambda>v2.
     bindR (mergeValuesFile env v2 (so_values_file opts)) (\<lambda>v3.
       Inr (if nodeCertificate then applyNodeCertificateValues v3 else v3))))"

definition prepare_network :: "cluster_config \<Rightarrow> seed_record list \<Rightarrow> fields \<Rightarrow> (seed_record list \<times> fields) result" where
  "prepare_network cfg records vals =
     (let cidrs = ku_service_cidr (cl_kubernetes (cc_cluster cfg)) in
      if cidrs = [] then Inr (records, vals)
      else bindR (ServiceNetworkFromCIDRs cidrs) (\<lambda>network.
        bindR (interpolateKubernetes records network) (\<lambda>records'.
        bindR (applyNetworkValues vals network) (\<lambda>vals'. Inr (records', vals')))))"

definition prepare_images :: "cluster_config \<Rightarrow> seed_record list \<Rightarrow> fields \<Rightarrow> seed_record list \<times> fields" where
  "prepare_images cfg records vals =
     (let c = cc_cluster cfg in
      if mirror_enabled c then rewriteSeedImages records vals (RegistryMirrorHostname c) (RegistryMirrorPrefix c)
      else (records, vals))"

text \<open>The revisions of a fresh history, from 1.\<close>

definition finish_seed :: "cluster_config \<Rightarrow> seed_record list \<Rightarrow> fields \<Rightarrow> prepared_seed" where
  "finish_seed cfg records componentValues =
     (case prepare_images cfg records componentValues of (records', componentValues') \<Rightarrow>
       \<lparr>ps_values = componentValues', ps_records = map (\<lambda>(i, r). renumber i r) (enumerate 0 records'),
        ps_cluster = cl_id (cc_cluster cfg)\<rparr>)"

definition Prepare :: "seed_env \<Rightarrow> cluster_config result \<Rightarrow> snapshot_options \<Rightarrow> prepared_seed result" where
  "Prepare env loaded opts =
     (if so_seed_path opts = [] then Inl (Errorf ''seed path is required'' [])
      else
        bindR loaded (\<lambda>cfg.
        let nodeCertificate = (so_node_certificate opts \<or> cl_tunnel (cc_cluster cfg) \<noteq> None) in
        bindR (prepare_values env cfg nodeCertificate opts) (\<lambda>vals.
        bindR (loadSeedFile env (so_seed_path opts)) (\<lambda>seedData.
        bindR (case en_snapshot env seedData of
            Inl e \<Rightarrow> Inl (Wrapf ''read Podplane seed file: %w'' [] e) | Inr records \<Rightarrow> Inr records) (\<lambda>records.
        bindR (if nodeCertificate then disableSeedIngressCertificates env records else Inr records) (\<lambda>records1.
        bindR (prepare_network cfg records1 vals) (\<lambda>(records2, vals2).
        bindR (interpolatePlatformComponents records2 vals2) (\<lambda>(records3, componentValues).
        bindR (interpolateEnvoyIngress (en_sha256 env) records3 cfg nodeCertificate) (\<lambda>records4.
        bindR (interpolateComponentsSource records4 (co_source (cl_components (cc_cluster cfg)))) (\<lambda>records5.
          Inr (finish_seed cfg records5 componentValues)))))))))))"

end
