(* ===== verification/SeedFacts.thy ===== *)
theory SeedFacts
  imports SeedPrepare
begin

text \<open>
  What the steps of \<open>Prepare\<close> keep of the records and values that are not theirs: paths under the changes of objects,
  records with other keys, and values under the rewriting of images.
\<close>

section \<open>Paths\<close>

lemma value_at_single: "value_at [k] (JObj kvs) = map_of kvs k"
  by (cases "map_of kvs k") simp_all

lemma map_of_ensureMap: "ensureMap obj k = (child, parent) \<Longrightarrow> map_of parent = (map_of obj)(k \<mapsto> JObj child)"
  by (auto simp: ensureMap_def fun_eq_iff split: option.splits json.splits)

text \<open>A change below one path does not reach a path that leaves it.\<close>

fun apart :: "string list \<Rightarrow> string list \<Rightarrow> bool" where
  "apart (k # ks) (l # ls) = (k \<noteq> l \<or> apart ks ls)"
| "apart ks ls = False"

lemma ensure_at_apart: "apart ks ls \<Longrightarrow> value_at ls (JObj obj) = Some v \<Longrightarrow> value_at ls (JObj (ensure_at ks f obj)) = Some v"
proof (induction ks ls arbitrary: obj rule: apart.induct)
  case (1 k ks l ls)
  obtain child parent where e: "ensureMap obj k = (child, parent)" by fastforce
  show ?case
  proof (cases "k = l")
    case True
    with 1 obtain w where w: "map_of obj l = Some w" "value_at ls w = Some v" by (auto split: bind_split_asm)
    have "ls \<noteq> []" using 1(2) True by auto
    with w obtain kvs where kvs: "w = JObj kvs" by (cases w; cases ls) auto
    hence "child = kvs" using e w True by (simp add: ensureMap_def)
    thus ?thesis using 1 True w kvs e by simp
  next
    case False
    thus ?thesis using 1 e map_of_ensureMap [OF e] by simp
  qed
qed simp_all

lemma field_at_apart:
  "apart (map fst ks) ls \<Longrightarrow> field_at ks f obj = Inr obj' \<Longrightarrow> value_at ls (JObj obj) = Some v \<Longrightarrow> value_at ls (JObj obj') = Some v"
proof (induction ks arbitrary: ls obj obj')
  case (Cons kc ks)
  obtain k c where kc: "kc = (k, c)" by fastforce
  from Cons.prems(2) obtain child parent child' where f: "mapField obj k c = Inr (child, parent)"
    "field_at ks f child = Inr child'" "obj' = put_key k (JObj child') parent" by (auto simp: kc bindR_Inr_iff)
  have p: "map_of parent = (map_of obj)(k \<mapsto> JObj child)"
    using f(1) by (auto simp: mapField_def fun_eq_iff split: option.splits json.splits)
  obtain l ls' where l: "ls = l # ls'" using Cons.prems(1) by (cases ls) simp_all
  show ?case
  proof (cases "k = l")
    case True
    with Cons.prems l obtain w where w: "map_of obj l = Some w" "value_at ls' w = Some v" by (auto split: bind_split_asm)
    have a: "apart (map fst ks) ls'" using Cons.prems(1) True by (simp add: kc l)
    hence "ls' \<noteq> []" by auto
    with w obtain kvs where kvs: "w = JObj kvs" by (cases w; cases ls') auto
    hence "child = kvs" using f(1) w True by (simp add: mapField_def)
    with Cons.IH [OF a f(2)] w kvs show ?thesis by (simp add: l f(3) True)
  next
    case False
    thus ?thesis using Cons.prems(3) by (simp add: l f(3) p)
  qed
qed simp

lemma value_at_ensure_put:
  "value_at (ks @ [k]) (JObj (ensure_at ks (put_key k v) obj)) = Some v"
proof -
  from at_ensure_at [of ks "put_key k v" obj] obtain sub where
    "value_at ks (JObj (ensure_at ks (put_key k v) obj)) = Some (JObj (put_key k v sub))" by blast
  thus ?thesis by (simp add: at_append)
qed

section \<open>Images\<close>

lemma map_of_fields: "map_of (map (\<lambda>(k, v). (k, f k v)) kvs) k = map_option (f k) (map_of kvs k)"
  by (induction kvs) auto

lemma value_at_rewritten:
  "''image'' \<notin> set ks \<Longrightarrow> value_at ks v = Some w \<Longrightarrow>
     value_at ks (snd (rewriteImageFields base v)) = Some (snd (rewriteImageFields base w))"
proof (induction ks v rule: value_at.induct)
  case (2 k ks kvs)
  from 2(3) obtain u where u: "map_of kvs k = Some u" "value_at ks u = Some w" by (auto split: bind_split_asm)
  show ?case using 2(1) [of u] 2(2) u by (auto simp: rewrite_obj map_of_fields rewritten_def)
qed simp_all

lemma rewrite_record_value: "rc_value (rewrite_record base r) = map_option (\<lambda>v. snd (rewriteImageFields base v)) (rc_value r)"
  using rewrite_images_changed by (auto simp: rewrite_record_def split: option.split prod.split) (metis fst_conv snd_conv)

lemma rewritten_obj: "\<exists>kvs'. snd (rewriteImageFields base (JObj kvs)) = JObj kvs'"
  by (simp add: rewrite_obj)

lemma rewrite_record_key [simp]: "rc_key (rewrite_record base r) = rc_key r"
  by (auto simp: rewrite_record_def split: option.split prod.split)

section \<open>Records of other keys\<close>

definition kept_record :: "string set \<Rightarrow> seed_record list \<Rightarrow> seed_record list \<Rightarrow> bool" where
  "kept_record keys rs rs' \<longleftrightarrow> (\<forall>r \<in> set rs. rc_key r \<notin> keys \<longrightarrow> r \<in> set rs')"

lemma kept_trans: "kept_record keys rs rs' \<Longrightarrow> kept_record keys rs' rs'' \<Longrightarrow> kept_record keys rs rs''"
  by (simp add: kept_record_def)

lemma last_index_key: "last_index key rs = Some i \<Longrightarrow> i < length rs \<and> rc_key (rs ! i) = key"
proof -
  assume l: "last_index key rs = Some i"
  let ?is = "filter (\<lambda>i. rc_key (rs ! i) = key) [0..<length rs]"
  have "?is \<noteq> [] \<and> i = last ?is" using l by (auto simp: last_index_def split: list.splits)
  hence "i \<in> set ?is" using last_in_set [of ?is] by simp
  thus ?thesis by simp
qed

lemma update_nth_kept:
  assumes "update_nth f i rs = Inr rs'" "i < length rs" "rc_key (rs ! i) \<in> keys"
  shows "kept_record keys rs rs'"
proof -
  from assms(1) obtain r' where r': "rs' = rs[i := r']" by (auto simp: update_nth_def bindR_Inr_iff)
  show ?thesis unfolding kept_record_def
  proof (intro ballI impI)
    fix r assume "r \<in> set rs" "rc_key r \<notin> keys"
    then obtain j where "j < length rs" "rs ! j = r" "j \<noteq> i" using assms(3) by (metis in_set_conv_nth)
    thus "r \<in> set rs'" by (auto simp: r' in_set_conv_nth intro!: exI [of _ j])
  qed
qed

definition keeps_key :: "(seed_record \<Rightarrow> seed_record result) \<Rightarrow> bool" where
  "keeps_key f \<longleftrightarrow> (\<forall>r r'. f r = Inr r' \<longrightarrow> rc_key r' = rc_key r)"

lemma update_nth_keys:
  assumes "keeps_key f" "update_nth f i rs = Inr rs'" "i < length rs"
  shows "map rc_key rs' = map rc_key rs"
proof -
  from assms(2) obtain r' where "f (rs ! i) = Inr r'" "rs' = rs[i := r']" by (auto simp: update_nth_def bindR_Inr_iff)
  thus ?thesis using assms(1,3) by (simp add: keeps_key_def map_update list_update_same_conv)
qed

lemma rewriteEnvoyGateway_Inr:
  assumes "rewriteEnvoyGateway sha r ds n = Inr r'"
  shows "\<exists>obj spec obj' listeners kept. decodeEnvoyRecord r ''Gateway'' = Inr obj \<and>
    mapField obj ''spec'' envoyGatewayKey = Inr (spec, obj') \<and> map_of spec ''listeners'' = Some (JArr listeners) \<and>
    kept_listeners listeners = Some kept \<and>
    r' = set_value r (put_key ''spec'' (JObj (put_key ''listeners''
       (JArr (kept @ concat (map (domain_listeners sha n) ds))) spec)) obj')"
proof -
  from assms obtain obj spec obj' where o1: "decodeEnvoyRecord r ''Gateway'' = Inr obj"
    "mapField obj ''spec'' envoyGatewayKey = Inr (spec, obj')"
    by (auto simp: rewriteEnvoyGateway_def bindR_Inr_iff)
  with assms obtain listeners where l: "map_of spec ''listeners'' = Some (JArr listeners)"
    by (auto simp: rewriteEnvoyGateway_def split: option.splits json.splits)
  with assms o1 obtain kept where "kept_listeners listeners = Some kept"
    by (cases "kept_listeners listeners") (auto simp: rewriteEnvoyGateway_def)
  with assms o1 l show ?thesis by (simp add: rewriteEnvoyGateway_def)
qed

lemma rewrites_keep_key:
  "keeps_key (\<lambda>r. rewriteEnvoyGateway sha r ds n)" "keeps_key (\<lambda>r. rewriteEnvoyProxy sha r ds n)"
proof -
  show "keeps_key (\<lambda>r. rewriteEnvoyGateway sha r ds n)"
    unfolding keeps_key_def using rewriteEnvoyGateway_Inr by fastforce
  show "keeps_key (\<lambda>r. rewriteEnvoyProxy sha r ds n)"
    by (auto simp: keeps_key_def rewriteEnvoyProxy_def bindR_Inr_iff Let_def split: if_splits)
qed

lemma spc_records_kept:
  assumes "spc_records sha cfg ds n spc rs = Inr rs'" "\<forall>i. spc = Some i \<longrightarrow> i < length rs \<and> rc_key (rs ! i) = envoySPCKey"
  shows "kept_record {envoySPCKey} rs rs'"
proof (cases spc)
  case None
  show ?thesis
  proof (cases n)
    case True
    thus ?thesis using assms(1) None by (simp add: spc_records_def kept_record_def)
  next
    case False
    hence "update_nth (\<lambda>r. rewriteEnvoySPC sha r cfg ds) (length rs) (rs @ [new_spc sha cfg]) = Inr rs'"
      using assms(1) None by (simp add: spc_records_def)
    from update_nth_kept [OF this] have "kept_record {envoySPCKey} (rs @ [new_spc sha cfg]) rs'" by (simp add: new_spc_def)
    thus ?thesis by (simp add: kept_record_def)
  qed
next
  case (Some i)
  hence i: "i < length rs" "rc_key (rs ! i) = envoySPCKey" using assms(2) by simp_all
  show ?thesis
  proof (cases n)
    case True
    hence rs': "rs' = take i rs @ drop (Suc i) rs" using assms(1) Some by (simp add: spc_records_def)
    have "set rs = insert (rs ! i) (set rs')" using id_take_nth_drop [OF i(1)] by (metis Un_insert_right list.set(2) rs' set_append)
    thus ?thesis using i(2) by (auto simp: kept_record_def)
  next
    case False
    thus ?thesis using assms(1) Some update_nth_kept i by (simp add: spc_records_def)
  qed
qed

lemma kept_weaken: "kept_record keys rs rs' \<Longrightarrow> keys \<subseteq> keys' \<Longrightarrow> kept_record keys' rs rs'"
  by (auto simp: kept_record_def)

lemma same_keys_nth: "map rc_key rs' = map rc_key rs \<Longrightarrow> i < length rs \<Longrightarrow> i < length rs' \<and> rc_key (rs' ! i) = rc_key (rs ! i)"
  by (metis length_map nth_map)

lemma interpolateEnvoyIngress_kept:
  assumes "interpolateEnvoyIngress sha rs cfg n = Inr out"
  shows "kept_record {envoyGatewayKey, envoyProxyKey, envoySPCKey} rs out"
proof -
  let ?ds = "map do_zone (cl_domains (cc_cluster cfg))" and ?keys = "{envoyGatewayKey, envoyProxyKey, envoySPCKey}"
  let ?spc = "last_index envoySPCKey rs"
  have same: "kept_record ?keys rs rs" by (simp add: kept_record_def)
  show ?thesis
  proof (cases "?ds = [] \<or> last_index envoyGatewayKey rs = None \<and> last_index envoyProxyKey rs = None \<and> ?spc = None")
    case True
    hence "out = rs" using assms unfolding interpolateEnvoyIngress_def Let_def by (auto split: option.splits if_splits)
    thus ?thesis using same by simp
  next
    case False
    with assms obtain g p rs1 rs2 rs3 where s: "last_index envoyGatewayKey rs = Some g" "last_index envoyProxyKey rs = Some p"
      "update_nth (\<lambda>r. rewriteEnvoyGateway sha r ?ds n) g rs = Inr rs1" "update_nth (\<lambda>r. rewriteEnvoyProxy sha r ?ds n) p rs1 = Inr rs2"
      "spc_records sha cfg ?ds n ?spc rs2 = Inr rs3" "set rs3 \<subseteq> set out"
      unfolding interpolateEnvoyIngress_def Let_def by (auto simp: bindR_Inr_iff split: option.splits if_splits)
    note g = last_index_key [OF s(1)] and p = last_index_key [OF s(2)]
    have k1: "map rc_key rs1 = map rc_key rs" using update_nth_keys [OF rewrites_keep_key(1) s(3)] g by simp
    hence p1: "p < length rs1" "rc_key (rs1 ! p) = envoyProxyKey" using p same_keys_nth [of rs1 rs p] by simp_all
    have k2: "map rc_key rs2 = map rc_key rs" using update_nth_keys [OF rewrites_keep_key(2) s(4) p1(1)] k1 by simp
    have "\<forall>i. ?spc = Some i \<longrightarrow> i < length rs2 \<and> rc_key (rs2 ! i) = envoySPCKey"
      using last_index_key same_keys_nth [OF k2] by metis
    from spc_records_kept [OF s(5) this] have "kept_record ?keys rs2 rs3" by (rule kept_weaken) simp
    moreover have "kept_record ?keys rs rs1" using update_nth_kept [OF s(3)] g by simp
    moreover have "kept_record ?keys rs1 rs2" using update_nth_kept [OF s(4) p1(1)] p1(2) by simp
    ultimately have "kept_record ?keys rs rs3" using kept_trans by metis
    thus ?thesis using s(6) by (auto simp: kept_record_def)
  qed
qed

lemma set_first_source_kept:
  "set_first_source s rs = Inr rs' \<Longrightarrow> kept_record {podplaneComponentsGitKey} rs rs'"
proof (induction rs arbitrary: rs')
  case (Cons r rs)
  thus ?case
    by (cases "rc_key r = podplaneComponentsGitKey") (fastforce simp: kept_record_def bindR_Inr_iff)+
qed simp

lemma interpolateComponentsSource_kept:
  "interpolateComponentsSource rs source = Inr rs' \<Longrightarrow> kept_record {podplaneComponentsGitKey} rs rs'"
  using set_first_source_kept by (auto simp: interpolateComponentsSource_def kept_record_def split: option.splits if_splits)

section \<open>The release record\<close>

definition release_values :: "fields \<Rightarrow> seed_record \<Rightarrow> bool" where
  "release_values vals r \<longleftrightarrow> rc_key r = platformComponentsHelmReleaseKey \<and>
     (\<exists>obj. rc_value r = Some (JObj obj) \<and> value_at [''spec'', ''values''] (JObj obj) = Some (JObj vals))"

lemma merge_release_values:
  assumes "merge_release r vals = Inr (r', vals')" "rc_key r = platformComponentsHelmReleaseKey"
  shows "release_values vals' r'" "\<exists>old. vals' = deepMerge old vals \<and>
    old = fst (ensureMap (fst (ensureMap (fields_of r) ''spec'')) ''values'')"
proof -
  from assms(1) obtain obj spec obj' specValues spec' where m: "decode_fields r = Some obj" "ensureMap obj ''spec'' = (spec, obj')"
    "ensureMap spec ''values'' = (specValues, spec')" "vals' = deepMerge specValues vals"
    "r' = set_value r (put_key ''spec'' (JObj (put_key ''values'' (JObj vals') spec')) obj')"
    unfolding merge_release_def by (auto simp: Let_def split: option.splits prod.splits)
  show "release_values vals' r'" by (simp add: release_values_def assms(2) m(5))
  show "\<exists>old. vals' = deepMerge old vals \<and> old = fst (ensureMap (fst (ensureMap (fields_of r) ''spec'')) ''values'')"
    by (simp add: m fields_of_def)
qed

lemma interpolatePlatformComponents_spec:
  "interpolatePlatformComponents rs vals = Inr (rs', vals') \<Longrightarrow>
     (\<exists>r \<in> set rs'. release_values vals' r) \<and>
     (\<exists>r \<in> set rs. rc_key r = platformComponentsHelmReleaseKey \<and>
        vals' = deepMerge (fst (ensureMap (fst (ensureMap (fields_of r) ''spec'')) ''values'')) vals)"
proof (induction rs arbitrary: rs')
  case (Cons r rs)
  show ?case
  proof (cases "rc_key r = platformComponentsHelmReleaseKey")
    case True
    with Cons.prems obtain r' where "merge_release r vals = Inr (r', vals')" "rs' = r' # rs" by (auto simp: bindR_Inr_iff)
    with merge_release_values [OF this(1) True] True show ?thesis by auto
  next
    case False
    with Cons show ?thesis by (fastforce simp: bindR_Inr_iff)
  qed
qed simp

lemma release_other_keys:
  "release_values vals r \<Longrightarrow> rc_key r \<notin> {envoyGatewayKey, envoyProxyKey, envoySPCKey}"
  "release_values vals r \<Longrightarrow> rc_key r \<noteq> podplaneComponentsGitKey"
  by (auto simp: release_values_def platformComponentsHelmReleaseKey_def envoyGatewayKey_def envoyProxyKey_def envoySPCKey_def
      podplaneComponentsGitKey_def)

lemma release_rewritten:
  assumes "release_values vals r" "snd (rewriteImageFields base (JObj vals)) = JObj vals'"
  shows "release_values vals' (rewrite_record base r)"
proof -
  from assms(1) obtain obj where obj: "rc_value r = Some (JObj obj)" "value_at [''spec'', ''values''] (JObj obj) = Some (JObj vals)"
    by (auto simp: release_values_def)
  obtain obj' where obj': "snd (rewriteImageFields base (JObj obj)) = JObj obj'" using rewritten_obj by blast
  have "value_at [''spec'', ''values''] (snd (rewriteImageFields base (JObj obj))) = Some (snd (rewriteImageFields base (JObj vals)))"
    by (rule value_at_rewritten [OF _ obj(2)]) simp
  thus ?thesis using assms obj obj' by (simp add: release_values_def rewrite_record_value)
qed

end
