(* ===== verification/SeedWellFormed.thy ===== *)
theory SeedWellFormed
  imports SeedFacts
begin

text \<open>
  The values a new cluster is given are well-formed: no object has a key twice, whatever the configuration, the
  overrides and the seed hold. So a leaf of the values survives the merge into the seed's release.
\<close>

named_theorems json_intros "well-formed JSON values"

section \<open>Operations on objects\<close>

lemma json_ok_obj_iff: "json_ok (JObj kvs) \<longleftrightarrow> distinct (map fst kvs) \<and> (\<forall>v \<in> snd ` set kvs. json_ok v)"
  by (auto simp: list_all_iff)

lemma values_put_key: "snd ` set (put_key k v m) \<subseteq> insert v (snd ` set m)"
proof (induction m)
  case (Cons a m)
  thus ?case by (cases a) auto
qed simp

lemma json_ok_put [json_intros]: "json_ok (JObj m) \<Longrightarrow> json_ok v \<Longrightarrow> json_ok (JObj (put_key k v m))"
  using gomap_ok_put_key [of m k v] values_put_key [of k v m] unfolding json_ok_obj_iff gomap_ok_def by blast

lemma json_ok_Nil [json_intros]: "json_ok (JObj [])"
  by simp

lemma json_ok_leaf [json_intros]: "json_ok JNull" "json_ok (JBool b)" "json_ok (JNum x)" "json_ok (JStr s)" "json_ok (JArr (map JStr ss))"
  by (simp_all add: list_all_iff)

lemma json_ok_child: "json_ok (JObj m) \<Longrightarrow> map_of m k = Some (JObj child) \<Longrightarrow> json_ok (JObj child)"
  by (rule json_ok_fields)

lemma json_ok_ensureMap:
  "json_ok (JObj obj) \<Longrightarrow> ensureMap obj k = (child, parent) \<Longrightarrow> json_ok (JObj child) \<and> json_ok (JObj parent)"
  by (auto simp: ensureMap_def intro: json_intros json_ok_child simp del: json_ok.simps split: option.splits json.splits)

lemma json_ok_ensure_at:
  assumes "\<And>m. json_ok (JObj m) \<Longrightarrow> json_ok (JObj (f m))"
  shows "json_ok (JObj obj) \<Longrightarrow> json_ok (JObj (ensure_at ks f obj))"
proof (induction ks arbitrary: obj)
  case (Cons k ks)
  obtain child parent where e: "ensureMap obj k = (child, parent)" by fastforce
  from json_ok_ensureMap [OF Cons.prems e] Cons.IH [of child] show ?case
    by (simp add: e json_ok_put del: json_ok.simps)
qed (use assms in simp)

lemma json_ok_field_at:
  assumes "\<And>m m'. f m = Inr m' \<Longrightarrow> json_ok (JObj m) \<Longrightarrow> json_ok (JObj m')"
  shows "field_at ks f obj = Inr obj' \<Longrightarrow> json_ok (JObj obj) \<Longrightarrow> json_ok (JObj obj')"
proof (induction ks arbitrary: obj obj')
  case (Cons kc ks)
  obtain k c where kc: "kc = (k, c)" by fastforce
  from Cons.prems(1) obtain child parent child' where f: "mapField obj k c = Inr (child, parent)"
    "field_at ks f child = Inr child'" "obj' = put_key k (JObj child') parent" by (auto simp: kc bindR_Inr_iff)
  have "json_ok (JObj child) \<and> json_ok (JObj parent)"
    using f(1) Cons.prems(2) by (auto simp: mapField_def intro: json_intros json_ok_child simp del: json_ok.simps split: option.splits json.splits)
  thus ?case using Cons.IH [OF f(2)] json_ok_put f(3) by blast
qed (use assms in simp)

lemma json_ok_put_at [json_intros]:
  "json_ok v \<Longrightarrow> json_ok (JObj obj) \<Longrightarrow> json_ok (JObj (ensure_at ks (put_key k v) obj))"
  by (rule json_ok_ensure_at) (rule json_ok_put)

lemma deepMerge_rule [case_names Nil Cons]:
  assumes "\<And>dst. P dst []"
    and "\<And>dst k v src. (\<And>s t. v = JObj s \<Longrightarrow> map_of dst k = Some (JObj t) \<Longrightarrow> P t s) \<Longrightarrow>
      P (put_key k (merged (map_of dst k) v) dst) src \<Longrightarrow> P dst ((k, v) # src)"
  shows "P dst src"
proof (induction "size_list (size_prod (\<lambda>x. 0) size) src" arbitrary: dst src rule: less_induct)
  case less
  show ?case
  proof (cases src)
    case Nil
    thus ?thesis using assms(1) by simp
  next
    case (Cons kv src')
    obtain k v where kv: "kv = (k, v)" by fastforce
    have "P t s" if "v = JObj s" for s t using that by (intro less) (simp add: Cons kv)
    moreover have "P (put_key k (merged (map_of dst k) v) dst) src'" by (intro less) (simp add: Cons kv)
    ultimately show ?thesis unfolding Cons kv by (intro assms(2)) blast+
  qed
qed

lemma json_ok_Cons: "json_ok (JObj ((k, v) # src)) \<Longrightarrow> json_ok v \<and> json_ok (JObj src)"
  by simp

lemma json_ok_merged:
  "json_ok (JObj src) \<Longrightarrow> json_ok (JObj dst) \<Longrightarrow> json_ok (JObj (deepMerge dst src))"
proof (induction dst src rule: deepMerge_rule)
  case (Cons dst k v src)
  note v = json_ok_Cons [OF Cons.prems(1)]
  have "json_ok (merged (map_of dst k) v)"
  proof (cases "\<exists>s t. v = JObj s \<and> map_of dst k = Some (JObj t)")
    case True
    then obtain s t where st: "v = JObj s" "map_of dst k = Some (JObj t)" by blast
    have "json_ok (JObj (deepMerge t s))" using Cons.IH(1) [OF st] v json_ok_child [OF Cons.prems(2) st(2)] st(1) by blast
    thus ?thesis using st by simp
  next
    case False
    hence "merged (map_of dst k) v = v" by (auto simp: merged_def split: json.splits option.splits)
    thus ?thesis using v by simp
  qed
  thus ?case unfolding deepMerge_Cons using Cons.IH(2) v Cons.prems(2) json_ok_put by blast
qed simp

section \<open>The values\<close>

declare ensure_at.simps [simp del] field_at.simps [simp del]

lemma json_ok_enable [json_intros]: "json_ok (JObj obj) \<Longrightarrow> json_ok (JObj (enable kind name obj))"
  unfolding enable_def enabled_json_def by (intro json_intros) simp_all

lemma json_ok_foldl:
  assumes "\<And>m x. x \<in> set xs \<Longrightarrow> json_ok (JObj m) \<Longrightarrow> json_ok (JObj (f m x))"
  shows "json_ok (JObj m) \<Longrightarrow> json_ok (JObj (foldl f m xs))"
  using assms
proof (induction xs arbitrary: m)
  case (Cons x xs)
  have "json_ok (JObj (f m x))" using Cons.prems by (metis list.set_intros(1))
  thus ?case using Cons.IH [of "f m x"] Cons.prems(2) by (metis foldl_Cons list.set_intros(2))
qed simp

lemma json_ok_fold:
  assumes "\<And>m x. json_ok (JObj m) \<Longrightarrow> json_ok (JObj (f x m))"
  shows "json_ok (JObj m) \<Longrightarrow> json_ok (JObj (fold f xs m))"
  by (induction xs arbitrary: m) (auto intro!: assms simp del: json_ok.simps)

lemma json_ok_set [json_intros]: "json_ok (JObj m) \<Longrightarrow> json_ok (JObj (setIfNotEmpty k v m))"
  by (auto simp: setIfNotEmpty_def intro: json_intros simp del: json_ok.simps)

lemma json_ok_secrets [json_intros]: "json_ok (secretsValues s)"
proof -
  have "json_ok (JObj (secret_entry p))" for p
    unfolding secret_entry_def by (intro json_intros) simp
  hence "json_ok (JObj (foldl (\<lambda>m (name, p). put_key name (JObj (secret_entry p)) m) [] (sorted_providers s)))"
    by (intro json_ok_foldl) (auto intro: json_intros simp del: json_ok.simps)
  thus ?thesis by (simp add: secretsValues_def)
qed

lemma json_ok_delivery: "ingressCertificateDeliveryValues cfg n = Inr v \<Longrightarrow> json_ok (JObj v)"
  by (auto simp: ingressCertificateDeliveryValues_def Let_def split: if_splits option.splits)

lemma json_ok_domain_entries: "domain_entries cfg ds m = Inr m' \<Longrightarrow> json_ok (JObj m) \<Longrightarrow> json_ok (JObj m')"
proof (induction ds arbitrary: m)
  case (Cons d ds)
  from Cons.prems(1) obtain entry where e: "domain_entry cfg d = Inr entry" "domain_entries cfg ds (put_key (do_zone d) (JObj entry) m) = Inr m'"
    by (auto simp: bindR_Inr_iff)
  have "json_ok (JObj entry)" using e(1) by (auto simp: domain_entry_def split: if_splits option.splits sum.splits)
  thus ?case using Cons.IH [OF e(2)] Cons.prems(2) json_ok_put by blast
qed simp

lemma json_ok_certificates: "ingressCertificateValues cfg = Inr v \<Longrightarrow> json_ok (JObj v)"
  using json_ok_domain_entries [of cfg _ "[]"]
  by (auto simp: ingressCertificateValues_def Let_def bindR_Inr_iff simp del: json_ok.simps split: option.splits) (auto simp: list_all_iff)

lemma json_ok_append_field [json_intros]: "json_ok (JObj m) \<Longrightarrow> json_ok x \<Longrightarrow> json_ok (JObj (append_field k x m))"
proof -
  assume m: "json_ok (JObj m)" and x: "json_ok x"
  have "list_all json_ok xs" if "map_of m k = Some (JArr xs)" for xs using json_ok_fields [OF m that] by simp
  hence "list_all json_ok (case map_of m k of Some (JArr xs) \<Rightarrow> xs | _ \<Rightarrow> [])"
    by (cases "map_of m k") (simp_all split: json.split)
  hence "json_ok (JArr ((case map_of m k of Some (JArr xs) \<Rightarrow> xs | _ \<Rightarrow> []) @ [x]))" using x by simp
  thus ?thesis unfolding append_field_def by (rule json_ok_put [OF m])
qed

lemma json_ok_vault: "json_ok (JObj m) \<Longrightarrow> json_ok (JObj (applyVaultLikeCSIProviderCAValues a b c p m))"
proof (cases "sv_ca_cert p = []")
  case False
  assume m: "json_ok (JObj m)"
  have csi: "json_ok (JObj (append_field ''volumeMounts'' (JObj [(''name'', JStr u), (''mountPath'', JStr w), (''readOnly'', JBool True)])
      (append_field ''volumes'' (JObj [(''name'', JStr u), (''configMap'', JObj [(''name'', JStr z)])]) k)))" if "json_ok (JObj k)" for u w z k
    by (intro json_ok_append_field that) simp_all
  have entry: "json_ok (JObj (ensure_at ks (put_key c (JObj [(''caCert'', JStr (sv_ca_cert p))])) e))" if "json_ok (JObj e)" for ks e
    using that by (intro json_ok_put_at) simp_all
  show ?thesis unfolding applyVaultLikeCSIProviderCAValues_def if_not_P [OF False] Let_def
    by (rule json_ok_ensure_at [OF _ m]) (rule json_ok_ensure_at [OF csi entry])
qed (simp add: applyVaultLikeCSIProviderCAValues_def)

lemma json_ok_provider: "json_ok (JObj m) \<Longrightarrow> json_ok (JObj (provider_component np m))"
  by (cases np) (auto simp: provider_component_def intro!: json_intros json_ok_ensure_at [OF json_ok_vault] simp del: json_ok.simps(6))

lemma json_ok_operator: "(\<And>v. c = Some v \<Longrightarrow> json_ok v) \<Longrightarrow> json_ok (operator_config cfg c)"
  using json_ok_secrets by (auto simp: operator_config_def Let_def split: option.split)

lemma json_ok_applySecrets:
  assumes "applySecretsComponents pa cfg n m = Inr m'" "json_ok (JObj m)"
  shows "json_ok (JObj m')"
proof (cases "sc_providers (cl_secrets (cc_cluster cfg)) = []")
  case True
  thus ?thesis using assms by (simp add: applySecretsComponents_def Let_def)
next
  case False
  with assms(1) obtain c where c: "(if cl_domains (cc_cluster cfg) \<noteq> [] \<and> \<not> n then map_sum id (\<lambda>v. Some (JObj v)) (ingressCertificateValues cfg)
      else Inr None) = Inr c"
    "m' = fold provider_component (sorted_providers (cl_secrets (cc_cluster cfg)))
      (ensure_at [''values''] (put_key ''podplane-operator'' (operator_config cfg c))
        (enable ''apps'' ''secrets-store-csi-driver'' (enable ''apps'' ''podplane-operator''
          (enable ''crds'' ''secrets-store-csi-driver-crds'' (enable ''crds'' ''podplane-operator-crds'' m)))))"
    unfolding applySecretsComponents_def Let_def by (auto simp: bindR_Inr_iff simp del: ensure_at.simps split: option.splits)
  have "json_ok v" if "c = Some v" for v
    using c(1) that json_ok_certificates by (cases "ingressCertificateValues cfg") (auto simp del: json_ok.simps split: if_splits)
  hence "json_ok (operator_config cfg c)" by (rule json_ok_operator)
  thus ?thesis unfolding c(2) using assms(2)
    by (intro json_ok_fold [OF json_ok_provider] json_ok_put_at json_ok_enable)
qed

lemma json_ok_platform: "applyPlatformProviderComponents cfg m = Inr m' \<Longrightarrow> json_ok (JObj m) \<Longrightarrow> json_ok (JObj m')"
  unfolding applyPlatformProviderComponents_def Let_def
  by (auto intro!: json_ok_put_at json_ok_enable simp del: json_ok.simps(6) ensure_at.simps split: if_splits) simp_all

lemma json_ok_node: "json_ok (JObj m) \<Longrightarrow> json_ok (JObj (applyNodeCertificateValues m))"
  unfolding applyNodeCertificateValues_def
  by (rule json_ok_ensure_at) (auto intro!: json_ok_put_at simp del: json_ok.simps(6) ensure_at.simps, simp_all)

lemma json_ok_providers: "json_ok (JObj m) \<Longrightarrow> json_ok (JObj (applyProviderComponents ps m))"
  unfolding applyProviderComponents_def provider_apps_def
  by (rule json_ok_ensure_at)
    (auto intro!: json_ok_foldl json_ok_put simp: enabled_json_def simp del: json_ok.simps(6) split: if_splits, simp_all)

lemma json_ok_registry:
  assumes "registry_values sha rf cfg m = Inr m'" "json_ok (JObj m)"
  shows "json_ok (JObj m')"
proof (cases "m' = m")
  case False
  with assms(1) obtain route where r: "registry_route sha cfg = Inr route"
    "m' = ensure_at [''values''] (put_key ''zot-registry'' (zot_entry rf cfg route)) m"
    unfolding registry_values_def Let_def by (auto simp: bindR_Inr_iff simp del: ensure_at.simps split: if_splits)
  have "json_ok (JObj route)" using r(1) by (auto simp: registry_route_def Let_def bindR_Inr_iff split: if_splits)
  moreover have cert: "oidc_certificate rf ca = [] \<or> (\<exists>t. oidc_certificate rf ca = [(''certificateAuthority'', JStr t)])" for ca
    by (auto simp: oidc_certificate_def split: sum.split)
  ultimately have "json_ok (zot_entry rf cfg route)"
    using cert [of "oi_ca_cert (cl_oidc (cc_cluster cfg))"] by (elim disjE exE) (simp_all add: zot_entry_def Let_def)
  thus ?thesis using r(2) assms(2) json_ok_put_at by blast
qed (use assms in simp)

lemma json_ok_domains: "apply_domains cfg n m = Inr m' \<Longrightarrow> json_ok (JObj m) \<Longrightarrow> json_ok (JObj m')"
proof -
  assume a: "apply_domains cfg n m = Inr m'" and m: "json_ok (JObj m)"
  then obtain delivery where d: "ingressCertificateDeliveryValues cfg n = Inr delivery"
    "m' = ensure_at [''values''] (put_key ''envoy-gateway'' (JObj [(''platform'', JObj [(''envoyGateway'', JObj [(''ingress'', JObj [
           (''enabled'', JBool True), (''domains'', ingressDomains (cl_domains (cc_cluster cfg))),
           (''certificates'', JObj delivery)])])])]))
         (enable ''apps'' ''envoy-gateway'' (enable ''crds'' ''envoy-gateway-crds'' (enable ''crds'' ''gateway-api-crds'' m)))"
    by (auto simp: apply_domains_def bindR_Inr_iff simp del: ensure_at.simps)
  have "json_ok (ingressDomains ds)" for ds by (auto simp: ingressDomains_def list_all_iff)
  thus "json_ok (JObj m')" unfolding d(2) using json_ok_delivery [OF d(1)] m
    by (intro json_ok_put_at json_ok_enable) simp_all
qed

lemma build_ok:
  assumes "buildPlatformComponentsValues pa sha rf config n = Inr v"
  shows "json_ok (JObj v)"
proof -
  from assms obtain cfg where cfg: "config = Some cfg" by (cases config) (simp_all add: buildPlatformComponentsValues_def)
  from assms obtain c1 c2 c3 where c: "registry_values sha rf cfg (applyRegistryMirror (cc_cluster cfg) []) = Inr c1"
    "applySecretsComponents pa cfg n (applyProviderComponents (cl_providers (cc_cluster cfg)) c1) = Inr c2"
    "applyPlatformProviderComponents cfg c2 = Inr c3"
    and rest: "let v0 = [(''platform'', JObj [(''components'', JObj c3)])]; v1 = (if n then applyNodeCertificateValues v0 else v0) in
       v = v1 \<or> field_at [(''platform'', []), (''components'', [])] (apply_domains cfg n) v1 = Inr v"
    unfolding cfg buildPlatformComponentsValues_def Let_def by (auto simp: bindR_Inr_iff simp del: field_at.simps split: if_splits)
  have "json_ok (JObj (applyRegistryMirror (cc_cluster cfg) []))" by (simp add: applyRegistryMirror_def)
  hence "json_ok (JObj c3)" using c json_ok_registry json_ok_applySecrets json_ok_platform json_ok_providers by blast
  hence v0: "json_ok (JObj [(''platform'', JObj [(''components'', JObj c3)])])" by simp
  define v1 where "v1 = (if n then applyNodeCertificateValues [(''platform'', JObj [(''components'', JObj c3)])]
      else [(''platform'', JObj [(''components'', JObj c3)])])"
  have v1: "json_ok (JObj v1)" unfolding v1_def using v0 json_ok_node [OF v0] by (cases n) simp_all
  from rest have "v = v1 \<or> field_at [(''platform'', []), (''components'', [])] (apply_domains cfg n) v1 = Inr v"
    unfolding Let_def v1_def .
  thus ?thesis
  proof
    assume "field_at [(''platform'', []), (''components'', [])] (apply_domains cfg n) v1 = Inr v"
    from json_ok_field_at [OF json_ok_domains this v1] show ?thesis .
  qed (use v1 in simp)
qed

end
