(* ===== verification/SeedNetworkFacts.thy ===== *)
theory SeedNetworkFacts
  imports SeedNetwork ClusterFacts
begin

text \<open>
  What the seed's service addresses become: the counting loop returns the offset of an address, a remapped address
  keeps it, and the IPAddress records that are kept belong to the Services they name.
\<close>

section \<open>Offsets\<close>

lemma addr_eqI: "bit_len a = bit_len b \<Longrightarrow> addr_zone a = addr_zone b \<Longrightarrow> addr_value a = addr_value b \<Longrightarrow> a = b"
  by (cases a; cases b) (simp_all add: bit_len_def addr_zone_def addr_value_def word_uint_eq_iff)

lemma word_next_value:
  fixes w :: "'a::len word"
  assumes "w + 1 \<noteq> 0"
  shows "uint (w + 1) = uint w + 1"
proof (rule ccontr)
  assume "uint (w + 1) \<noteq> uint w + 1"
  hence "\<not> uint w + 1 < 2 ^ LENGTH('a)" using uint_add_lem [of w 1] by simp
  hence "uint w = 2 ^ LENGTH('a) - 1" using uint_less_top [of w] by linarith
  hence "uint (w + 1) = 2 ^ LENGTH('a) mod 2 ^ LENGTH('a)" by (simp add: uint_word_ariths)
  thus False using assms by (simp add: uint_0_iff)
qed

lemma addr_next_cases:
  "addr_next a = NoAddr \<or>
   bit_len (addr_next a) = bit_len a \<and> addr_zone (addr_next a) = addr_zone a \<and> addr_value (addr_next a) = addr_value a + 1"
  using word_next_value [where 'a = 32] word_next_value [where 'a = 128]
  by (cases a) (auto simp: addr_next_def bit_len_def addr_zone_def addr_value_def)

lemma addr_next_below:
  assumes "bit_len a = bit_len b" "addr_value a < addr_value b"
  shows "addr_next a \<noteq> NoAddr"
proof (cases a)
  case (V4 w)
  then obtain v where v: "b = V4 v" using assms by (cases b) (simp_all add: bit_len_def)
  have "w + 1 \<noteq> 0"
  proof
    assume "w + 1 = 0"
    hence "w = - 1" by (simp add: eq_neg_iff_add_eq_0)
    thus False using assms(2) V4 v uint_less_top [of v] by (simp add: addr_value_def uint_word_ariths(4))
  qed
  thus ?thesis using V4 by (simp add: addr_next_def)
next
  case (V6 w z)
  then obtain v z' where v: "b = V6 v z'" using assms by (cases b) (simp_all add: bit_len_def)
  have "w + 1 \<noteq> 0"
  proof
    assume "w + 1 = 0"
    hence "w = - 1" by (simp add: eq_neg_iff_add_eq_0)
    thus False using assms(2) V6 v uint_less_top [of v] by (simp add: addr_value_def uint_word_ariths(4))
  qed
  thus ?thesis using V6 by (simp add: addr_next_def)
next
  case NoAddr
  thus ?thesis using assms by (cases b) (simp_all add: bit_len_def addr_value_def)
qed

lemma offset_loop_counts:
  assumes "bit_len a = bit_len b" "addr_zone a = addr_zone b" "addr_value a \<le> addr_value b"
  shows "offset_loop a b n = Some (n + addr_value b - addr_value a)"
  using assms
proof (induction "nat (addr_value b - addr_value a)" arbitrary: a n)
  case 0
  hence "a = b" by (intro addr_eqI) simp_all
  thus ?case by (subst offset_loop.simps) simp
next
  case (Suc k)
  have less: "addr_value a < addr_value b" using Suc.hyps(2) by linarith
  note nx = addr_next_cases [of a] addr_next_below [OF Suc.prems(1) less]
  have "offset_loop (addr_next a) b (n + 1) = Some (n + 1 + addr_value b - addr_value (addr_next a))"
    using Suc.hyps nx Suc.prems less by (intro Suc.hyps(1)) auto
  moreover have "a \<noteq> b" using less by auto
  ultimately show ?case using nx by (subst offset_loop.simps) simp
qed

lemma funpow_next_cases:
  "(addr_next ^^ k) a = NoAddr \<or>
   bit_len ((addr_next ^^ k) a) = bit_len a \<and> addr_zone ((addr_next ^^ k) a) = addr_zone a \<and>
   addr_value ((addr_next ^^ k) a) = addr_value a + int k"
proof (induction k)
  case (Suc k)
  have "addr_next NoAddr = NoAddr" by (simp add: addr_next_def)
  thus ?case using Suc addr_next_cases [of "(addr_next ^^ k) a"] by auto
qed simp

section \<open>The default network\<close>

definition default_net :: "addr \<Rightarrow> pfx" where
  "default_net ip = (if is4 ip then \<lparr>px_addr = V4 0xC6120000, px_bits = 15\<rparr>
     else \<lparr>px_addr = V6 0xFDC60000000000000000000000000000 [], px_bits = 108\<rparr>)"

lemma default_net: "ParsePrefix (defaultCIDR ip) = Some (default_net ip)" "default_net ip = masked (default_net ip)"
proof -
  have "ParsePrefix ''198.18.0.0/15'' = Some \<lparr>px_addr = V4 0xC6120000, px_bits = 15\<rparr>"
    "ParsePrefix ''fdc6::/108'' = Some \<lparr>px_addr = V6 0xFDC60000000000000000000000000000 [], px_bits = 108\<rparr>"
    "\<lparr>px_addr = V4 0xC6120000, px_bits = 15\<rparr> = masked \<lparr>px_addr = V4 0xC6120000, px_bits = 15\<rparr>"
    "\<lparr>px_addr = V6 0xFDC60000000000000000000000000000 [], px_bits = 108\<rparr> =
       masked \<lparr>px_addr = V6 0xFDC60000000000000000000000000000 [], px_bits = 108\<rparr>"
    by code_simp+
  thus "ParsePrefix (defaultCIDR ip) = Some (default_net ip)" "default_net ip = masked (default_net ip)"
    by (simp_all add: defaultCIDR_def default_net_def)
qed

definition seed_offset :: "addr \<Rightarrow> int" where
  "seed_offset ip = addr_value ip - addr_value (px_addr (default_net ip))"

lemma default_offset:
  assumes "px_contains (default_net ip) ip"
  shows "offset_loop (px_addr (default_net ip)) ip 0 = Some (seed_offset ip)" "0 \<le> seed_offset ip"
proof -
  have "px_addr (default_net ip) \<noteq> NoAddr" "addr_zone (px_addr (default_net ip)) = []"
    by (simp_all add: default_net_def addr_zone_def)
  with contains_range [OF default_net(2) this(1), of ip] assms offset_loop_counts [of "px_addr (default_net ip)" ip 0]
  show "offset_loop (px_addr (default_net ip)) ip 0 = Some (seed_offset ip)" "0 \<le> seed_offset ip"
    by (simp_all add: seed_offset_def)
qed

section \<open>Remapping\<close>

definition same_family :: "addr \<Rightarrow> pfx \<Rightarrow> bool" where
  "same_family ip p \<longleftrightarrow> is4 (px_addr p) = is4 ip"

lemma contained_offset:
  assumes "px_contains p ((addr_next ^^ k) (px_addr p))"
  shows "addr_value ((addr_next ^^ k) (px_addr p)) = addr_value (px_addr p) + int k"
  using funpow_next_cases [of k "px_addr p"] assms by (auto simp: px_contains_simps)

lemma remap_cidrs_spec:
  "remap_cidrs cidrs ip offset key = Inr ips \<Longrightarrow>
     \<exists>ps. map ParsePrefix cidrs = map Some ps \<and>
       ips = map (\<lambda>p. (addr_next ^^ nat offset) (px_addr p)) (filter (same_family ip) ps) \<and>
       (\<forall>p \<in> set (filter (same_family ip) ps). px_contains p ((addr_next ^^ nat offset) (px_addr p)))"
proof (induction cidrs arbitrary: ips)
  case (Cons cidr cidrs)
  then obtain p where p: "ParsePrefix cidr = Some p" by (cases "ParsePrefix cidr") auto
  show ?case
  proof (cases "is4 (px_addr p) = is4 ip")
    case False
    with Cons.prems p have "remap_cidrs cidrs ip offset key = Inr ips" by simp
    from Cons.IH [OF this] obtain ps where "map ParsePrefix cidrs = map Some ps"
       "ips = map (\<lambda>p. (addr_next ^^ nat offset) (px_addr p)) (filter (same_family ip) ps)"
       "\<forall>p \<in> set (filter (same_family ip) ps). px_contains p ((addr_next ^^ nat offset) (px_addr p))" by blast
    thus ?thesis using p False by (intro exI [of _ "p # ps"]) (simp add: same_family_def [of ip p])
  next
    case True
    with Cons.prems p obtain rest where r: "px_contains p ((addr_next ^^ nat offset) (px_addr p))"
      "remap_cidrs cidrs ip offset key = Inr rest" "ips = (addr_next ^^ nat offset) (px_addr p) # rest"
      by (auto simp: Let_def bindR_Inr_iff split: if_splits)
    from Cons.IH [OF r(2)] obtain ps where "map ParsePrefix cidrs = map Some ps"
       "rest = map (\<lambda>p. (addr_next ^^ nat offset) (px_addr p)) (filter (same_family ip) ps)"
       "\<forall>p \<in> set (filter (same_family ip) ps). px_contains p ((addr_next ^^ nat offset) (px_addr p))" by blast
    thus ?thesis using p True r by (intro exI [of _ "p # ps"]) (simp add: same_family_def [of ip p])
  qed
qed simp

definition remapped :: "pfx list \<Rightarrow> addr \<Rightarrow> addr list" where
  "remapped ps ip = map (\<lambda>p. (addr_next ^^ nat (seed_offset ip)) (px_addr p)) (filter (same_family ip) ps)"

definition remap_fits :: "pfx list \<Rightarrow> addr \<Rightarrow> bool" where
  "remap_fits ps ip \<longleftrightarrow> px_contains (default_net ip) ip \<and>
     (\<forall>p \<in> set ps. same_family ip p \<longrightarrow> px_contains p ((addr_next ^^ nat (seed_offset ip)) (px_addr p)))"

lemma remap_values_spec:
  assumes "map ParsePrefix cidrs = map Some ps"
  shows "remap_values values cidrs key = Inr ips \<Longrightarrow>
    \<exists>seeded. map (\<lambda>v. ParseAddr (stringValue (Some v))) values = map Some seeded \<and>
      ips = concat (map (remapped ps) seeded) \<and> (\<forall>ip \<in> set seeded. remap_fits ps ip)"
proof (induction "values" arbitrary: ips)
  case (Cons v vs)
  from Cons.prems obtain ip where ip: "ParseAddr (stringValue (Some v)) = Some ip"
    by (cases "ParseAddr (stringValue (Some v))") auto
  have c: "px_contains (default_net ip) ip" using Cons.prems ip by (auto simp: default_net(1) split: if_splits)
  from Cons.prems ip c default_offset [OF c] obtain mapped rest where
    r: "remap_cidrs cidrs ip (seed_offset ip) key = Inr mapped" "remap_values vs cidrs key = Inr rest" "ips = mapped @ rest"
    by (auto simp: default_net(1) bindR_Inr_iff)
  have inj: "qs = ps" if "map ParsePrefix cidrs = map Some qs" for qs
    using that assms by (metis list.inj_map_strong option.inject)
  from remap_cidrs_spec [OF r(1)] inj have m: "mapped = remapped ps ip" "remap_fits ps ip"
    using c by (auto simp: remapped_def remap_fits_def)
  from Cons.IH [OF r(2)] obtain seeded where
    "map (\<lambda>v. ParseAddr (stringValue (Some v))) vs = map Some seeded" "rest = concat (map (remapped ps) seeded)"
    "\<forall>ip \<in> set seeded. remap_fits ps ip" by blast
  thus ?case using ip m r(3) by (intro exI [of _ "ip # seeded"]) simp
qed simp

lemma remap_fits_offsets:
  assumes "remap_fits ps ip"
  shows "px_contains (default_net ip) ip \<and> (\<forall>m \<in> set (remapped ps ip). \<exists>p \<in> set ps. same_family ip p \<and>
     px_contains p m \<and> addr_value m - addr_value (px_addr p) = seed_offset ip)"
proof -
  have d: "px_contains (default_net ip) ip" using assms by (simp add: remap_fits_def)
  have "px_contains p m \<and> addr_value m - addr_value (px_addr p) = seed_offset ip"
    if "p \<in> set ps" "same_family ip p" "m = (addr_next ^^ nat (seed_offset ip)) (px_addr p)" for p m
  proof -
    have "px_contains p m" using assms that by (simp add: remap_fits_def)
    thus ?thesis using contained_offset [of p "nat (seed_offset ip)"] that(3) default_offset(2) [OF d] by simp
  qed
  thus ?thesis using d by (auto simp: remapped_def)
qed

lemma default_addr_eq:
  assumes "px_contains (default_net a) a" "px_contains (default_net b) b" "is4 a = is4 b" "seed_offset a = seed_offset b"
  shows "a = b"
proof -
  have n: "default_net a = default_net b" using assms(3) by (simp add: default_net_def)
  have "px_addr (default_net b) \<noteq> NoAddr" by (simp add: default_net_def)
  note R = contains_range [OF default_net(2) this]
  from R [of a] R [of b] assms(1,2) n show ?thesis
    by (intro addr_eqI) (use assms(4) n in \<open>simp_all add: seed_offset_def\<close>)
qed

lemma contained_is4: "px_contains p m \<Longrightarrow> is4 m = is4 (px_addr p)"
  by (cases "px_addr p"; cases m) (simp_all add: px_contains_def is4_def)

lemma remapped_distinct:
  assumes "distinct seeded" "distinct (map (\<lambda>p. is4 (px_addr p)) ps)" "\<forall>ip \<in> set seeded. remap_fits ps ip"
  shows "distinct (concat (map (remapped ps) seeded))"
  using assms(1,3)
proof (induction seeded)
  case (Cons ip seeded)
  have inj: "p = q" if "p \<in> set ps" "q \<in> set ps" "is4 (px_addr p) = is4 (px_addr q)" for p q
    using assms(2) that by (auto simp: distinct_map inj_on_def)
  have "inj_on f (set (filter (same_family ip) ps))" for f :: "pfx \<Rightarrow> addr"
    by (rule inj_onI) (auto simp: same_family_def intro: inj)
  moreover have "distinct (filter (same_family ip) ps)" using assms(2) by (simp add: distinct_map)
  ultimately have "distinct (remapped ps ip)" unfolding remapped_def by (simp only: distinct_map simp_thms)
  moreover have "set (remapped ps ip) \<inter> set (remapped ps x) = {}" if x: "x \<in> set seeded" for x
  proof (rule ccontr)
    assume "set (remapped ps ip) \<inter> set (remapped ps x) \<noteq> {}"
    then obtain m where m: "m \<in> set (remapped ps ip)" "m \<in> set (remapped ps x)" by blast
    have fits: "remap_fits ps ip" "remap_fits ps x" using Cons.prems(2) x by simp_all
    from remap_fits_offsets [OF fits(1)] m(1) obtain p where p: "p \<in> set ps" "same_family ip p" "px_contains p m"
      "addr_value m - addr_value (px_addr p) = seed_offset ip" by blast
    from remap_fits_offsets [OF fits(2)] m(2) obtain q where q: "q \<in> set ps" "same_family x q" "px_contains q m"
      "addr_value m - addr_value (px_addr q) = seed_offset x" by blast
    have "p = q" using inj [OF p(1) q(1)] contained_is4 [OF p(3)] contained_is4 [OF q(3)] by simp
    hence "is4 ip = is4 x" "seed_offset ip = seed_offset x" using p(2,4) q(2,4) by (simp_all add: same_family_def)
    hence "ip = x" using default_addr_eq fits by (simp add: remap_fits_def)
    thus False using Cons.prems(1) x by simp
  qed
  ultimately show ?case using Cons by auto
qed simp

section \<open>Allocations\<close>

definition parent_of :: "seed_record \<Rightarrow> string" where
  "parent_of r = (case ipAddressParent (fields_of r) (rc_key r) of Inr (p, _) \<Rightarrow> p | Inl _ \<Rightarrow> [])"

definition family_of :: "seed_record \<Rightarrow> string" where
  "family_of r = stringValue (value_at [''metadata'', ''labels'', family_label] (JObj (fields_of r)))"

definition ip_record :: "seed_record \<Rightarrow> bool" where
  "ip_record r \<longleftrightarrow> has_prefix (rc_key r) ip_prefix"

definition cluster_ips :: "seed_record \<Rightarrow> json option" where
  "cluster_ips r = value_at [''spec'', ''clusterIPs''] (JObj (fields_of r))"

lemma mapField_cases:
  assumes "mapField parent key context = Inr (child, parent')"
  shows "map_of parent' key = Some (JObj child)" "map_of parent' = (map_of parent)(key \<mapsto> JObj child)"
  using assms by (auto simp: mapField_def fun_eq_iff split: option.splits json.splits)

lemma mapField_present [simp]: "map_of parent key = Some (JObj child) \<Longrightarrow> mapField parent key context = Inr (child, parent)"
  by (simp add: mapField_def)

lemma ipAddressParent_kept:
  assumes "ipAddressParent obj key = Inr (p, obj')" "map_of obj'' ''spec'' = map_of obj' ''spec''"
  shows "\<exists>o3. ipAddressParent obj'' key' = Inr (p, o3)"
proof -
  from assms(1) obtain spec o2 parent spec' where s: "mapField obj ''spec'' key = Inr (spec, o2)"
    "mapField spec ''parentRef'' (key @ '' spec'') = Inr (parent, spec')"
    "p = stringValue (map_of parent ''namespace'') @ ''/'' @ stringValue (map_of parent ''name'')"
    "obj' = put_key ''spec'' (JObj spec') o2"
    unfolding ipAddressParent_def by (auto simp: bindR_Inr_iff split: prod.splits)
  have "mapField obj'' ''spec'' key' = Inr (spec', obj'')" using assms(2) s(4) by simp
  moreover have "mapField spec' ''parentRef'' (key' @ '' spec'') = Inr (parent, spec')"
    using mapField_cases(1) [OF s(2)] by simp
  ultimately show ?thesis by (simp add: ipAddressParent_def s(3))
qed

lemma moved_record:
  assumes "ipAddressParent obj (rc_key r) = Inr (p, obj')" "move_record wanted obj' r = Inr (family, Some r')"
  shows "\<exists>ip. map_of wanted family = Some ip \<and> rc_key r' = ip_prefix @ addr_string ip \<and> parent_of r' = p \<and>
    family_of r' = ipFamily ip \<and> value_at [''metadata'', ''name''] (JObj (fields_of r')) = Some (JStr (addr_string ip))"
proof -
  from assms(2) obtain metadata o1 labels metadata' ip where
    m: "mapField obj' ''metadata'' (rc_key r) = Inr (metadata, o1)"
      "mapField metadata ''labels'' (rc_key r @ '' metadata'') = Inr (labels, metadata')"
      "map_of wanted family = Some ip"
      "r' = set_value (r\<lparr>rc_key := ip_prefix @ addr_string ip\<rparr>)
         (put_key ''metadata'' (JObj (put_key ''labels'' (JObj (put_key family_label (JStr (ipFamily ip)) labels))
            (put_key ''name'' (JStr (addr_string ip)) metadata'))) o1)"
    unfolding move_record_def by (auto simp: bindR_Inr_iff Let_def split: prod.splits option.splits)
  have "map_of (fields_of r') ''spec'' = map_of obj' ''spec''"
    using mapField_cases(2) [OF m(1)] by (simp add: m(4))
  from ipAddressParent_kept [OF assms(1) this, of "rc_key r'"] have "parent_of r' = p" by (auto simp: parent_of_def)
  moreover have "rc_key r' = ip_prefix @ addr_string ip" "family_of r' = ipFamily ip"
     "value_at [''metadata'', ''name''] (JObj (fields_of r')) = Some (JStr (addr_string ip))"
    by (simp_all add: m(4) family_of_def)
  ultimately show ?thesis using m(3) by blast
qed

definition by_family :: "addr gomap \<Rightarrow> bool" where
  "by_family w \<longleftrightarrow> (\<forall>f ip. map_of w f = Some ip \<longrightarrow> ipFamily ip = f)"

lemma family_fold:
  "map_of (foldl (\<lambda>m ip. put_key (ipFamily ip) ip m) m ips) f = Some ip \<Longrightarrow>
     map_of m f = Some ip \<or> ip \<in> set ips \<and> ipFamily ip = f"
proof (induction ips arbitrary: m)
  case (Cons a ips)
  from Cons.IH [of "put_key (ipFamily a) a m"] Cons.prems
  have "map_of (put_key (ipFamily a) a m) f = Some ip \<or> ip \<in> set ips \<and> ipFamily ip = f" by simp
  thus ?case by (cases "f = ipFamily a") auto
qed simp

lemma family_map_mem: "map_of (family_map ips) f = Some ip \<Longrightarrow> ip \<in> set ips \<and> ipFamily ip = f"
  using family_fold [of "[]" ips f ip] by (simp add: family_map_def)

lemma by_family_map: "by_family (family_map ips)"
  using family_map_mem by (simp add: by_family_def)

definition managed :: "allocations \<Rightarrow> seed_record \<Rightarrow> bool" where
  "managed d r \<longleftrightarrow> ip_record r \<and> map_of d (parent_of r) \<noteq> None"

definition allocation_ok :: "allocations \<Rightarrow> seed_record \<Rightarrow> bool" where
  "allocation_ok d r \<longleftrightarrow> (\<exists>w ip. map_of d (parent_of r) = Some w \<and> map_of w (family_of r) = Some ip \<and>
     rc_key r = ip_prefix @ addr_string ip \<and>
     value_at [''metadata'', ''name''] (JObj (fields_of r)) = Some (JStr (addr_string ip)))"

lemma ip_loop_spec:
  assumes "ip_loop d rs = Inr out" "\<forall>p w. map_of d p = Some w \<longrightarrow> by_family w"
  shows "filter (\<lambda>r. \<not> ip_record r) out = filter (\<lambda>r. \<not> ip_record r) rs"
    "\<forall>r \<in> set out. managed d r \<longrightarrow> allocation_ok d r"
    "distinct (map (\<lambda>r. (parent_of r, family_of r)) (filter (managed d) out))"
proof -
  have "filter (\<lambda>r. \<not> ip_record r) out = filter (\<lambda>r. \<not> ip_record r) rs \<and>
    (\<forall>r \<in> set out. managed d r \<longrightarrow> allocation_ok d r) \<and>
    distinct (map (\<lambda>r. (parent_of r, family_of r)) (filter (managed d) out))"
    using assms
  proof (induction rs arbitrary: d out)
    case (Cons r rs)
    show ?case
    proof (cases "ip_record r")
      case False
      with Cons.prems obtain out' where o': "ip_loop d rs = Inr out'" "out = r # out'"
        by (auto simp: ip_record_def bindR_Inr_iff)
      from Cons.IH [OF o'(1) Cons.prems(2)] show ?thesis using False by (simp add: o'(2) managed_def)
    next
      case True
      hence k: "has_prefix (rc_key r) ip_prefix" by (simp add: ip_record_def)
      from Cons.prems(1) obtain obj where obj: "decode_fields r = Some obj" by (cases "decode_fields r") (auto simp: k)
      with Cons.prems(1) obtain p obj' where p: "ipAddressParent obj (rc_key r) = Inr (p, obj')" "\<not> nil_map r"
        by (auto simp: k bindR_Inr_iff split: if_splits)
      have pr: "parent_of r = p" using obj p by (simp add: parent_of_def fields_of_def)
      show ?thesis
      proof (cases "map_of d p")
        case None
        with Cons.prems(1) obj p obtain out' where o': "ip_loop d rs = Inr out'" "out = r # out'"
          by (auto simp: k bindR_Inr_iff)
        from Cons.IH [OF o'(1) Cons.prems(2)] show ?thesis using True None pr by (simp add: o'(2) managed_def)
      next
        case (Some wanted)
        with Cons.prems(1) obj p obtain family r' where m: "move_record wanted obj' r = Inr (family, r')"
          by (auto simp: k bindR_Inr_iff)
        show ?thesis
        proof (cases r')
          case None
          with Cons.prems(1) obj p Some m have "ip_loop d rs = Inr out" by (simp add: k)
          from Cons.IH [OF this Cons.prems(2)] show ?thesis using True by simp
        next
          case r': (Some moved)
          let ?d = "put_key p (del_key family wanted) d"
          from Cons.prems(1) obj p Some m r' obtain out' where o': "ip_loop ?d rs = Inr out'" "out = moved # out'"
            by (auto simp: k bindR_Inr_iff)
          from moved_record [OF p(1) m [unfolded r']] obtain ip where ip: "map_of wanted family = Some ip"
            "rc_key moved = ip_prefix @ addr_string ip" "parent_of moved = p" "family_of moved = ipFamily ip"
            "value_at [''metadata'', ''name''] (JObj (fields_of moved)) = Some (JStr (addr_string ip))" by blast
          have bw: "by_family wanted" using Cons.prems(2) Some by blast
          hence fam: "ipFamily ip = family" using ip(1) by (simp add: by_family_def)
          have "\<forall>q w. map_of ?d q = Some w \<longrightarrow> by_family w"
            using Cons.prems(2) bw by (auto simp: by_family_def split: if_splits)
          note ih = Cons.IH [OF o'(1) this]
          have mg: "managed ?d = managed d" using Some by (auto simp: managed_def fun_eq_iff)
          have ok: "allocation_ok d r \<and> (parent_of r, family_of r) \<noteq> (p, family)" if "allocation_ok ?d r" for r
            using that Some by (auto simp: allocation_ok_def split: if_splits)
          have "ip_record moved" by (simp add: ip_record_def ip(2))
          hence mm: "managed d moved" using ip(3) Some by (simp add: managed_def)
          have okm: "allocation_ok d moved" using ip Some fam by (simp add: allocation_ok_def)
          have pf: "(parent_of moved, family_of moved) = (p, family)" using ip(3,4) fam by simp
          have 1: "filter (\<lambda>r. \<not> ip_record r) out = filter (\<lambda>r. \<not> ip_record r) (r # rs)"
            using ih \<open>ip_record moved\<close> True by (simp add: o'(2))
          have 2: "\<forall>r \<in> set out. managed d r \<longrightarrow> allocation_ok d r"
            using ih ok okm unfolding o'(2) mg by (metis set_ConsD)
          have "(p, family) \<notin> set (map (\<lambda>r. (parent_of r, family_of r)) (filter (managed d) out'))"
            using ih ok unfolding mg by fastforce
          hence "distinct (map (\<lambda>r. (parent_of r, family_of r)) (filter (managed d) out))"
            using ih mm pf unfolding o'(2) mg by simp
          with 1 2 show ?thesis by blast
        qed
      qed
    qed
  qed simp
  thus "filter (\<lambda>r. \<not> ip_record r) out = filter (\<lambda>r. \<not> ip_record r) rs"
    "\<forall>r \<in> set out. managed d r \<longrightarrow> allocation_ok d r"
    "distinct (map (\<lambda>r. (parent_of r, family_of r)) (filter (managed d) out))" by blast+
qed

section \<open>Services\<close>

lemma setServiceIPs_fields:
  assumes "setServiceIPs spec ips policy = Inr spec'"
  shows "map_of spec' ''clusterIPs'' = Some (JArr (map (JStr \<circ> addr_string) ips))"
    "map_of spec' ''clusterIP'' = Some (JStr (addr_string (hd ips)))"
    "map_of spec' ''ipFamilies'' = Some (JArr (map (JStr \<circ> ipFamily) ips))" "ips \<noteq> []"
proof -
  obtain ip rest where "ips = ip # rest" using assms by (cases ips) (auto simp: setServiceIPs_def)
  thus "map_of spec' ''clusterIPs'' = Some (JArr (map (JStr \<circ> addr_string) ips))"
    "map_of spec' ''clusterIP'' = Some (JStr (addr_string (hd ips)))"
    "map_of spec' ''ipFamilies'' = Some (JArr (map (JStr \<circ> ipFamily) ips))" "ips \<noteq> []"
    using assms by (auto simp: setServiceIPs_def Let_def)
qed

definition service_moved :: "string \<Rightarrow> addr gomap \<Rightarrow> seed_record \<Rightarrow> bool" where
  "service_moved p w r \<longleftrightarrow> rc_key r = service_prefix @ p \<and>
     (\<exists>ips. ips \<noteq> [] \<and> w = family_map ips \<and> cluster_ips r = Some (JArr (map (JStr \<circ> addr_string) ips)))"

lemma rewrite_service_spec:
  assumes "rewrite_service network r obj = Inr (r', ips)"
  shows "rc_key r' = rc_key r" "ips \<noteq> [] \<Longrightarrow> cluster_ips r' = Some (JArr (map (JStr \<circ> addr_string) ips))"
proof -
  from assms obtain spec obj' where s: "mapField obj ''spec'' (rc_key r) = Inr (spec, obj')"
    and rest: "(if ips = [] then r' = r else
       \<exists>spec'. setServiceIPs spec ips (service_policy ips (stringValue (map_of spec ''ipFamilyPolicy''))) = Inr spec' \<and>
         r' = set_value r (put_key ''spec'' (JObj spec') obj'))"
    unfolding rewrite_service_def by (auto simp: bindR_Inr_iff split: if_splits)
  show "rc_key r' = rc_key r" using rest by (auto split: if_splits)
  assume "ips \<noteq> []"
  with rest obtain spec' where
    sp: "setServiceIPs spec ips (service_policy ips (stringValue (map_of spec ''ipFamilyPolicy''))) = Inr spec'"
    "r' = set_value r (put_key ''spec'' (JObj spec') obj')" by auto
  show "cluster_ips r' = Some (JArr (map (JStr \<circ> addr_string) ips))"
    using setServiceIPs_fields(1) [OF sp(1)] by (simp add: cluster_ips_def sp(2))
qed

lemma rewrite_keys:
  "rewrite_cidr network r obj = Inr r' \<Longrightarrow> rc_key r' = rc_key r"
  "rewrite_coredns network r obj = Inr r' \<Longrightarrow> rc_key r' = rc_key r"
  by (auto simp: rewrite_cidr_def rewrite_coredns_def bindR_Inr_iff split: if_splits)

text \<open>One step of the loop: what happens to the first record, to the allocations and to the rest.\<close>

lemma owned_loop_step:
  assumes "owned_loop network (r # rs) d f = Inr (out, d', f')"
  shows "\<exists>r' out' d1 f1. out = r' # out' \<and> rc_key r' = rc_key r \<and> owned_loop network rs d1 f1 = Inr (out', d', f') \<and>
    (d1 = d \<or> (\<exists>p w. d1 = put_key p w d \<and> service_moved p w r')) \<and> (rc_key r = serviceCIDRKey \<or> f1 = f)"
proof (cases "owned_key (rc_key r)")
  case False
  with assms show ?thesis by (auto simp: bindR_Inr_iff split: prod.splits)
next
  case own: True
  with assms obtain obj where obj: "decode_fields r = Some obj" by (cases "decode_fields r") auto
  show ?thesis
  proof (cases "rc_key r = serviceCIDRKey")
    case True
    with assms obj own obtain r' out' where "rewrite_cidr network r obj = Inr r'" "out = r' # out'"
      "owned_loop network rs d True = Inr (out', d', f')" by (auto simp: bindR_Inr_iff)
    thus ?thesis using rewrite_keys(1) True by blast
  next
    case c: False
    show ?thesis
    proof (cases "has_prefix (rc_key r) service_prefix")
      case True
      then obtain p where p: "rc_key r = service_prefix @ p" by (auto simp: has_prefix_iff)
      let ?d = "\<lambda>ips. if ips = [] then d else put_key (trim_prefix (rc_key r) service_prefix) (family_map ips) d"
      from assms obj own c True obtain r' ips out' where s: "rewrite_service network r obj = Inr (r', ips)" "out = r' # out'"
        "owned_loop network rs (?d ips) f = Inr (out', d', f')" by (auto simp: bindR_Inr_iff)
      have "?d ips = d \<or> (\<exists>p w. ?d ips = put_key p w d \<and> service_moved p w r')"
        using rewrite_service_spec [OF s(1)] by (auto simp: p service_moved_def)
      thus ?thesis using s rewrite_service_spec(1) [OF s(1)] by blast
    next
      case False
      with assms obj own c obtain r' out' where "rewrite_coredns network r obj = Inr r'" "out = r' # out'"
        "owned_loop network rs d f = Inr (out', d', f')" by (auto simp: bindR_Inr_iff)
      thus ?thesis using rewrite_keys(2) by blast
    qed
  qed
qed

lemma owned_loop_spec:
  "owned_loop network rs d f = Inr (out, d', f') \<Longrightarrow>
     map rc_key out = map rc_key rs \<and>
     (\<forall>p w. map_of d' p = Some w \<longrightarrow> map_of d p = Some w \<or> (\<exists>r \<in> set out. service_moved p w r)) \<and>
     (f' \<longrightarrow> f \<or> serviceCIDRKey \<in> rc_key ` set rs)"
proof (induction rs arbitrary: d f out)
  case (Cons r rs)
  from owned_loop_step [OF Cons.prems] obtain r' out' d1 f1 where s: "out = r' # out'" "rc_key r' = rc_key r"
    "owned_loop network rs d1 f1 = Inr (out', d', f')" "d1 = d \<or> (\<exists>p w. d1 = put_key p w d \<and> service_moved p w r')"
    "rc_key r = serviceCIDRKey \<or> f1 = f" by blast
  note ih = Cons.IH [OF s(3)]
  have "map_of d p = Some w \<or> (\<exists>r \<in> set out. service_moved p w r)" if "map_of d' p = Some w" for p w
  proof -
    from ih that have "map_of d1 p = Some w \<or> (\<exists>r \<in> set out'. service_moved p w r)" by blast
    thus ?thesis using s(1,4) by (auto split: if_splits)
  qed
  thus ?case using ih s(1,2,5) by auto
qed simp

lemma owned_loop_others:
  "owned_loop network rs d f = Inr (out, d', f') \<Longrightarrow> service_prefix @ p \<notin> rc_key ` set rs \<Longrightarrow> map_of d' p = map_of d p"
proof (induction rs arbitrary: d f out)
  case (Cons r rs)
  from owned_loop_step [OF Cons.prems(1)] obtain r' out' d1 f1 where s: "rc_key r' = rc_key r"
    "owned_loop network rs d1 f1 = Inr (out', d', f')" "d1 = d \<or> (\<exists>p w. d1 = put_key p w d \<and> service_moved p w r')" by blast
  have "map_of d1 p = map_of d p" using s(1,3) Cons.prems(2) by (auto simp: service_moved_def)
  thus ?case using Cons.IH [OF s(2)] Cons.prems(2) by simp
qed simp

lemma service_not_other_key:
  assumes "has_prefix key service_prefix"
  shows "owned_key key" "key \<noteq> serviceCIDRKey" "\<not> has_prefix key ip_prefix"
  using assms by (auto simp: owned_key_def has_prefix_iff service_prefix_def serviceCIDRKey_def ip_prefix_def)

lemma owned_loop_moves:
  assumes "owned_loop network rs d f = Inr (out, d', f')" "distinct (map rc_key rs)"
    and "s \<in> set rs" "rc_key s = service_prefix @ p" "rewrite_service network s (fields_of s) = Inr (s', ips)" "ips \<noteq> []"
  shows "s' \<in> set out" "map_of d' p = Some (family_map ips)"
proof -
  have "s' \<in> set out \<and> map_of d' p = Some (family_map ips)"
    using assms(1-3)
  proof (induction rs arbitrary: d f out)
    case (Cons r rs)
    show ?case
    proof (cases "r = s")
      case True
      have key: "has_prefix (rc_key r) service_prefix" using True assms(4) by simp
      note k = service_not_other_key [OF key]
      from Cons.prems(1) obtain obj where obj: "decode_fields r = Some obj" by (cases "decode_fields r") (auto simp: k)
      hence "rewrite_service network r obj = Inr (s', ips)" using assms(5) True by (simp add: fields_of_def)
      with Cons.prems(1) obj key k True assms(4,6) obtain out' where o': "out = s' # out'"
        "owned_loop network rs (put_key p (family_map ips) d) f = Inr (out', d', f')"
        by (auto simp: bindR_Inr_iff)
      have "service_prefix @ p \<notin> rc_key ` set rs" using Cons.prems(2) True assms(4) by auto
      from owned_loop_others [OF o'(2) this] show ?thesis by (simp add: o'(1))
    next
      case False
      from owned_loop_step [OF Cons.prems(1)] obtain r' out' d1 f1 where
        "out = r' # out'" "owned_loop network rs d1 f1 = Inr (out', d', f')" by blast
      with Cons.IH [OF this(2)] Cons.prems(2,3) False show ?thesis by simp
    qed
  qed simp
  thus "s' \<in> set out" "map_of d' p = Some (family_map ips)" by blast+
qed

text \<open>The allocations of one moved Service.\<close>

definition allocations_of :: "string \<Rightarrow> seed_record list \<Rightarrow> seed_record list" where
  "allocations_of service_key rs = filter (\<lambda>r. ip_record r \<and> service_prefix @ parent_of r = service_key) rs"

lemma interpolateKubernetes_service:
  assumes "interpolateKubernetes records network = Inr out" "distinct (map rc_key records)"
    and "s \<in> set records" "rc_key s = service_prefix @ p" "rewrite_service network s (fields_of s) = Inr (s', ips)" "ips \<noteq> []"
  shows "s' \<in> set out" "\<forall>r \<in> set (allocations_of (rc_key s) out). \<exists>ip \<in> set ips. rc_key r = ip_prefix @ addr_string ip \<and>
      family_of r = ipFamily ip \<and> value_at [''metadata'', ''name''] (JObj (fields_of r)) = Some (JStr (addr_string ip))"
    "distinct (map family_of (allocations_of (rc_key s) out))"
proof -
  from assms(1) obtain mid d where o1: "owned_loop network records [] False = Inr (mid, d, True)" "ip_loop d mid = Inr out"
    by (auto simp: interpolateKubernetes_def bindR_Inr_iff split: if_splits)
  note moves = owned_loop_moves [OF o1(1) assms(2-6)]
  have "\<forall>p w. map_of d p = Some w \<longrightarrow> by_family w"
    using owned_loop_spec [OF o1(1)] by_family_map by (auto simp: service_moved_def)
  note ip = ip_loop_spec [OF o1(2) this]
  have "\<not> ip_record s'"
    using rewrite_service_spec(1) [OF assms(5)] service_not_other_key(3) [of "rc_key s"] assms(4) by (simp add: ip_record_def)
  thus "s' \<in> set out" using ip(1) moves(1) by (metis (mono_tags) mem_Collect_eq set_filter)
  have al: "allocations_of (rc_key s) out = filter (\<lambda>r. managed d r \<and> parent_of r = p) out"
    unfolding allocations_of_def using moves(2) by (intro filter_cong) (auto simp: managed_def assms(4))
  show "\<forall>r \<in> set (allocations_of (rc_key s) out). \<exists>ip \<in> set ips. rc_key r = ip_prefix @ addr_string ip \<and>
      family_of r = ipFamily ip \<and> value_at [''metadata'', ''name''] (JObj (fields_of r)) = Some (JStr (addr_string ip))"
  proof
    fix r assume "r \<in> set (allocations_of (rc_key s) out)"
    hence "allocation_ok d r" "parent_of r = p" using ip(2) by (auto simp: al)
    then obtain ip where "map_of (family_map ips) (family_of r) = Some ip" "rc_key r = ip_prefix @ addr_string ip"
      "value_at [''metadata'', ''name''] (JObj (fields_of r)) = Some (JStr (addr_string ip))"
      using moves(2) by (auto simp: allocation_ok_def)
    thus "\<exists>ip \<in> set ips. rc_key r = ip_prefix @ addr_string ip \<and> family_of r = ipFamily ip \<and>
      value_at [''metadata'', ''name''] (JObj (fields_of r)) = Some (JStr (addr_string ip))"
      using family_map_mem by metis
  qed
  have "distinct (map (\<lambda>r. (parent_of r, family_of r)) (filter (\<lambda>r. managed d r \<and> parent_of r = p) out))"
    using distinct_map_filter [OF ip(3), of "\<lambda>r. parent_of r = p"] by (simp add: conj_commute)
  thus "distinct (map family_of (allocations_of (rc_key s) out))"
    unfolding al distinct_map by (auto simp: inj_on_def)
qed

end
