(* ===== verification/SeedPipeline.thy ===== *)
theory SeedPipeline
  imports SeedWellFormed SeedNetworkFacts
begin

text \<open>
  \<open>Prepare\<close> step by step: what a successful run consists of, and how a leaf of the derived and overridden values gets
  into the values of the seed's release.
\<close>

declare ensure_at.simps [simp del] field_at.simps [simp del]

section \<open>A successful run\<close>

definition node_delivery :: "cluster_config \<Rightarrow> snapshot_options \<Rightarrow> bool" where
  "node_delivery cfg opts \<longleftrightarrow> so_node_certificate opts \<or> cl_tunnel (cc_cluster cfg) \<noteq> None"

definition prepared_from ::
  "seed_env \<Rightarrow> cluster_config \<Rightarrow> snapshot_options \<Rightarrow> fields \<Rightarrow> fields \<Rightarrow> seed_record list \<Rightarrow> fields \<Rightarrow> prepared_seed \<Rightarrow> bool" where
  "prepared_from env cfg opts vals vals2 final old p \<longleftrightarrow>
     prepare_values env cfg (node_delivery cfg opts) opts = Inr vals \<and>
     (\<exists>rs rs'. prepare_network cfg rs vals = Inr (rs', vals2)) \<and>
     (\<exists>rs5. (\<exists>r \<in> set rs5. release_values (deepMerge old vals2) r) \<and>
        prepare_images cfg rs5 (deepMerge old vals2) = (final, ps_values p)) \<and>
     ps_records p = map (\<lambda>(i, r). renumber i r) (enumerate 0 final)"

lemma Prepare_runs:
  assumes "Prepare env (Inr cfg) opts = Inr p"
  shows "\<exists>vals vals2 final old. prepared_from env cfg opts vals vals2 final old p"
proof -
  let ?n = "node_delivery cfg opts"
  from assms obtain vals rs1 rs2 vals2 rs3 cv rs4 rs5 where
    v: "prepare_values env cfg ?n opts = Inr vals" "prepare_network cfg rs1 vals = Inr (rs2, vals2)"
      "interpolatePlatformComponents rs2 vals2 = Inr (rs3, cv)" "interpolateEnvoyIngress (en_sha256 env) rs3 cfg ?n = Inr rs4"
      "interpolateComponentsSource rs4 (co_source (cl_components (cc_cluster cfg))) = Inr rs5"
      "p = finish_seed cfg rs5 cv"
    unfolding Prepare_def Let_def node_delivery_def by (auto simp: bindR_Inr_iff split: if_splits)
  obtain final cv' where i: "prepare_images cfg rs5 cv = (final, cv')" by fastforce
  have p: "p = \<lparr>ps_values = cv', ps_records = map (\<lambda>(i, r). renumber i r) (enumerate 0 final), ps_cluster = cl_id (cc_cluster cfg)\<rparr>"
    by (simp add: v(6) finish_seed_def i)
  from interpolatePlatformComponents_spec [OF v(3)] obtain r old where r: "r \<in> set rs3" "release_values cv r" "cv = deepMerge old vals2"
    by blast
  have "r \<in> set rs4" using interpolateEnvoyIngress_kept [OF v(4)] r(1) release_other_keys(1) [OF r(2)] by (simp add: kept_record_def)
  hence "r \<in> set rs5" using interpolateComponentsSource_kept [OF v(5)] release_other_keys(2) [OF r(2)] by (simp add: kept_record_def)
  thus ?thesis using v r(2,3) i unfolding prepared_from_def p prepared_seed.select_convs by blast
qed

lemma prepare_images_cases:
  assumes "prepare_images cfg rs vals = (rs', vals')"
  shows "rs' = rs \<and> vals' = vals \<or>
    (\<exists>base. rs' = map (rewrite_record base) rs \<and> JObj vals' = snd (rewriteImageFields base (JObj vals)))"
proof (cases "mirror_enabled (cc_cluster cfg) \<and> trim_suffix (RegistryMirrorHostname (cc_cluster cfg)) ''/'' \<noteq> []")
  case True
  let ?base = "mirror_base (RegistryMirrorHostname (cc_cluster cfg)) (RegistryMirrorPrefix (cc_cluster cfg))"
  obtain kvs where k: "snd (rewriteImageFields ?base (JObj vals)) = JObj kvs" using rewritten_obj by blast
  thus ?thesis using assms True by (auto simp: prepare_images_def rewriteSeedImages_def Let_def)
next
  case False
  thus ?thesis using assms by (auto simp: prepare_images_def rewriteSeedImages_def Let_def split: if_splits)
qed

lemma prepared_release:
  assumes "prepared_from env cfg opts vals vals2 final old p"
  shows "\<exists>r \<in> set (ps_records p). release_values (ps_values p) r"
proof -
  from assms obtain rs5 r where r: "r \<in> set rs5" "release_values (deepMerge old vals2) r"
    "prepare_images cfg rs5 (deepMerge old vals2) = (final, ps_values p)"
    "ps_records p = map (\<lambda>(i, r). renumber i r) (enumerate 0 final)" unfolding prepared_from_def by blast
  have "\<exists>r \<in> set final. release_values (ps_values p) r"
    using prepare_images_cases [OF r(3)] r(1,2) release_rewritten by (metis imageI set_map)
  then obtain r' i where "i < length final" "final ! i = r'" "release_values (ps_values p) r'" by (metis in_set_conv_nth)
  hence "(i, r') \<in> set (enumerate 0 final)" "release_values (ps_values p) (renumber i r')"
    by (auto simp: in_set_enumerate_eq release_values_def renumber_def)
  moreover from this(1) have "renumber i r' \<in> set (ps_records p)" unfolding r(4) by force
  ultimately show ?thesis by blast
qed

section \<open>Leaves\<close>

definition yaml_ok :: "seed_env \<Rightarrow> bool" where
  "yaml_ok env \<longleftrightarrow> (\<forall>data vals. en_yaml env data = Inr (Some vals) \<longrightarrow> json_ok (JObj vals))"

lemma merge_content_ok:
  "mergeValuesContent env dst data src = Inr v \<Longrightarrow> yaml_ok env \<Longrightarrow> json_ok (JObj dst) \<Longrightarrow> json_ok (JObj v)"
  using json_ok_merged by (auto simp: mergeValuesContent_def yaml_ok_def simp del: json_ok.simps split: if_splits sum.splits option.splits)

lemma merge_file_ok:
  "mergeValuesFile env dst path = Inr v \<Longrightarrow> yaml_ok env \<Longrightarrow> json_ok (JObj dst) \<Longrightarrow> json_ok (JObj v)"
  using merge_content_ok by (auto simp: mergeValuesFile_def simp del: json_ok.simps split: if_splits sum.splits)

lemma prepare_values_ok:
  assumes "prepare_values env cfg n opts = Inr v" "yaml_ok env"
  shows "json_ok (JObj v)"
proof -
  from assms(1) obtain v1 v2 v3 where v: "buildPlatformComponentsValues (en_parsers env) (en_sha256 env) (en_readFile env) (Some cfg) n = Inr v1"
    "mergeValuesContent env v1 (so_values_content opts) ''values content'' = Inr v2" "mergeValuesFile env v2 (so_values_file opts) = Inr v3"
    "v = (if n then applyNodeCertificateValues v3 else v3)"
    unfolding prepare_values_def by (auto simp: bindR_Inr_iff simp del: json_ok.simps)
  have "json_ok (JObj v3)" using build_ok [OF v(1)] merge_content_ok [OF v(2)] merge_file_ok [OF v(3)] assms(2) by blast
  thus ?thesis using v(4) json_ok_node [of v3] by (cases n) simp_all
qed

definition dns_service_path :: "string list" where
  "dns_service_path = [''platform'', ''components'', ''values'', ''coredns'', ''coredns'', ''service'']"

lemma setServiceIPs_ok: "setServiceIPs m ips policy = Inr m' \<Longrightarrow> json_ok (JObj m) \<Longrightarrow> json_ok (JObj m')"
proof -
  assume s: "setServiceIPs m ips policy = Inr m'" and m: "json_ok (JObj m)"
  then obtain ip rest where ips: "ips = ip # rest" by (cases ips) (auto simp: setServiceIPs_def)
  have "json_ok (JArr (map (JStr \<circ> f) xs))" for f :: "addr \<Rightarrow> string" and xs by (simp add: list_all_iff)
  thus "json_ok (JObj m')" using s m unfolding setServiceIPs_def ips Let_def
    by (auto intro!: json_ok_put simp del: json_ok.simps(5,6)) (simp_all add: list_all_iff)
qed

lemma prepare_network_values:
  assumes "prepare_network cfg rs vals = Inr (rs', vals')" "json_ok (JObj vals)"
  shows "json_ok (JObj vals')"
    "apart dns_service_path ks \<Longrightarrow> value_at ks (JObj vals) = Some v \<Longrightarrow> value_at ks (JObj vals') = Some v"
proof -
  from assms(1) consider "vals' = vals" | network where "applyNetworkValues vals network = Inr vals'"
    unfolding prepare_network_def Let_def by (auto simp: bindR_Inr_iff split: if_splits)
  note c = this
  show "json_ok (JObj vals')"
    using c
  proof cases
    case 2
    from json_ok_field_at [OF setServiceIPs_ok 2 [unfolded applyNetworkValues_def] assms(2)] show ?thesis .
  qed (use assms in simp)
  assume a: "apart dns_service_path ks" "value_at ks (JObj vals) = Some v"
  show "value_at ks (JObj vals') = Some v"
    using c
  proof cases
    case 2
    from field_at_apart [OF _ 2 [unfolded applyNetworkValues_def] a(2)] a(1) show ?thesis by (simp add: dns_service_path_def)
  qed (use a in simp)
qed

definition scalar :: "json \<Rightarrow> bool" where
  "scalar v \<longleftrightarrow> (case v of JObj kvs \<Rightarrow> False | JArr xs \<Rightarrow> False | _ \<Rightarrow> True)"

lemma scalar_rewritten: "scalar v \<Longrightarrow> rewriteImageFields base v = (False, v)" "scalar v \<Longrightarrow> \<not> is_obj v"
  by (cases v; simp add: scalar_def)+

text \<open>A path that neither the network settings nor the image rewriting changes.\<close>

definition settled :: "string list \<Rightarrow> bool" where
  "settled ks \<longleftrightarrow> ks \<noteq> [] \<and> apart dns_service_path ks \<and> ''image'' \<notin> set ks"

lemma prepared_leaf:
  assumes "prepared_from env cfg opts vals vals2 final old p" "yaml_ok env" "settled ks"
    and "value_at ks (JObj vals) = Some v" "scalar v"
  shows "value_at ks (JObj (ps_values p)) = Some v"
proof -
  from assms(1) obtain rs rs' rs5 where d: "prepare_values env cfg (node_delivery cfg opts) opts = Inr vals"
    "prepare_network cfg rs vals = Inr (rs', vals2)" "prepare_images cfg rs5 (deepMerge old vals2) = (final, ps_values p)"
    unfolding prepared_from_def by blast
  have ok: "json_ok (JObj vals)" by (rule prepare_values_ok [OF d(1) assms(2)])
  note net = prepare_network_values [OF d(2) ok]
  have "value_at ks (JObj vals2) = Some v" using net(2) assms(3,4) by (simp add: settled_def)
  hence m: "value_at ks (JObj (deepMerge old vals2)) = Some v"
    using at_deepMerge [OF net(1) scalar_rewritten(2) [OF assms(5)]] assms(3) by (simp add: settled_def)
  from prepare_images_cases [OF d(3)] show ?thesis
  proof (elim disjE exE conjE)
    fix base assume "JObj (ps_values p) = snd (rewriteImageFields base (JObj (deepMerge old vals2)))"
    moreover have "value_at ks (snd (rewriteImageFields base (JObj (deepMerge old vals2)))) = Some (snd (rewriteImageFields base v))"
      using assms(3) by (intro value_at_rewritten m) (simp add: settled_def)
    ultimately show ?thesis using scalar_rewritten(1) [OF assms(5)] by simp
  qed (use m in simp)
qed

section \<open>Node certificates\<close>

definition issuer_path :: "string list" where
  "issuer_path = [''platform'', ''components'', ''values'', ''podplane-operator'', ''podplane'', ''operator'', ''config'', ''ingressCertificates'']"

definition delivery_path :: "string list" where
  "delivery_path = [''platform'', ''components'', ''values'', ''envoy-gateway'', ''platform'', ''envoyGateway'', ''ingress'', ''certificates'', ''provider'']"

lemma ensure_at_append: "ensure_at (ks @ ls) f obj = ensure_at ks (ensure_at ls f) obj"
  by (induction ks arbitrary: obj) (simp_all add: ensure_at.simps split: prod.split)

lemma value_at_ensure_through:
  assumes "\<And>sub. value_at ls (JObj (f sub)) = Some v"
  shows "value_at (ks @ ls) (JObj (ensure_at ks f obj)) = Some v"
  using at_ensure_at [of ks f obj] assms by (auto simp: at_append)

lemma node_certificate_values:
  "value_at issuer_path (JObj (applyNodeCertificateValues vals)) = Some JNull"
  "value_at delivery_path (JObj (applyNodeCertificateValues vals)) = Some (JStr ''node'')"
proof -
  let ?top = "[''platform'', ''components'', ''values'']"
  let ?issuer = "[''podplane-operator'', ''podplane'', ''operator'', ''config'']"
  let ?ingress = "[''envoy-gateway'', ''platform'', ''envoyGateway'', ''ingress'']"
  have "value_at (?issuer @ [''ingressCertificates'']) (JObj (ensure_at ?ingress g (ensure_at ?issuer (put_key ''ingressCertificates'' JNull) sub)))
      = Some JNull" for g sub
    by (intro ensure_at_apart value_at_ensure_put) simp
  from value_at_ensure_through [where ks = ?top and ls = "?issuer @ [''ingressCertificates'']" and obj = vals and
    f = "\<lambda>m. ensure_at ?ingress (put_key ''certificates'' (JObj [(''provider'', JStr ''node'')])) (ensure_at ?issuer (put_key ''ingressCertificates'' JNull) m)",
    OF this]
  show "value_at issuer_path (JObj (applyNodeCertificateValues vals)) = Some JNull"
    unfolding applyNodeCertificateValues_def issuer_path_def by (simp only: append.simps)
  have "value_at (?ingress @ [''certificates'', ''provider'']) (JObj (ensure_at ?ingress (put_key ''certificates'' (JObj [(''provider'', JStr ''node'')])) sub))
      = Some (JStr ''node'')" for sub
    by (rule value_at_ensure_through) simp
  from value_at_ensure_through [where ks = ?top and ls = "?ingress @ [''certificates'', ''provider'']" and obj = vals and
    f = "\<lambda>m. ensure_at ?ingress (put_key ''certificates'' (JObj [(''provider'', JStr ''node'')])) (ensure_at ?issuer (put_key ''ingressCertificates'' JNull) m)",
    OF this]
  show "value_at delivery_path (JObj (applyNodeCertificateValues vals)) = Some (JStr ''node'')"
    unfolding applyNodeCertificateValues_def delivery_path_def by (simp only: append.simps)
qed

end
