(* ===== verification/SeedIngress.thy ===== *)
theory SeedIngress
  imports SeedFacts
begin

text \<open>
  How the ingress records of a seed fit together: the listener of the registry route is one of the listeners of the
  Gateway, and rendering the records again forgets the former domains.
\<close>

section \<open>Listeners\<close>

text \<open>A listener hostname covers a host when it is the host, or the wildcard of the zone the host is a label below.\<close>

definition covers :: "string \<Rightarrow> string \<Rightarrow> bool" where
  "covers h host \<longleftrightarrow> h = host \<or> (\<exists>label zone. h = ''*.'' @ zone \<and> host = label @ ''.'' @ zone \<and> label \<noteq> [] \<and> CHR ''.'' \<notin> set label)"

lemma length_go_trim: "length (go_trim cs s) \<le> length s"
proof -
  from trim_split [of s cs] obtain l t where "s = l @ go_trim cs s @ t" by blast
  from arg_cong [OF this, of length] show ?thesis by simp
qed

lemma length_suffix: "length (envoyListenerSuffix sha d) \<le> 34"
proof -
  have "length (go_trim ''-'' (take 25 (dashed False (to_lower d)))) \<le> 25"
    using length_go_trim [of "''-''" "take 25 (dashed False (to_lower d))"] by simp
  thus ?thesis by (simp add: envoyListenerSuffix_def)
qed

lemma listener_names: "length (''https-'' @ envoyListenerSuffix sha d) \<le> 63" "length (''https-wildcard-'' @ envoyListenerSuffix sha d) \<le> 63"
  using length_suffix [of sha d] by simp_all

lemma registryIngressListener_Inr:
  "registryIngressListener sha host ds = Inr l \<Longrightarrow>
     \<exists>d \<in> set ds. \<exists>h. covers h host \<and> length l \<le> 63 \<and>
       envoyHTTPSListener l h (bundle_name sha n (do_zone d)) \<in> set (domain_listeners sha n (do_zone d))"
proof (induction ds)
  case (Cons d ds)
  show ?case
  proof (cases "host = do_zone d")
    case True
    with Cons.prems have "l = ''https-'' @ envoyListenerSuffix sha (do_zone d)" by simp
    thus ?thesis using True listener_names(1) [of sha "do_zone d"]
      by (intro bexI [of _ d] exI [of _ host]) (simp_all add: covers_def domain_listeners_def Let_def)
  next
    case False
    show ?thesis
    proof (cases "\<exists>label. cut_suffix host (''.'' @ do_zone d) = Some label \<and> label \<noteq> [] \<and> CHR ''.'' \<notin> set label")
      case True
      then obtain label where c: "cut_suffix host (''.'' @ do_zone d) = Some label" "label \<noteq> []" "CHR ''.'' \<notin> set label" by blast
      have h: "host = label @ ''.'' @ do_zone d"
        using c(1) unfolding cut_suffix_def by (auto simp: has_suffix_iff simp del: append.simps split: if_splits)
      have "l = ''https-wildcard-'' @ envoyListenerSuffix sha (do_zone d)" using Cons.prems False c by simp
      moreover have "covers (''*.'' @ do_zone d) host" using h c(2,3) unfolding covers_def by blast
      ultimately show ?thesis using listener_names(2) [of sha "do_zone d"]
        by (intro bexI [of _ d] exI [of _ "''*.'' @ do_zone d"]) (simp_all add: domain_listeners_def Let_def)
    next
      case other: False
      hence "registryIngressListener sha host ds = Inr l" using Cons.prems False by (auto split: option.splits if_splits)
      from Cons.IH [OF this] show ?thesis by auto
    qed
  qed
qed simp

section \<open>Rendering again\<close>

lemma put_key_put_key [simp]: "put_key k v (put_key k w m) = put_key k v m"
  by (induction m) auto

lemma kept_listeners_append:
  "kept_listeners (xs @ ys) = (case (kept_listeners xs, kept_listeners ys) of (Some a, Some b) \<Rightarrow> Some (a @ b) | _ \<Rightarrow> None)"
  by (induction xs) (auto split: json.splits option.splits)

lemma kept_listeners_kept: "kept_listeners xs = Some ys \<Longrightarrow> kept_listeners ys = Some ys"
  by (induction xs arbitrary: ys) (auto split: json.splits if_splits)

lemma kept_listeners_domains: "kept_listeners (concat (map (domain_listeners sha n) ds)) = Some []"
  by (induction ds) (simp_all add: domain_listeners_def envoyHTTPSListener_def Let_def)

lemma gateway_again:
  assumes "rewriteEnvoyGateway sha r former n' = Inr r'"
  shows "rewriteEnvoyGateway sha r' ds n = rewriteEnvoyGateway sha r ds n"
proof -
  from rewriteEnvoyGateway_Inr [OF assms] obtain obj spec obj' listeners kept where
    g: "decodeEnvoyRecord r ''Gateway'' = Inr obj" "mapField obj ''spec'' envoyGatewayKey = Inr (spec, obj')"
      "map_of spec ''listeners'' = Some (JArr listeners)" "kept_listeners listeners = Some kept"
    and r': "r' = set_value r (put_key ''spec'' (JObj (put_key ''listeners'' (JArr (kept @ concat (map (domain_listeners sha n') former))) spec)) obj')"
    by blast
  have kind: "stringValue (map_of obj ''kind'') = ''Gateway''"
    using g(1) by (auto simp: decodeEnvoyRecord_def split: option.splits if_splits)
  have "map_of obj' ''kind'' = map_of obj ''kind''"
    using g(2) by (auto simp: mapField_def split: option.splits json.splits)
  hence d: "decodeEnvoyRecord r' ''Gateway'' = Inr (put_key ''spec'' (JObj (put_key ''listeners''
      (JArr (kept @ concat (map (domain_listeners sha n') former))) spec)) obj')"
    using kind by (simp add: decodeEnvoyRecord_def r')
  have k: "kept_listeners (kept @ concat (map (domain_listeners sha n') former)) = Some kept"
    by (simp add: kept_listeners_append kept_listeners_kept [OF g(4)] kept_listeners_domains)
  have "rewriteEnvoyGateway sha r' ds n = Inr (set_value r' (put_key ''spec'' (JObj (put_key ''listeners''
      (JArr (kept @ concat (map (domain_listeners sha n) ds))) spec)) obj'))"
    by (simp add: rewriteEnvoyGateway_def d mapField_def k)
  also have "\<dots> = rewriteEnvoyGateway sha r ds n"
    using g by (simp add: rewriteEnvoyGateway_def r' set_value_def)
  finally show ?thesis .
qed

definition plain_arg :: "json \<Rightarrow> bool" where
  "plain_arg a \<longleftrightarrow> stringValue (Some a) \<noteq> ''--certificates-dir'' \<and> \<not> certificate_flag (stringValue (Some a))"

lemma kept_args_plain: "\<forall>a \<in> set (kept_args as). plain_arg a"
proof (induction as rule: kept_args.induct)
  case (2 a as)
  consider "stringValue (Some a) = ''--certificates-dir''" "as = []"
    | as' b where "stringValue (Some a) = ''--certificates-dir''" "as = b # as'"
    | "stringValue (Some a) \<noteq> ''--certificates-dir''" "certificate_flag (stringValue (Some a))" | "plain_arg a"
    by (cases as) (auto simp: plain_arg_def)
  thus ?case
  proof cases
    case 1
    thus ?thesis by simp
  next
    case b: 2
    show ?thesis using "2.IH"(1) [OF refl b(1) b(2)] by (simp only: b list.case kept_args.simps Let_def if_True simp_thms)
  next
    case b: 3
    show ?thesis using "2.IH"(2) [OF refl b] by (simp only: b kept_args.simps Let_def if_True if_False simp_thms)
  next
    case b: 4
    thus ?thesis using "2.IH"(3) [OF refl] by (simp add: plain_arg_def Let_def)
  qed
qed simp

lemma kept_args_of_plain: "\<forall>a \<in> set as. plain_arg a \<Longrightarrow> kept_args (as @ bs) = as @ kept_args bs"
  by (induction as) (auto simp: plain_arg_def Let_def)

lemma certificate_arg_flag:
  "certificate_flag (''--node-certificate='' @ s)" "certificate_flag (''--domain-certificate='' @ s)"
  unfolding certificate_flag_def by (simp_all only: has_prefix_append simp_thms)

lemma kept_args_certificates: "kept_args (certificate_args sha n ds) = []"
proof -
  have "\<not> certificate_flag ''--certificates-dir''" by code_simp
  hence f: "certificate_flag s \<Longrightarrow> kept_args (JStr s # as) = kept_args as" for s as
    by (cases "s = ''--certificates-dir''") (simp_all add: Let_def)
  have "kept_args (map (\<lambda>d. JStr (''--domain-certificate='' @ envoyBundleName sha d @ ''='' @ d)) ds) = []"
    by (induction ds) (simp_all only: list.map f certificate_arg_flag kept_args.simps(1))
  thus ?thesis unfolding certificate_args_def by (simp only: f certificate_arg_flag kept_args.simps(1) split: if_split) blast
qed

lemma kept_args_again: "kept_args (kept_args as @ certificate_args sha n ds) = kept_args as"
  by (simp add: kept_args_of_plain [OF kept_args_plain] kept_args_certificates)

lemma certificate_volume_again:
  "map_of (certificate_volume n (certificate_volume n' volume)) = map_of (certificate_volume n volume)"
  by (auto simp: certificate_volume_def fun_eq_iff)

end
