(* ===== verification/SeedProps.thy ===== *)
theory SeedProps
  imports SeedPipeline SeedIngress ClusterProps
begin

text \<open>
  The properties of seed preparation: whose values win, which certificates are delivered, where images and addresses
  go, and that the ingress records refer to each other.
\<close>

section \<open>An example\<close>

definition ex_record :: "string \<Rightarrow> json \<Rightarrow> seed_record" where
  "ex_record key v = \<lparr>rc_key = key, rc_value = Some v, rc_revision = 7, rc_create = 3, rc_prev = 2, rc_created = True,
     rc_version = 1, rc_leader = []\<rparr>"

definition ex_release :: seed_record where
  "ex_release = ex_record platformComponentsHelmReleaseKey
     (JObj [(''kind'', JStr ''HelmRelease''), (''apiVersion'', JStr ''helm.toolkit.fluxcd.io/v2''),
       (''metadata'', JObj [(''name'', JStr ''platform-components'')]),
       (''spec'', JObj [(''values'', JObj [(''replicas'', JNum 1), (''image'', JStr ''a/b'')])])])"

definition ex_config :: cluster_config where
  "ex_config = sample_config\<lparr>cc_cluster := sample_cluster
     \<lparr>cl_registry := \<lparr>rg_hostname = [], rg_ingress = \<lparr>ri_enabled = False\<rparr>\<rparr>, cl_providers := [], cl_domains := [],
      cl_secrets := \<lparr>sc_default = [], sc_providers = []\<rparr>,
      cl_components := \<lparr>co_source = None, co_registry = Some \<lparr>rm_enabled = True, rm_hostname = ''m.io'', rm_prefix = ''p''\<rparr>\<rparr>,
      cl_kubernetes := (cl_kubernetes sample_cluster)\<lparr>ku_service_cidr := []\<rparr>\<rparr>\<rparr>"

definition ex_seed_env :: seed_env where
  "ex_seed_env = \<lparr>en_parsers = sample_parsers, en_sha256 = (\<lambda>d. replicate 32 CHR 0x00),
     en_readFile = (\<lambda>path. if path = ''over.yaml'' then Inr ''y'' else if path = ''seed'' then Inr ''s'' else Inl (Sentinel ''none'')),
     en_url = (\<lambda>_. None), en_get = (\<lambda>_. Inl (Sentinel ''none'')),
     en_yaml = (\<lambda>_. Inr (Some [(''replicas'', JNum 3)])), en_unmarshal = (\<lambda>_. Inl (Sentinel ''none'')), en_marshal = (\<lambda>_. []),
     en_snapshot = (\<lambda>_. Inr [ex_record ''/registry/pods/x'' (JObj [(''image'', JStr ''c'')]), ex_release])\<rparr>"

definition ex_options :: "bool \<Rightarrow> snapshot_options" where
  "ex_options node = \<lparr>so_seed_path = ''seed'', so_node_certificate = node, so_values_content = [], so_values_file = ''over.yaml''\<rparr>"

definition ex_prepared :: "bool \<Rightarrow> prepared_seed" where
  "ex_prepared node = (case Prepare ex_seed_env (Inr ex_config) (ex_options node) of
     Inr p \<Rightarrow> p | Inl e \<Rightarrow> \<lparr>ps_values = [], ps_records = [], ps_cluster = []\<rparr>)"

lemma ex_prepare: "Prepare ex_seed_env (Inr ex_config) (ex_options node) = Inr (ex_prepared node)"
proof -
  have "\<forall>node \<in> {True, False}. case Prepare ex_seed_env (Inr ex_config) (ex_options node) of Inr p \<Rightarrow> True | Inl e \<Rightarrow> False"
    by code_simp
  thus ?thesis by (cases node) (auto simp: ex_prepared_def split: sum.splits)
qed

lemma ex_yaml: "yaml_ok ex_seed_env"
  by (simp add: yaml_ok_def ex_seed_env_def)

section \<open>The values\<close>

text \<open>
  C36: A prepared seed holds the platform-components release, and the release deploys exactly the values that are
  reported with the seed, image rewriting included; the records form a fresh history with the revisions 1, 2, 3 and so on.
\<close>

theorem reported_values_deployed:
  assumes "Prepare env (Inr cfg) opts = Inr p"
  shows "(\<exists>r \<in> set (ps_records p). rc_key r = platformComponentsHelmReleaseKey \<and>
      value_at [''spec'', ''values''] (JObj (fields_of r)) = Some (JObj (ps_values p))) \<and>
    map rc_revision (ps_records p) = map int [1..<Suc (length (ps_records p))] \<and>
    list_all (\<lambda>r. rc_create r = rc_revision r \<and> rc_prev r = 0) (ps_records p)"
proof (intro conjI)
  from Prepare_runs [OF assms] obtain vals vals2 final old where run: "prepared_from env cfg opts vals vals2 final old p" by blast
  from prepared_release [OF run] show "\<exists>r \<in> set (ps_records p). rc_key r = platformComponentsHelmReleaseKey \<and>
      value_at [''spec'', ''values''] (JObj (fields_of r)) = Some (JObj (ps_values p))"
    by (auto simp: release_values_def fields_of_def decode_fields_def)
  have rs: "ps_records p = map (\<lambda>(i, r). renumber i r) (enumerate 0 final)" using run by (auto simp: prepared_from_def)
  show "map rc_revision (ps_records p) = map int [1..<Suc (length (ps_records p))]"
    by (rule nth_equalityI) (simp_all add: rs nth_enumerate_eq renumber_def del: upt_Suc)
  show "list_all (\<lambda>r. rc_create r = rc_revision r \<and> rc_prev r = 0) (ps_records p)"
    by (auto simp: rs list_all_iff renumber_def)
qed

theorem reported_values_deployed_witness:
  "map rc_revision (ps_records (ex_prepared False)) = [1, 2] \<and>
   (\<exists>r \<in> set (ps_records (ex_prepared False)). rc_key r = platformComponentsHelmReleaseKey)"
proof -
  have "map rc_revision (ps_records (ex_prepared False)) = [1, 2]" by code_simp
  thus ?thesis using reported_values_deployed [OF ex_prepare, of False] by blast
qed

text \<open>
  A scalar that the values file sets at a path reaches the deployed values unchanged, over the values derived from
  the cluster, the values content and the seed, outside the CoreDNS service settings and unless the certificates are
  delivered by the node.
\<close>

theorem values_file_wins:
  assumes "Prepare env (Inr cfg) opts = Inr p" "\<not> node_delivery cfg opts" "yaml_ok env"
    and "so_values_file opts \<noteq> []" "en_readFile env (so_values_file opts) = Inr data" "data \<noteq> []" "en_yaml env data = Inr (Some over)"
    and "value_at ks (JObj over) = Some v" "scalar v" "settled ks"
  shows "value_at ks (JObj (ps_values p)) = Some v"
proof -
  from Prepare_runs [OF assms(1)] obtain vals vals2 final old where run: "prepared_from env cfg opts vals vals2 final old p" by blast
  hence "prepare_values env cfg False opts = Inr vals" using assms(2) by (simp add: prepared_from_def)
  then obtain v2 where "vals = deepMerge v2 over"
    using assms(4-7) by (auto simp: prepare_values_def mergeValuesFile_def mergeValuesContent_def bindR_Inr_iff)
  moreover have "json_ok (JObj over)" using assms(3,7) unfolding yaml_ok_def by blast
  ultimately have "value_at ks (JObj vals) = Some v"
    using at_deepMerge [of over v ks v2] assms(8-10) scalar_rewritten(2) by (simp add: settled_def)
  thus ?thesis by (rule prepared_leaf [OF run assms(3,10) _ assms(9)])
qed

theorem values_file_wins_witness:
  "value_at [''replicas''] (JObj (ps_values (ex_prepared False))) = Some (JNum 3)"
proof -
  have "\<not> node_delivery ex_config (ex_options False)" by code_simp
  from values_file_wins [OF ex_prepare this ex_yaml, where data = "''y''" and over = "[(''replicas'', JNum 3)]" and
      ks = "[''replicas'']" and v = "JNum 3"]
  show ?thesis by (simp add: ex_options_def ex_seed_env_def scalar_def settled_def dns_service_path_def)
qed

text \<open>
  When the node delivers the certificates, the deployed values have no ingress certificate issuer and name the node as
  provider, whatever the seed, the values content and the values file say.
\<close>

theorem node_certificates_win:
  assumes "Prepare env (Inr cfg) opts = Inr p" "node_delivery cfg opts" "yaml_ok env"
  shows "value_at issuer_path (JObj (ps_values p)) = Some JNull \<and>
    value_at delivery_path (JObj (ps_values p)) = Some (JStr ''node'')"
proof -
  from Prepare_runs [OF assms(1)] obtain vals vals2 final old where run: "prepared_from env cfg opts vals vals2 final old p" by blast
  hence "prepare_values env cfg True opts = Inr vals" using assms(2) by (simp add: prepared_from_def)
  then obtain v3 where v: "vals = applyNodeCertificateValues v3" by (auto simp: prepare_values_def bindR_Inr_iff)
  have s: "settled issuer_path" "settled delivery_path" "scalar JNull" "scalar (JStr ''node'')"
    by (simp_all add: settled_def issuer_path_def delivery_path_def dns_service_path_def scalar_def)
  note run = run [unfolded v]
  show ?thesis
    using prepared_leaf [OF run assms(3) s(1) node_certificate_values(1) s(3)]
      prepared_leaf [OF run assms(3) s(2) node_certificate_values(2) s(4)] by blast
qed

theorem node_certificates_win_witness:
  "value_at issuer_path (JObj (ps_values (ex_prepared True))) = Some JNull"
  using node_certificates_win [OF ex_prepare _ ex_yaml, of True] by (simp add: node_delivery_def ex_options_def)



section \<open>Images\<close>

text \<open>
  After the rewriting every image in the records and the values is empty or comes from the mirror, rewriting again
  changes nothing, and nothing else was changed: with the mirror taken off, images and values are those of the seed.
\<close>

theorem images_from_mirror:
  assumes "rewriteSeedImages records vals host path = (records', vals')" "trim_suffix host ''/'' \<noteq> []"
  shows "list_all (\<lambda>r. case rc_value r of None \<Rightarrow> True | Some v \<Rightarrow> images_mirrored (mirror_base host path) v) records' \<and>
    images_mirrored (mirror_base host path) (JObj vals') \<and>
    rewriteSeedImages records' vals' host path = (records', vals') \<and>
    map rc_key records' = map rc_key records \<and>
    map (map_option (plain_images (mirror_base host path)) \<circ> rc_value) records' =
      map (map_option (plain_images (mirror_base host path)) \<circ> rc_value) records \<and>
    plain_images (mirror_base host path) (JObj vals') = plain_images (mirror_base host path) (JObj vals)"
proof -
  let ?b = "mirror_base host path"
  have r': "records' = map (rewrite_record ?b) records" and v': "JObj vals' = snd (rewriteImageFields ?b (JObj vals))"
    using assms rewritten_obj [of ?b vals] by (auto simp: rewriteSeedImages_def Let_def)
  have recs: "list_all (\<lambda>r. case rc_value r of None \<Rightarrow> True | Some v \<Rightarrow> images_mirrored ?b v) records'"
    by (auto simp: r' list_all_iff rewrite_record_value rewrite_images_mirrored split: option.split)
  have vals: "images_mirrored ?b (JObj vals')" unfolding v' by (rule rewrite_images_mirrored)
  have "rewrite_record ?b r = r" if "r \<in> set records'" for r
    using recs that by (auto simp: list_all_iff rewrite_record_def rewrite_images_fixed split: option.split)
  hence "rewriteSeedImages records' vals' host path = (records', vals')"
    using rewrite_images_fixed [OF vals] assms(2) by (simp add: rewriteSeedImages_def Let_def map_idI)
  moreover have "map (map_option (plain_images ?b) \<circ> rc_value) records' = map (map_option (plain_images ?b) \<circ> rc_value) records"
    by (simp add: r' rewrite_record_value option.map_comp comp_def plain_rewritten)
  moreover have "plain_images ?b (JObj vals') = plain_images ?b (JObj vals)" unfolding v' by (rule plain_rewritten)
  moreover have "map rc_key records' = map rc_key records" by (simp add: r' comp_def)
  ultimately show ?thesis using recs vals by blast
qed

theorem images_from_mirror_witness:
  "images_mirrored ''m.io/p'' (JObj [(''a'', JArr [JObj [(''image'', JStr ''m.io/p/x'')]])])"
proof -
  have r: "rewriteSeedImages [] [(''a'', JArr [JObj [(''image'', JStr ''x'')]])] ''m.io/'' '' p/'' =
      ([], [(''a'', JArr [JObj [(''image'', JStr ''m.io/p/x'')]])])" by code_simp
  have b: "mirror_base ''m.io/'' '' p/'' = ''m.io/p''" "trim_suffix ''m.io/'' ''/'' \<noteq> []" by code_simp+
  from images_from_mirror [OF r b(2)] show ?thesis unfolding b(1) by blast
qed

section \<open>Addresses\<close>

text \<open>
  A Service that is moved into the target network gets, for each seeded address, the address at the same offset of
  every target network of its family; all of them lie inside their network, and different addresses stay different.
\<close>

theorem remapped_addresses:
  assumes "remapSeededServiceIPs spec network key = Inr ips" "map_of spec ''clusterIPs'' = Some (JArr vs)"
    and "map ParsePrefix (sn_cidrs network) = map Some ps"
  shows "\<exists>seeded. map (\<lambda>v. ParseAddr (stringValue (Some v))) vs = map Some seeded \<and> ips = concat (map (remapped ps) seeded) \<and>
    (\<forall>ip \<in> set seeded. px_contains (default_net ip) ip \<and> (\<forall>m \<in> set (remapped ps ip). \<exists>p \<in> set ps. same_family ip p \<and>
       px_contains p m \<and> addr_value m - addr_value (px_addr p) = seed_offset ip)) \<and>
    (distinct seeded \<and> distinct (map (\<lambda>p. is4 (px_addr p)) ps) \<longrightarrow> distinct ips)"
proof -
  have "remap_values vs (sn_cidrs network) key = Inr ips" using assms(1,2) by (simp add: remapSeededServiceIPs_def)
  from remap_values_spec [OF assms(3) this] obtain seeded where
    s: "map (\<lambda>v. ParseAddr (stringValue (Some v))) vs = map Some seeded" "ips = concat (map (remapped ps) seeded)"
      "\<forall>ip \<in> set seeded. remap_fits ps ip" by blast
  have "px_contains (default_net ip) ip \<and> (\<forall>m \<in> set (remapped ps ip). \<exists>p \<in> set ps. same_family ip p \<and>
       px_contains p m \<and> addr_value m - addr_value (px_addr p) = seed_offset ip)" if "ip \<in> set seeded" for ip
    by (rule remap_fits_offsets) (use s(3) that in blast)
  moreover have "distinct ips" if "distinct seeded" "distinct (map (\<lambda>p. is4 (px_addr p)) ps)"
    unfolding s(2) by (rule remapped_distinct [OF that]) (use s(3) in blast)
  ultimately show ?thesis using s(1,2) by blast
qed

theorem remapped_addresses_witness:
  "remapSeededServiceIPs [(''clusterIPs'', JArr [JStr ''198.18.0.9''])] \<lparr>sn_cidrs = [''10.96.0.0/12''], sn_api = [], sn_dns = []\<rparr> ''k'' =
    Inr [V4 0x0A600009] \<and> distinct [V4 0x0A600009]"
proof -
  have r: "remapSeededServiceIPs [(''clusterIPs'', JArr [JStr ''198.18.0.9''])] \<lparr>sn_cidrs = [''10.96.0.0/12''], sn_api = [], sn_dns = []\<rparr> ''k'' =
    Inr [V4 0x0A600009]" by code_simp
  have p: "map ParsePrefix (sn_cidrs \<lparr>sn_cidrs = [''10.96.0.0/12''], sn_api = [], sn_dns = []\<rparr>) =
      map Some [\<lparr>px_addr = V4 0x0A600000, px_bits = 12\<rparr>]" by code_simp
  have "map_of [(''clusterIPs'', JArr [JStr ''198.18.0.9''])] ''clusterIPs'' = Some (JArr [JStr ''198.18.0.9''])" by simp
  from remapped_addresses [OF r this p] r show ?thesis by auto
qed

text \<open>
  When a Service has been moved, every IPAddress record of it that the seed keeps carries, in its key, its name and its
  family label, an address the Service now has, and no two of these records are of the same family.
\<close>

theorem service_allocations:
  assumes "interpolateKubernetes records network = Inr out" "distinct (map rc_key records)"
    and "s \<in> set records" "rc_key s = service_prefix @ p" "rewrite_service network s (fields_of s) = Inr (s', ips)" "ips \<noteq> []"
  shows "s' \<in> set out \<and> cluster_ips s' = Some (JArr (map (JStr \<circ> addr_string) ips)) \<and>
    (\<forall>r \<in> set (allocations_of (rc_key s) out). \<exists>ip \<in> set ips. rc_key r = ip_prefix @ addr_string ip \<and>
      family_of r = ipFamily ip \<and> value_at [''metadata'', ''name''] (JObj (fields_of r)) = Some (JStr (addr_string ip))) \<and>
    distinct (map family_of (allocations_of (rc_key s) out))"
  using interpolateKubernetes_service [OF assms] rewrite_service_spec(2) [OF assms(5,6)] by blast

definition ex_network :: service_network where
  "ex_network = \<lparr>sn_cidrs = [''10.96.0.0/12''], sn_api = [V4 0x0A600001], sn_dns = [V4 0x0A6FFFFE]\<rparr>"

definition ex_service :: seed_record where
  "ex_service = ex_record ''/registry/services/specs/a/b'' (JObj [(''kind'', JStr ''Service''),
     (''spec'', JObj [(''clusterIPs'', JArr [JStr ''198.18.0.9'']), (''ipFamilyPolicy'', JStr ''PreferDualStack'')])])"

definition ex_allocation :: "string \<Rightarrow> string \<Rightarrow> seed_record" where
  "ex_allocation family ip = ex_record (ip_prefix @ ip) (JObj [(''metadata'', JObj [(''name'', JStr ip),
       (''labels'', JObj [(family_label, JStr family)])]),
     (''spec'', JObj [(''parentRef'', JObj [(''namespace'', JStr ''a''), (''name'', JStr ''b'')])])])"

definition ex_records :: "seed_record list" where
  "ex_records = [ex_allocation ''IPv4'' ''198.18.0.9'', ex_allocation ''IPv6'' ''fdc6::9'',
     ex_record serviceCIDRKey (JObj [(''kind'', JStr ''ServiceCIDR'')]), ex_service]"

theorem service_allocations_witness:
  "\<exists>out. interpolateKubernetes ex_records ex_network = Inr out \<and>
     map rc_key (allocations_of ''/registry/services/specs/a/b'' out) = [''/registry/ipaddresses/10.96.0.9''] \<and>
     distinct (map family_of (allocations_of ''/registry/services/specs/a/b'' out))"
proof -
  have "case interpolateKubernetes ex_records ex_network of Inl e \<Rightarrow> False
    | Inr out \<Rightarrow> map rc_key (allocations_of ''/registry/services/specs/a/b'' out) = [''/registry/ipaddresses/10.96.0.9'']" by code_simp
  then obtain out where out: "interpolateKubernetes ex_records ex_network = Inr out"
    "map rc_key (allocations_of ''/registry/services/specs/a/b'' out) = [''/registry/ipaddresses/10.96.0.9'']" by (auto split: sum.splits)
  have d: "distinct (map rc_key ex_records)" by code_simp
  have m: "ex_service \<in> set ex_records" by (simp add: ex_records_def)
  have k: "rc_key ex_service = service_prefix @ ''a/b''" by code_simp
  have "case rewrite_service ex_network ex_service (fields_of ex_service) of Inl e \<Rightarrow> False | Inr (s', ips) \<Rightarrow> ips = [V4 0x0A600009]"
    by code_simp
  then obtain s' where "rewrite_service ex_network ex_service (fields_of ex_service) = Inr (s', [V4 0x0A600009])"
    by (auto split: sum.splits)
  from service_allocations [OF out(1) d m k this] out show ?thesis by (simp add: ex_service_def ex_record_def)
qed

section \<open>Ingress records\<close>

text \<open>
  The Gateway listener the registry route is attached to exists in the Gateway that is rendered for the same domains,
  and the hostname of that listener covers the registry's hostname.
\<close>

theorem registry_listener_exists:
  assumes "registryIngressListener sha hostname ds = Inr listener"
    and "rewriteEnvoyGateway sha r (map do_zone ds) nodeCertificate = Inr r'"
  shows "\<exists>listeners v h. value_at [''spec'', ''listeners''] (JObj (fields_of r')) = Some (JArr listeners) \<and> v \<in> set listeners \<and>
    value_at [''name''] v = Some (JStr listener) \<and> value_at [''hostname''] v = Some (JStr h) \<and> covers h hostname"
proof -
  from registryIngressListener_Inr [OF assms(1)] obtain d h where d: "d \<in> set ds" "covers h hostname"
    "envoyHTTPSListener listener h (bundle_name sha nodeCertificate (do_zone d)) \<in> set (domain_listeners sha nodeCertificate (do_zone d))"
    "length listener \<le> 63" by blast
  from rewriteEnvoyGateway_Inr [OF assms(2)] obtain spec obj' kept where
    r': "r' = set_value r (put_key ''spec'' (JObj (put_key ''listeners''
       (JArr (kept @ concat (map (domain_listeners sha nodeCertificate) (map do_zone ds)))) spec)) obj')" by blast
  let ?v = "envoyHTTPSListener listener h (bundle_name sha nodeCertificate (do_zone d))"
  have "?v \<in> set (kept @ concat (map (domain_listeners sha nodeCertificate) (map do_zone ds)))" using d(1,3) by auto
  moreover have "value_at [''spec'', ''listeners''] (JObj (fields_of r')) =
      Some (JArr (kept @ concat (map (domain_listeners sha nodeCertificate) (map do_zone ds))))" by (simp add: r')
  moreover have "value_at [''name''] ?v = Some (JStr listener)" "value_at [''hostname''] ?v = Some (JStr h)"
    using d(4) by (simp_all add: envoyHTTPSListener_def listener_name_def)
  ultimately show ?thesis using d(2) by blast
qed

definition ex_domains :: "cdomain list" where
  "ex_domains = [\<lparr>do_zone = ''b.org'', do_provider = None, do_load_balancer = []\<rparr>,
     \<lparr>do_zone = ''Example.com'', do_provider = None, do_load_balancer = []\<rparr>]"

definition ex_gateway :: seed_record where
  "ex_gateway = ex_record envoyGatewayKey (JObj [(''kind'', JStr ''Gateway''), (''spec'', JObj [(''listeners'', JArr [
     JObj [(''protocol'', JStr ''HTTP'')], JObj [(''protocol'', JStr ''HTTPS'')]])])])"

theorem registry_listener_exists_witness:
  "\<exists>l. registryIngressListener (\<lambda>_. replicate 32 CHR 0x01) ''reg.Example.com'' ex_domains = Inr l \<and>
     l = ''https-wildcard-example-com-01010101'' \<and> (\<exists>h. covers h ''reg.Example.com'')"
proof -
  have l: "registryIngressListener (\<lambda>_. replicate 32 CHR 0x01) ''reg.Example.com'' ex_domains = Inr ''https-wildcard-example-com-01010101''"
    by code_simp
  have "case rewriteEnvoyGateway (\<lambda>_. replicate 32 CHR 0x01) ex_gateway (map do_zone ex_domains) False of Inl e \<Rightarrow> False | Inr r \<Rightarrow> True"
    by code_simp
  then obtain r' where "rewriteEnvoyGateway (\<lambda>_. replicate 32 CHR 0x01) ex_gateway (map do_zone ex_domains) False = Inr r'"
    by (auto split: sum.splits)
  from registry_listener_exists [OF l this] l show ?thesis by blast
qed



end
