(* ===== verification/OidcServer.thy ===== *)
theory OidcServer
  imports Json GoBase64
begin

text \<open>
  The local OpenID provider of \<open>internal/oidcserver\<close>: the store of authorization codes
  (\<open>code_store.go\<close>), the endpoints (\<open>endpoints.go\<close>), the routes (\<open>handler.go\<close>) and the tokens
  (\<open>tokens.go\<close>). A request carries the parsed query and form, the clock and the random bytes its
  handling reads. The parser of redirect URLs, SHA-256, the signer of the JWT library and the callback
  that validates a client are parameters.
\<close>

section \<open>The code store\<close>

record authCode =
  ac_client_id :: string
  ac_redirect_uri :: string
  ac_challenge :: string
  ac_method :: string
  ac_expires :: int

type_synonym codeStore = "authCode gomap"

definition newCodeStore :: codeStore where
  "newCodeStore = []"

definition code_put :: "string \<Rightarrow> authCode \<Rightarrow> codeStore \<Rightarrow> codeStore" where
  "code_put code c s = put_key code c s"

definition code_take :: "int \<Rightarrow> string \<Rightarrow> codeStore \<Rightarrow> authCode option \<times> codeStore" where
  "code_take now code s =
     (case map_of s code of
        None \<Rightarrow> (None, s)
      | Some c \<Rightarrow> (if now > ac_expires c then None else Some c, del_key code s))"

definition authCodeTTL :: int where
  "authCodeTTL = 5 * 60 * 10 ^ 9"

definition randomHex :: "(nat \<Rightarrow> char) result \<Rightarrow> nat \<Rightarrow> string result" where
  "randomHex rnd n = map_sum id hex_string (rand_read rnd n)"

section \<open>Query values\<close>

type_synonym url_values = "string list gomap"

text \<open>\<open>Values.Get\<close>, \<open>Values.Set\<close>, and \<open>Values.Encode\<close> with \<open>url.QueryEscape\<close>.\<close>

definition values_get :: "url_values \<Rightarrow> string \<Rightarrow> string" where
  "values_get q k = (case map_of q k of Some (v # _) \<Rightarrow> v | _ \<Rightarrow> [])"

definition values_set :: "string \<Rightarrow> string \<Rightarrow> url_values \<Rightarrow> url_values" where
  "values_set k v q = put_key k [v] q"

definition unreserved :: "char \<Rightarrow> bool" where
  "unreserved c \<longleftrightarrow> c \<in> set upper_lower_digits \<or> c \<in> set ''-_.~''"

definition upper_hex :: "nat \<Rightarrow> char" where
  "upper_hex n = ''0123456789ABCDEF'' ! n"

definition escape_char :: "char \<Rightarrow> string" where
  "escape_char c =
     (if unreserved c then [c] else if c = CHR '' '' then ''+''
      else [CHR ''%'', upper_hex (byte_of c div 16), upper_hex (byte_of c mod 16)])"

definition query_escape :: "string \<Rightarrow> string" where
  "query_escape s = concat (map escape_char s)"

definition values_encode :: "url_values \<Rightarrow> string" where
  "values_encode q =
     go_join CHR ''&'' (concat (map (\<lambda>k. map (\<lambda>v. query_escape k @ ''='' @ query_escape v) (the (map_of q k)))
       (sorted_keys q)))"

section \<open>Requests and replies\<close>

record orequest =
  oq_method :: string
  oq_path :: string
  oq_query :: url_values
  oq_form :: "url_values result"
  oq_clock :: "nat \<Rightarrow> int"
  oq_random :: "(nat \<Rightarrow> char) result"

datatype oreply =
    HttpError nat string "goerr option"
  | JSONReply json
  | Found string

text \<open>A parsed redirect URL: what precedes the query, the query, and the fragment with its \<open>#\<close>.\<close>

record redirect_url =
  ru_base :: string
  ru_query :: url_values
  ru_fragment :: string

definition url_string :: "redirect_url \<Rightarrow> url_values \<Rightarrow> string" where
  "url_string u q =
     (let raw = values_encode q in ru_base u @ (if raw = [] then [] else ''?'' @ raw) @ ru_fragment u)"

text \<open>The claims and headers handed to the JWT library.\<close>

record local_token =
  lt_issuer :: string
  lt_audience :: "string list"
  lt_subject :: string
  lt_issued :: int
  lt_expires :: int
  lt_email :: string
  lt_groups :: "string list"
  lt_key_id :: string
  lt_type :: string

record oidc_env =
  oe_issuer :: string
  oe_jwks :: json
  oe_parse_url :: "string \<Rightarrow> redirect_url result"
  oe_sha256 :: "string \<Rightarrow> string"
  oe_build :: "local_token \<Rightarrow> gerror"
  oe_sign :: "local_token \<Rightarrow> string result"
  oe_validate_client :: "string \<Rightarrow> gerror"

section \<open>Tokens\<close>

definition LocalSub :: string where
  "LocalSub = ''test-user''"

definition idTokenTTL :: int where
  "idTokenTTL = 3600 * 10 ^ 9"

definition local_claims :: "oidc_env \<Rightarrow> int \<Rightarrow> string \<Rightarrow> local_token" where
  "local_claims env now clusterID =
     \<lparr>lt_issuer = oe_issuer env, lt_audience = [clusterID], lt_subject = LocalSub,
      lt_issued = now, lt_expires = now + idTokenTTL, lt_email = ''test@localhost'',
      lt_groups = [''system:masters''], lt_key_id = ''podplane-local'', lt_type = ''JWT''\<rparr>"

definition IssueLocalToken :: "oidc_env \<Rightarrow> int \<Rightarrow> string \<Rightarrow> string result" where
  "IssueLocalToken env now clusterID =
     (let clusterID = (if clusterID = [] then ''podplane-local'' else clusterID); tok = local_claims env now clusterID in
      case oe_build env tok of
        Some e \<Rightarrow> Inl (Wrapf ''build token: %w'' [] e)
      | None \<Rightarrow>
          (case oe_sign env tok of
             Inl e \<Rightarrow> Inl (Wrapf ''sign token: %w'' [] e)
           | Inr signed \<Rightarrow> Inr signed))"

definition token_response :: "string \<Rightarrow> string \<Rightarrow> json" where
  "token_response signed refresh =
     JObj [(''access_token'', JStr signed), (''id_token'', JStr signed), (''token_type'', JStr ''Bearer''),
       (''expires_in'', JNum (of_int (idTokenTTL div 10 ^ 9))), (''refresh_token'', JStr refresh)]"

definition issueToken :: "oidc_env \<Rightarrow> orequest \<Rightarrow> string \<Rightarrow> json result" where
  "issueToken env r clusterID =
     bindR (IssueLocalToken env (oq_clock r 1) clusterID) (\<lambda>signed.
       (case randomHex (oq_random r) 32 of
          Inl e \<Rightarrow> Inl (Wrapf ''generate refresh token: %w'' [] e)
        | Inr refresh \<Rightarrow> Inr (token_response signed refresh)))"

section \<open>The endpoints\<close>

definition not_allowed :: oreply where
  "not_allowed = HttpError 405 ''method not allowed'' None"

definition discovery_doc :: "string \<Rightarrow> json" where
  "discovery_doc issuerURL =
     JObj [(''issuer'', JStr issuerURL),
       (''jwks_uri'', JStr (issuerURL @ ''/.well-known/jwks.json'')),
       (''authorization_endpoint'', JStr (issuerURL @ ''/authorize'')),
       (''token_endpoint'', JStr (issuerURL @ ''/token'')),
       (''response_types_supported'', JArr [JStr ''code'', JStr ''id_token'', JStr ''token'']),
       (''subject_types_supported'', JArr [JStr ''public'']),
       (''id_token_signing_alg_values_supported'', JArr [JStr ''RS256'']),
       (''grant_types_supported'', JArr [JStr ''authorization_code'', JStr ''refresh_token'']),
       (''code_challenge_methods_supported'', JArr [JStr ''S256''])]"

definition discoveryHandler :: "oidc_env \<Rightarrow> orequest \<Rightarrow> oreply" where
  "discoveryHandler env r =
     (if oq_method r \<noteq> ''GET'' then not_allowed else JSONReply (discovery_doc (oe_issuer env)))"

definition jwksHandler :: "oidc_env \<Rightarrow> orequest \<Rightarrow> oreply" where
  "jwksHandler env r = (if oq_method r \<noteq> ''GET'' then not_allowed else JSONReply (oe_jwks env))"

definition new_auth_code :: "orequest \<Rightarrow> authCode" where
  "new_auth_code r =
     \<lparr>ac_client_id = values_get (oq_query r) ''client_id'',
      ac_redirect_uri = values_get (oq_query r) ''redirect_uri'',
      ac_challenge = values_get (oq_query r) ''code_challenge'',
      ac_method = values_get (oq_query r) ''code_challenge_method'',
      ac_expires = oq_clock r 0 + authCodeTTL\<rparr>"

definition authorizeHandler :: "oidc_env \<Rightarrow> orequest \<Rightarrow> codeStore \<Rightarrow> oreply \<times> codeStore" where
  "authorizeHandler env r codes =
     (if oq_method r \<noteq> ''GET'' then (not_allowed, codes)
      else
        let q = oq_query r; redirect = values_get q ''redirect_uri'' in
        if redirect = [] then (HttpError 400 ''missing redirect_uri'' None, codes)
        else (case oe_parse_url env redirect of
            Inl _ \<Rightarrow> (HttpError 400 ''invalid redirect_uri'' None, codes)
          | Inr dest \<Rightarrow>
              (case randomHex (oq_random r) 32 of
                 Inl e \<Rightarrow> (HttpError 500 ''generate code: '' (Some e), codes)
               | Inr code \<Rightarrow>
                   let codes = code_put code (new_auth_code r) codes;
                       dq = values_set ''code'' code (ru_query dest);
                       state = values_get q ''state'';
                       dq = (if state \<noteq> [] then values_set ''state'' state dq else dq)
                   in (Found (url_string dest dq), codes))))"

text \<open>The checks after a code was taken; \<open>None\<close> accepts.\<close>

definition challenge_of :: "oidc_env \<Rightarrow> string \<Rightarrow> string \<Rightarrow> string option" where
  "challenge_of env method verifier =
     (if method = ''S256'' then Some (rawurl_encode (oe_sha256 env verifier))
      else if method = ''plain'' then Some verifier else None)"

definition check_code :: "oidc_env \<Rightarrow> url_values \<Rightarrow> authCode \<Rightarrow> oreply option" where
  "check_code env form stored =
     (if values_get form ''client_id'' \<noteq> ac_client_id stored then Some (HttpError 400 ''client_id mismatch'' None)
      else if values_get form ''redirect_uri'' \<noteq> ac_redirect_uri stored
        then Some (HttpError 400 ''redirect_uri mismatch'' None)
      else if ac_challenge stored = [] then None
      else
        let verifier = values_get form ''code_verifier'' in
        if verifier = [] then Some (HttpError 400 ''missing code_verifier'' None)
        else
          let method = (if ac_method stored = [] then ''plain'' else ac_method stored) in
          case challenge_of env method verifier of
            None \<Rightarrow> Some (HttpError 400 ''unsupported code_challenge_method'' None)
          | Some got \<Rightarrow>
              if got \<noteq> ac_challenge stored then Some (HttpError 400 ''code_verifier mismatch'' None) else None)"

definition verifyAuthCode ::
    "oidc_env \<Rightarrow> int \<Rightarrow> url_values \<Rightarrow> codeStore \<Rightarrow> oreply option \<times> codeStore" where
  "verifyAuthCode env now form codes =
     (let code = values_get form ''code'' in
      if code = [] then (Some (HttpError 400 ''missing code'' None), codes)
      else (case code_take now code codes of
          (None, codes') \<Rightarrow> (Some (HttpError 400 ''invalid or expired code'' None), codes')
        | (Some stored, codes') \<Rightarrow> (check_code env form stored, codes')))"

definition tokenHandler :: "oidc_env \<Rightarrow> orequest \<Rightarrow> codeStore \<Rightarrow> oreply \<times> codeStore" where
  "tokenHandler env r codes =
     (if oq_method r \<noteq> ''POST'' then (not_allowed, codes)
      else (case oq_form r of
          Inl e \<Rightarrow> (HttpError 400 ''parse form: '' (Some e), codes)
        | Inr form \<Rightarrow>
            (case (if values_get form ''grant_type'' = ''authorization_code'' then verifyAuthCode env (oq_clock r 0) form codes
                   else if values_get form ''grant_type'' = ''refresh_token''
                     then (if values_get form ''refresh_token'' = [] then Some (HttpError 400 ''missing refresh_token'' None)
                           else None, codes)
                   else (Some (HttpError 400 ''unsupported grant_type'' None), codes)) of
               (Some rejected, codes') \<Rightarrow> (rejected, codes')
             | (None, codes') \<Rightarrow>
                 let clientID = values_get form ''client_id'' in
                 (case oe_validate_client env clientID of
                    Some e \<Rightarrow> (HttpError 400 ''invalid client_id: '' (Some e), codes')
                  | None \<Rightarrow>
                      (case issueToken env r clientID of
                         Inl e \<Rightarrow> (HttpError 500 [] (Some e), codes')
                       | Inr body \<Rightarrow> (JSONReply body, codes'))))))"

text \<open>The routes; a path that is not clean is redirected by \<open>ServeMux\<close> before it reaches them.\<close>

definition serve_oidc :: "oidc_env \<Rightarrow> orequest \<Rightarrow> codeStore \<Rightarrow> oreply \<times> codeStore" where
  "serve_oidc env r codes =
     (if oq_path r = ''/.well-known/openid-configuration'' then (discoveryHandler env r, codes)
      else if oq_path r = ''/.well-known/jwks.json'' then (jwksHandler env r, codes)
      else if oq_path r = ''/authorize'' then authorizeHandler env r codes
      else if oq_path r = ''/token'' then tokenHandler env r codes
      else (HttpError 404 ''404 page not found'' None, codes))"

text \<open>A run of the server: the requests in the order their handling takes the store's lock.\<close>

fun run_oidc :: "oidc_env \<Rightarrow> orequest list \<Rightarrow> codeStore \<Rightarrow> oreply list \<times> codeStore" where
  "run_oidc env [] codes = ([], codes)"
| "run_oidc env (r # rs) codes =
     (case serve_oidc env r codes of (reply, codes1) \<Rightarrow>
        (case run_oidc env rs codes1 of (replies, codes2) \<Rightarrow> (reply # replies, codes2)))"

end
