(* ===== verification/OidcProps.thy ===== *)
theory OidcProps
  imports OidcServer
begin

text \<open>
  What the local OpenID provider promises: an authorization code is exchanged at most as often as it
  was issued, and only with the client, the redirect URI and the PKCE verifier it was issued for,
  within its lifetime. \<open>issues\<close>, \<open>attempts\<close> and \<open>redeems\<close> classify the requests of a run.
\<close>

section \<open>What a request does to a code\<close>

text \<open>The code that an accepted \<open>/authorize\<close> request stores.\<close>

definition issues :: "oidc_env \<Rightarrow> orequest \<Rightarrow> string option" where
  "issues env r =
     (if oq_path r = ''/authorize'' \<and> oq_method r = ''GET'' \<and> values_get (oq_query r) ''redirect_uri'' \<noteq> []
      then (case oe_parse_url env (values_get (oq_query r) ''redirect_uri'') of
          Inl _ \<Rightarrow> None
        | Inr _ \<Rightarrow> (case randomHex (oq_random r) 32 of Inl _ \<Rightarrow> None | Inr code \<Rightarrow> Some code))
      else None)"

text \<open>The form of an authorization-code exchange, and the code it names.\<close>

definition exchange_form :: "orequest \<Rightarrow> url_values option" where
  "exchange_form r =
     (if oq_path r = ''/token'' \<and> oq_method r = ''POST''
      then (case oq_form r of
          Inl _ \<Rightarrow> None
        | Inr form \<Rightarrow> if values_get form ''grant_type'' = ''authorization_code'' then Some form else None)
      else None)"

definition attempts :: "orequest \<Rightarrow> string option" where
  "attempts r =
     (case exchange_form r of
        None \<Rightarrow> None
      | Some form \<Rightarrow> if values_get form ''code'' = [] then None else Some (values_get form ''code''))"

text \<open>The exchange was answered with tokens.\<close>

definition redeems :: "orequest \<Rightarrow> oreply \<Rightarrow> string option" where
  "redeems r reply = (case reply of JSONReply _ \<Rightarrow> attempts r | _ \<Rightarrow> None)"


text \<open>One request changes the store in the code it issues or attempts, and nowhere else.\<close>

lemma map_of_code_take:
  "map_of (snd (code_take now code s)) c = (if c = code then None else map_of s c)"
  by (simp add: code_take_def split: option.splits)

lemma snd_tokenHandler:
  assumes "oq_method r = ''POST''" "oq_form r = Inr form"
  shows "snd (tokenHandler env r codes) =
    (if values_get form ''grant_type'' = ''authorization_code''
     then snd (verifyAuthCode env (oq_clock r 0) form codes) else codes)"
  using assms by (simp add: tokenHandler_def Let_def split: prod.splits option.splits sum.splits)

lemma snd_verifyAuthCode:
  "snd (verifyAuthCode env now form codes) =
     (if values_get form ''code'' = [] then codes else snd (code_take now (values_get form ''code'') codes))"
  by (simp add: verifyAuthCode_def Let_def split: prod.splits option.splits)

lemma store_after_authorize:
  "oq_path r = ''/authorize'' \<Longrightarrow>
   map_of (snd (serve_oidc env r codes)) c =
     (if issues env r = Some c then Some (new_auth_code r) else map_of codes c)"
  by (auto simp: serve_oidc_def authorizeHandler_def issues_def Let_def code_put_def split: sum.splits)

lemma store_after_token:
  assumes "oq_path r = ''/token''"
  shows "map_of (snd (serve_oidc env r codes)) c = (if attempts r = Some c then None else map_of codes c)"
proof (cases "oq_method r = ''POST'' \<and> (\<exists>form. oq_form r = Inr form)")
  case True
  then obtain form where f: "oq_method r = ''POST''" "oq_form r = Inr form" by blast
  have "snd (serve_oidc env r codes) = snd (tokenHandler env r codes)"
    using assms by (simp add: serve_oidc_def)
  then show ?thesis
    using assms f snd_tokenHandler [OF f, of env codes]
    by (auto simp: attempts_def exchange_form_def snd_verifyAuthCode map_of_code_take)
next
  case False
  then show ?thesis
    using assms by (cases "oq_form r") (auto simp: serve_oidc_def tokenHandler_def attempts_def exchange_form_def)
qed

lemma store_after:
  "map_of (snd (serve_oidc env r codes)) c =
     (if issues env r = Some c then Some (new_auth_code r)
      else if attempts r = Some c then None else map_of codes c)"
proof -
  consider "oq_path r = ''/authorize''" | "oq_path r = ''/token''"
    | "oq_path r \<noteq> ''/authorize''" "oq_path r \<noteq> ''/token''" by blast
  then show ?thesis
  proof cases
    case 1
    then show ?thesis by (auto simp: store_after_authorize attempts_def exchange_form_def)
  next
    case 2
    then show ?thesis by (auto simp: store_after_token issues_def)
  next
    case 3
    then show ?thesis by (simp add: serve_oidc_def issues_def attempts_def exchange_form_def)
  qed
qed

section \<open>When an exchange succeeds\<close>

text \<open>What the stored code demands of the form.\<close>

definition proves_possession :: "oidc_env \<Rightarrow> url_values \<Rightarrow> authCode \<Rightarrow> bool" where
  "proves_possession env form a \<longleftrightarrow>
     (let verifier = values_get form ''code_verifier'' in
      verifier \<noteq> [] \<and>
      (if ac_method a = ''S256'' then rawurl_encode (oe_sha256 env verifier) = ac_challenge a
       else ac_method a \<in> {[], ''plain''} \<and> verifier = ac_challenge a))"

definition code_fits :: "oidc_env \<Rightarrow> url_values \<Rightarrow> authCode \<Rightarrow> bool" where
  "code_fits env form a \<longleftrightarrow>
     values_get form ''client_id'' = ac_client_id a \<and> values_get form ''redirect_uri'' = ac_redirect_uri a \<and>
     (ac_challenge a = [] \<or> proves_possession env form a)"

lemma check_code_None: "check_code env form a = None \<longleftrightarrow> code_fits env form a"
  by (auto simp: check_code_def code_fits_def proves_possession_def challenge_of_def Let_def)

lemma verifyAuthCode_None:
  "fst (verifyAuthCode env now form codes) = None \<longleftrightarrow>
     values_get form ''code'' \<noteq> [] \<and>
     (\<exists>a. map_of codes (values_get form ''code'') = Some a \<and> now \<le> ac_expires a \<and> code_fits env form a)"
  by (auto simp: verifyAuthCode_def code_take_def Let_def check_code_None not_less split: option.splits)

lemma redeems_accepted:
  assumes "redeems r (fst (serve_oidc env r codes)) = Some c"
  obtains form a where "exchange_form r = Some form" "attempts r = Some c" "map_of codes c = Some a"
    "oq_clock r 0 \<le> ac_expires a" "code_fits env form a"
    "oe_validate_client env (values_get form ''client_id'') = None"
proof -
  have att: "attempts r = Some c" and js: "\<exists>j. fst (serve_oidc env r codes) = JSONReply j"
    using assms by (auto simp: redeems_def split: oreply.splits)
  from att obtain form where form: "exchange_form r = Some form" "c = values_get form ''code''" "c \<noteq> []"
    by (auto simp: attempts_def split: option.splits if_splits)
  then have r: "oq_path r = ''/token''" "oq_method r = ''POST''" "oq_form r = Inr form"
    "values_get form ''grant_type'' = ''authorization_code''"
    by (auto simp: exchange_form_def split: if_splits sum.splits)
  obtain v codes' where v: "verifyAuthCode env (oq_clock r 0) form codes = (v, codes')" by fastforce
  have not_json: "\<exists>j. v = Some (JSONReply j) \<Longrightarrow> False"
    using v by (auto simp: verifyAuthCode_def check_code_def Let_def split: if_splits option.splits prod.splits)
  have "v = None \<and> oe_validate_client env (values_get form ''client_id'') = None"
    using js r v not_json
    by (auto simp: serve_oidc_def tokenHandler_def Let_def split: option.splits sum.splits)
  with that att form v verifyAuthCode_None [of env "oq_clock r 0" form codes] show thesis by auto
qed

section \<open>Runs\<close>

lemma length_run_oidc [simp]: "length (fst (run_oidc env rs codes)) = length rs"
  by (induction rs arbitrary: codes) (auto split: prod.splits simp: prod_eq_iff)

lemma run_oidc_append:
  "run_oidc env (rs @ rs') codes =
     (fst (run_oidc env rs codes) @ fst (run_oidc env rs' (snd (run_oidc env rs codes))),
      snd (run_oidc env rs' (snd (run_oidc env rs codes))))"
  by (induction rs arbitrary: codes) (simp_all split: prod.splits)

lemma run_oidc_snoc:
  "fst (run_oidc env (rs @ [r]) codes) = fst (run_oidc env rs codes) @ [fst (serve_oidc env r (snd (run_oidc env rs codes)))]"
  "snd (run_oidc env (rs @ [r]) codes) = snd (serve_oidc env r (snd (run_oidc env rs codes)))"
  by (simp_all add: run_oidc_append split: prod.splits)




text \<open>How often a code was issued and redeemed in a run.\<close>

definition issued_count :: "oidc_env \<Rightarrow> orequest list \<Rightarrow> string \<Rightarrow> nat" where
  "issued_count env rs c = length (filter (\<lambda>r. issues env r = Some c) rs)"

definition redeemed_count :: "orequest list \<Rightarrow> oreply list \<Rightarrow> string \<Rightarrow> nat" where
  "redeemed_count rs replies c = length (filter (\<lambda>(r, reply). redeems r reply = Some c) (zip rs replies))"

lemma redeemed_stored:
  "redeemed_count rs (fst (run_oidc env rs newCodeStore)) c +
     (if map_of (snd (run_oidc env rs newCodeStore)) c = None then 0 else 1) \<le> issued_count env rs c"
proof (induction rs rule: rev_induct)
  case Nil
  then show ?case by (simp add: redeemed_count_def issued_count_def newCodeStore_def)
next
  case (snoc r rs)
  define codes where "codes = snd (run_oidc env rs newCodeStore)"
  have redeem: "redeems r (fst (serve_oidc env r codes)) = Some c \<Longrightarrow>
      map_of codes c \<noteq> None \<and> attempts r = Some c \<and> issues env r \<noteq> Some c"
    by (erule redeems_accepted) (auto simp: issues_def exchange_form_def split: if_splits)
  show ?case
    using snoc.IH redeem
    by (auto simp: run_oidc_snoc redeemed_count_def issued_count_def store_after simp flip: codes_def split: if_splits)
qed

section \<open>The properties\<close>

text \<open>
  C10: Over any run of the provider, every authorization code is exchanged for tokens at most as often
  as it was issued: a code that was used, in an exchange that succeeded or failed, is worth nothing.
\<close>
theorem codes_spent_once:
  "redeemed_count rs (fst (run_oidc env rs newCodeStore)) c \<le> issued_count env rs c"
  using redeemed_stored [of rs env c] by (rule le_trans [rotated]) simp



section \<open>Witnesses\<close>

definition ex_oidc_env :: oidc_env where
  "ex_oidc_env = \<lparr>oe_issuer = ''https://oidc'', oe_jwks = JNull,
     oe_parse_url = (\<lambda>s. Inr \<lparr>ru_base = s, ru_query = [], ru_fragment = []\<rparr>),
     oe_sha256 = (\<lambda>s. ''sha'' @ s), oe_build = (\<lambda>_. None), oe_sign = (\<lambda>t. Inr (concat (lt_audience t))),
     oe_validate_client = (\<lambda>c. if c = ''cl'' then None else Some (Sentinel ''unknown''))\<rparr>"

definition ex_authorize :: orequest where
  "ex_authorize = \<lparr>oq_method = ''GET'', oq_path = ''/authorize'',
     oq_query = [(''redirect_uri'', [''http://cb'']), (''client_id'', [''cl'']),
       (''code_challenge'', [rawurl_encode (''sha'' @ ''v1'')]), (''code_challenge_method'', [''S256''])],
     oq_form = Inr [], oq_clock = (\<lambda>_. 7), oq_random = Inr (\<lambda>_. CHR ''A'')\<rparr>"

definition ex_code :: string where
  "ex_code = hex_string (replicate 32 CHR ''A'')"


lemma ex_issues: "issues ex_oidc_env ex_authorize = Some ex_code"
  by code_simp




end
