(* ===== verification/JsonDecode.thy ===== *)
theory JsonDecode
  imports Json
begin

text \<open>
  \<open>json.Unmarshal\<close> of a decoded JSON value into Go structs, maps, slices and scalars. A field is found
  by its name in any letter case; later fields of an object win, unknown fields are ignored, \<open>null\<close>
  leaves a struct or a scalar as it is and empties a map, a slice or a pointer. A value of the wrong
  type is an error of the whole decoding (\<open>None\<close>).
\<close>

type_synonym 'a decoder = "json \<Rightarrow> 'a \<Rightarrow> 'a option"

definition decode_str :: "string decoder" where
  "decode_str v old = (case v of JStr s \<Rightarrow> Some s | JNull \<Rightarrow> Some old | _ \<Rightarrow> None)"

definition decode_bool :: "bool decoder" where
  "decode_bool v old = (case v of JBool b \<Rightarrow> Some b | JNull \<Rightarrow> Some old | _ \<Rightarrow> None)"

text \<open>A struct: the decoders of its fields by lower-case name.\<close>

fun decode_fields :: "(string \<times> 'a decoder) list \<Rightarrow> (string \<times> json) list \<Rightarrow> 'a \<Rightarrow> 'a option" where
  "decode_fields fs [] acc = Some acc"
| "decode_fields fs ((k, v) # kvs) acc =
     (case map_of fs (to_lower k) of
        None \<Rightarrow> decode_fields fs kvs acc
      | Some d \<Rightarrow> Option.bind (d v acc) (decode_fields fs kvs))"

definition decode_struct :: "(string \<times> 'a decoder) list \<Rightarrow> 'a decoder" where
  "decode_struct fs v old =
     (case v of JObj kvs \<Rightarrow> decode_fields fs kvs old | JNull \<Rightarrow> Some old | _ \<Rightarrow> None)"

text \<open>A map: every value is decoded into the zero value of its type.\<close>

fun decode_entries :: "'a decoder \<Rightarrow> 'a \<Rightarrow> (string \<times> json) list \<Rightarrow> 'a gomap \<Rightarrow> 'a gomap option" where
  "decode_entries d zero [] m = Some m"
| "decode_entries d zero ((k, v) # kvs) m =
     Option.bind (d v zero) (\<lambda>x. decode_entries d zero kvs (put_key k x m))"

definition decode_gomap :: "'a decoder \<Rightarrow> 'a \<Rightarrow> 'a gomap decoder" where
  "decode_gomap d zero v old =
     (case v of JObj kvs \<Rightarrow> decode_entries d zero kvs old | JNull \<Rightarrow> Some [] | _ \<Rightarrow> None)"

text \<open>A slice: an element that exists already is decoded into, a new one starts from zero.\<close>

fun decode_elems :: "'a decoder \<Rightarrow> 'a \<Rightarrow> json list \<Rightarrow> 'a list \<Rightarrow> 'a list option" where
  "decode_elems d zero [] old = Some []"
| "decode_elems d zero (v # vs) old =
     Option.bind (d v (case old of [] \<Rightarrow> zero | x # _ \<Rightarrow> x)) (\<lambda>x.
       map_option ((#) x) (decode_elems d zero vs (drop 1 old)))"

definition decode_slice :: "'a decoder \<Rightarrow> 'a \<Rightarrow> 'a list decoder" where
  "decode_slice d zero v old =
     (case v of JArr vs \<Rightarrow> decode_elems d zero vs old | JNull \<Rightarrow> Some [] | _ \<Rightarrow> None)"

text \<open>A pointer to a struct.\<close>

definition decode_pointer :: "'a decoder \<Rightarrow> 'a \<Rightarrow> 'a option decoder" where
  "decode_pointer d zero v old =
     (case v of JNull \<Rightarrow> Some None | _ \<Rightarrow> map_option Some (d v (case old of None \<Rightarrow> zero | Some x \<Rightarrow> x)))"

text \<open>A field of a record, as the decoder of the struct uses it.\<close>

definition field_of :: "('a \<Rightarrow> 'b) \<Rightarrow> (('b \<Rightarrow> 'b) \<Rightarrow> 'a \<Rightarrow> 'a) \<Rightarrow> 'b decoder \<Rightarrow> 'a decoder" where
  "field_of get upd d v old = map_option (\<lambda>x. upd (\<lambda>_. x) old) (d v (get old))"

section \<open>Decoding an object whose keys have one spelling\<close>

text \<open>When a decoder only looks at its own field, the fields of an object may be decoded in any order.\<close>

lemma decode_fields_append:
  "decode_fields fs (kvs @ kvs') acc = Option.bind (decode_fields fs kvs acc) (decode_fields fs kvs')"
  by (induction fs kvs acc rule: decode_fields.induct) (auto split: option.splits bind_splits)

lemma decode_entries_keys:
  "decode_entries d zero kvs m = Some m' \<Longrightarrow> fst ` set m' = fst ` set m \<union> fst ` set kvs"
  by (induction d zero kvs m rule: decode_entries.induct) (auto split: bind_splits)

lemma decode_entries_ok: "decode_entries d zero kvs m = Some m' \<Longrightarrow> gomap_ok m \<Longrightarrow> gomap_ok m'"
  by (induction d zero kvs m rule: decode_entries.induct) (auto split: bind_splits)

lemma decode_entries_lookup:
  assumes "decode_entries d zero kvs m = Some m'" "distinct (map fst kvs)"
  shows "map_of m' k = (case map_of kvs k of None \<Rightarrow> map_of m k | Some v \<Rightarrow> d v zero)"
  using assms
proof (induction d zero kvs m rule: decode_entries.induct)
  case (2 d zero k' v kvs m)
  then obtain x where x: "d v zero = Some x" by (auto split: bind_splits)
  with 2 have "map_of m' k = (case map_of kvs k of None \<Rightarrow> map_of (put_key k' x m) k | Some v \<Rightarrow> d v zero)"
    by simp
  moreover have "k = k' \<Longrightarrow> map_of kvs k = None" using 2(3) by (auto simp: map_of_eq_None_iff)
  ultimately show ?case using x by (auto split: option.splits)
qed simp

lemma decode_entries_value:
  "decode_entries d zero kvs m = Some m' \<Longrightarrow> (k, v) \<in> set kvs \<Longrightarrow> d v zero \<noteq> None"
  by (induction d zero kvs m rule: decode_entries.induct) (auto split: bind_splits)

lemma decode_entries_total:
  assumes "\<forall>(k, v) \<in> set kvs. d v zero \<noteq> None"
  shows "\<exists>m'. decode_entries d zero kvs m = Some m'"
  using assms by (induction d zero kvs m rule: decode_entries.induct) auto

end
