(* ===== verification/Components.thy ===== *)
theory Components
  imports JsonDecode ClusterValidate GoBase64
begin

text \<open>
  The component commands of \<open>internal/components\<close>: the snapshot of the platform-components values
  (\<open>config.go\<close>), the dependency walk of an installation and the dependents that forbid a removal
  (\<open>resolve.go\<close>), the patch that enables or disables components (\<open>patch.go\<close>), the releases to wait for
  (\<open>helmrelease_refs.go\<close>), the secrets a component needs (\<open>secret_requirements.go\<close>) and the component
  lists of the seeds (\<open>seeds.go\<close>).
\<close>

section \<open>The configuration\<close>

definition HelmReleaseName :: string where
  "HelmReleaseName = ''platform-components''"

definition HelmReleaseNamespace :: string where
  "HelmReleaseNamespace = ''platform-components''"

record entry =
  en_enabled :: bool
  en_namespace :: string
  en_core :: bool
  en_depends :: "string list"

record comp_config =
  cc_apps :: "entry gomap"
  cc_crds :: "entry gomap"
  cc_cluster_id :: string
  cc_secrets :: secrets

definition comp_has :: "comp_config \<Rightarrow> string \<Rightarrow> bool" where
  "comp_has c name \<longleftrightarrow> map_of (cc_apps c) name \<noteq> None \<or> map_of (cc_crds c) name \<noteq> None"

definition comp_get :: "comp_config \<Rightarrow> string \<Rightarrow> (entry \<times> bool) option" where
  "comp_get c name =
     (case map_of (cc_apps c) name of
        Some e \<Rightarrow> Some (e, True)
      | None \<Rightarrow> (case map_of (cc_crds c) name of Some e \<Rightarrow> Some (e, False) | None \<Rightarrow> None))"

section \<open>Parsing the values\<close>

definition no_entry :: entry where
  "no_entry = \<lparr>en_enabled = False, en_namespace = [], en_core = False, en_depends = []\<rparr>"

definition decode_entry :: "entry decoder" where
  "decode_entry = decode_struct
     [(''enabled'', field_of en_enabled en_enabled_update decode_bool),
      (''namespace'', field_of en_namespace en_namespace_update decode_str),
      (''core'', field_of en_core en_core_update decode_bool),
      (''dependson'', field_of en_depends en_depends_update (decode_slice decode_str []))]"

definition no_provider :: secrets_provider where
  "no_provider = \<lparr>sv_kind = [], sv_key_prefix = [], sv_object_type = [], sv_region = [], sv_project_id = [],
     sv_location = [], sv_address = [], sv_mount_path = [], sv_ca_cert = [], sv_auth_path = [], sv_operator_role = []\<rparr>"

definition decode_provider :: "secrets_provider decoder" where
  "decode_provider = decode_struct
     [(''kind'', field_of sv_kind sv_kind_update decode_str),
      (''keyprefix'', field_of sv_key_prefix sv_key_prefix_update decode_str),
      (''objecttype'', field_of sv_object_type sv_object_type_update decode_str),
      (''region'', field_of sv_region sv_region_update decode_str),
      (''projectid'', field_of sv_project_id sv_project_id_update decode_str),
      (''location'', field_of sv_location sv_location_update decode_str),
      (''address'', field_of sv_address sv_address_update decode_str),
      (''mountpath'', field_of sv_mount_path sv_mount_path_update decode_str)]"

definition decode_secrets :: "secrets decoder" where
  "decode_secrets = decode_struct
     [(''defaultprovider'', field_of sc_default sc_default_update decode_str),
      (''providers'', field_of sc_providers sc_providers_update (decode_gomap decode_provider no_provider))]"

text \<open>The fields of the components object, as one record: \<open>values\<close> leads to the operator's settings.\<close>

definition decode_operator_config :: "comp_config decoder" where
  "decode_operator_config = decode_struct
     [(''cluster'', decode_struct [(''id'', field_of cc_cluster_id cc_cluster_id_update decode_str)]),
      (''secrets'', field_of cc_secrets cc_secrets_update decode_secrets)]"

definition decode_components :: "comp_config decoder" where
  "decode_components = decode_struct
     [(''apps'', field_of cc_apps cc_apps_update (decode_gomap decode_entry no_entry)),
      (''crds'', field_of cc_crds cc_crds_update (decode_gomap decode_entry no_entry)),
      (''values'', decode_struct [(''podplane-operator'', decode_struct [(''podplane'', decode_struct
         [(''operator'', decode_struct [(''config'', decode_operator_config)])])])])]"

definition no_components :: comp_config where
  "no_components = \<lparr>cc_apps = [], cc_crds = [], cc_cluster_id = [], cc_secrets = \<lparr>sc_default = [], sc_providers = []\<rparr>\<rparr>"

definition decode_platform :: "comp_config option decoder" where
  "decode_platform =
     decode_struct [(''platform'', decode_struct [(''components'', decode_pointer decode_components no_components)])]"

text \<open>The input is the JSON value of the document, \<open>None\<close> when it is not JSON.\<close>

definition ParseValues :: "json option \<Rightarrow> comp_config result" where
  "ParseValues raw =
     (case Option.bind raw (\<lambda>j. decode_platform j None) of
        None \<Rightarrow> Inl (Wrapf ''decode platform-components values: %w'' [] (Sentinel ''json''))
      | Some None \<Rightarrow> Inl (Errorf ''platform-components values are missing platform.components'' [])
      | Some (Some cfg) \<Rightarrow> Inr cfg)"

section \<open>Installation plans\<close>

record enable_set =
  es_apps :: "string list"
  es_crds :: "string list"

definition plan_empty :: "enable_set \<Rightarrow> bool" where
  "plan_empty s \<longleftrightarrow> es_apps s = [] \<and> es_crds s = []"

text \<open>
  The recursive \<open>walk\<close>, with the calls that are still to come as an explicit stack: a call to \<open>walk\<close> for a
  dependency and the rest of the caller's loop are the front and the rest of the list. \<open>visited\<close>,
  \<open>apps\<close> and \<open>crds\<close> are the maps of the closure.
\<close>

record walk_state =
  ws_visited :: "string list"
  ws_apps :: "string list"
  ws_crds :: "string list"

definition walk_enter :: "string \<Rightarrow> entry \<Rightarrow> bool \<Rightarrow> walk_state \<Rightarrow> walk_state" where
  "walk_enter n entry isApp st =
     (let st = st\<lparr>ws_visited := n # ws_visited st\<rparr> in
      if en_enabled entry then st
      else if isApp then st\<lparr>ws_apps := n # ws_apps st\<rparr>
      else st\<lparr>ws_crds := n # ws_crds st\<rparr>)"

definition known_components :: "comp_config \<Rightarrow> string set" where
  "known_components c = fst ` set (cc_apps c) \<union> fst ` set (cc_crds c)"

lemma finite_known [simp]: "finite (known_components c)"
  by (simp add: known_components_def)

lemma comp_get_None_iff: "comp_get c n = None \<longleftrightarrow> n \<notin> known_components c"
  by (cases "map_of (cc_apps c) n"; cases "map_of (cc_crds c) n")
    (simp_all add: comp_get_def known_components_def flip: map_of_eq_None_iff)

lemma comp_get_known: "comp_get c n = Some x \<Longrightarrow> n \<in> known_components c"
  using comp_get_None_iff [of c n] by auto

lemma visited_walk_enter [simp]: "ws_visited (walk_enter n e b st) = n # ws_visited st"
  by (simp add: walk_enter_def Let_def)

function walk :: "comp_config \<Rightarrow> string list \<Rightarrow> walk_state \<Rightarrow> walk_state result" where
  "walk c [] st = Inr st"
| "walk c (n # stack) st =
     (if n \<in> set (ws_visited st) then walk c stack st
      else (case comp_get c n of
          None \<Rightarrow> Inl (Errorf ''component %q has an unknown dependency'' [S n])
        | Some (entry, isApp) \<Rightarrow> walk c (en_depends entry @ stack) (walk_enter n entry isApp st)))"
  by pat_completeness auto
termination
proof (relation "measures [\<lambda>(c, stack, st). card (known_components c - set (ws_visited st)), \<lambda>(c, stack, st). length stack]",
    goal_cases)
  case (3 c n stack st x entry isApp)
  then have "n \<in> known_components c - set (ws_visited st)" by (auto dest: comp_get_known)
  then have "card (known_components c - insert n (set (ws_visited st))) < card (known_components c - set (ws_visited st))"
    by (intro psubset_card_mono) auto
  then show ?case by simp
qed auto

definition ResolveEnable :: "comp_config \<Rightarrow> string \<Rightarrow> enable_set result" where
  "ResolveEnable c name =
     (if \<not> comp_has c name then
        Inl (Errorf ''unknown component %q (not present in the platform-components HelmRelease values)'' [S name])
      else
        bindR (walk c [name] \<lparr>ws_visited = [], ws_apps = [], ws_crds = []\<rparr>) (\<lambda>st.
          Inr \<lparr>es_apps = sort (remdups (ws_apps st)), es_crds = sort (remdups (ws_crds st))\<rparr>))"

definition enabled_on :: "string \<Rightarrow> entry gomap \<Rightarrow> string list" where
  "enabled_on name entries = map fst (filter (\<lambda>(n, e). en_enabled e \<and> name \<in> set (en_depends e)) entries)"

definition EnabledDependents :: "comp_config \<Rightarrow> string \<Rightarrow> string list" where
  "EnabledDependents c name = sort (remdups (enabled_on name (cc_apps c) @ enabled_on name (cc_crds c)))"

section \<open>The patch\<close>

definition enabled_json :: "bool \<Rightarrow> string list \<Rightarrow> json gomap" where
  "enabled_json enabled names =
     fold (\<lambda>name m. put_key name (JObj [(''enabled'', JBool enabled)]) m) names []"

definition buildEnabledPatch :: "string list \<Rightarrow> string list \<Rightarrow> bool \<Rightarrow> fields" where
  "buildEnabledPatch apps crds enabled =
     (let componentsPatch = (if apps \<noteq> [] then [(''apps'', JObj (enabled_json enabled apps))] else []);
          componentsPatch = (if crds \<noteq> [] then put_key ''crds'' (JObj (enabled_json enabled crds)) componentsPatch
                             else componentsPatch)
      in [(''spec'', JObj [(''values'', JObj [(''platform'', JObj [(''components'', JObj componentsPatch)])])])])"

section \<open>The releases to wait for\<close>

record helm_ref =
  hr_name :: string
  hr_namespace :: string
  hr_kind :: string

definition app_namespace :: "comp_config \<Rightarrow> string \<Rightarrow> string" where
  "app_namespace c name =
     (let ns = (case comp_get c name of Some (e, _) \<Rightarrow> en_namespace e | None \<Rightarrow> []) in
      if ns = [] then HelmReleaseNamespace else ns)"

definition HelmReleaseRefs :: "comp_config \<Rightarrow> enable_set \<Rightarrow> helm_ref list" where
  "HelmReleaseRefs c plan =
     map (\<lambda>name. \<lparr>hr_name = name, hr_namespace = ''platform-cluster'', hr_kind = ''crd''\<rparr>) (es_crds plan) @
     map (\<lambda>name. \<lparr>hr_name = name, hr_namespace = app_namespace c name, hr_kind = ''app''\<rparr>) (es_apps plan)"

section \<open>Required secrets\<close>

record provision =
  pv_provider_name :: string
  pv_namespace :: string
  pv_binding :: string
  pv_key :: string
  pv_provider :: secrets_provider

definition sourceGatewayKeyBytes :: nat where
  "sourceGatewayKeyBytes = 32"

definition componentSecrets :: "provision list gomap" where
  "componentSecrets =
     [(''sourcegateway'', [\<lparr>pv_provider_name = [], pv_namespace = ''platform-sourcegateway'',
        pv_binding = ''sourcegateway'', pv_key = ''encryption-key'', pv_provider = no_provider\<rparr>])]"

text \<open>\<open>Generate\<close> and \<open>Validate\<close> of the source gateway key.\<close>

definition generate_gateway_key :: "(nat \<Rightarrow> char) \<Rightarrow> string" where
  "generate_gateway_key random = std_encode (map random [0..<sourceGatewayKeyBytes])"

text \<open>\<open>base64.StdEncoding.Strict()\<close>: the unused bits of the last character are zero.\<close>

definition strict_decode :: "string \<Rightarrow> string result" where
  "strict_decode v =
     bindR (std_decode v) (\<lambda>d.
       if std_encode d = filter (\<lambda>c. c \<noteq> CHR 0x0D \<and> c \<noteq> CHR 0x0A) v then Inr d else Inl corrupt_input)"

definition validate_gateway_key :: "string \<Rightarrow> gerror" where
  "validate_gateway_key value =
     (let value = trim_space value in
      case (strict_decode value, contains_any value [CHR 0x0D, CHR 0x0A]) of
        (Inr d, False) \<Rightarrow>
          (if length d \<noteq> sourceGatewayKeyBytes
           then Some (Errorf ''secret must decode to exactly %d bytes'' [I (int sourceGatewayKeyBytes)]) else None)
      | _ \<Rightarrow> Some (Errorf ''secret must be canonical standard base64'' []))"

definition require_secret :: "comp_config \<Rightarrow> string \<Rightarrow> provision \<Rightarrow> provision result" where
  "require_secret c app r =
     (let namespace = (case map_of (cc_apps c) app of Some e \<Rightarrow> en_namespace e | None \<Rightarrow> []);
          r = (if namespace \<noteq> [] then r\<lparr>pv_namespace := namespace\<rparr> else r);
          provider_name = sc_default (cc_secrets c)
      in case map_of (sc_providers (cc_secrets c)) provider_name of
           None \<Rightarrow> Inl (Errorf ''%s %s requires a configured default secrets provider'' [S app, S (pv_key r)])
         | Some provider \<Rightarrow>
             if provider_name = [] then Inl (Errorf ''%s %s requires a configured default secrets provider'' [S app, S (pv_key r)])
             else
               let provider = (if sv_key_prefix provider = [] then provider\<lparr>sv_key_prefix := cc_cluster_id c\<rparr> else provider) in
               if sv_key_prefix provider = [] \<or> sv_kind provider = [] then
                 Inl (Errorf ''%s %s requires a provider kind and key prefix or cluster ID'' [S app, S (pv_key r)])
               else Inr (r\<lparr>pv_provider_name := provider_name, pv_provider := provider\<rparr>))"

fun collect :: "('a \<Rightarrow> 'b result) \<Rightarrow> 'a list \<Rightarrow> 'b list result" where
  "collect f [] = Inr []"
| "collect f (x # xs) = bindR (f x) (\<lambda>y. bindR (collect f xs) (\<lambda>ys. Inr (y # ys)))"

definition requirements_of :: "string \<Rightarrow> (string \<times> provision) list" where
  "requirements_of app = map (Pair app) (case map_of componentSecrets app of Some rs \<Rightarrow> rs | None \<Rightarrow> [])"

text \<open>\<open>None\<close> is the nil list of apps.\<close>

definition RequiredSecrets :: "comp_config \<Rightarrow> string list option \<Rightarrow> provision list result" where
  "RequiredSecrets c apps =
     (let apps = (case apps of Some a \<Rightarrow> a | None \<Rightarrow> sort (map fst (filter (\<lambda>(n, e). en_enabled e) (cc_apps c))))
      in collect (\<lambda>(app, r). require_secret c app r) (concat (map requirements_of apps)))"

definition SecretApps :: "string list" where
  "SecretApps = sorted_keys componentSecrets"

section \<open>The components of the seeds\<close>

definition platformAddons :: "string list" where
  "platformAddons = [''envoy-gateway'', ''podplane-operator'', ''secrets-store-csi-driver'', ''zot-registry'']"

definition AgenticAddons :: "string list" where
  "AgenticAddons = platformAddons @ [''agent-sandbox'', ''sourcegateway'', ''agent-router'']"

definition secretsCSIProviders :: "string list" where
  "secretsCSIProviders = [''aws'', ''gcp'', ''openbao'', ''vault'']"

definition add_csi_addon :: "string \<Rightarrow> string \<Rightarrow> string list \<Rightarrow> string list" where
  "add_csi_addon name kind addons =
     (let addon = ''secrets-store-csi-provider-'' @ kind in
      if (name = kind \<or> name = ''all'') \<and> addon \<notin> set addons then addons @ [addon] else addons)"

definition DefaultAddons :: "string list \<Rightarrow> string list" where
  "DefaultAddons providers =
     fold (\<lambda>name. fold (add_csi_addon (to_lower (trim_space name))) secretsCSIProviders)
       (concat (map (go_split CHR '','') providers)) AgenticAddons"

end
