(* ===== verification/ComponentsFacts.thy ===== *)
theory ComponentsFacts
  imports Components
begin

text \<open>
  The dependency walk is the reflexive transitive closure of \<open>dependsOn\<close>: it ends, it fails exactly
  when a component that is reached is unknown, and its result is the disabled part of what is reached.
  Enabling a plan closes a configuration under dependencies; disabling a component nobody depends on
  keeps it closed.
\<close>

section \<open>Dependencies\<close>

definition depends :: "comp_config \<Rightarrow> (string \<times> string) set" where
  "depends c = {(a, b). case comp_get c a of Some (e, _) \<Rightarrow> b \<in> set (en_depends e) | None \<Rightarrow> False}"

definition needed :: "comp_config \<Rightarrow> string \<Rightarrow> string set" where
  "needed c n = (depends c)\<^sup>* `` {n}"

lemma needed_self [simp]: "n \<in> needed c n"
  by (simp add: needed_def)

lemma needed_step: "m \<in> needed c n \<Longrightarrow> (m, d) \<in> depends c \<Longrightarrow> d \<in> needed c n"
  by (auto simp: needed_def intro: rtrancl_into_rtrancl)

lemma depends_known: "(a, b) \<in> depends c \<Longrightarrow> a \<in> known_components c"
  by (auto simp: depends_def split: option.splits dest: comp_get_known)

definition to_enable :: "comp_config \<Rightarrow> bool \<Rightarrow> string set \<Rightarrow> string set" where
  "to_enable c isApp ns = {n \<in> ns. \<exists>e. comp_get c n = Some (e, isApp) \<and> \<not> en_enabled e}"

section \<open>The walk\<close>

definition walk_inv :: "comp_config \<Rightarrow> walk_state \<Rightarrow> bool" where
  "walk_inv c st \<longleftrightarrow> set (ws_visited st) \<subseteq> known_components c \<and>
     set (ws_apps st) = to_enable c True (set (ws_visited st)) \<and>
     set (ws_crds st) = to_enable c False (set (ws_visited st))"

lemma walk_inv_enter:
  assumes "walk_inv c st" "comp_get c n = Some (e, i)"
  shows "walk_inv c (walk_enter n e i st)"
  using assms comp_get_known [OF assms(2)]
  by (cases i) (auto simp: walk_inv_def walk_enter_def to_enable_def Let_def)

lemma walk_Inr:
  assumes "walk c stack st = Inr st'" "walk_inv c st"
    and "depends c `` set (ws_visited st) \<subseteq> set (ws_visited st) \<union> set stack"
  shows "walk_inv c st' \<and> set (ws_visited st) \<union> set stack \<subseteq> set (ws_visited st') \<and>
    depends c `` set (ws_visited st') \<subseteq> set (ws_visited st') \<and>
    set (ws_visited st') \<subseteq> set (ws_visited st) \<union> (depends c)\<^sup>* `` set stack"
  using assms
proof (induction c stack st rule: walk.induct)
  case (1 c st)
  then show ?case by auto
next
  case (2 c n stack st)
  show ?case
  proof (cases "n \<in> set (ws_visited st)")
    case True
    then have w: "walk c stack st = Inr st'" using "2.prems"(1) by simp
    have "depends c `` set (ws_visited st) \<subseteq> set (ws_visited st) \<union> set stack" using "2.prems"(3) True by auto
    from "2.IH"(1) [OF True w "2.prems"(2) this] True show ?thesis by auto
  next
    case False
    with "2.prems" obtain e i where g: "comp_get c n = Some (e, i)"
      by (auto split: option.splits)
    let ?st = "walk_enter n e i st"
    have deps: "b \<in> set (en_depends e)" if "(n, b) \<in> depends c" for b
      using that g by (auto simp: depends_def)
    have step: "(n, b) \<in> depends c" if "b \<in> set (en_depends e)" for b
      using that g by (auto simp: depends_def)
    have w: "walk c (en_depends e @ stack) ?st = Inr st'"
      using "2.prems"(1) False g by simp
    have closed: "depends c `` set (ws_visited ?st) \<subseteq> set (ws_visited ?st) \<union> set (en_depends e @ stack)"
      using "2.prems"(3) deps by auto
    note IH = "2.IH"(2) [OF False g refl w walk_inv_enter [OF "2.prems"(2) g] closed]
    have "(depends c)\<^sup>* `` set (en_depends e @ stack) \<subseteq> (depends c)\<^sup>* `` set (n # stack)"
      using step by (auto intro: converse_rtrancl_into_rtrancl)
    with IH show ?thesis by (simp add: Image_def) blast
  qed
qed

lemma walk_Inl:
  assumes "walk c stack st = Inl x"
  shows "\<exists>m \<in> (depends c)\<^sup>* `` set stack. m \<notin> known_components c \<and>
    x = Errorf ''component %q has an unknown dependency'' [S m]"
  using assms
proof (induction c stack st rule: walk.induct)
  case (2 c n stack st)
  show ?case
  proof (cases "n \<in> set (ws_visited st)")
    case True
    with 2 show ?thesis by auto
  next
    case unvisited: False
    show ?thesis
    proof (cases "comp_get c n")
      case None
      with "2.prems" unvisited show ?thesis by (auto simp: comp_get_None_iff)
    next
      case (Some ei)
      obtain e i where ei: "ei = (e, i)" by fastforce
      with Some "2.prems" unvisited have w: "walk c (en_depends e @ stack) (walk_enter n e i st) = Inl x" by simp
      have g: "comp_get c n = Some (e, i)" using Some ei by simp
      from "2.IH"(2) [OF unvisited g refl w] obtain m where
        m: "m \<in> (depends c)\<^sup>* `` set (en_depends e @ stack)" "m \<notin> known_components c"
          "x = Errorf ''component %q has an unknown dependency'' [S m]" by blast
      have "(n, b) \<in> depends c" if "b \<in> set (en_depends e)" for b
        using that g by (auto simp: depends_def)
      with m(1) have "m \<in> (depends c)\<^sup>* `` set (n # stack)"
        by (auto intro: converse_rtrancl_into_rtrancl)
      with m show ?thesis by blast
    qed
  qed
qed simp

lemma closed_Image_rtrancl:
  assumes closed: "r `` A \<subseteq> A" "B \<subseteq> A"
  shows "r\<^sup>* `` B \<subseteq> A"
proof
  fix y assume "y \<in> r\<^sup>* `` B"
  then obtain x where "x \<in> A" "(x, y) \<in> r\<^sup>*" using closed(2) by blast
  from this(2,1) show "y \<in> A" by induction (use closed(1) in auto)
qed

lemma walk_single:
  assumes "walk c [n] \<lparr>ws_visited = [], ws_apps = [], ws_crds = []\<rparr> = Inr st"
  shows "needed c n \<subseteq> known_components c" "set (ws_apps st) = to_enable c True (needed c n)"
    "set (ws_crds st) = to_enable c False (needed c n)"
proof -
  have inv: "walk_inv c \<lparr>ws_visited = [], ws_apps = [], ws_crds = []\<rparr>"
    by (simp add: walk_inv_def to_enable_def)
  note res = walk_Inr [OF assms inv]
  have "needed c n \<subseteq> set (ws_visited st)"
    unfolding needed_def using res by (intro closed_Image_rtrancl) auto
  moreover have "set (ws_visited st) \<subseteq> needed c n" using res by (simp add: needed_def)
  ultimately have v: "set (ws_visited st) = needed c n" by blast
  with res show "needed c n \<subseteq> known_components c" "set (ws_apps st) = to_enable c True (needed c n)"
    "set (ws_crds st) = to_enable c False (needed c n)"
    by (simp_all add: walk_inv_def)
qed

lemma comp_has_iff: "comp_has c n \<longleftrightarrow> n \<in> known_components c"
  by (simp add: comp_has_def known_components_def map_of_eq_None_iff)

lemma sort_remdups_set: "sort (remdups xs) = sorted_list_of_set (set xs)"
  by (simp add: sorted_list_of_set_sort_remdups)

theorem ResolveEnable_Inr_iff:
  "ResolveEnable c n = Inr p \<longleftrightarrow>
     needed c n \<subseteq> known_components c \<and>
     p = \<lparr>es_apps = sorted_list_of_set (to_enable c True (needed c n)),
          es_crds = sorted_list_of_set (to_enable c False (needed c n))\<rparr>"
proof (cases "walk c [n] \<lparr>ws_visited = [], ws_apps = [], ws_crds = []\<rparr>")
  case (Inl x)
  then obtain m where "m \<in> needed c n" "m \<notin> known_components c"
    using walk_Inl [OF Inl] by (auto simp: needed_def)
  with Inl show ?thesis by (auto simp: ResolveEnable_def)
next
  case (Inr st)
  note w = walk_single [OF Inr]
  have "n \<in> known_components c" using w(1) needed_self by blast
  with Inr w show ?thesis by (auto simp: ResolveEnable_def comp_has_iff sort_remdups_set)
qed

section \<open>Enabling and disabling\<close>

definition set_enabled :: "bool \<Rightarrow> string list \<Rightarrow> entry gomap \<Rightarrow> entry gomap" where
  "set_enabled b names entries = map (\<lambda>(n, e). (n, if n \<in> set names then e\<lparr>en_enabled := b\<rparr> else e)) entries"

definition with_enabled :: "string list \<Rightarrow> string list \<Rightarrow> bool \<Rightarrow> comp_config \<Rightarrow> comp_config" where
  "with_enabled apps crds b c =
     c\<lparr>cc_apps := set_enabled b apps (cc_apps c), cc_crds := set_enabled b crds (cc_crds c)\<rparr>"

lemma map_of_set_enabled:
  "map_of (set_enabled b names entries) n =
     map_option (\<lambda>e. if n \<in> set names then e\<lparr>en_enabled := b\<rparr> else e) (map_of entries n)"
  by (induction entries) (auto simp: set_enabled_def)

lemma keys_set_enabled [simp]: "map fst (set_enabled b names entries) = map fst entries"
  by (auto simp: set_enabled_def)

lemma comp_get_with_enabled:
  "comp_get (with_enabled apps crds b c) n =
     map_option (\<lambda>(e, i). (if n \<in> set (if i then apps else crds) then e\<lparr>en_enabled := b\<rparr> else e, i)) (comp_get c n)"
  by (cases "map_of (cc_apps c) n"; cases "map_of (cc_crds c) n")
    (simp_all add: comp_get_def with_enabled_def map_of_set_enabled)

lemma known_with_enabled [simp]: "known_components (with_enabled apps crds b c) = known_components c"
  using comp_get_None_iff [of "with_enabled apps crds b c"] comp_get_None_iff [of c]
  by (auto simp: comp_get_with_enabled set_eq_iff)

lemma depends_with_enabled [simp]: "depends (with_enabled apps crds b c) = depends c"
proof -
  have "(x, y) \<in> depends (with_enabled apps crds b c) \<longleftrightarrow> (x, y) \<in> depends c" for x y
    by (cases "comp_get c x") (auto simp: depends_def comp_get_with_enabled split: if_splits)
  then show ?thesis by auto
qed

lemma needed_with_enabled [simp]: "needed (with_enabled apps crds b c) n = needed c n"
  by (simp add: needed_def)

definition is_enabled :: "comp_config \<Rightarrow> string \<Rightarrow> bool" where
  "is_enabled c n \<longleftrightarrow> (case comp_get c n of Some (e, _) \<Rightarrow> en_enabled e | None \<Rightarrow> False)"

lemma is_enabled_Some: "comp_get c n = Some (e, i) \<Longrightarrow> is_enabled c n \<longleftrightarrow> en_enabled e"
  by (simp add: is_enabled_def)

lemma is_enabled_None: "comp_get c n = None \<Longrightarrow> \<not> is_enabled c n"
  by (simp add: is_enabled_def)

text \<open>Every dependency of an enabled component is enabled.\<close>

definition deps_closed :: "comp_config \<Rightarrow> bool" where
  "deps_closed c \<longleftrightarrow> (\<forall>a b. is_enabled c a \<longrightarrow> (a, b) \<in> depends c \<longrightarrow> is_enabled c b)"

lemma is_enabled_after_enable:
  "is_enabled (with_enabled apps crds True c) n \<longleftrightarrow>
     is_enabled c n \<or> (case comp_get c n of Some (_, i) \<Rightarrow> n \<in> set (if i then apps else crds) | None \<Rightarrow> False)"
  by (cases "comp_get c n") (auto simp: is_enabled_def comp_get_with_enabled split: if_splits)

lemma plan_enables:
  assumes "ResolveEnable c n = Inr p"
  shows "is_enabled (with_enabled (es_apps p) (es_crds p) True c) m \<longleftrightarrow> is_enabled c m \<or> m \<in> needed c n"
proof -
  have p: "needed c n \<subseteq> known_components c"
    "set (es_apps p) = to_enable c True (needed c n)" "set (es_crds p) = to_enable c False (needed c n)"
    using assms finite_subset [of _ "known_components c"]
    by (auto simp: ResolveEnable_Inr_iff to_enable_def intro: finite_subset)
  have known: "m \<in> needed c n \<Longrightarrow> \<exists>e i. comp_get c m = Some (e, i)"
    using p(1) comp_get_None_iff [of c m] by auto
  have "m \<in> set (if i then es_apps p else es_crds p) \<longleftrightarrow> m \<in> to_enable c i (needed c n)" for i
    by (cases i) (simp_all add: p)
  with known show ?thesis
    by (cases "comp_get c m") (auto simp: is_enabled_after_enable to_enable_def is_enabled_Some is_enabled_None)
qed

lemma deps_closed_enable_plan:
  assumes "ResolveEnable c n = Inr p" "deps_closed c"
  shows "deps_closed (with_enabled (es_apps p) (es_crds p) True c)"
  using assms(2) needed_step [of _ c n] by (auto simp: deps_closed_def plan_enables [OF assms(1)])

lemma plan_after_enable:
  assumes "ResolveEnable c n = Inr p"
  shows "ResolveEnable (with_enabled (es_apps p) (es_crds p) True c) n = Inr \<lparr>es_apps = [], es_crds = []\<rparr>"
proof -
  let ?c = "with_enabled (es_apps p) (es_crds p) True c"
  have "m \<in> needed c n \<Longrightarrow> is_enabled ?c m" for m
    using plan_enables [OF assms] by simp
  then have "to_enable ?c i (needed c n) = {}" for i
    using is_enabled_Some [of ?c] by (auto simp: to_enable_def)
  moreover have "needed c n \<subseteq> known_components c" using assms by (simp add: ResolveEnable_Inr_iff)
  ultimately show ?thesis by (simp add: ResolveEnable_Inr_iff)
qed

lemma EnabledDependents_Nil:
  assumes "EnabledDependents c n = []" "comp_get c m = Some (e, i)" "n \<in> set (en_depends e)"
  shows "\<not> en_enabled e"
proof -
  have "set (EnabledDependents c n) = {}" using assms(1) by simp
  then have none: "enabled_on n (cc_apps c) = []" "enabled_on n (cc_crds c) = []"
    by (simp_all add: EnabledDependents_def)
  have "(m, e) \<in> set (cc_apps c) \<union> set (cc_crds c)"
    using assms(2) by (auto simp: comp_get_def split: option.splits dest: map_of_SomeD)
  with none assms(3) show ?thesis by (auto simp: enabled_on_def filter_empty_conv)
qed

lemma deps_closed_disable:
  assumes "deps_closed c" "EnabledDependents c n = []" "comp_get c n = Some (e, True)"
  shows "deps_closed (with_enabled [n] [] False c)"
proof -
  have other: "is_enabled (with_enabled [n] [] False c) m \<longleftrightarrow> is_enabled c m \<and> m \<noteq> n" for m
    using assms(3) by (cases "comp_get c m") (auto simp: is_enabled_def comp_get_with_enabled split: if_splits)
  have "\<not> (is_enabled c a \<and> (a, n) \<in> depends c)" for a
    using EnabledDependents_Nil [OF assms(2)] by (auto simp: is_enabled_def depends_def split: option.splits)
  then show ?thesis using assms(1) by (auto simp: deps_closed_def other)
qed

end
