(* ===== verification/ComponentsValues.thy ===== *)
theory ComponentsValues
  imports ComponentsFacts
begin

text \<open>
  The patch of \<open>buildEnabledPatch\<close> against the values that are read back: merged into values whose keys
  have one spelling, it enables or disables exactly the named components of the configuration that
  \<open>ParseValues\<close> reads from them. The locale \<open>helm_values\<close> is the contract of the release with the commands.
\<close>

section \<open>Decoding after one field was replaced\<close>

definition one_spelling :: "string \<Rightarrow> (string \<times> json) list \<Rightarrow> bool" where
  "one_spelling name kvs \<longleftrightarrow> gomap_ok kvs \<and> (\<forall>k \<in> fst ` set kvs. to_lower k = name \<longrightarrow> k = name)"

text \<open>A decoder that neither reads nor writes the field with the given selector and update.\<close>

definition keeps :: "('a \<Rightarrow> 'b) \<Rightarrow> (('b \<Rightarrow> 'b) \<Rightarrow> 'a \<Rightarrow> 'a) \<Rightarrow> 'a decoder \<Rightarrow> bool" where
  "keeps get upd d \<longleftrightarrow>
     (\<forall>v acc x. d v (upd (\<lambda>_. x) acc) = map_option (upd (\<lambda>_. x)) (d v acc)) \<and>
     (\<forall>v acc r. d v acc = Some r \<longrightarrow> get r = get acc)"

lemma keepsD:
  assumes "keeps get upd d"
  shows "d v (upd (\<lambda>_. x) acc) = map_option (upd (\<lambda>_. x)) (d v acc)"
    and "d v acc = Some r \<Longrightarrow> get r = get acc"
  using assms by (auto simp: keeps_def)

lemma keeps_fields_upd:
  assumes "\<forall>k \<in> fst ` set kvs. \<forall>d. map_of fs (to_lower k) = Some d \<longrightarrow> keeps get upd d"
  shows "decode_fields fs kvs (upd (\<lambda>_. x) acc) = map_option (upd (\<lambda>_. x)) (decode_fields fs kvs acc)"
  using assms
proof (induction kvs arbitrary: acc)
  case (Cons kv kvs)
  show ?case
  proof (cases "map_of fs (to_lower (fst kv))")
    case None
    with Cons show ?thesis by (cases kv) simp
  next
    case (Some d)
    then have "keeps get upd d" using Cons.prems by simp
    from keepsD(1) [OF this] Some Cons show ?thesis
      by (cases kv; cases "d (snd kv) acc") simp_all
  qed
qed simp

lemma keeps_fields_get:
  assumes "\<forall>k \<in> fst ` set kvs. \<forall>d. map_of fs (to_lower k) = Some d \<longrightarrow> keeps get upd d"
    and "decode_fields fs kvs acc = Some r"
  shows "get r = get acc"
  using assms
proof (induction kvs arbitrary: acc)
  case (Cons kv kvs)
  show ?case
  proof (cases "map_of fs (to_lower (fst kv))")
    case None
    with Cons show ?thesis by (cases kv) simp
  next
    case (Some d)
    then have "keeps get upd d" using Cons.prems by simp
    from keepsD(2) [OF this, of "snd kv" acc] Some Cons show ?thesis
      by (cases kv; cases "d (snd kv) acc") simp_all
  qed
qed simp

lemma keeps_struct:
  assumes "\<forall>(k, d) \<in> set fs. keeps get upd d"
  shows "keeps get upd (decode_struct fs)"
proof -
  have k: "\<forall>k \<in> fst ` set kvs. \<forall>d. map_of fs (to_lower k) = Some d \<longrightarrow> keeps get upd d" for kvs :: "(string \<times> json) list"
    using assms by (auto dest: map_of_SomeD)
  show ?thesis
    unfolding keeps_def decode_struct_def
    using keeps_fields_upd [OF k] keeps_fields_get [OF k] by (auto split: json.splits)
qed

lemma keeps_field_of:
  assumes "\<And>f g a. upd f (upd' g a) = upd' g (upd f a)" "\<And>f a. get (upd' f a) = get a" "\<And>f a. get' (upd f a) = get' a"
  shows "keeps get upd (field_of get' upd' d)"
  using assms by (auto simp: keeps_def field_of_def option.map_comp comp_def)

text \<open>Replacing or adding the one field that a decoder with this selector and update reads.\<close>

lemma split_at_key:
  assumes "gomap_ok kvs" "map_of kvs k = Some v"
  obtains pre post where "kvs = pre @ (k, v) # post" "k \<notin> fst ` set pre" "k \<notin> fst ` set post"
proof -
  from assms(2) obtain pre post where s: "kvs = pre @ (k, v) # post" by (meson map_of_SomeD split_list)
  with assms(1) have "k \<notin> fst ` set pre" "k \<notin> fst ` set post" by (auto simp: gomap_ok_def)
  with s that show thesis by blast
qed

lemma put_key_append: "k \<notin> fst ` set pre \<Longrightarrow> put_key k v (pre @ m) = pre @ put_key k v m"
  by (induction pre) auto

lemma put_key_new: "k \<notin> fst ` set m \<Longrightarrow> put_key k v m = m @ [(k, v)]"
  using put_key_append [of k m v "[]"] by simp

lemma other_keys_keep:
  assumes spell: "one_spelling name kvs"
    and others: "\<forall>(k, d') \<in> set fs. k \<noteq> name \<longrightarrow> keeps get upd d'"
    and l: "set l \<subseteq> set kvs" "name \<notin> fst ` set l"
  shows "\<forall>k \<in> fst ` set l. \<forall>d'. map_of fs (to_lower k) = Some d' \<longrightarrow> keeps get upd d'"
proof (intro ballI allI impI)
  fix k d' assume k: "k \<in> fst ` set l" "map_of fs (to_lower k) = Some d'"
  have "k \<in> fst ` set kvs" using k(1) l(1) by auto
  then have "to_lower k = name \<Longrightarrow> k = name" using spell unfolding one_spelling_def by blast
  then have "to_lower k \<noteq> name" using k(1) l(2) by metis
  with others k(2) show "keeps get upd d'" by (auto dest: map_of_SomeD)
qed

lemma decode_fields_replace:
  assumes spell: "one_spelling name kvs"
    and d: "map_of fs name = Some (field_of get upd d)" "to_lower name = name"
    and others: "\<forall>(k, d') \<in> set fs. k \<noteq> name \<longrightarrow> keeps get upd d'"
    and lens: "\<And>x a. get (upd (\<lambda>_. x) a) = x" "\<And>x y a. upd (\<lambda>_. x) (upd (\<lambda>_. y) a) = upd (\<lambda>_. x) a"
    and old: "decode_fields fs kvs acc = Some r"
    and new: "d v' (get acc) = Some x'" "map_of kvs name = None \<or> map_of kvs name = Some v"
  shows "decode_fields fs (put_key name v' kvs) acc = Some (upd (\<lambda>_. x') r)"
proof -
  note keep = other_keys_keep [OF spell others]
  show ?thesis
  proof (cases "map_of kvs name")
    case None
    then have notin: "name \<notin> fst ` set kvs" by (simp add: map_of_eq_None_iff)
    have "get r = get acc" by (rule keeps_fields_get [OF keep [OF order_refl notin] old])
    with None d old new notin show ?thesis
      by (simp add: put_key_new decode_fields_append field_of_def)
  next
    case (Some w)
    with new have v: "map_of kvs name = Some v" by simp
    from spell have "gomap_ok kvs" by (simp add: one_spelling_def)
    from split_at_key [OF this v] obtain pre post where
      kvs: "kvs = pre @ (name, v) # post" and pre: "name \<notin> fst ` set pre" and post: "name \<notin> fst ` set post" by blast
    from old obtain r1 where r1: "decode_fields fs pre acc = Some r1"
      by (auto simp: kvs decode_fields_append split: bind_splits)
    have g: "get r1 = get acc" by (rule keeps_fields_get [OF keep r1]) (use kvs pre in auto)
    have tail: "decode_fields fs post (upd (\<lambda>_. y) r1) = map_option (upd (\<lambda>_. y)) (decode_fields fs post r1)" for y
      by (rule keeps_fields_upd [OF keep]) (use kvs post in auto)
    from old r1 d obtain x r2 where "d v (get r1) = Some x" "decode_fields fs post r1 = Some r2" "r = upd (\<lambda>_. x) r2"
      by (auto simp: kvs decode_fields_append field_of_def tail split: bind_splits)
    then show ?thesis
      using r1 d new g pre lens by (simp add: kvs put_key_append decode_fields_append field_of_def tail)
  qed
qed

lemma decode_fields_read:
  assumes spell: "one_spelling name kvs"
    and d: "map_of fs name = Some (field_of get upd d)" "to_lower name = name"
    and others: "\<forall>(k, d') \<in> set fs. k \<noteq> name \<longrightarrow> keeps get upd d'"
    and lens: "\<And>x a. get (upd (\<lambda>_. x) a) = x"
    and old: "decode_fields fs kvs acc = Some r"
  shows "case map_of kvs name of None \<Rightarrow> get r = get acc | Some v \<Rightarrow> d v (get acc) = Some (get r)"
proof (cases "map_of kvs name")
  case None
  then have "name \<notin> fst ` set kvs" by (simp add: map_of_eq_None_iff)
  from keeps_fields_get [OF other_keys_keep [OF spell others order_refl this] old] None show ?thesis by simp
next
  case (Some v)
  from spell have "gomap_ok kvs" by (simp add: one_spelling_def)
  from split_at_key [OF this Some] obtain pre post where
    kvs: "kvs = pre @ (name, v) # post" and pre: "name \<notin> fst ` set pre" and post: "name \<notin> fst ` set post" by blast
  from old obtain r1 where r1: "decode_fields fs pre acc = Some r1"
    by (auto simp: kvs decode_fields_append split: bind_splits)
  have g: "get r1 = get acc" by (rule keeps_fields_get [OF other_keys_keep [OF spell others _ pre] r1]) (use kvs in auto)
  from old r1 d obtain x where x: "d v (get r1) = Some x" "decode_fields fs post (upd (\<lambda>_. x) r1) = Some r"
    by (auto simp: kvs decode_fields_append field_of_def split: bind_splits)
  have "get r = get (upd (\<lambda>_. x) r1)"
    by (rule keeps_fields_get [OF other_keys_keep [OF spell others _ post] x(2)]) (use kvs in auto)
  with x(1) g lens Some show ?thesis by simp
qed

lemma decode_single:
  assumes "one_spelling name kvs" "map_of kvs name = Some v" "to_lower name = name"
  shows "decode_fields [(name, d)] kvs acc = d v acc"
proof -
  have skip: "decode_fields [(name, d)] l a = Some a" if "set l \<subseteq> set kvs" "name \<notin> fst ` set l" for l a
    using that assms(1)
  proof (induction l arbitrary: a)
    case (Cons kv l)
    then have "to_lower (fst kv) \<noteq> name" by (auto simp: one_spelling_def)
    with Cons show ?case by (cases kv) auto
  qed simp
  from assms(1) have "gomap_ok kvs" by (simp add: one_spelling_def)
  from split_at_key [OF this assms(2)] obtain pre post where
    kvs: "kvs = pre @ (name, v) # post" "name \<notin> fst ` set pre" "name \<notin> fst ` set post" by blast
  then have "set pre \<subseteq> set kvs" "set post \<subseteq> set kvs" by auto
  then show ?thesis
    using skip [of pre acc] skip [of post] kvs assms(3) by (cases "d v acc") (simp_all add: decode_fields_append)
qed

lemma one_spelling_put_key: "one_spelling name kvs \<Longrightarrow> to_lower k \<noteq> name \<or> k = name \<Longrightarrow> one_spelling name (put_key k v kvs)"
  by (auto simp: one_spelling_def)

section \<open>The patched components\<close>

lemma json_obj_all: "(case e of JObj kvs \<Rightarrow> P kvs | _ \<Rightarrow> True) \<longleftrightarrow> (\<forall>kvs. e = JObj kvs \<longrightarrow> P kvs)"
  by (cases e) simp_all

lemma some_obj_ex: "(case v of Some (JObj kvs) \<Rightarrow> P kvs | _ \<Rightarrow> False) \<longleftrightarrow> (\<exists>kvs. v = Some (JObj kvs) \<and> P kvs)"
proof (cases v)
  case (Some j)
  then show ?thesis by (cases j) simp_all
qed simp

definition plain_entries :: "json option \<Rightarrow> bool" where
  "plain_entries v \<longleftrightarrow> (case v of
       None \<Rightarrow> True
     | Some (JObj m) \<Rightarrow> gomap_ok m \<and> (\<forall>(n, e) \<in> set m. case e of JObj kvs \<Rightarrow> one_spelling ''enabled'' kvs | _ \<Rightarrow> True)
     | Some _ \<Rightarrow> False)"

lemma plain_entries_iff:
  "plain_entries v \<longleftrightarrow> (case v of
       None \<Rightarrow> True
     | Some (JObj m) \<Rightarrow> gomap_ok m \<and> (\<forall>(n, e) \<in> set m. \<forall>kvs. e = JObj kvs \<longrightarrow> one_spelling ''enabled'' kvs)
     | Some _ \<Rightarrow> False)"
  unfolding plain_entries_def json_obj_all ..

definition plain_components :: "fields \<Rightarrow> bool" where
  "plain_components cm \<longleftrightarrow> one_spelling ''apps'' cm \<and> one_spelling ''crds'' cm \<and>
     plain_entries (map_of cm ''apps'') \<and> plain_entries (map_of cm ''crds'')"

definition plain_values :: "fields \<Rightarrow> bool" where
  "plain_values vals \<longleftrightarrow> one_spelling ''platform'' vals \<and>
     (case map_of vals ''platform'' of
        Some (JObj pf) \<Rightarrow> one_spelling ''components'' pf \<and>
          (case map_of pf ''components'' of Some (JObj cm) \<Rightarrow> plain_components cm | _ \<Rightarrow> False)
      | _ \<Rightarrow> False)"

lemma plain_values_iff:
  "plain_values vals \<longleftrightarrow> one_spelling ''platform'' vals \<and>
     (\<exists>pf cm. map_of vals ''platform'' = Some (JObj pf) \<and> one_spelling ''components'' pf \<and>
        map_of pf ''components'' = Some (JObj cm) \<and> plain_components cm)"
  unfolding plain_values_def some_obj_ex by auto

lemma low_names [simp]:
  "to_lower ''platform'' = ''platform''" "to_lower ''components'' = ''components''"
  "to_lower ''apps'' = ''apps''" "to_lower ''crds'' = ''crds''" "to_lower ''enabled'' = ''enabled''"
  by code_simp+

lemma ParseValues_plain:
  assumes "one_spelling ''platform'' vals" "map_of vals ''platform'' = Some (JObj pf)"
    and "one_spelling ''components'' pf" "map_of pf ''components'' = Some (JObj cm)"
  shows "ParseValues (Some (JObj vals)) = Inr c \<longleftrightarrow> decode_components (JObj cm) no_components = Some c"
proof -
  have "decode_platform (JObj vals) None = map_option Some (decode_components (JObj cm) no_components)"
    by (simp add: decode_platform_def decode_struct_def decode_pointer_def
        decode_single [OF assms(1,2)] decode_single [OF assms(3,4)])
  then show ?thesis by (auto simp: ParseValues_def split: option.splits)
qed

lemma deepMerge_one: "deepMerge m [(k, v)] = put_key k (merged (map_of m k) v) m"
  by (simp add: deepMerge_Cons)

text \<open>One entry.\<close>

lemma keeps_enabled:
  "\<forall>(k, d) \<in> set [(''namespace'', field_of en_namespace en_namespace_update decode_str),
      (''core'', field_of en_core en_core_update decode_bool),
      (''dependson'', field_of en_depends en_depends_update (decode_slice decode_str []))].
    keeps en_enabled en_enabled_update d"
  by (auto intro!: keeps_field_of)

lemma decode_entry_enabled:
  assumes "decode_entry v no_entry = Some e" "\<forall>kvs. v = JObj kvs \<longrightarrow> one_spelling ''enabled'' kvs"
  shows "decode_entry (merged (Some v) (JObj [(''enabled'', JBool b)])) no_entry = Some (e\<lparr>en_enabled := b\<rparr>)"
proof (cases v)
  case (JObj kvs)
  from assms(1) JObj have old: "decode_fields [(''enabled'', field_of en_enabled en_enabled_update decode_bool),
      (''namespace'', field_of en_namespace en_namespace_update decode_str),
      (''core'', field_of en_core en_core_update decode_bool),
      (''dependson'', field_of en_depends en_depends_update (decode_slice decode_str []))] kvs no_entry = Some e"
    by (simp add: decode_entry_def decode_struct_def)
  obtain w where w: "map_of kvs ''enabled'' = None \<or> map_of kvs ''enabled'' = Some w" by (cases "map_of kvs ''enabled''") auto
  have "merged (Some v) (JObj [(''enabled'', JBool b)]) = JObj (put_key ''enabled'' (JBool b) kvs)"
    by (simp add: JObj deepMerge_one)
  with decode_fields_replace [OF _ _ _ _ _ _ old _ w, where x' = b and v' = "JBool b" and get = en_enabled
      and upd = en_enabled_update and d = decode_bool] assms(2) JObj keeps_enabled
  show ?thesis by (simp add: decode_entry_def decode_struct_def decode_bool_def)
next
  case JNull
  with assms(1) show ?thesis
    by (simp add: merged_def decode_entry_def decode_struct_def field_of_def decode_bool_def no_entry_def)
qed (use assms(1) in \<open>simp_all add: decode_entry_def decode_struct_def\<close>)

text \<open>The map of a section.\<close>

lemma enabled_json_map:
  "gomap_ok (enabled_json b names) \<and>
   map_of (enabled_json b names) n = (if n \<in> set names then Some (JObj [(''enabled'', JBool b)]) else None)"
proof -
  define step where "step = (\<lambda>name (m :: json gomap). put_key name (JObj [(''enabled'', JBool b)]) m)"
  have "gomap_ok m \<Longrightarrow> gomap_ok (fold step names m) \<and>
    map_of (fold step names m) n = (if n \<in> set names then Some (JObj [(''enabled'', JBool b)]) else map_of m n)" for m
    by (induction names arbitrary: m) (auto simp: step_def)
  from this [of "[]"] show ?thesis by (simp add: enabled_json_def step_def)
qed

lemma decode_section:
  assumes "plain_entries (Some (JObj m))" "decode_gomap decode_entry no_entry (JObj m) [] = Some es" "set names \<subseteq> fst ` set es"
  shows "\<exists>es'. decode_gomap decode_entry no_entry (JObj (deepMerge m (enabled_json b names))) [] = Some es' \<and>
    map_of es' = map_of (set_enabled b names es) \<and> gomap_ok es'"
proof -
  let ?m = "deepMerge m (enabled_json b names)"
  have ok: "gomap_ok m" and spell: "(n, JObj kvs) \<in> set m \<Longrightarrow> one_spelling ''enabled'' kvs" for n kvs
    using assms(1) by (auto simp: plain_entries_iff)
  have dec: "decode_entries decode_entry no_entry m [] = Some es"
    using assms(2) by (simp add: decode_gomap_def)
  note look = decode_entries_lookup [OF dec ok [unfolded gomap_ok_def]]
  have okm: "gomap_ok ?m" using keys_deepMerge_distinct ok by (simp add: gomap_ok_def)
  have merged_at: "map_of ?m n = (if n \<in> set names then Some (merged (map_of m n) (JObj [(''enabled'', JBool b)])) else map_of m n)" for n
    using enabled_json_map [of b names n] by (simp add: map_of_deepMerge gomap_ok_def)
  have entry: "decode_entry v no_entry = map_of (set_enabled b names es) n" if "map_of ?m n = Some v" for n v
  proof (cases "n \<in> set names")
    case True
    then obtain e where e: "map_of es n = Some e"
      using assms(3) by (metis map_of_eq_None_iff not_Some_eq subsetD)
    then obtain w where w: "map_of m n = Some w" "decode_entry w no_entry = Some e"
      using look [of n] by (auto split: option.splits)
    moreover have "\<forall>kvs. w = JObj kvs \<longrightarrow> one_spelling ''enabled'' kvs"
      using spell w(1) by (auto dest: map_of_SomeD)
    moreover have "v = merged (Some w) (JObj [(''enabled'', JBool b)])"
      using that merged_at [of n] True w(1) by simp
    ultimately have "decode_entry v no_entry = Some (e\<lparr>en_enabled := b\<rparr>)"
      by (simp only: decode_entry_enabled)
    with True e show ?thesis by (simp add: map_of_set_enabled)
  next
    case False
    with that merged_at [of n] look [of n] show ?thesis by (simp add: map_of_set_enabled option.map_ident)
  qed
  have "decode_entry v no_entry \<noteq> None" if nv: "(n, v) \<in> set ?m" for n v
  proof
    assume none: "decode_entry v no_entry = None"
    have v: "map_of ?m n = Some v" using nv okm by (simp add: gomap_ok_map_of)
    from entry [OF v] none have esn: "map_of es n = None" by (simp add: map_of_set_enabled)
    then have "n \<notin> set names" using assms(3) by (auto simp: map_of_eq_None_iff)
    with v merged_at [of n] have mn: "map_of m n = Some v" by simp
    from decode_entries_value [OF dec map_of_SomeD [OF mn]] none show False by simp
  qed
  then obtain es' where es': "decode_entries decode_entry no_entry ?m [] = Some es'"
    using decode_entries_total [of ?m decode_entry no_entry "[]"] by blast
  have "map_of es' n = map_of (set_enabled b names es) n" for n
  proof (cases "map_of ?m n")
    case None
    with merged_at [of n] have "map_of m n = None" "n \<notin> set names" by (auto split: if_splits)
    with None decode_entries_lookup [OF es' okm [unfolded gomap_ok_def], of n] look [of n]
    show ?thesis by (simp add: map_of_set_enabled)
  next
    case (Some v)
    with entry [OF Some] decode_entries_lookup [OF es' okm [unfolded gomap_ok_def], of n]
    show ?thesis by simp
  qed
  with es' decode_entries_ok [OF es'] show ?thesis by (auto simp: decode_gomap_def)
qed

lemma plain_section:
  assumes "plain_entries (Some (JObj m))"
  shows "plain_entries (Some (JObj (deepMerge m (enabled_json b names))))"
proof -
  let ?m = "deepMerge m (enabled_json b names)"
  have okm: "gomap_ok ?m" using assms keys_deepMerge_distinct by (auto simp: plain_entries_iff gomap_ok_def)
  have "one_spelling ''enabled'' kvs" if "(n, JObj kvs) \<in> set ?m" for n kvs
  proof -
    have v: "map_of ?m n = Some (JObj kvs)" using that okm by (simp add: gomap_ok_map_of)
    have spell: "map_of m n = Some (JObj w) \<Longrightarrow> one_spelling ''enabled'' w" for w
      using assms by (auto simp: plain_entries_iff dest!: map_of_SomeD)
    show ?thesis
    proof (cases "n \<in> set names")
      case True
      with v enabled_json_map [of b names n] have m: "merged (map_of m n) (JObj [(''enabled'', JBool b)]) = JObj kvs"
        by (simp add: map_of_deepMerge gomap_ok_def)
      show ?thesis
      proof (cases "\<exists>w. map_of m n = Some (JObj w)")
        case True
        then obtain w where w: "map_of m n = Some (JObj w)" by blast
        with m have "kvs = put_key ''enabled'' (JBool b) w" by (simp add: deepMerge_one)
        with one_spelling_put_key [OF spell [OF w]] show ?thesis by simp
      next
        case False
        with m have "kvs = [(''enabled'', JBool b)]" by (auto simp: merged_def split: option.splits json.splits)
        then show ?thesis by (simp add: one_spelling_def)
      qed
    next
      case False
      with v enabled_json_map [of b names n] have "map_of m n = Some (JObj kvs)"
        by (simp add: map_of_deepMerge gomap_ok_def)
      then show ?thesis by (rule spell)
    qed
  qed
  with okm show ?thesis by (auto simp: plain_entries_iff)
qed

text \<open>The two sections are separate fields of the components object.\<close>

lemma keeps_operator: "keeps cc_apps cc_apps_update decode_operator_config"
  "keeps cc_crds cc_crds_update decode_operator_config"
  unfolding decode_operator_config_def by (auto intro!: keeps_struct keeps_field_of)

lemma component_fields:
  "decode_components = decode_struct
     [(''apps'', field_of cc_apps cc_apps_update (decode_gomap decode_entry no_entry)),
      (''crds'', field_of cc_crds cc_crds_update (decode_gomap decode_entry no_entry)),
      (''values'', decode_struct [(''podplane-operator'', decode_struct [(''podplane'', decode_struct
         [(''operator'', decode_struct [(''config'', decode_operator_config)])])])])]"
  by (simp add: decode_components_def)

definition merge_section :: "string \<Rightarrow> bool \<Rightarrow> string list \<Rightarrow> fields \<Rightarrow> fields" where
  "merge_section key b names cm =
     (if names = [] then cm else put_key key (merged (map_of cm key) (JObj (enabled_json b names))) cm)"

lemma section_present:
  assumes "names \<noteq> []" "set names \<subseteq> fst ` set es" "plain_entries (map_of cm key)"
    and "case map_of cm key of None \<Rightarrow> es = [] | Some v \<Rightarrow> decode_gomap decode_entry no_entry v [] = Some es"
  obtains m where "map_of cm key = Some (JObj m)"
  using assms by (cases "map_of cm key") (auto simp: plain_entries_iff split: json.splits)

abbreviation component_decoders :: "(string \<times> comp_config decoder) list" where
  "component_decoders \<equiv>
     [(''apps'', field_of cc_apps cc_apps_update (decode_gomap decode_entry no_entry)),
      (''crds'', field_of cc_crds cc_crds_update (decode_gomap decode_entry no_entry)),
      (''values'', decode_struct [(''podplane-operator'', decode_struct [(''podplane'', decode_struct
         [(''operator'', decode_struct [(''config'', decode_operator_config)])])])])]"

lemma merge_section_decodes:
  assumes key: "map_of component_decoders key = Some (field_of get upd (decode_gomap decode_entry no_entry))"
      "to_lower key = key" "get no_components = []"
    and others: "\<forall>(k, d) \<in> set component_decoders. k \<noteq> key \<longrightarrow> keeps get upd d"
    and lens: "\<And>x a. get (upd (\<lambda>_. x) a) = x" "\<And>x y a. upd (\<lambda>_. x) (upd (\<lambda>_. y) a) = upd (\<lambda>_. x) a"
      "\<And>a. upd (\<lambda>_. get a) a = a"
    and plain: "one_spelling key cm" "plain_entries (map_of cm key)"
    and old: "decode_fields component_decoders cm no_components = Some c"
    and names: "set names \<subseteq> fst ` set (get c)"
  shows "\<exists>es. decode_fields component_decoders (merge_section key b names cm) no_components = Some (upd (\<lambda>_. es) c) \<and>
    map_of es = map_of (set_enabled b names (get c)) \<and> plain_entries (map_of (merge_section key b names cm) key)"
proof (cases "names = []")
  case True
  then show ?thesis
    using plain old lens by (intro exI [of _ "get c"]) (simp add: merge_section_def set_enabled_def case_prod_beta)
next
  case False
  have read: "case map_of cm key of None \<Rightarrow> get c = [] | Some v \<Rightarrow> decode_gomap decode_entry no_entry v [] = Some (get c)"
    using decode_fields_read [OF plain(1) key(1,2) others lens(1) old] key(3) by (simp cong: option.case_cong)
  from section_present [OF False names plain(2) read] obtain m where m: "map_of cm key = Some (JObj m)" by blast
  have ents: "plain_entries (Some (JObj m))" and dm: "decode_gomap decode_entry no_entry (JObj m) [] = Some (get c)"
    using plain(2) read by (simp_all add: m)
  from decode_section [OF ents dm names, of b] obtain es where
    es: "decode_gomap decode_entry no_entry (JObj (deepMerge m (enabled_json b names))) [] = Some es"
      "map_of es = map_of (set_enabled b names (get c))" by blast
  have sec: "merge_section key b names cm = put_key key (JObj (deepMerge m (enabled_json b names))) cm"
    using False m by (simp add: merge_section_def)
  have "decode_fields component_decoders (merge_section key b names cm) no_components = Some (upd (\<lambda>_. es) c)"
    unfolding sec
    by (rule decode_fields_replace [of key cm component_decoders get upd "decode_gomap decode_entry no_entry"
          no_components c _ es "JObj m"]) (use plain(1) key others lens old es(1) m in simp_all)
  with es(2) plain_section [OF ents] show ?thesis by (auto simp: sec)
qed

lemma decode_components_fields: "decode_components (JObj cm) = decode_fields component_decoders cm"
  by (simp add: decode_components_def decode_struct_def fun_eq_iff)

lemma one_spelling_merge_section:
  "one_spelling name cm \<Longrightarrow> to_lower key \<noteq> name \<or> key = name \<Longrightarrow> one_spelling name (merge_section key b names cm)"
  by (simp add: merge_section_def one_spelling_put_key)

lemma merge_section_other: "key \<noteq> name \<Longrightarrow> map_of (merge_section key b names cm) name = map_of cm name"
  by (simp add: merge_section_def)

lemma keeps_other_sections:
  "\<forall>(k, d) \<in> set component_decoders. k \<noteq> ''apps'' \<longrightarrow> keeps cc_apps cc_apps_update d"
  "\<forall>(k, d) \<in> set component_decoders. k \<noteq> ''crds'' \<longrightarrow> keeps cc_crds cc_crds_update d"
  using keeps_operator by (auto intro!: keeps_struct keeps_field_of)

section \<open>The patched values\<close>

text \<open>Configurations that the commands cannot tell apart.\<close>

definition cfg_equiv :: "comp_config \<Rightarrow> comp_config \<Rightarrow> bool" where
  "cfg_equiv c c' \<longleftrightarrow> map_of (cc_apps c) = map_of (cc_apps c') \<and> map_of (cc_crds c) = map_of (cc_crds c') \<and>
     cc_cluster_id c = cc_cluster_id c' \<and> cc_secrets c = cc_secrets c'"

text \<open>The part of a patch below \<open>spec.values\<close>.\<close>

definition patch_values :: "fields \<Rightarrow> fields" where
  "patch_values p = (case value_at [''spec'', ''values''] (JObj p) of Some (JObj f) \<Rightarrow> f | _ \<Rightarrow> [])"

lemma merge_patch:
  assumes "map_of vals ''platform'' = Some (JObj pf)" "map_of pf ''components'' = Some (JObj cm)"
  shows "deepMerge vals (patch_values (buildEnabledPatch apps crds b)) =
    put_key ''platform'' (JObj (put_key ''components''
      (JObj (merge_section ''crds'' b crds (merge_section ''apps'' b apps cm))) pf)) vals"
  using assms
  by (simp add: patch_values_def buildEnabledPatch_def Let_def deepMerge_one merge_section_def deepMerge_Cons)

lemma patch_enables:
  assumes read: "ParseValues (Some (JObj vals)) = Inr c" and plain: "plain_values vals"
    and names: "set apps \<subseteq> fst ` set (cc_apps c)" "set crds \<subseteq> fst ` set (cc_crds c)"
  shows "\<exists>c'. ParseValues (Some (JObj (deepMerge vals (patch_values (buildEnabledPatch apps crds b))))) = Inr c' \<and>
    cfg_equiv c' (with_enabled apps crds b c) \<and>
    plain_values (deepMerge vals (patch_values (buildEnabledPatch apps crds b)))"
proof -
  from plain obtain pf cm where
    v: "one_spelling ''platform'' vals" "map_of vals ''platform'' = Some (JObj pf)"
      "one_spelling ''components'' pf" "map_of pf ''components'' = Some (JObj cm)"
    and cm: "one_spelling ''apps'' cm" "one_spelling ''crds'' cm"
      "plain_entries (map_of cm ''apps'')" "plain_entries (map_of cm ''crds'')"
    by (auto simp: plain_values_iff plain_components_def)
  have old: "decode_fields component_decoders cm no_components = Some c"
    using read by (simp add: ParseValues_plain [OF v] decode_components_fields)
  obtain es where es: "decode_fields component_decoders (merge_section ''apps'' b apps cm) no_components = Some (c\<lparr>cc_apps := es\<rparr>)"
    "map_of es = map_of (set_enabled b apps (cc_apps c))" "plain_entries (map_of (merge_section ''apps'' b apps cm) ''apps'')"
    using merge_section_decodes [OF _ _ _ keeps_other_sections(1) _ _ _ cm(1,3) old names(1), of b]
    by (auto simp: no_components_def)
  define cm1 where "cm1 = merge_section ''apps'' b apps cm"
  have cm1: "one_spelling ''apps'' cm1" "one_spelling ''crds'' cm1" "plain_entries (map_of cm1 ''crds'')"
    using cm by (simp_all add: cm1_def one_spelling_merge_section merge_section_other)
  obtain fs where fs: "decode_fields component_decoders (merge_section ''crds'' b crds cm1) no_components =
      Some (c\<lparr>cc_apps := es, cc_crds := fs\<rparr>)"
    "map_of fs = map_of (set_enabled b crds (cc_crds c))" "plain_entries (map_of (merge_section ''crds'' b crds cm1) ''crds'')"
    using merge_section_decodes [OF _ _ _ keeps_other_sections(2) _ _ _ cm1(2,3) es(1) [folded cm1_def], of crds b] names(2)
    by (auto simp: no_components_def)
  define cm2 where "cm2 = merge_section ''crds'' b crds cm1"
  have plain2: "plain_components cm2"
    using cm1 fs(3) es(3) [folded cm1_def]
    by (simp add: plain_components_def cm2_def one_spelling_merge_section merge_section_other)
  let ?vals = "put_key ''platform'' (JObj (put_key ''components'' (JObj cm2) pf)) vals"
  have v2: "one_spelling ''platform'' ?vals" "map_of ?vals ''platform'' = Some (JObj (put_key ''components'' (JObj cm2) pf))"
    "one_spelling ''components'' (put_key ''components'' (JObj cm2) pf)"
    "map_of (put_key ''components'' (JObj cm2) pf) ''components'' = Some (JObj cm2)"
    using v by (simp_all add: one_spelling_put_key)
  have "ParseValues (Some (JObj ?vals)) = Inr (c\<lparr>cc_apps := es, cc_crds := fs\<rparr>)"
    unfolding ParseValues_plain [OF v2] decode_components_fields using fs(1) by (simp add: cm2_def)
  moreover have "cfg_equiv (c\<lparr>cc_apps := es, cc_crds := fs\<rparr>) (with_enabled apps crds b c)"
    by (simp add: cfg_equiv_def with_enabled_def es(2) fs(2))
  moreover have "plain_values ?vals" using v2 plain2 by (auto simp: plain_values_iff)
  ultimately show ?thesis by (simp add: merge_patch [OF v(2,4)] cm1_def cm2_def)
qed

end
