(* ===== verification/ComponentsCmd.thy ===== *)
theory ComponentsCmd
  imports ComponentsValues
begin

text \<open>
  The commands \<open>podplane install\<close> and \<open>podplane uninstall\<close> (\<open>internal/cmd/install.go\<close>,
  \<open>uninstall.go\<close>) over \<open>internal/components\<close>. Everything they do to the outside is an event; the log of a run
  holds the events in order, and the environment decides for each event, from the log before it,
  whether it fails. The values of the release are the state that a successful patch changes.
\<close>

section \<open>The outside\<close>

datatype ievent =
    Asked string "string list"
  | Patched fields
  | Watched "helm_ref list"
  | WaitedForSecretsAPI
  | EnsuredSecret string provision

record 'v iworld =
  iw_values :: 'v
  iw_log :: "ievent list"

record 'v ienv =
  ie_load :: "cluster_config result"
  ie_parsers :: parsers
  ie_context :: "unit result"
  ie_read :: "'v \<Rightarrow> comp_config result"
  ie_patch :: "'v \<Rightarrow> fields \<Rightarrow> 'v"
  ie_auto :: bool
  ie_answer :: "bool result"
  ie_fault :: "ievent list \<Rightarrow> ievent \<Rightarrow> gerror"

definition perform :: "'v ienv \<Rightarrow> ievent \<Rightarrow> ('v iworld, unit) op" where
  "perform env ev w =
     (let w' = w\<lparr>iw_log := iw_log w @ [ev]\<rparr> in
      case ie_fault env (iw_log w) ev of
        Some e \<Rightarrow> (Inl e, w')
      | None \<Rightarrow> (Inr (), case ev of Patched p \<Rightarrow> w'\<lparr>iw_values := ie_patch env (iw_values w) p\<rparr> | _ \<Rightarrow> w'))"

text \<open>\<open>tui.Confirm\<close>\<close>

definition confirm :: "'v ienv \<Rightarrow> string \<Rightarrow> string list \<Rightarrow> ('v iworld, bool) op" where
  "confirm env msg names w =
     (if ie_auto env then (Inr True, w) else (ie_answer env, w\<lparr>iw_log := iw_log w @ [Asked msg names]\<rparr>))"

definition SetEnabled :: "'v ienv \<Rightarrow> string list \<Rightarrow> string list \<Rightarrow> bool \<Rightarrow> ('v iworld, unit) op" where
  "SetEnabled env apps crds enabled w =
     (if apps = [] \<and> crds = [] then (Inr (), w)
      else wrapS ''patch helmrelease'' [] (perform env (Patched (buildEnabledPatch apps crds enabled))) w)"

fun ensure_all :: "'v ienv \<Rightarrow> string \<Rightarrow> provision list \<Rightarrow> ('v iworld, unit) op" where
  "ensure_all env clusterID [] w = (Inr (), w)"
| "ensure_all env clusterID (r # rs) w =
     bindS (wrapS ''initialize %s/%s: %w'' [S (pv_binding r), S (pv_key r)] (perform env (EnsuredSecret clusterID r)))
       (\<lambda>_. ensure_all env clusterID rs) w"

section \<open>Installing\<close>

definition check_operator_config :: "'v ienv \<Rightarrow> string \<Rightarrow> unit result" where
  "check_operator_config env name =
     (if name \<noteq> ''podplane-operator'' then Inr ()
      else (case ie_load env of
          Inl e \<Rightarrow> Inl (Wrapf ''load cluster config: %w'' [] e)
        | Inr cfg \<Rightarrow>
            err_result (orelse_err
              (wrap_err ''cluster.spiffe.trust_domain: %w'' [] (ValidateTrustDomain (sp_trust_domain (cl_spiffe (cc_cluster cfg)))))
              (wrap_err ''cluster.secrets: %w'' [] (ValidateWorkloadCAProvider (ie_parsers env) (cl_secrets (cc_cluster cfg)))))))"

definition plan_extra :: "string \<Rightarrow> enable_set \<Rightarrow> string list" where
  "plan_extra name plan = filter (\<lambda>n. n \<noteq> name) (es_apps plan @ es_crds plan)"

definition confirm_plan :: "'v ienv \<Rightarrow> string \<Rightarrow> enable_set \<Rightarrow> ('v iworld, unit) op" where
  "confirm_plan env name plan =
     (if plan_extra name plan = [] then liftS (Inr ())
      else bindS (confirm env ''Continue?'' (plan_extra name plan)) (\<lambda>ok.
        liftS (if ok then Inr () else Inl (Errorf ''install cancelled'' []))))"

definition prepare_secrets :: "'v ienv \<Rightarrow> comp_config \<Rightarrow> provision list \<Rightarrow> ('v iworld, unit) op" where
  "prepare_secrets env cfg prerequisites =
     (if prerequisites = [] then liftS (Inr ())
      else if cc_cluster_id cfg = [] then
        liftS (Inl (Errorf ''component secret initialization requires the operator's cluster ID'' []))
      else bindS (liftS (ResolveEnable cfg ''podplane-operator'')) (\<lambda>operatorPlan.
        bindS (SetEnabled env (es_apps operatorPlan) (es_crds operatorPlan) True) (\<lambda>_.
        bindS (perform env (Watched (HelmReleaseRefs cfg \<lparr>es_apps = [''podplane-operator''], es_crds = []\<rparr>))) (\<lambda>_.
        bindS (perform env WaitedForSecretsAPI) (\<lambda>_.
        ensure_all env (cc_cluster_id cfg) prerequisites)))))"

datatype outcome = AlreadyInstalled | Installed

text \<open>\<open>slices.Sorted\<close> of an empty map is a nil slice, and a nil list of apps means the enabled ones.\<close>

definition plan_apps :: "enable_set \<Rightarrow> string list option" where
  "plan_apps plan = (if es_apps plan = [] then None else Some (es_apps plan))"

definition install_plan :: "'v ienv \<Rightarrow> comp_config \<Rightarrow> string \<Rightarrow> enable_set \<Rightarrow> ('v iworld, outcome) op" where
  "install_plan env cfg name plan =
     bindS (confirm_plan env name plan) (\<lambda>_.
     bindS (liftS (RequiredSecrets cfg (plan_apps plan))) (\<lambda>prerequisites.
     bindS (prepare_secrets env cfg prerequisites) (\<lambda>_.
     bindS (SetEnabled env (es_apps plan) (es_crds plan) True) (\<lambda>_.
     bindS (perform env (Watched (HelmReleaseRefs cfg plan))) (\<lambda>_.
     liftS (Inr Installed))))))"

definition unknown_component :: "string \<Rightarrow> goerr" where
  "unknown_component name =
     Errorf ''unknown component %q: the platform-components HelmRelease does not define a component with that name'' [S name]"

definition install :: "'v ienv \<Rightarrow> string \<Rightarrow> ('v iworld, outcome) op" where
  "install env name w =
     (case bindR (check_operator_config env name) (\<lambda>_. bindR (ie_context env) (\<lambda>_. ie_read env (iw_values w))) of
        Inl e \<Rightarrow> (Inl e, w)
      | Inr cfg \<Rightarrow>
          if \<not> comp_has cfg name then (Inl (unknown_component name), w)
          else (case ResolveEnable cfg name of
              Inl e \<Rightarrow> (Inl e, w)
            | Inr plan \<Rightarrow>
                if plan_empty plan then (Inr AlreadyInstalled, w) else install_plan env cfg name plan w))"

section \<open>Uninstalling\<close>

text \<open>The answer is whether the component was patched; a component that is not installed is left alone.\<close>

definition uninstall_checked :: "'v ienv \<Rightarrow> comp_config \<Rightarrow> string \<Rightarrow> entry \<Rightarrow> ('v iworld, bool) op" where
  "uninstall_checked env cfg name entry =
     (if en_core entry then liftS (Inl (Errorf ''component %q is a core component and cannot be uninstalled'' [S name]))
      else if \<not> en_enabled entry then liftS (Inr False)
      else if EnabledDependents cfg name \<noteq> [] then
        liftS (Inl (Errorf ''cannot uninstall %q because it is required by: %s. Uninstall those first''
          (S name # map S (EnabledDependents cfg name))))
      else bindS (confirm env ''Uninstall component %q?'' [name]) (\<lambda>ok.
        if \<not> ok then liftS (Inl (Errorf ''uninstall cancelled'' []))
        else bindS (SetEnabled env [name] [] False) (\<lambda>_. liftS (Inr True))))"

definition uninstall :: "'v ienv \<Rightarrow> string \<Rightarrow> ('v iworld, bool) op" where
  "uninstall env name w =
     (case bindR (ie_context env) (\<lambda>_. ie_read env (iw_values w)) of
        Inl e \<Rightarrow> (Inl e, w)
      | Inr cfg \<Rightarrow>
          (case comp_get cfg name of
             None \<Rightarrow> (Inl (unknown_component name), w)
           | Some (entry, isApp) \<Rightarrow>
               if \<not> isApp then (Inl (Errorf ''component %q is a CRD chart'' [S name]), w)
               else uninstall_checked env cfg name entry w))"

section \<open>What the steps leave alone\<close>

text \<open>Steps that change no value of the release.\<close>

lemma kept_bindS:
  assumes "\<And>w. iw_values (snd (m w)) = iw_values w" "\<And>x w. iw_values (snd (f x w)) = iw_values w"
  shows "iw_values (snd (bindS m f w)) = iw_values w"
  by (rule bindS_preserves [where P = "\<lambda>s. iw_values s = iw_values w"]) (simp_all add: assms)

lemma perform_values: "\<forall>p. ev \<noteq> Patched p \<Longrightarrow> iw_values (snd (perform env ev w)) = iw_values w"
  by (cases ev) (auto simp: perform_def Let_def split: option.split)

lemma ensure_values [simp]: "iw_values (snd (ensure_all env cid rs w)) = iw_values w"
  by (induction rs arbitrary: w) (auto intro!: kept_bindS simp: perform_values)

lemma confirm_values: "iw_values (snd (confirm_plan env name plan w)) = iw_values w"
  by (auto intro!: kept_bindS simp: confirm_plan_def confirm_def)

definition secrets_ready :: "'v ienv \<Rightarrow> comp_config \<Rightarrow> provision list \<Rightarrow> ('v iworld, unit) op" where
  "secrets_ready env cfg prerequisites =
     bindS (perform env (Watched (HelmReleaseRefs cfg \<lparr>es_apps = [''podplane-operator''], es_crds = []\<rparr>))) (\<lambda>_.
     bindS (perform env WaitedForSecretsAPI) (\<lambda>_.
     ensure_all env (cc_cluster_id cfg) prerequisites))"

lemma secrets_ready_values: "iw_values (snd (secrets_ready env cfg prereqs w)) = iw_values w"
  by (auto intro!: kept_bindS simp: secrets_ready_def perform_values)

definition installed :: "'v ienv \<Rightarrow> comp_config \<Rightarrow> enable_set \<Rightarrow> ('v iworld, outcome) op" where
  "installed env cfg plan = bindS (perform env (Watched (HelmReleaseRefs cfg plan))) (\<lambda>_. liftS (Inr Installed))"

lemma installed_values: "iw_values (snd (installed env cfg plan w)) = iw_values w"
  by (auto intro!: kept_bindS simp: installed_def perform_values)

lemma keys_with_enabled:
  "fst ` set (cc_apps (with_enabled apps crds b c)) = fst ` set (cc_apps c)"
  "fst ` set (cc_crds (with_enabled apps crds b c)) = fst ` set (cc_crds c)"
  by (simp_all add: with_enabled_def flip: set_map)

lemma plan_names:
  assumes "ResolveEnable c n = Inr p"
  shows "set (es_apps p) \<subseteq> fst ` set (cc_apps c)" "set (es_crds p) \<subseteq> fst ` set (cc_crds c)"
proof -
  have fin: "finite (to_enable c i (needed c n))" for i
    using assms finite_subset [of _ "known_components c"] by (auto simp: ResolveEnable_Inr_iff to_enable_def)
  have "m \<in> fst ` set (if i then cc_apps c else cc_crds c)" if "m \<in> to_enable c i (needed c n)" for m i
    using that by (auto simp: to_enable_def comp_get_def split: option.splits dest!: map_of_SomeD intro: rev_image_eqI)
  from this [of _ True] this [of _ False] fin assms
  show "set (es_apps p) \<subseteq> fst ` set (cc_apps c)" "set (es_crds p) \<subseteq> fst ` set (cc_crds c)"
    by (auto simp: ResolveEnable_Inr_iff)
qed

lemma cfg_equiv_refl [simp]: "cfg_equiv c c"
  by (simp add: cfg_equiv_def)

lemma cfg_equiv_trans: "cfg_equiv a b \<Longrightarrow> cfg_equiv b c \<Longrightarrow> cfg_equiv a c"
  by (simp add: cfg_equiv_def)

lemma cfg_equiv_with_enabled:
  "cfg_equiv c c' \<Longrightarrow> cfg_equiv (with_enabled apps crds b c) (with_enabled apps crds b c')"
  by (simp add: cfg_equiv_def with_enabled_def fun_eq_iff map_of_set_enabled)

lemma cfg_equiv_get: "cfg_equiv c c' \<Longrightarrow> comp_get c = comp_get c'"
  by (auto simp: cfg_equiv_def comp_get_def fun_eq_iff split: option.split)

lemma with_enabled_none [simp]: "with_enabled [] [] b c = c"
  by (simp add: with_enabled_def set_enabled_def case_prod_beta)

lemma cfg_equiv_keys:
  assumes "cfg_equiv c c'"
  shows "fst ` set (cc_apps c) = fst ` set (cc_apps c')" "fst ` set (cc_crds c) = fst ` set (cc_crds c')"
  using assms by (simp_all add: cfg_equiv_def flip: dom_map_of_conv_image_fst)

lemma cfg_equiv_closed: "cfg_equiv c c' \<Longrightarrow> deps_closed c \<longleftrightarrow> deps_closed c'"
  by (simp add: deps_closed_def depends_def is_enabled_def cfg_equiv_get)

section \<open>The contract of the release\<close>

text \<open>
  What the commands rely on: the configuration read back after a patch that enables or disables known
  components is the configuration with these components changed.
\<close>

locale helm_values =
  fixes read :: "'v \<Rightarrow> comp_config result"
    and patch :: "'v \<Rightarrow> fields \<Rightarrow> 'v"
    and valid :: "'v \<Rightarrow> bool"
  assumes patch_law: "\<lbrakk>read v = Inr c; valid v; set apps \<subseteq> fst ` set (cc_apps c); set crds \<subseteq> fst ` set (cc_crds c)\<rbrakk> \<Longrightarrow>
    \<exists>c'. read (patch v (buildEnabledPatch apps crds b)) = Inr c' \<and> cfg_equiv c' (with_enabled apps crds b c) \<and>
      valid (patch v (buildEnabledPatch apps crds b))"

begin

definition good :: "'v iworld \<Rightarrow> comp_config \<Rightarrow> bool" where
  "good w c \<longleftrightarrow> valid (iw_values w) \<and> (\<exists>c'. read (iw_values w) = Inr c' \<and> cfg_equiv c' c)"

definition speaks :: "'v ienv \<Rightarrow> bool" where
  "speaks env \<longleftrightarrow> ie_read env = read \<and> ie_patch env = patch"

lemma good_cong: "iw_values w = iw_values w' \<Longrightarrow> good w c \<longleftrightarrow> good w' c"
  by (simp add: good_def)

lemma SetEnabled_effect:
  assumes "speaks env" "good w c" "set apps \<subseteq> fst ` set (cc_apps c)" "set crds \<subseteq> fst ` set (cc_crds c)"
    and "SetEnabled env apps crds b w = (r, w')"
  shows "good w' (with_enabled apps crds b c) \<or> good w' c \<and> (\<exists>e. r = Inl e)"
proof (cases "apps = [] \<and> crds = []")
  case True
  with assms(2,5) show ?thesis by (auto simp: SetEnabled_def)
next
  case False
  from assms(2) obtain c' where c': "valid (iw_values w)" "read (iw_values w) = Inr c'" "cfg_equiv c' c"
    by (auto simp: good_def)
  then have names: "set apps \<subseteq> fst ` set (cc_apps c')" "set crds \<subseteq> fst ` set (cc_crds c')"
    using assms(3,4) cfg_equiv_keys [OF c'(3)] by simp_all
  from patch_law [OF c'(2,1) names, of b] obtain c2 where
    c2: "read (patch (iw_values w) (buildEnabledPatch apps crds b)) = Inr c2"
      "cfg_equiv c2 (with_enabled apps crds b c')" "valid (patch (iw_values w) (buildEnabledPatch apps crds b))" by blast
  have eq: "cfg_equiv c2 (with_enabled apps crds b c)"
    by (rule cfg_equiv_trans [OF c2(2) cfg_equiv_with_enabled [OF c'(3)]])
  show ?thesis
  proof (cases "ie_fault env (iw_log w) (Patched (buildEnabledPatch apps crds b))")
    case None
    with False assms(1,5) c2 eq show ?thesis
      by (auto simp: SetEnabled_def wrapS_def perform_def Let_def speaks_def good_def)
  next
    case (Some e)
    with False assms(2,5) show ?thesis
      by (auto simp: SetEnabled_def wrapS_def perform_def Let_def good_def)
  qed
qed

lemma prepare_effect:
  assumes "speaks env" "good w c" "prepare_secrets env c prereqs w = (r, w')"
  shows "good w' c \<and> ((\<exists>e. r = Inl e) \<or> prereqs = []) \<or>
    (\<exists>op. ResolveEnable c ''podplane-operator'' = Inr op \<and> good w' (with_enabled (es_apps op) (es_crds op) True c))"
proof (cases "prereqs = [] \<or> cc_cluster_id c = [] \<or> (\<exists>e. ResolveEnable c ''podplane-operator'' = Inl e)")
  case True
  then have "w' = w \<and> ((\<exists>e. r = Inl e) \<or> prereqs = [])"
    using assms(3) by (auto simp: prepare_secrets_def liftS_def split: if_splits)
  with assms(2) show ?thesis by simp
next
  case False
  then obtain op where op: "ResolveEnable c ''podplane-operator'' = Inr op" by (cases "ResolveEnable c ''podplane-operator''") auto
  obtain r1 w1 where s: "SetEnabled env (es_apps op) (es_crds op) True w = (r1, w1)" by fastforce
  have "good w1 (with_enabled (es_apps op) (es_crds op) True c) \<or> good w1 c \<and> (\<exists>e. r1 = Inl e)"
    by (rule SetEnabled_effect [OF assms(1,2) plan_names [OF op] s])
  moreover have prep: "prepare_secrets env c prereqs w =
      bindS (SetEnabled env (es_apps op) (es_crds op) True) (\<lambda>_. secrets_ready env c prereqs) w"
    using False op by (simp add: prepare_secrets_def secrets_ready_def)
  moreover have "r1 = Inr () \<Longrightarrow> iw_values w' = iw_values w1"
    using assms(3) prep s secrets_ready_values [of env c prereqs w1] by simp
  moreover have "r1 = Inl e \<Longrightarrow> r = Inl e \<and> w' = w1" for e
    using assms(3) prep s by simp
  ultimately show ?thesis
    using op good_cong [of w' w1] by (cases r1) auto
qed

text \<open>What an installation does to the configuration, whether it succeeds or stops at any of its steps.\<close>

lemma install_plan_effect:
  assumes "speaks env" "good w c" "ResolveEnable c name = Inr plan" "install_plan env c name plan w = (r, w')"
  shows "\<exists>c1. (c1 = c \<or> (\<exists>op. ResolveEnable c ''podplane-operator'' = Inr op \<and> c1 = with_enabled (es_apps op) (es_crds op) True c)) \<and>
    (good w' (with_enabled (es_apps plan) (es_crds plan) True c1) \<or> good w' c1 \<and> (\<exists>e. r = Inl e))"
proof -
  obtain r1 w1 where s1: "confirm_plan env name plan w = (r1, w1)" by fastforce
  have g1: "good w1 c" using assms(2) good_cong [of w1 w] confirm_values [of env name plan w] s1 by simp
  have plan: "install_plan env c name plan = bindS (confirm_plan env name plan) (\<lambda>_.
      bindS (liftS (RequiredSecrets c (plan_apps plan))) (\<lambda>prereqs. bindS (prepare_secrets env c prereqs) (\<lambda>_.
      bindS (SetEnabled env (es_apps plan) (es_crds plan) True) (\<lambda>_. installed env c plan))))"
    by (simp add: install_plan_def installed_def)
  consider e where "r1 = Inl e" | e where "r1 = Inr ()" "RequiredSecrets c (plan_apps plan) = Inl e"
    | prereqs where "r1 = Inr ()" "RequiredSecrets c (plan_apps plan) = Inr prereqs"
    by (cases r1; cases "RequiredSecrets c (plan_apps plan)") auto
  then show ?thesis
  proof cases
    case (1 e)
    with s1 assms(4) have "r = Inl e" "w' = w1" by (simp_all add: plan)
    with g1 show ?thesis by blast
  next
    case (2 e)
    with s1 assms(4) have "r = Inl e" "w' = w1" by (simp_all add: plan liftS_def)
    with g1 show ?thesis by blast
  next
    case (3 prereqs)
    obtain r2 w2 where s2: "prepare_secrets env c prereqs w1 = (r2, w2)" by fastforce
    note prep = prepare_effect [OF assms(1) g1 s2]
    show ?thesis
    proof (cases r2)
      case (Inl e)
      with s1 s2 3 assms(4) have "r = Inl e" "w' = w2" by (simp_all add: plan)
      with prep show ?thesis by blast
    next
      case (Inr u)
      with prep obtain c1 where c1: "good w2 c1"
        "c1 = c \<or> (\<exists>op. ResolveEnable c ''podplane-operator'' = Inr op \<and> c1 = with_enabled (es_apps op) (es_crds op) True c)"
        by auto
      have "fst ` set (cc_apps c1) = fst ` set (cc_apps c)" "fst ` set (cc_crds c1) = fst ` set (cc_crds c)"
        using c1(2) by (elim disjE exE conjE; simp only: keys_with_enabled)+
      then have names: "set (es_apps plan) \<subseteq> fst ` set (cc_apps c1)" "set (es_crds plan) \<subseteq> fst ` set (cc_crds c1)"
        using plan_names [OF assms(3)] by simp_all
      obtain r3 w3 where s3: "SetEnabled env (es_apps plan) (es_crds plan) True w2 = (r3, w3)" by fastforce
      note eff = SetEnabled_effect [OF assms(1) c1(1) names s3]
      have run: "(r, w') = bindS (SetEnabled env (es_apps plan) (es_crds plan) True) (\<lambda>_. installed env c plan) w2"
        using s1 s2 3 Inr assms(4) by (simp add: plan)
      have "iw_values w' = iw_values w3"
        using run s3 installed_values [of env c plan w3] by (cases r3) (auto simp: prod_eq_iff)
      moreover have "r3 = Inl e \<Longrightarrow> r = Inl e" for e using run s3 by simp
      ultimately show ?thesis using eff c1(2) good_cong [of w' w3] by blast
    qed
  qed
qed

lemma install_effect:
  assumes "speaks env" "valid (iw_values w)" "read (iw_values w) = Inr c" "install env name w = (r, w')"
  shows "w' = w \<and> ((\<exists>e. r = Inl e) \<or> r = Inr AlreadyInstalled \<and> ResolveEnable c name = Inr \<lparr>es_apps = [], es_crds = []\<rparr>) \<or>
    (\<exists>plan. ResolveEnable c name = Inr plan \<and> (\<exists>c1.
      (c1 = c \<or> (\<exists>op. ResolveEnable c ''podplane-operator'' = Inr op \<and> c1 = with_enabled (es_apps op) (es_crds op) True c)) \<and>
      (good w' (with_enabled (es_apps plan) (es_crds plan) True c1) \<or> good w' c1 \<and> (\<exists>e. r = Inl e))))"
proof (cases "(\<exists>e. check_operator_config env name = Inl e) \<or> (\<exists>e. ie_context env = Inl e) \<or> \<not> comp_has c name")
  case True
  with assms(1,3,4) show ?thesis
    by (cases "check_operator_config env name"; cases "ie_context env") (auto simp: install_def speaks_def)
next
  case False
  have run: "install env name w = (case ResolveEnable c name of Inl e \<Rightarrow> (Inl e, w)
      | Inr plan \<Rightarrow> if plan_empty plan then (Inr AlreadyInstalled, w) else install_plan env c name plan w)"
    using False assms(1,3) by (cases "check_operator_config env name"; cases "ie_context env") (auto simp: install_def speaks_def)
  show ?thesis
  proof (cases "ResolveEnable c name")
    case (Inl e)
    with run assms(4) show ?thesis by simp
  next
    case (Inr plan)
    show ?thesis
    proof (cases "plan_empty plan")
      case True
      with run Inr assms(4) show ?thesis by (cases plan) (simp add: plan_empty_def)
    next
      case False
      then have step: "install_plan env c name plan w = (r, w')" using run Inr assms(4) by simp
      have "good w c" using assms(2,3) by (simp add: good_def)
      from install_plan_effect [OF assms(1) this Inr step] show ?thesis
        using Inr by (intro disjI2 exI [of _ plan] conjI) (simp only: simp_thms)
    qed
  qed
qed

lemma uninstall_effect:
  assumes "speaks env" "valid (iw_values w)" "read (iw_values w) = Inr c" "uninstall env name w = (r, w')"
  shows "good w' c \<and> r \<noteq> Inr True \<or>
    (\<exists>e. comp_get c name = Some (e, True) \<and> en_enabled e \<and> \<not> en_core e \<and> EnabledDependents c name = [] \<and>
      (good w' (with_enabled [name] [] False c) \<or> good w' c \<and> (\<exists>e. r = Inl e)))"
proof -
  have g: "good w c" using assms(2,3) by (simp add: good_def)
  show ?thesis
  proof (cases "(\<exists>e. ie_context env = Inl e) \<or> (\<forall>e. comp_get c name \<noteq> Some (e, True))")
    case True
    with g assms(1,3,4) show ?thesis
      by (cases "ie_context env"; cases "comp_get c name") (auto simp: uninstall_def speaks_def)
  next
    case False
    then obtain e where e: "comp_get c name = Some (e, True)" by blast
    then have run: "uninstall_checked env c name e w = (r, w')"
      using False assms(1,3,4) by (cases "ie_context env") (auto simp: uninstall_def speaks_def)
    show ?thesis
    proof (cases "en_core e \<or> \<not> en_enabled e \<or> EnabledDependents c name \<noteq> []")
      case True
      with run have "w' = w \<and> r \<noteq> Inr True" by (auto simp: uninstall_checked_def liftS_def split: if_splits)
      with g show ?thesis by simp
    next
      case ok: False
      obtain a w1 where q: "confirm env ''Uninstall component %q?'' [name] w = (a, w1)" by fastforce
      have v1: "iw_values w1 = iw_values w" using q by (auto simp: confirm_def split: if_splits)
      with g have g1: "good w1 c" using good_cong by metis
      obtain r2 w2 where s: "SetEnabled env [name] [] False w1 = (r2, w2)" by fastforce
      have "set [name] \<subseteq> fst ` set (cc_apps c)" "set [] \<subseteq> fst ` set (cc_crds c)"
        using e by (auto simp: comp_get_def split: option.splits dest!: map_of_SomeD intro: rev_image_eqI)
      note eff = SetEnabled_effect [OF assms(1) g1 this s]
      show ?thesis
        using run ok q s eff g1 e
        by (cases a; cases r2) (auto simp: uninstall_checked_def liftS_def split: if_splits)
    qed
  qed
qed

end

interpretation release: helm_values "\<lambda>vals. ParseValues (Some (JObj vals))" "\<lambda>vals p. deepMerge vals (patch_values p)" plain_values
  by unfold_locales (rule patch_enables)

end
