(* ===== verification/ComponentsProps.thy ===== *)
theory ComponentsProps
  imports ComponentsCmd
begin

text \<open>
  The properties of the component commands: an installation plan is exactly the disabled part of the
  transitive dependencies, no sequence of commands breaks the closure of the enabled components under
  dependencies, an uninstallation removes one addon only, and the keys of a component exist before it
  is enabled.
\<close>

section \<open>The lg\<close>














section \<open>The properties\<close>

text \<open>
  C25: The walk over \<open>dependsOn\<close> ends on every configuration, cyclic ones included; it fails exactly when
  something that is needed is unknown, and otherwise lists, sorted and once each, the needed apps and
  CRD charts that are not enabled yet.
\<close>
theorem resolve_exact:
  "case ResolveEnable c n of
     Inl _ \<Rightarrow> \<not> needed c n \<subseteq> known_components c
   | Inr p \<Rightarrow> needed c n \<subseteq> known_components c \<and>
       set (es_apps p) = to_enable c True (needed c n) \<and> set (es_crds p) = to_enable c False (needed c n) \<and>
       sorted (es_apps p) \<and> distinct (es_apps p) \<and> sorted (es_crds p) \<and> distinct (es_crds p)"
proof (cases "ResolveEnable c n")
  case (Inl e)
  then have "\<not> (\<exists>p. ResolveEnable c n = Inr p)" by simp
  then show ?thesis unfolding ResolveEnable_Inr_iff using Inl by simp
next
  case (Inr p)
  have "finite (to_enable c i (needed c n))" for i
    using Inr finite_subset [of _ "known_components c"] by (auto simp: ResolveEnable_Inr_iff to_enable_def)
  with Inr [unfolded ResolveEnable_Inr_iff] show ?thesis by (simp add: Inr)
qed





lemma closed_after_operator:
  "deps_closed c \<Longrightarrow> c1 = c \<or> (\<exists>op. ResolveEnable c n = Inr op \<and> c1 = with_enabled (es_apps op) (es_crds op) True c) \<Longrightarrow> deps_closed c1"
  using deps_closed_enable_plan by blast

lemma closed_after_plan:
  assumes "ResolveEnable c n = Inr p" "deps_closed c"
    and "c1 = c \<or> (\<exists>op. ResolveEnable c m = Inr op \<and> c1 = with_enabled (es_apps op) (es_crds op) True c)"
  shows "deps_closed (with_enabled (es_apps p) (es_crds p) True c1)"
    and "is_enabled (with_enabled (es_apps p) (es_crds p) True c1) a \<longleftrightarrow> is_enabled c1 a \<or> a \<in> needed c n"
proof -
  let ?c2 = "with_enabled (es_apps p) (es_crds p) True c1"
  have c1: "deps_closed c1" by (rule closed_after_operator [OF assms(2,3)])
  have same: "comp_get c1 x = None \<longleftrightarrow> comp_get c x = None" "is_enabled c x \<Longrightarrow> is_enabled c1 x" for x
    using assms(3) by (auto simp: comp_get_with_enabled is_enabled_after_enable)
  have flag: "comp_get c1 x = Some (e, i) \<Longrightarrow> \<exists>e'. comp_get c x = Some (e', i)" for x e i
    using assms(3) by (auto simp: comp_get_with_enabled)
  have enabled: "is_enabled ?c2 x \<longleftrightarrow> is_enabled c1 x \<or> x \<in> needed c n" for x
  proof (cases "comp_get c1 x")
    case None
    then have "comp_get c x = None" by (simp add: same)
    then have "x \<notin> known_components c" by (simp add: comp_get_None_iff)
    then have "x \<notin> needed c n" using assms(1) by (auto simp: ResolveEnable_Inr_iff)
    with None show ?thesis by (simp add: is_enabled_None comp_get_with_enabled)
  next
    case (Some ei)
    then obtain e i where ei: "comp_get c1 x = Some (e, i)" by (cases ei) simp
    then obtain e' where e': "comp_get c x = Some (e', i)" using flag by blast
    have "is_enabled (with_enabled (es_apps p) (es_crds p) True c) x \<longleftrightarrow> is_enabled c x \<or> x \<in> needed c n"
      by (rule plan_enables [OF assms(1)])
    with e' same(2) [of x] ei show ?thesis by (auto simp: is_enabled_after_enable)
  qed
  show "is_enabled ?c2 a \<longleftrightarrow> is_enabled c1 a \<or> a \<in> needed c n" by (rule enabled)
  have "depends c1 = depends c" using assms(3) by auto
  with c1 enabled needed_step [of _ c n] show "deps_closed ?c2" by (auto simp: deps_closed_def)
qed



text \<open>
  C26: A successful installation leaves the component and everything it needs enabled, directly or not;
  nothing is disabled, and beyond the plan only what the operator needs may have been enabled.
\<close>
theorem install_enables:
  assumes "release.speaks env" "plain_values (iw_values w)" "ParseValues (Some (JObj (iw_values w))) = Inr c"
    and "install env name w = (Inr out, w')" "deps_closed c"
  shows "\<exists>c'. ParseValues (Some (JObj (iw_values w'))) = Inr c' \<and>
    {m. is_enabled c m} \<union> needed c name \<subseteq> {m. is_enabled c' m} \<and>
    {m. is_enabled c' m} \<subseteq> {m. is_enabled c m} \<union> needed c name \<union> needed c ''podplane-operator''"
proof -
  from release.install_effect [OF assms(1-4)]
  consider "w' = w" "ResolveEnable c name = Inr \<lparr>es_apps = [], es_crds = []\<rparr>"
    | plan c1 where "ResolveEnable c name = Inr plan"
      "c1 = c \<or> (\<exists>op. ResolveEnable c ''podplane-operator'' = Inr op \<and> c1 = with_enabled (es_apps op) (es_crds op) True c)"
      "release.good w' (with_enabled (es_apps plan) (es_crds plan) True c1)" by auto
  then show ?thesis
  proof cases
    case 1
    have "needed c name \<subseteq> {m. is_enabled c m}" using plan_enables [OF 1(2)] by auto
    with 1(1) assms(3) show ?thesis by auto
  next
    case (2 plan c1)
    then obtain c' where c': "ParseValues (Some (JObj (iw_values w'))) = Inr c'"
      "cfg_equiv c' (with_enabled (es_apps plan) (es_crds plan) True c1)" by (auto simp: release.good_def)
    have en: "is_enabled c' m \<longleftrightarrow> is_enabled c1 m \<or> m \<in> needed c name" for m
      using closed_after_plan(2) [OF 2(1) assms(5) 2(2)] cfg_equiv_get [OF c'(2)] by (simp add: is_enabled_def)
    have "{m. is_enabled c m} \<subseteq> {m. is_enabled c1 m}" "{m. is_enabled c1 m} \<subseteq> {m. is_enabled c m} \<union> needed c ''podplane-operator''"
      using 2(2) plan_enables by auto
    with c'(1) en show ?thesis by (intro exI [of _ c']) auto
  qed
qed

text \<open>
  An uninstallation that goes through disables one component and changes nothing else; the component
  is an app that is not core and that no enabled component depends on.
\<close>
theorem uninstall_safe:
  assumes "release.speaks env" "plain_values (iw_values w)" "ParseValues (Some (JObj (iw_values w))) = Inr c"
    and "uninstall env name w = (Inr True, w')"
  shows "\<exists>c' e. ParseValues (Some (JObj (iw_values w'))) = Inr c' \<and> comp_get c name = Some (e, True) \<and> \<not> en_core e \<and>
    (\<forall>m. is_enabled c' m \<longleftrightarrow> is_enabled c m \<and> m \<noteq> name) \<and>
    (\<forall>m. is_enabled c m \<longrightarrow> (m, name) \<notin> depends c)"
proof -
  from release.uninstall_effect [OF assms] obtain e where
    e: "comp_get c name = Some (e, True)" "\<not> en_core e" "EnabledDependents c name = []"
    and "release.good w' (with_enabled [name] [] False c)" by auto
  then obtain c' where c': "ParseValues (Some (JObj (iw_values w'))) = Inr c'" "cfg_equiv c' (with_enabled [name] [] False c)"
    by (auto simp: release.good_def)
  have "is_enabled c' m \<longleftrightarrow> is_enabled c m \<and> m \<noteq> name" for m
    using e(1) by (cases "comp_get c m") (auto simp: is_enabled_def cfg_equiv_get [OF c'(2)] comp_get_with_enabled split: if_splits)
  moreover have "is_enabled c m \<longrightarrow> (m, name) \<notin> depends c" for m
    using EnabledDependents_Nil [OF e(3)] by (auto simp: is_enabled_def depends_def split: option.splits)
  ultimately show ?thesis using c'(1) e by blast
qed


lemma strip_words_key:
  assumes "list_all (\<lambda>w. hd w \<notin> A) ws" "set s \<subseteq> A"
  shows "strip_words ws s = s"
proof (rule strip_words_fixed)
  have "\<not> has_prefix s w" if "w \<in> set ws" "w \<noteq> []" for w
  proof
    assume "has_prefix s w"
    then have "hd w \<in> set s" using that(2) by (cases w) (auto simp: has_prefix_iff)
    with that assms show False by (auto simp: list_all_iff)
  qed
  then show "find (\<lambda>w. w \<noteq> [] \<and> has_prefix s w) ws = None" by (auto simp: find_None_iff)
qed

lemma std_encode_chars: "set (std_encode s) \<subseteq> set (std_alphabet @ ''='')"
  unfolding std_encode_def
  by (induction std_alphabet "''=''" s rule: b64_groups.induct) (simp_all add: byte_digits std_alphabet_props(2))

lemma spaces_not_base64:
  "list_all (\<lambda>w. hd w \<notin> set (std_alphabet @ ''='')) (go_spaces @ map rev go_spaces)"
  by code_simp

lemma trim_space_std_encode: "trim_space (std_encode s) = std_encode s"
  using spaces_not_base64 std_encode_chars [of s]
  by (simp add: trim_space_def strip_words_key [where A = "set (std_alphabet @ ''='')"])

text \<open>
  A source gateway key that the CLI generates passes its own validation: it is canonical base64 of
  32 bytes.
\<close>
theorem gateway_key_validates:
  "validate_gateway_key (generate_gateway_key random) = None"
proof -
  define raw where "raw = map random [0..<sourceGatewayKeyBytes]"
  have raw: "length raw = sourceGatewayKeyBytes" by (simp add: raw_def)
  have "filter (\<lambda>c. c \<noteq> CHR 0x0D \<and> c \<noteq> CHR 0x0A) (std_encode raw) = std_encode raw"
    by (simp only: std_encode_def b64_groups_plain)
  then have "strict_decode (std_encode raw) = Inr raw" by (simp add: strict_decode_def)
  moreover have "\<not> contains_any (std_encode raw) [CHR 0x0D, CHR 0x0A]"
    using std_encode_chars [of raw] std_alphabet_plain by (auto simp: contains_any_iff list_all_iff)
  ultimately show ?thesis
    unfolding generate_gateway_key_def raw_def [symmetric] validate_gateway_key_def trim_space_std_encode Let_def
    using raw by simp
qed

section \<open>Witnesses\<close>

definition ex_app :: "string list \<Rightarrow> json" where
  "ex_app deps = JObj [(''enabled'', JBool False), (''dependsOn'', JArr (map JStr deps))]"

definition ex_components :: fields where
  "ex_components = [(''apps'', JObj [(''sourcegateway'', ex_app [''gw-crds'']), (''podplane-operator'', ex_app [])]),
     (''crds'', JObj [(''gw-crds'', ex_app [])]),
     (''values'', JObj [(''podplane-operator'', JObj [(''podplane'', JObj [(''operator'', JObj [(''config'', JObj
        [(''cluster'', JObj [(''id'', JStr ''c1'')]),
         (''secrets'', JObj [(''defaultProvider'', JStr ''p''),
           (''providers'', JObj [(''p'', JObj [(''kind'', JStr ''vault'')])])])])])])])])]"

definition ex_vals :: fields where
  "ex_vals = [(''platform'', JObj [(''components'', JObj ex_components)])]"

definition ex_cfg :: comp_config where
  "ex_cfg = \<lparr>cc_apps = [(''sourcegateway'', no_entry\<lparr>en_depends := [''gw-crds'']\<rparr>), (''podplane-operator'', no_entry)],
     cc_crds = [(''gw-crds'', no_entry)], cc_cluster_id = ''c1'',
     cc_secrets = \<lparr>sc_default = ''p'', sc_providers = [(''p'', no_provider\<lparr>sv_kind := ''vault''\<rparr>)]\<rparr>\<rparr>"

definition ex_ienv :: "fields ienv" where
  "ex_ienv = \<lparr>ie_load = Inl (Sentinel ''none''), ie_parsers = \<lparr>parse_url = (\<lambda>_. None), parse_mail = (\<lambda>_. None)\<rparr>,
     ie_context = Inr (), ie_read = (\<lambda>vals. ParseValues (Some (JObj vals))),
     ie_patch = (\<lambda>vals p. deepMerge vals (patch_values p)), ie_auto = True, ie_answer = Inr True, ie_fault = (\<lambda>_ _. None)\<rparr>"

definition ex_iworld :: "fields iworld" where
  "ex_iworld = \<lparr>iw_values = ex_vals, iw_log = []\<rparr>"

lemma ex_speaks: "release.speaks ex_ienv"
  by (simp add: release.speaks_def ex_ienv_def)

lemma ex_parse: "ParseValues (Some (JObj (iw_values ex_iworld))) = Inr ex_cfg"
  by code_simp

lemma ex_plain: "plain_values (iw_values ex_iworld)"
  by code_simp

lemma ex_deps_closed: "deps_closed ex_cfg"
  by (auto simp: deps_closed_def is_enabled_def comp_get_def ex_cfg_def no_entry_def)




definition ex_done :: "fields iworld" where
  "ex_done = snd (install ex_ienv ''sourcegateway'' ex_iworld)"

lemma ex_install: "install ex_ienv ''sourcegateway'' ex_iworld = (Inr Installed, ex_done)"
proof -
  have "fst (install ex_ienv ''sourcegateway'' ex_iworld) = Inr Installed" by code_simp
  then show ?thesis by (simp add: ex_done_def prod_eq_iff)
qed

theorem install_enables_witness:
  "\<exists>c'. ParseValues (Some (JObj (iw_values ex_done))) = Inr c' \<and>
    {m. is_enabled ex_cfg m} \<union> needed ex_cfg ''sourcegateway'' \<subseteq> {m. is_enabled c' m} \<and>
    {m. is_enabled c' m} \<subseteq> {m. is_enabled ex_cfg m} \<union> needed ex_cfg ''sourcegateway'' \<union> needed ex_cfg ''podplane-operator''"
  by (rule install_enables [OF ex_speaks ex_plain ex_parse ex_install ex_deps_closed])

text \<open>The configuration after the installation.\<close>

definition ex_cfg2 :: comp_config where
  "ex_cfg2 = with_enabled [''sourcegateway'', ''podplane-operator''] [''gw-crds''] True ex_cfg"

lemma ex_done_facts:
  "ParseValues (Some (JObj (iw_values ex_done))) = Inr ex_cfg2"
  "plain_values (iw_values ex_done)" "is_enabled ex_cfg2 ''sourcegateway''"
  by code_simp+

definition ex_removed :: "fields iworld" where
  "ex_removed = snd (uninstall ex_ienv ''sourcegateway'' ex_done)"

lemma ex_uninstall: "uninstall ex_ienv ''sourcegateway'' ex_done = (Inr True, ex_removed)"
proof -
  have "fst (uninstall ex_ienv ''sourcegateway'' ex_done) = Inr True" by code_simp
  then show ?thesis by (simp add: ex_removed_def prod_eq_iff)
qed

theorem uninstall_safe_witness:
  "\<exists>c' e. ParseValues (Some (JObj (iw_values ex_removed))) = Inr c' \<and> comp_get ex_cfg2 ''sourcegateway'' = Some (e, True) \<and> \<not> en_core e"
  using uninstall_safe [OF ex_speaks ex_done_facts(2,1) ex_uninstall] by auto






end
