(* ===== verification/ClusterDelete.thy ===== *)
theory ClusterDelete
  imports JsonDecode ClusterConfig
begin

text \<open>
  \<open>podplane cluster delete\<close> (\<open>internal/clusterdelete\<close>): the workflow that scales every Nstance group to
  zero, waits for its instances, destroys the stack and cleans up what is left. The log holds what the
  workflow did and saw, in order; the environment decides from the log what each request answers, how
  long it takes and what others do to the objects meanwhile. The clock counts nanoseconds.
\<close>

section \<open>Instances\<close>

record vm_instance =
  vi_id :: string
  vi_name :: string
  vi_zone :: string
  vi_shard :: string
  vi_group :: string
  vi_state :: string

definition instance_attr :: "string \<times> string \<Rightarrow> string" where
  "instance_attr kv = (if snd kv \<noteq> [] then '' '' @ fst kv @ ''='' @ snd kv else [])"

definition instance_label :: "vm_instance \<Rightarrow> string" where
  "instance_label inst =
     vi_id inst @ (if vi_name inst \<noteq> [] then '' ('' @ vi_name inst @ '')'' else []) @
     concat (map instance_attr
       [(''zone'', vi_zone inst), (''shard'', vi_shard inst), (''group'', vi_group inst), (''state'', vi_state inst)])"

definition formatInstances :: "vm_instance list \<Rightarrow> string" where
  "formatInstances insts = join_with '', '' (map instance_label insts)"

section \<open>The outside\<close>

datatype devent =
    Status string "goarg list"
  | ReadOutputs
  | GotObject string string
  | HadObject string string string
  | PutObject string string string
  | Listing
  | Listed "vm_instance list"
  | Answered string bool
  | Terminated "vm_instance list"
  | Destroyed

type_synonym objects = "string \<times> string \<Rightarrow> (string \<times> nat) option"

record dworld =
  dw_log :: "devent list"
  dw_clock :: int
  dw_objects :: objects

record denv =
  de_outputs :: "string result"
  de_parse :: "string \<Rightarrow> json option"
  de_indent :: "json \<Rightarrow> string result"
  de_scheme :: string
  de_fault :: "devent list \<Rightarrow> devent \<Rightarrow> gerror"
  de_list :: "devent list \<Rightarrow> nat \<times> vm_instance list result"
  de_answer :: "devent list \<Rightarrow> string \<Rightarrow> bool result"
  de_ended :: "(int \<times> goerr) option"
  de_pick :: "devent list \<Rightarrow> bool"
  de_others :: "devent list \<Rightarrow> objects \<Rightarrow> objects"

definition noted :: "devent \<Rightarrow> dworld \<Rightarrow> dworld" where
  "noted ev w = w\<lparr>dw_log := dw_log w @ [ev]\<rparr>"

definition attempt :: "denv \<Rightarrow> devent \<Rightarrow> (dworld, unit) op" where
  "attempt env ev w = (case de_fault env (dw_log w) ev of Some e \<Rightarrow> (Inl e, noted ev w) | None \<Rightarrow> (Inr (), noted ev w))"

definition status :: "string \<Rightarrow> goarg list \<Rightarrow> (dworld, unit) op" where
  "status f as w = (Inr (), noted (Status f as) w)"

text \<open>A request for the instances takes its time; what it answers is noted when it succeeds.\<close>

definition ManagedInstances :: "denv \<Rightarrow> (dworld, vm_instance list) op" where
  "ManagedInstances env w =
     (case de_list env (dw_log w) of
        (d, Inl e) \<Rightarrow> (Inl e, (noted Listing w)\<lparr>dw_clock := dw_clock w + int d\<rparr>)
      | (d, Inr xs) \<Rightarrow> (Inr xs, (noted (Listed xs) (noted Listing w))\<lparr>dw_clock := dw_clock w + int d\<rparr>))"

definition ask :: "denv \<Rightarrow> string \<Rightarrow> (dworld, bool) op" where
  "ask env msg w =
     (case de_answer env (dw_log w) msg of Inl e \<Rightarrow> (Inl e, w) | Inr ok \<Rightarrow> (Inr ok, noted (Answered msg ok) w))"

section \<open>Shard configurations\<close>

text \<open>Setting every group size to zero; the flag says whether anything changed.\<close>

definition zero_group :: "json \<Rightarrow> json \<times> bool" where
  "zero_group g =
     (case g of
        JObj kvs \<Rightarrow> if map_of kvs ''size'' \<noteq> Some (JNum 0) then (JObj (put_key ''size'' (JNum 0) kvs), True) else (g, False)
      | _ \<Rightarrow> (g, False))"

fun zero_each :: "(json \<Rightarrow> json \<times> bool) \<Rightarrow> fields \<Rightarrow> fields \<times> bool" where
  "zero_each f [] = ([], False)"
| "zero_each f ((k, v) # m) =
     (case (f v, zero_each f m) of ((v', c), (m', c')) \<Rightarrow> ((k, v') # m', c \<or> c'))"

definition zero_tenant :: "json \<Rightarrow> json \<times> bool" where
  "zero_tenant t = (case t of JObj gs \<Rightarrow> map_prod JObj id (zero_each zero_group gs) | _ \<Rightarrow> (t, False))"

definition zero_doc :: "fields \<Rightarrow> fields \<times> bool" where
  "zero_doc doc =
     (case map_of doc ''groups'' of
        Some (JObj ts) \<Rightarrow> map_prod (\<lambda>ts'. put_key ''groups'' (JObj ts') doc) id (zero_each zero_tenant ts)
      | _ \<Rightarrow> (doc, False))"

definition zeroShardConfig :: "(string \<Rightarrow> json option) \<Rightarrow> (json \<Rightarrow> string result) \<Rightarrow> string \<Rightarrow> (string \<times> bool) result" where
  "zeroShardConfig parse indent raw =
     (case parse raw of
        Some (JObj doc) \<Rightarrow>
          if \<not> snd (zero_doc doc) then Inr (raw, False)
          else map_sum (Wrapf ''marshal shard config: %w'' []) (\<lambda>s. (s, True)) (indent (JObj (fst (zero_doc doc))))
      | Some JNull \<Rightarrow> Inr (raw, False)
      | _ \<Rightarrow> Inl (Wrapf ''parse shard config: %w'' [] (Sentinel ''json'')))"

text \<open>
  Rewriting an object: the new content is put only when the object still has the tag that came with the
  content that was read. Others may change objects between the two requests.
\<close>

definition object_err :: "denv \<Rightarrow> string \<Rightarrow> string \<Rightarrow> string \<Rightarrow> goerr \<Rightarrow> goerr" where
  "object_err env verb bucket key = Wrapf (verb @ '' '' @ de_scheme env @ ''://%s/%s: %w'') [S bucket, S key]"

definition put_if_match :: "denv \<Rightarrow> string \<Rightarrow> string \<Rightarrow> nat \<Rightarrow> string \<Rightarrow> (dworld, unit) op" where
  "put_if_match env bucket key etag next w =
     (let w1 = w\<lparr>dw_objects := de_others env (dw_log w) (dw_objects w)\<rparr> in
      case de_fault env (dw_log w1) (PutObject bucket key next) of
        Some e \<Rightarrow> (Inl (object_err env ''put'' bucket key e), w1)
      | None \<Rightarrow>
          if map_option snd (dw_objects w1 (bucket, key)) \<noteq> Some etag
          then (Inl (object_err env ''put'' bucket key (Sentinel ''precondition failed'')), w1)
          else (Inr (), noted (PutObject bucket key next)
            (w1\<lparr>dw_objects := (dw_objects w1)((bucket, key) \<mapsto> (next, Suc etag))\<rparr>)))"

definition UpdateObject ::
    "denv \<Rightarrow> string \<Rightarrow> string \<Rightarrow> (string \<Rightarrow> (string \<times> bool) result) \<Rightarrow> (dworld, unit) op" where
  "UpdateObject env bucket key update =
     bindS (wrapS (''get '' @ de_scheme env @ ''://%s/%s: %w'') [S bucket, S key] (attempt env (GotObject bucket key)))
       (\<lambda>_ w.
         (case dw_objects w (bucket, key) of
            None \<Rightarrow> (Inl (object_err env ''get'' bucket key (Sentinel ''not found'')), w)
          | Some (body, etag) \<Rightarrow>
              (let w1 = noted (HadObject bucket key body) w in
               case update body of
                 Inl e \<Rightarrow> (Inl e, w1)
               | Inr (next, changed) \<Rightarrow> if \<not> changed then (Inr (), w1) else put_if_match env bucket key etag next w1)))"

section \<open>The outputs of the stack\<close>

record shard_output =
  so_config_key :: string

record stack_outputs =
  ot_bucket :: string
  ot_shards :: "shard_output gomap"

definition decode_shard :: "shard_output decoder" where
  "decode_shard = decode_struct [(''config_key'', field_of so_config_key so_config_key_update decode_str)]"

definition decode_outputs :: "stack_outputs decoder" where
  "decode_outputs = decode_struct
     [(''nstance_bucket'', decode_struct [(''value'', field_of ot_bucket ot_bucket_update decode_str)]),
      (''nstance_shards'', decode_struct
         [(''value'', field_of ot_shards ot_shards_update (decode_gomap decode_shard \<lparr>so_config_key = []\<rparr>))])]"

definition regenerate :: string where
  "regenerate = ''rerun podplane cluster create --no-apply to regenerate managed .tf files and apply them''"

definition parseOutputs :: "(string \<Rightarrow> json option) \<Rightarrow> string \<Rightarrow> (string \<times> string gomap) result" where
  "parseOutputs parse raw =
     (case Option.bind (parse raw) (\<lambda>v. decode_outputs v \<lparr>ot_bucket = [], ot_shards = []\<rparr>) of
        None \<Rightarrow> Inl (Wrapf ''parse OpenTofu/Terraform outputs: %w'' [] (Sentinel ''json''))
      | Some outs \<Rightarrow>
          if ot_bucket outs = [] then Inl (Errorf ''missing nstance_bucket output; %s'' [S regenerate])
          else if ot_shards outs = [] then Inl (Errorf ''missing nstance_shards output; %s'' [S regenerate])
          else (case find (\<lambda>(shard, out). so_config_key out = []) (ot_shards outs) of
              Some (shard, out) \<Rightarrow> Inl (Errorf ''shard %s has empty config_key output'' [S shard])
            | None \<Rightarrow> Inr (ot_bucket outs, map (map_prod id so_config_key) (ot_shards outs))))"

section \<open>Waiting for instances\<close>

definition deadline_exceeded :: goerr where
  "deadline_exceeded = Sentinel ''context deadline exceeded''"

definition ctx_err :: "denv \<Rightarrow> int \<Rightarrow> gerror" where
  "ctx_err env now = (case de_ended env of Some (t, e) \<Rightarrow> if t \<le> now then Some e else None | None \<Rightarrow> None)"

text \<open>The context of the wait ends at its deadline, or with its parent when that ends first.\<close>

definition wait_stop :: "denv \<Rightarrow> int \<Rightarrow> int" where
  "wait_stop env deadline = (case de_ended env of Some (t, e) \<Rightarrow> min t deadline | None \<Rightarrow> deadline)"

definition wait_err :: "denv \<Rightarrow> int \<Rightarrow> int \<Rightarrow> gerror" where
  "wait_err env deadline now =
     (if now < wait_stop env deadline then None
      else case de_ended env of
        Some (t, e) \<Rightarrow> Some (if t \<le> deadline then e else deadline_exceeded)
      | None \<Rightarrow> Some deadline_exceeded)"

text \<open>
  One round of the loop: its answer, or the list with which the next round begins. When the context has
  ended by the time the timer fires, \<open>select\<close> may pick either.
\<close>

definition after_listing :: "denv \<Rightarrow> int \<Rightarrow> int \<Rightarrow> vm_instance list \<Rightarrow> dworld \<Rightarrow> (vm_instance list result + vm_instance list) \<times> dworld" where
  "after_listing env deadline interval instances w =
     (let done_at = max (dw_clock w) (wait_stop env deadline);
          timer_at = dw_clock w + max 0 interval
      in if timer_at < done_at \<or> timer_at = done_at \<and> de_pick env (dw_log w)
         then (Inr instances, w\<lparr>dw_clock := timer_at\<rparr>)
         else (Inl (case ctx_err env done_at of Some e \<Rightarrow> Inl e | None \<Rightarrow> Inr instances), w\<lparr>dw_clock := done_at\<rparr>))"

definition wait_round :: "denv \<Rightarrow> int \<Rightarrow> int \<Rightarrow> vm_instance list \<Rightarrow> dworld \<Rightarrow> (vm_instance list result + vm_instance list) \<times> dworld" where
  "wait_round env deadline interval remaining w =
     (case ManagedInstances env w of (r, w1) \<Rightarrow>
        case ctx_err env (dw_clock w1) of
          Some e \<Rightarrow> (Inl (Inl e), w1)
        | None \<Rightarrow>
            (case r of
               Inl e \<Rightarrow>
                 if wait_err env deadline (dw_clock w1) = Some deadline_exceeded \<and> errors_is e deadline_exceeded \<and> remaining \<noteq> []
                 then (Inl (Inr remaining), w1) else (Inl (Inl e), w1)
             | Inr instances \<Rightarrow>
                 if instances = [] then (Inl (Inr []), w1) else after_listing env deadline interval instances w1))"

partial_function (option) wait_loop :: "denv \<Rightarrow> int \<Rightarrow> int \<Rightarrow> vm_instance list \<Rightarrow> dworld \<Rightarrow> (vm_instance list result \<times> dworld) option" where
  "wait_loop env deadline interval remaining w =
     (case wait_round env deadline interval remaining w of
        (Inl r, w1) \<Rightarrow> Some (r, w1)
      | (Inr instances, w1) \<Rightarrow> wait_loop env deadline interval instances w1)"

declare wait_loop.simps [code]

definition waitForManagedInstances :: "denv \<Rightarrow> int \<Rightarrow> int \<Rightarrow> dworld \<Rightarrow> (vm_instance list result \<times> dworld) option" where
  "waitForManagedInstances env timeout interval w = wait_loop env (dw_clock w + timeout) interval [] w"

section \<open>The workflow\<close>

record delete_options =
  do_config :: "cluster_config option"
  do_executor :: bool
  do_provider :: bool
  do_confirm :: bool
  do_timeout :: int
  do_interval :: int

fun scale_shards :: "denv \<Rightarrow> string \<Rightarrow> (string \<times> string) list \<Rightarrow> (dworld, unit) op" where
  "scale_shards env bucket [] = liftS (Inr ())"
| "scale_shards env bucket ((shard, key) # shards) =
     bindS (wrapS ''scale shard %s groups to zero: %w'' [S shard]
         (UpdateObject env bucket key (zeroShardConfig (de_parse env) (de_indent env))))
       (\<lambda>_. scale_shards env bucket shards)"

definition remaining_msg :: string where
  "remaining_msg = ''Terminate remaining Nstance-managed instances directly before destroy?''"

definition destroy_msg :: string where
  "destroy_msg = ''Destroy OpenTofu/Terraform-managed resources?''"

definition dangling_msg :: string where
  "dangling_msg = ''Terminate dangling Nstance-managed instances?''"

definition scale_down :: "denv \<Rightarrow> (dworld, unit) op" where
  "scale_down env =
     bindS (attempt env ReadOutputs) (\<lambda>_.
     bindS (liftS (bindR (de_outputs env) (parseOutputs (de_parse env)))) (\<lambda>(bucket, shards).
     bindS (status ''Scaling Nstance-managed groups to zero in shard configs.'' []) (\<lambda>_.
     bindS (scale_shards env bucket (canon_map shards)) (\<lambda>_.
     status ''Waiting for Nstance-managed instances to terminate.'' []))))"

definition terminate_remaining :: "denv \<Rightarrow> vm_instance list \<Rightarrow> (dworld, unit) op" where
  "terminate_remaining env remaining =
     bindS (status ''Nstance-managed instances are still present after scale-down: %s'' [S (formatInstances remaining)]) (\<lambda>_.
     bindS (ask env remaining_msg) (\<lambda>ok.
     if \<not> ok then liftS (Inl (Errorf ''%d Nstance-managed instance(s) still present'' [I (int (length remaining))]))
     else attempt env (Terminated remaining)))"

definition destroy_stack :: "denv \<Rightarrow> string \<Rightarrow> (dworld, unit) op" where
  "destroy_stack env clusterID =
     bindS (ask env destroy_msg) (\<lambda>ok.
     if \<not> ok then liftS (Inl (Errorf ''destroy cancelled'' []))
     else bindS (attempt env Destroyed) (\<lambda>_.
       bindS (ManagedInstances env) (\<lambda>dangling.
       if dangling = [] then liftS (Inr ())
       else bindS (status ''Found dangling Nstance-managed instances for cluster %q: %s''
             [S clusterID, S (formatInstances dangling)]) (\<lambda>_.
           bindS (ask env dangling_msg) (\<lambda>ok.
           if \<not> ok then liftS (Inr ()) else attempt env (Terminated dangling))))))"

text \<open>A step after a wait; the whole is \<open>None\<close> when a wait does not end.\<close>

definition after_wait :: "denv \<Rightarrow> delete_options \<Rightarrow> (vm_instance list \<Rightarrow> dworld \<Rightarrow> (unit result \<times> dworld) option) \<Rightarrow>
    dworld \<Rightarrow> (unit result \<times> dworld) option" where
  "after_wait env opts f w =
     (case waitForManagedInstances env (do_timeout opts) (do_interval opts) w of
        None \<Rightarrow> None
      | Some (Inl e, w1) \<Rightarrow> Some (Inl e, w1)
      | Some (Inr remaining, w1) \<Rightarrow> f remaining w1)"

definition drained :: "denv \<Rightarrow> string \<Rightarrow> vm_instance list \<Rightarrow> dworld \<Rightarrow> (unit result \<times> dworld) option" where
  "drained env clusterID remaining w =
     (if remaining \<noteq> []
      then Some (Inl (Errorf ''timed out waiting for %d Nstance-managed instance(s) to terminate: %s''
             [I (int (length remaining)), S (formatInstances remaining)]), w)
      else Some (destroy_stack env clusterID w))"

definition first_wait :: "denv \<Rightarrow> delete_options \<Rightarrow> string \<Rightarrow> vm_instance list \<Rightarrow> dworld \<Rightarrow> (unit result \<times> dworld) option" where
  "first_wait env opts clusterID remaining w =
     (if remaining = [] then Some (destroy_stack env clusterID w)
      else case terminate_remaining env remaining w of
        (Inl e, w1) \<Rightarrow> Some (Inl e, w1)
      | (Inr _, w1) \<Rightarrow> after_wait env opts (drained env clusterID) w1)"

definition Delete :: "denv \<Rightarrow> delete_options \<Rightarrow> dworld \<Rightarrow> (unit result \<times> dworld) option" where
  "Delete env opts w =
     (case do_config opts of
        None \<Rightarrow> Some (Inl (Errorf ''cluster config is required'' []), w)
      | Some cfg \<Rightarrow>
          if \<not> do_executor opts then Some (Inl (Errorf ''OpenTofu/Terraform executor is required'' []), w)
          else if \<not> do_provider opts then Some (Inl (Errorf ''cluster delete provider is required'' []), w)
          else if \<not> do_confirm opts then Some (Inl (Errorf ''confirmation callback is required'' []), w)
          else (case scale_down env w of
              (Inl e, w1) \<Rightarrow> Some (Inl e, w1)
            | (Inr _, w1) \<Rightarrow> after_wait env opts (first_wait env opts (cl_id (cc_cluster cfg))) w1))"

end
