(* ===== verification/ClusterDeleteProps.thy ===== *)
theory ClusterDeleteProps
  imports ClusterDelete
begin

text \<open>
  What deleting a cluster promises: polling ends, nothing is destroyed or terminated without the state it
  presupposes, shard configurations only lose their sizes.
\<close>

section \<open>The order of events\<close>

fun latest :: "devent list \<Rightarrow> vm_instance list option" where
  "latest [] = None"
| "latest (ev # l) = (case ev of Listed xs \<Rightarrow> Some xs | _ \<Rightarrow> latest l)"

definition last_listing :: "devent list \<Rightarrow> vm_instance list option" where
  "last_listing l = latest (rev l)"

lemma last_listing_Nil [simp]: "last_listing [] = None"
  by (simp add: last_listing_def)

lemma last_listing_snoc [simp]:
  "last_listing (l @ [ev]) = (case ev of Listed xs \<Rightarrow> Some xs | _ \<Rightarrow> last_listing l)"
  "last_listing (l @ [ev1, ev]) = (case ev of Listed xs \<Rightarrow> Some xs | _ \<Rightarrow> last_listing (l @ [ev1]))"
  by (cases ev; simp add: last_listing_def)+

text \<open>The shard configuration below a key was read and all its sizes are zero, or were replaced by zero.\<close>

definition scaled :: "denv \<Rightarrow> devent list \<Rightarrow> string \<Rightarrow> string \<Rightarrow> bool" where
  "scaled env l bucket key \<longleftrightarrow> (\<exists>body next changed.
     HadObject bucket key body \<in> set l \<and> zeroShardConfig (de_parse env) (de_indent env) body = Inr (next, changed) \<and>
     (changed \<longrightarrow> PutObject bucket key next \<in> set l))"


definition all_scaled :: "denv \<Rightarrow> devent list \<Rightarrow> bool" where
  "all_scaled env l \<longleftrightarrow> (\<exists>bucket shards.
     bindR (de_outputs env) (parseOutputs (de_parse env)) = Inr (bucket, shards) \<and>
     (\<forall>shard key. map_of shards shard = Some key \<longrightarrow> scaled env l bucket key))"


text \<open>What must have happened before an event.\<close>

fun guard :: "denv \<Rightarrow> devent list \<Rightarrow> devent \<Rightarrow> bool" where
  "guard env l Destroyed \<longleftrightarrow>
     all_scaled env l \<and> last_listing l = Some [] \<and> (\<exists>l'. l = l' @ [Answered destroy_msg True])"
| "guard env l (Terminated xs) \<longleftrightarrow>
     xs \<noteq> [] \<and> last_listing l = Some xs \<and>
     (\<exists>l' msg. l = l' @ [Answered msg True] \<and> msg \<in> {remaining_msg, dangling_msg})"
| "guard env l _ \<longleftrightarrow> True"

definition guarded :: "denv \<Rightarrow> devent list \<Rightarrow> bool" where
  "guarded env l \<longleftrightarrow> (\<forall>n < length l. guard env (take n l) (l ! n))"

lemma guarded_Nil [simp]: "guarded env []"
  by (simp add: guarded_def)

lemma guarded_snoc [simp]: "guarded env (l @ [ev]) \<longleftrightarrow> guarded env l \<and> guard env l ev"
  by (auto simp: guarded_def less_Suc_eq nth_append)

section \<open>Steps that only look\<close>

text \<open>Requests for the instances, answers and messages guard nothing and keep the objects.\<close>

fun quiet :: "devent \<Rightarrow> bool" where
  "quiet Destroyed \<longleftrightarrow> False"
| "quiet (Terminated xs) \<longleftrightarrow> False"
| "quiet _ \<longleftrightarrow> True"


definition looks :: "dworld \<Rightarrow> dworld \<Rightarrow> bool" where
  "looks w w' \<longleftrightarrow> (\<exists>ext. dw_log w' = dw_log w @ ext \<and> (\<forall>ev \<in> set ext. quiet ev))"




lemma looks_refl [simp]: "looks w w"
  by (simp add: looks_def)

lemma looks_trans: "looks a b \<Longrightarrow> looks b c \<Longrightarrow> looks a c"
  by (fastforce simp: looks_def)

lemma looks_noted [simp]: "quiet ev \<Longrightarrow> looks w w' \<Longrightarrow> looks w (noted ev w')"
  by (auto simp: looks_def noted_def)

lemma looks_clock [simp]: "looks w (w'\<lparr>dw_clock := t\<rparr>) \<longleftrightarrow> looks w w'" "looks w (w'\<lparr>dw_objects := obs\<rparr>) \<longleftrightarrow> looks w w'"
  by (simp_all add: looks_def)

lemma log_noted [simp]: "dw_log (noted ev w) = dw_log w @ [ev]"
  by (simp add: noted_def)

section \<open>Polling\<close>

lemma managed_looks: "ManagedInstances env w = (r, w') \<Longrightarrow> looks w w'"
  by (auto simp: ManagedInstances_def looks_def split: prod.splits sum.splits)

lemma managed_listing:
  "ManagedInstances env w = (Inr xs, w') \<Longrightarrow> last_listing (dw_log w') = Some xs"
  "ManagedInstances env w = (Inl e, w') \<Longrightarrow> last_listing (dw_log w') = last_listing (dw_log w)"
  by (auto simp: ManagedInstances_def split: prod.splits sum.splits)

lemma round_looks: "wait_round env deadline interval remaining w = (r, w') \<Longrightarrow> looks w w'"
  by (auto simp: wait_round_def after_listing_def Let_def dest!: managed_looks split: prod.splits option.splits sum.splits if_splits)

lemma round_listing:
  assumes "wait_round env deadline interval remaining w = (r, w')" "remaining \<noteq> [] \<Longrightarrow> last_listing (dw_log w) = Some remaining"
  shows "case r of Inl (Inl e) \<Rightarrow> True
    | Inl (Inr xs) \<Rightarrow> last_listing (dw_log w') = Some xs \<and> (xs \<noteq> [] \<longrightarrow> deadline \<le> dw_clock w')
    | Inr xs \<Rightarrow> last_listing (dw_log w') = Some xs \<and> xs \<noteq> []"
  using assms
  by (auto simp: wait_round_def after_listing_def wait_err_def wait_stop_def ctx_err_def Let_def min_def max_def
      dest: managed_listing split: prod.splits option.splits sum.splits if_splits)

text \<open>What a wait that ends has done.\<close>

definition waited :: "int \<Rightarrow> dworld \<Rightarrow> vm_instance list result \<times> dworld \<Rightarrow> bool" where
  "waited deadline w y \<longleftrightarrow> looks w (snd y) \<and> (\<forall>xs. fst y = Inr xs \<longrightarrow>
     last_listing (dw_log (snd y)) = Some xs \<and> (xs \<noteq> [] \<longrightarrow> deadline \<le> dw_clock (snd y)))"

lemma wait_loop_waited:
  assumes "wait_loop env deadline interval remaining w = Some y"
    "remaining \<noteq> [] \<Longrightarrow> last_listing (dw_log w) = Some remaining"
  shows "waited deadline w y"
proof -
  have "(remaining \<noteq> [] \<longrightarrow> last_listing (dw_log w) = Some remaining) \<longrightarrow> waited deadline w y"
  proof (rule wait_loop.raw_induct [OF _ assms(1), where P = "\<lambda>env deadline interval remaining w y.
      (remaining \<noteq> [] \<longrightarrow> last_listing (dw_log w) = Some remaining) \<longrightarrow> waited deadline w y"], goal_cases)
    case (1 loop env deadline interval remaining w y)
    obtain r w1 where rnd: "wait_round env deadline interval remaining w = (r, w1)" by fastforce
    note looks = round_looks [OF rnd]
    show ?case
    proof
      assume known: "remaining \<noteq> [] \<longrightarrow> last_listing (dw_log w) = Some remaining"
      note listing = round_listing [OF rnd, rule_format, OF known [rule_format]]
      show "waited deadline w y"
      proof (cases r)
        case (Inl a)
        with 1(2) rnd have "y = (a, w1)" by simp
        with Inl looks listing show ?thesis by (cases a) (auto simp: waited_def)
      next
        case (Inr xs)
        with 1(2) rnd have "loop env deadline interval xs w1 = Some y" by simp
        from 1(1) [OF this] Inr listing have "waited deadline w1 y" by simp
        with looks looks_trans show ?thesis unfolding waited_def by blast
      qed
    qed
  qed
  with assms(2) show ?thesis by simp
qed

section \<open>Polling ends\<close>

definition polls :: "dworld \<Rightarrow> nat" where
  "polls w = count_list (dw_log w) Listing"

lemma managed_clock: "ManagedInstances env w = (r, w') \<Longrightarrow> dw_clock w \<le> dw_clock w' \<and> polls w' = Suc (polls w)"
  by (auto simp: ManagedInstances_def polls_def split: prod.splits sum.splits)

lemma round_clock:
  assumes "wait_round env deadline interval remaining w = (r, w')"
  shows "polls w' = Suc (polls w)"
    and "r = Inr xs \<Longrightarrow> 0 < interval \<Longrightarrow> dw_clock w + interval \<le> dw_clock w' \<and> dw_clock w' \<le> deadline"
proof -
  obtain l w1 where m: "ManagedInstances env w = (l, w1)" by fastforce
  note clock = managed_clock [OF m]
  have "dw_log w' = dw_log w1"
    using assms m by (auto simp: wait_round_def after_listing_def Let_def split: option.splits sum.splits if_splits)
  with clock show "polls w' = Suc (polls w)" by (simp add: polls_def)
  assume "r = Inr xs" "0 < interval"
  then have "l = Inr xs" "dw_clock w' = dw_clock w1 + interval" "dw_clock w' \<le> max (dw_clock w1) (wait_stop env deadline)"
    using assms m by (auto simp: wait_round_def after_listing_def Let_def split: option.splits sum.splits if_splits)
  moreover have "wait_stop env deadline \<le> deadline" by (simp add: wait_stop_def split: option.split)
  ultimately show "dw_clock w + interval \<le> dw_clock w' \<and> dw_clock w' \<le> deadline"
    using clock \<open>0 < interval\<close> by linarith
qed

lemma wait_loop_ends:
  assumes "0 < interval"
  shows "\<exists>r w'. wait_loop env deadline interval remaining w = Some (r, w') \<and>
    polls w' \<le> Suc (polls w + nat ((deadline - dw_clock w) div interval))"
proof (induction "nat (deadline - dw_clock w)" arbitrary: w remaining rule: less_induct)
  case less
  obtain r w1 where rnd: "wait_round env deadline interval remaining w = (r, w1)" by fastforce
  show ?case
  proof (cases r)
    case (Inl a)
    with rnd show ?thesis by (simp add: wait_loop.simps [of env deadline interval remaining w] round_clock(1))
  next
    case (Inr xs)
    note clock = round_clock(2) [OF rnd Inr assms]
    have "nat (deadline - dw_clock w1) < nat (deadline - dw_clock w)" using clock assms by linarith
    from less [OF this, of xs] obtain r' w' where ih: "wait_loop env deadline interval xs w1 = Some (r', w')"
      "polls w' \<le> Suc (polls w1 + nat ((deadline - dw_clock w1) div interval))" by blast
    have "(deadline - dw_clock w1) div interval \<le> (deadline - dw_clock w - interval) div interval"
      using clock assms by (intro zdiv_mono1) auto
    also have "\<dots> = (deadline - dw_clock w) div interval - 1"
      using assms div_add_self2 [of interval "deadline - dw_clock w - interval"] by simp
    finally have "Suc (nat ((deadline - dw_clock w1) div interval)) \<le> nat ((deadline - dw_clock w) div interval)"
      using clock assms pos_imp_zdiv_nonneg_iff [of interval "deadline - dw_clock w1"] by linarith
    with ih rnd Inr round_clock(1) [OF rnd] show ?thesis
      by (simp add: wait_loop.simps [of env deadline interval remaining w])
  qed
qed

text \<open>C22: polling.\<close>

theorem polling_ends:
  assumes "0 < interval"
  shows "\<exists>r w'. waitForManagedInstances env timeout interval w = Some (r, w') \<and>
    polls w' \<le> Suc (polls w + nat (timeout div interval)) \<and>
    (\<forall>xs. r = Inr xs \<longrightarrow> last_listing (dw_log w') = Some xs \<and> (xs \<noteq> [] \<longrightarrow> dw_clock w + timeout \<le> dw_clock w'))"
proof -
  obtain r w' where ends: "wait_loop env (dw_clock w + timeout) interval [] w = Some (r, w')"
    "polls w' \<le> Suc (polls w + nat ((dw_clock w + timeout - dw_clock w) div interval))"
    using wait_loop_ends [OF assms] by blast
  with wait_loop_waited [OF ends(1)] show ?thesis
    by (simp add: waitForManagedInstances_def waited_def)
qed

section \<open>Scaling down\<close>

text \<open>Operations that only look, whatever they answer.\<close>

definition looking :: "(dworld, 'a) op \<Rightarrow> bool" where
  "looking m \<longleftrightarrow> (\<forall>w. looks w (snd (m w)))"

lemma looking_bindS [simp]: "looking m \<Longrightarrow> (\<And>x. looking (f x)) \<Longrightarrow> looking (bindS m f)"
  unfolding looking_def
  by (rule allI, rule_tac P = "looks w" in bindS_preserves) (auto intro: looks_trans)

lemma looking_simps [simp]:
  "looking (liftS r)"
  "looking m \<Longrightarrow> looking (wrapS f as m)"
  "quiet ev \<Longrightarrow> looking (attempt env ev)"
  "looking (status f as)"
  "looking (ask env msg)"
  by (simp_all add: looking_def attempt_def status_def ask_def split: option.split sum.split)

lemma looking_put [simp]: "looking (put_if_match env bucket key etag next)"
  by (simp add: looking_def put_if_match_def Let_def split: option.split)

lemma looking_managed [simp]: "looking (ManagedInstances env)"
  unfolding looking_def by (intro allI managed_looks) (rule surjective_pairing)

lemma looking_update [simp]: "looking (UpdateObject env bucket key f)"
proof -
  have put: "looks w (snd (put_if_match env bucket key etag nxt (noted (HadObject bucket key body) w)))" for etag nxt body w
    by (rule looks_trans [of _ "noted (HadObject bucket key body) w"])
      (use looking_put in \<open>simp_all add: looking_def\<close>)
  show ?thesis
    unfolding UpdateObject_def
    by (intro looking_bindS looking_simps) (simp_all add: looking_def Let_def put split: option.split sum.split)
qed









section \<open>Destroying\<close>














lemma after_wait_ends:
  assumes "0 < do_interval opts" "\<And>xs w1. \<exists>y. f xs w1 = Some y"
  shows "\<exists>y. after_wait env opts f w = Some y"
proof -
  obtain r w1 where "waitForManagedInstances env (do_timeout opts) (do_interval opts) w = Some (r, w1)"
    using wait_loop_ends [OF assms(1)] unfolding waitForManagedInstances_def by blast
  with assms(2) show ?thesis by (cases r) (simp_all add: after_wait_def)
qed

text \<open>the workflow ends.\<close>

theorem delete_returns: "0 < do_interval opts \<Longrightarrow> \<exists>r w'. Delete env opts w = Some (r, w')"
proof -
  assume iv: "0 < do_interval opts"
  have "\<exists>y. drained env cid xs w1 = Some y" for cid xs w1 by (simp add: drained_def)
  then have "\<exists>y. after_wait env opts (drained env cid) w1 = Some y" for cid w1 by (rule after_wait_ends [OF iv])
  then have "\<exists>y. first_wait env opts cid xs w1 = Some y" for cid xs w1
    by (simp add: first_wait_def split: prod.split sum.split)
  then have "\<exists>y. after_wait env opts (first_wait env opts cid) w1 = Some y" for cid w1 by (rule after_wait_ends [OF iv])
  then have "\<exists>y. Delete env opts w = Some y" by (simp add: Delete_def split: option.split prod.split sum.split)
  then show ?thesis by fastforce
qed

section \<open>Shard configurations\<close>

definition sizes_zero :: "fields \<Rightarrow> bool" where
  "sizes_zero doc \<longleftrightarrow> (\<forall>t g kvs. value_at [''groups'', t, g] (JObj doc) = Some (JObj kvs) \<longrightarrow> map_of kvs ''size'' = Some (JNum 0))"

lemma map_of_zero_each: "map_of (fst (zero_each f m)) k = map_option (fst \<circ> f) (map_of m k)"
  by (induction f m rule: zero_each.induct) (auto split: prod.split)

lemma changed_zero_each: "snd (zero_each f m) \<longleftrightarrow> (\<exists>(k, v) \<in> set m. snd (f v))"
  by (induction f m rule: zero_each.induct) (auto split: prod.split)

lemma zero_each_same: "(\<And>v. \<not> snd (f v) \<Longrightarrow> fst (f v) = v) \<Longrightarrow> \<not> snd (zero_each f m) \<Longrightarrow> fst (zero_each f m) = m"
  by (induction f m rule: zero_each.induct) (auto simp: case_prod_beta)

lemma zero_each_again:
  assumes "\<And>v. f (fst (f v)) = (fst (f v), False)"
  shows "zero_each f (fst (zero_each f m)) = (fst (zero_each f m), False)"
  using assms by (induction m) (auto simp: case_prod_beta)

lemma zero_group_facts:
  "\<not> snd (zero_group v) \<Longrightarrow> fst (zero_group v) = v"
  "zero_group (fst (zero_group v)) = (fst (zero_group v), False)"
  "snd (zero_group v) \<longleftrightarrow> (\<exists>kvs. v = JObj kvs \<and> map_of kvs ''size'' \<noteq> Some (JNum 0))"
  by (auto simp: zero_group_def split: json.split)

lemma zero_tenant_facts:
  "\<not> snd (zero_tenant v) \<Longrightarrow> fst (zero_tenant v) = v"
  "zero_tenant (fst (zero_tenant v)) = (fst (zero_tenant v), False)"
  "snd (zero_tenant v) \<longleftrightarrow> (\<exists>gs. v = JObj gs \<and> (\<exists>(k, g) \<in> set gs. snd (zero_group g)))"
  by (auto simp: zero_tenant_def zero_each_same zero_group_facts(1,2) zero_each_again changed_zero_each split: json.split)

text \<open>The values below the keys of a document whose sizes became zero.\<close>

lemma at_Cons: "value_at (k # ks) j = Option.bind (value_at [k] j) (value_at ks)"
  using at_append [of "[k]" ks j] by simp

lemma at_zero_tenant: "value_at [k] (fst (zero_tenant t)) = map_option (fst \<circ> zero_group) (value_at [k] t)"
  by (cases t) (simp_all add: zero_tenant_def map_of_zero_each split: bind_split)

lemma at_zero_group:
  "value_at [k] (fst (zero_group v)) = (if is_obj v \<and> k = ''size'' then Some (JNum 0) else value_at [k] v)"
  by (cases v) (auto simp: zero_group_def split: bind_split)

lemma zero_not_obj: "is_obj (fst (zero_group v)) = is_obj v" "is_obj (fst (zero_tenant v)) = is_obj v"
  by (cases v; simp add: zero_group_def zero_tenant_def)+

lemma at_zero_doc:
  "k \<noteq> ''groups'' \<Longrightarrow> value_at (k # ks) (JObj (fst (zero_doc doc))) = value_at (k # ks) (JObj doc)"
  "value_at [''groups'', t] (JObj (fst (zero_doc doc))) = map_option (fst \<circ> zero_tenant) (value_at [''groups'', t] (JObj doc))"
  by (auto simp: zero_doc_def map_of_zero_each split: option.split json.split bind_split)

lemma at_zero_groups:
  "value_at [''groups'', t, g] (JObj (fst (zero_doc doc))) = map_option (fst \<circ> zero_group) (value_at [''groups'', t, g] (JObj doc))"
proof -
  have split: "value_at [''groups'', t, g] j = Option.bind (value_at [''groups'', t] j) (value_at [g])" for j
    using at_append [of "[''groups'', t]" "[g]" j] by simp
  show ?thesis by (simp only: split at_zero_doc(2)) (simp add: at_zero_tenant split: bind_split)
qed

text \<open>What is not an object and not the size of a group stays.\<close>

definition same_but_sizes :: "fields \<Rightarrow> fields \<Rightarrow> bool" where
  "same_but_sizes doc doc' \<longleftrightarrow> (\<forall>ks v. \<not> is_obj v \<longrightarrow> (\<nexists>t g rest. ks = [''groups'', t, g, ''size''] @ rest) \<longrightarrow>
     value_at ks (JObj doc') = Some v \<longleftrightarrow> value_at ks (JObj doc) = Some v)"

lemma leaf_map: "(\<And>x. is_obj (f x) = is_obj x) \<Longrightarrow> (\<And>x. \<not> is_obj x \<Longrightarrow> f x = x) \<Longrightarrow> \<not> is_obj v \<Longrightarrow>
    map_option f y = Some v \<longleftrightarrow> y = Some v"
  by (cases y) auto

lemma zero_keeps_leaf: "\<not> is_obj x \<Longrightarrow> fst (zero_group x) = x" "\<not> is_obj x \<Longrightarrow> fst (zero_tenant x) = x"
  by (cases x; simp add: zero_group_def zero_tenant_def)+

lemma zero_doc_leaves: "same_but_sizes doc (fst (zero_doc doc))"
  unfolding same_but_sizes_def
proof (intro allI impI)
  fix ks v assume leaf: "\<not> is_obj v" and apart: "\<nexists>t g rest. ks = [''groups'', t, g, ''size''] @ rest"
  let ?d = "JObj doc" and ?d' = "JObj (fst (zero_doc doc))"
  consider "ks = []" | k rest where "ks = k # rest" "k \<noteq> ''groups''" | "ks = [''groups'']" | t where "ks = [''groups'', t]"
    | t g where "ks = [''groups'', t, g]" | t g k rest where "ks = [''groups'', t, g] @ k # rest"
    by (cases ks; cases "tl ks"; cases "tl (tl ks)"; cases "tl (tl (tl ks))") auto
  then show "value_at ks ?d' = Some v \<longleftrightarrow> value_at ks ?d = Some v"
  proof cases
    case 1
    with leaf show ?thesis by auto
  next
    case (2 k rest)
    show ?thesis unfolding 2(1) at_zero_doc(1) [OF 2(2)] ..
  next
    case 3
    with leaf show ?thesis by (auto simp: zero_doc_def split: option.splits json.splits)
  next
    case (4 t)
    have "\<not> is_obj x \<Longrightarrow> (fst \<circ> zero_tenant) x = x" "is_obj ((fst \<circ> zero_tenant) x) = is_obj x" for x
      by (simp_all add: zero_keeps_leaf zero_not_obj)
    then show ?thesis unfolding 4 at_zero_doc(2) by (intro leaf_map leaf)
  next
    case (5 t g)
    have "\<not> is_obj x \<Longrightarrow> (fst \<circ> zero_group) x = x" "is_obj ((fst \<circ> zero_group) x) = is_obj x" for x
      by (simp_all add: zero_keeps_leaf zero_not_obj)
    then show ?thesis unfolding 5 at_zero_groups by (intro leaf_map leaf)
  next
    case (6 t g k rest)
    with apart have "k \<noteq> ''size''" by auto
    then have "value_at (k # rest) (fst (zero_group x)) = value_at (k # rest) x" for x
      by (simp only: at_Cons [of k rest] at_zero_group) simp
    then show ?thesis unfolding 6 at_append at_zero_groups by (cases "value_at [''groups'', t, g] ?d") auto
  qed
qed

lemma zero_group_size: "fst (zero_group v) = JObj kvs \<Longrightarrow> map_of kvs ''size'' = Some (JNum 0)"
  by (cases v) (auto simp: zero_group_def split: if_splits)

lemma zero_doc_sizes: "sizes_zero (fst (zero_doc doc))"
  unfolding sizes_zero_def at_zero_groups by (auto dest: zero_group_size)

lemma json_ok_member: "json_ok (JObj m) \<Longrightarrow> (k, v) \<in> set m \<Longrightarrow> map_of m k = Some v \<and> json_ok v"
  by (auto simp: list_all_iff)

lemma zero_doc_changed:
  assumes "json_ok (JObj doc)"
  shows "snd (zero_doc doc) \<longleftrightarrow> \<not> sizes_zero doc"
proof -
  have "snd (zero_doc doc) \<longleftrightarrow> (\<exists>ts. map_of doc ''groups'' = Some (JObj ts) \<and> (\<exists>(t, v) \<in> set ts. \<exists>gs. v = JObj gs \<and>
      (\<exists>(g, u) \<in> set gs. \<exists>kvs. u = JObj kvs \<and> map_of kvs ''size'' \<noteq> Some (JNum 0))))" (is "_ \<longleftrightarrow> ?changed")
    by (auto simp: zero_doc_def changed_zero_each zero_tenant_facts(3) zero_group_facts(3) split: option.split json.split)
  also have "\<dots> \<longleftrightarrow> (\<exists>t g kvs. value_at [''groups'', t, g] (JObj doc) = Some (JObj kvs) \<and> map_of kvs ''size'' \<noteq> Some (JNum 0))"
    (is "_ \<longleftrightarrow> ?found")
  proof
    assume ?changed
    then obtain ts t gs g kvs where at_path: "map_of doc ''groups'' = Some (JObj ts)" "(t, JObj gs) \<in> set ts" "(g, JObj kvs) \<in> set gs"
      "map_of kvs ''size'' \<noteq> Some (JNum 0)" by auto
    have ts: "map_of ts t = Some (JObj gs) \<and> json_ok (JObj gs)"
      by (rule json_ok_member [OF json_ok_fields [OF assms at_path(1)] at_path(2)])
    then have "map_of gs g = Some (JObj kvs)" using json_ok_member [OF _ at_path(3)] by blast
    with at_path ts have "value_at [''groups'', t, g] (JObj doc) = Some (JObj kvs)" by simp
    with at_path(4) show ?found by blast
  next
    assume ?found
    then obtain t g kvs where found: "value_at [''groups'', t, g] (JObj doc) = Some (JObj kvs)" "map_of kvs ''size'' \<noteq> Some (JNum 0)"
      by blast
    from found(1) obtain v where v: "map_of doc ''groups'' = Some v" "value_at [t, g] v = Some (JObj kvs)"
      by (auto split: bind_split_asm)
    then obtain ts u where ts: "v = JObj ts" "map_of ts t = Some u" "value_at [g] u = Some (JObj kvs)"
      by (cases v) (auto split: bind_split_asm)
    then obtain gs where gs: "u = JObj gs" "map_of gs g = Some (JObj kvs)"
      by (cases u) (auto split: bind_split_asm)
    have "\<exists>(g, u) \<in> set gs. \<exists>kvs. u = JObj kvs \<and> map_of kvs ''size'' \<noteq> Some (JNum 0)"
      using found(2) by (intro bexI [OF _ map_of_SomeD [OF gs(2)]]) simp
    then have "\<exists>(t, v) \<in> set ts. \<exists>gs. v = JObj gs \<and> (\<exists>(g, u) \<in> set gs. \<exists>kvs. u = JObj kvs \<and> map_of kvs ''size'' \<noteq> Some (JNum 0))"
      using gs(1) by (intro bexI [OF _ map_of_SomeD [OF ts(2)]]) simp
    with v(1) ts(1) show ?changed by blast
  qed
  finally show ?thesis by (auto simp: sizes_zero_def)
qed

lemma zero_doc_again:
  assumes "zero_doc doc = (doc', True)"
  shows "snd (zero_doc doc') = False"
proof -
  from assms obtain ts ts' where ts: "zero_each zero_tenant ts = (ts', True)" "doc' = put_key ''groups'' (JObj ts') doc"
    by (auto simp: zero_doc_def map_prod_def split: option.splits json.splits prod.splits)
  then have "zero_each zero_tenant ts' = (ts', False)" using zero_each_again [of zero_tenant ts, OF zero_tenant_facts(2)] by simp
  with ts(2) show ?thesis by (simp add: zero_doc_def)
qed

text \<open>scaling a shard configuration.\<close>

theorem shard_scaled_to_zero:
  assumes "zeroShardConfig parse indent raw = Inr (out, changed)" "parse raw = Some (JObj doc)" "json_ok (JObj doc)"
  shows "changed = (\<not> sizes_zero doc) \<and>
    (if changed
     then \<exists>doc'. indent (JObj doc') = Inr out \<and> sizes_zero doc' \<and> same_but_sizes doc doc' \<and>
       (parse out = Some (JObj doc') \<longrightarrow> zeroShardConfig parse indent out = Inr (out, False))
     else out = raw)"
proof (cases "snd (zero_doc doc)")
  case True
  then obtain doc' where doc': "zero_doc doc = (doc', True)" by (metis prod.collapse)
  with assms(1,2) have "changed" "indent (JObj doc') = Inr out"
    by (auto simp: zeroShardConfig_def map_sum_def split: sum.splits)
  moreover have "sizes_zero doc'" "same_but_sizes doc doc'"
    using zero_doc_sizes [of doc] zero_doc_leaves [of doc] doc' by simp_all
  ultimately show ?thesis
    using zero_doc_changed [OF assms(3)] zero_doc_again [OF doc'] doc' by (auto simp: zeroShardConfig_def)
next
  case False
  with assms zero_doc_changed [OF assms(3)] show ?thesis by (auto simp: zeroShardConfig_def)
qed

text \<open>no write of others is lost, when whoever changes an object changes its tag.\<close>

theorem update_keeps_others:
  assumes "UpdateObject env bucket key f w = (r, w')"
    and "\<And>l obs k. de_others env l obs k = obs k \<or> map_option snd (de_others env l obs k) \<noteq> map_option snd (obs k)"
  shows "dw_objects w' = dw_objects w \<or> (\<exists>l. dw_objects w' = de_others env l (dw_objects w) \<and> r \<noteq> Inr ()) \<or>
    (\<exists>l body etag nxt. dw_objects w' = (de_others env l (dw_objects w))((bucket, key) \<mapsto> (nxt, Suc etag)) \<and>
      de_others env l (dw_objects w) (bucket, key) = Some (body, etag) \<and> f body = Inr (nxt, True))"
proof -
  let ?g = "noted (GotObject bucket key) w"
  have same: "dw_objects (noted ev u) = dw_objects u" for ev u by (simp add: noted_def)
  show ?thesis
  proof (cases "\<exists>body etag nxt. dw_objects w (bucket, key) = Some (body, etag) \<and> f body = Inr (nxt, True) \<and>
      put_if_match env bucket key etag nxt (noted (HadObject bucket key body) ?g) = (r, w')")
    case True
    then obtain body etag nxt where had: "dw_objects w (bucket, key) = Some (body, etag)" "f body = Inr (nxt, True)"
      and put: "put_if_match env bucket key etag nxt (noted (HadObject bucket key body) ?g) = (r, w')" by blast
    let ?o = "de_others env (dw_log (noted (HadObject bucket key body) ?g)) (dw_objects w)"
    from put have "dw_objects w' = ?o \<and> r \<noteq> Inr () \<or>
        dw_objects w' = ?o((bucket, key) \<mapsto> (nxt, Suc etag)) \<and> map_option snd (?o (bucket, key)) = Some etag"
      by (auto simp: put_if_match_def Let_def same split: option.splits if_splits)
    moreover have "?o (bucket, key) = Some (body, etag)" if "map_option snd (?o (bucket, key)) = Some etag"
      using assms(2) [of _ "dw_objects w" "(bucket, key)"] that had(1) by (metis option.simps(9) snd_conv)
    ultimately show ?thesis using had(2) by blast
  next
    case False
    with assms(1) have "dw_objects w' = dw_objects w"
      by (auto simp: UpdateObject_def attempt_def bindS_def wrapS_def Let_def same split: option.splits sum.splits prod.splits if_splits)
    then show ?thesis by blast
  qed
qed

section \<open>A run\<close>

text \<open>A stack with one shard of one group, whose instance terminates while the workflow waits.\<close>

definition ex_outputs :: json where
  "ex_outputs = JObj [(''nstance_bucket'', JObj [(''value'', JStr ''b'')]),
     (''nstance_shards'', JObj [(''value'', JObj [(''z'', JObj [(''config_key'', JStr ''shard/z/config.jsonc'')])])])]"

definition ex_doc :: "rat \<Rightarrow> fields" where
  "ex_doc n = [(''groups'', JObj [(''default'', JObj [(''control-plane'', JObj [(''size'', JNum n), (''template'', JStr ''t'')])])])]"

definition ex_env :: denv where
  "ex_env = \<lparr>de_outputs = Inr ''outputs'',
     de_parse = (\<lambda>s. if s = ''outputs'' then Some ex_outputs else if s = ''zero'' then Some (JObj (ex_doc 0))
       else if s = ''three'' then Some (JObj (ex_doc 3)) else None),
     de_indent = (\<lambda>_. Inr ''zero''), de_scheme = ''s3'', de_fault = (\<lambda>_ _. None),
     de_list = (\<lambda>l. (1, Inr (if Listing \<in> set l then [] else
       [\<lparr>vi_id = ''i-1'', vi_name = [], vi_zone = ''z'', vi_shard = [], vi_group = [], vi_state = []\<rparr>]))),
     de_answer = (\<lambda>_ _. Inr True), de_ended = None, de_pick = (\<lambda>_. True), de_others = (\<lambda>_ obs. obs)\<rparr>"

definition ex_world :: dworld where
  "ex_world = \<lparr>dw_log = [], dw_clock = 0,
     dw_objects = (\<lambda>k. if k = (''b'', ''shard/z/config.jsonc'') then Some (''three'', 0) else None)\<rparr>"

definition ex_opts :: "cluster_config \<Rightarrow> delete_options" where
  "ex_opts cfg = \<lparr>do_config = Some cfg, do_executor = True, do_provider = True, do_confirm = True, do_timeout = 20, do_interval = 15\<rparr>"



theorem delete_returns_witness: "\<exists>r w'. Delete ex_env (ex_opts defaultDraftConfig) ex_world = Some (r, w')"
  by (rule delete_returns) (simp add: ex_opts_def)

theorem polling_ends_witness:
  "\<exists>r w'. waitForManagedInstances ex_env 20 15 ex_world = Some (r, w') \<and> polls w' \<le> Suc (polls ex_world + 1)"
  using polling_ends [of 15 ex_env 20 ex_world] by auto

theorem shard_scaled_to_zero_witness:
  "zeroShardConfig (de_parse ex_env) (de_indent ex_env) ''three'' = Inr (''zero'', True) \<and> \<not> sizes_zero (ex_doc 3) \<and>
   zeroShardConfig (de_parse ex_env) (de_indent ex_env) ''zero'' = Inr (''zero'', False)"
proof -
  have run: "zeroShardConfig (de_parse ex_env) (de_indent ex_env) ''three'' = Inr (''zero'', True)"
    and again: "zeroShardConfig (de_parse ex_env) (de_indent ex_env) ''zero'' = Inr (''zero'', False)"
    by code_simp+
  have "True = (\<not> sizes_zero (ex_doc 3)) \<and> (if True then \<exists>doc'. de_indent ex_env (JObj doc') = Inr ''zero'' \<and> sizes_zero doc' \<and>
      same_but_sizes (ex_doc 3) doc' \<and> (de_parse ex_env ''zero'' = Some (JObj doc') \<longrightarrow>
        zeroShardConfig (de_parse ex_env) (de_indent ex_env) ''zero'' = Inr (''zero'', False))
      else ''zero'' = ''three'')"
    by (rule shard_scaled_to_zero [OF run]) (simp_all add: ex_env_def ex_doc_def)
  with run again show ?thesis by simp
qed

theorem update_keeps_others_witness:
  "\<exists>r w'. UpdateObject ex_env ''b'' ''shard/z/config.jsonc'' (zeroShardConfig (de_parse ex_env) (de_indent ex_env)) ex_world = (r, w') \<and>
     dw_objects w' (''b'', ''shard/z/config.jsonc'') \<noteq> None"
proof -
  obtain r w' where run: "UpdateObject ex_env ''b'' ''shard/z/config.jsonc'' (zeroShardConfig (de_parse ex_env) (de_indent ex_env)) ex_world = (r, w')"
    by fastforce
  have others: "de_others ex_env l obs = obs" for l obs by (simp add: ex_env_def)
  have "dw_objects w' (''b'', ''shard/z/config.jsonc'') \<noteq> None"
    using update_keeps_others [OF run] by (auto simp: others ex_world_def)
  with run show ?thesis by blast
qed

end
