(* ===== verification/Kubectl.thy ===== *)
theory Kubectl
  imports JsonDecode
begin

text \<open>
  The kubeconfig entries of a cluster and the invocations of \<open>kubectl\<close> that keep them (\<open>internal/kubectl\<close>). The
  program \<open>kubectl\<close> is the environment: it answers each call, from the calls before it, with its output, its
  error output and whether it failed. A call is its arguments and its standard input.
\<close>

section \<open>Names\<close>

definition ClusterKey :: "string \<Rightarrow> bool \<Rightarrow> string" where
  "ClusterKey clusterID loc = (if loc then ''podplane-local-'' @ clusterID else ''podplane-'' @ clusterID)"

definition ContextKey :: "string \<Rightarrow> bool \<Rightarrow> string" where
  "ContextKey clusterID loc =
     (if loc then (if clusterID = ''default'' then ''local'' else ''local-'' @ clusterID) else clusterID)"

definition CredentialsKey :: "string \<Rightarrow> string \<Rightarrow> bool \<Rightarrow> string" where
  "CredentialsKey sub clusterID loc =
     (if loc then ''podplane-local-'' @ clusterID @ ''-'' @ sub else ''podplane-'' @ clusterID @ ''-'' @ sub)"

definition SubFromCredentialsKey :: "string \<Rightarrow> string \<Rightarrow> bool \<Rightarrow> string" where
  "SubFromCredentialsKey key clusterID loc =
     (let p = (if loc then ''podplane-local-'' @ clusterID @ ''-'' else ''podplane-'' @ clusterID @ ''-'')
      in if \<not> has_prefix key p then [] else trim_prefix key p)"

definition Args :: "string \<Rightarrow> string \<Rightarrow> string list" where
  "Args kubeContext kubeconfig =
     (if kubeContext \<noteq> [] then [''--context'', kubeContext] else []) @
     (if kubeconfig \<noteq> [] then [''--kubeconfig'', kubeconfig] else [])"

section \<open>Calls\<close>

datatype kcall = Kcall (kc_args: "string list") (kc_stdin: string)

record kanswer =
  ka_out :: string
  ka_stderr :: string
  ka_err :: gerror

record kenv =
  ke_run :: "kcall list \<Rightarrow> kcall \<Rightarrow> kanswer"
  ke_before :: "kcall list \<Rightarrow> gerror"
  ke_after :: "kcall list \<Rightarrow> gerror"
  ke_parse :: "string \<Rightarrow> json option"
  ke_encode :: "json \<Rightarrow> string"
  ke_executable :: "string result"
  ke_getwd :: "string result"
  ke_url :: "string \<Rightarrow> (string \<times> string \<times> (string \<Rightarrow> string)) option"

type_synonym 'a kop = "(kcall list, 'a) op"

definition kube :: "kenv \<Rightarrow> string list \<Rightarrow> string \<Rightarrow> kanswer kop" where
  "kube env args input l = (Inr (ke_run env l (Kcall args input)), l @ [Kcall args input])"

section \<open>The selected context\<close>

record kcontext =
  kx_name :: string
  kx_cluster :: string
  kx_user :: string
  kx_namespace :: string

definition no_context :: kcontext where
  "no_context = \<lparr>kx_name = [], kx_cluster = [], kx_user = [], kx_namespace = []\<rparr>"

definition decode_context :: "kcontext decoder" where
  "decode_context = decode_struct
     [(''cluster'', field_of kx_cluster kx_cluster_update decode_str),
      (''user'', field_of kx_user kx_user_update decode_str),
      (''namespace'', field_of kx_namespace kx_namespace_update decode_str)]"

record kubeconfig =
  kg_current :: string
  kg_contexts :: "(string \<times> kcontext) list"

definition decode_context_entry :: "(string \<times> kcontext) decoder" where
  "decode_context_entry = decode_struct
     [(''name'', field_of fst (\<lambda>f (a, b). (f a, b)) decode_str),
      (''context'', field_of snd (\<lambda>f (a, b). (a, f b)) decode_context)]"

definition decode_kubeconfig :: "kubeconfig decoder" where
  "decode_kubeconfig = decode_struct
     [(''current-context'', field_of kg_current kg_current_update decode_str),
      (''contexts'', field_of kg_contexts kg_contexts_update (decode_slice decode_context_entry ([], no_context)))]"

definition select_context :: "string \<Rightarrow> kubeconfig \<Rightarrow> kcontext result" where
  "select_context kubeContext cfg =
     (let nm = (if trim_space kubeContext = [] then trim_space (kg_current cfg) else trim_space kubeContext)
      in if nm = [] then Inl (Errorf ''no kubeconfig context selected; pass --context or select a current context'' [])
         else case map_of (kg_contexts cfg) nm of
           None \<Rightarrow> Inl (Errorf ''kubeconfig context %q not found'' [S nm])
         | Some c \<Rightarrow> Inr (c\<lparr>kx_name := nm\<rparr>))"

definition ResolveContext :: "kenv \<Rightarrow> string \<Rightarrow> string \<Rightarrow> kcontext kop" where
  "ResolveContext env kubeContext kubeconfig l =
     (case ke_before env l of
        Some e \<Rightarrow> (Inl e, l)
      | None \<Rightarrow> bindS (kube env (Args (trim_space kubeContext) kubeconfig @ [''config'', ''view'', ''--output=json'']) [])
          (\<lambda>a l'. (case ka_err a of
              Some e \<Rightarrow> (case ke_after env l' of
                  Some e' \<Rightarrow> (Inl e', l')
                | None \<Rightarrow> (Inl (if trim_space (ka_stderr a) \<noteq> []
                    then Wrapf ''read kubeconfig: %w: %s'' [S (trim_space (ka_stderr a))] e
                    else Wrapf ''read kubeconfig: %w'' [] e), l'))
            | None \<Rightarrow>
                (case Option.bind (ke_parse env (ka_out a)) (\<lambda>v. decode_kubeconfig v \<lparr>kg_current = [], kg_contexts = []\<rparr>) of
                   None \<Rightarrow> (Inl (Wrapf ''parse kubeconfig: %w'' [] (Sentinel ''json'')), l')
                 | Some cfg \<Rightarrow> (select_context kubeContext cfg, l')))) l)"

text \<open>\<open>Context.ClusterID\<close>\<close>

definition context_cluster_id :: "kcontext \<Rightarrow> string \<times> bool" where
  "context_cluster_id c =
     (if has_prefix (kx_cluster c) ''podplane-local-'' then (trim_prefix (kx_cluster c) ''podplane-local-'', True)
      else if has_prefix (kx_cluster c) ''podplane-'' then (trim_prefix (kx_cluster c) ''podplane-'', False)
      else (kx_name c, False))"

definition ClusterIDFromContext :: "kenv \<Rightarrow> string \<Rightarrow> string \<Rightarrow> (string \<times> bool) kop" where
  "ClusterIDFromContext env kubeContext kubeconfig =
     bindS (ResolveContext env kubeContext kubeconfig) (\<lambda>c. liftS (Inr (context_cluster_id c)))"

definition UserFromContext :: "kenv \<Rightarrow> string \<Rightarrow> string \<Rightarrow> string kop" where
  "UserFromContext env kubeContext kubeconfig =
     bindS (ResolveContext env kubeContext kubeconfig) (\<lambda>c. liftS (Inr (kx_user c)))"

section \<open>Configuring access\<close>

definition not_array :: string where
  "not_array = ''is not array or slice and cannot be filtered''"

text \<open>The last call of a step: its error is the answer.\<close>

definition run_last :: "kenv \<Rightarrow> string list \<Rightarrow> unit kop" where
  "run_last env args = bindS (kube env args []) (\<lambda>a. liftS (err_result (ka_err a)))"

definition SetContext :: "kenv \<Rightarrow> string \<Rightarrow> string \<Rightarrow> bool \<Rightarrow> unit kop" where
  "SetContext env sub clusterID loc =
     (let key = ContextKey clusterID loc; clusterKey = ClusterKey clusterID loc; credentialsKey = CredentialsKey sub clusterID loc;
          set = run_last env [''config'', ''set-context'', key, ''--cluster='' @ clusterKey, ''--user='' @ credentialsKey, ''--namespace=default'']
      in bindS (kube env [''config'', ''view'', ''--output=jsonpath={.contexts[?(@.name==\"'' @ key @ ''\")].context}''] []) (\<lambda>a.
        (case ka_err a of
           Some e \<Rightarrow>
             if go_contains (trim_space (ka_stderr a)) not_array then set
             else liftS (Inl (Wrapf ''error invoking kubectl command: %s'' [] e))
         | None \<Rightarrow>
             (case Option.bind (ke_parse env (trim_space (ka_out a))) (\<lambda>v. decode_context v no_context) of
                None \<Rightarrow> set
              | Some c \<Rightarrow>
                  if kx_cluster c \<noteq> clusterKey then liftS (Inr ())
                  else if kx_user c = credentialsKey then liftS (Inr ())
                  else set))))"

text \<open>\<open>credentialExecCommand\<close>: the exec command of the first user with the name.\<close>

record kuser =
  ku_name :: string
  ku_exec :: "string option"

definition decode_exec :: "string decoder" where
  "decode_exec = decode_struct [(''command'', \<lambda>v old. decode_str v old)]"

definition decode_user :: "kuser decoder" where
  "decode_user = decode_struct
     [(''name'', field_of ku_name ku_name_update decode_str),
      (''user'', decode_struct [(''exec'', field_of ku_exec ku_exec_update (decode_pointer decode_exec []))])]"

definition credentialExecCommand :: "(string \<Rightarrow> json option) \<Rightarrow> string \<Rightarrow> string \<Rightarrow> (string \<times> bool) result" where
  "credentialExecCommand parse data nm =
     (case Option.bind (parse data)
         (\<lambda>v. decode_struct [(''users'', decode_slice decode_user \<lparr>ku_name = [], ku_exec = None\<rparr>)] v []) of
        None \<Rightarrow> Inl (Sentinel ''json'')
      | Some users \<Rightarrow>
          (case find (\<lambda>u. ku_name u = nm) users of
             None \<Rightarrow> Inr ([], False)
           | Some u \<Rightarrow> Inr (case ku_exec u of None \<Rightarrow> [] | Some c \<Rightarrow> c, True)))"

definition credentialExecArgs :: "string \<Rightarrow> string \<Rightarrow> string \<Rightarrow> bool \<Rightarrow> string list" where
  "credentialExecArgs cliBinaryPath sub clusterID loc =
     [''config'', ''set-credentials'', CredentialsKey sub clusterID loc,
      ''--exec-api-version=client.authentication.k8s.io/v1beta1'', ''--exec-command='' @ cliBinaryPath,
      ''--exec-arg=hooks'', ''--exec-arg=kubectl-auth'', ''--exec-arg=--cluster'', ''--exec-arg='' @ clusterID,
      ''--exec-arg=--user'', ''--exec-arg='' @ sub] @ (if loc then [''--exec-arg=--local''] else [])"

text \<open>The path of the binary; \<open>go run\<close> builds one in a temporary directory.\<close>

definition binary_path :: "kenv \<Rightarrow> string result" where
  "binary_path env =
     (case ke_executable env of
        Inl e \<Rightarrow> Inl (Wrapf ''failed to get binary path: %w'' [] e)
      | Inr p \<Rightarrow>
          if go_contains p ''/go-build'' \<and> go_contains p ''/exe/''
          then map_sum (Wrapf ''resolve stable kubectl exec path: %w'' [])
            (\<lambda>cwd. (if cwd = ''/'' then [] else cwd) @ ''/bin/'' @ last (go_split CHR ''/'' p)) (ke_getwd env)
          else Inr p)"

text \<open>\<open>SetCredentials\<close>; the file keyring of local clusters has a fixed password.\<close>

definition SetCredentials :: "kenv \<Rightarrow> string \<Rightarrow> string \<Rightarrow> bool \<Rightarrow> unit kop" where
  "SetCredentials env sub clusterID loc =
     bindS (liftS (binary_path env)) (\<lambda>cli.
     bindS (kube env [''config'', ''view'', ''--output=json''] []) (\<lambda>a.
       (case ka_err a of
          Some e \<Rightarrow> liftS (Inl (Wrapf ''error invoking kubectl command: %s'' [] e))
        | None \<Rightarrow>
            (case credentialExecCommand (ke_parse env) (ka_out a) (CredentialsKey sub clusterID loc) of
               Inl e \<Rightarrow> liftS (Inl (Wrapf ''parse kubectl config: %w'' [] e))
             | Inr (command, found) \<Rightarrow>
                 if found \<and> command = cli then liftS (Inr ())
                 else if found \<and> \<not> go_contains command ''podplane'' then liftS (Inr ())
                 else run_last env (credentialExecArgs cli sub clusterID loc @
                   (if loc then [''--exec-env=PODPLANE_KEYRING_PASS=podplane-local''] else []))))))"

text \<open>
  The server of a local cluster: loopback, with its own name for TLS. \<open>ke_url\<close> is \<open>url.Parse\<close>: the host name, the
  port and the URL with another host.
\<close>

definition local_server :: "kenv \<Rightarrow> string \<Rightarrow> bool \<Rightarrow> string \<times> string" where
  "local_server env kubeApiUrl loc =
     (if \<not> loc then (kubeApiUrl, [])
      else case ke_url env kubeApiUrl of
        None \<Rightarrow> (kubeApiUrl, [])
      | Some (hostname, port, with_host) \<Rightarrow>
          if has_suffix (to_lower hostname) ''.k8s.localhost''
          then (with_host (if port \<noteq> [] then ''127.0.0.1:'' @ port else ''127.0.0.1''), hostname)
          else (kubeApiUrl, []))"

definition SetCluster :: "kenv \<Rightarrow> string \<Rightarrow> string \<Rightarrow> string \<Rightarrow> bool \<Rightarrow> unit kop" where
  "SetCluster env clusterID kubeApiUrl caCertPath loc =
     (let key = ClusterKey clusterID loc; (serverURL, tlsServerName) = local_server env kubeApiUrl loc;
          set = run_last env ([''config'', ''set-cluster'', key, ''--server='' @ serverURL] @
            (if caCertPath \<noteq> [] then [''--certificate-authority='' @ caCertPath] else []) @
            (if tlsServerName \<noteq> [] then [''--tls-server-name='' @ tlsServerName] else []))
      in bindS (kube env [''config'', ''view'', ''--output=jsonpath={.clusters[?(@.name==\"'' @ key @ ''\")].cluster.server}''] []) (\<lambda>a.
        (case ka_err a of
           Some e \<Rightarrow>
             if go_contains (trim_space (ka_stderr a)) not_array then set
             else liftS (Inl (Wrapf ''Error invoking kubectl command: %s'' [] e))
         | None \<Rightarrow>
             (let out = trim_space (ka_out a)
              in if out = serverURL \<and> (\<not> loc \<or> tlsServerName = []) then liftS (Inr ())
                 else if out \<noteq> [] \<and> \<not> loc \<and> \<not> go_contains out ''podplane'' then liftS (Inr ())
                 else set))))"

definition ConfigureClusterAccess :: "kenv \<Rightarrow> string \<Rightarrow> string \<Rightarrow> string \<Rightarrow> string \<Rightarrow> bool \<Rightarrow> unit kop" where
  "ConfigureClusterAccess env clusterID serverURL sub caCertPath loc =
     (if clusterID = [] then liftS (Inl (Errorf ''kubectl configure: cluster id is required'' []))
      else if serverURL = [] then liftS (Inl (Errorf ''kubectl configure: server url is required'' []))
      else if sub = [] then liftS (Inl (Errorf ''kubectl configure: user sub is required'' []))
      else bindS (wrapS ''configure kubectl cluster: %w'' [] (SetCluster env clusterID serverURL caCertPath loc)) (\<lambda>_.
        bindS (wrapS ''configure kubectl credentials: %w'' [] (SetCredentials env sub clusterID loc)) (\<lambda>_.
        wrapS ''configure kubectl context: %w'' [] (SetContext env sub clusterID loc))))"

section \<open>Removing access\<close>

definition kubectlConfigDelete :: "kenv \<Rightarrow> string \<Rightarrow> string \<Rightarrow> unit kop" where
  "kubectlConfigDelete env subcommand key =
     bindS (kube env [''config'', subcommand, key] []) (\<lambda>a. liftS
       (case ka_err a of
          None \<Rightarrow> Inr ()
        | Some e \<Rightarrow>
            if go_contains (trim_space (ka_stderr a)) ''not in '' then Inr ()
            else if trim_space (ka_stderr a) \<noteq> [] then Inl (Wrapf ''%s %s: %w: %s'' [S subcommand, S key, S (trim_space (ka_stderr a))] e)
            else Inl (Wrapf ''%s %s: %w'' [S subcommand, S key] e)))"

fun delete_users :: "kenv \<Rightarrow> string \<Rightarrow> bool \<Rightarrow> string set \<Rightarrow> string list \<Rightarrow> unit kop" where
  "delete_users env clusterID loc seen [] = liftS (Inr ())"
| "delete_users env clusterID loc seen (s # subs) =
     (let sub = trim_space s
      in if sub = [] \<or> sub \<in> seen then delete_users env clusterID loc seen subs
         else bindS (wrapS ''delete kubectl user: %w'' [] (kubectlConfigDelete env ''delete-user'' (CredentialsKey sub clusterID loc)))
           (\<lambda>_. delete_users env clusterID loc (insert sub seen) subs))"

definition DeleteClusterAccess :: "kenv \<Rightarrow> string \<Rightarrow> string list \<Rightarrow> bool \<Rightarrow> unit kop" where
  "DeleteClusterAccess env clusterID subs loc =
     (if clusterID = [] then liftS (Inl (Errorf ''kubectl cleanup: cluster id is required'' []))
      else bindS (wrapS ''delete kubectl context: %w'' [] (kubectlConfigDelete env ''delete-context'' (ContextKey clusterID loc))) (\<lambda>_.
        bindS (wrapS ''delete kubectl cluster: %w'' [] (kubectlConfigDelete env ''delete-cluster'' (ClusterKey clusterID loc))) (\<lambda>_.
        delete_users env clusterID loc {} subs)))"

end
