(* ===== verification/ClusterSleep.thy ===== *)
theory ClusterSleep
  imports Kubectl
begin

text \<open>
  \<open>podplane cluster sleep\<close> (\<open>internal/clustersleep\<close>): the request that puts the one Nstance-managed cluster of a
  context to sleep. The state is the list of calls of \<open>kubectl\<close> so far.
\<close>

record sleep_options =
  so_context :: string
  so_kubeconfig :: string
  so_force :: bool
  so_auto :: bool
  so_confirm :: "(string \<Rightarrow> bool result) option"

definition sleep_run :: "kenv \<Rightarrow> kcontext \<Rightarrow> string \<Rightarrow> string \<Rightarrow> string list \<Rightarrow> string kop" where
  "sleep_run env selected kubeconfig input args l =
     (case ke_before env l of
        Some e \<Rightarrow> (Inl e, l)
      | None \<Rightarrow> bindS (kube env (Args (kx_name selected) kubeconfig @ args) input) (\<lambda>a l'.
          (case ke_after env l' of
             Some e \<Rightarrow> (Inl e, l')
           | None \<Rightarrow> ((case ka_err a of
                 Some e \<Rightarrow> Inl (Wrapf ''invoke kubectl: %w: %s'' [S (trim_space (ka_stderr a))] e)
               | None \<Rightarrow> Inr (ka_out a)), l'))) l)"

text \<open>A CAPI cluster: its name and namespace, and the infrastructure it refers to.\<close>

record capi_cluster =
  ct_name :: string
  ct_namespace :: string
  ct_kind :: string
  ct_ref :: string

definition no_cluster :: capi_cluster where
  "no_cluster = \<lparr>ct_name = [], ct_namespace = [], ct_kind = [], ct_ref = []\<rparr>"

definition decode_cluster :: "capi_cluster decoder" where
  "decode_cluster = decode_struct
     [(''metadata'', decode_struct
        [(''name'', field_of ct_name ct_name_update decode_str),
         (''namespace'', field_of ct_namespace ct_namespace_update decode_str)]),
      (''spec'', decode_struct
        [(''infrastructureref'', decode_struct
           [(''kind'', field_of ct_kind ct_kind_update decode_str),
            (''name'', field_of ct_ref ct_ref_update decode_str)])])]"

definition decode_clusters :: "capi_cluster list decoder" where
  "decode_clusters = decode_struct [(''items'', decode_slice decode_cluster no_cluster)]"

definition is_candidate :: "string \<Rightarrow> capi_cluster \<Rightarrow> bool" where
  "is_candidate clusterID item \<longleftrightarrow>
     (let p = clusterID @ ''--'' in
      has_prefix (ct_name item) p \<and> length (ct_name item) > length p \<and> ct_namespace item \<noteq> [] \<and>
      ct_kind item = ''NstanceCluster'' \<and> ct_ref item = ct_name item)"

definition confirm_force :: "sleep_options \<Rightarrow> capi_cluster \<Rightarrow> unit result" where
  "confirm_force opts c =
     (if \<not> so_force opts \<or> so_auto opts then Inr ()
      else case so_confirm opts of
        None \<Rightarrow> Inl (Errorf ''forced sleep requires explicit confirmation or --auto-approve (-y)'' [])
      | Some ask \<Rightarrow>
          (case ask (''Force sleep of '' @ ct_namespace c @ ''/'' @ ct_name c @ ''?'') of
             Inl e \<Rightarrow> Inl (Wrapf ''confirm forced sleep: %w'' [] e)
           | Inr ok \<Rightarrow> if ok then Inr () else Inl (Errorf ''sleep cancelled'' [])))"

definition access_review :: "capi_cluster \<Rightarrow> json" where
  "access_review c = JObj
     [(''apiVersion'', JStr ''authorization.k8s.io/v1''), (''kind'', JStr ''SelfSubjectAccessReview''),
      (''spec'', JObj [(''resourceAttributes'', JObj
         [(''group'', JStr ''cluster.x-k8s.io''), (''name'', JStr (ct_name c)), (''namespace'', JStr (ct_namespace c)),
          (''resource'', JStr ''clusters''), (''verb'', JStr ''patch'')])])]"

record access_status =
  as_allowed :: bool
  as_denied :: bool
  as_reason :: string
  as_error :: string

definition decode_access :: "access_status decoder" where
  "decode_access = decode_struct [(''status'', decode_struct
     [(''allowed'', field_of as_allowed as_allowed_update decode_bool),
      (''denied'', field_of as_denied as_denied_update decode_bool),
      (''reason'', field_of as_reason as_reason_update decode_str),
      (''evaluationerror'', field_of as_error as_error_update decode_str)])]"

definition access_of :: "(string \<Rightarrow> json option) \<Rightarrow> string \<Rightarrow> access_status option" where
  "access_of parse raw = Option.bind (parse raw)
     (\<lambda>v. decode_access v \<lparr>as_allowed = False, as_denied = False, as_reason = [], as_error = []\<rparr>)"

definition granted :: "access_status \<Rightarrow> bool" where
  "granted a \<longleftrightarrow> as_allowed a \<and> \<not> as_denied a \<and> as_error a = []"

definition check_access :: "(string \<Rightarrow> json option) \<Rightarrow> capi_cluster \<Rightarrow> string \<Rightarrow> unit result" where
  "check_access parse c raw =
     (case access_of parse raw of
        None \<Rightarrow> Inl (Wrapf ''parse patch access review: %w'' [] (Sentinel ''json''))
      | Some a \<Rightarrow>
          if \<not> granted a
          then Inl (Errorf ''not authorized to patch CAPI Cluster %s/%s: %s %s''
            [S (ct_namespace c), S (ct_name c), S (as_reason a), S (as_error a)])
          else Inr ())"

definition list_args :: "string list" where
  "list_args = [''get'', ''clusters.cluster.x-k8s.io'', ''--all-namespaces'', ''--output=json'']"

definition review_args :: "string list" where
  "review_args = [''create'', ''--filename=-'', ''--output=json'']"

definition sleep_patch :: "sleep_options \<Rightarrow> string \<Rightarrow> json" where
  "sleep_patch opts now = JObj [(''metadata'', JObj [(''annotations'', JObj
     [(''nstance.dev/sleep-request'', JStr (if so_force opts then ''force:'' @ now else now))])])]"

definition patch_args :: "capi_cluster \<Rightarrow> string \<Rightarrow> string list" where
  "patch_args c patch =
     [''patch'', ''clusters.cluster.x-k8s.io'', ct_name c, ''--namespace'', ct_namespace c, ''--type=merge'', ''--patch'', patch]"

definition the_candidate :: "(string \<Rightarrow> json option) \<Rightarrow> string \<Rightarrow> string \<Rightarrow> capi_cluster result" where
  "the_candidate parse clusterID raw =
     (case Option.bind (parse raw) (\<lambda>v. decode_clusters v []) of
        None \<Rightarrow> Inl (Wrapf ''parse CAPI Clusters: %w'' [] (Sentinel ''json''))
      | Some items \<Rightarrow>
          (case filter (is_candidate clusterID) items of
             [c] \<Rightarrow> Inr c
           | cs \<Rightarrow> Inl (Errorf ''expected one Nstance CAPI Cluster for %q, found %d; refusing sleep''
               [S clusterID, I (int (length cs))])))"

definition request_sleep :: "kenv \<Rightarrow> sleep_options \<Rightarrow> string \<Rightarrow> kcontext \<Rightarrow> capi_cluster \<Rightarrow> unit kop" where
  "request_sleep env opts now selected c =
     (let run = sleep_run env selected (so_kubeconfig opts) in
      bindS (liftS (confirm_force opts c)) (\<lambda>_.
      bindS (wrapS ''review CAPI Cluster patch access: %w'' [] (run (ke_encode env (access_review c)) review_args)) (\<lambda>raw.
      bindS (liftS (check_access (ke_parse env) c raw)) (\<lambda>_.
      bindS (wrapS ''request sleep of CAPI Cluster %s/%s: %w'' [S (ct_namespace c), S (ct_name c)]
          (run [] (patch_args c (ke_encode env (sleep_patch opts now))))) (\<lambda>_.
      liftS (Inr ()))))))"

text \<open>\<open>now\<close> is the time of the request in RFC 3339.\<close>

definition Request :: "kenv \<Rightarrow> sleep_options \<Rightarrow> string \<Rightarrow> unit kop" where
  "Request env opts now =
     bindS (wrapS ''read sleep context: %w'' [] (ResolveContext env (so_context opts) (so_kubeconfig opts))) (\<lambda>selected.
     (case context_cluster_id selected of (clusterID, loc) \<Rightarrow>
        if loc \<or> clusterID = [] \<or> kx_cluster selected \<noteq> ClusterKey clusterID False
        then liftS (Inl (Errorf ''context %q does not reference a Podplane cloud cluster'' [S (kx_name selected)]))
        else
          bindS (wrapS ''discover Nstance CAPI Cluster: %w'' [] (sleep_run env selected (so_kubeconfig opts) [] list_args)) (\<lambda>raw.
          bindS (liftS (the_candidate (ke_parse env) clusterID raw)) (\<lambda>c.
          request_sleep env opts now selected c))))"

end
