(* ===== verification/ClusterSleepProps.thy ===== *)
theory ClusterSleepProps
  imports ClusterSleep ClusterValidate
begin

text \<open>
  The calls of a sleep request in their order, and the names under which \<open>kubectl\<close> knows a cluster.
\<close>

section \<open>Calls\<close>

lemma kube_simps [simp]: "kube env args input l = (Inr (ke_run env l (Kcall args input)), l @ [Kcall args input])"
  by (simp add: kube_def)













section \<open>Names\<close>

text \<open>
  C40: The user of a credentials key is read back from it. Two clusters have the same cluster key only when they are
  the same, or when one is a local cluster and the other a cloud cluster whose ID is the ID of the local one behind
  \<open>local-\<close>; such a cloud cluster is taken for the local one by \<open>Context.ClusterID\<close>.
\<close>

theorem kubeconfig_names:
  "SubFromCredentialsKey (CredentialsKey sub clusterID loc) clusterID loc = sub \<and>
   (ClusterKey clusterID loc = ClusterKey clusterID' loc' \<longleftrightarrow>
      clusterID = clusterID' \<and> loc = loc' \<or>
      loc \<noteq> loc' \<and> (if loc then clusterID' = ''local-'' @ clusterID else clusterID = ''local-'' @ clusterID')) \<and>
   (context_cluster_id \<lparr>kx_name = nm, kx_cluster = ClusterKey clusterID loc, kx_user = u, kx_namespace = ns\<rparr> = (clusterID, loc) \<longleftrightarrow>
      loc \<or> \<not> has_prefix clusterID ''local-'')"
proof (intro conjI)
  have "''podplane-'' @ clusterID @ ''-'' @ sub = (''podplane-'' @ clusterID @ ''-'') @ sub"
    "''podplane-local-'' @ clusterID @ ''-'' @ sub = (''podplane-local-'' @ clusterID @ ''-'') @ sub" by simp_all
  then show "SubFromCredentialsKey (CredentialsKey sub clusterID loc) clusterID loc = sub"
    by (cases loc) (simp_all only: SubFromCredentialsKey_def CredentialsKey_def Let_def if_True if_False has_prefix_append
      trim_prefix_append not_True_eq_False)
  show "ClusterKey clusterID loc = ClusterKey clusterID' loc' \<longleftrightarrow>
      clusterID = clusterID' \<and> loc = loc' \<or>
      loc \<noteq> loc' \<and> (if loc then clusterID' = ''local-'' @ clusterID else clusterID = ''local-'' @ clusterID')"
    by (cases loc; cases loc') (auto simp: ClusterKey_def)
  have "has_prefix (''podplane-'' @ clusterID) ''podplane-local-'' \<longleftrightarrow> has_prefix clusterID ''local-''"
    by (auto simp: has_prefix_iff)
  moreover have "trim_prefix (''podplane-'' @ clusterID) ''podplane-'' = clusterID"
    "trim_prefix (''podplane-local-'' @ clusterID) ''podplane-local-'' = clusterID" by (simp_all only: trim_prefix_append)
  moreover have "has_prefix (''podplane-'' @ clusterID) ''podplane-''" "has_prefix (''podplane-local-'' @ clusterID) ''podplane-local-''"
    by (simp_all only: has_prefix_append)
  ultimately show "context_cluster_id \<lparr>kx_name = nm, kx_cluster = ClusterKey clusterID loc, kx_user = u, kx_namespace = ns\<rparr> = (clusterID, loc) \<longleftrightarrow>
      loc \<or> \<not> has_prefix clusterID ''local-''"
    by (simp add: context_cluster_id_def ClusterKey_def)
qed

theorem kubeconfig_names_witness:
  "ClusterKey ''local-dev'' False = ClusterKey ''dev'' True \<and>
   context_cluster_id \<lparr>kx_name = ''local-dev'', kx_cluster = ClusterKey ''local-dev'' False, kx_user = [], kx_namespace = []\<rparr>
     \<noteq> (''local-dev'', False)"
proof -
  have "has_prefix ''local-dev'' ''local-''" by code_simp
  note names = kubeconfig_names [of "''u''" "''local-dev''" False "''dev''" True "''local-dev''" "[]" "[]"]
  show ?thesis
  proof
    show "ClusterKey ''local-dev'' False = ClusterKey ''dev'' True" using names [THEN conjunct2, THEN conjunct1] by simp
    show "context_cluster_id \<lparr>kx_name = ''local-dev'', kx_cluster = ClusterKey ''local-dev'' False, kx_user = [], kx_namespace = []\<rparr>
      \<noteq> (''local-dev'', False)"
      using names [THEN conjunct2, THEN conjunct2] \<open>has_prefix ''local-dev'' ''local-''\<close> by blast
  qed
qed

text \<open>Validation reserves the ID \<open>local\<close> and not the IDs behind \<open>local-\<close>.\<close>

theorem local_name_accepted:
  "ValidateClusterID ''local-dev'' = None \<and> ClusterKey ''local-dev'' False = ClusterKey ''dev'' True \<and>
   ContextKey ''local-dev'' False = ContextKey ''dev'' True \<and>
   CredentialsKey sub ''local-dev'' False = CredentialsKey sub ''dev'' True"
proof -
  have "ValidateClusterID ''local-dev'' = None" by code_simp
  then show ?thesis by (simp add: ClusterKey_def ContextKey_def CredentialsKey_def)
qed

section \<open>Removing access\<close>

text \<open>The names of users that are deleted, in order.\<close>

fun user_names :: "string set \<Rightarrow> string list \<Rightarrow> string list" where
  "user_names seen [] = []"
| "user_names seen (s # subs) =
     (if trim_space s = [] \<or> trim_space s \<in> seen then user_names seen subs
      else trim_space s # user_names (insert (trim_space s) seen) subs)"

lemma user_names_set: "set (user_names seen subs) = trim_space ` set subs - insert [] seen"
  by (induction seen subs rule: user_names.induct) auto

lemma user_names_distinct: "distinct (user_names seen subs) \<and> set (user_names seen subs) \<inter> seen = {}"
  by (induction seen subs rule: user_names.induct) auto

lemma config_delete_call: "kubectlConfigDelete env cmd key l = (r, l') \<Longrightarrow> l' = l @ [Kcall [''config'', cmd, key] []]"
  by (auto simp: kubectlConfigDelete_def bindS_def liftS_def)

lemma delete_users_calls:
  "delete_users env cid loc seen subs l = (Inr (), l') \<Longrightarrow>
   l' = l @ map (\<lambda>s. Kcall [''config'', ''delete-user'', CredentialsKey s cid loc] []) (user_names seen subs)"
proof (induction seen subs arbitrary: l rule: user_names.induct)
  case (2 seen s subs)
  show ?case
  proof (cases "trim_space s = [] \<or> trim_space s \<in> seen")
    case True
    with 2 show ?thesis by (auto simp: Let_def)
  next
    case False
    with 2(3) obtain l1 where del: "kubectlConfigDelete env ''delete-user'' (CredentialsKey (trim_space s) cid loc) l = (Inr (), l1)"
      and rest: "delete_users env cid loc (insert (trim_space s) seen) subs l1 = (Inr (), l')"
      by (auto simp: Let_def err_simps)
    from 2(2) [OF False rest] config_delete_call [OF del] False show ?thesis by simp
  qed
qed (simp add: liftS_def)

text \<open>Removing access deletes the context, the cluster and each user once, under the keys that configuring uses.\<close>

theorem access_removed:
  assumes "DeleteClusterAccess env clusterID subs loc l = (Inr (), l')"
  shows "\<exists>users. distinct users \<and> set users = trim_space ` set subs - {[]} \<and>
    l' = l @ [Kcall [''config'', ''delete-context'', ContextKey clusterID loc] [],
              Kcall [''config'', ''delete-cluster'', ClusterKey clusterID loc] []] @
      map (\<lambda>s. Kcall [''config'', ''delete-user'', CredentialsKey s clusterID loc] []) users"
proof -
  from assms obtain l1 l2 where
    steps: "kubectlConfigDelete env ''delete-context'' (ContextKey clusterID loc) l = (Inr (), l1)"
      "kubectlConfigDelete env ''delete-cluster'' (ClusterKey clusterID loc) l1 = (Inr (), l2)"
      "delete_users env clusterID loc {} subs l2 = (Inr (), l')"
    by (auto simp: DeleteClusterAccess_def err_simps split: if_splits)
  show ?thesis
    using config_delete_call [OF steps(1)] config_delete_call [OF steps(2)] delete_users_calls [OF steps(3)]
      user_names_set [of "{}" subs] user_names_distinct [of "{}" subs]
    by (intro exI [of _ "user_names {} subs"]) simp
qed

section \<open>A run\<close>

definition ex_answer :: "kcall list \<Rightarrow> kanswer" where
  "ex_answer l = \<lparr>ka_out = [''view'', ''list'', ''review'', []] ! length l, ka_stderr = [], ka_err = None\<rparr>"

definition ex_parse :: "string \<Rightarrow> json option" where
  "ex_parse = map_of
     [(''view'', JObj [(''current-context'', JStr ''dev''), (''contexts'', JArr
        [JObj [(''name'', JStr ''dev''), (''context'', JObj [(''cluster'', JStr ''podplane-dev'')])]])]),
      (''list'', JObj [(''items'', JArr [JObj
        [(''metadata'', JObj [(''name'', JStr ''dev--default''), (''namespace'', JStr ''n'')]),
         (''spec'', JObj [(''infrastructureRef'', JObj [(''kind'', JStr ''NstanceCluster''), (''name'', JStr ''dev--default'')])])]])]),
      (''review'', JObj [(''status'', JObj [(''allowed'', JBool True)])])]"

definition ex_kenv :: kenv where
  "ex_kenv = \<lparr>ke_run = (\<lambda>l _. ex_answer l), ke_before = (\<lambda>_. None), ke_after = (\<lambda>_. None), ke_parse = ex_parse,
     ke_encode = (\<lambda>_. ''{}''), ke_executable = Inr ''/bin/podplane'', ke_getwd = Inr ''/'', ke_url = (\<lambda>_. None)\<rparr>"



theorem access_removed_witness:
  "\<exists>l. DeleteClusterAccess ex_kenv ''dev'' [''a'', '' a '', []] False [] = (Inr (), l) \<and>
     Kcall [''config'', ''delete-user'', CredentialsKey ''a'' ''dev'' False] [] \<in> set l"
proof -
  have "fst (DeleteClusterAccess ex_kenv ''dev'' [''a'', '' a '', []] False []) = Inr ()" by code_simp
  then obtain l where run: "DeleteClusterAccess ex_kenv ''dev'' [''a'', '' a '', []] False [] = (Inr (), l)"
    by (cases "DeleteClusterAccess ex_kenv ''dev'' [''a'', '' a '', []] False []") simp
  from access_removed [OF run] obtain users where users: "set users = trim_space ` set [''a'', '' a '', []] - {[]}"
    and l: "l = [] @ [Kcall [''config'', ''delete-context'', ContextKey ''dev'' False] [],
        Kcall [''config'', ''delete-cluster'', ClusterKey ''dev'' False] []] @
      map (\<lambda>s. Kcall [''config'', ''delete-user'', CredentialsKey s ''dev'' False] []) users" by blast
  have "trim_space ''a'' = ''a''" by code_simp
  then have "''a'' \<in> trim_space ` set [''a'', '' a '', []] - {[]}" by (metis Diff_iff empty_iff imageI insert_iff list.distinct(1) list.set_intros(1))
  then have "Kcall [''config'', ''delete-user'', CredentialsKey ''a'' ''dev'' False] [] \<in> set l"
    unfolding l users [symmetric] set_append set_map by (blast intro: imageI)
  with run show ?thesis by blast
qed

end
