(* ===== verification/Hcl.thy ===== *)
theory Hcl
  imports ClusterConfig
begin

text \<open>
  The Terraform documents of \<open>internal/tfgen/hcl.go\<close>: values, blocks and documents, and their text. A document
  is built by appending attributes and blocks in order; here a body is the list of its items. \<open>quote\<close> is
  \<open>strconv.Quote\<close> byte by byte: bytes from 0x80 on are copied, which is what it does with valid UTF-8 of
  printable characters.
\<close>

section \<open>Names and quoting\<close>

text \<open>
  \<open>safeName\<close>: dashes and every byte outside \<open>[a-zA-Z0-9_]\<close> become underscores, so this is the function on ASCII
  names.
\<close>

definition safe_char :: "char \<Rightarrow> char" where
  "safe_char c =
     (if is_lower c \<or> is_digit c \<or> (CHR ''A'' \<le> c \<and> c \<le> CHR ''Z'') then c else CHR ''_'')"

definition safeName :: "string list \<Rightarrow> string" where
  "safeName parts =
     (let joined = go_trim ''_'' (map safe_char (go_join CHR ''_'' parts))
      in if joined = [] then ''default'' else to_lower joined)"

definition quoted_char :: "char \<Rightarrow> string" where
  "quoted_char c =
     (if c = CHR 0x22 then [CHR 0x5C, CHR 0x22]
      else if c = CHR 0x5C then [CHR 0x5C, CHR 0x5C]
      else if c = CHR 0x07 then CHR 0x5C # ''a''
      else if c = CHR 0x08 then CHR 0x5C # ''b''
      else if c = CHR 0x0C then CHR 0x5C # ''f''
      else if c = CHR 0x0A then CHR 0x5C # ''n''
      else if c = CHR 0x0D then CHR 0x5C # ''r''
      else if c = CHR 0x09 then CHR 0x5C # ''t''
      else if c = CHR 0x0B then CHR 0x5C # ''v''
      else if c < CHR 0x20 \<or> c = CHR 0x7F then CHR 0x5C # ''x'' @ hex_string [c]
      else [c])"

definition quote :: "string \<Rightarrow> string" where
  "quote s = CHR 0x22 # concat (map quoted_char s) @ [CHR 0x22]"

section \<open>Documents\<close>

datatype hcl_value =
    HclExpression string
  | HclString string
  | HclNumber int
  | HclBool bool
  | HclList "hcl_value list"
  | HclObject "(string \<times> bool \<times> hcl_value) list"
  | HclInlineObject "(string \<times> bool \<times> hcl_value) list"

type_synonym hcl_field = "string \<times> bool \<times> hcl_value"

datatype hcl_block = HclBlock
  (hb_comments: "string list") (hb_type: string) (hb_labels: "string list") (hb_items: "(string \<times> hcl_value + hcl_block) list")

type_synonym hcl_item = "string \<times> hcl_value + hcl_block"

record hcl_document =
  hd_header :: "string list"
  hd_blocks :: "hcl_block list"

text \<open>The constructors; \<open>attr\<close> and \<open>nested\<close> are the items that \<open>Body.Attr\<close> and \<open>Body.Block\<close> append.\<close>

definition block :: "string \<Rightarrow> string list \<Rightarrow> hcl_item list \<Rightarrow> hcl_block" where
  "block t labels items = HclBlock [] t labels items"

definition attr :: "string \<Rightarrow> hcl_value \<Rightarrow> hcl_item" where
  "attr nm v = Inl (nm, v)"

definition nested :: "hcl_block \<Rightarrow> hcl_item" where
  "nested b = Inr b"

definition stringValueList :: "string list \<Rightarrow> hcl_value" where
  "stringValueList values = HclList (map HclString values)"

definition field :: "string \<Rightarrow> hcl_value \<Rightarrow> hcl_field" where
  "field key v = (key, False, v)"

definition identField :: "string \<Rightarrow> hcl_value \<Rightarrow> hcl_field" where
  "identField key v = (key, True, v)"

text \<open>Items and fields appended under a condition.\<close>

definition cond :: "bool \<Rightarrow> 'a list \<Rightarrow> 'a list" where
  "cond b xs = (if b then xs else [])"

abbreviation expr :: "string \<Rightarrow> hcl_value" where "expr \<equiv> HclExpression"
abbreviation str :: "string \<Rightarrow> hcl_value" where "str \<equiv> HclString"
abbreviation number :: "int \<Rightarrow> hcl_value" where "number \<equiv> HclNumber"
abbreviation boolean :: "bool \<Rightarrow> hcl_value" where "boolean \<equiv> HclBool"
abbreviation object :: "hcl_field list \<Rightarrow> hcl_value" where "object \<equiv> HclObject"
abbreviation inlineObject :: "hcl_field list \<Rightarrow> hcl_value" where "inlineObject \<equiv> HclInlineObject"

section \<open>Text\<close>

definition spaces :: "nat \<Rightarrow> string" where
  "spaces n = replicate n CHR 0x20"

definition indent_lines :: "nat \<Rightarrow> string \<Rightarrow> string" where
  "indent_lines n s = concat (map (\<lambda>c. if c = CHR 0x0A then c # spaces n else [c]) s)"

definition field_key :: "string \<Rightarrow> bool \<Rightarrow> string" where
  "field_key key bare = (if bare then key else quote key)"

fun render_value :: "nat \<Rightarrow> hcl_value \<Rightarrow> string" where
  "render_value n (HclExpression e) = indent_lines n e"
| "render_value n (HclString s) = quote s"
| "render_value n (HclNumber i) = int_string i"
| "render_value n (HclBool b) = (if b then ''true'' else ''false'')"
| "render_value n (HclList vs) = (if vs = [] then ''[]'' else ''['' @ join_with '', '' (map (render_value n) vs) @ '']'')"
| "render_value n (HclObject fs) =
     (if fs = [] then ''{}''
      else ''{\<newline>'' @ concat (map (\<lambda>(key, bare, v). spaces (n + 2) @ field_key key bare @ '' = '' @ render_value (n + 2) v @ [CHR 0x0A]) fs) @
        spaces n @ ''}'')"
| "render_value n (HclInlineObject fs) =
     (if fs = [] then ''{}''
      else ''{ '' @ join_with '', '' (map (\<lambda>(key, bare, v). field_key key bare @ '' = '' @ render_value n v) fs) @ '' }'')"

text \<open>A block with its nested blocks; its items follow one another, a nested block behind an empty line unless it is first.\<close>

definition render_item :: "nat \<Rightarrow> (nat \<Rightarrow> hcl_block \<Rightarrow> string) \<Rightarrow> nat \<Rightarrow> hcl_item \<Rightarrow> string" where
  "render_item n render i item =
     (case item of
        Inl (nm, v) \<Rightarrow> spaces n @ nm @ '' = '' @ render_value n v @ [CHR 0x0A]
      | Inr b \<Rightarrow> (if i > 0 then [CHR 0x0A] else []) @ render n b)"

lemma render_item_cong [fundef_cong]:
  assumes "n = n'" "i = i'" "item = item'" "\<And>b. item' = Inr b \<Longrightarrow> render n' b = render' n' b"
  shows "render_item n render i item = render_item n' render' i' item'"
  using assms by (auto simp: render_item_def split: sum.split)

lemma item_size: "(i, Inr b) \<in> set (enumerate k items) \<Longrightarrow> size b < Suc (size_list (size_sum (\<lambda>x. 0) size) items)"
proof (induction items arbitrary: k)
  case (Cons a items)
  from Cons.prems consider "a = Inr b" | "(i, Inr b) \<in> set (enumerate (Suc k) items)" by auto
  then show ?case
  proof cases
    case 2
    from Cons.IH [OF this] show ?thesis by simp
  qed simp
qed simp

function render_block :: "nat \<Rightarrow> hcl_block \<Rightarrow> string" where
  "render_block n (HclBlock comments t labels items) =
     concat (map (\<lambda>line. spaces n @ ''# '' @ line @ [CHR 0x0A]) comments) @
     spaces n @ t @ concat (map (\<lambda>l. CHR 0x20 # quote l) labels) @ '' {\<newline>'' @ concat (map (\<lambda>(i, item). render_item (n + 2) render_block i item) (enumerate 0 items)) @ spaces n @ ''}\<newline>''"
  by pat_completeness auto
termination
  by (relation "measure (\<lambda>(n, b). size b)") (auto dest: item_size)

definition render_document :: "hcl_document \<Rightarrow> string" where
  "render_document d =
     concat (map (\<lambda>line. ''# '' @ line @ [CHR 0x0A]) (hd_header d)) @
     (if hd_header d \<noteq> [] \<and> hd_blocks d \<noteq> [] then [CHR 0x0A] else []) @
     join_with [CHR 0x0A] (map (render_block 0) (hd_blocks d))"

text \<open>Generated files. Formatting with \<open>hclwrite\<close> is a parameter.\<close>

datatype file_type = FileTypeTerraform | FileTypeJSON

record tf_file =
  tf_name :: string
  tf_content :: string
  tf_type :: file_type

definition tf_header :: string where
  "tf_header = ''# Podplane managed OpenTofu/Terraform file.\<newline># Do not edit this file directly. Update the Podplane JSONC config then rerun the Podplane CLI command, or update user-owned Terraform variable files.\<newline>\<newline>''"

definition file_text :: "(string \<Rightarrow> string) \<Rightarrow> tf_file \<Rightarrow> string" where
  "file_text hclformat f = (case tf_type f of FileTypeTerraform \<Rightarrow> hclformat (tf_header @ tf_content f) | FileTypeJSON \<Rightarrow> tf_content f)"

text \<open>\<open>WriteFiles\<close>: the files written before the first that fails are kept.\<close>

fun WriteFiles :: "(string \<Rightarrow> string) \<Rightarrow> (string \<Rightarrow> gerror) \<Rightarrow> tf_file list \<Rightarrow> (string gomap, unit) op" where
  "WriteFiles hclformat fault [] disk = (Inr (), disk)"
| "WriteFiles hclformat fault (f # fs) disk =
     (if tf_name f = [] then (Inl (Errorf ''generated tf file name is empty'' []), disk)
      else case fault (tf_name f) of
        Some e \<Rightarrow> (Inl (Wrapf ''write %s: %w'' [S (tf_name f)] e), disk)
      | None \<Rightarrow> WriteFiles hclformat fault fs (put_key (tf_name f) (file_text hclformat f) disk))"

text \<open>The bytes with an escape of their own, and how the others are written.\<close>

definition escaped :: "char list" where
  "escaped = [CHR 0x22, CHR 0x5C, CHR 0x07, CHR 0x08, CHR 0x0C, CHR 0x0A, CHR 0x0D, CHR 0x09, CHR 0x0B]"

lemma quoted_char_plain: "c \<notin> set escaped \<Longrightarrow> quoted_char c =
    (if c < CHR 0x20 \<or> c = CHR 0x7F then CHR 0x5C # CHR ''x'' # hex_string [c] else [c])"
  by (simp add: quoted_char_def escaped_def)

end
