(* ===== verification/ClusterSpec.thy ===== *)
theory ClusterSpec
  imports ClusterConfig
begin

text \<open>
  What the machines of a cluster need (\<open>internal/clusterspec\<close>): the certificate templates, the certificate files of
  each kind of machine, and the variables of \<open>mutable.env\<close> with their defaults, validation and text.
\<close>

section \<open>Certificates\<close>

record certificate =
  ce_name :: string
  ce_kind :: string
  ce_cn :: string
  ce_organization :: "string list"
  ce_dns :: "string list"
  ce_ip :: "string list"
  ce_uri :: "string list"
  ce_ttl :: int

definition defaultDNS :: "string list" where
  "defaultDNS = [''{{ .Instance.Hostname }}'', ''localhost'']"

definition defaultIP :: "string list" where
  "defaultIP = [''{{ .Instance.IP4 }}'', ''{{ .Instance.IP6 }}'', ''127.0.0.1'', ''::1'']"

definition clientCertificateWithCN :: "string \<Rightarrow> string \<Rightarrow> certificate" where
  "clientCertificateWithCN nm cn = \<lparr>ce_name = nm, ce_kind = ''client'', ce_cn = cn, ce_organization = [],
     ce_dns = defaultDNS, ce_ip = defaultIP, ce_uri = [], ce_ttl = 8760\<rparr>"

definition clientCertificate :: "string \<Rightarrow> certificate" where
  "clientCertificate nm = clientCertificateWithCN nm nm"

definition serverCertificate :: "string \<Rightarrow> certificate" where
  "serverCertificate nm = \<lparr>ce_name = nm, ce_kind = ''server'', ce_cn = nm, ce_organization = [],
     ce_dns = defaultDNS, ce_ip = defaultIP, ce_uri = [], ce_ttl = 8760\<rparr>"

definition netsyCertificate :: "string \<Rightarrow> string \<Rightarrow> string \<Rightarrow> certificate" where
  "netsyCertificate nm kind clusterIDTemplate =
     (clientCertificateWithCN nm nm)\<lparr>ce_kind := kind, ce_uri := [''netsy://'' @ clusterIDTemplate @ ''/peer/{{ .Instance.ID }}'']\<rparr>"

definition Certificates :: "string \<Rightarrow> string \<Rightarrow> string list \<Rightarrow> string list \<Rightarrow> certificate list" where
  "Certificates netsyClusterIDTemplate apiHostname apiServiceIPs ingressDomains =
     [clientCertificateWithCN ''front-proxy.client'' ''front-proxy-client'',
      \<lparr>ce_name = ''kube-apiserver.client'', ce_kind = ''client'', ce_cn = ''kube-apiserver.client'',
       ce_organization = [''system:masters''], ce_dns = defaultDNS, ce_ip = defaultIP,
       ce_uri = [''netsy://'' @ netsyClusterIDTemplate @ ''/client/kube-apiserver''], ce_ttl = 8760\<rparr>,
      \<lparr>ce_name = ''kube-apiserver.server'', ce_kind = ''server'', ce_cn = ''kube-apiserver.server'', ce_organization = [],
       ce_dns = defaultDNS @ [''kube-apiserver.podplane.internal''] @ (if apiHostname \<noteq> [] then [apiHostname] else []),
       ce_ip = defaultIP @ apiServiceIPs, ce_uri = [], ce_ttl = 8760\<rparr>,
      clientCertificateWithCN ''kube-controller-manager.client'' ''system:kube-controller-manager'',
      clientCertificateWithCN ''kube-scheduler.client'' ''system:kube-scheduler'',
      clientCertificate ''kube2iam.client'',
      \<lparr>ce_name = ''kubelet.client'', ce_kind = ''client'', ce_cn = ''system:node:{{ .Instance.ID }}'',
       ce_organization = [''system:nodes''], ce_dns = defaultDNS, ce_ip = defaultIP, ce_uri = [], ce_ttl = 8760\<rparr>,
      serverCertificate ''kubelet.server'',
      netsyCertificate ''netsy.client'' ''client'' netsyClusterIDTemplate,
      netsyCertificate ''netsy.server'' ''server'' netsyClusterIDTemplate] @
     (if ingressDomains \<noteq> []
      then [(serverCertificate ''ingress.server'')
        \<lparr>ce_dns := defaultDNS @ concat (map (\<lambda>d. [d, ''*.'' @ d]) ingressDomains)\<rparr>]
      else [])"

definition CertificateFiles :: "string \<Rightarrow> bool \<Rightarrow> string list" where
  "CertificateFiles kind ingress =
     [''kube2iam.client'', ''kubelet.client'', ''kubelet.server''] @
     (if kind = ''knc''
      then [''front-proxy.client'', ''kube-apiserver.client'', ''kube-apiserver.server'', ''kube-controller-manager.client'',
        ''kube-scheduler.client'', ''netsy.client'', ''netsy.server''] else []) @
     (if ingress \<and> (kind = ''knc'' \<or> kind = ''knd'') then [''ingress.server''] else [])"

section \<open>The mutable environment\<close>

text \<open>A missing key reads as the empty string.\<close>

type_synonym mutable_env = "string gomap"

definition env_get :: "mutable_env \<Rightarrow> string \<Rightarrow> string" where
  "env_get e key = (case map_of e key of None \<Rightarrow> [] | Some v \<Rightarrow> v)"

definition mutableEnvKeys :: "string list" where
  "mutableEnvKeys =
     [''SSH_AUTHORIZED_KEYS'', ''TELEMETRY_ENABLED'', ''TELEMETRY_LOG_CLOUDINIT'', ''TELEMETRY_LOG_SERVICES'',
      ''TELEMETRY_OTLP_ENDPOINT'', ''TELEMETRY_S3_BUCKET'', ''TELEMETRY_S3_REGION'', ''TELEMETRY_S3_ENDPOINT'',
      ''TELEMETRY_S3_ACCESS_KEY_ID'', ''TELEMETRY_S3_SECRET_ACCESS_KEY'', ''TELEMETRY_S3_ASSUME_ROLE'', ''OIDC_ISSUER'',
      ''OIDC_CA_CERT'', ''OIDC_SIGNING_ALGS'', ''KUBE_API_ETCD_SERVERS'', ''KUBE_API_PUBLIC_HOSTNAME'',
      ''KUBE_API_INTERNAL_LB_HOSTNAME'', ''KUBE_SERVICE_ACCOUNT_ISSUER'', ''KUBE_CLUSTER_CIDR'',
      ''KUBE_NODE_CIDR_MASK_SIZE_IPV4'', ''KUBE_NODE_CIDR_MASK_SIZE_IPV6'', ''KUBE_SERVICE_CLUSTER_IP_RANGE'',
      ''KUBE_CLUSTER_DNS'', ''KUBE_LOG_LEVEL'', ''AWS_S3_USE_PATH_STYLE'', ''NETSY_BUCKET'', ''NETSY_REGION'',
      ''NETSY_ENDPOINT'', ''NETSY_ACCESS_KEY_ID'', ''NETSY_SECRET_ACCESS_KEY'', ''NETSY_ASSUME_ROLE'', ''REGISTRY_ENABLED'',
      ''REGISTRY_BUCKET'', ''REGISTRY_REGION'', ''REGISTRY_ENDPOINT'', ''REGISTRY_ACCESS_KEY_ID'',
      ''REGISTRY_SECRET_ACCESS_KEY'', ''REGISTRY_ASSUME_ROLE'', ''REGISTRY_HOSTNAME'']"

definition SetObjectStorageEndpoint :: "string \<Rightarrow> mutable_env \<Rightarrow> mutable_env" where
  "SetObjectStorageEndpoint endpoint e =
     put_key ''REGISTRY_ENDPOINT'' endpoint (put_key ''TELEMETRY_S3_ENDPOINT'' endpoint (put_key ''NETSY_ENDPOINT'' endpoint e))"

definition SetObjectStorageRegion :: "string \<Rightarrow> mutable_env \<Rightarrow> mutable_env" where
  "SetObjectStorageRegion region e =
     put_key ''REGISTRY_REGION'' region (put_key ''TELEMETRY_S3_REGION'' region (put_key ''NETSY_REGION'' region e))"

definition default_env :: mutable_env where
  "default_env =
     [(''KUBE_LOG_LEVEL'', ''2''), (''KUBE_CLUSTER_CIDR'', ''100.64.0.0/10,fd64::/48''),
      (''KUBE_NODE_CIDR_MASK_SIZE_IPV4'', ''24''), (''KUBE_NODE_CIDR_MASK_SIZE_IPV6'', ''64''),
      (''KUBE_SERVICE_CLUSTER_IP_RANGE'', ''198.18.0.0/15,fdc6::/108''), (''KUBE_CLUSTER_DNS'', ''198.19.255.254,fdc6::ffff''),
      (''OIDC_SIGNING_ALGS'', ''RS256''), (''TELEMETRY_ENABLED'', ''false''), (''TELEMETRY_LOG_CLOUDINIT'', ''true''),
      (''REGISTRY_ENABLED'', ''true'')]"

definition bucket_suffixes :: mutable_env where
  "bucket_suffixes = [(''NETSY_BUCKET'', ''netsy''), (''REGISTRY_BUCKET'', ''registry''), (''TELEMETRY_S3_BUCKET'', ''telemetry'')]"

text \<open>A default does not replace a value that is set.\<close>

definition set_default :: "string \<times> string \<Rightarrow> mutable_env \<Rightarrow> mutable_env" where
  "set_default kv e = (if env_get e (fst kv) = [] then put_key (fst kv) (snd kv) e else e)"

definition ApplyDefaults :: "string \<Rightarrow> mutable_env \<Rightarrow> mutable_env" where
  "ApplyDefaults clusterID e =
     (let e1 = fold set_default default_env e
      in if clusterID = [] then e1
         else fold (\<lambda>(key, suffix). set_default (key, clusterID @ ''-'' @ suffix)) bucket_suffixes e1)"

text \<open>\<open>strconv.ParseUint\<close> in base 10 with a number of bits.\<close>

definition parse_uint :: "nat \<Rightarrow> string \<Rightarrow> nat option" where
  "parse_uint bits s = (if s \<noteq> [] \<and> list_all is_digit s \<and> dec_val s < 2 ^ bits then Some (dec_val s) else None)"

text \<open>\<open>^[a-z0-9][a-z0-9-]*(,[a-z0-9][a-z0-9-]*)*$\<close>\<close>

definition service_name :: "string \<Rightarrow> bool" where
  "service_name s \<longleftrightarrow> s \<noteq> [] \<and> (is_lower (hd s) \<or> is_digit (hd s)) \<and>
     list_all (\<lambda>c. is_lower c \<or> is_digit c \<or> c = CHR ''-'') s"

definition bad_env_char :: "char \<Rightarrow> bool" where
  "bad_env_char c \<longleftrightarrow> c \<in> {CHR 0x27, CHR 0x0A, CHR 0x0D}"

definition check_mask :: "mutable_env \<Rightarrow> string \<times> nat \<Rightarrow> gerror" where
  "check_mask e km = (case km of (key, limit) \<Rightarrow>
     (case parse_uint 8 (env_get e key) of
        Some p \<Rightarrow> if p > limit then Some (Errorf ''%s must be an integer between 0 and %d'' [S key, I (int limit)]) else None
      | None \<Rightarrow> Some (Errorf ''%s must be an integer between 0 and %d'' [S key, I (int limit)])))"

definition check_dns :: "string \<Rightarrow> gerror" where
  "check_dns v =
     (if v = [] \<or> ParseAddr v = None
      then Some (Errorf ''KUBE_CLUSTER_DNS must be a comma-separated list of IP addresses'' []) else None)"

definition validate_env :: "mutable_env \<Rightarrow> gerror" where
  "validate_env e =
     orelse_err (first_err (\<lambda>(key, v). if list_ex bad_env_char v
         then Some (Errorf ''mutable environment variable %s contains a quote or newline'' [S key]) else None) e)
    (orelse_err (if parse_uint 64 (env_get e ''KUBE_LOG_LEVEL'') = None
        then Some (Errorf ''KUBE_LOG_LEVEL must be a non-negative integer'' []) else None)
    (orelse_err (first_err check_dns (go_split CHR '','' (env_get e ''KUBE_CLUSTER_DNS'')))
    (orelse_err (first_err (check_mask e) [(''KUBE_NODE_CIDR_MASK_SIZE_IPV4'', 32), (''KUBE_NODE_CIDR_MASK_SIZE_IPV6'', 128)])
    (orelse_err (first_err (\<lambda>key. if env_get e key \<noteq> ''true'' \<and> env_get e key \<noteq> ''false''
        then Some (Errorf ''%s must be either true or false'' [S key]) else None)
        [''TELEMETRY_LOG_CLOUDINIT'', ''TELEMETRY_ENABLED'', ''REGISTRY_ENABLED''])
    (orelse_err (let services = env_get e ''TELEMETRY_LOG_SERVICES'' in
        if services \<noteq> [] \<and> \<not> list_all service_name (go_split CHR '','' services)
        then Some (Errorf ''TELEMETRY_LOG_SERVICES must be a comma-separated list of lowercase service names'' []) else None)
      (if env_get e ''REGISTRY_ENABLED'' = ''true'' \<and> env_get e ''REGISTRY_HOSTNAME'' = []
       then Some (Errorf ''REGISTRY_HOSTNAME is required when REGISTRY_ENABLED is true'' []) else None))))))"

definition quoteEnvValue :: "string \<Rightarrow> string" where
  "quoteEnvValue v = CHR 0x27 # concat (map (\<lambda>c. if c = CHR 0x27 then [CHR 0x27, CHR 0x5C, CHR 0x27, CHR 0x27] else [c]) v) @ [CHR 0x27]"

definition Render :: "mutable_env \<Rightarrow> string result" where
  "Render e =
     bindR (err_result (validate_env e)) (\<lambda>_.
       Inr (join_with [CHR 0x0A] (map (\<lambda>key. key @ ''='' @ quoteEnvValue (env_get e key)) mutableEnvKeys) @ [CHR 0x0A]))"

end
