(* ===== verification/TfValues.thy ===== *)
theory TfValues
  imports Hcl ClusterSpec ClusterValidate "HOL-Library.Product_Lexorder"
begin

text \<open>
  The values of the generated cluster stack: the functions of \<open>internal/tfgen/cluster.go\<close> and \<open>runtime.go\<close> that turn
  parts of the configuration into Terraform values. Where the code ranges over a map in any order and sorts
  what it collected, the model ranges over the association list.
\<close>

section \<open>Seeds and targets\<close>

definition seeded :: "cluster_config \<Rightarrow> bool" where
  "seeded cfg = HasPlatformComponents (se_name (cl_seed (cc_cluster cfg)))"

definition tunnelled :: "cluster_config \<Rightarrow> bool" where
  "tunnelled cfg \<longleftrightarrow> cl_tunnel (cc_cluster cfg) \<noteq> None"

definition provider0 :: "cluster_config \<Rightarrow> provider" where
  "provider0 cfg = hd (cl_providers (cc_cluster cfg))"

text \<open>The NAT configuration when Nstance manages NAT; a missing group reads as zero.\<close>

definition nstance_nat :: "cluster_config \<Rightarrow> nat_config option" where
  "nstance_nat cfg = (case cl_nat (cc_cluster cfg) of Some n \<Rightarrow> if na_mode n = ''nstance'' then Some n else None | None \<Rightarrow> None)"

definition no_nat_group :: nat_group where
  "no_nat_group = \<lparr>ng_arch = [], ng_instance_type = [], ng_subnet_pool = []\<rparr>"

definition go_lookup :: "'v \<Rightarrow> 'v gomap \<Rightarrow> string \<Rightarrow> 'v" where
  "go_lookup zero m k = (case map_of m k of Some v \<Rightarrow> v | None \<Rightarrow> zero)"

record vm_target =
  vt_kind :: string
  vt_arch :: string

definition dataName :: "vm_target \<Rightarrow> string" where
  "dataName t = safeName [vt_kind t, vt_arch t]"

definition poolKind :: "string \<Rightarrow> string" where
  "poolKind poolName = (if poolName = ''control-plane'' then ''knc'' else ''knd'')"

definition serverArch :: "provider \<Rightarrow> string" where
  "serverArch p = (if pr_kind p = ''google'' then ''amd64'' else ''arm64'')"

definition nat_targets :: "cluster_config \<Rightarrow> vm_target list" where
  "nat_targets cfg = (case nstance_nat cfg of None \<Rightarrow> []
     | Some n \<Rightarrow> map (\<lambda>(_, g). \<lparr>vt_kind = ''nat'', vt_arch = ng_arch g\<rparr>) (na_groups n))"

text \<open>\<open>RequiredVMTargets\<close>: a set of targets, sorted by kind and architecture.\<close>

definition RequiredVMTargets :: "cluster_config \<Rightarrow> vm_target list" where
  "RequiredVMTargets cfg =
     map (\<lambda>(k, a). \<lparr>vt_kind = k, vt_arch = a\<rparr>)
       (sort (remdups (map (\<lambda>t. (vt_kind t, vt_arch t))
         (map (\<lambda>(poolName, p). \<lparr>vt_kind = poolKind poolName, vt_arch = po_arch p\<rparr>) (cl_pools (cc_cluster cfg)) @
          [\<lparr>vt_kind = ''nst'', vt_arch = serverArch (provider0 cfg)\<rparr>] @ nat_targets cfg))))"

section \<open>Shared values\<close>

definition stringMapValue :: "string gomap \<Rightarrow> hcl_value" where
  "stringMapValue values = object (map (\<lambda>(k, v). field k (str v)) (canon_map values))"

definition storage_kind :: "provider \<Rightarrow> string" where
  "storage_kind p = (if pr_kind p = ''google'' then ''gcs'' else ''s3'')"

definition bool_text :: "bool \<Rightarrow> string" where
  "bool_text b = (if b then ''true'' else ''false'')"

definition serverEnvValue :: "cluster_config \<Rightarrow> string \<Rightarrow> hcl_value" where
  "serverEnvValue cfg zone =
     (let storage = storage_kind (provider0 cfg);
          settings = object
            [field ''CLUSTER_ID'' (expr ''local.cluster_id''),
             field ''PROVIDER_REGION'' (expr ''local.provider_region''),
             field ''PROVIDER_ZONE'' (str zone),
             field ''NSTANCE_SERVER_STORAGE'' (str storage),
             field ''NSTANCE_SERVER_BUCKET'' (expr ''module.cluster.bucket''),
             field ''NSTANCE_SERVER_SHARD'' (str zone),
             field ''NSTANCE_SERVER_PREFIX'' (str (''shard/'' @ zone @ ''/'')),
             field ''NSTANCE_SLEEP_ENABLED'' (str (bool_text (seeded cfg))),
             field ''NSTANCE_TUNNEL_ENABLED'' (str (bool_text (tunnelled cfg \<and> seeded cfg))),
             field ''NSTANCE_TUNNEL_STORAGE'' (str storage),
             field ''NSTANCE_TUNNEL_BUCKET'' (expr ''module.cluster.bucket''),
             field ''NSTANCE_TUNNEL_SHARD'' (str zone),
             field ''NSTANCE_TUNNEL_PREFIX'' (str (''shard/'' @ zone @ ''/''))]
      in expr (''merge(local.host_env, '' @ render_value 0 settings @ '')''))"

definition activity_port_list :: "cluster_config \<Rightarrow> string \<Rightarrow> int list" where
  "activity_port_list cfg pool =
     (if \<not> seeded cfg then []
      else if tunnelled cfg
      then (if pool = ''control-plane'' then 6443 # cond (cl_domains (cc_cluster cfg) \<noteq> []) [443] else [])
      else concat (map (\<lambda>(_, lb). map ResolvedTargetPort (filter (\<lambda>l. li_pool l = pool) (lb_listeners lb)))
        (pr_load_balancers (provider0 cfg))))"

definition activityPorts :: "cluster_config \<Rightarrow> string \<Rightarrow> string" where
  "activityPorts cfg pool = join_with '','' (map int_string (remdups_adj (sort (activity_port_list cfg pool))))"

definition natValue :: "nat_config \<Rightarrow> string \<Rightarrow> string \<Rightarrow> hcl_value" where
  "natValue n zone networkName =
     object (map (\<lambda>(tenant, policy). field tenant (object
       ([identField ''group'' (str (tn_group policy)),
         identField ''instance_type_ladder'' (stringValueList (tn_ladder policy))] @
        cond (na_fixed_count n > 0)
          [identField ''public_addresses'' (expr (''module.'' @ networkName @ ''.nat_public_addresses['' @
            quote (ng_subnet_pool (go_lookup no_nat_group (na_groups n) (tn_group policy)) @ ''-'' @ zone) @ '']''))])))
       (canon_map (na_tenants n)))"

definition node_subnets :: "provider \<Rightarrow> subnet list" where
  "node_subnets p = filter (\<lambda>s. su_pool s \<noteq> []) (concat (map snd (pr_zones p)))"

definition existing_ids :: "provider \<Rightarrow> string list" where
  "existing_ids p = remdups_adj (sort (filter (\<lambda>i. i \<noteq> []) (map su_id (node_subnets p))))"

definition addNATSubnetLookups :: "provider \<Rightarrow> hcl_block list" where
  "addNATSubnetLookups p =
     (if existing_ids p = [] then []
      else [block ''data'' [if pr_kind p = ''google'' then ''google_compute_subnetwork'' else ''aws_subnet'', ''nat_sources'']
        (attr ''for_each'' (expr (''toset('' @ render_value 0 (stringValueList (existing_ids p)) @ '')'')) #
         (if pr_kind p = ''google''
          then [attr ''name'' (expr ''basename(each.value)''), attr ''project'' (expr ''local.provider_project''),
            attr ''region'' (expr ''local.provider_region'')]
          else [attr ''id'' (expr ''each.value'')]))])"

definition source_cidrs :: "provider \<Rightarrow> string list" where
  "source_cidrs p = remdups_adj (sort (map su_v4cidr (filter (\<lambda>s. su_id s = []) (node_subnets p))))"

definition natSourceCIDRs :: "provider \<Rightarrow> hcl_value" where
  "natSourceCIDRs p =
     (if list_all (\<lambda>s. su_id s = []) (node_subnets p) then str (join_with '','' (source_cidrs p))
      else let (source, attribute) = (if pr_kind p = ''google''
          then (''data.google_compute_subnetwork.nat_sources'', ''ip_cidr_range'') else (''data.aws_subnet.nat_sources'', ''cidr_block''))
        in expr (''join(\",\", distinct(concat('' @ render_value 0 (stringValueList (source_cidrs p)) @ '', [for subnet in '' @ source @
          '' : subnet.'' @ attribute @ ''])))''))"

definition endpointTarget :: "cluster_config \<Rightarrow> string \<Rightarrow> string \<Rightarrow> hcl_value" where
  "endpointTarget cfg networkName loadBalancer =
     (case cl_tunnel (cc_cluster cfg) of
        Some t \<Rightarrow> str (tu_id t @ ''.cfargotunnel.com'')
      | None \<Rightarrow> expr (''module.'' @ networkName @ ''.load_balancers['' @ quote loadBalancer @ ''].'' @
          (if pr_kind (provider0 cfg) = ''google'' then ''frontends[0].ip'' else ''dns_name'')))"

definition imageArgs :: "string \<Rightarrow> string \<Rightarrow> int \<Rightarrow> hcl_value" where
  "imageArgs providerKind arch diskSize =
     (if providerKind = ''google''
      then object
        (identField ''SourceImage'' (str (''projects/debian-cloud/global/images/family/debian-13'' @
            (if arch = ''arm64'' then ''-arm64'' else []))) #
         cond (diskSize > 0) [identField ''DiskSizeGb'' (number diskSize)])
      else object
        (identField ''ImageId'' (str (''{{ .Image.debian_13_'' @ arch @ '' }}'')) #
         cond (diskSize > 0) [identField ''BlockDeviceMappings'' (HclList [inlineObject
           [identField ''DeviceName'' (str ''/dev/sda1''),
            identField ''Ebs'' (inlineObject
              [identField ''VolumeSize'' (number diskSize), identField ''VolumeType'' (str ''gp3''),
               identField ''Encrypted'' (boolean True), identField ''DeleteOnTermination'' (boolean True)])]])]))"

section \<open>Tunnels\<close>

definition tunnel_route :: "hcl_value \<Rightarrow> hcl_value \<Rightarrow> int \<Rightarrow> hcl_value" where
  "tunnel_route hostname ident port = object
     [identField ''hostname'' hostname,
      identField ''service'' (str (''https://127.0.0.1:'' @ int_string port)),
      identField ''originRequest'' (object
        [identField ''caPool'' (str ''/run/tunnel/ca.crt''), identField ''originServerName'' ident])]"

definition tunnelConfig :: "cluster_config \<Rightarrow> tunnel \<Rightarrow> bool \<Rightarrow> hcl_value" where
  "tunnelConfig cfg t wake =
     (let apiPort = (if wake then 16443 else 6443); ingressPort = (if wake then 10443 else 443);
          hostname = expr ''var.kubernetes_api_hostname''
      in object
        [field ''tunnel'' (str (tu_id t)),
         field ''credentials-file'' (str ''/run/tunnel/credentials.json''),
         field ''metrics'' (str ''127.0.0.1:2000''),
         field ''ingress'' (HclList
           (tunnel_route hostname hostname apiPort #
            concat (map (\<lambda>d. [tunnel_route (str (do_zone d)) (str (do_zone d)) ingressPort,
              tunnel_route (str (''*.'' @ do_zone d)) (str (do_zone d)) ingressPort]) (cl_domains (cc_cluster cfg))) @
            [object [identField ''service'' (str ''http_status:404'')]]))])"

definition nodeTunnelFiles :: "cluster_config \<Rightarrow> tunnel \<Rightarrow> string \<Rightarrow> hcl_field list" where
  "nodeTunnelFiles cfg t img =
     [field ''tunnel.env'' (object
        [identField ''kind'' (str ''env''),
         identField ''template'' (object
           [identField ''TUNNEL_ENABLED'' (str ''true''), identField ''TUNNEL_IMAGE'' (str img),
            identField ''TUNNEL_ARGS'' (str ''tunnel|--config|/run/tunnel/config.json|run''),
            identField ''TUNNEL_FILES'' (str ''tunnel-config.json:/run/tunnel/config.json|tunnel-credentials.json:/run/tunnel/credentials.json|tunnel-ca.crt:/run/tunnel/ca.crt'')])]),
      field ''tunnel-config.json'' (object [identField ''kind'' (str ''json''), identField ''template'' (tunnelConfig cfg t False)]),
      field ''tunnel-credentials.json'' (object [identField ''kind'' (str ''secret''), identField ''source'' (str (tu_credential_secret t))]),
      field ''tunnel-ca.crt'' (object [identField ''kind'' (str ''string''), identField ''template'' (str ''{{ .Cluster.CACert }}'')])]"

definition wakeTunnelsValue :: "cluster_config \<Rightarrow> tunnel \<Rightarrow> string \<Rightarrow> hcl_value" where
  "wakeTunnelsValue cfg t img =
     object [field ''cluster'' (object
       [identField ''listeners'' (HclList
          (inlineObject [identField ''target_port'' (number 6443), identField ''proxy_port'' (number 16443)] #
           cond (cl_domains (cc_cluster cfg) \<noteq> [])
             [inlineObject [identField ''target_port'' (number 443), identField ''proxy_port'' (number 10443)]])),
        identField ''image'' (str img),
        identField ''args'' (stringValueList [''tunnel'', ''--config'', ''/run/tunnel/config.json'', ''run'']),
        identField ''readiness_url'' (str ''http://127.0.0.1:2000/ready''),
        identField ''files'' (object
          [field ''/run/tunnel/config.json'' (object [identField ''kind'' (str ''json''), identField ''template'' (tunnelConfig cfg t True)]),
           field ''/run/tunnel/credentials.json'' (object [identField ''kind'' (str ''secret''), identField ''source'' (str (tu_credential_secret t))]),
           field ''/run/tunnel/ca.crt'' (object [identField ''kind'' (str ''storage''), identField ''source'' (str ''tunnel-ca.crt'')])])])]"

definition addTunnelCAFiles :: "provider \<Rightarrow> hcl_block list" where
  "addTunnelCAFiles p =
     (let google = (pr_kind p = ''google'') in
      cond google [block ''data'' [''google_storage_bucket_object_content'', ''nstance_ca'']
        [attr ''bucket'' (expr ''module.cluster.bucket''), attr ''name'' (str ''cluster/ca.crt''),
         attr ''depends_on'' (HclList [expr ''podplane_netsy_seed_gcs.cluster''])]] @
      [block ''resource'' [if google then ''google_storage_bucket_object'' else ''aws_s3_object_copy'', ''tunnel_ca'']
        ([attr ''for_each'' (expr (''toset('' @ render_value 0 (stringValueList (sorted_keys (pr_zones p))) @ '')'')),
          attr ''bucket'' (expr ''module.cluster.bucket''),
          attr (if google then ''name'' else ''key'') (str ''shard/${each.key}/tunnel-ca.crt'')] @
         (if google
          then [attr ''content'' (expr ''data.google_storage_bucket_object_content.nstance_ca.content'')]
          else [attr ''source'' (str ''${module.cluster.bucket}/cluster/ca.crt''),
            attr ''depends_on'' (HclList [expr ''podplane_netsy_seed_s3.cluster''])]))])"

end
