(* ===== verification/TfStack.thy ===== *)
theory TfStack
  imports TfValues
begin

text \<open>
  The values of the network, of the groups and templates of machines, of the certificates and of the DNS records
  of the generated stack (\<open>internal/tfgen/cluster.go\<close>).
\<close>

section \<open>Environments\<close>

definition hostEnvValue :: "string \<Rightarrow> hcl_value" where
  "hostEnvValue providerKind = expr (''{ for key, value in {\<newline>  SSH_AUTHORIZED_KEYS = var.ssh_authorized_keys\<newline>  TELEMETRY_ENABLED = var.telemetry_enabled == null ? null : tostring(var.telemetry_enabled)\<newline>  TELEMETRY_LOG_CLOUDINIT = var.telemetry_log_cloudinit == null ? null : tostring(var.telemetry_log_cloudinit)\<newline>  TELEMETRY_LOG_SERVICES = var.telemetry_log_services\<newline>  TELEMETRY_OTLP_ENDPOINT = var.telemetry_otlp_endpoint\<newline>  TELEMETRY_S3_BUCKET = var.telemetry_s3_bucket\<newline>  TELEMETRY_S3_REGION = local.provider_region\<newline>  TELEMETRY_S3_ENDPOINT = var.telemetry_s3_endpoint\<newline>  TELEMETRY_S3_ASSUME_ROLE = var.telemetry_s3_assume_role\<newline>  AWS_S3_USE_PATH_STYLE = var.aws_s3_use_path_style\<newline>  REGISTRY_ENABLED = var.registry_enabled == null ? null : tostring(var.registry_enabled)\<newline>  REGISTRY_BUCKET = '' @
    (if providerKind = ''google'' then ''google_storage_bucket.podplane_cluster[\"registry\"].name''
     else ''aws_s3_bucket.podplane_cluster[\"registry\"].bucket'') @
''\<newline>  REGISTRY_REGION = local.provider_region\<newline>  REGISTRY_ENDPOINT = var.registry_endpoint\<newline>  REGISTRY_HOSTNAME = var.registry_hostname\<newline>} : key => value if value != null }'')"

definition mutableEnvValue :: "service_network \<Rightarrow> string \<Rightarrow> hcl_value" where
  "mutableEnvValue network providerKind = expr (''merge(local.host_env, { for key, value in {\<newline>  '' @
    (if providerKind = ''google'' then ''NETSY_BUCKET = google_storage_bucket.podplane_cluster[\"netsy\"].name''
     else ''NETSY_BUCKET = aws_s3_bucket.podplane_cluster[\"netsy\"].bucket\<newline>  NETSY_ASSUME_ROLE = aws_iam_role.podplane_cluster[\"netsy\"].arn\<newline>  REGISTRY_ASSUME_ROLE = aws_iam_role.podplane_cluster[\"registry-read-only\"].arn'') @
''\<newline>  NETSY_REGION = local.provider_region\<newline>  OIDC_ISSUER = var.oidc_issuer_url\<newline>  OIDC_USERNAME_CLAIM = local.oidc_username_claim\<newline>  OIDC_SIGNING_ALGS = var.oidc_signing_algs == null ? null : join(\",\", var.oidc_signing_algs)\<newline>  KUBE_API_PUBLIC_HOSTNAME = var.kubernetes_api_hostname\<newline>  KUBE_SERVICE_ACCOUNT_ISSUER = \"https://${var.kubernetes_api_hostname}:${var.kubernetes_api_port}\"\<newline>  KUBE_CLUSTER_CIDR = join(\",\", var.kubernetes_cluster_cidr)\<newline>  KUBE_SERVICE_CLUSTER_IP_RANGE = join(\",\", var.kubernetes_service_cidr)\<newline>  KUBE_CLUSTER_DNS = '' @ quote (join_with '','' (map addr_string (sn_dns network))) @
''\<newline>  TELEMETRY_S3_ACCESS_KEY_ID = var.telemetry_s3_access_key_id\<newline>  TELEMETRY_S3_SECRET_ACCESS_KEY = var.telemetry_s3_secret_access_key\<newline>  OIDC_CA_CERT = var.oidc_ca_cert\<newline>  KUBE_API_ETCD_SERVERS = var.kube_api_etcd_servers\<newline>  KUBE_LOG_LEVEL = var.kube_log_level == null ? null : tostring(var.kube_log_level)\<newline>  KUBE_NODE_CIDR_MASK_SIZE_IPV4 = var.kubernetes_node_cidr_mask_size_ipv4 == null ? null : tostring(var.kubernetes_node_cidr_mask_size_ipv4)\<newline>  KUBE_NODE_CIDR_MASK_SIZE_IPV6 = var.kubernetes_node_cidr_mask_size_ipv6 == null ? null : tostring(var.kubernetes_node_cidr_mask_size_ipv6)\<newline>  NETSY_ENDPOINT = var.netsy_endpoint\<newline>  NETSY_ACCESS_KEY_ID = var.netsy_access_key_id\<newline>  NETSY_SECRET_ACCESS_KEY = var.netsy_secret_access_key\<newline>  REGISTRY_ACCESS_KEY_ID = var.registry_access_key_id\<newline>  REGISTRY_SECRET_ACCESS_KEY = var.registry_secret_access_key\<newline>} : key => value if value != null })'')"

section \<open>Subnets and load balancers\<close>

text \<open>The subnets in zone order, each with the index of the next automatic IPv6 range.\<close>

fun number_subnets :: "int \<Rightarrow> (string \<times> subnet) list \<Rightarrow> (string \<times> subnet \<times> int) list" where
  "number_subnets n [] = []"
| "number_subnets n ((zone, s) # zs) =
     (zone, s, n) # number_subnets (if su_v6cidr s = ''auto'' then n + 1 else n) zs"

definition zone_subnets :: "provider \<Rightarrow> (string \<times> subnet) list" where
  "zone_subnets p = concat (map (\<lambda>(zone, subnets). map (Pair zone) subnets) (canon_map (pr_zones p)))"

definition subnet_entries :: "provider \<Rightarrow> (string \<times> subnet \<times> int) list" where
  "subnet_entries p = number_subnets 0 (zone_subnets p)"

text \<open>The role of the last public NAT subnet of a zone, or none.\<close>

definition nat_role :: "provider \<Rightarrow> string \<Rightarrow> string" where
  "nat_role p zone =
     foldl (\<lambda>role s. if su_public s \<and> ''nat'' \<in> set (su_services s) then ResolvedRole s else role) []
       (go_lookup [] (pr_zones p) zone)"

definition subnetValue :: "subnet \<Rightarrow> int \<Rightarrow> string \<Rightarrow> hcl_value" where
  "subnetValue s v6CIDRNum natRole =
     inlineObject
       ((if su_id s \<noteq> [] then [identField ''existing'' (str (su_id s))] else [identField ''ipv4_cidr'' (str (su_v4cidr s))]) @
        (if su_v6cidr s = ''auto'' then [identField ''ipv6_netnum'' (number v6CIDRNum)]
         else cond (su_v6cidr s \<noteq> []) [identField ''ipv6_cidr'' (str (su_v6cidr s))]) @
        cond (su_public s) [identField ''public'' (boolean True)] @
        cond (''nat'' \<in> set (su_services s)) [identField ''nat_gateway'' (boolean True)] @
        cond (\<not> su_public s \<and> natRole \<noteq> []) [identField ''nat_subnet'' (str natRole)])"

definition role_value :: "provider \<Rightarrow> string \<Rightarrow> hcl_field" where
  "role_value p role =
     (let entries = filter (\<lambda>(_, s, _). ResolvedRole s = role) (subnet_entries p)
      in field role (object (map (\<lambda>zone. field zone (HclList
           (map (\<lambda>(_, s, n). subnetValue s n (nat_role p zone)) (filter (\<lambda>e. fst e = zone) entries))))
         (sort (remdups (map fst entries))))))"

definition subnetsValue :: "provider \<Rightarrow> hcl_value" where
  "subnetsValue p = object (map (role_value p) (sort (remdups (map (\<lambda>(_, s, _). ResolvedRole s) (subnet_entries p)))))"

definition listener_value :: "listener \<Rightarrow> hcl_value" where
  "listener_value l = inlineObject
     [identField ''port'' (number (li_port l)), identField ''target_port'' (number (ResolvedTargetPort l)),
      identField ''proxy_port'' (number (ResolvedProxyPort l))]"

definition load_balancer_value :: "provider \<Rightarrow> load_balancer \<Rightarrow> hcl_value" where
  "load_balancer_value p lb =
     (let listeners = sort_key li_port (lb_listeners lb)
      in inlineObject
        ([identField ''listeners'' (HclList (map listener_value listeners)),
          identField ''subnets'' (str (lb_subnets lb)), identField ''public'' (boolean (lb_public lb))] @
         cond (pr_kind p = ''google'')
           [identField ''backend_subnets'' (str (li_pool (hd listeners))), identField ''proxy_subnets'' (str ''nstance'')]))"

definition loadBalancersValue :: "provider \<Rightarrow> hcl_value" where
  "loadBalancersValue p = object (map (\<lambda>(nm, lb). field nm (load_balancer_value p lb)) (canon_map (pr_load_balancers p)))"

section \<open>Groups and templates\<close>

definition lbs_by_pool :: "cluster_config \<Rightarrow> provider \<Rightarrow> string \<Rightarrow> string list" where
  "lbs_by_pool cfg p poolName =
     (if tunnelled cfg \<and> seeded cfg \<and> poolName = ''control-plane'' then [''cluster'']
      else sort (map fst (filter (\<lambda>(_, lb). li_pool (hd (lb_listeners lb)) = poolName) (pr_load_balancers p))))"

definition instance_type_key :: "provider \<Rightarrow> string" where
  "instance_type_key p = (if pr_kind p = ''google'' then ''machine_type'' else ''instance_type'')"

definition pool_group :: "cluster_config \<Rightarrow> provider \<Rightarrow> string \<Rightarrow> hcl_field" where
  "pool_group cfg p poolName = field poolName (object
     ([identField ''template'' (str poolName),
       identField ''size'' (expr (''var.pool_sizes['' @ quote poolName @ '']'')),
       identField ''subnet_pool'' (str poolName),
       identField (instance_type_key p) (expr (''var.pool_instance_types['' @ quote poolName @ '']'')),
       identField ''vars'' (expr (''merge(local.mutable_env, { NSTANCE_EBPF_PORTS = '' @ quote (activityPorts cfg poolName) @ '' })''))] @
      cond (lbs_by_pool cfg p poolName \<noteq> [])
        [identField ''load_balancers'' (stringValueList (lbs_by_pool cfg p poolName))]))"

definition nat_group_value :: "provider \<Rightarrow> string \<times> nat_group \<Rightarrow> hcl_field" where
  "nat_group_value p g = (case g of (nm, grp) \<Rightarrow> field nm (object
     [identField ''template'' (str nm),
      identField ''subnet_pool'' (str (ng_subnet_pool grp)),
      identField (instance_type_key p) (expr (''var.pool_instance_types['' @ quote nm @ '']'')),
      identField ''vars'' (object [identField ''NAT_IPV4_SOURCE_CIDRS'' (natSourceCIDRs p)])]))"

text \<open>The groups of the NAT configuration in the order of their names.\<close>

definition nat_groups :: "cluster_config \<Rightarrow> nat_group gomap" where
  "nat_groups cfg = (case nstance_nat cfg of None \<Rightarrow> [] | Some n \<Rightarrow> canon_map (na_groups n))"

definition group_fields :: "cluster_config \<Rightarrow> provider \<Rightarrow> hcl_field list" where
  "group_fields cfg p = map (pool_group cfg p) (sorted_keys (cl_pools (cc_cluster cfg))) @ map (nat_group_value p) (nat_groups cfg)"

definition groupsValue :: "cluster_config \<Rightarrow> provider \<Rightarrow> hcl_value" where
  "groupsValue cfg p = object [field ''default'' (object (group_fields cfg p))]"

definition certificate_file :: "string \<Rightarrow> hcl_field" where
  "certificate_file nm = field (nm @ ''.crt'') (inlineObject
     [identField ''kind'' (str ''certificate''), identField ''template'' (str nm),
      identField ''key'' (inlineObject [identField ''source'' (str ''agent''), identField ''name'' (str nm)])])"

definition nstanceTemplateFilesValue :: "string \<Rightarrow> cluster_config \<Rightarrow> string \<Rightarrow> hcl_value" where
  "nstanceTemplateFilesValue kind cfg tunnelImage =
     inlineObject
       ([field ''mutable.env'' (inlineObject
          [identField ''kind'' (str ''env''),
           identField ''template'' (expr ''merge(local.mutable_env, { NSTANCE_EBPF_PORTS = \"{{ .Vars.NSTANCE_EBPF_PORTS }}\" })'')])] @
        map certificate_file (CertificateFiles kind (tunnelled cfg \<and> cl_domains (cc_cluster cfg) \<noteq> [])) @
        cond (kind = ''knc'')
          [field ''service-accounts.key'' (inlineObject [identField ''kind'' (str ''secret''), identField ''source'' (str ''service-accounts.key'')]),
           field ''service-accounts.pub'' (inlineObject [identField ''kind'' (str ''string''),
             identField ''template'' (expr ''podplane_service_account_key.cluster.public_key_pem'')])] @
        (case cl_tunnel (cc_cluster cfg) of
           Some t \<Rightarrow> cond (kind = ''knc'') (nodeTunnelFiles cfg t tunnelImage)
         | None \<Rightarrow> []))"

definition userdata_value :: "vm_target \<Rightarrow> hcl_value" where
  "userdata_value target = inlineObject
     [identField ''source'' (str ''inline''), identField ''encoding'' (str ''base64''),
      identField ''content'' (expr (''base64encode(data.podplane_userdata.'' @ dataName target @ ''.content)''))]"

definition pool_template :: "cluster_config \<Rightarrow> (vm_target \<times> string) list \<Rightarrow> string \<times> pool \<Rightarrow> hcl_field" where
  "pool_template cfg tunnelImages np = (case np of (poolName, p) \<Rightarrow>
     (let kind = poolKind poolName; target = \<lparr>vt_kind = kind, vt_arch = po_arch p\<rparr> in
      field poolName (object
        [identField ''kind'' (str kind), identField ''arch'' (str (po_arch p)),
         identField ''vars'' (expr ''local.mutable_env''),
         identField ''userdata'' (userdata_value target),
         identField ''files'' (nstanceTemplateFilesValue kind cfg (case map_of tunnelImages target of Some i \<Rightarrow> i | None \<Rightarrow> [])),
         identField ''args'' (imageArgs (pr_kind (provider0 cfg)) (po_arch p) (po_disk_size p))])))"

definition nat_template :: "cluster_config \<Rightarrow> string \<times> nat_group \<Rightarrow> hcl_field" where
  "nat_template cfg g = (case g of (nm, grp) \<Rightarrow> field nm (object
     [identField ''kind'' (str ''nat''), identField ''arch'' (str (ng_arch grp)),
      identField ''userdata'' (userdata_value \<lparr>vt_kind = ''nat'', vt_arch = ng_arch grp\<rparr>),
      identField ''files'' (inlineObject [field ''mutable.env'' (inlineObject
        [identField ''kind'' (str ''env''),
         identField ''template'' (object [identField ''NAT_IPV4_SOURCE_CIDRS'' (natSourceCIDRs (provider0 cfg))])])]),
      identField ''args'' (imageArgs (pr_kind (provider0 cfg)) (ng_arch grp) 0)]))"

definition template_fields :: "cluster_config \<Rightarrow> (vm_target \<times> string) list \<Rightarrow> hcl_field list" where
  "template_fields cfg tunnelImages =
     map (pool_template cfg tunnelImages) (canon_map (cl_pools (cc_cluster cfg))) @ map (nat_template cfg) (nat_groups cfg)"

definition templatesValue :: "cluster_config \<Rightarrow> (vm_target \<times> string) list \<Rightarrow> hcl_value" where
  "templatesValue cfg tunnelImages = object (template_fields cfg tunnelImages)"

definition certificate_value :: "certificate \<Rightarrow> hcl_field" where
  "certificate_value cert = field (ce_name cert) (inlineObject
     ([identField ''kind'' (str (ce_kind cert)), identField ''cn'' (str (ce_cn cert)),
       identField ''dns'' (HclList (map str (ce_dns cert) @
         cond (ce_name cert = ''kube-apiserver.server'') [expr ''var.kubernetes_api_hostname''])),
       identField ''ip'' (stringValueList (ce_ip cert)), identField ''ttl'' (number (ce_ttl cert))] @
      cond (ce_organization cert \<noteq> []) [identField ''organization'' (stringValueList (ce_organization cert))] @
      cond (ce_uri cert \<noteq> []) [identField ''uri'' (stringValueList (ce_uri cert))]))"

definition certificate_fields :: "cluster_config \<Rightarrow> string list \<Rightarrow> hcl_field list" where
  "certificate_fields cfg apiServiceIPs =
     map certificate_value (Certificates ''{{ .Cluster.ID }}'' [] apiServiceIPs
       (if tunnelled cfg then map do_zone (cl_domains (cc_cluster cfg)) else []))"

definition nstanceCertificatesValue :: "cluster_config \<Rightarrow> string list \<Rightarrow> hcl_value" where
  "nstanceCertificatesValue cfg apiServiceIPs = object (certificate_fields cfg apiServiceIPs)"

definition shard_module :: "string \<Rightarrow> string" where
  "shard_module zone = safeName [''shard'', zone]"

definition nstanceShardsValue :: "provider \<Rightarrow> hcl_value" where
  "nstanceShardsValue p = object (map (\<lambda>zone. field zone (object
     [identField ''config_key'' (expr (''module.'' @ shard_module zone @ ''.config_key'')),
      identField ''server_ips'' (expr (''module.'' @ shard_module zone @ ''.server_ips''))])) (sorted_keys (pr_zones p)))"

section \<open>Domains\<close>

definition domainCoversHostname :: "string \<Rightarrow> string \<Rightarrow> bool" where
  "domainCoversHostname zone hostname \<longleftrightarrow> hostname = zone \<or> has_suffix hostname (''.'' @ zone)"

text \<open>The default domain, when its DNS provider can manage the hostname of the Kubernetes API.\<close>

definition managedAPIDomain :: "cluster_config \<Rightarrow> cdomain option" where
  "managedAPIDomain cfg =
     (let k = cl_kubernetes (cc_cluster cfg) in
      if ku_api_load_balancer k = [] then None
      else case cl_domains (cc_cluster cfg) of
        [] \<Rightarrow> None
      | d # _ \<Rightarrow> if do_provider d = None \<or> \<not> domainCoversHostname (do_zone d) (ku_api_hostname k) then None else Some d)"

definition apiRecordCoveredByDomain :: "cluster_config \<Rightarrow> bool" where
  "apiRecordCoveredByDomain cfg \<longleftrightarrow> list_ex (\<lambda>d. do_zone d = ku_api_hostname (cl_kubernetes (cc_cluster cfg)) \<and>
     ResolvedDomainLoadBalancer d = ku_api_load_balancer (cl_kubernetes (cc_cluster cfg))) (cl_domains (cc_cluster cfg))"

definition domainTargetsValue :: "cluster_config \<Rightarrow> string \<Rightarrow> hcl_value" where
  "domainTargetsValue cfg networkName = object (map (\<lambda>d. field (do_zone d) (object
     [identField ''names'' (stringValueList [do_zone d, ''*.'' @ do_zone d]),
      identField ''target'' (endpointTarget cfg networkName (ResolvedDomainLoadBalancer d)),
      identField ''managed'' (boolean (do_provider d \<noteq> None \<and> \<not> tunnelled cfg))])) (cl_domains (cc_cluster cfg)))"

definition manual_records :: "cluster_config \<Rightarrow> string \<Rightarrow> hcl_field list" where
  "manual_records cfg networkName =
     concat (map (\<lambda>d. if do_provider d \<noteq> None \<and> \<not> tunnelled cfg then []
       else let target = endpointTarget cfg networkName (ResolvedDomainLoadBalancer d)
         in [field (do_zone d) target, field (''*.'' @ do_zone d) target]) (cl_domains (cc_cluster cfg))) @
     (let k = cl_kubernetes (cc_cluster cfg) in
      cond (tunnelled cfg \<or> (ku_api_load_balancer k \<noteq> [] \<and> managedAPIDomain cfg = None \<and> \<not> apiRecordCoveredByDomain cfg))
        [field (ku_api_hostname k) (endpointTarget cfg networkName (ku_api_load_balancer k))])"

definition manualDNSRecordsValue :: "cluster_config \<Rightarrow> string \<Rightarrow> hcl_value" where
  "manualDNSRecordsValue cfg networkName = object (manual_records cfg networkName)"

definition dns_record :: "string \<Rightarrow> string \<Rightarrow> hcl_value" where
  "dns_record zone loadBalancer = object [identField ''zone'' (str zone), identField ''load_balancer'' (str loadBalancer)]"

text \<open>The managed record of the Kubernetes API.\<close>

definition api_record :: "cluster_config \<Rightarrow> (string \<times> hcl_value) list" where
  "api_record cfg =
     (case managedAPIDomain cfg of
        Some d \<Rightarrow> cond (\<not> apiRecordCoveredByDomain cfg)
          [(ku_api_hostname (cl_kubernetes (cc_cluster cfg)), dns_record (do_zone d) (ku_api_load_balancer (cl_kubernetes (cc_cluster cfg))))]
      | None \<Rightarrow> [])"

end
