(* ===== verification/TfCloud.thy ===== *)
theory TfCloud
  imports TfStack
begin

text \<open>
  The cloud resources of the generated stack (\<open>internal/tfgen/aws.go\<close>, \<open>google.go\<close> and the resources of
  \<open>runtime.go\<close>). A function of the code that adds blocks to a document is the list of the blocks it adds.
\<close>

section \<open>AWS\<close>

definition route53ACMEEnabled :: "cluster_config \<Rightarrow> bool" where
  "route53ACMEEnabled cfg \<longleftrightarrow> cl_acme (cc_cluster cfg) \<noteq> None \<and>
     list_ex (\<lambda>d. case do_provider d of Some dp \<Rightarrow> dp_kind dp = ''aws-route53'' | None \<Rightarrow> False) (cl_domains (cc_cluster cfg))"

definition managedDNSZonesValue :: "cluster_config \<Rightarrow> hcl_value" where
  "managedDNSZonesValue cfg =
     object (concat (map (\<lambda>d. case do_provider d of None \<Rightarrow> []
       | Some dp \<Rightarrow> [field (do_zone d) (object [identField ''hosted_zone_id''
           (if dp_hosted_zone_id dp \<noteq> [] then str (dp_hosted_zone_id dp) else expr ''null'')])]) (cl_domains (cc_cluster cfg))))"

definition managedDNSRecordsValue :: "cluster_config \<Rightarrow> hcl_value" where
  "managedDNSRecordsValue cfg =
     object (concat (map (\<lambda>d. case do_provider d of None \<Rightarrow> []
       | Some dp \<Rightarrow> (let record = dns_record (do_zone d) (ResolvedDomainLoadBalancer d)
           in [field (do_zone d) record, field (''*.'' @ do_zone d) record])) (cl_domains (cc_cluster cfg))) @
       map (\<lambda>(nm, v). field nm v) (api_record cfg))"

definition addRoute53Aliases :: "string \<Rightarrow> string \<Rightarrow> string \<Rightarrow> string \<Rightarrow> hcl_block list" where
  "addRoute53Aliases nm recordType records networkName =
    [block ''resource'' [''aws_route53_record'', nm]
       [attr ''for_each'' (expr records),
        attr ''zone_id'' (expr ''data.aws_route53_zone.managed[each.value.zone].zone_id''),
        attr ''name'' (expr ''each.key''),
        attr ''type'' (str recordType),
        nested (block ''alias'' []
                  [attr ''name'' (expr (''module.'' @ networkName @
                      ''.load_balancers[each.value.load_balancer].dns_name'')),
                   attr ''zone_id'' (expr (''module.'' @ networkName @
                       ''.load_balancers[each.value.load_balancer].zone_id'')),
                   attr ''evaluate_target_health'' (boolean False)])]]"

definition addAWSDNS :: "cluster_config \<Rightarrow> string \<Rightarrow> hcl_block list" where
  "addAWSDNS cfg networkName =
    ([block ''locals'' []
        [attr ''managed_dns_zones'' (managedDNSZonesValue cfg),
         attr ''managed_dns_records'' (managedDNSRecordsValue cfg)],
      block ''data'' [''aws_route53_zone'', ''managed'']
        [attr ''for_each'' (expr ''local.managed_dns_zones''),
         attr ''zone_id'' (expr ''each.value.hosted_zone_id''),
         attr ''name'' (expr ''each.value.hosted_zone_id == null ? each.key : null''),
         attr ''private_zone'' (expr ''each.value.hosted_zone_id == null ? false : null'')]] @
     addRoute53Aliases ''managed_ipv4'' ''A'' ''local.managed_dns_records'' networkName @
     addRoute53Aliases ''managed_ipv6'' ''AAAA'' ''var.enable_ipv6 ? local.managed_dns_records : {}'' networkName)
"

definition addPodplaneAWSBuckets :: "hcl_block list" where
  "addPodplaneAWSBuckets =
    [block ''locals'' []
       [attr ''buckets'' (object [field ''netsy'' (expr ''local.netsy_bucket_name''),
           field ''registry'' (expr ''local.registry_bucket_name'')])],
     block ''resource'' [''aws_s3_bucket'', ''podplane_cluster'']
       [attr ''for_each'' (expr ''local.buckets''),
        attr ''bucket'' (expr ''each.value'')],
     block ''resource'' [''aws_s3_bucket_public_access_block'', ''podplane_cluster'']
       [attr ''for_each'' (expr ''local.buckets''),
        attr ''bucket'' (expr ''aws_s3_bucket.podplane_cluster[each.key].id''),
        attr ''block_public_acls'' (boolean True),
        attr ''block_public_policy'' (boolean True),
        attr ''ignore_public_acls'' (boolean True),
        attr ''restrict_public_buckets'' (boolean True)],
     block ''resource'' [''aws_s3_bucket_server_side_encryption_configuration'', ''podplane_cluster'']
       [attr ''for_each'' (expr ''local.buckets''),
        attr ''bucket'' (expr ''aws_s3_bucket.podplane_cluster[each.key].id''),
        nested (block ''rule'' []
                  [nested (block ''apply_server_side_encryption_by_default'' []
                             [attr ''sse_algorithm'' (str ''AES256'')])])]]
"

definition addACMERoute53Role :: "hcl_block list" where
  "addACMERoute53Role =
    [block ''resource'' [''aws_iam_role'', ''acme_route53'']
       [attr ''count'' (number 1),
        attr ''name'' (str ''${local.name_prefix}-acme-route53''),
        attr ''assume_role_policy'' (expr ''data.aws_iam_policy_document.assume_from_knc.json'')],
     block ''data'' [''aws_iam_policy_document'', ''acme_route53'']
       [nested (block ''statement'' []
                  [attr ''sid'' (str ''ChangeDNS01Records''),
                   attr ''actions'' (stringValueList [''route53:ChangeResourceRecordSets'']),
                   attr ''resources'' (expr ''[for zone in data.aws_route53_zone.managed : zone.arn]''),
                   nested (block ''condition'' []
                             [attr ''test'' (str ''ForAllValues:StringEquals''),
                              attr ''variable'' (str ''route53:ChangeResourceRecordSetsRecordTypes''),
                              attr ''values'' (stringValueList [''TXT''])]),
                   nested (block ''condition'' []
                             [attr ''test'' (str ''ForAllValues:StringEquals''),
                              attr ''variable'' (str ''route53:ChangeResourceRecordSetsActions''),
                              attr ''values'' (stringValueList [''UPSERT'', ''DELETE''])])]),
        nested (block ''statement'' []
                  [attr ''sid'' (str ''ReadDNS01Changes''),
                   attr ''actions'' (stringValueList [''route53:GetChange'']),
                   attr ''resources'' (stringValueList [''arn:${data.aws_partition.current.partition}:route53:::change/*''])])],
     block ''resource'' [''aws_iam_role_policy'', ''acme_route53'']
       [attr ''count'' (number 1),
        attr ''name'' (str ''${local.name_prefix}-acme-route53-policy''),
        attr ''role'' (expr ''aws_iam_role.acme_route53[0].id''),
        attr ''policy'' (expr ''data.aws_iam_policy_document.acme_route53.json'')]]
"

text \<open>The secrets backend that holds the workload CA key, and the prefix of its keys.\<close>

definition default_secrets :: "cluster_config \<Rightarrow> secrets_provider" where
  "default_secrets cfg = go_lookup no_provider (sc_providers (cl_secrets (cc_cluster cfg))) (sc_default (cl_secrets (cc_cluster cfg)))"

definition secrets_prefix :: "cluster_config \<Rightarrow> secrets_provider \<Rightarrow> string" where
  "secrets_prefix cfg sp = (if sv_key_prefix sp = [] then cl_id (cc_cluster cfg) else sv_key_prefix sp)"

definition workload_key_policy :: "cluster_config \<Rightarrow> string \<Rightarrow> secrets_provider \<Rightarrow> hcl_block list" where
  "workload_key_policy cfg accountName sp =
     (let pre = secrets_prefix cfg sp; region = (if sv_region sp \<noteq> [] then sv_region sp else ''${local.aws_region}'') in
    [block ''data'' [''aws_iam_policy_document'', ''podplane_workload_ca_key'']
       ([nested (block ''statement'' []
                   ([attr ''sid'' (str ''ReadPodplaneWorkloadCAKey'')] @
                    (if sv_object_type sp = ''secretsmanager'' then
                       [attr ''actions'' (stringValueList [''secretsmanager:GetSecretValue'']),
                        attr ''resources'' (HclList [str (''arn:${data.aws_partition.current.partition}:secretsmanager:'' @
                            region @ '':${local.aws_account_id}:secret:/'' @ pre @ ''/workload-ca-key-*'')])]
                     else
                       [attr ''actions'' (stringValueList [''ssm:GetParameter'']),
                        attr ''resources'' (HclList [str (''arn:${data.aws_partition.current.partition}:ssm:'' @ region @
                            '':${local.aws_account_id}:parameter/'' @ pre @ ''/workload-ca-key'')])])))] @
        cond (cl_domains (cc_cluster cfg) \<noteq> [] \<and> \<not> tunnelled cfg)
          [nested (block ''statement'' []
                     ([attr ''sid'' (str ''ManagePodplaneIngressCertificates'')] @
                      (if sv_object_type sp = ''secretsmanager'' then
                         [attr ''actions'' (stringValueList [''secretsmanager:CreateSecret'',
                             ''secretsmanager:DescribeSecret'', ''secretsmanager:GetSecretValue'',
                             ''secretsmanager:PutSecretValue'']),
                          attr ''resources'' (HclList [str (''arn:${data.aws_partition.current.partition}:secretsmanager:'' @
                              region @ '':${local.aws_account_id}:secret:/'' @ pre @
                              ''/platform-cluster/ingress-certificates/*'')])]
                       else
                         [attr ''actions'' (stringValueList [''ssm:GetParameter'', ''ssm:PutParameter'']),
                          attr ''resources'' (HclList [str (''arn:${data.aws_partition.current.partition}:ssm:'' @ region @
                              '':${local.aws_account_id}:parameter/'' @ pre @
                              ''/platform-cluster/ingress-certificates/*'')])])))]),
     block ''resource'' [''aws_iam_role_policy'', ''podplane_workload_ca_key'']
       [attr ''name'' (str ''${local.name_prefix}-workload-ca-key''),
        attr ''role'' (expr (''module.'' @ accountName @ ''.agent_iam_role_name'')),
        attr ''policy'' (expr ''data.aws_iam_policy_document.podplane_workload_ca_key.json'')]])"

definition workload_role_arns :: "cluster_config \<Rightarrow> hcl_value list" where
  "workload_role_arns cfg =
     [expr ''aws_iam_role.podplane_cluster[\"netsy\"].arn'', expr ''aws_iam_role.podplane_cluster[\"registry-read-only\"].arn'',
      expr ''aws_iam_role.podplane_cluster[\"registry-read-write\"].arn'', expr ''aws_iam_role.ebs_csi.arn''] @
     cond (route53ACMEEnabled cfg) [expr ''aws_iam_role.acme_route53[0].arn'']"

definition addPodplaneKNCPolicy :: "cluster_config \<Rightarrow> string \<Rightarrow> hcl_block list" where
  "addPodplaneKNCPolicy cfg accountName =
    ([block ''data'' [''aws_iam_policy_document'', ''podplane_knc'']
        [nested (block ''statement'' []
                   [attr ''sid'' (str ''AssumePodplaneWorkloadRoles''),
                    attr ''actions'' (stringValueList [''sts:AssumeRole'']),
                    attr ''resources'' (HclList (workload_role_arns cfg))]),
         nested (block ''statement'' []
                   [attr ''sid'' (str ''DescribeRegions''),
                    attr ''actions'' (stringValueList [''ec2:DescribeRegions'']),
                    attr ''resources'' (stringValueList [''*''])])],
      block ''resource'' [''aws_iam_role_policy'', ''podplane_knc'']
        [attr ''name'' (str ''${local.name_prefix}-podplane-knc-policy''),
         attr ''role'' (expr (''module.'' @ accountName @ ''.agent_iam_role_name'')),
         attr ''policy'' (expr ''data.aws_iam_policy_document.podplane_knc.json'')]] @
     (if sv_kind (default_secrets cfg) \<noteq> ''aws'' then [] else workload_key_policy cfg accountName (default_secrets cfg)))"

definition addPodplaneAWSRoles :: "cluster_config \<Rightarrow> string \<Rightarrow> hcl_block list" where
  "addPodplaneAWSRoles cfg accountName =
    ([block ''locals'' []
        [attr ''roles'' (object [field ''netsy'' (object [identField ''bucket'' (str ''netsy''),
            identField ''bucket_actions'' (stringValueList [''s3:ListBucket'', ''s3:ListBucketMultipartUploads'']),
            identField ''object_actions'' (stringValueList [''s3:GetObject'', ''s3:PutObject'', ''s3:DeleteObject'',
            ''s3:GetObjectAttributes'', ''s3:AbortMultipartUpload'', ''s3:ListMultipartUploadParts''])]),
            field ''registry-read-only'' (object [identField ''bucket'' (str ''registry''),
            identField ''bucket_actions'' (stringValueList [''s3:ListBucket'', ''s3:GetBucketLocation'',
            ''s3:ListBucketMultipartUploads'']), identField ''object_actions'' (stringValueList [''s3:GetObject'',
            ''s3:ListMultipartUploadParts''])]),
            field ''registry-read-write'' (object [identField ''bucket'' (str ''registry''),
            identField ''bucket_actions'' (stringValueList [''s3:ListBucket'', ''s3:GetBucketLocation'',
            ''s3:ListBucketMultipartUploads'']), identField ''object_actions'' (stringValueList [''s3:GetObject'',
            ''s3:ListMultipartUploadParts'', ''s3:PutObject'', ''s3:DeleteObject'', ''s3:AbortMultipartUpload''])])])],
      block ''data'' [''aws_iam_policy_document'', ''assume_from_knc'']
        [nested (block ''statement'' []
                   [attr ''actions'' (stringValueList [''sts:AssumeRole'']),
                    nested (block ''principals'' []
                              [attr ''type'' (str ''AWS''),
                               attr ''identifiers'' (HclList [expr (''module.'' @ accountName @
                                   ''.agent_iam_role_arn'')])])])],
      block ''resource'' [''aws_iam_role'', ''podplane_cluster'']
        [attr ''for_each'' (expr ''local.roles''),
         attr ''name'' (str ''${local.name_prefix}-${each.key}''),
         attr ''assume_role_policy'' (expr ''data.aws_iam_policy_document.assume_from_knc.json'')],
      block ''data'' [''aws_iam_policy_document'', ''podplane_cluster'']
        [attr ''for_each'' (expr ''local.roles''),
         nested (block ''statement'' []
                   [attr ''actions'' (expr ''each.value.bucket_actions''),
                    attr ''resources'' (HclList [expr ''aws_s3_bucket.podplane_cluster[each.value.bucket].arn''])]),
         nested (block ''statement'' []
                   [attr ''actions'' (expr ''each.value.object_actions''),
                    attr ''resources'' (HclList [expr ''\"${aws_s3_bucket.podplane_cluster[each.value.bucket].arn}/*\"''])])],
      block ''resource'' [''aws_iam_role_policy'', ''podplane_cluster'']
        [attr ''for_each'' (expr ''local.roles''),
         attr ''name'' (str ''${local.name_prefix}-${each.key}-policy''),
         attr ''role'' (expr ''aws_iam_role.podplane_cluster[each.key].id''),
         attr ''policy'' (expr ''data.aws_iam_policy_document.podplane_cluster[each.key].json'')],
      block ''resource'' [''aws_iam_role_policy'', ''podplane_server_registry'']
        [attr ''name'' (str ''${local.name_prefix}-server-registry-read-only''),
         attr ''role'' (expr (''basename(module.'' @ accountName @ ''.server_iam_role_arn)'')),
         attr ''policy'' (expr ''data.aws_iam_policy_document.podplane_cluster[\"registry-read-only\"].json'')],
      block ''resource'' [''aws_iam_role'', ''ebs_csi'']
        [attr ''name'' (str ''${local.name_prefix}-ebs-csi''),
         attr ''assume_role_policy'' (expr ''data.aws_iam_policy_document.assume_from_knc.json'')],
      block ''resource'' [''aws_iam_role_policy_attachment'', ''ebs_csi'']
        [attr ''role'' (expr ''aws_iam_role.ebs_csi.name''),
         attr ''policy_arn'' (str ''arn:${data.aws_partition.current.partition}:iam::aws:policy/service-role/AmazonEBSCSIDriverPolicy'')]] @
     cond (route53ACMEEnabled cfg)
       (addACMERoute53Role) @
     addPodplaneKNCPolicy cfg accountName)
"

section \<open>Google\<close>

definition googleWorkloadPrincipal :: "string \<Rightarrow> string \<Rightarrow> hcl_value" where
  "googleWorkloadPrincipal namespace nm =
     str (''principal://iam.googleapis.com/${google_iam_workload_identity_pool.cluster.name}/subject/system:serviceaccount:'' @
       namespace @ '':'' @ nm)"

definition addPodplaneGoogleBuckets :: "hcl_block list" where
  "addPodplaneGoogleBuckets =
    [block ''resource'' [''google_storage_bucket'', ''podplane_cluster'']
       [attr ''for_each'' (object [field ''netsy'' (expr ''local.netsy_bucket_name''),
           field ''registry'' (expr ''local.registry_bucket_name'')]),
        attr ''name'' (expr ''each.value''),
        attr ''project'' (expr ''local.provider_project''),
        attr ''location'' (expr ''local.provider_region''),
        attr ''uniform_bucket_level_access'' (boolean True),
        attr ''public_access_prevention'' (str ''enforced'')]]
"

definition addGoogleDiskPermissions :: "string \<Rightarrow> hcl_block list" where
  "addGoogleDiskPermissions accountName =
    (let principal = googleWorkloadPrincipal ''platform-csi-gce-pd'' ''platform-csi-gce-pd-controller''
    in [block ''resource'' [''google_project_iam_member'', ''csi_gce_pd_storage'']
       [attr ''project'' (expr ''local.provider_project''),
        attr ''role'' (str ''roles/compute.storageAdmin''),
        attr ''member'' principal],
     block ''resource'' [''google_project_iam_custom_role'', ''csi_gce_pd'']
       [attr ''project'' (expr ''local.provider_project''),
        attr ''role_id'' (str ''pp_${substr(sha256(module.cluster.bucket), 0, 20)}_csi_gce_pd''),
        attr ''title'' (str ''Podplane PD CSI instance access''),
        attr ''permissions'' (stringValueList [''compute.instances.get'', ''compute.instances.attachDisk'',
            ''compute.instances.detachDisk''])],
     block ''resource'' [''google_project_iam_member'', ''csi_gce_pd_instances'']
       [attr ''project'' (expr ''local.provider_project''),
        attr ''role'' (expr ''google_project_iam_custom_role.csi_gce_pd.id''),
        attr ''member'' principal],
     block ''resource'' [''google_service_account_iam_member'', ''csi_gce_pd_agent'']
       [attr ''service_account_id'' (str (''projects/${local.provider_project}/serviceAccounts/${module.'' @ accountName @
           ''.agent_iam_role_arn}'')),
        attr ''role'' (str ''roles/iam.serviceAccountUser''),
        attr ''member'' principal]])
"

definition addGoogleWorkloadIdentity :: "hcl_block list" where
  "addGoogleWorkloadIdentity =
    [block ''resource'' [''google_project_service'', ''workload_identity'']
       [attr ''project'' (expr ''local.provider_project''),
        attr ''service'' (str ''sts.googleapis.com''),
        attr ''disable_on_destroy'' (boolean False)],
     block ''resource'' [''google_iam_workload_identity_pool'', ''cluster'']
       [attr ''project'' (expr ''local.provider_project''),
        attr ''workload_identity_pool_id'' (str ''pp-${substr(sha256(module.cluster.bucket), 0, 24)}''),
        attr ''display_name'' (expr ''substr(\"Podplane ${local.cluster_id}\", 0, 32)''),
        attr ''depends_on'' (HclList [expr ''google_project_service.workload_identity''])],
     block ''resource'' [''google_iam_workload_identity_pool_provider'', ''cluster'']
       [attr ''project'' (expr ''local.provider_project''),
        attr ''workload_identity_pool_id'' (expr ''google_iam_workload_identity_pool.cluster.workload_identity_pool_id''),
        attr ''workload_identity_pool_provider_id'' (str ''kubernetes''),
        attr ''attribute_mapping'' (object [field ''google.subject'' (str ''assertion.sub'')]),
        attr ''attribute_condition'' (str (''assertion.sub.startsWith('system:serviceaccount:')'')),
        nested (block ''oidc'' []
                  [attr ''issuer_uri'' (str ''https://${var.kubernetes_api_hostname}:${var.kubernetes_api_port}''),
                   attr ''allowed_audiences'' (HclList [str ''https://iam.googleapis.com/${google_iam_workload_identity_pool.cluster.name}/providers/kubernetes'']),
                   attr ''jwks_json'' (expr ''podplane_service_account_key.cluster.jwks_json'')])],
     block ''resource'' [''google_storage_bucket_iam_member'', ''podplane_registry_writer'']
       [attr ''bucket'' (expr ''google_storage_bucket.podplane_cluster[\"registry\"].name''),
        attr ''role'' (str ''roles/storage.objectAdmin''),
        attr ''member'' (googleWorkloadPrincipal ''platform-zot-registry'' ''zot-registry'')]]
"

text \<open>The grants on Secret Manager: name, Service account, condition and permissions.\<close>

record google_grant =
  gr_name :: string
  gr_namespace :: string
  gr_account :: string
  gr_condition :: string
  gr_permissions :: "string list"

definition secrets_path :: string where
  "secrets_path = ''projects/${data.google_project.secrets[each.key].number}/secrets/${each.value.prefix}_''"

definition starts_with :: "string \<Rightarrow> string" where
  "starts_with p = ''resource.name.startsWith('' @ quote p @ '')''"

definition google_grants :: "google_grant list" where
  "google_grants =
     [\<lparr>gr_name = ''secrets_catalog'', gr_namespace = ''platform-podplane-operator'', gr_account = ''platform-podplane-operator'',
       gr_condition = [], gr_permissions = [''secretmanager.secrets.create'', ''secretmanager.secrets.list'']\<rparr>,
      \<lparr>gr_name = ''secrets_lifecycle'', gr_namespace = ''platform-podplane-operator'', gr_account = ''platform-podplane-operator'',
       gr_condition = starts_with secrets_path @ '' && resource.name != '' @ quote (secrets_path @ ''workload-ca-key'') @
         '' && !'' @ starts_with (secrets_path @ ''workload-ca-key/''),
       gr_permissions = [''secretmanager.secrets.get'', ''secretmanager.secrets.delete'', ''secretmanager.versions.get'',
         ''secretmanager.versions.list'', ''secretmanager.versions.add'', ''secretmanager.versions.disable'',
         ''secretmanager.versions.enable'', ''secretmanager.versions.destroy'']\<rparr>,
      \<lparr>gr_name = ''secrets_reader'', gr_namespace = ''platform-secrets-store-csi-provider-gcp'',
       gr_account = ''platform-secrets-store-csi-provider-gcp'', gr_condition = starts_with secrets_path,
       gr_permissions = [''secretmanager.versions.access'']\<rparr>,
      \<lparr>gr_name = ''ingress_state'', gr_namespace = ''platform-podplane-operator'', gr_account = ''platform-podplane-operator'',
       gr_condition = starts_with (secrets_path @ ''platform-cluster_ingress-certificates_''),
       gr_permissions = [''secretmanager.versions.access'']\<rparr>]"

definition secrets_grant :: "google_grant \<Rightarrow> hcl_block list" where
  "secrets_grant grant =
     (let nm = ''podplane_'' @ gr_name grant in
    [block ''resource'' [''google_project_iam_custom_role'', nm]
       [attr ''for_each'' (expr ''local.google_secrets_providers''),
        attr ''project'' (expr ''each.value.project''),
        attr ''role_id'' (expr (''\"pp_${substr(sha256(join(\"/\", [module.cluster.bucket, each.key])), 0, 20)}_'' @
            gr_name grant @ ''\"'')),
        attr ''title'' (str (''Podplane '' @ gr_name grant)),
        attr ''permissions'' (stringValueList (gr_permissions grant))],
     block ''resource'' [''google_project_iam_member'', nm]
       ([attr ''for_each'' (expr ''local.google_secrets_providers''),
         attr ''project'' (expr ''each.value.project''),
         attr ''role'' (expr (''google_project_iam_custom_role.'' @ nm @ ''[each.key].id'')),
         attr ''member'' (googleWorkloadPrincipal (gr_namespace grant) (gr_account grant))] @
        cond (gr_condition grant \<noteq> [])
          [nested (block ''condition'' []
                     [attr ''title'' (str ''PodplaneSecretScope''),
                      attr ''expression'' (str (gr_condition grant))])])])"

definition google_secrets_providers :: "cluster_config \<Rightarrow> hcl_field list" where
  "google_secrets_providers cfg =
     concat (map (\<lambda>(nm, p). cond (sv_kind p = ''gcp'')
       [field nm (object [identField ''project'' (str (sv_project_id p)), identField ''prefix'' (str (secrets_prefix cfg p))])])
       (canon_map (sc_providers (cl_secrets (cc_cluster cfg)))))"

definition addGoogleSecretsPermissions :: "cluster_config \<Rightarrow> hcl_block list" where
  "addGoogleSecretsPermissions cfg =
    ([block ''locals'' []
        [attr ''google_secrets_providers'' (object (google_secrets_providers cfg))],
      block ''data'' [''google_project'', ''secrets'']
        [attr ''for_each'' (expr ''local.google_secrets_providers''),
         attr ''project_id'' (expr ''each.value.project'')]] @
     concat (map secrets_grant google_grants))"

definition addPodplaneGooglePermissions :: "cluster_config \<Rightarrow> string \<Rightarrow> hcl_block list" where
  "addPodplaneGooglePermissions cfg accountName =
    (let agent = (''serviceAccount:${module.'' @ accountName @ ''.agent_iam_role_arn}'')
    in ([block ''resource'' [''google_storage_bucket_iam_member'', ''podplane_agent'']
        [attr ''for_each'' (expr ''google_storage_bucket.podplane_cluster''),
         attr ''bucket'' (expr ''each.value.name''),
         attr ''role'' (expr ''each.key == \"registry\" ? \"roles/storage.objectViewer\" : \"roles/storage.objectAdmin\"''),
         attr ''member'' (str agent)],
      block ''resource'' [''google_storage_bucket_iam_member'', ''podplane_server_registry'']
        [attr ''bucket'' (expr ''google_storage_bucket.podplane_cluster[\"registry\"].name''),
         attr ''role'' (str ''roles/storage.objectViewer''),
         attr ''member'' (str (''serviceAccount:${module.'' @ accountName @ ''.server_iam_role_arn}''))]] @
     addGoogleWorkloadIdentity @
     addGoogleSecretsPermissions cfg @
     addGoogleDiskPermissions accountName))
"

text \<open>
  \<open>googleGenerationError\<close>. The code ranges over the secrets backends in any order; here they are taken in the order of
  their names, so with several regional backends the code may name another one.
\<close>

definition googleGenerationError :: "cluster_config \<Rightarrow> gerror" where
  "googleGenerationError cfg =
     orelse_err (first_err (\<lambda>(_, p). if sv_kind p = ''gcp'' \<and> sv_location p \<noteq> []
         then Some (Errorf ''regional Secret Manager location %q is not supported by Google Terraform generation; use a global gcp secrets backend'' [S (sv_location p)])
         else None) (canon_map (sc_providers (cl_secrets (cc_cluster cfg)))))
       (if tunnelled cfg then None
        else first_err (\<lambda>d. case do_provider d of None \<Rightarrow> None
          | Some dp \<Rightarrow> if dp_kind dp = ''google-cloud-dns'' \<and> dp_hosted_zone_name dp = []
              then Some (Errorf ''domain %s: google-cloud-dns requires provider.hosted_zone_name (the managed-zone resource name); it cannot be inferred from the DNS suffix or hosted_zone_id'' [S (do_zone d)])
              else None) (cl_domains (cc_cluster cfg)))"

definition google_domains :: "cluster_config \<Rightarrow> (cdomain \<times> domain_provider) list" where
  "google_domains cfg = concat (map (\<lambda>d. case do_provider d of
     Some dp \<Rightarrow> cond (dp_kind dp = ''google-cloud-dns'') [(d, dp)] | None \<Rightarrow> []) (cl_domains (cc_cluster cfg)))"

definition google_zone :: "cdomain \<times> domain_provider \<Rightarrow> hcl_field" where
  "google_zone ddp = (case ddp of (d, dp) \<Rightarrow> field (do_zone d) (object
     [identField ''name'' (str (dp_hosted_zone_name dp)),
      identField ''project'' (if dp_project dp \<noteq> [] then str (dp_project dp) else expr ''local.provider_project'')]))"

text \<open>The records, a map: a later entry for a name replaces an earlier one.\<close>

definition google_records :: "cluster_config \<Rightarrow> hcl_value gomap" where
  "google_records cfg =
     fold (\<lambda>(nm, v). put_key nm v)
       (concat (map (\<lambda>(d, dp). let record = dns_record (do_zone d) (ResolvedDomainLoadBalancer d)
          in [(do_zone d, record), (''*.'' @ do_zone d, record)]) (google_domains cfg)) @
        (case managedAPIDomain cfg of
           Some d \<Rightarrow> (case do_provider d of
               Some dp \<Rightarrow> cond (dp_kind dp = ''google-cloud-dns'') (api_record cfg)
             | None \<Rightarrow> [])
         | None \<Rightarrow> [])) []"

definition addGoogleDNS :: "cluster_config \<Rightarrow> string \<Rightarrow> hcl_block list" where
  "addGoogleDNS cfg networkName =
     (if tunnelled cfg \<or> google_domains cfg = [] then [] else
    [block ''locals'' []
       [attr ''google_managed_dns_zones'' (object (map google_zone (google_domains cfg))),
        attr ''google_managed_dns_records'' (object (map (\<lambda>(nm, v). field nm v) (canon_map (google_records cfg))))],
     block ''data'' [''google_dns_managed_zone'', ''managed'']
       [attr ''for_each'' (expr ''local.google_managed_dns_zones''),
        attr ''name'' (expr ''each.value.name''),
        attr ''project'' (expr ''each.value.project'')],
     block ''resource'' [''google_dns_record_set'', ''managed_ipv4'']
       [attr ''for_each'' (expr ''local.google_managed_dns_records''),
        attr ''project'' (expr ''data.google_dns_managed_zone.managed[each.value.zone].project''),
        attr ''managed_zone'' (expr ''data.google_dns_managed_zone.managed[each.value.zone].name''),
        attr ''name'' (expr ''\"${trimsuffix(each.key, \".\")}.\"''),
        attr ''type'' (str ''A''),
        attr ''ttl'' (number 300),
        attr ''rrdatas'' (expr (''distinct([for frontend in module.'' @ networkName @
            ''.load_balancers[each.value.load_balancer].frontends : frontend.ip])''))]])"

section \<open>Keys and seeds\<close>

definition key_backend :: "provider \<Rightarrow> string" where
  "key_backend p = (if pr_kind p = ''google'' then ''google-secret-manager'' else ''aws-parameter-store'')"

definition cloudSigningKey :: "string \<Rightarrow> provider \<Rightarrow> string \<Rightarrow> hcl_block" where
  "cloudSigningKey resourceType provider pre =
    (block ''resource'' [resourceType, ''cluster'']
      ([attr ''secrets_provider'' (str (key_backend provider)),
        attr ''secret_prefix'' (str pre)] @
       (if pr_kind provider = ''aws'' then
          ([attr ''region'' (expr ''local.provider_region'')] @
           cond (pr_profile provider \<noteq> [])
             [attr ''profile'' (str (pr_profile provider))])
        else
          [attr ''project'' (expr ''local.provider_project'')]) @
       [attr ''depends_on'' (HclList [expr ''module.cluster''])]))"

text \<open>\<open>addNstanceBootstrap\<close> adds a key to the document and an attribute to the seed.\<close>

definition nstance_key :: "provider \<Rightarrow> string \<Rightarrow> hcl_block" where
  "nstance_key p pre = cloudSigningKey ''podplane_nstance_registration_key'' p pre"

definition nstance_bootstrap :: "provider \<Rightarrow> string \<Rightarrow> hcl_item list" where
  "nstance_bootstrap provider pre =
    [attr ''nstance_bootstrap'' (object [identField ''provider'' (str (key_backend provider)),
        identField ''secret_prefix'' (str pre),
        identField ''signing_key_id'' (expr ''podplane_nstance_registration_key.cluster.id''),
        identField ''signing_key_version'' (expr ''podplane_nstance_registration_key.cluster.backend_version''),
        identField ''signing_key_fingerprint'' (expr ''podplane_nstance_registration_key.cluster.public_key_fingerprint''),
        identField ''cluster_id'' (expr ''local.cluster_id''), identField ''tenant'' (str ''default''),
        identField ''namespace'' (str ''platform-nstance-operator''),
        identField ''ca_bucket'' (expr ''module.cluster.bucket'')])]"

end
