(* ===== verification/BuildVars.thy ===== *)
theory BuildVars
  imports GoStrings "HOL-Library.Word" "HOL-Library.Product_Lexorder"
begin

text \<open>
  The version of the Terraform provider that belongs to a release of the CLI (\<open>internal/buildvars/provider.go\<close>). The
  components of a version are 64-bit words. The regular expression of a release version is the parser
  \<open>parse_release\<close>: an optional \<open>v\<close>, three numbers without leading zeros and an optional prerelease.
\<close>

definition numeric_id :: "string \<Rightarrow> bool" where
  "numeric_id s \<longleftrightarrow> s = ''0'' \<or> s \<noteq> [] \<and> hd s \<noteq> CHR ''0'' \<and> list_all is_digit s"

definition is_alnum_dash :: "char \<Rightarrow> bool" where
  "is_alnum_dash c \<longleftrightarrow> is_digit c \<or> is_lower c \<or> (CHR ''A'' \<le> c \<and> c \<le> CHR ''Z'') \<or> c = CHR ''-''"

definition pre_id :: "string \<Rightarrow> bool" where
  "pre_id s \<longleftrightarrow> s \<noteq> [] \<and> list_all is_alnum_dash s"

text \<open>The three numbers and the prerelease with its dash.\<close>

definition parse_release :: "string \<Rightarrow> ((string \<times> string \<times> string) \<times> string) option" where
  "parse_release v =
     (case (case go_cut CHR ''-'' (trim_prefix v ''v'') of None \<Rightarrow> (trim_prefix v ''v'', None) | Some (a, b) \<Rightarrow> (a, Some b)) of
        (core, pre) \<Rightarrow>
          (case go_split CHR ''.'' core of
             [a, b, c] \<Rightarrow>
               if numeric_id a \<and> numeric_id b \<and> numeric_id c \<and>
                 (case pre of None \<Rightarrow> True | Some p \<Rightarrow> list_all pre_id (go_split CHR ''.'' p))
               then Some ((a, b, c), case pre of None \<Rightarrow> [] | Some p \<Rightarrow> CHR ''-'' # p) else None
           | _ \<Rightarrow> None))"

text \<open>\<open>strconv.ParseUint\<close> of digits, in 64 bits.\<close>

definition parse_uint64 :: "string \<Rightarrow> 64 word option" where
  "parse_uint64 s = (if dec_val s < 2 ^ 64 then Some (of_nat (dec_val s)) else None)"

definition uint_string :: "64 word \<Rightarrow> string" where
  "uint_string n = dec_digits (unat n)"

type_synonym version = "64 word \<times> 64 word \<times> 64 word"

definition canonical_pre :: "string \<Rightarrow> bool" where
  "canonical_pre pre \<longleftrightarrow> pre = [] \<or>
     list_all (\<lambda>ident. \<not> (go_trim ''0123456789'' ident = [] \<and> length ident > 1 \<and> hd ident = CHR ''0'')) (go_split CHR ''.'' (tl pre))"

text \<open>The series of the provider: 0.x below 0.900 becomes 1.100 and on, 1.x becomes 1.1000 and on.\<close>

definition provider_series :: "version \<Rightarrow> version option" where
  "provider_series v = (case v of (major, minor, patch) \<Rightarrow>
     if major = 0 then (if minor \<ge> 900 then None else Some (1, 100 + minor, patch))
     else if major = 1 then (if minor > 0xFFFFFFFFFFFFFFFF - 1000 then None else Some (major, minor + 1000, patch))
     else Some (major, minor, patch))"

definition version_text :: "version \<Rightarrow> string \<Rightarrow> string" where
  "version_text v pre = (case v of (a, b, c) \<Rightarrow> uint_string a @ ''.'' @ uint_string b @ ''.'' @ uint_string c @ pre)"

definition release_version :: "string \<Rightarrow> (version \<times> string) result" where
  "release_version v =
     (case parse_release v of
        None \<Rightarrow> Inl (Errorf ''invalid release version %q'' [S v])
      | Some ((a, b, c), pre) \<Rightarrow>
          (case (parse_uint64 a, parse_uint64 b, parse_uint64 c) of
             (Some x, Some y, Some z) \<Rightarrow>
               if \<not> canonical_pre pre then Inl (Errorf ''noncanonical prerelease in %q'' [S v]) else Inr ((x, y, z), pre)
           | _ \<Rightarrow> Inl (Errorf ''release version component overflow: %q'' [S v])))"

definition ProviderVersionFor :: "string \<Rightarrow> string result" where
  "ProviderVersionFor v =
     (if v = [] \<or> v = ''dev'' then Inr ''0.0.0-dev''
      else bindR (release_version v) (\<lambda>(nums, pre).
        (case provider_series nums of
           None \<Rightarrow> Inl (if fst nums = 0 then Errorf ''CLI 0.x minor must be less than 900: %q'' [S v]
             else Errorf ''provider minor overflow: %q'' [S v])
         | Some w \<Rightarrow> Inr (version_text w pre))))"

section \<open>The series is monotonic\<close>

text \<open>Versions as triples of numbers, compared component by component.\<close>

definition version_nat :: "version \<Rightarrow> nat \<times> nat \<times> nat" where
  "version_nat v = (case v of (a, b, c) \<Rightarrow> (unat a, unat b, unat c))"

lemma series_values:
  assumes "provider_series (a, b, c) = Some w"
  shows "version_nat w =
    (if unat a = 0 then (1, 100 + unat b, unat c) else if unat a = 1 then (1, 1000 + unat b, unat c) else (unat a, unat b, unat c))"
    and "unat a = 0 \<Longrightarrow> unat b < 900"
proof -
  have minor: "b < 900 \<longleftrightarrow> unat b < 900" by (simp add: word_less_nat_alt)
  have room: "unat (100 + b) = 100 + unat b" if "unat b < 900"
    using that by (simp add: unat_word_ariths)
  have high: "unat (b + 1000) = 1000 + unat b" if "\<not> b > 0xFFFFFFFFFFFFFFFF - 1000"
  proof -
    have "unat b \<le> unat (0xFFFFFFFFFFFFFFFF - 1000 :: 64 word)" using that by (simp only: not_less word_le_nat_alt)
    also have "\<dots> = 2 ^ 64 - 1 - 1000" by simp
    finally show ?thesis by (simp add: unat_word_ariths)
  qed
  have zero: "unat a = 0 \<longleftrightarrow> a = 0" by (simp add: unat_eq_0)
  have one: "unat a = Suc 0 \<longleftrightarrow> a = 1" by (metis One_nat_def unat_1 word_unat_eq_iff)
  show "version_nat w =
      (if unat a = 0 then (1, 100 + unat b, unat c) else if unat a = 1 then (1, 1000 + unat b, unat c) else (unat a, unat b, unat c))"
    using assms room high by (auto simp: provider_series_def version_nat_def zero one minor not_le split: if_splits)
  show "unat a = 0 \<Longrightarrow> unat b < 900"
    using assms by (auto simp: provider_series_def zero minor not_le split: if_splits)
qed

lemma series_less:
  assumes "provider_series v = Some w" "provider_series v' = Some w'"
  shows "version_nat w < version_nat w' \<longleftrightarrow> version_nat v < version_nat v'"
proof -
  obtain a b c a' b' c' where v: "v = (a, b, c)" "v' = (a', b', c')" by (metis prod.exhaust)
  note s = series_values [OF assms(1) [unfolded v]] series_values [OF assms(2) [unfolded v]]
  show ?thesis
    unfolding s(1) s(3) using s(2,4) by (auto simp: v version_nat_def)
qed

lemma version_nat_inj: "version_nat v = version_nat v' \<longleftrightarrow> v = v'"
  by (cases v; cases v') (simp add: version_nat_def word_unat_eq_iff)

lemma dec_digits_inj: "dec_digits m = dec_digits n \<longleftrightarrow> m = n"
  by (metis dec_val_digits)

text \<open>A version text is read back: the numbers up to the dots, then the prerelease behind its dash.\<close>

lemma no_dot: "CHR ''.'' \<notin> set (dec_digits n)" "CHR ''-'' \<notin> set (dec_digits n)"
  using dec_digits_props [of n] by (auto simp: list_all_iff is_digit_def)

lemma last_number:
  assumes "dec_digits m @ p = dec_digits n @ q" "p = [] \<or> hd p = CHR ''-''" "q = [] \<or> hd q = CHR ''-''"
  shows "m = n \<and> p = q"
proof -
  have cut: "takeWhile (\<lambda>c. c \<noteq> CHR ''-'') (dec_digits k @ r) = dec_digits k" if "r = [] \<or> hd r = CHR ''-''" for k r
    using that no_dot(2) [of k] by (subst takeWhile_append2) (auto simp: takeWhile_eq_Nil_iff)
  from cut [OF assms(2), of m] cut [OF assms(3), of n] assms(1) have "dec_digits m = dec_digits n" by simp
  with assms(1) show ?thesis by (simp add: dec_digits_inj)
qed

lemma first_dot: "dec_digits m @ CHR ''.'' # p = dec_digits n @ CHR ''.'' # q \<longleftrightarrow> m = n \<and> p = q"
proof
  assume eq: "dec_digits m @ CHR ''.'' # p = dec_digits n @ CHR ''.'' # q"
  have cut: "takeWhile (\<lambda>c. c \<noteq> CHR ''.'') (dec_digits k @ CHR ''.'' # r) = dec_digits k" for k r
    using no_dot(1) [of k] by (subst takeWhile_append2) auto
  from cut [of m p] cut [of n q] eq have "dec_digits m = dec_digits n" by simp
  with eq show "m = n \<and> p = q" by (simp add: dec_digits_inj)
qed simp

lemma version_text_inj:
  assumes "version_text v pre = version_text v' pre'" "pre = [] \<or> hd pre = CHR ''-''" "pre' = [] \<or> hd pre' = CHR ''-''"
  shows "v = v' \<and> pre = pre'"
proof -
  obtain a b c a' b' c' where v: "v = (a, b, c)" "v' = (a', b', c')" by (metis prod.exhaust)
  from assms(1) have "unat a = unat a' \<and> unat b = unat b' \<and> dec_digits (unat c) @ pre = dec_digits (unat c') @ pre'"
    by (simp add: v version_text_def uint_string_def first_dot)
  with last_number [of "unat c" pre "unat c'" pre'] assms(2,3) show ?thesis by (simp add: v word_unat_eq_iff)
qed

lemma release_pre: "release_version v = Inr (nums, pre) \<Longrightarrow> pre = [] \<or> hd pre = CHR ''-''"
  by (auto simp: release_version_def parse_release_def Let_def split: option.splits list.splits prod.splits if_splits)

text \<open>
  Releases of the CLI in order have provider versions in order, and two release texts have the same provider
  version only when they are the same release: no component wraps around in 64 bits.
\<close>

theorem provider_versions_monotone:
  assumes "ProviderVersionFor v = Inr t" "ProviderVersionFor v' = Inr t'"
    and "release_version v = Inr (nums, pre)" "release_version v' = Inr (nums', pre')" "v \<notin> {[], ''dev''}" "v' \<notin> {[], ''dev''}"
  shows "\<exists>w w'. t = version_text w pre \<and> t' = version_text w' pre' \<and>
    (version_nat w < version_nat w' \<longleftrightarrow> version_nat nums < version_nat nums') \<and>
    (t = t' \<longleftrightarrow> nums = nums' \<and> pre = pre')"
proof -
  from assms obtain w w' where w: "provider_series nums = Some w" "t = version_text w pre"
    "provider_series nums' = Some w'" "t' = version_text w' pre'"
    by (auto simp: ProviderVersionFor_def split: option.splits)
  note less = series_less [OF w(1,3)]
  have "w = w' \<longleftrightarrow> nums = nums'"
    using less series_less [OF w(3,1)] version_nat_inj by (metis linorder_neq_iff w(1,3) option.inject)
  then have "t = t' \<longleftrightarrow> nums = nums' \<and> pre = pre'"
    using version_text_inj [OF _ release_pre [OF assms(3)] release_pre [OF assms(4)], of w w'] w by auto
  with less w show ?thesis by blast
qed

theorem provider_versions_monotone_witness:
  "ProviderVersionFor ''v0.899.7'' = Inr ''1.999.7'' \<and> ProviderVersionFor ''1.0.0-rc.1'' = Inr ''1.1000.0-rc.1'' \<and>
   (\<exists>w w'. version_nat w < version_nat w' \<and> ''1.999.7'' = version_text w [] \<and> ''1.1000.0-rc.1'' = version_text w' ''-rc.1'')"
proof -
  have parses: "parse_release ''v0.899.7'' = Some ((''0'', ''899'', ''7''), [])"
      "parse_release ''1.0.0-rc.1'' = Some ((''1'', ''0'', ''0''), ''-rc.1'')" and pre: "canonical_pre ''-rc.1''" "canonical_pre []"
    by code_simp+
  have vals: "dec_val ''0'' = 0" "dec_val ''899'' = 899" "dec_val ''7'' = 7" "dec_val ''1'' = 1" by code_simp+
  have versions: "release_version ''v0.899.7'' = Inr ((0, 899, 7), [])" "release_version ''1.0.0-rc.1'' = Inr ((1, 0, 0), ''-rc.1'')"
    by (simp_all add: release_version_def parses pre parse_uint64_def vals)
  have texts: "dec_digits (Suc 0) = ''1''" "dec_digits 999 = ''999''" "dec_digits 7 = ''7''" "dec_digits 1000 = ''1000''" "dec_digits 0 = ''0''"
    by code_simp+
  have runs: "ProviderVersionFor ''v0.899.7'' = Inr ''1.999.7''" "ProviderVersionFor ''1.0.0-rc.1'' = Inr ''1.1000.0-rc.1''"
    by (simp_all add: ProviderVersionFor_def versions provider_series_def version_text_def uint_string_def texts)
  have "version_nat (0, 899, 7) < version_nat (1, 0, 0)" by (simp add: version_nat_def)
  moreover have "\<exists>w w'. ''1.999.7'' = version_text w [] \<and> ''1.1000.0-rc.1'' = version_text w' ''-rc.1'' \<and>
      (version_nat w < version_nat w' \<longleftrightarrow> version_nat (0, 899, 7) < version_nat (1, 0, 0)) \<and>
      (''1.999.7'' = ''1.1000.0-rc.1'' \<longleftrightarrow> (0, 899, 7) = (1 :: 64 word, 0 :: 64 word, 0 :: 64 word) \<and> [] = ''-rc.1'')"
    by (rule provider_versions_monotone [OF runs versions]) simp_all
  ultimately show ?thesis using runs by blast
qed

end
