(* ===== verification/TfCluster.thy ===== *)
theory TfCluster
  imports TfCloud BuildVars JsonDecode
begin

text \<open>
  The generated cluster stack: \<open>GenerateCluster\<close> and \<open>renderCluster\<close> of \<open>internal/tfgen/cluster.go\<close>, the seed values and
  the tunnel image of \<open>runtime.go\<close>. One definition per document of the code, a list of blocks in the order the
  code adds them.
\<close>

section \<open>Options\<close>

record vm_manifest =
  vm_kind :: string
  vm_arch :: string
  vm_filename :: string
  vm_json :: string

record cluster_options =
  co_deps_mirror_url :: string
  co_manifests :: "vm_manifest list"
  co_module_dir :: string

text \<open>
  What the generator calls: the validators' parsers, the version of the build, \<open>json.Unmarshal\<close> up to a JSON value, and
  of the container registry library the repository name of a reference and the name of a digest reference.
\<close>

record generator =
  ge_parsers :: parsers
  ge_version :: string
  ge_json :: "string \<Rightarrow> json result"
  ge_context :: "string \<Rightarrow> string result"
  ge_digest :: "string \<Rightarrow> string result"

definition NstanceModuleVersion :: string where
  "NstanceModuleVersion = ''~> 2.1''"

text \<open>\<open>buildvars.ProviderVersion\<close> panics on an invalid version of the build: \<open>None\<close>.\<close>

definition PodplaneProviderVersion :: "string \<Rightarrow> string option" where
  "PodplaneProviderVersion build =
     (case ProviderVersionFor build of
        Inl _ \<Rightarrow> None
      | Inr v \<Rightarrow> Some (if v = ''0.0.0-dev'' then ''>= 0.0.0'' else ''= '' @ v))"

section \<open>The tunnel image\<close>

text \<open>
  The part of \<open>deps.Manifest\<close> the generator reads, its images. The other fields are decoded for their types only. A number
  is an integer when its value is one.
\<close>

record vm_image =
  vi_image :: string
  vi_digest :: string

definition decode_int64 :: "int decoder" where
  "decode_int64 v old =
     (case v of
        JNum r \<Rightarrow> (case quotient_of r of (a, b) \<Rightarrow> if b = 1 \<and> - (2 ^ 63) \<le> a \<and> a < 2 ^ 63 then Some a else None)
      | JNull \<Rightarrow> Some old
      | _ \<Rightarrow> None)"

definition ignored :: "'b decoder \<Rightarrow> 'b \<Rightarrow> 'a decoder" where
  "ignored d zero v old = map_option (\<lambda>_. old) (d v zero)"

definition decode_vm_image :: "vm_image decoder" where
  "decode_vm_image = decode_struct
     [(''image'', field_of vi_image vi_image_update decode_str), (''digest'', field_of vi_digest vi_digest_update decode_str),
      (''size'', ignored decode_int64 0), (''platform'', ignored decode_str []), (''index'', ignored decode_str []),
      (''cached'', ignored decode_bool False)]"

definition decode_dependency :: "unit decoder" where
  "decode_dependency = decode_struct
     [(''version'', ignored decode_str []), (''url'', ignored decode_str []), (''type'', ignored decode_str []),
      (''digest'', ignored decode_str []), (''size'', ignored decode_int64 0),
      (''providers'', ignored (decode_slice decode_str []) []), (''cached'', ignored decode_bool False)]"

definition decode_boot_artifact :: "unit decoder" where
  "decode_boot_artifact = decode_struct
     [(''partition'', ignored decode_int64 0), (''path'', ignored decode_str []), (''digest'', ignored decode_str [])]"

definition decode_os :: "unit decoder" where
  "decode_os = decode_struct
     [(''name'', ignored decode_str []), (''arch'', ignored decode_str []), (''image'', decode_dependency),
      (''boot'', decode_struct
        [(''cmdline'', ignored decode_str []), (''kernel'', decode_boot_artifact), (''initrd'', decode_boot_artifact)])]"

definition decode_manifest :: "vm_image list decoder" where
  "decode_manifest = decode_struct
     [(''vmconfig'', decode_struct
        [(''version'', ignored decode_str []), (''kind'', ignored decode_str []), (''os'', ignored decode_os ()),
         (''dependencies'', ignored (decode_gomap decode_dependency ()) []),
         (''images'', decode_slice decode_vm_image \<lparr>vi_image = [], vi_digest = []\<rparr>)])]"

definition manifest_images :: "generator \<Rightarrow> string \<Rightarrow> vm_image list result" where
  "manifest_images g text =
     bindR (ge_json g text) (\<lambda>v. case decode_manifest v [] of None \<Rightarrow> Inl (Sentinel ''json: cannot unmarshal'') | Some xs \<Rightarrow> Inr xs)"

fun find_tunnel_image :: "generator \<Rightarrow> string \<Rightarrow> vm_manifest \<Rightarrow> vm_image list \<Rightarrow> string result" where
  "find_tunnel_image g kind m [] =
     Inl (Errorf ''vmconfig manifest %s/%s has no image for tunnel provider %q'' [S (vm_kind m), S (vm_arch m), S kind])"
| "find_tunnel_image g kind m (i # is) =
     (case ge_context g (vi_image i) of
        Inl e \<Rightarrow> Inl (Wrapf ''parse vmconfig image %q: %w'' [S (vi_image i)] e)
      | Inr context \<Rightarrow>
          if context \<noteq> ''index.docker.io/cloudflare/cloudflared'' then find_tunnel_image g kind m is
          else (case ge_digest g (context @ ''@'' @ vi_digest i) of
              Inl e \<Rightarrow> Inl (Wrapf ''pin tunnel image for %s/%s: %w'' [S (vm_kind m), S (vm_arch m)] e)
            | Inr d \<Rightarrow> Inr d))"

definition tunnelImage :: "generator \<Rightarrow> string \<Rightarrow> vm_manifest \<Rightarrow> string result" where
  "tunnelImage g kind m =
     (if kind \<noteq> ''cloudflare'' then Inl (Errorf ''unsupported tunnel provider %q'' [S kind])
      else case manifest_images g (vm_json m) of
        Inl e \<Rightarrow> Inl (Wrapf ''parse vmconfig manifest %s/%s: %w'' [S (vm_kind m), S (vm_arch m)] e)
      | Inr images \<Rightarrow> find_tunnel_image g kind m images)"

section \<open>Requirements and sources\<close>

definition path_base :: "string \<Rightarrow> string" where
  "path_base p =
     (let q = trim_right ''/'' p
      in if p = [] then ''.'' else if q = [] then ''/'' else rev (takeWhile (\<lambda>c. c \<noteq> CHR ''/'') (rev q)))"

definition addClusterTerraformRequirements :: "string \<Rightarrow> string \<Rightarrow> string list \<Rightarrow> hcl_block" where
  "addClusterTerraformRequirements providerVersion backend cloudProviders =
    (block ''terraform'' []
      ([attr ''required_version'' (str ''>= 1.10.0''),
        nested (block ''required_providers'' []
                  (cond (''aws'' \<in> set cloudProviders)
                     [attr ''aws'' (object [identField ''source'' (str ''hashicorp/aws''),
                         identField ''version'' (str ''>= 6.0'')])] @
                   cond (''google'' \<in> set cloudProviders)
                     [attr ''google'' (object [identField ''source'' (str ''hashicorp/google''),
                         identField ''version'' (str ''>= 6.0'')])] @
                   [attr ''podplane'' (object [identField ''source'' (str ''podplane/podplane''),
                       identField ''version'' (str providerVersion)])]))] @
       cond (backend \<noteq> [])
         [nested (block ''backend'' [backend] [])]))"

definition TerraformDependencyRoot :: "string \<Rightarrow> string \<Rightarrow> string option" where
  "TerraformDependencyRoot build moduleVersion =
     map_option (\<lambda>providerVersion. render_document
         \<lparr>hd_header = [],
          hd_blocks = addClusterTerraformRequirements providerVersion [] [''aws'', ''google''] #
            concat (map (\<lambda>nm. map (\<lambda>(kind, pre). block ''module'' [pre @ nm]
                [attr ''source'' (str (''nstance-dev/nstance/'' @ kind @ ''//modules/'' @ nm)),
                 attr ''version'' (str (if moduleVersion = [] then NstanceModuleVersion else moduleVersion))])
              [(''aws'', []), (''google'', ''google_'')]) [''cluster'', ''account'', ''network'', ''shard''])\<rparr>)
       (PodplaneProviderVersion build)"

definition nstanceModuleSource :: "cluster_options \<Rightarrow> string \<Rightarrow> string" where
  "nstanceModuleSource opts nm = trim_suffix (co_module_dir opts) ''/'' @ ''/modules/'' @ nm"

definition addNstanceModuleSource :: "cluster_options \<Rightarrow> string \<Rightarrow> hcl_item" where
  "addNstanceModuleSource opts nm = attr ''source'' (str (nstanceModuleSource opts nm))"

definition addInputVariable :: "string \<Rightarrow> string \<Rightarrow> hcl_value \<Rightarrow> string \<Rightarrow> hcl_block" where
  "addInputVariable nm typeExpr defaultVal description =
     block ''variable'' [nm]
       [attr ''description'' (str description), attr ''type'' (expr typeExpr), attr ''default'' defaultVal]"

section \<open>Inputs\<close>

record runtime_variable =
  rv_name :: string
  rv_type :: string
  rv_description :: string
  rv_default :: hcl_value

definition runtime_var :: "string \<Rightarrow> string \<Rightarrow> string \<Rightarrow> hcl_value \<Rightarrow> runtime_variable" where
  "runtime_var nm t d v = \<lparr>rv_name = nm, rv_type = t, rv_description = d, rv_default = v\<rparr>"

definition runtime_variables :: "cluster_config \<Rightarrow> service_network \<Rightarrow> runtime_variable list" where
  "runtime_variables cfg serviceNetwork =
     [
      runtime_var ''ssh_authorized_keys'' ''string''
        ''SSH login keys; existing VMs are reconfigured when set.'' (expr ''null''),
      runtime_var ''telemetry_enabled'' ''bool''
        ''Telemetry state; existing VMs are reconfigured when set.'' (expr ''null''),
      runtime_var ''telemetry_log_cloudinit'' ''bool''
        ''Cloud-init log collection; existing VMs are reconfigured when set.'' (expr ''null''),
      runtime_var ''telemetry_log_services'' ''string''
        ''Telemetry services; existing VMs are reconfigured when set.'' (expr ''null''),
      runtime_var ''telemetry_otlp_endpoint'' ''string''
        ''OTLP endpoint; existing VMs are reconfigured when set.'' (expr ''null''),
      runtime_var ''telemetry_s3_bucket'' ''string''
        ''Telemetry bucket; existing VMs are reconfigured when set.'' (expr ''null''),
      runtime_var ''telemetry_s3_endpoint'' ''string''
        ''Telemetry S3 endpoint; existing VMs are reconfigured when set.'' (expr ''null''),
      runtime_var ''telemetry_s3_assume_role'' ''string''
        ''Telemetry role; existing VMs are reconfigured when set.'' (expr ''null''),
      runtime_var ''telemetry_s3_access_key_id'' ''string''
        ''Static telemetry access key ID; prefer telemetry_s3_assume_role when available. Existing VMs are reconfigured when set.'' (expr ''null''),
      runtime_var ''telemetry_s3_secret_access_key'' ''string''
        ''Static telemetry secret access key; prefer telemetry_s3_assume_role when available. Existing VMs are reconfigured when set.'' (expr ''null''),
      runtime_var ''oidc_issuer_url'' ''string''
        ''OIDC issuer; existing VMs are reconfigured.'' (str (oi_issuer_url (cl_oidc (cc_cluster cfg)))),
      runtime_var ''oidc_ca_cert'' ''string''
        ''OIDC CA certificate; existing VMs are reconfigured when set.'' (expr ''null''),
      runtime_var ''oidc_signing_algs'' ''list(string)''
        ''OIDC signing algorithms accepted by kube-apiserver; existing VMs are reconfigured. vmconfig defaults to RS256 when unset.'' (if oi_signing_algs (cl_oidc (cc_cluster cfg)) = [] then expr ''null'' else stringValueList (oi_signing_algs (cl_oidc (cc_cluster cfg)))),
      runtime_var ''kube_api_etcd_servers'' ''string''
        ''etcd endpoints; existing VMs are reconfigured when set.'' (expr ''null''),
      runtime_var ''kubernetes_api_hostname'' ''string''
        ''Kubernetes API hostname; existing VMs are reconfigured.'' (str (ku_api_hostname (cl_kubernetes (cc_cluster cfg)))),
      runtime_var ''kubernetes_api_port'' ''number''
        ''External Kubernetes API port used by clients; kube-apiserver listens internally on 6443.'' (number (ResolvedAPIPort cfg)),
      runtime_var ''kubernetes_cluster_cidr'' ''list(string)''
        ''Pod CIDRs for control-plane services. Existing VMs are reconfigured, but Podplane does not migrate existing Pods, node CIDR allocations, CNI state, routes, or other networking state.'' (stringValueList (ku_cluster_cidr (cl_kubernetes (cc_cluster cfg)))),
      runtime_var ''kubernetes_node_cidr_mask_size_ipv4'' ''number''
        ''IPv4 Pod CIDR prefix for new node allocations. Existing Node.spec.podCIDRs and CNI state are not resized or migrated; old allocations consume corresponding blocks in the new allocation grid.'' (expr ''null''),
      runtime_var ''kubernetes_node_cidr_mask_size_ipv6'' ''number''
        ''IPv6 Pod CIDR prefix for new node allocations. Existing Node.spec.podCIDRs and CNI state are not resized or migrated; old allocations consume corresponding blocks in the new allocation grid.'' (expr ''null''),
      runtime_var ''kubernetes_service_cidr'' ''list(string)''
        ''Default Service CIDRs for control-plane services. Existing VMs are reconfigured, but Podplane does not migrate existing Services or other networking state; additional ServiceCIDR resources are separate.'' (stringValueList (sn_cidrs serviceNetwork)),
      runtime_var ''kube_log_level'' ''number''
        ''Kubernetes log level; existing VMs are reconfigured when set.'' (expr ''null''),
      runtime_var ''aws_s3_use_path_style'' ''string''
        ''S3 path style; existing VMs are reconfigured when set.'' (expr ''null''),
      runtime_var ''netsy_endpoint'' ''string''
        ''Netsy endpoint; existing VMs are reconfigured when set.'' (expr ''null''),
      runtime_var ''netsy_access_key_id'' ''string''
        ''Static Netsy access key ID; prefer assume-role credentials when available. Existing VMs are reconfigured when set.'' (expr ''null''),
      runtime_var ''netsy_secret_access_key'' ''string''
        ''Static Netsy secret access key; prefer assume-role credentials when available. Existing VMs are reconfigured when set.'' (expr ''null''),
      runtime_var ''registry_enabled'' ''bool''
        ''Registry state; existing VMs are reconfigured when set.'' (expr ''null''),
      runtime_var ''registry_endpoint'' ''string''
        ''Registry endpoint; existing VMs are reconfigured when set.'' (expr ''null''),
      runtime_var ''registry_access_key_id'' ''string''
        ''Static registry access key ID; prefer assume-role credentials when available. Existing VMs are reconfigured when set.'' (expr ''null''),
      runtime_var ''registry_secret_access_key'' ''string''
        ''Static registry secret access key; prefer assume-role credentials when available. Existing VMs are reconfigured when set.'' (expr ''null''),
      runtime_var ''registry_hostname'' ''string''
        ''Registry hostname; existing VMs are reconfigured when set.'' (str (ResolvedRegistryHostname cfg))]"

definition sensitive_variables :: "string list" where
  "sensitive_variables =
     [''telemetry_s3_access_key_id'', ''telemetry_s3_secret_access_key'', ''netsy_access_key_id'', ''netsy_secret_access_key'',
      ''registry_access_key_id'', ''registry_secret_access_key'']"

definition number_max :: "(string \<times> int) list" where
  "number_max = [(''kubernetes_node_cidr_mask_size_ipv4'', 32), (''kubernetes_node_cidr_mask_size_ipv6'', 128)]"

definition number_validation :: "string \<Rightarrow> int \<Rightarrow> hcl_block" where
  "number_validation nm limit = block ''validation'' []
     [attr ''condition'' (expr (''var.'' @ nm @ '' == null ? true : (var.'' @ nm @ '' >= 0 && var.'' @ nm @ '' <= '' @
        int_string limit @ '' && floor(var.'' @ nm @ '') == var.'' @ nm @ '')'')),
      attr ''error_message'' (str (nm @ '' must be a whole number between 0 and '' @ int_string limit @ ''.''))]"

definition runtime_variable_block :: "runtime_variable \<Rightarrow> hcl_block" where
  "runtime_variable_block item = block ''variable'' [rv_name item]
     ([attr ''description'' (str (rv_description item)), attr ''type'' (expr (rv_type item)), attr ''default'' (rv_default item)] @
      cond (rv_name item \<in> set sensitive_variables) [attr ''sensitive'' (boolean True)] @
      (case map_of number_max (rv_name item) of
         Some limit \<Rightarrow> [nested (number_validation (rv_name item) limit)] | None \<Rightarrow> []))"

definition runtime_inputs :: "cluster_config \<Rightarrow> service_network \<Rightarrow> hcl_block list" where
  "runtime_inputs cfg serviceNetwork =
     map runtime_variable_block (runtime_variables cfg serviceNetwork) @
    [block ''locals'' []
       [attr ''oidc_client_id'' (str (ResolvedClientID cfg)),
        attr ''oidc_username_claim'' (str (ResolvedUsernameClaim cfg)),
        attr ''oidc_groups_claim'' (str (ResolvedGroupsClaim cfg))]]"

definition pool_instance_types :: "cluster_config \<Rightarrow> hcl_field list" where
  "pool_instance_types cfg =
     map (\<lambda>(nm, p). field nm (str (po_instance_type p))) (canon_map (cl_pools (cc_cluster cfg))) @
     map (\<lambda>(nm, g). field nm (str (ng_instance_type g))) (nat_groups cfg)"

definition pool_sizes :: "cluster_config \<Rightarrow> hcl_field list" where
  "pool_sizes cfg = map (\<lambda>(nm, p). field nm (number (po_size p))) (canon_map (cl_pools (cc_cluster cfg)))"

definition vm_inputs :: "cluster_config \<Rightarrow> hcl_block list" where
  "vm_inputs cfg =
     [addInputVariable ''immutable_ssh_authorized_keys'' ''string'' (str []) ''Early-boot SSH keys; changing them rolls affected VMs.'',
      addInputVariable ''pool_instance_types'' ''map(string)'' (object (pool_instance_types cfg))
        ''Instance types by pool; changing one rolls that pool.'',
      addInputVariable ''pool_sizes'' ''map(number)'' (object (pool_sizes cfg))
        ''Desired VM counts by pool; changes are reconciled by Nstance.''] @
     cond (pr_kind (provider0 cfg) = ''google'')
       [addInputVariable ''enable_os_login'' ''bool'' (boolean True) ''IAM-based SSH on Nstance server VMs; changing it rolls those VMs.'']"

definition nat_mode :: "cluster_config \<Rightarrow> string" where
  "nat_mode cfg = (case nstance_nat cfg of Some _ \<Rightarrow> ''nstance'' | None \<Rightarrow> ''provider'')"

definition fixed_addresses :: "cluster_config \<Rightarrow> int" where
  "fixed_addresses cfg = (case nstance_nat cfg of Some n \<Rightarrow> na_fixed_count n | None \<Rightarrow> 0)"

definition placement :: "cluster_config \<Rightarrow> provider \<Rightarrow> hcl_block list" where
  "placement cfg provider =
    [block ''locals'' []
       [attr ''subnets'' (subnetsValue provider),
        attr ''load_balancers'' (loadBalancersValue provider)],
     HclBlock [''Cluster identity and placement. Changing these values is not supported in place;'',
         ''destroy the cluster, then update podplane.cluster.jsonc and recreate it.''] ''locals'' []
       ([attr ''cluster_id'' (str (cl_id (cc_cluster cfg))),
         attr ''spiffe_trust_domain'' (str (sp_trust_domain (cl_spiffe (cc_cluster cfg)))),
         attr ''name_prefix'' (str (cl_id (cc_cluster cfg))),
         attr ''provider_kind'' (str (pr_kind provider))] @
        (if pr_kind provider = ''aws'' then
           [attr ''provider_account'' (str (pr_account provider))]
         else if pr_kind provider = ''google'' then
           [attr ''provider_project'' (str (pr_project provider))]
         else []) @
        [attr ''provider_region'' (str (pr_region provider))])]"

definition infra_inputs :: "cluster_config \<Rightarrow> hcl_block list" where
  "infra_inputs cfg =
     (let p = provider0 cfg in
      [addInputVariable ''vpc_id'' ''string'' (str (vp_id (pr_vpc p))) ''Existing VPC ID; changing it replaces network placement.'',
       addInputVariable ''vpc_cidr_ipv4'' ''string'' (str (vp_v4cidr (pr_vpc p)))
         ''Managed VPC IPv4 CIDR; changing it may replace networking.'',
       addInputVariable ''enable_ipv6'' ''bool'' (boolean (vp_v6cidr (pr_vpc p) = ''auto''))
         ''IPv6 state; changing it updates cloud networking.''] @
      (if pr_kind p = ''aws''
       then [addInputVariable ''enable_ssm'' ''bool'' (boolean True)
         ''SSM access; changing it updates AWS infrastructure and VM bootstrap.'']
       else if pr_kind p = ''google''
       then [addInputVariable ''enable_iap'' ''bool'' (boolean True)
         ''IAP access to SSH and the Nstance operator API; changing it updates firewall rules.'']
       else []) @
      [addInputVariable ''nat_mode'' ''string'' (str (nat_mode cfg))
         ''Choose provider-managed NAT or Nstance-managed NAT. Changing modes requires destroying and recreating the cluster.'',
       addInputVariable ''fixed_public_ipv4_count'' ''number'' (number (fixed_addresses cfg))
         ''Number of static public IPv4 addresses to reserve for each NAT subnet when using Nstance-managed NAT.''] @
      placement cfg p)"

section \<open>The machines\<close>

definition userdata_zones :: "provider \<Rightarrow> vm_target \<Rightarrow> string list" where
  "userdata_zones p target = (if vt_kind target = ''nst'' then sorted_keys (pr_zones p) else [[]])"

definition userdata_block :: "cluster_config \<Rightarrow> cluster_options \<Rightarrow> vm_manifest \<Rightarrow> vm_target \<Rightarrow> string \<Rightarrow> hcl_block" where
  "userdata_block cfg opts manifest target zone =
     (let provider = provider0 cfg in
    (block ''data'' [''podplane_userdata'', safeName [vt_kind target, vt_arch target, zone]]
      ([attr ''manifest_json'' (expr (''file('' @ quote (''${path.module}/podplane.cluster.'' @ vm_filename manifest) @
          '')'')),
        attr ''deps_mirror_url'' (str (co_deps_mirror_url opts)),
        attr ''provider_kind'' (expr ''local.provider_kind'')] @
       (if pr_kind provider = ''aws'' then
          [attr ''aws_account_id'' (expr ''local.aws_account_id'')]
        else
          [attr ''google_project_id'' (expr ''local.provider_project'')]) @
       [attr ''immutable_ssh_authorized_keys'' (expr ''var.immutable_ssh_authorized_keys'')] @
       cond (pr_kind provider = ''aws'')
         [attr ''enable_ssm'' (expr ''var.enable_ssm'')] @
       cond (vt_kind target = ''nst'')
         [attr ''server_env'' (serverEnvValue cfg zone)])))"

definition find_manifest :: "cluster_options \<Rightarrow> vm_target \<Rightarrow> vm_manifest option" where
  "find_manifest opts t = map_of (rev (map (\<lambda>m. (\<lparr>vt_kind = vm_kind m, vt_arch = vm_arch m\<rparr>, m)) (co_manifests opts))) t"

definition needs_tunnel_image :: "cluster_config \<Rightarrow> vm_target \<Rightarrow> bool" where
  "needs_tunnel_image cfg t \<longleftrightarrow> tunnelled cfg \<and> (vt_kind t = ''knc'' \<or> vt_kind t = ''nst'' \<and> seeded cfg)"

definition tunnel_kind :: "cluster_config \<Rightarrow> string" where
  "tunnel_kind cfg = (case cl_tunnel (cc_cluster cfg) of Some t \<Rightarrow> tu_kind t | None \<Rightarrow> [])"

text \<open>The manifest of every target, with the tunnel image of those that run a tunnel.\<close>

fun resolve_targets :: "generator \<Rightarrow> cluster_config \<Rightarrow> cluster_options \<Rightarrow> vm_target list \<Rightarrow> (vm_target \<times> vm_manifest \<times> string option) list result" where
  "resolve_targets g cfg opts [] = Inr []"
| "resolve_targets g cfg opts (t # ts) =
     (case find_manifest opts t of
        Some m \<Rightarrow>
          if vm_json m = [] then Inl (Errorf ''missing vmconfig manifest %s/%s'' [S (vt_kind t), S (vt_arch t)])
          else bindR (if needs_tunnel_image cfg t
              then bindR (tunnelImage g (tunnel_kind cfg) m) (\<lambda>i. Inr (Some i)) else Inr None) (\<lambda>img.
            bindR (resolve_targets g cfg opts ts) (\<lambda>rest. Inr ((t, m, img) # rest)))
      | None \<Rightarrow> Inl (Errorf ''missing vmconfig manifest %s/%s'' [S (vt_kind t), S (vt_arch t)]))"

definition tunnel_images :: "(vm_target \<times> vm_manifest \<times> string option) list \<Rightarrow> (vm_target \<times> string) list" where
  "tunnel_images rs = concat (map (\<lambda>(t, _, i). case i of Some i \<Rightarrow> [(t, i)] | None \<Rightarrow> []) rs)"

definition userdata_blocks :: "cluster_config \<Rightarrow> cluster_options \<Rightarrow> (vm_target \<times> vm_manifest \<times> string option) list \<Rightarrow> hcl_block list" where
  "userdata_blocks cfg opts rs =
     concat (map (\<lambda>(t, m, _). map (userdata_block cfg opts m t) (userdata_zones (provider0 cfg) t)) rs)"

section \<open>The main document\<close>

definition account_name :: "provider \<Rightarrow> string" where
  "account_name p = safeName [''account'', pr_account p, pr_region p]"

definition network_name :: "provider \<Rightarrow> string" where
  "network_name p = safeName [''network'', pr_account p, pr_region p]"

definition secret_prefix :: "cluster_config \<Rightarrow> string" where
  "secret_prefix cfg =
     (if pr_kind (provider0 cfg) = ''google'' then cl_id (cc_cluster cfg) @ ''-'' else ''/'' @ cl_id (cc_cluster cfg) @ ''/'')"

definition provider_blocks :: "provider \<Rightarrow> hcl_block list" where
  "provider_blocks provider =
    (if pr_kind provider = ''aws'' then
       [block ''provider'' [''aws'']
          ([attr ''region'' (expr ''local.provider_region'')] @
           cond (pr_profile provider \<noteq> [])
             [attr ''profile'' (str (pr_profile provider))] @
           cond (pr_account provider \<noteq> [])
             [attr ''allowed_account_ids'' (HclList [expr ''local.provider_account''])] @
           cond (pr_tags provider \<noteq> [])
             [nested (block ''default_tags'' []
                        [attr ''tags'' (stringMapValue (pr_tags provider))])]),
        block ''data'' [''aws_caller_identity'', ''current''] [],
        block ''data'' [''aws_region'', ''current''] [],
        block ''data'' [''aws_partition'', ''current''] []]
     else
       [block ''provider'' [''google'']
          [attr ''project'' (expr ''local.provider_project''),
           attr ''region'' (expr ''local.provider_region'')]])"

definition exposure_mode :: "cluster_config \<Rightarrow> string" where
  "exposure_mode cfg = (if tunnelled cfg then ''tunnel'' else ''nlb'')"

definition postcondition :: "string \<Rightarrow> string \<Rightarrow> string \<Rightarrow> hcl_item" where
  "postcondition nm requested message = nested (block ''postcondition'' []
     [attr ''condition'' (expr (''self.input.'' @ nm @ '' == '' @ requested)), attr ''error_message'' (str message)])"

definition deployment_modes :: "cluster_config \<Rightarrow> hcl_block" where
  "deployment_modes cfg = block ''resource'' [''terraform_data'', ''deployment_modes'']
     [attr ''input'' (object [identField ''nat'' (expr ''var.nat_mode''), identField ''exposure'' (str (exposure_mode cfg))]),
      nested (block ''lifecycle'' []
        [attr ''ignore_changes'' (HclList [expr ''input'']),
         postcondition ''nat'' ''var.nat_mode''
           ''Changing NAT mode (provider <-> nstance) in place is not supported. Destroy the cluster, then recreate it with the desired mode.'',
         postcondition ''exposure'' (quote (exposure_mode cfg))
           ''Changing exposure mode (NLB <-> tunnel) in place is not supported. Destroy the cluster, then recreate it with the desired mode.''])]"

definition main_locals :: "cluster_config \<Rightarrow> service_network \<Rightarrow> (vm_target \<times> string) list \<Rightarrow> hcl_block" where
  "main_locals cfg serviceNetwork tunnelImages =
     (let provider = provider0 cfg; apiServiceIPs = map addr_string (sn_api serviceNetwork) in
    (block ''locals'' []
      ((if pr_kind provider = ''aws'' then
          [attr ''aws_account_id'' (expr ''data.aws_caller_identity.current.account_id''),
           attr ''aws_region'' (expr ''data.aws_region.current.region''),
           attr ''netsy_bucket_name'' (str ''${local.cluster_id}-${local.aws_account_id}-netsy''),
           attr ''registry_bucket_name'' (str ''${local.cluster_id}-${local.aws_account_id}-registry'')]
        else
          [attr ''netsy_bucket_name'' (str ''${local.cluster_id}-${local.provider_project}-netsy''),
           attr ''registry_bucket_name'' (str ''${local.cluster_id}-${local.provider_project}-registry'')]) @
       [attr ''host_env'' (hostEnvValue (pr_kind provider)),
        attr ''mutable_env'' (mutableEnvValue serviceNetwork (pr_kind provider)),
        attr ''certificates'' (nstanceCertificatesValue cfg apiServiceIPs),
        attr ''templates'' (templatesValue cfg tunnelImages)])))"

definition infrastructure_modules :: "cluster_config \<Rightarrow> cluster_options \<Rightarrow> hcl_block list" where
  "infrastructure_modules cfg opts =
     (let provider = provider0 cfg; accountName = account_name provider; networkName = network_name provider in
    [block ''module'' [''cluster'']
       ([addNstanceModuleSource opts ''cluster'',
         attr ''depends_on'' (HclList [expr ''terraform_data.deployment_modes'']),
         attr ''cluster_id'' (expr ''local.cluster_id''),
         attr ''name_prefix'' (expr ''local.name_prefix''),
         attr ''shards'' (stringValueList (sorted_keys (pr_zones provider))),
         attr ''secrets_prefix'' (str (secret_prefix cfg))] @
        cond (pr_profile provider \<noteq> [])
          [attr ''aws_profile'' (str (pr_profile provider))] @
        cond (pr_tags provider \<noteq> [])
          [attr ''tags'' (stringMapValue (pr_tags provider))]),
     block ''module'' [accountName]
       ([addNstanceModuleSource opts ''account'',
         attr ''cluster'' (expr ''module.cluster'')] @
        cond (pr_kind provider = ''aws'')
          [attr ''enable_ssm'' (expr ''var.enable_ssm'')]),
     block ''module'' [networkName]
       ([addNstanceModuleSource opts ''network'',
         attr ''depends_on'' (HclList [expr ''terraform_data.deployment_modes'']),
         attr ''cluster'' (expr ''module.cluster'')] @
        cond (pr_kind provider = ''aws'')
          [attr ''enable_ssm'' (expr ''var.enable_ssm'')] @
        [attr ''vpc_id'' (expr ''var.vpc_id''),
         attr ''vpc_cidr_ipv4'' (expr ''var.vpc_cidr_ipv4''),
         attr ''ipv6_enabled'' (expr ''var.enable_ipv6''),
         attr ''nat_mode'' (expr ''var.nat_mode''),
         attr ''fixed_public_ipv4_count'' (expr ''var.fixed_public_ipv4_count'')] @
        cond (pr_kind provider = ''google'')
          [attr ''project_id'' (expr ''local.provider_project''),
           attr ''region'' (expr ''local.provider_region'')] @
        [attr ''subnets'' (expr ''local.subnets'')] @
        cond (pr_load_balancers provider \<noteq> [])
          [attr ''load_balancers'' (expr ''local.load_balancers'')])])"

definition nst_image :: "cluster_config \<Rightarrow> (vm_target \<times> string) list \<Rightarrow> string" where
  "nst_image cfg tunnelImages =
     (case map_of tunnelImages \<lparr>vt_kind = ''nst'', vt_arch = serverArch (provider0 cfg)\<rparr> of Some i \<Rightarrow> i | None \<Rightarrow> [])"

definition shard_block :: "cluster_config \<Rightarrow> cluster_options \<Rightarrow> (vm_target \<times> string) list \<Rightarrow> string \<Rightarrow> hcl_block" where
  "shard_block cfg opts tunnelImages zone =
     (let provider = provider0 cfg; accountName = account_name provider; networkName = network_name provider;
          moduleName = shard_module zone in
    (block ''module'' [moduleName]
      ([addNstanceModuleSource opts ''shard'',
        attr ''cluster'' (expr ''module.cluster''),
        attr ''account'' (expr (''module.'' @ accountName)),
        attr ''network'' (expr (''module.'' @ networkName)),
        attr ''shard'' (str zone),
        attr ''zone'' (str zone)] @
       (if pr_kind provider = ''aws'' then
          [attr ''enable_ssm'' (expr ''var.enable_ssm'')]
        else if pr_kind provider = ''google'' then
          [attr ''enable_iap'' (expr ''var.enable_iap''),
           attr ''enable_os_login'' (expr ''var.enable_os_login'')]
        else []) @
       [attr ''certificates'' (expr ''local.certificates''),
        attr ''templates'' (expr ''local.templates''),
        attr ''groups'' (groupsValue cfg provider),
        attr ''server_arch'' (str (serverArch provider)),
        attr ''server_userdata'' (expr (''data.podplane_userdata.'' @ safeName [''nst'', serverArch provider, zone] @
            ''.content''))] @
       (case nstance_nat cfg of Some n \<Rightarrow> [attr ''nat'' (natValue n zone networkName)] | None \<Rightarrow> []) @
       (case cl_tunnel (cc_cluster cfg) of Some t \<Rightarrow> cond (seeded cfg) [attr ''tunnels'' (wakeTunnelsValue cfg t (nst_image cfg tunnelImages))] | None \<Rightarrow> []))))"

text \<open>\<open>addWorkloadCAKey\<close>: no resource when the backend is Vault or OpenBao.\<close>

definition manages_workload_key :: "cluster_config \<Rightarrow> bool" where
  "manages_workload_key cfg \<longleftrightarrow> sv_kind (default_secrets cfg) \<noteq> ''vault'' \<and> sv_kind (default_secrets cfg) \<noteq> ''openbao''"

definition addWorkloadCAKey :: "cluster_config \<Rightarrow> provider \<Rightarrow> hcl_block list" where
  "addWorkloadCAKey cfg infrastructure =
     (let sp = default_secrets cfg in
      cond (manages_workload_key cfg) [block ''resource'' [''podplane_workload_ca_key'', ''cluster'']
        ([attr ''key_prefix'' (str (secrets_prefix cfg sp))] @
         (if sv_kind sp = ''aws'' \<and> sv_object_type sp = ''secretsmanager''
          then [attr ''secrets_provider'' (str ''aws-secrets-manager'')]
          else if sv_kind sp = ''aws'' \<and> sv_object_type sp = ''ssmparameter''
          then [attr ''secrets_provider'' (str ''aws-parameter-store'')]
          else if sv_kind sp = ''gcp''
          then [attr ''secrets_provider'' (str ''google-secret-manager''), attr ''project'' (str (sv_project_id sp))]
          else []) @
         cond (sv_kind sp = ''aws'')
           ([attr ''region'' (str (if sv_region sp = [] then pr_region infrastructure else sv_region sp))] @
            cond (pr_profile infrastructure \<noteq> []) [attr ''profile'' (str (pr_profile infrastructure))]) @
         [attr ''depends_on'' (HclList [expr ''module.cluster''])])])"

section \<open>The seed\<close>

definition shard_addresses :: "provider \<Rightarrow> hcl_field list" where
  "shard_addresses p = map (\<lambda>zone.
     let address = ''module.'' @ shard_module zone @ ''.server_ips[0]'' in
     field zone (object
       [identField ''registration_addr'' (expr (''format(\"%s:8992\", '' @ address @ '')'')),
        identField ''operator_addr'' (expr (''format(\"%s:8993\", '' @ address @ '')''))])) (sorted_keys (pr_zones p))"

definition seed_components :: "cluster_config \<Rightarrow> provider \<Rightarrow> hcl_field list" where
  "seed_components cfg p =
     cond (seeded cfg) [field ''nstance-operator'' (object [identField ''config'' (object
       [identField ''shards'' (object (shard_addresses p))])])] @
     cond (route53ACMEEnabled cfg) [field ''podplane-operator'' (expr ''{ podplane = { operator = { config = { ingressCertificates = {\<newline>  domains = { for name, zone in data.aws_route53_zone.managed : name => {\<newline>    dnsProvider = { kind = \"aws-route53\", hostedZoneID = zone.zone_id, region = local.aws_region, roleARN = aws_iam_role.acme_route53[0].arn }\<newline>  } }\<newline>} } } } }'')] @
     cond (pr_kind p = ''aws'')
       [field ''zot-registry'' (expr ''{\<newline>  platform = { zotRegistry = { storage = { bucket = aws_s3_bucket.podplane_cluster[\"registry\"].bucket, region = local.aws_region } } }\<newline>  zot = { podAnnotations = { \"iam.amazonaws.com/role\" = aws_iam_role.podplane_cluster[\"registry-read-write\"].arn } }\<newline>}''),
        field ''csi-aws-ebs'' (expr ''{ \"aws-ebs-csi-driver\" = {\<newline>  controller = { podAnnotations = { \"iam.amazonaws.com/role\" = aws_iam_role.ebs_csi.arn } }\<newline>} }'')] @
     cond (pr_kind p = ''google'')
       [field ''csi-gce-pd'' (object [identField ''platform'' (object [identField ''csiGcePd'' (object
          [identField ''googleWorkloadIdentity'' (object [identField ''provider'' (expr ''google_iam_workload_identity_pool_provider.cluster.name'')]),
           identField ''projectID'' (expr ''local.provider_project''),
           identField ''zone'' (str (hd (sorted_keys (pr_zones p))))])])]),
        field ''zot-registry'' (expr ''{\<newline>  platform = { zotRegistry = {\<newline>    googleWorkloadIdentity = { provider = google_iam_workload_identity_pool_provider.cluster.name }\<newline>    storage = {\<newline>      driver = \"gcs\"\<newline>      bucket = google_storage_bucket.podplane_cluster[\"registry\"].name\<newline>    }\<newline>  } }\<newline>  zot = {\<newline>    serviceAccount = { create = true, name = \"zot-registry\" }\<newline>    env = [{ name = \"GOOGLE_APPLICATION_CREDENTIALS\", value = \"/var/run/google/identity/credentials.json\" }]\<newline>    extraVolumes = [\<newline>      { name = \"podplane-zot-config\", configMap = { name = \"zot-registry-config\" } },\<newline>      { name = \"google-identity\", projected = { sources = [\<newline>        { serviceAccountToken = { audience = \"https://iam.googleapis.com/${google_iam_workload_identity_pool_provider.cluster.name}\", expirationSeconds = 3600, path = \"token\" } },\<newline>        { configMap = { name = \"google-workload-identity\" } }\<newline>      ] } }\<newline>    ]\<newline>    extraVolumeMounts = [\<newline>      { name = \"podplane-zot-config\", mountPath = \"/etc/zot/config.json\", subPath = \"config.json\", readOnly = true },\<newline>      { name = \"google-identity\", mountPath = \"/var/run/google/identity\", readOnly = true }\<newline>    ]\<newline>  }\<newline>}''),
        field ''podplane-operator'' (expr ''{ podplane = { operator = { googleWorkloadIdentity = { provider = google_iam_workload_identity_pool_provider.cluster.name } } } }''),
        field ''secrets-store-csi-provider-gcp'' (expr ''{ platform = { secretsStoreCSIProviderGCP = { googleWorkloadIdentity = { provider = google_iam_workload_identity_pool_provider.cluster.name } } } }''),
        field ''cilium'' (expr ''{ platform = { cilium = { blockGoogleMetadata = true } } }'')]"

definition seedValues :: "cluster_config \<Rightarrow> provider \<Rightarrow> hcl_value" where
  "seedValues cfg p =
     (let components = [identField ''values'' (object (seed_components cfg p))] @
        (if pr_kind p = ''aws'' then [identField ''apps'' (expr ''{\<newline>  \"zot-registry\" = { namespaceAnnotations = { \"iam.amazonaws.com/allowed-roles\" = jsonencode([aws_iam_role.podplane_cluster[\"registry-read-write\"].arn]) } }\<newline>  \"csi-aws-ebs\" = { namespaceAnnotations = { \"iam.amazonaws.com/allowed-roles\" = jsonencode([aws_iam_role.ebs_csi.arn]) } }\<newline>}'')]
         else if pr_kind p = ''google''
         then [identField ''crds'' (expr ''{ \"secrets-store-csi-driver-crds\" = { enabled = true } }''),
           identField ''apps'' (expr ''{\<newline>  \"secrets-store-csi-driver\" = { enabled = true }\<newline>  \"secrets-store-csi-provider-gcp\" = { enabled = true }\<newline>}'')]
         else [])
      in expr (''yamlencode('' @ render_value 0 (object [identField ''platform'' (object [identField ''components'' (object components)])]) @ '')''))"

definition seed_dependencies :: "cluster_config \<Rightarrow> provider \<Rightarrow> string list" where
  "seed_dependencies cfg p =
     cond (pr_kind p = ''aws'') [''aws_iam_role_policy_attachment.ebs_csi'', ''aws_iam_role_policy.podplane_knc''] @
     cond (pr_kind p = ''google'')
       [''google_storage_bucket_iam_member.podplane_registry_writer'', ''google_iam_workload_identity_pool_provider.cluster'',
        ''google_project_iam_member.podplane_secrets_catalog'', ''google_project_iam_member.podplane_secrets_lifecycle'',
        ''google_project_iam_member.podplane_secrets_reader'', ''google_project_iam_member.podplane_ingress_state'',
        ''google_project_iam_member.csi_gce_pd_storage'', ''google_project_iam_member.csi_gce_pd_instances'',
        ''google_service_account_iam_member.csi_gce_pd_agent''] @
     cond (manages_workload_key cfg)
       ([''podplane_workload_ca_key.cluster''] @
        cond (sv_kind (default_secrets cfg) = ''aws'' \<and> pr_kind p = ''aws'') [''aws_iam_role_policy.podplane_workload_ca_key''])"

definition storage_type :: "provider \<Rightarrow> string" where
  "storage_type p = (if pr_kind p = ''google'' then ''gcs'' else ''s3'')"

definition seed_block :: "string \<Rightarrow> cluster_config \<Rightarrow> provider \<Rightarrow> hcl_block" where
  "seed_block configPath cfg provider =
    (block ''resource'' [(''podplane_netsy_seed_'' @ storage_type provider), ''cluster'']
      ([attr ''cluster_config_path'' (str (''${path.module}/'' @ path_base configPath))] @
       (if pr_kind provider = ''aws'' then
          ([attr ''bucket'' (expr ''aws_s3_bucket.podplane_cluster[\"netsy\"].bucket''),
            attr ''region'' (expr ''local.aws_region'')] @
           cond (pr_profile provider \<noteq> [])
             [attr ''profile'' (str (pr_profile provider))])
        else
          [attr ''bucket'' (expr ''google_storage_bucket.podplane_cluster[\"netsy\"].name''),
           attr ''project'' (expr ''local.provider_project'')]) @
       [attr ''values_content'' (seedValues cfg provider)] @
       (cond (seeded cfg) (nstance_bootstrap provider (secret_prefix cfg))) @
       (cond (seed_dependencies cfg provider \<noteq> []) [attr ''depends_on'' (HclList (map expr (seed_dependencies cfg provider)))])))"

definition seed_blocks :: "string \<Rightarrow> cluster_config \<Rightarrow> provider \<Rightarrow> hcl_block list" where
  "seed_blocks configPath cfg p =
     (let nm = se_name (cl_seed (cc_cluster cfg)) in
      cond (nm \<noteq> [] \<and> nm \<noteq> ''none'')
        (cond (seeded cfg) [nstance_key p (secret_prefix cfg)] @ [seed_block configPath cfg p] @
         cond (tunnelled cfg \<and> seeded cfg) (addTunnelCAFiles p)))"

section \<open>The files\<close>

definition main_blocks :: "string \<Rightarrow> string \<Rightarrow> cluster_config \<Rightarrow> cluster_options \<Rightarrow> service_network \<Rightarrow>
    (vm_target \<times> vm_manifest \<times> string option) list \<Rightarrow> hcl_block list" where
  "main_blocks providerVersion configPath cfg opts network rs =
     (let p = provider0 cfg; images = tunnel_images rs in
      [addClusterTerraformRequirements providerVersion (storage_type p) [pr_kind p]] @
      provider_blocks p @
      userdata_blocks cfg opts rs @
      [deployment_modes cfg, main_locals cfg network images] @
      infrastructure_modules cfg opts @
      (case nstance_nat cfg of Some _ \<Rightarrow> addNATSubnetLookups p | None \<Rightarrow> []) @
      map (shard_block cfg opts images) (sorted_keys (pr_zones p)) @
      [cloudSigningKey ''podplane_service_account_key'' p (secret_prefix cfg)] @
      addWorkloadCAKey cfg p @
      seed_blocks configPath cfg p)"

definition output_blocks :: "cluster_config \<Rightarrow> hcl_block list" where
  "output_blocks cfg =
     (let provider = provider0 cfg; networkName = network_name provider in
    ([block ''output'' [''cluster_id'']
        [attr ''value'' (expr ''local.cluster_id'')],
      block ''output'' [''kubernetes_api_url'']
        [attr ''value'' (str ''https://${var.kubernetes_api_hostname}:${var.kubernetes_api_port}'')],
      block ''output'' [''domain_targets'']
        [attr ''description'' (str ''Configured domain names and their external routing targets.''),
         attr ''value'' (domainTargetsValue cfg networkName)],
      block ''output'' [''manual_dns_records'']
        [attr ''description'' (str ''DNS records requiring manual setup. Tunnel DNS and HTTPS edge settings are user-managed.''),
         attr ''value'' (manualDNSRecordsValue cfg networkName)],
      block ''output'' [''nstance_bucket'']
        [attr ''value'' (expr ''module.cluster.bucket'')],
      block ''output'' [''nstance_shards'']
        [attr ''value'' (nstanceShardsValue provider)]] @
     cond (pr_kind provider = ''aws'')
       ([block ''output'' [''registry_read_only_role_arn'']
           [attr ''value'' (expr ''aws_iam_role.podplane_cluster[\"registry-read-only\"].arn'')],
         block ''output'' [''registry_read_write_role_arn'']
           [attr ''value'' (expr ''aws_iam_role.podplane_cluster[\"registry-read-write\"].arn'')],
         block ''output'' [''netsy_role_arn'']
           [attr ''value'' (expr ''aws_iam_role.podplane_cluster[\"netsy\"].arn'')]] @
        cond (route53ACMEEnabled cfg)
          [block ''output'' [''acme_route53_role_arn'']
             [attr ''value'' (expr ''aws_iam_role.acme_route53[0].arn'')]])))"

definition tf_document :: "string \<Rightarrow> string list \<Rightarrow> hcl_block list \<Rightarrow> tf_file" where
  "tf_document nm header blocks =
     \<lparr>tf_name = nm, tf_content = render_document \<lparr>hd_header = header, hd_blocks = blocks\<rparr>, tf_type = FileTypeTerraform\<rparr>"

definition manifest_file :: "vm_target \<times> vm_manifest \<times> string option \<Rightarrow> tf_file" where
  "manifest_file r = (case r of (_, m, _) \<Rightarrow>
     \<lparr>tf_name = ''podplane.cluster.'' @ vm_filename m, tf_content = vm_json m, tf_type = FileTypeJSON\<rparr>)"

definition cluster_files :: "string \<Rightarrow> string \<Rightarrow> cluster_config \<Rightarrow> cluster_options \<Rightarrow> service_network \<Rightarrow>
    (vm_target \<times> vm_manifest \<times> string option) list \<Rightarrow> tf_file list" where
  "cluster_files providerVersion configPath cfg opts network rs =
     (let p = provider0 cfg in
      [tf_document ''podplane.cluster.main.tf''
         [''Cluster providers, VM templates, and Nstance infrastructure, including bootstrap configuration.'']
         (main_blocks providerVersion configPath cfg opts network rs),
       tf_document ''podplane.cluster.buckets.tf''
         [''Object storage buckets for Netsy cluster state and the container registry.'']
         (if pr_kind p = ''aws'' then addPodplaneAWSBuckets else addPodplaneGoogleBuckets),
       tf_document ''podplane.cluster.dns.tf''
         [''DNS records for provider load balancers. Tunnel DNS is user-managed.'']
         (if tunnelled cfg then [] else if pr_kind p = ''aws'' then addAWSDNS cfg (network_name p) else addGoogleDNS cfg (network_name p)),
       tf_document ''podplane.cluster.roles.tf''
         [''Cloud permissions for cluster storage and secrets, including ingress certificates where needed.'']
         (if pr_kind p = ''aws'' then addPodplaneAWSRoles cfg (account_name p) else addPodplaneGooglePermissions cfg (account_name p)),
       tf_document ''podplane.cluster.inputs.runtime.tf''
         [''Runtime configuration inputs. Changes reconfigure agent-managed VMs without replacement.'',
          ''Shared SSH, telemetry, and registry settings also provision nst VMs; changing them rolls those VMs.'',
          ''Static access keys apply only to agent-managed VMs; nst uses its VM role credentials.'']
         (runtime_inputs cfg network),
       tf_document ''podplane.cluster.inputs.vm.tf''
         [''VM infrastructure inputs. Changes reconcile VM counts or trigger rolling VM replacement.'']
         (vm_inputs cfg),
       tf_document ''podplane.cluster.inputs.infra.tf''
         [''Cluster infrastructure inputs. Changes may add, replace, or remove provider resources.'']
         (infra_inputs cfg),
       tf_document ''podplane.cluster.outputs.tf''
         [''Cluster endpoints, DNS setup details, and infrastructure references used by the CLI.'']
         (output_blocks cfg)] @
      map manifest_file rs)"

text \<open>\<open>renderCluster\<close>: \<open>None\<close> is the panic of an invalid version of the build.\<close>

definition renderCluster :: "generator \<Rightarrow> string \<Rightarrow> cluster_config \<Rightarrow> cluster_options \<Rightarrow> service_network \<Rightarrow> tf_file list result option" where
  "renderCluster g configPath cfg opts network =
     map_option (\<lambda>providerVersion.
         bindR (resolve_targets g cfg opts (RequiredVMTargets cfg)) (\<lambda>rs.
           Inr (cluster_files providerVersion configPath cfg opts network rs)))
       (PodplaneProviderVersion (ge_version g))"

definition shared_pool :: "string \<times> load_balancer \<Rightarrow> gerror" where
  "shared_pool nl = (case nl of (nm, lb) \<Rightarrow>
     if list_all (\<lambda>l. li_pool l = li_pool (hd (lb_listeners lb))) (lb_listeners lb) then None
     else Some (Errorf ''load balancer %q listeners must share one pool'' [S nm]))"

definition validateDNSProviders :: "cluster_config \<Rightarrow> gerror" where
  "validateDNSProviders cfg =
     (if tunnelled cfg then None
      else let kind = (if pr_kind (provider0 cfg) = ''google'' then ''google-cloud-dns'' else ''aws-route53'')
        in first_err_idx 0 (\<lambda>i d. case do_provider d of None \<Rightarrow> None
          | Some dp \<Rightarrow> if dp_kind dp \<noteq> kind
              then Some (Errorf ''cluster.domains[%d].provider.kind %q is not supported by Terraform generation'' [I (int i), S (dp_kind dp)])
              else None) (cl_domains (cc_cluster cfg)))"

definition ValidateClusterGeneration :: "parsers \<Rightarrow> cluster_config \<Rightarrow> gerror" where
  "ValidateClusterGeneration pa cfg =
     orelse_err (Validate pa (Some cfg))
    (orelse_err (wrap_err ''cluster.secrets: %w'' [] (ValidateWorkloadCAProvider pa (cl_secrets (cc_cluster cfg))))
    (orelse_err (if length (cl_providers (cc_cluster cfg)) \<noteq> 1 \<or> pr_kind (provider0 cfg) \<notin> {''aws'', ''google''}
        then Some (Errorf ''cluster generation requires exactly one AWS or Google provider'' []) else None)
    (orelse_err (first_err shared_pool (pr_load_balancers (provider0 cfg)))
    (orelse_err (if pr_kind (provider0 cfg) = ''google'' then googleGenerationError cfg else None)
      (validateDNSProviders cfg)))))"

definition GenerateCluster :: "generator \<Rightarrow> string \<Rightarrow> cluster_config \<Rightarrow> cluster_options \<Rightarrow> tf_file list result option" where
  "GenerateCluster g configPath cfg opts =
     (if co_module_dir opts = [] then Some (Inl (Errorf ''nstance module source directory is required'' []))
      else case ValidateClusterGeneration (ge_parsers g) cfg of
        Some e \<Rightarrow> Some (Inl e)
      | None \<Rightarrow>
          (case ServiceNetworkFromCIDRs (ku_service_cidr (cl_kubernetes (cc_cluster cfg))) of
             Inl e \<Rightarrow> Some (Inl e)
           | Inr network \<Rightarrow> renderCluster g configPath cfg opts network))"

end
