(* ===== verification/TfOrder.thy ===== *)
theory TfOrder
  imports TfCluster "HOL-Library.Multiset"
begin

text \<open>
  The order of Go maps in the generation of Terraform files. Everything the generator does with a map of the cluster
  file sorts it first, so every definition of the generator gives the same result on a configuration and on the same
  configuration with its maps in key order, its canonical form; the equations, one per definition, are the collection
  \<open>canon\<close>, and \<open>render_order_independent\<close> composes them.
\<close>

lemma canon_map_idem [simp]: "canon_map (canon_map m) = canon_map m"
  by (rule canon_map_cong) simp

lemma sorted_keys_canon [simp]: "sorted_keys (canon_map m) = sorted_keys m"
  by (rule sorted_keys_unique) (metis keys_canon_map set_map sorted_keys_props(1))

lemma canon_map_eq_Nil [simp]: "canon_map m = [] \<longleftrightarrow> m = []"
  by (cases m) (auto simp: canon_map_def sorted_keys_def simp flip: set_empty)

lemma mset_canon_map [simp]: "gomap_ok m \<Longrightarrow> mset (canon_map m) = mset m"
proof -
  assume "gomap_ok m"
  then have d: "distinct m" "distinct (canon_map m)"
    using gomap_ok_canon_map [of m] unfolding gomap_ok_def by (metis distinct_map)+
  have "set (canon_map m) = set m"
  proof (intro set_eqI)
    fix x :: "'a \<times> 'b"
    obtain k v where [simp]: "x = (k, v)" by force
    show "x \<in> set (canon_map m) \<longleftrightarrow> x \<in> set m"
      using \<open>gomap_ok m\<close> by (simp add: gomap_ok_map_of)
  qed
  with d show ?thesis by (simp add: set_eq_iff_mset_eq_distinct)
qed

text \<open>The configuration with every map that the generator reads in the order of its keys.\<close>

definition canon_provider :: "provider \<Rightarrow> provider" where
  "canon_provider p = p\<lparr>pr_tags := canon_map (pr_tags p), pr_zones := canon_map (pr_zones p),
     pr_load_balancers := canon_map (pr_load_balancers p), pr_roles := canon_map (pr_roles p)\<rparr>"

definition canon_nat :: "nat_config \<Rightarrow> nat_config" where
  "canon_nat n = n\<lparr>na_groups := canon_map (na_groups n), na_tenants := canon_map (na_tenants n)\<rparr>"

definition canon_config :: "cluster_config \<Rightarrow> cluster_config" where
  "canon_config cfg = cfg\<lparr>cc_schema := [], cc_cluster := (cc_cluster cfg)
     \<lparr>cl_pools := canon_map (cl_pools (cc_cluster cfg)),
      cl_providers := map canon_provider (cl_providers (cc_cluster cfg)),
      cl_nat := map_option canon_nat (cl_nat (cc_cluster cfg)),
      cl_secrets := (cl_secrets (cc_cluster cfg))\<lparr>sc_providers := canon_map (sc_providers (cl_secrets (cc_cluster cfg)))\<rparr>\<rparr>\<rparr>"

definition provider_maps_ok :: "provider \<Rightarrow> bool" where
  "provider_maps_ok p \<longleftrightarrow> gomap_ok (pr_tags p) \<and> gomap_ok (pr_zones p) \<and> gomap_ok (pr_load_balancers p)"

definition config_maps_ok :: "cluster_config \<Rightarrow> bool" where
  "config_maps_ok cfg \<longleftrightarrow> cl_providers (cc_cluster cfg) \<noteq> [] \<and>
     gomap_ok (cl_pools (cc_cluster cfg)) \<and> list_all provider_maps_ok (cl_providers (cc_cluster cfg)) \<and>
     (\<forall>n. cl_nat (cc_cluster cfg) = Some n \<longrightarrow> gomap_ok (na_groups n) \<and> gomap_ok (na_tenants n))"

lemma canon_provider_simps [simp]:
  "pr_kind (canon_provider p) = pr_kind p" "pr_region (canon_provider p) = pr_region p"
  "pr_account (canon_provider p) = pr_account p" "pr_profile (canon_provider p) = pr_profile p"
  "pr_project (canon_provider p) = pr_project p" "pr_vpc (canon_provider p) = pr_vpc p"
  "pr_tags (canon_provider p) = canon_map (pr_tags p)" "pr_zones (canon_provider p) = canon_map (pr_zones p)"
  "pr_load_balancers (canon_provider p) = canon_map (pr_load_balancers p)"
  by (simp_all add: canon_provider_def)

lemma canon_nat_simps [simp]:
  "na_mode (canon_nat n) = na_mode n" "na_fixed_count (canon_nat n) = na_fixed_count n"
  "na_groups (canon_nat n) = canon_map (na_groups n)" "na_tenants (canon_nat n) = canon_map (na_tenants n)"
  by (simp_all add: canon_nat_def)

lemma canon_config_simps [simp]:
  "cl_id (cc_cluster (canon_config cfg)) = cl_id (cc_cluster cfg)"
  "cl_oidc (cc_cluster (canon_config cfg)) = cl_oidc (cc_cluster cfg)"
  "cl_acme (cc_cluster (canon_config cfg)) = cl_acme (cc_cluster cfg)"
  "cl_domains (cc_cluster (canon_config cfg)) = cl_domains (cc_cluster cfg)"
  "cl_tunnel (cc_cluster (canon_config cfg)) = cl_tunnel (cc_cluster cfg)"
  "cl_registry (cc_cluster (canon_config cfg)) = cl_registry (cc_cluster cfg)"
  "cl_spiffe (cc_cluster (canon_config cfg)) = cl_spiffe (cc_cluster cfg)"
  "cl_kubernetes (cc_cluster (canon_config cfg)) = cl_kubernetes (cc_cluster cfg)"
  "cl_seed (cc_cluster (canon_config cfg)) = cl_seed (cc_cluster cfg)"
  "cl_pools (cc_cluster (canon_config cfg)) = canon_map (cl_pools (cc_cluster cfg))"
  "cl_providers (cc_cluster (canon_config cfg)) = map canon_provider (cl_providers (cc_cluster cfg))"
  "cl_nat (cc_cluster (canon_config cfg)) = map_option canon_nat (cl_nat (cc_cluster cfg))"
  "sc_default (cl_secrets (cc_cluster (canon_config cfg))) = sc_default (cl_secrets (cc_cluster cfg))"
  "sc_providers (cl_secrets (cc_cluster (canon_config cfg))) = canon_map (sc_providers (cl_secrets (cc_cluster cfg)))"
  by (simp_all add: canon_config_def)

lemma provider0_canon [simp]: "config_maps_ok cfg \<Longrightarrow> provider0 (canon_config cfg) = canon_provider (provider0 cfg)"
  by (simp add: provider0_def config_maps_ok_def hd_map)

lemma provider0_ok: "config_maps_ok cfg \<Longrightarrow> provider_maps_ok (provider0 cfg)"
  by (cases "cl_providers (cc_cluster cfg)") (auto simp: provider0_def config_maps_ok_def)

lemma flags_canon [simp]:
  "seeded (canon_config cfg) = seeded cfg" "tunnelled (canon_config cfg) = tunnelled cfg"
  "nstance_nat (canon_config cfg) = map_option canon_nat (nstance_nat cfg)"
  "nat_groups (canon_config cfg) = nat_groups cfg"
  by (auto simp: seeded_def tunnelled_def nstance_nat_def nat_groups_def split: option.splits)

lemma sort_mset_cong: "mset xs = mset ys \<Longrightarrow> sort xs = sort ys"
  by (rule properties_for_sort) simp_all

lemma serverArch_canon [simp]: "serverArch (canon_provider p) = serverArch p"
  by (simp add: serverArch_def)

lemma sort_remdups_cong: "set xs = set ys \<Longrightarrow> sort (remdups xs) = sort (remdups (ys :: 'a::linorder list))"
  by (simp add: sorted_list_of_set_sort_remdups [symmetric])


named_theorems canon \<open>what the generator makes of a configuration in canonical order\<close>

section \<open>The generated values do not depend on the order of maps\<close>

lemma mset_concat: "mset (concat xss) = sum_mset (image_mset mset (mset xss))"
  by (induction xss) simp_all

lemma mset_map_canon: "gomap_ok m \<Longrightarrow> mset (map f (canon_map m)) = mset (map f m)"
  by simp

lemma mset_concat_canon: "gomap_ok m \<Longrightarrow> mset (concat (map f (canon_map m))) = mset (concat (map f m))"
  by (simp add: mset_concat)

lemma set_canon_map [simp]: "gomap_ok m \<Longrightarrow> set (canon_map m) = set m"
  using mset_canon_map mset_eq_setD by blast

lemma go_lookup_canon [simp]: "go_lookup zero (canon_map m) = go_lookup zero m"
  by (rule ext) (simp add: go_lookup_def)

lemma mset_node_subnets: "gomap_ok (pr_zones p) \<Longrightarrow> mset (node_subnets (canon_provider p)) = mset (node_subnets p)"
  unfolding node_subnets_def mset_filter by (simp add: mset_concat)

lemma node_subnet_values:
  assumes "gomap_ok (pr_zones p)"
  shows "existing_ids (canon_provider p) = existing_ids p" "source_cidrs (canon_provider p) = source_cidrs p"
    "list_all f (node_subnets (canon_provider p)) = list_all f (node_subnets p)"
proof -
  note m = mset_node_subnets [OF assms]
  show "existing_ids (canon_provider p) = existing_ids p"
    unfolding existing_ids_def by (rule arg_cong [of _ _ remdups_adj], rule sort_mset_cong) (simp add: m)
  show "source_cidrs (canon_provider p) = source_cidrs p"
    unfolding source_cidrs_def by (rule arg_cong [of _ _ remdups_adj], rule sort_mset_cong) (simp add: m)
  show "list_all f (node_subnets (canon_provider p)) = list_all f (node_subnets p)"
    using mset_eq_setD [OF m] by (simp add: list_all_iff)
qed

lemma nat_sources_canon:
  assumes "gomap_ok (pr_zones p)"
  shows "natSourceCIDRs (canon_provider p) = natSourceCIDRs p" "addNATSubnetLookups (canon_provider p) = addNATSubnetLookups p"
  by (simp_all add: natSourceCIDRs_def addNATSubnetLookups_def node_subnet_values [OF assms])

lemma set_nat_targets: "config_maps_ok cfg \<Longrightarrow> set (nat_targets (canon_config cfg)) = set (nat_targets cfg)"
  by (auto simp: nat_targets_def config_maps_ok_def nstance_nat_def split: option.splits if_splits)

lemma targets_canon [canon]: "config_maps_ok cfg \<Longrightarrow> RequiredVMTargets (canon_config cfg) = RequiredVMTargets cfg"
  unfolding RequiredVMTargets_def
  by (rule arg_cong [of _ _ "map _"], rule sort_remdups_cong) (simp add: set_nat_targets image_Un, simp add: config_maps_ok_def)

lemma activityPorts_canon [canon]: "config_maps_ok cfg \<Longrightarrow> activityPorts (canon_config cfg) pool = activityPorts cfg pool"
proof -
  assume ok: "config_maps_ok cfg"
  then have "gomap_ok (pr_load_balancers (provider0 cfg))" using provider0_ok by (simp add: provider_maps_ok_def)
  then have "mset (activity_port_list (canon_config cfg) pool) = mset (activity_port_list cfg pool)"
    using ok by (simp add: activity_port_list_def mset_concat)
  then have "sort (activity_port_list (canon_config cfg) pool) = sort (activity_port_list cfg pool)" by (rule sort_mset_cong)
  then show ?thesis by (simp only: activityPorts_def)
qed

lemma lbs_by_pool_canon: "gomap_ok (pr_load_balancers p) \<Longrightarrow> lbs_by_pool (canon_config cfg) (canon_provider p) nm = lbs_by_pool cfg p nm"
  unfolding lbs_by_pool_def flags_canon by (simp, intro impI sort_mset_cong) simp


lemma nat_role_canon [simp]: "nat_role (canon_provider p) = nat_role p"
  by (rule ext) (simp add: nat_role_def)

lemma subnet_entries_canon [simp]: "subnet_entries (canon_provider p) = subnet_entries p"
  by (simp add: subnet_entries_def zone_subnets_def)

lemma subnetsValue_canon [simp]: "subnetsValue (canon_provider p) = subnetsValue p"
  by (simp add: subnetsValue_def role_value_def [abs_def])

lemma loadBalancersValue_canon [simp]: "loadBalancersValue (canon_provider p) = loadBalancersValue p"
  by (simp add: loadBalancersValue_def load_balancer_value_def [abs_def])

lemma provider_values_canon [simp]:
  "storage_kind (canon_provider p) = storage_kind p" "instance_type_key (canon_provider p) = instance_type_key p"
  "nstanceShardsValue (canon_provider p) = nstanceShardsValue p" "addTunnelCAFiles (canon_provider p) = addTunnelCAFiles p"
  "stringMapValue (canon_map m) = stringMapValue m" "key_backend (canon_provider p) = key_backend p"
  "cloudSigningKey t (canon_provider p) pre = cloudSigningKey t p pre" "storage_type (canon_provider p) = storage_type p"
  "account_name (canon_provider p) = account_name p" "network_name (canon_provider p) = network_name p"
  "natValue (canon_nat n) zone nw = natValue n zone nw" "userdata_zones (canon_provider p) tgt = userdata_zones p tgt"
  by (simp_all add: storage_kind_def instance_type_key_def nstanceShardsValue_def addTunnelCAFiles_def stringMapValue_def
      key_backend_def cloudSigningKey_def storage_type_def account_name_def network_name_def natValue_def userdata_zones_def)

lemma provider_blocks_canon [simp]: "provider_blocks (canon_provider p) = provider_blocks p"
  by (simp add: provider_blocks_def)


section \<open>The documents\<close>

lemma config_values_canon [canon]:
  assumes "config_maps_ok cfg"
  shows "serverEnvValue (canon_config cfg) zone = serverEnvValue cfg zone"
    "endpointTarget (canon_config cfg) nw lb = endpointTarget cfg nw lb"
    "tunnelConfig (canon_config cfg) t wake = tunnelConfig cfg t wake"
    "default_secrets (canon_config cfg) = default_secrets cfg"
    "secret_prefix (canon_config cfg) = secret_prefix cfg"
    "managedAPIDomain (canon_config cfg) = managedAPIDomain cfg"
    "apiRecordCoveredByDomain (canon_config cfg) = apiRecordCoveredByDomain cfg"
    "route53ACMEEnabled (canon_config cfg) = route53ACMEEnabled cfg"
    "ResolvedAPIPort (canon_config cfg) = ResolvedAPIPort cfg" "ResolvedRegistryHostname (canon_config cfg) = ResolvedRegistryHostname cfg"
    "ResolvedClientID (canon_config cfg) = ResolvedClientID cfg" "ResolvedUsernameClaim (canon_config cfg) = ResolvedUsernameClaim cfg"
    "ResolvedGroupsClaim (canon_config cfg) = ResolvedGroupsClaim cfg"
  using assms
  by (simp_all add: serverEnvValue_def endpointTarget_def tunnelConfig_def default_secrets_def secret_prefix_def
      managedAPIDomain_def apiRecordCoveredByDomain_def route53ACMEEnabled_def ResolvedAPIPort_def ResolvedRegistryHostname_def
      ResolvedClientID_def ResolvedUsernameClaim_def ResolvedGroupsClaim_def UsesPublicAPIRoots_def DefaultDomain_def Let_def)


lemma config_provider_ok [canon]:
  assumes "config_maps_ok cfg"
  shows "gomap_ok (pr_zones (provider0 cfg))" "gomap_ok (pr_load_balancers (provider0 cfg))" "gomap_ok (pr_tags (provider0 cfg))"
    "gomap_ok (cl_pools (cc_cluster cfg))" "provider0 (canon_config cfg) = canon_provider (provider0 cfg)"
  using assms provider0_ok [OF assms] by (simp_all add: provider_maps_ok_def config_maps_ok_def)

lemmas values_canon [canon] = nat_sources_canon lbs_by_pool_canon

lemma groupsValue_canon [canon]:
  "config_maps_ok cfg \<Longrightarrow> groupsValue (canon_config cfg) (canon_provider (provider0 cfg)) = groupsValue cfg (provider0 cfg)"
  by (simp add: groupsValue_def group_fields_def pool_group_def [abs_def] nat_group_value_def [abs_def] canon cong: map_cong)

lemma files_canon [canon]:
  assumes "config_maps_ok cfg"
  shows "nstanceTemplateFilesValue kind (canon_config cfg) img = nstanceTemplateFilesValue kind cfg img"
    "nodeTunnelFiles (canon_config cfg) t img = nodeTunnelFiles cfg t img"
    "wakeTunnelsValue (canon_config cfg) t img = wakeTunnelsValue cfg t img"
    "certificate_fields (canon_config cfg) ips = certificate_fields cfg ips"
    "nst_image (canon_config cfg) images = nst_image cfg images"
  using assms
  by (simp_all add: nstanceTemplateFilesValue_def nodeTunnelFiles_def wakeTunnelsValue_def certificate_fields_def nst_image_def canon
      split: option.splits)

lemma templatesValue_canon [canon]: "config_maps_ok cfg \<Longrightarrow> templatesValue (canon_config cfg) images = templatesValue cfg images"
  by (simp add: templatesValue_def template_fields_def pool_template_def [abs_def] nat_template_def [abs_def] canon)

lemma main_parts_canon [canon]:
  assumes "config_maps_ok cfg"
  shows "userdata_block (canon_config cfg) = userdata_block cfg"
    "main_locals (canon_config cfg) network images = main_locals cfg network images"
    "infrastructure_modules (canon_config cfg) opts = infrastructure_modules cfg opts"
    "deployment_modes (canon_config cfg) = deployment_modes cfg"
  using assms
  by (simp_all add: fun_eq_iff userdata_block_def main_locals_def infrastructure_modules_def deployment_modes_def
      exposure_mode_def nstanceCertificatesValue_def canon Let_def)

lemma shard_block_canon [canon]:
  assumes "config_maps_ok cfg"
  shows "shard_block (canon_config cfg) = shard_block cfg"
  unfolding shard_block_def fun_eq_iff using assms
  by (cases "nstance_nat cfg"; cases "cl_tunnel (cc_cluster cfg)") (simp_all add: canon Let_def)

lemma seed_parts_canon [canon]:
  assumes "config_maps_ok cfg"
  shows "seedValues (canon_config cfg) (canon_provider p) = seedValues cfg p"
    "seed_dependencies (canon_config cfg) (canon_provider p) = seed_dependencies cfg p"
    "addWorkloadCAKey (canon_config cfg) (canon_provider p) = addWorkloadCAKey cfg p"
    "nstance_key (canon_provider p) pre = nstance_key p pre" "nstance_bootstrap (canon_provider p) pre = nstance_bootstrap p pre"
  using assms
  by (simp_all add: seedValues_def seed_components_def shard_addresses_def seed_dependencies_def addWorkloadCAKey_def
      manages_workload_key_def secrets_prefix_def nstance_key_def nstance_bootstrap_def canon Let_def)

lemma seed_blocks_canon [canon]:
  "config_maps_ok cfg \<Longrightarrow> seed_blocks path (canon_config cfg) (canon_provider p) = seed_blocks path cfg p"
  by (simp add: seed_blocks_def seed_block_def canon Let_def)

lemma main_blocks_canon [canon]:
  assumes "config_maps_ok cfg"
  shows "main_blocks version path (canon_config cfg) opts network rs = main_blocks version path cfg opts network rs"
  unfolding main_blocks_def using assms by (cases "nstance_nat cfg") (simp_all add: userdata_blocks_def canon Let_def)

lemma api_record_canon [canon]: "config_maps_ok cfg \<Longrightarrow> api_record (canon_config cfg) = api_record cfg"
  by (simp add: api_record_def canon cong: option.case_cong)

lemma documents_canon [canon]:
  assumes "config_maps_ok cfg"
  shows "runtime_inputs (canon_config cfg) network = runtime_inputs cfg network"
    "vm_inputs (canon_config cfg) = vm_inputs cfg"
    "output_blocks (canon_config cfg) = output_blocks cfg"
    "addAWSDNS (canon_config cfg) nw = addAWSDNS cfg nw"
    "addGoogleDNS (canon_config cfg) nw = addGoogleDNS cfg nw"
    "addPodplaneAWSRoles (canon_config cfg) acc = addPodplaneAWSRoles cfg acc"
    "addPodplaneGooglePermissions (canon_config cfg) acc = addPodplaneGooglePermissions cfg acc"
  using assms
  by (simp_all add: runtime_inputs_def runtime_variables_def vm_inputs_def pool_instance_types_def pool_sizes_def output_blocks_def
      domainTargetsValue_def manualDNSRecordsValue_def manual_records_def addAWSDNS_def managedDNSZonesValue_def
      managedDNSRecordsValue_def addGoogleDNS_def google_domains_def google_records_def
      addPodplaneAWSRoles_def addPodplaneKNCPolicy_def workload_role_arns_def workload_key_policy_def secrets_prefix_def
      addPodplaneGooglePermissions_def addGoogleSecretsPermissions_def google_secrets_providers_def canon Let_def cong: if_cong option.case_cong)

lemma infra_inputs_canon [canon]: "config_maps_ok cfg \<Longrightarrow> infra_inputs (canon_config cfg) = infra_inputs cfg"
  unfolding infra_inputs_def by (cases "nstance_nat cfg") (simp_all add: placement_def nat_mode_def fixed_addresses_def canon Let_def)

lemma resolve_targets_canon [canon]: "resolve_targets g (canon_config cfg) opts ts = resolve_targets g cfg opts ts"
  by (induction ts) (simp_all add: needs_tunnel_image_def tunnel_kind_def cong: option.case_cong if_cong)

lemma cluster_files_canon:
  "config_maps_ok cfg \<Longrightarrow> cluster_files version path (canon_config cfg) opts network rs = cluster_files version path cfg opts network rs"
  by (simp add: cluster_files_def canon Let_def)

lemma render_order_independent:
  assumes "config_maps_ok cfg" "config_maps_ok cfg'" "canon_config cfg = canon_config cfg'"
  shows "renderCluster g path cfg opts network = renderCluster g path cfg' opts network"
proof -
  have "renderCluster g path (canon_config c) opts network = renderCluster g path c opts network" if "config_maps_ok c" for c
    using that by (simp add: renderCluster_def canon cluster_files_canon)
  with assms show ?thesis by metis
qed

end
