(* ===== verification/TfFacts.thy ===== *)
theory TfFacts
  imports TfOrder ClusterProps
begin

text \<open>
  Facts about the generated Terraform files: which virtual machines a configuration needs and when their manifests
  resolve, that the references between the generated blocks and objects resolve, how subnets are numbered, and that
  two configurations with the same content have the same canonical form.
\<close>

section \<open>Targets\<close>

text \<open>\<open>safeName\<close> of a last part that is empty.\<close>

lemma go_trim_last: "go_trim cs (s @ [c]) = go_trim cs s" if "c \<in> set cs"
  using that
  by (cases "\<forall>x \<in> set s. x \<in> set cs") (auto simp: go_trim_def trim_right_def trim_left_def dropWhile_append1 dest: set_dropWhileD)

lemma safeName_empty_last: "safeName [k, a, []] = safeName [k, a]"
proof -
  have "safe_char (CHR ''_'') = CHR ''_''" by code_simp
  then have "map safe_char (go_join CHR ''_'' [k, a, []]) = map safe_char (go_join CHR ''_'' [k, a]) @ [CHR ''_'']" by simp
  then show ?thesis by (simp only: safeName_def go_trim_last [of "CHR ''_''" "''_''"] list.set insertI1)
qed

lemma bindR_ok: "bindR r f = Inr y \<longleftrightarrow> (\<exists>x. r = Inr x \<and> f x = Inr y)"
  by (cases r) (simp_all add: bindR_def)

definition target_ready :: "generator \<Rightarrow> cluster_config \<Rightarrow> cluster_options \<Rightarrow> vm_target \<Rightarrow> bool" where
  "target_ready g cfg opts t \<longleftrightarrow> (case find_manifest opts t of None \<Rightarrow> False | Some m \<Rightarrow> vm_json m \<noteq> [] \<and>
     (needs_tunnel_image cfg t \<longrightarrow> (case tunnelImage g (tunnel_kind cfg) m of Inl _ \<Rightarrow> False | Inr _ \<Rightarrow> True)))"

lemma inr_case: "(case r of Inl _ \<Rightarrow> False | Inr _ \<Rightarrow> True) \<longleftrightarrow> (\<exists>i. r = Inr i)"
  by (cases r) simp_all

lemma resolve_targets_iff: "(\<exists>rs. resolve_targets g cfg opts ts = Inr rs) \<longleftrightarrow> (\<forall>t \<in> set ts. target_ready g cfg opts t)"
proof (induction ts)
  case (Cons t ts)
  show ?case
  proof (cases "find_manifest opts t")
    case None
    then show ?thesis by (auto simp: target_ready_def)
  next
    case (Some m)
    then show ?thesis using Cons.IH by (auto simp: target_ready_def bindR_ok inr_case)
  qed
qed simp

lemma resolved_targets: "resolve_targets g cfg opts ts = Inr rs \<Longrightarrow> map fst rs = ts \<and>
    (\<forall>(t, m, i) \<in> set rs. find_manifest opts t = Some m \<and> vm_json m \<noteq> [])"
  by (induction ts arbitrary: rs) (auto simp: bindR_ok split: option.splits if_splits)

lemma target_eta [simp]: "\<lparr>vt_kind = vt_kind t, vt_arch = vt_arch t\<rparr> = (t :: vm_target)"
  by simp

lemma target_image: "(\<lambda>(k, a). \<lparr>vt_kind = k, vt_arch = a\<rparr>) ` ((\<lambda>t. (vt_kind t, vt_arch t)) ` T) = (T :: vm_target set)"
  unfolding image_image prod.case target_eta by (rule image_ident)

lemma set_targets:
  "set (RequiredVMTargets cfg) =
    (\<lambda>(nm, p). \<lparr>vt_kind = poolKind nm, vt_arch = po_arch p\<rparr>) ` set (cl_pools (cc_cluster cfg)) \<union>
    {\<lparr>vt_kind = ''nst'', vt_arch = serverArch (provider0 cfg)\<rparr>} \<union> set (nat_targets cfg)"
  unfolding RequiredVMTargets_def set_map set_sort set_remdups target_image by auto

lemma targets_sorted: "sorted_wrt (<) (map (\<lambda>t. (vt_kind t, vt_arch t)) (RequiredVMTargets cfg))"
  by (simp add: RequiredVMTargets_def comp_def split_def strict_sorted_iff)



section \<open>References\<close>

text \<open>The value of an attribute of a block, and of a field inside a value.\<close>

definition attr_of :: "string \<Rightarrow> hcl_block \<Rightarrow> hcl_value option" where
  "attr_of nm b = map_of (concat (map (\<lambda>i. case i of Inl a \<Rightarrow> [a] | Inr _ \<Rightarrow> []) (hb_items b))) nm"

fun value_field :: "string list \<Rightarrow> hcl_value \<Rightarrow> hcl_value option" where
  "value_field [] v = Some v"
| "value_field (k # ks) (HclObject fs) = Option.bind (map_of fs k) (\<lambda>(_, v). value_field ks v)"
| "value_field (k # ks) (HclInlineObject fs) = Option.bind (map_of fs k) (\<lambda>(_, v). value_field ks v)"
| "value_field (k # ks) _ = None"

definition userdata_names :: "hcl_block list \<Rightarrow> string set" where
  "userdata_names bs = {d. \<exists>b \<in> set bs. hb_type b = ''data'' \<and> hb_labels b = [''podplane_userdata'', d]}"

lemma attr_of_block: "attr_of nm (block t ls items) = map_of (concat (map (\<lambda>i. case i of Inl a \<Rightarrow> [a] | Inr _ \<Rightarrow> []) items)) nm"
  by (simp add: attr_of_def block_def)

lemma userdata_in_main:
  assumes "resolve_targets g cfg opts (RequiredVMTargets cfg) = Inr rs" "t \<in> set (RequiredVMTargets cfg)" "zone \<in> set (userdata_zones (provider0 cfg) t)"
  shows "safeName [vt_kind t, vt_arch t, zone] \<in> userdata_names (main_blocks version path cfg opts network rs)"
proof -
  from resolved_targets [OF assms(1)] assms(2) have "t \<in> fst ` set rs" by (metis set_map)
  then obtain m i where "(t, m, i) \<in> set rs" by force
  then have "userdata_block cfg opts m t zone \<in> set (userdata_blocks cfg opts rs)"
    using assms(3) by (force simp: userdata_blocks_def)
  then have "userdata_block cfg opts m t zone \<in> set (main_blocks version path cfg opts network rs)"
    by (simp add: main_blocks_def Let_def)
  moreover have "hb_type (userdata_block cfg opts m t zone) = ''data''"
    "hb_labels (userdata_block cfg opts m t zone) = [''podplane_userdata'', safeName [vt_kind t, vt_arch t, zone]]"
    by (simp_all add: userdata_block_def block_def Let_def)
  ultimately show ?thesis unfolding userdata_names_def by blast
qed

lemma userdata_of_target:
  assumes "resolve_targets g cfg opts (RequiredVMTargets cfg) = Inr rs" "t \<in> set (RequiredVMTargets cfg)" "vt_kind t \<noteq> ''nst''"
  shows "dataName t \<in> userdata_names (main_blocks version path cfg opts network rs)"
  using userdata_in_main [OF assms(1,2), of "[]"] assms(3) by (simp add: userdata_zones_def dataName_def safeName_empty_last)

lemma canon_map_in: "(k :: string, v) \<in> set (canon_map m) \<Longrightarrow> (k, v) \<in> set m"
  using gomap_ok_map_of [OF gomap_ok_canon_map, of k v m] by (auto dest: map_of_SomeD)

lemma Certificates_names: "map ce_name (Certificates i h ips domains) =
    [''front-proxy.client'', ''kube-apiserver.client'', ''kube-apiserver.server'', ''kube-controller-manager.client'',
     ''kube-scheduler.client'', ''kube2iam.client'', ''kubelet.client'', ''kubelet.server'', ''netsy.client'', ''netsy.server''] @
    (if domains \<noteq> [] then [''ingress.server''] else [])"
  by (simp add: Certificates_def clientCertificate_def clientCertificateWithCN_def serverCertificate_def netsyCertificate_def)

lemma certificate_files_exist:
  assumes "ingress \<Longrightarrow> domains \<noteq> []"
  shows "set (CertificateFiles kind ingress) \<subseteq> set (map ce_name (Certificates i h ips domains))"
  unfolding Certificates_names CertificateFiles_def using assms by (cases ingress) auto


lemma shard_userdata:
  fixes version path network
  assumes "resolve_targets g cfg opts (RequiredVMTargets cfg) = Inr rs" "zone \<in> fst ` set (pr_zones (provider0 cfg))"
  defines "bs \<equiv> main_blocks version path cfg opts network rs"
  shows "\<exists>b \<in> set bs. hb_type b = ''module'' \<and> hb_labels b = [shard_module zone] \<and>
    (\<exists>d \<in> userdata_names bs. attr_of ''server_userdata'' b = Some (expr (''data.podplane_userdata.'' @ d @ ''.content'')))"
proof (intro bexI conjI)
  let ?t = "\<lparr>vt_kind = ''nst'', vt_arch = serverArch (provider0 cfg)\<rparr>" and ?b = "shard_block cfg opts (tunnel_images rs) zone"
  show "safeName [''nst'', serverArch (provider0 cfg), zone] \<in> userdata_names bs"
    using userdata_in_main [OF assms(1), of ?t zone version path network] assms(2) by (simp add: bs_def set_targets userdata_zones_def)
  show "?b \<in> set bs" using assms(2) by (simp add: bs_def main_blocks_def Let_def)
  show "hb_type ?b = ''module''" "hb_labels ?b = [shard_module zone]" by (simp_all add: shard_block_def block_def Let_def)
  show "attr_of ''server_userdata'' ?b = Some (expr (''data.podplane_userdata.'' @ safeName [''nst'', serverArch (provider0 cfg), zone] @ ''.content''))"
    by (simp add: shard_block_def attr_of_block attr_def addNstanceModuleSource_def Let_def)
qed

lemma template_userdata:
  assumes "resolve_targets g cfg opts (RequiredVMTargets cfg) = Inr rs" "f \<in> set (template_fields cfg images)"
  shows "\<exists>d \<in> userdata_names (main_blocks version path cfg opts network rs).
    value_field [''userdata'', ''content''] (snd (snd f)) = Some (expr (''base64encode(data.podplane_userdata.'' @ d @ ''.content)''))"
proof -
  from assms(2) consider nm p where "(nm, p) \<in> set (cl_pools (cc_cluster cfg))" "f = pool_template cfg images (nm, p)"
    | nm grp where "(nm, grp) \<in> set (nat_groups cfg)" "f = nat_template cfg (nm, grp)"
    by (auto simp: template_fields_def dest: canon_map_in)
  then show ?thesis
  proof cases
    case 1
    let ?t = "\<lparr>vt_kind = poolKind nm, vt_arch = po_arch p\<rparr>"
    have "?t \<in> set (RequiredVMTargets cfg)" "vt_kind ?t \<noteq> ''nst''" using 1(1) by (force simp: set_targets, simp add: poolKind_def)
    from userdata_of_target [OF assms(1) this] 1(2) show ?thesis
      by (intro bexI [of _ "dataName ?t"])
        (simp add: pool_template_def field_def identField_def userdata_value_def Let_def)
  next
    case 2
    let ?t = "\<lparr>vt_kind = ''nat'', vt_arch = ng_arch grp\<rparr>"
    have "(nm, grp) \<in> set (case nstance_nat cfg of None \<Rightarrow> [] | Some n \<Rightarrow> na_groups n)"
      using 2(1) by (auto simp: nat_groups_def dest: canon_map_in split: option.splits)
    then have "?t \<in> set (RequiredVMTargets cfg)" "vt_kind ?t \<noteq> ''nst''"
      by (force simp: set_targets nat_targets_def split: option.splits, simp)
    from userdata_of_target [OF assms(1) this] 2(2) show ?thesis
      by (intro bexI [of _ "dataName ?t"]) (simp add: nat_template_def field_def identField_def userdata_value_def)
  qed
qed

lemma group_template:
  assumes "f \<in> set (group_fields cfg p)"
  shows "\<exists>t. value_field [''template''] (snd (snd f)) = Some (str t) \<and> t \<in> fst ` set (template_fields cfg images)"
proof -
  from assms consider nm where "nm \<in> set (sorted_keys (cl_pools (cc_cluster cfg)))" "f = pool_group cfg p nm"
    | nm grp where "(nm, grp) \<in> set (nat_groups cfg)" "f = nat_group_value p (nm, grp)"
    by (auto simp: group_fields_def)
  then show ?thesis
  proof cases
    case 1
    have "fst (pool_template cfg images (k, q)) = k" for k q by (simp add: pool_template_def field_def Let_def)
    then have "map fst (map (pool_template cfg images) (canon_map (cl_pools (cc_cluster cfg)))) = sorted_keys (cl_pools (cc_cluster cfg))"
      by (auto simp flip: keys_canon_map)
    then have "nm \<in> fst ` set (template_fields cfg images)" using 1(1)
      unfolding template_fields_def set_append image_Un set_map [symmetric] by simp
    then show ?thesis using 1(2) by (simp add: pool_group_def field_def identField_def)
  next
    case 2
    have "nat_template cfg (nm, grp) \<in> set (template_fields cfg images)" using 2(1) by (simp add: template_fields_def)
    moreover have "fst (nat_template cfg (nm, grp)) = nm" by (simp add: nat_template_def field_def)
    ultimately have "nm \<in> fst ` set (template_fields cfg images)" by force
    then show ?thesis using 2(2) by (simp add: nat_group_value_def field_def identField_def)
  qed
qed

lemma certificate_template:
  assumes "nstanceTemplateFilesValue kind cfg img = HclInlineObject fs" "f \<in> set fs"
    "value_field [''kind''] (snd (snd f)) = Some (str ''certificate'')"
  shows "\<exists>t. value_field [''template''] (snd (snd f)) = Some (str t) \<and> t \<in> fst ` set (certificate_fields cfg ips)"
proof -
  let ?ingress = "tunnelled cfg \<and> cl_domains (cc_cluster cfg) \<noteq> []"
  from assms obtain nm where nm: "nm \<in> set (CertificateFiles kind ?ingress)" "f = certificate_file nm"
    by (auto simp: nstanceTemplateFilesValue_def nodeTunnelFiles_def cond_def field_def identField_def split: option.splits if_splits)
  have "fst (certificate_value c) = ce_name c" for c by (simp add: certificate_value_def field_def)
  then have "fst ` set (certificate_fields cfg ips) = set (map ce_name (Certificates
      ''{{ .Cluster.ID }}'' [] ips (if tunnelled cfg then map do_zone (cl_domains (cc_cluster cfg)) else [])))"
    by (simp add: certificate_fields_def image_image)
  moreover have "nm \<in> \<dots>" using nm(1) certificate_files_exist [of ?ingress "if tunnelled cfg then map do_zone (cl_domains (cc_cluster cfg)) else []" kind] by fastforce
  ultimately show ?thesis using nm(2) by (simp add: certificate_file_def field_def identField_def)
qed


section \<open>Automatic IPv6 ranges\<close>

lemma number_subnets_pairs: "map (\<lambda>(z, s, _). (z, s)) (number_subnets k zs) = zs"
  by (induction k zs rule: number_subnets.induct) auto

lemma number_subnets_auto:
  "map (\<lambda>(_, _, n). n) (filter (\<lambda>(_, s, _). su_v6cidr s = ''auto'') (number_subnets k zs)) =
    map (\<lambda>i. k + int i) [0..<length (filter (\<lambda>(_, s). su_v6cidr s = ''auto'') zs)]"
proof (induction k zs rule: number_subnets.induct)
  case (2 k zone s zs)
  have "[0..<Suc m] = 0 # map Suc [0..<m]" for m by (simp add: map_Suc_upt upt_conv_Cons)
  with 2 show ?case by (auto simp del: upt_Suc)
qed simp

lemma netnum_value:
  "value_field [''ipv6_netnum''] (subnetValue s n r) = (if su_v6cidr s = ''auto'' then Some (number n) else None)"
  by (auto simp: subnetValue_def identField_def cond_def)

section \<open>The same configuration\<close>

lemma same_map_canon: "same_map m m' \<Longrightarrow> canon_map m' = canon_map m"
  by (rule canon_map_cong) (rule same_map_facts)

lemma same_provider_canon: "same_provider p q \<Longrightarrow> canon_provider q = canon_provider p"
  by (auto simp: same_provider_def canon_provider_def dest!: same_map_canon)

lemma same_config_canon:
  assumes "same_cluster (cc_cluster c) (cc_cluster c')"
  shows "canon_config c' = canon_config c"
proof -
  obtain pools ps sec n where c': "cc_cluster c' = (cc_cluster c)\<lparr>cl_pools := pools, cl_providers := ps, cl_secrets := sec, cl_nat := n\<rparr>"
    and pools: "same_map (cl_pools (cc_cluster c)) pools" and ps: "list_all2 same_provider (cl_providers (cc_cluster c)) ps"
    and sec: "same_secrets (cl_secrets (cc_cluster c)) sec" and n: "rel_option same_nat (cl_nat (cc_cluster c)) n"
    using assms by (auto simp: same_cluster_def)
  have "map canon_provider ps = map canon_provider (cl_providers (cc_cluster c))"
    using ps by (induction rule: list_all2_induct) (simp_all add: same_provider_canon)
  moreover have "sec\<lparr>sc_providers := canon_map (sc_providers sec)\<rparr> =
      (cl_secrets (cc_cluster c))\<lparr>sc_providers := canon_map (sc_providers (cl_secrets (cc_cluster c)))\<rparr>"
    using sec by (auto simp: same_secrets_def dest!: same_map_canon)
  moreover have "map_option canon_nat n = map_option canon_nat (cl_nat (cc_cluster c))"
    using n by (cases n; cases "cl_nat (cc_cluster c)") (auto simp: same_nat_def canon_nat_def dest!: same_map_canon)
  ultimately show ?thesis using same_map_canon [OF pools] by (simp add: canon_config_def c')
qed


lemma same_config_facts:
  assumes "same_cluster (cc_cluster c) (cc_cluster c')" "cl_providers (cc_cluster c) \<noteq> []"
  shows "same_provider (provider0 c) (provider0 c')" "length (cl_providers (cc_cluster c')) = length (cl_providers (cc_cluster c))"
    "tunnelled c' = tunnelled c" "cl_domains (cc_cluster c') = cl_domains (cc_cluster c)" "cl_kubernetes (cc_cluster c') = cl_kubernetes (cc_cluster c)"
    "same_secrets (cl_secrets (cc_cluster c)) (cl_secrets (cc_cluster c'))"
proof -
  have ps: "list_all2 same_provider (cl_providers (cc_cluster c)) (cl_providers (cc_cluster c'))"
    using assms(1) by (auto simp: same_cluster_def)
  then show "length (cl_providers (cc_cluster c')) = length (cl_providers (cc_cluster c))" by (simp add: list_all2_lengthD)
  show "same_provider (provider0 c) (provider0 c')" using ps assms(2) by (cases "cl_providers (cc_cluster c)") (auto simp: provider0_def list_all2_Cons1)
  show "tunnelled c' = tunnelled c" "cl_domains (cc_cluster c') = cl_domains (cc_cluster c)" "cl_kubernetes (cc_cluster c') = cl_kubernetes (cc_cluster c)"
    "same_secrets (cl_secrets (cc_cluster c)) (cl_secrets (cc_cluster c'))"
    using assms(1) by (auto simp: same_cluster_def tunnelled_def)
qed

lemma same_provider_facts:
  assumes "same_provider p q"
  shows "pr_kind q = pr_kind p" "pr_tags q = pr_tags p" "set (pr_load_balancers q) = set (pr_load_balancers p)"
    "gomap_ok (pr_zones p)" "gomap_ok (pr_zones q)" "gomap_ok (pr_load_balancers p)" "gomap_ok (pr_load_balancers q)"
  using assms by (auto simp: same_provider_def same_map_def)

lemma same_secrets_facts: "same_secrets s s' \<Longrightarrow> sc_default s' = sc_default s \<and> map_of (sc_providers s') = map_of (sc_providers s)"
  by (auto simp: same_secrets_def same_map_facts(2))

lemma same_config_ok:
  assumes "same_cluster (cc_cluster c) (cc_cluster c')" "cl_providers (cc_cluster c) \<noteq> []" "\<forall>p \<in> set (cl_providers (cc_cluster c)). gomap_ok (pr_tags p)"
  shows "config_maps_ok c" "config_maps_ok c'"
proof -
  from assms(1) have pools: "gomap_ok (cl_pools (cc_cluster c))" "gomap_ok (cl_pools (cc_cluster c'))"
    and ps: "list_all2 same_provider (cl_providers (cc_cluster c)) (cl_providers (cc_cluster c'))"
    and n: "rel_option same_nat (cl_nat (cc_cluster c)) (cl_nat (cc_cluster c'))"
    by (auto simp: same_cluster_def same_map_def)
  have "list_all provider_maps_ok (cl_providers (cc_cluster c)) \<and> list_all provider_maps_ok (cl_providers (cc_cluster c'))"
    using ps assms(3) by (induction rule: list_all2_induct) (auto simp: provider_maps_ok_def same_provider_facts)
  moreover have "(\<forall>m. cl_nat (cc_cluster c) = Some m \<longrightarrow> gomap_ok (na_groups m) \<and> gomap_ok (na_tenants m)) \<and>
      (\<forall>m. cl_nat (cc_cluster c') = Some m \<longrightarrow> gomap_ok (na_groups m) \<and> gomap_ok (na_tenants m))"
    using n by (cases "cl_nat (cc_cluster c)"; cases "cl_nat (cc_cluster c')") (auto simp: same_nat_def same_map_def)
  moreover have "cl_providers (cc_cluster c') \<noteq> []" using ps assms(2) by auto
  ultimately show "config_maps_ok c" "config_maps_ok c'" using pools assms(2) by (simp_all add: config_maps_ok_def)
qed

lemma generation_accepts_same:
  assumes "same_cluster (cc_cluster c) (cc_cluster c')" "ValidateClusterGeneration pa c = None"
  shows "ValidateClusterGeneration pa c' = None"
proof -
  from assms(2) have v: "Validate pa (Some c) = None" by (simp add: ValidateClusterGeneration_def)
  note ne = accepted_parts(2) [OF v]
  note f = same_config_facts [OF assms(1) ne] and p = same_provider_facts [OF same_config_facts(1) [OF assms(1) ne]]
  have "ValidateWorkloadCAProvider pa (cl_secrets (cc_cluster c')) = ValidateWorkloadCAProvider pa (cl_secrets (cc_cluster c))"
    using same_secrets_facts [OF f(6)] by (simp add: ValidateWorkloadCAProvider_def cong: option.case_cong if_cong)
  moreover have "canon_map (sc_providers (cl_secrets (cc_cluster c'))) = canon_map (sc_providers (cl_secrets (cc_cluster c)))"
    using same_secrets_facts [OF f(6)] by (intro canon_map_cong) simp
  then have "googleGenerationError c' = googleGenerationError c" by (simp add: googleGenerationError_def f)
  moreover have "validateDNSProviders c' = validateDNSProviders c" by (simp add: validateDNSProviders_def f p)
  ultimately show ?thesis using assms(2) acceptance_same [OF assms(1)] by (auto simp: ValidateClusterGeneration_def f p split: if_splits)
qed

end
