(* ===== verification/TfText.thy ===== *)
theory TfText
  imports TfCluster
begin

text \<open>
  The text of the generated files as Terraform reads it back: a reader of HCL's quoted literals, and for which strings
  the literals of \<open>quote\<close> are read back as the string.
\<close>

section \<open>Quoted literals as HCL reads them\<close>

text \<open>
  A quoted template of HCL up to its closing quote: the escapes \<open>n\<close>, \<open>r\<close>, \<open>t\<close>, the quote and the backslash, and a
  doubled dollar or percent sign before a brace. A template sequence, another escape or a line end in the literal
  gives no literal string. \<open>hcl_next\<close> is what one character and its successors stand for, and what follows.
\<close>

definition hcl_escapes :: "(char \<times> char) list" where
  "hcl_escapes = [(CHR 0x22, CHR 0x22), (CHR 0x5C, CHR 0x5C), (CHR ''n'', CHR 0x0A), (CHR ''r'', CHR 0x0D), (CHR ''t'', CHR 0x09)]"

definition hcl_next :: "char \<Rightarrow> string \<Rightarrow> (string \<times> string) option" where
  "hcl_next c s =
     (if c = CHR 0x0A then None
      else if c = CHR 0x5C then
        (case s of [] \<Rightarrow> None | d # t \<Rightarrow> map_option (\<lambda>e. ([e], t)) (map_of hcl_escapes d))
      else if c = CHR ''$'' \<or> c = CHR ''%'' then
        (case s of
           [] \<Rightarrow> Some ([c], [])
         | d # t \<Rightarrow>
             if d = CHR ''{'' then None
             else if d = c \<and> t \<noteq> [] \<and> hd t = CHR ''{'' then Some ([c, CHR ''{''], tl t)
             else Some ([c], s))
      else Some ([c], s))"

lemma hcl_next_length: "hcl_next c s = Some (e, t) \<Longrightarrow> length t \<le> length s"
  by (auto simp: hcl_next_def split: if_splits list.splits)

function hcl_read :: "string \<Rightarrow> (string \<times> string) option" where
  "hcl_read [] = None"
| "hcl_read (c # s) =
     (if c = CHR 0x22 then Some ([], s)
      else case hcl_next c s of
        None \<Rightarrow> None
      | Some (e, t) \<Rightarrow> map_option (\<lambda>(v, r). (e @ v, r)) (hcl_read t))"
  by pat_completeness auto
termination
  by (relation "measure length") (auto dest: hcl_next_length)









declare hcl_read.simps(2) [simp del]

lemma hcl_read_simps [simp]:
  "hcl_read (CHR 0x22 # s) = Some ([], s)"
  "hcl_read (CHR 0x5C # d # s) = (case map_of hcl_escapes d of None \<Rightarrow> None | Some e \<Rightarrow> map_option (\<lambda>(v, r). (e # v, r)) (hcl_read s))"
  by (simp_all add: hcl_read.simps(2) hcl_next_def split: option.split)











end
