(* ===== verification/TfEnv.thy ===== *)
theory TfEnv
  imports TfCluster ClusterProps
begin

text \<open>
  The files and names of the generated cluster that other programs read: the mutable environment of the nodes as the
  shell reads it, its defaults, and the names of the shard modules.
\<close>

section \<open>The mutable environment as vmconfig reads it\<close>

text \<open>A shell word inside and outside of single quotes, and the lines of an environment file.\<close>

fun shell_word :: "bool \<Rightarrow> string \<Rightarrow> string option" where
  "shell_word q [] = (if q then None else Some [])"
| "shell_word q (c # s) =
     (if c = CHR 0x27 then shell_word (\<not> q) s
      else if c = CHR 0x5C \<and> \<not> q then (case s of [] \<Rightarrow> None | d # t \<Rightarrow> map_option ((#) d) (shell_word q t))
      else map_option ((#) c) (shell_word q s))"

definition read_line :: "string \<Rightarrow> (string \<times> string) option" where
  "read_line l = (case go_cut CHR ''='' l of None \<Rightarrow> None | Some (k, w) \<Rightarrow> map_option (Pair k) (shell_word False w))"

definition read_env :: "string \<Rightarrow> (string \<times> string) option list" where
  "read_env text = map read_line (butlast (go_split CHR 0x0A text))"

lemma shell_quoted: "shell_word True (concat (map (\<lambda>c. if c = CHR 0x27 then [CHR 0x27, CHR 0x5C, CHR 0x27, CHR 0x27] else [c]) v) @ [CHR 0x27]) = Some v"
  by (induction v) auto

lemma shell_quoteEnvValue: "shell_word False (quoteEnvValue v) = Some v"
  using shell_quoted [of v] by (simp add: quoteEnvValue_def)

lemma newline_free_quoted: "CHR 0x0A \<notin> set v \<Longrightarrow> CHR 0x0A \<notin> set (quoteEnvValue v)"
  by (auto simp: quoteEnvValue_def)

lemma env_keys_plain: "list_all (\<lambda>k. CHR 0x0A \<notin> set k \<and> CHR ''='' \<notin> set k) mutableEnvKeys"
  by code_simp

lemma go_cut_at: "c \<notin> set k \<Longrightarrow> go_cut c (k @ c # s) = Some (k, s)"
  by (induction k) auto

lemma split_line: "c \<notin> set l \<Longrightarrow> go_split c (l @ c # s) = l # go_split c s"
  by (induction l) auto

lemma split_lines: "list_all (\<lambda>l. c \<notin> set l) ls \<Longrightarrow> ls \<noteq> [] \<Longrightarrow> butlast (go_split c (join_with [c] ls @ [c])) = ls"
proof (induction ls)
  case (Cons l ls)
  show ?case
  proof (cases ls)
    case Nil
    then show ?thesis using Cons split_line [of c l "[]"] by simp
  next
    case (Cons l' ls')
    then show ?thesis using Cons.IH Cons.prems split_line [of c l "join_with [c] ls @ [c]"] by (simp add: butlast.simps)
  qed
qed simp

lemma env_values_plain:
  assumes "validate_env e = None"
  shows "CHR 0x0A \<notin> set (env_get e k)"
proof (cases "map_of e k")
  case (Some v)
  have "first_err (\<lambda>(key, v). if list_ex bad_env_char v
         then Some (Errorf ''mutable environment variable %s contains a quote or newline'' [S key]) else None) e = None"
    using assms by (simp add: validate_env_def)
  with map_of_SomeD [OF Some] have "\<not> list_ex bad_env_char v" by (fastforce split: if_splits)
  with Some show ?thesis by (auto simp: env_get_def list_ex_iff bad_env_char_def)
qed (simp add: env_get_def)

text \<open>
  C39: A mutable environment that renders is read back by a shell as it was: one line for every known key, in order,
  with the value of the key; an environment with a quote or a line end in a value does not render.
\<close>

theorem env_roundtrip:
  assumes "Render e = Inr text"
  shows "read_env text = map (\<lambda>k. Some (k, env_get e k)) mutableEnvKeys"
proof -
  let ?line = "\<lambda>k. k @ ''='' @ quoteEnvValue (env_get e k)"
  from assms have v: "validate_env e = None" and t: "text = join_with [CHR 0x0A] (map ?line mutableEnvKeys) @ [CHR 0x0A]"
    by (cases "validate_env e"; simp add: Render_def err_result_def)+
  have k: "CHR 0x0A \<notin> set k \<and> CHR ''='' \<notin> set k" if "k \<in> set mutableEnvKeys" for k
    using env_keys_plain that by (simp add: list_all_iff)
  have "list_all (\<lambda>l. CHR 0x0A \<notin> set l) (map ?line mutableEnvKeys)"
    using k newline_free_quoted [OF env_values_plain [OF v]] by (auto simp: list_all_iff)
  moreover have "map ?line mutableEnvKeys \<noteq> []" by (simp add: mutableEnvKeys_def)
  ultimately have "read_env text = map (read_line \<circ> ?line) mutableEnvKeys" by (simp add: read_env_def t split_lines)
  moreover have "read_line (?line k) = Some (k, env_get e k)" if "k \<in> set mutableEnvKeys" for k
    using k [OF that] go_cut_at [of "CHR ''=''" k "quoteEnvValue (env_get e k)"] by (simp add: read_line_def shell_quoteEnvValue)
  ultimately show ?thesis by simp
qed

definition sample_env :: mutable_env where
  "sample_env = ApplyDefaults ''demo'' [(''REGISTRY_HOSTNAME'', ''registry.example.com'')]"

theorem env_roundtrip_witness:
  "\<exists>text. Render sample_env = Inr text \<and>
     read_env text = map (\<lambda>k. Some (k, env_get sample_env k)) mutableEnvKeys"
proof -
  have "first_err (\<lambda>(key, v). if list_ex bad_env_char v
      then Some (Errorf ''mutable environment variable %s contains a quote or newline'' [S key]) else None) sample_env = None"
    "first_err check_dns (go_split CHR '','' (env_get sample_env ''KUBE_CLUSTER_DNS'')) = None"
    "env_get sample_env ''KUBE_LOG_LEVEL'' = ''2''" "env_get sample_env ''KUBE_NODE_CIDR_MASK_SIZE_IPV4'' = ''24''"
    "env_get sample_env ''KUBE_NODE_CIDR_MASK_SIZE_IPV6'' = ''64''" "env_get sample_env ''TELEMETRY_LOG_SERVICES'' = []"
    "env_get sample_env ''TELEMETRY_LOG_CLOUDINIT'' = ''true''" "env_get sample_env ''TELEMETRY_ENABLED'' = ''false''"
    "env_get sample_env ''REGISTRY_ENABLED'' = ''true''" "env_get sample_env ''REGISTRY_HOSTNAME'' = ''registry.example.com''"
    by code_simp+
  moreover have "parse_uint 64 ''2'' = Some 2" "parse_uint 8 ''24'' = Some 24" "parse_uint 8 ''64'' = Some 64"
    by (simp_all add: parse_uint_def dec_val_def digit_val_def is_digit_def less_eq_char_def)
  ultimately have "validate_env sample_env = None" by (simp add: validate_env_def check_mask_def)
  then obtain out where "Render sample_env = Inr out" by (simp add: Render_def err_result_def)
  with env_roundtrip [OF this] show ?thesis by blast
qed

section \<open>Defaults\<close>

lemma env_get_put: "env_get (put_key k v e) k' = (if k' = k then v else env_get e k')"
  by (simp add: env_get_def)

lemma env_get_set_default: "env_get (set_default kv e) k = (if env_get e k = [] \<and> k = fst kv then snd kv else env_get e k)"
  by (simp add: set_default_def env_get_put)

lemma fold_set_default:
  "distinct (map fst ds) \<Longrightarrow> env_get (fold set_default ds e) k =
    (if env_get e k = [] then env_get ds k else env_get e k)"
proof (induction ds arbitrary: e)
  case Nil
  then show ?case by (simp add: env_get_def)
next
  case (Cons d ds)
  have "env_get (d # ds) k = (if k = fst d then snd d else env_get ds k)" by (cases d) (simp add: env_get_def)
  moreover have "k = fst d \<Longrightarrow> map_of ds k = None" using Cons.prems by (simp add: map_of_eq_None_iff)
  then have "k = fst d \<Longrightarrow> env_get ds k = []" by (simp add: env_get_def)
  ultimately show ?case using Cons by (simp add: env_get_set_default)
qed


text \<open>
  The defaults keep every value that is set, give every other known key its default, and name the buckets after
  the cluster when it has an identifier; the default DNS addresses and Service range are those of the default Service
  network.
\<close>

theorem env_defaults:
  "env_get (ApplyDefaults clusterID e) k =
     (if env_get e k \<noteq> [] then env_get e k
      else if has_key default_env k then env_get default_env k
      else if clusterID \<noteq> [] \<and> has_key bucket_suffixes k then clusterID @ ''-'' @ env_get bucket_suffixes k
      else []) \<and>
   (\<exists>n. ServiceNetworkFromCIDRs [] = Inr n \<and>
      env_get default_env ''KUBE_CLUSTER_DNS'' = join_with '','' (map addr_string (sn_dns n)) \<and>
      env_get default_env ''KUBE_SERVICE_CLUSTER_IP_RANGE'' = join_with '','' (sn_cidrs n))"
proof
  define bs where bs: "bs = map (\<lambda>(key, suffix). (key, clusterID @ ''-'' @ suffix)) bucket_suffixes"
  have fold: "fold (\<lambda>(key, suffix). set_default (key, clusterID @ ''-'' @ suffix)) bucket_suffixes e' = fold set_default bs e'" for e'
    by (simp add: bs fold_map comp_def split_def)
  have d: "distinct (map fst default_env)" "distinct (map fst bs)" by (simp add: default_env_def) (simp add: bs bucket_suffixes_def)
  have none: "has_key ds k \<or> env_get ds k = []" for ds
    by (cases "map_of ds k") (simp_all add: env_get_def has_key_def del: has_key_iff)
  have get: "env_get bs k = (if has_key bucket_suffixes k then clusterID @ ''-'' @ env_get bucket_suffixes k else [])"
    by (simp add: bs bucket_suffixes_def env_get_def)
  have full: "has_key default_env k \<Longrightarrow> env_get default_env k \<noteq> []" by (auto simp: default_env_def env_get_def)
  have app: "ApplyDefaults clusterID e =
      (let e1 = fold set_default default_env e in if clusterID = [] then e1 else fold set_default bs e1)"
    unfolding ApplyDefaults_def fold by (rule refl)
  show "env_get (ApplyDefaults clusterID e) k =
     (if env_get e k \<noteq> [] then env_get e k
      else if has_key default_env k then env_get default_env k
      else if clusterID \<noteq> [] \<and> has_key bucket_suffixes k then clusterID @ ''-'' @ env_get bucket_suffixes k
      else [])"
    using none [of default_env] full
    by (auto simp: app Let_def fold_set_default d get simp del: has_key_iff)
next
  have "ServiceNetworkFromCIDRs [] = Inr \<lparr>sn_cidrs = [''198.18.0.0/15'', ''fdc6::/108''],
    sn_api = [V4 0xC6120001, V6 0xFDC60000000000000000000000000001 []],
    sn_dns = [V4 0xC613FFFE, V6 0xFDC6000000000000000000000000FFFF []]\<rparr>" by code_simp
  moreover have "join_with '','' (map addr_string [V4 0xC613FFFE, V6 0xFDC6000000000000000000000000FFFF []]) = ''198.19.255.254,fdc6::ffff''"
    by code_simp
  ultimately show "\<exists>n. ServiceNetworkFromCIDRs [] = Inr n \<and>
      env_get default_env ''KUBE_CLUSTER_DNS'' = join_with '','' (map addr_string (sn_dns n)) \<and>
      env_get default_env ''KUBE_SERVICE_CLUSTER_IP_RANGE'' = join_with '','' (sn_cidrs n)"
    by (simp add: default_env_def env_get_def)
qed


section \<open>Names of the shard modules\<close>

definition zone_char :: "char \<Rightarrow> bool" where
  "zone_char c \<longleftrightarrow> is_lower c \<or> is_digit c \<or> c = CHR ''-''"

definition plain_zone :: "string \<Rightarrow> bool" where
  "plain_zone z \<longleftrightarrow> z \<noteq> [] \<and> list_all zone_char z \<and> last z \<noteq> CHR ''-''"

lemma zone_char_facts:
  assumes "zone_char c"
  shows "c \<noteq> CHR ''_''" "to_lower_char (safe_char c) = (if c = CHR ''-'' then CHR ''_'' else c)"
    "safe_char c = CHR ''_'' \<longleftrightarrow> c = CHR ''-''"
  using assms by (auto simp: zone_char_def safe_char_def to_lower_char_def is_lower_def is_digit_def less_eq_char_def)


definition zone_text :: "string \<Rightarrow> string" where
  "zone_text z = map (\<lambda>c. if c = CHR ''-'' then CHR ''_'' else c) z"

lemma shard_module_plain:
  assumes "plain_zone z"
  shows "shard_module z = ''shard_'' @ zone_text z"
proof -
  from assms have z: "z \<noteq> []" "\<And>c. c \<in> set z \<Longrightarrow> zone_char c" "last z \<noteq> CHR ''-''"
    by (auto simp: plain_zone_def list_all_iff)
  have pre: "map safe_char ''shard_'' = ''shard_''" "map to_lower_char ''shard_'' = ''shard_''" by code_simp+
  have "go_join CHR ''_'' [''shard'', z] = ''shard_'' @ z" by simp
  then have joined: "map safe_char (go_join CHR ''_'' [''shard'', z]) = ''shard_'' @ map safe_char z" using pre by (simp only: map_append)
  have "last (map safe_char z) \<noteq> CHR ''_''" using z zone_char_facts(3) [of "last z"] by (simp add: last_map)
  then have "go_trim ''_'' (''shard_'' @ map safe_char z) = ''shard_'' @ map safe_char z"
    using z(1) by (cases z rule: rev_cases) (simp_all add: go_trim_def trim_left_def trim_right_def)
  then have "shard_module z = to_lower (''shard_'' @ map safe_char z)"
    by (simp only: shard_module_def safeName_def joined Let_def) simp
  also have "\<dots> = ''shard_'' @ map (to_lower_char \<circ> safe_char) z" using pre by (simp only: to_lower_def map_append map_map)
  also have "map (to_lower_char \<circ> safe_char) z = zone_text z" using z(2) zone_char_facts(2) by (simp add: zone_text_def)
  finally show ?thesis .
qed

lemma zone_text_inj: "list_all zone_char z \<Longrightarrow> list_all zone_char z' \<Longrightarrow> zone_text z = zone_text z' \<Longrightarrow> z = z'"
proof (induction z arbitrary: z')
  case (Cons c z)
  then obtain c' w where [simp]: "z' = c' # w" by (cases z') (auto simp: zone_text_def)
  from Cons.prems zone_char_facts(1) [of c] zone_char_facts(1) [of c'] have "c = c'" by (auto simp: zone_text_def split: if_splits)
  with Cons show ?case by (simp add: zone_text_def)
qed (simp add: zone_text_def)

text \<open>
  The shard modules of the zones of a provider have pairwise distinct names when the zones are names of lower
  case letters, digits and inner dashes, as those of AWS and Google are. The validation of AWS zones admits more, and
  two zones that it accepts can have the same module name.
\<close>

theorem shard_modules_distinct:
  assumes "\<forall>z \<in> fst ` set (pr_zones p). plain_zone z"
  shows "distinct (map shard_module (sorted_keys (pr_zones p)))"
proof -
  have "inj_on shard_module (fst ` set (pr_zones p))"
  proof (rule inj_onI)
    fix z z' assume "z \<in> fst ` set (pr_zones p)" "z' \<in> fst ` set (pr_zones p)" and eq: "shard_module z = shard_module z'"
    with assms have p: "plain_zone z" "plain_zone z'" by blast+
    from eq have "zone_text z = zone_text z'" unfolding shard_module_plain [OF p(1)] shard_module_plain [OF p(2)] by simp
    with p show "z = z'" using zone_text_inj by (simp add: plain_zone_def)
  qed
  then show ?thesis by (simp add: distinct_map)
qed

theorem shard_modules_distinct_witness:
  "distinct (map shard_module (sorted_keys (pr_zones (sample_provider\<lparr>pr_zones := [(''us-east-1b'', []), (''us-east-1-atl-1a'', [])]\<rparr>)))) \<and>
   ValidateAWSAvailabilityZone ''us-east-1'' ''us-east-1-a-b'' = None \<and> ValidateAWSAvailabilityZone ''us-east-1'' ''us-east-1-a_b'' = None \<and>
   shard_module ''us-east-1-a-b'' = shard_module ''us-east-1-a_b''"
proof (intro conjI)
  have "plain_zone ''us-east-1b''" "plain_zone ''us-east-1-atl-1a''" by code_simp+
  then show "distinct (map shard_module (sorted_keys (pr_zones (sample_provider\<lparr>pr_zones := [(''us-east-1b'', []), (''us-east-1-atl-1a'', [])]\<rparr>))))"
    by (intro shard_modules_distinct) simp
qed code_simp+

end
