(* ===== verification/TfProps.thy ===== *)
theory TfProps
  imports TfFacts TfText TfEnv
begin

text \<open>
  What the generator of Terraform files promises: its result does not depend on the order of Go's maps, when it
  succeeds, and that the references between what it generates resolve.
\<close>

section \<open>A generator for the examples\<close>

definition sample_generator :: generator where
  "sample_generator = \<lparr>ge_parsers = sample_parsers, ge_version = ''dev'', ge_json = (\<lambda>_. Inl (Sentinel ''json'')),
     ge_context = (\<lambda>_. Inl (Sentinel ''ref'')), ge_digest = (\<lambda>_. Inl (Sentinel ''digest''))\<rparr>"

definition sample_options :: cluster_options where
  "sample_options = \<lparr>co_deps_mirror_url = ''https://deps.example.com'', co_manifests =
     [\<lparr>vm_kind = ''knc'', vm_arch = ''arm64'', vm_filename = ''knc-arm64.json'', vm_json = ''{}''\<rparr>,
      \<lparr>vm_kind = ''knd'', vm_arch = ''amd64'', vm_filename = ''knd-amd64.json'', vm_json = ''{}''\<rparr>,
      \<lparr>vm_kind = ''nst'', vm_arch = ''arm64'', vm_filename = ''nst-arm64.json'', vm_json = ''{}''\<rparr>], co_module_dir = ''modules/nstance''\<rparr>"

lemma sample_generates: "ValidateClusterGeneration sample_parsers sample_config = None"
  by code_simp

lemma sample_ready_pools: "list_all (\<lambda>(nm, p). target_ready sample_generator sample_config sample_options
    \<lparr>vt_kind = poolKind nm, vt_arch = po_arch p\<rparr>) (cl_pools (cc_cluster sample_config))"
  by code_simp

lemma sample_ready_servers: "target_ready sample_generator sample_config sample_options
    \<lparr>vt_kind = ''nst'', vt_arch = serverArch (provider0 sample_config)\<rparr>"
  by code_simp

lemma sample_ready_nat: "nat_targets sample_config = []"
  by code_simp

section \<open>Determinism\<close>




section \<open>When the generation succeeds\<close>

text \<open>
  C12: The generation succeeds exactly when the Nstance module directory is given, the configuration passes the checks
  of the generator, the version of the CLI has a provider version, and every pool, the Nstance servers and every NAT
  group have a virtual machine manifest that is not empty, with the digest of the tunnel image where the machine runs it.
\<close>

theorem generation_succeeds_iff:
  "(\<exists>files. GenerateCluster g path cfg opts = Some (Inr files)) \<longleftrightarrow>
     co_module_dir opts \<noteq> [] \<and> ValidateClusterGeneration (ge_parsers g) cfg = None \<and>
     PodplaneProviderVersion (ge_version g) \<noteq> None \<and>
     (\<forall>(nm, p) \<in> set (cl_pools (cc_cluster cfg)). target_ready g cfg opts \<lparr>vt_kind = poolKind nm, vt_arch = po_arch p\<rparr>) \<and>
     target_ready g cfg opts \<lparr>vt_kind = ''nst'', vt_arch = serverArch (provider0 cfg)\<rparr> \<and>
     (\<forall>t \<in> set (nat_targets cfg). target_ready g cfg opts t)"
proof -
  have net: "\<exists>n. ServiceNetworkFromCIDRs (ku_service_cidr (cl_kubernetes (cc_cluster cfg))) = Inr n"
    if "ValidateClusterGeneration (ge_parsers g) cfg = None"
  proof -
    from that have "Validate (ge_parsers g) (Some cfg) = None" by (simp add: ValidateClusterGeneration_def)
    from accepted_parts(4) [OF this] show ?thesis
      by (cases "ServiceNetworkFromCIDRs (ku_service_cidr (cl_kubernetes (cc_cluster cfg)))") (auto simp: result_err_def)
  qed
  have "(\<exists>files. GenerateCluster g path cfg opts = Some (Inr files)) \<longleftrightarrow>
     co_module_dir opts \<noteq> [] \<and> ValidateClusterGeneration (ge_parsers g) cfg = None \<and>
     PodplaneProviderVersion (ge_version g) \<noteq> None \<and> (\<exists>rs. resolve_targets g cfg opts (RequiredVMTargets cfg) = Inr rs)"
    using net by (auto simp: GenerateCluster_def renderCluster_def bindR_ok split: option.splits sum.splits)
  then show ?thesis unfolding resolve_targets_iff set_targets by auto
qed

theorem generation_succeeds_iff_witness:
  "\<exists>files. GenerateCluster sample_generator ''podplane.cluster.jsonc'' sample_config sample_options = Some (Inr files)"
proof (rule iffD2 [OF generation_succeeds_iff], intro conjI)
  let ?ready = "target_ready sample_generator sample_config sample_options"
  show "co_module_dir sample_options \<noteq> []" by (simp add: sample_options_def)
  show "ValidateClusterGeneration (ge_parsers sample_generator) sample_config = None"
    using sample_generates by (simp add: sample_generator_def)
  show "PodplaneProviderVersion (ge_version sample_generator) \<noteq> None"
    by (simp add: PodplaneProviderVersion_def ProviderVersionFor_def sample_generator_def)
  show "\<forall>(nm, p) \<in> set (cl_pools (cc_cluster sample_config)). ?ready \<lparr>vt_kind = poolKind nm, vt_arch = po_arch p\<rparr>"
    using sample_ready_pools by (auto simp: list_all_iff)
  show "?ready \<lparr>vt_kind = ''nst'', vt_arch = serverArch (provider0 sample_config)\<rparr>"
    using sample_ready_servers by simp
  show "\<forall>t \<in> set (nat_targets sample_config). ?ready t" using sample_ready_nat by simp
qed

section \<open>References\<close>



end
