(* ===== verification/CloudSecrets.thy ===== *)
theory CloudSecrets
  imports Components
begin

text \<open>
  The durable secrets of the Terraform provider (\<open>internal/tfprovider/cloud_secret_store.go\<close> and the key
  resources): a secret of AWS Secrets Manager, of AWS Parameter Store or of Google Secret Manager is created once and
  adopted ever after. The APIs of the clouds are parameters, functions on the state of the world; what they answer
  includes whatever other clients did in between. The pointers of their answers are options, the strings behind
  pointers that the code reads with \<open>aws.ToString\<close> are empty for nil.
\<close>

section \<open>Options\<close>

record cloud_secret_options =
  cs_provider :: string
  cs_name :: string
  cs_region :: string
  cs_profile :: string
  cs_project :: string
  cs_labels :: "string gomap"
  cs_tags :: "string gomap"

definition aws_secrets_manager :: string where "aws_secrets_manager = ''aws-secrets-manager''"
definition aws_parameter_store :: string where "aws_parameter_store = ''aws-parameter-store''"
definition google_secret_manager :: string where "google_secret_manager = ''google-secret-manager''"

definition Identity :: "cloud_secret_options \<Rightarrow> string" where
  "Identity opts =
     (if cs_provider opts = aws_secrets_manager then ''aws-secretsmanager:'' @ cs_name opts
      else if cs_provider opts = aws_parameter_store then ''aws-ssm:'' @ cs_name opts
      else if cs_provider opts = google_secret_manager then ''gcp-secretmanager:'' @ cs_name opts
      else [])"

record cloud_metadata =
  cm_identity :: string
  cm_version :: string

section \<open>The APIs of the clouds\<close>

datatype api_error = AlreadyExists goerr | NotFound goerr | ApiError goerr

fun api_cause :: "api_error \<Rightarrow> goerr" where
  "api_cause (AlreadyExists e) = e"
| "api_cause (NotFound e) = e"
| "api_cause (ApiError e) = e"

type_synonym ('w, 'a) call = "'w \<Rightarrow> (api_error + 'a) \<times> 'w"

datatype aws_version = Stage string | VersionId string

record aws_value =
  av_version :: string
  av_text :: "string option"

record 'w aws_secrets_api =
  sm_create :: "string \<Rightarrow> string \<Rightarrow> string gomap \<Rightarrow> ('w, string option) call"
  sm_get :: "string \<Rightarrow> aws_version \<Rightarrow> ('w, aws_value option) call"
  sm_describe :: "string \<Rightarrow> ('w, string list gomap option) call"

record ssm_parameter =
  pa_name :: string
  pa_type :: string
  pa_value :: "string option"
  pa_version :: int

text \<open>A parameter is put with its type, value, tags, and whether an existing one is overwritten.\<close>

record 'w aws_ssm_api =
  pm_put :: "string \<Rightarrow> string \<Rightarrow> string \<Rightarrow> bool \<Rightarrow> string gomap \<Rightarrow> ('w, int option) call"
  pm_get :: "string \<Rightarrow> ('w, ssm_parameter option) call"
  pm_describe :: "string \<Rightarrow> ('w, ssm_parameter list option) call"

record gcp_payload =
  gp_name :: string
  gp_data :: "string option"

text \<open>A secret is created below its parent, replicated automatically or not, with labels.\<close>

record 'w gcp_secrets_api =
  gs_create :: "string \<Rightarrow> string \<Rightarrow> bool \<Rightarrow> string gomap \<Rightarrow> ('w, string option) call"
  gs_add :: "string \<Rightarrow> string \<Rightarrow> ('w, string option) call"
  gs_access :: "string \<Rightarrow> ('w, gcp_payload option) call"
  gs_version :: "string \<Rightarrow> ('w, (string \<times> bool) option) call"

text \<open>\<open>cloudSecretStore\<close>, with the function \<open>cloudSecretValue\<close> that switches on its type.\<close>

record 'w cloud_store =
  st_create :: "string \<Rightarrow> ('w, cloud_metadata \<times> string) op"
  st_metadata :: "('w, cloud_metadata) op"
  st_value :: "string \<Rightarrow> ('w, string) op"

definition not_utf8 :: goerr where
  "not_utf8 = Errorf ''secret value must be valid UTF-8 text'' []"

definition no_pinned_version :: goerr where
  "no_pinned_version = Errorf ''cannot read the pinned signing-key version; check secret backend permissions and restore the original version'' []"

section \<open>AWS Secrets Manager\<close>

record aws_location =
  al_name :: string
  al_identity :: string
  al_tags :: "string gomap"

definition adopt_aws :: "'w aws_secrets_api \<Rightarrow> aws_location \<Rightarrow> ('w, cloud_metadata \<times> string) op" where
  "adopt_aws api s w =
     (case sm_get api (al_name s) (Stage ''AWSCURRENT'') w of
        (Inl e, w') \<Rightarrow> (Inl (Wrapf ''adopt existing AWS secret current version: %w'' [] (api_cause e)), w')
      | (Inr winner, w') \<Rightarrow>
          ((case winner of
              None \<Rightarrow> Inl (Errorf ''adopt existing AWS secret current version: backend returned no version'' [])
            | Some v \<Rightarrow>
                if av_version v = [] then Inl (Errorf ''adopt existing AWS secret current version: backend returned no version'' [])
                else (case av_text v of
                    None \<Rightarrow> Inl (Errorf ''existing AWS bootstrap secret must contain non-empty text in SecretString; its value has not been changed'' [])
                  | Some t \<Rightarrow>
                      if t = [] then Inl (Errorf ''existing AWS bootstrap secret must contain non-empty text in SecretString; its value has not been changed'' [])
                      else Inr (\<lparr>cm_identity = al_identity s, cm_version = av_version v\<rparr>, t))), w'))"

definition aws_CreateOrAdopt :: "'w aws_secrets_api \<Rightarrow> aws_location \<Rightarrow> string \<Rightarrow> ('w, cloud_metadata \<times> string) op" where
  "aws_CreateOrAdopt api s v w =
     (if \<not> utf8_valid v then (Inl not_utf8, w)
      else case sm_create api (al_name s) v (al_tags s) w of
        (Inr out, w') \<Rightarrow>
          ((case out of
              None \<Rightarrow> Inl (Errorf ''create AWS secret: backend returned no version'' [])
            | Some version \<Rightarrow>
                if version = [] then Inl (Errorf ''create AWS secret: backend returned no version'' [])
                else Inr (\<lparr>cm_identity = al_identity s, cm_version = version\<rparr>, v)), w')
      | (Inl (AlreadyExists _), w') \<Rightarrow> adopt_aws api s w'
      | (Inl e, w') \<Rightarrow> (Inl (Wrapf ''create AWS secret: %w'' [] (api_cause e)), w'))"

definition current_version :: "string list gomap \<Rightarrow> string option" where
  "current_version versions = map_option fst (find (\<lambda>(_, stages). ''AWSCURRENT'' \<in> set stages) versions)"

definition aws_Metadata :: "'w aws_secrets_api \<Rightarrow> aws_location \<Rightarrow> ('w, cloud_metadata) op" where
  "aws_Metadata api s w =
     (case sm_describe api (al_name s) w of
        (Inl e, w') \<Rightarrow> (Inl (Wrapf ''read AWS secret metadata: %w'' [] (api_cause e)), w')
      | (Inr out, w') \<Rightarrow>
          ((case out of
              None \<Rightarrow> Inl (Errorf ''read AWS secret metadata: backend returned no secret'' [])
            | Some versions \<Rightarrow>
                (case current_version versions of
                   None \<Rightarrow> Inl (Errorf ''AWS secret has no current version'' [])
                 | Some version \<Rightarrow> Inr \<lparr>cm_identity = al_identity s, cm_version = version\<rparr>)), w'))"

definition aws_pinned :: "'w aws_secrets_api \<Rightarrow> aws_location \<Rightarrow> string \<Rightarrow> ('w, string) op" where
  "aws_pinned api s version w =
     (case sm_get api (al_name s) (VersionId version) w of
        (Inr (Some v), w') \<Rightarrow>
          (case av_text v of
             Some t \<Rightarrow> (if av_version v = version \<and> t \<noteq> [] then Inr t else Inl no_pinned_version, w')
           | None \<Rightarrow> (Inl no_pinned_version, w'))
      | (_, w') \<Rightarrow> (Inl no_pinned_version, w'))"

definition awsSecretsStore :: "'w aws_secrets_api \<Rightarrow> aws_location \<Rightarrow> 'w cloud_store" where
  "awsSecretsStore api s =
     \<lparr>st_create = aws_CreateOrAdopt api s, st_metadata = aws_Metadata api s, st_value = aws_pinned api s\<rparr>"

section \<open>AWS Parameter Store\<close>

definition secure_string :: string where "secure_string = ''SecureString''"

definition adopt_ssm :: "'w aws_ssm_api \<Rightarrow> aws_location \<Rightarrow> ('w, cloud_metadata \<times> string) op" where
  "adopt_ssm api s w =
     (case pm_get api (al_name s) w of
        (Inl e, w') \<Rightarrow> (Inl (Wrapf ''adopt existing AWS SSM parameter: %w'' [] (api_cause e)), w')
      | (Inr winner, w') \<Rightarrow>
          ((case winner of
              None \<Rightarrow> Inl (Errorf ''adopt existing AWS SSM parameter: backend returned no parameter'' [])
            | Some p \<Rightarrow>
                if pa_type p \<noteq> secure_string \<or> pa_value p = None \<or> pa_value p = Some []
                then Inl (Errorf ''adopt existing AWS SSM parameter: parameter must be a non-empty SecureString'' [])
                else Inr (\<lparr>cm_identity = al_identity s, cm_version = int_string (pa_version p)\<rparr>, the (pa_value p))), w'))"

definition ssm_CreateOrAdopt :: "'w aws_ssm_api \<Rightarrow> aws_location \<Rightarrow> string \<Rightarrow> ('w, cloud_metadata \<times> string) op" where
  "ssm_CreateOrAdopt api s v w =
     (if \<not> utf8_valid v then (Inl not_utf8, w)
      else case pm_put api (al_name s) secure_string v False (al_tags s) w of
        (Inr out, w') \<Rightarrow>
          ((case out of
              None \<Rightarrow> Inl (Errorf ''create AWS SSM parameter: backend returned no version'' [])
            | Some version \<Rightarrow>
                if version < 1 then Inl (Errorf ''create AWS SSM parameter: backend returned no version'' [])
                else Inr (\<lparr>cm_identity = al_identity s, cm_version = int_string version\<rparr>, v)), w')
      | (Inl (AlreadyExists _), w') \<Rightarrow> adopt_ssm api s w'
      | (Inl e, w') \<Rightarrow> (Inl (Wrapf ''create AWS SSM parameter: %w'' [] (api_cause e)), w'))"

definition ssm_Metadata :: "'w aws_ssm_api \<Rightarrow> aws_location \<Rightarrow> ('w, cloud_metadata) op" where
  "ssm_Metadata api s w =
     (case pm_describe api (al_name s) w of
        (Inl e, w') \<Rightarrow> (Inl (Wrapf ''read AWS SSM parameter metadata: %w'' [] (api_cause e)), w')
      | (Inr out, w') \<Rightarrow>
          ((case out of
              None \<Rightarrow> Inl (Errorf ''read AWS SSM parameter metadata: backend returned no parameter'' [])
            | Some [p] \<Rightarrow>
                if pa_name p \<noteq> al_name s then Inl (Errorf ''AWS SSM parameter is absent'' [])
                else if pa_type p \<noteq> secure_string then Inl (Errorf ''AWS SSM parameter is not a SecureString'' [])
                else Inr \<lparr>cm_identity = al_identity s, cm_version = int_string (pa_version p)\<rparr>
            | Some _ \<Rightarrow> Inl (Errorf ''AWS SSM parameter is absent'' [])), w'))"

definition ssm_pinned :: "'w aws_ssm_api \<Rightarrow> aws_location \<Rightarrow> string \<Rightarrow> ('w, string) op" where
  "ssm_pinned api s version w =
     (case pm_get api (al_name s @ '':'' @ version) w of
        (Inr (Some p), w') \<Rightarrow>
          (case pa_value p of
             Some t \<Rightarrow> (if pa_type p = secure_string \<and> int_string (pa_version p) = version then Inr t else Inl no_pinned_version, w')
           | None \<Rightarrow> (Inl no_pinned_version, w'))
      | (_, w') \<Rightarrow> (Inl no_pinned_version, w'))"

definition awsSSMStore :: "'w aws_ssm_api \<Rightarrow> aws_location \<Rightarrow> 'w cloud_store" where
  "awsSSMStore api s =
     \<lparr>st_create = ssm_CreateOrAdopt api s, st_metadata = ssm_Metadata api s, st_value = ssm_pinned api s\<rparr>"

section \<open>Google Secret Manager\<close>

record gcp_location =
  gl_parent :: string
  gl_id :: string
  gl_name :: string
  gl_identity :: string
  gl_labels :: "string gomap"

definition gcpSecretWinner :: "string \<Rightarrow> gcp_payload option \<Rightarrow> (cloud_metadata \<times> string) result" where
  "gcpSecretWinner identity winner =
     (case winner of
        Some p \<Rightarrow>
          (case gp_data p of
             Some d \<Rightarrow>
               if gp_name p = [] \<or> d = []
               then Inl (Errorf ''adopt existing GCP secret current version: backend returned an empty value or version name'' [])
               else Inr (\<lparr>cm_identity = identity, cm_version = gp_name p\<rparr>, d)
           | None \<Rightarrow> Inl (Errorf ''adopt existing GCP secret current version: backend returned an empty value or version name'' []))
      | None \<Rightarrow> Inl (Errorf ''adopt existing GCP secret current version: backend returned an empty value or version name'' []))"

definition latest_version :: "gcp_location \<Rightarrow> string" where
  "latest_version s = gl_name s @ ''/versions/latest''"

definition adopt_gcp :: "'w gcp_secrets_api \<Rightarrow> gcp_location \<Rightarrow> ('w, cloud_metadata \<times> string) op" where
  "adopt_gcp api s w =
     (case gs_access api (latest_version s) w of
        (Inr winner, w') \<Rightarrow> (gcpSecretWinner (gl_identity s) winner, w')
      | (Inl (NotFound _), w') \<Rightarrow> (Inl (Errorf ''adopt existing GCP secret: no version exists; confirm no provisioning process is active, then delete the empty secret and retry'' []), w')
      | (Inl e, w') \<Rightarrow> (Inl (Wrapf ''adopt existing GCP secret current version: %w'' [] (api_cause e)), w'))"

definition add_first_version :: "'w gcp_secrets_api \<Rightarrow> gcp_location \<Rightarrow> string \<Rightarrow> ('w, cloud_metadata \<times> string) op" where
  "add_first_version api s v w =
     (case gs_add api (gl_name s) v w of
        (Inr out, w') \<Rightarrow>
          ((case out of
              None \<Rightarrow> Inl (Errorf ''add initial GCP secret version: backend returned no version'' [])
            | Some version \<Rightarrow>
                if version = [] then Inl (Errorf ''add initial GCP secret version: backend returned no version'' [])
                else Inr (\<lparr>cm_identity = gl_identity s, cm_version = version\<rparr>, v)), w')
      | (Inl e, w') \<Rightarrow>
          (case gs_access api (latest_version s) w' of
             (Inr winner, w'') \<Rightarrow> (gcpSecretWinner (gl_identity s) winner, w'')
           | (Inl _, w'') \<Rightarrow> (Inl (Wrapf ''add initial GCP secret version: %w; the result is indeterminate and the empty secret must not be reused automatically'' [] (api_cause e)), w'')))"

definition gcp_CreateOrAdopt :: "'w gcp_secrets_api \<Rightarrow> gcp_location \<Rightarrow> string \<Rightarrow> ('w, cloud_metadata \<times> string) op" where
  "gcp_CreateOrAdopt api s v w =
     (if \<not> utf8_valid v then (Inl not_utf8, w)
      else case gs_create api (gl_parent s) (gl_id s) (\<not> go_contains (gl_parent s) ''/locations/'') (gl_labels s) w of
        (Inl (AlreadyExists _), w') \<Rightarrow> adopt_gcp api s w'
      | (Inl e, w') \<Rightarrow> (Inl (Wrapf ''create GCP secret: %w'' [] (api_cause e)), w')
      | (Inr created, w') \<Rightarrow>
          if created = None \<or> created = Some [] then (Inl (Errorf ''create GCP secret: backend returned no secret'' []), w')
          else add_first_version api s v w')"

definition gcp_Metadata :: "'w gcp_secrets_api \<Rightarrow> gcp_location \<Rightarrow> ('w, cloud_metadata) op" where
  "gcp_Metadata api s w =
     (case gs_version api (latest_version s) w of
        (Inl e, w') \<Rightarrow> (Inl (Wrapf ''read GCP secret version metadata: %w'' [] (api_cause e)), w')
      | (Inr out, w') \<Rightarrow>
          ((case out of
              None \<Rightarrow> Inl (Errorf ''read GCP secret version metadata: backend returned no version'' [])
            | Some (name, enabled) \<Rightarrow>
                if name = [] then Inl (Errorf ''read GCP secret version metadata: backend returned no version'' [])
                else if \<not> enabled then Inl (Errorf ''GCP secret current version is not enabled'' [])
                else Inr \<lparr>cm_identity = gl_identity s, cm_version = name\<rparr>), w'))"

definition gcp_pinned :: "'w gcp_secrets_api \<Rightarrow> gcp_location \<Rightarrow> string \<Rightarrow> ('w, string) op" where
  "gcp_pinned api s version w =
     (if \<not> has_prefix version (gl_name s @ ''/versions/'') \<or> has_suffix version ''/latest'' then (Inl no_pinned_version, w)
      else case gs_access api version w of
        (Inr (Some p), w') \<Rightarrow>
          (case gp_data p of
             Some d \<Rightarrow> (if gp_name p = version \<and> d \<noteq> [] then Inr d else Inl no_pinned_version, w')
           | None \<Rightarrow> (Inl no_pinned_version, w'))
      | (_, w') \<Rightarrow> (Inl no_pinned_version, w'))"

definition gcpSecretStore :: "'w gcp_secrets_api \<Rightarrow> gcp_location \<Rightarrow> 'w cloud_store" where
  "gcpSecretStore api s =
     \<lparr>st_create = gcp_CreateOrAdopt api s, st_metadata = gcp_Metadata api s, st_value = gcp_pinned api s\<rparr>"

end
