(* ===== verification/KeyResources.thy ===== *)
theory KeyResources
  imports CloudSecrets
begin

text \<open>
  The key resources of the Terraform provider (\<open>internal/tfprovider\<close>: \<open>workload_ca_key.go\<close>,
  \<open>resource_workload_ca_key.go\<close>, \<open>nstance_registration_key.go\<close>, \<open>resource_service_account_key.go\<close>): where a key is
  kept, and what creating, reading, updating and deleting the resource does. An error diagnostic with its summary is an
  error that wraps the detail. Generating and encoding keys is a parameter.
\<close>

section \<open>Opening a store\<close>

text \<open>
  The clients of the clouds: for AWS by region and profile, for Google by the location of a regional endpoint and the
  quota project.
\<close>

record 'w clouds =
  cloud_aws :: "string \<Rightarrow> string \<Rightarrow> ('w, 'w aws_secrets_api \<times> 'w aws_ssm_api) op"
  cloud_gcp :: "string option \<Rightarrow> string \<Rightarrow> ('w, 'w gcp_secrets_api) op"

definition aws_location_of :: "cloud_secret_options \<Rightarrow> aws_location" where
  "aws_location_of opts = \<lparr>al_name = cs_name opts, al_identity = Identity opts, al_tags = cs_tags opts\<rparr>"

definition gcp_regional :: "string list \<Rightarrow> bool" where
  "gcp_regional parts \<longleftrightarrow> length parts = 6 \<and> parts ! 2 = ''locations'' \<and> parts ! 3 \<noteq> []"

definition gcp_location_of :: "cloud_secret_options \<Rightarrow> gcp_location" where
  "gcp_location_of opts =
     (let parts = go_split CHR ''/'' (cs_name opts) in
      \<lparr>gl_parent = go_join CHR ''/'' (take (length parts - 2) parts), gl_id = last parts, gl_name = cs_name opts,
       gl_identity = Identity opts, gl_labels = cs_labels opts\<rparr>)"

definition gcp_name_ok :: "string \<Rightarrow> bool" where
  "gcp_name_ok name \<longleftrightarrow>
     (let parts = go_split CHR ''/'' name in
      (length parts = 4 \<or> gcp_regional parts) \<and> parts ! 0 = ''projects'' \<and> parts ! 1 \<noteq> [] \<and>
      parts ! (length parts - 2) = ''secrets'' \<and> last parts \<noteq> [])"

definition gcp_region :: "string \<Rightarrow> string option" where
  "gcp_region name = (let parts = go_split CHR ''/'' name in if gcp_regional parts then Some (parts ! 3) else None)"

definition newCloudSecretStore :: "'w clouds \<Rightarrow> cloud_secret_options \<Rightarrow> ('w, 'w cloud_store) op" where
  "newCloudSecretStore clouds opts =
     (if cs_name opts = [] then liftS (Inl (Errorf ''secret name is required'' []))
      else if cs_provider opts = aws_secrets_manager \<or> cs_provider opts = aws_parameter_store then
        bindS (wrapS ''load AWS configuration: %w'' [] (cloud_aws clouds (cs_region opts) (cs_profile opts))) (\<lambda>(secrets, ssm).
          liftS (Inr (if cs_provider opts = aws_secrets_manager then awsSecretsStore secrets (aws_location_of opts)
            else awsSSMStore ssm (aws_location_of opts))))
      else if cs_provider opts = google_secret_manager then
        (if \<not> gcp_name_ok (cs_name opts) then liftS (Inl (Errorf ''invalid GCP Secret Manager name %q'' [S (cs_name opts)]))
         else bindS (wrapS ''create GCP Secret Manager client: %w'' [] (cloud_gcp clouds (gcp_region (cs_name opts)) (cs_project opts))) (\<lambda>api.
           liftS (Inr (gcpSecretStore api (gcp_location_of opts)))))
      else liftS (Inl (Errorf ''unsupported provider %q'' [S (cs_provider opts)])))"

section \<open>Keys\<close>

text \<open>A private key by its algorithm, with its public part: the curve of ECDSA, the bits of RSA and whether it is valid.\<close>

datatype private_key = Ed25519 string | Ecdsa string string | Rsa nat bool string | OtherKey string

record pem_block =
  pb_type :: string
  pb_bytes :: string

record 'w key_env =
  ke_ed25519 :: "'w \<Rightarrow> private_key result"
  ke_ecdsa :: "'w \<Rightarrow> private_key result"
  ke_signing :: "'w \<Rightarrow> string result"
  ke_random :: "'w \<Rightarrow> nat \<Rightarrow> char"
  ke_pkcs8 :: "private_key \<Rightarrow> string result"
  ke_parse :: "string \<Rightarrow> private_key result"
  ke_public :: "private_key \<Rightarrow> string result"
  ke_pem :: "pem_block \<Rightarrow> string"
  ke_pem_decode :: "string \<Rightarrow> (pem_block \<times> string) option"
  ke_sha256 :: "string \<Rightarrow> string"
  ke_signing_fingerprint :: "string \<Rightarrow> string result"
  ke_jwks :: "string \<Rightarrow> private_key \<Rightarrow> string \<Rightarrow> string result"

text \<open>A value that depends on the state of the world, such as random bytes, and leaves it as it is.\<close>

definition drawS :: "('w \<Rightarrow> 'a result) \<Rightarrow> ('w, 'a) op" where
  "drawS f w = (f w, w)"

definition generateWorkloadCAKey :: "'w key_env \<Rightarrow> ('w, string) op" where
  "generateWorkloadCAKey env =
     bindS (wrapS ''generate Ed25519 key: %w'' [] (drawS (ke_ed25519 env))) (\<lambda>key.
     bindS (wrapS ''marshal PKCS#8 key: %w'' [] (liftS (ke_pkcs8 env key))) (\<lambda>der.
     liftS (Inr (ke_pem env \<lparr>pb_type = ''PRIVATE KEY'', pb_bytes = der\<rparr>))))"

definition wrapR :: "string \<Rightarrow> goarg list \<Rightarrow> 'a result \<Rightarrow> 'a result" where
  "wrapR f as r = map_sum (Wrapf f as) id r"

definition private_block :: "'w key_env \<Rightarrow> string \<Rightarrow> pem_block option" where
  "private_block env value =
     (case ke_pem_decode env value of
        Some (b, rest) \<Rightarrow> if pb_type b \<noteq> ''PRIVATE KEY'' \<or> trim_space rest \<noteq> [] then None else Some b
      | None \<Rightarrow> None)"

definition workloadCAKeyFingerprint :: "'w key_env \<Rightarrow> string \<Rightarrow> string result" where
  "workloadCAKeyFingerprint env value =
     (case private_block env value of
        None \<Rightarrow> Inl (Errorf ''value must contain exactly one unencrypted PKCS#8 private key PEM block'' [])
      | Some b \<Rightarrow>
          bindR (wrapR ''parse PKCS#8 private key: %w'' [] (ke_parse env (pb_bytes b))) (\<lambda>key.
            (case key of
               Ed25519 _ \<Rightarrow>
                 bindR (wrapR ''marshal public key: %w'' [] (ke_public env key)) (\<lambda>der. Inr (hex_string (ke_sha256 env der)))
             | _ \<Rightarrow> Inl (Errorf ''PKCS#8 private key is not Ed25519'' []))))"

section \<open>Terraform strings\<close>

datatype tf_string = TfNull | TfUnknown | TfKnown string

definition stringOr :: "tf_string \<Rightarrow> string \<Rightarrow> string" where
  "stringOr v fallback = (case v of TfKnown s \<Rightarrow> s | _ \<Rightarrow> fallback)"

definition value_string :: "tf_string \<Rightarrow> string" where
  "value_string v = stringOr v []"

section \<open>The key of the workload CA\<close>

record workload_ca_model =
  wm_id :: tf_string
  wm_provider :: tf_string
  wm_key_prefix :: tf_string
  wm_region :: tf_string
  wm_profile :: tf_string
  wm_project :: tf_string
  wm_identity :: tf_string
  wm_version :: tf_string
  wm_fingerprint :: tf_string

record workload_ca_options =
  wo_provider :: string
  wo_key_prefix :: string
  wo_region :: string
  wo_profile :: string
  wo_project :: string

definition workloadCAKeyName :: string where "workloadCAKeyName = ''workload-ca-key''"

definition gcp_prefix_char :: "char \<Rightarrow> bool" where
  "gcp_prefix_char c \<longleftrightarrow> is_lower c \<or> (CHR ''A'' \<le> c \<and> c \<le> CHR ''Z'') \<or> is_digit c \<or> c = CHR ''-'' \<or> c = CHR ''_''"

definition workloadCAKeySecret :: "workload_ca_options \<Rightarrow> cloud_secret_options result" where
  "workloadCAKeySecret opts =
     (let prefix = go_trim ''/'' (wo_key_prefix opts);
          aws = \<lparr>cs_provider = wo_provider opts, cs_name = ''/'' @ prefix @ ''/'' @ workloadCAKeyName, cs_region = wo_region opts,
            cs_profile = wo_profile opts, cs_project = [], cs_labels = [], cs_tags = []\<rparr>
      in if prefix = [] \<or> prefix \<noteq> wo_key_prefix opts \<or> go_contains prefix ''//''
         then Inl (Errorf ''key_prefix must contain a canonical non-empty provider key prefix'' [])
         else if wo_provider opts = aws_secrets_manager \<or> wo_provider opts = aws_parameter_store then Inr aws
         else if wo_provider opts = google_secret_manager then
           (if wo_project opts = [] then Inl (Errorf ''project is required for google-secret-manager'' [])
            else if go_contains prefix ''/'' then Inl (Errorf ''GCP key_prefix must not contain a slash'' [])
            else if \<not> list_all gcp_prefix_char prefix
            then Inl (Errorf ''GCP key_prefix may contain only letters, digits, hyphens, and underscores'' [])
            else Inr \<lparr>cs_provider = wo_provider opts, cs_name = ''projects/'' @ wo_project opts @ ''/secrets/'' @ prefix @ ''_'' @ workloadCAKeyName,
              cs_region = [], cs_profile = [], cs_project = wo_project opts, cs_labels = [(''podplane-workload-ca-key'', ''true'')], cs_tags = []\<rparr>)
         else Inl (Errorf ''provider must be one of aws-secrets-manager, aws-parameter-store, or google-secret-manager'' []))"

definition workloadCAOptions :: "workload_ca_model \<Rightarrow> workload_ca_options" where
  "workloadCAOptions m =
     \<lparr>wo_provider = stringOr (wm_provider m) [], wo_key_prefix = stringOr (wm_key_prefix m) [], wo_region = stringOr (wm_region m) [],
      wo_profile = stringOr (wm_profile m) [], wo_project = stringOr (wm_project m) []\<rparr>"

text \<open>The diagnostics of \<open>ValidateConfig\<close>, in order.\<close>

definition workload_ca_validate :: "workload_ca_model \<Rightarrow> goerr list" where
  "workload_ca_validate m =
     (let opts = workloadCAOptions m; diag = Wrapf ''Invalid workload CA key configuration'' [];
          aws = (wo_provider opts = aws_secrets_manager \<or> wo_provider opts = aws_parameter_store)
      in if TfUnknown \<in> {wm_provider m, wm_key_prefix m, wm_project m, wm_region m, wm_profile m} then []
         else case workloadCAKeySecret opts of
           Inl e \<Rightarrow> [diag e]
         | Inr _ \<Rightarrow>
             (if \<not> aws \<and> (wo_region opts \<noteq> [] \<or> wo_profile opts \<noteq> [])
              then [diag (Errorf ''region and profile are only valid for AWS providers'' [])] else []) @
             (if wo_provider opts \<noteq> google_secret_manager \<and> wo_project opts \<noteq> []
              then [diag (Errorf ''project is only valid for google-secret-manager'' [])] else []))"

definition workload_ca_create :: "'w key_env \<Rightarrow> 'w clouds \<Rightarrow> workload_ca_model \<Rightarrow> ('w, workload_ca_model) op" where
  "workload_ca_create env clouds plan =
     bindS (wrapS ''Resolve workload CA key'' [] (liftS (workloadCAKeySecret (workloadCAOptions plan)))) (\<lambda>secret.
     bindS (wrapS ''Configure workload CA key backend'' [] (newCloudSecretStore clouds secret)) (\<lambda>store.
     bindS (wrapS ''Generate workload CA key'' [] (generateWorkloadCAKey env)) (\<lambda>generated.
     bindS (wrapS ''Create or adopt workload CA key'' [] (st_create store generated)) (\<lambda>(metadata, winner).
     bindS (wrapS ''Validate workload CA key'' [] (liftS (workloadCAKeyFingerprint env winner))) (\<lambda>fingerprint.
     liftS (if cm_identity metadata \<noteq> Identity secret
       then Inl (Wrapf ''Validate workload CA key identity'' [] (Errorf ''backend returned a non-canonical identity'' []))
       else Inr (plan\<lparr>wm_id := TfKnown (Identity secret), wm_identity := TfKnown (Identity secret),
         wm_version := TfKnown (cm_version metadata), wm_fingerprint := TfKnown fingerprint\<rparr>)))))))"

definition workload_ca_read :: "'w clouds \<Rightarrow> workload_ca_model \<Rightarrow> ('w, workload_ca_model) op" where
  "workload_ca_read clouds s =
     bindS (wrapS ''Resolve workload CA key'' [] (liftS (workloadCAKeySecret (workloadCAOptions s)))) (\<lambda>secret.
     bindS (wrapS ''Configure workload CA key backend'' [] (newCloudSecretStore clouds secret)) (\<lambda>store.
     bindS (wrapS ''Workload CA key loss detected'' [] (st_metadata store)) (\<lambda>metadata.
     liftS (if cm_identity metadata \<noteq> value_string (wm_identity s) \<or> cm_version metadata \<noteq> value_string (wm_version s)
       then Inl (Wrapf ''Workload CA key loss detected'' []
         (Errorf ''backend identity or immutable version changed; restore %s version %s rather than replacing or rotating the key''
            [S (value_string (wm_identity s)), S (value_string (wm_version s))]))
       else Inr s))))"

definition workload_ca_update :: "('w, workload_ca_model) op" where
  "workload_ca_update = liftS (Inl (Wrapf ''Workload CA key rotation is forbidden'' []
     (Errorf ''This resource has no update path; all configuration is immutable and key replacement requires an explicit out-of-band rollover.'' [])))"

text \<open>Deleting removes the state and leaves the backend alone.\<close>

definition workload_ca_delete :: "('w, workload_ca_model option) op" where
  "workload_ca_delete = liftS (Inr None)"

section \<open>The registration key of Nstance\<close>

definition nstanceSecret :: "string \<Rightarrow> string \<Rightarrow> string \<Rightarrow> string \<Rightarrow> string \<Rightarrow> string \<Rightarrow> cloud_secret_options result" where
  "nstanceSecret provider pre name region profile project =
     (let opts = \<lparr>cs_provider = provider, cs_name = [], cs_region = region, cs_profile = profile, cs_project = project,
            cs_labels = [], cs_tags = []\<rparr>
      in if pre = [] then Inl (Errorf ''secret_prefix must be non-empty'' [])
         else if provider = aws_parameter_store \<or> provider = aws_secrets_manager then
           (if project \<noteq> [] then Inl (Errorf ''project is only valid for google-secret-manager'' [])
            else Inr (opts\<lparr>cs_name := pre @ name\<rparr>))
         else if provider = google_secret_manager then
           (if project = [] \<or> go_contains project ''/'' \<or> region \<noteq> [] \<or> profile \<noteq> []
            then Inl (Errorf ''google-secret-manager requires project and does not accept region or profile'' [])
            else if \<not> list_all gcp_prefix_char pre
            then Inl (Errorf ''secret_prefix for Google must contain only letters, digits, hyphens, and underscores'' [])
            else Inr (opts\<lparr>cs_name := ''projects/'' @ project @ ''/secrets/'' @ pre @
              map (\<lambda>c. if c = CHR ''.'' then CHR ''-'' else c) name\<rparr>))
         else Inl (Errorf ''provider must be aws-parameter-store, aws-secrets-manager, or google-secret-manager'' []))"

record registration_model =
  rm_id :: tf_string
  rm_provider :: tf_string
  rm_secret_prefix :: tf_string
  rm_region :: tf_string
  rm_profile :: tf_string
  rm_project :: tf_string
  rm_version :: tf_string
  rm_fingerprint :: tf_string

definition nstanceKeyOptions :: "registration_model \<Rightarrow> cloud_secret_options result" where
  "nstanceKeyOptions m =
     nstanceSecret (stringOr (rm_provider m) aws_parameter_store) (value_string (rm_secret_prefix m)) ''registration-nonce.key''
       (stringOr (rm_region m) []) (stringOr (rm_profile m) []) (stringOr (rm_project m) [])"

definition registration_validate :: "registration_model \<Rightarrow> goerr list" where
  "registration_validate m =
     (if TfUnknown \<in> {rm_provider m, rm_secret_prefix m, rm_region m, rm_profile m, rm_project m} then []
      else case nstanceKeyOptions m of Inl e \<Rightarrow> [Wrapf ''Invalid Nstance signer configuration'' [] e] | Inr _ \<Rightarrow> [])"

text \<open>An error of which only the text given here is reported.\<close>

definition reportS :: "goerr \<Rightarrow> ('w, 'a) op \<Rightarrow> ('w, 'a) op" where
  "reportS e m w = (case m w of (Inl _, w') \<Rightarrow> (Inl e, w') | (Inr x, w') \<Rightarrow> (Inr x, w'))"

definition createNstanceSigningKey :: "'w key_env \<Rightarrow> 'w cloud_store \<Rightarrow> ('w, cloud_metadata \<times> string) op" where
  "createNstanceSigningKey env store =
     bindS (reportS (Errorf ''cannot generate Ed25519 signing key'' []) (drawS (ke_signing env))) (\<lambda>generated.
     bindS (reportS (Errorf ''cannot create or adopt signing key; check backend permissions and availability; an existing empty Google secret must be resolved manually, never populated or rotated automatically'' [])
       (st_create store generated)) (\<lambda>(meta, winner).
     bindS (reportS (Errorf ''existing signing key is not a PKCS#8 Ed25519 private key; restore the original key instead of replacing it'' [])
       (liftS (ke_signing_fingerprint env winner))) (\<lambda>fingerprint.
     liftS (Inr (meta, fingerprint)))))"

definition registration_create :: "'w key_env \<Rightarrow> 'w clouds \<Rightarrow> registration_model \<Rightarrow> ('w, registration_model) op" where
  "registration_create env clouds m =
     bindS (wrapS ''Invalid Nstance signer configuration'' [] (liftS (nstanceKeyOptions m))) (\<lambda>opts.
     bindS (reportS (Wrapf ''Configure Nstance signer backend'' []
         (Errorf ''Cannot configure the cloud secret backend; check credentials and backend configuration.'' []))
       (newCloudSecretStore clouds opts)) (\<lambda>store.
     bindS (wrapS ''Create or adopt Nstance signer'' [] (createNstanceSigningKey env store)) (\<lambda>(meta, fingerprint).
     liftS (if cm_identity meta \<noteq> Identity opts
       then Inl (Wrapf ''Invalid Nstance signer identity'' [] (Errorf ''The backend returned an unexpected identity.'' []))
       else Inr (m\<lparr>rm_id := TfKnown (cm_identity meta), rm_version := TfKnown (cm_version meta),
         rm_fingerprint := TfKnown fingerprint\<rparr>)))))"

definition signer_loss :: "string \<Rightarrow> string \<Rightarrow> goerr" where
  "signer_loss summary detail = Wrapf summary [] (Errorf detail [])"

definition registration_read :: "'w clouds \<Rightarrow> registration_model \<Rightarrow> ('w, registration_model) op" where
  "registration_read clouds m =
     (let loss = signer_loss ''Nstance signer loss detected''
            ''Cannot verify the recorded key identity and immutable version. Restore the original key; Terraform must not replace or rotate it.''
      in bindS (wrapS ''Invalid Nstance signer configuration'' [] (liftS (nstanceKeyOptions m))) (\<lambda>opts.
         bindS (reportS (Wrapf ''Configure Nstance signer backend'' [] (Errorf ''Cannot configure the cloud secret backend.'' []))
           (newCloudSecretStore clouds opts)) (\<lambda>store.
         bindS (reportS loss (st_metadata store)) (\<lambda>meta.
         liftS (if cm_identity meta \<noteq> value_string (rm_id m) \<or> cm_version meta \<noteq> value_string (rm_version m)
           then Inl loss else Inr m)))))"

definition registration_update :: "('w, registration_model) op" where
  "registration_update = liftS (Inl (Wrapf ''Nstance signer rotation forbidden'' []
     (Errorf ''The signing key has no update path. Rollover requires an explicit out-of-band operation.'' [])))"

definition registration_delete :: "('w, registration_model option) op" where
  "registration_delete = liftS (Inr None)"

section \<open>The key of the service accounts\<close>

record account_key_model =
  am_id :: tf_string
  am_provider :: tf_string
  am_secret_prefix :: tf_string
  am_region :: tf_string
  am_profile :: tf_string
  am_project :: tf_string
  am_version :: tf_string
  am_public :: tf_string
  am_jwks :: tf_string

definition account_key_options :: "account_key_model \<Rightarrow> cloud_secret_options result" where
  "account_key_options m =
     nstanceSecret (value_string (am_provider m)) (value_string (am_secret_prefix m)) ''service-accounts.key''
       (value_string (am_region m)) (value_string (am_profile m)) (value_string (am_project m))"

definition account_key_validate :: "account_key_model \<Rightarrow> goerr list" where
  "account_key_validate m =
     (if TfUnknown \<in> {am_provider m, am_secret_prefix m, am_region m, am_profile m, am_project m} then []
      else case account_key_options m of Inl e \<Rightarrow> [Wrapf ''Invalid ServiceAccount signer configuration'' [] e] | Inr _ \<Rightarrow> [])"

text \<open>The algorithm of an existing signer that may be kept.\<close>

definition signer_algorithm :: "private_key \<Rightarrow> string result" where
  "signer_algorithm key =
     (case key of
        Ecdsa curve _ \<Rightarrow>
          if curve \<noteq> ''P-256'' then Inl (Errorf ''existing ECDSA signer must use P-256 for Google STS compatibility'' []) else Inr ''ES256''
      | Rsa bits valid _ \<Rightarrow>
          if bits < 2048 \<or> \<not> valid
          then Inl (Errorf ''existing signer must be a valid RSA key of at least 2048 bits; restore the original key'' []) else Inr ''RS256''
      | _ \<Rightarrow> Inl (Errorf ''existing signer must be ECDSA P-256 or RSA; restore the original key'' []))"

definition replaceR :: "goerr \<Rightarrow> 'a result \<Rightarrow> 'a result" where
  "replaceR e r = map_sum (\<lambda>_. e) id r"

definition serviceAccountPublicKey :: "'w key_env \<Rightarrow> string \<Rightarrow> (string \<times> string) result" where
  "serviceAccountPublicKey env value =
     (case private_block env value of
        None \<Rightarrow> Inl (Errorf ''existing signer must be a PKCS#8 private key; restore the original key'' [])
      | Some b \<Rightarrow>
          bindR (replaceR (Errorf ''cannot parse existing signer; restore the original key'' []) (ke_parse env (pb_bytes b))) (\<lambda>key.
          bindR (signer_algorithm key) (\<lambda>algorithm.
          bindR (replaceR (Errorf ''cannot encode verification key'' []) (ke_public env key)) (\<lambda>der.
          bindR (replaceR (Errorf ''cannot encode JWKS'' []) (ke_jwks env algorithm key (rawurl_encode (ke_sha256 env der)))) (\<lambda>jwks.
            Inr (ke_pem env \<lparr>pb_type = ''PUBLIC KEY'', pb_bytes = der\<rparr>, jwks))))))"

definition generate_account_key :: "'w key_env \<Rightarrow> ('w, string) op" where
  "generate_account_key env =
     bindS (reportS (Wrapf ''Generate ServiceAccount signer'' [] (Errorf ''Cannot generate ECDSA P-256 key.'' [])) (drawS (ke_ecdsa env))) (\<lambda>key.
     bindS (reportS (Wrapf ''Encode ServiceAccount signer'' [] (Errorf ''Cannot encode ECDSA key.'' [])) (liftS (ke_pkcs8 env key))) (\<lambda>der.
     liftS (Inr (ke_pem env \<lparr>pb_type = ''PRIVATE KEY'', pb_bytes = der\<rparr>))))"

definition account_key_create :: "'w key_env \<Rightarrow> 'w clouds \<Rightarrow> account_key_model \<Rightarrow> ('w, account_key_model) op" where
  "account_key_create env clouds m =
     bindS (wrapS ''Invalid ServiceAccount signer configuration'' [] (liftS (account_key_options m))) (\<lambda>opts.
     bindS (reportS (Wrapf ''Configure ServiceAccount signer backend'' []
         (Errorf ''Cannot configure the cloud secret backend; check credentials and configuration.'' []))
       (newCloudSecretStore clouds opts)) (\<lambda>store.
     bindS (generate_account_key env) (\<lambda>generated.
     bindS (reportS (Wrapf ''Create or adopt ServiceAccount signer'' []
         (Errorf ''Cannot create or adopt signing key. Check backend permissions and availability; an empty reserved Google secret requires manual recovery, not automatic replacement.'' []))
       (st_create store generated)) (\<lambda>(meta, winner).
     bindS (wrapS ''Validate ServiceAccount signer'' [] (liftS (serviceAccountPublicKey env winner))) (\<lambda>(public, jwks).
     liftS (if cm_identity meta \<noteq> Identity opts
       then Inl (Wrapf ''Invalid ServiceAccount signer identity'' [] (Errorf ''Backend returned an unexpected identity.'' []))
       else Inr (m\<lparr>am_id := TfKnown (cm_identity meta), am_version := TfKnown (cm_version meta),
         am_public := TfKnown public, am_jwks := TfKnown jwks\<rparr>)))))))"

definition account_key_read :: "'w clouds \<Rightarrow> account_key_model \<Rightarrow> ('w, account_key_model) op" where
  "account_key_read clouds m =
     (let loss = signer_loss ''ServiceAccount signer loss detected''
            ''Cannot verify the recorded key identity and immutable version. Restore the original key; no automatic replacement or rotation is performed.''
      in bindS (wrapS ''Invalid ServiceAccount signer configuration'' [] (liftS (account_key_options m))) (\<lambda>opts.
         bindS (reportS (Wrapf ''Configure ServiceAccount signer backend'' [] (Errorf ''Cannot configure the cloud secret backend.'' []))
           (newCloudSecretStore clouds opts)) (\<lambda>store.
         bindS (reportS loss (st_metadata store)) (\<lambda>meta.
         liftS (if cm_identity meta \<noteq> value_string (am_id m) \<or> cm_version meta \<noteq> value_string (am_version m)
           then Inl loss else Inr m)))))"

definition account_key_update :: "('w, account_key_model) op" where
  "account_key_update = liftS (Inl (Wrapf ''ServiceAccount signer rotation forbidden'' []
     (Errorf ''All configuration is immutable; rollover requires an explicit out-of-band operation.'' [])))"

definition account_key_delete :: "('w, account_key_model option) op" where
  "account_key_delete = liftS (Inr None)"

section \<open>The secrets of components\<close>

text \<open>\<open>path.Join\<close>: the elements that are not empty, joined and cleaned.\<close>

definition clean_segment :: "bool \<Rightarrow> string list \<Rightarrow> string \<Rightarrow> string list" where
  "clean_segment rooted acc s =
     (if s = [] \<or> s = ''.'' then acc
      else if s \<noteq> ''..'' then acc @ [s]
      else if acc \<noteq> [] \<and> last acc \<noteq> ''..'' then butlast acc
      else if rooted then acc else acc @ [s])"

definition path_clean :: "string \<Rightarrow> string" where
  "path_clean p =
     (let rooted = (p \<noteq> [] \<and> hd p = CHR ''/'');
          cleaned = (if rooted then ''/'' else []) @ go_join CHR ''/'' (foldl (clean_segment rooted) [] (go_split CHR ''/'' p))
      in if cleaned = [] then ''.'' else cleaned)"

definition path_Join :: "string list \<Rightarrow> string" where
  "path_Join elems =
     (let parts = filter (\<lambda>e. e \<noteq> []) elems in if parts = [] then [] else path_clean (go_join CHR ''/'' parts))"

definition KeyPath :: "provision \<Rightarrow> string" where
  "KeyPath r = path_Join [sv_key_prefix (pv_provider r), pv_namespace r, pv_binding r, pv_key r]"

definition discovery_labels :: "string \<Rightarrow> string \<Rightarrow> string \<Rightarrow> provision \<Rightarrow> string gomap" where
  "discovery_labels a b c r = [(a, sv_key_prefix (pv_provider r)), (b, pv_namespace r), (c, pv_binding r)]"

definition componentSecretOptions :: "string \<Rightarrow> string \<Rightarrow> provision \<Rightarrow> cloud_secret_options result" where
  "componentSecretOptions region profile r =
     (let provider = pv_provider r;
          secret = \<lparr>cs_provider = [], cs_name = [], cs_region = (if sv_region provider = [] then region else sv_region provider),
            cs_profile = profile, cs_project = [], cs_labels = [], cs_tags = []\<rparr>
      in if sv_kind provider = ''aws'' then
           Inr (secret\<lparr>cs_name := ''/'' @ KeyPath r,
             cs_provider := (if sv_object_type provider = ''ssmparameter'' then aws_parameter_store else aws_secrets_manager),
             cs_tags := discovery_labels ''podplane.dev/cluster-prefix'' ''podplane.dev/namespace'' ''podplane.dev/binding'' r\<rparr>)
         else if sv_kind provider = ''gcp'' then
           Inr (secret\<lparr>cs_provider := google_secret_manager, cs_project := sv_project_id provider,
             cs_name := ''projects/'' @ sv_project_id provider @
               (if sv_location provider \<noteq> [] then ''/locations/'' @ sv_location provider else []) @ ''/secrets/'' @
               map (\<lambda>c. if c = CHR ''/'' then CHR ''_'' else c) (KeyPath r),
             cs_labels := discovery_labels ''podplane-cluster-prefix'' ''podplane-namespace'' ''podplane-binding'' r\<rparr>)
         else Inl (Errorf ''unsupported component secrets provider kind %q'' [S (sv_kind provider)]))"

text \<open>The generator and the validator of a requirement are those of the source gateway key.\<close>

definition ensureComponentSecret :: "'w key_env \<Rightarrow> (cloud_secret_options \<Rightarrow> ('w, 'w cloud_store) op) \<Rightarrow> string \<Rightarrow> string \<Rightarrow> provision \<Rightarrow> ('w, unit) op" where
  "ensureComponentSecret env open_store region profile r =
     (if sv_kind (pv_provider r) = ''vault'' \<or> sv_kind (pv_provider r) = ''openbao'' then liftS (Inr ())
      else bindS (liftS (componentSecretOptions region profile r)) (\<lambda>secret.
        bindS (reportS (Errorf ''cannot configure component secret backend'' []) (open_store secret)) (\<lambda>store.
        bindS (wrapS ''generate component secret %q: %w'' [S (KeyPath r)] (drawS (\<lambda>w. Inr (generate_gateway_key (ke_random env w))))) (\<lambda>candidate.
        bindS (reportS (Errorf ''cannot create or adopt component secret; check backend permissions and restore any archived value'' [])
          (st_create store candidate)) (\<lambda>(_, winner).
        liftS (err_result (validate_gateway_key winner)))))))"

end
