(* ===== verification/SeedCreate.thy ===== *)
theory SeedCreate
  imports KeyResources SeedPrepare
begin

text \<open>
  Creating the seed snapshot from Terraform (\<open>internal/tfprovider/seed.go\<close>, \<open>seed_s3.go\<close>, \<open>seed_gcs.go\<close>,
  \<open>nstance_bootstrap.go\<close> and the two seed resources): the snapshot is rendered, the secrets of its components are
  provisioned, and it is published once, to be adopted ever after. What a run does to the outside is logged as events.
  Files, HTTP, JSON text, certificates, tokens and the Netsy encoding are parameters, and so is the download of a seed
  that the configuration names (\<open>internal/deps\<close>).
\<close>

section \<open>Options\<close>

record bootstrap =
  bo_provider :: string
  bo_secret_prefix :: string
  bo_signing_id :: string
  bo_signing_version :: string
  bo_fingerprint :: string
  bo_cluster_id :: string
  bo_tenant :: string
  bo_namespace :: string
  bo_ca_bucket :: string
  bo_ca_prefix :: string
  bo_ca_config_map :: string
  bo_nonce_secret :: string

record seed_options =
  sd_config_path :: string
  sd_seed_path :: string
  sd_values_file :: string
  sd_values_content :: string
  sd_bucket :: string
  sd_prefix :: string
  sd_region :: string
  sd_profile :: string
  sd_project :: string
  sd_bootstrap :: "bootstrap option"

definition netsyBootstrapObject :: string where "netsyBootstrapObject = ''bootstrap.netsy''"

definition objectPrefix :: "seed_options \<Rightarrow> string" where
  "objectPrefix opts = go_trim ''/'' (sd_prefix opts)"

definition objectKey :: "seed_options \<Rightarrow> string" where
  "objectKey opts = path_Join [objectPrefix opts, netsyBootstrapObject]"

section \<open>Where snapshots are kept\<close>

definition errSnapshotAbsent :: goerr where "errSnapshotAbsent = Sentinel ''snapshot absent''"

record snapshot_meta =
  mt_version :: string
  mt_completion :: string
  mt_encrypted :: bool

text \<open>The interface \<open>seedSnapshotStore\<close>.\<close>

record 'w seed_store =
  ss_metadata :: "('w, snapshot_meta) op"
  ss_require_empty :: "('w, unit) op"
  ss_public_ca :: "bootstrap \<Rightarrow> ('w, string) op"
  ss_upload :: "string \<Rightarrow> string \<Rightarrow> ('w, unit) op"

definition readPublicCA :: "string result \<Rightarrow> string result" where
  "readPublicCA body =
     (case body of
        Inr data \<Rightarrow> if length data > 64 * 1024 then Inl (Errorf ''cannot read Nstance public CA certificate'' []) else Inr data
      | Inl _ \<Rightarrow> Inl (Errorf ''cannot read Nstance public CA certificate'' []))"

definition ca_object :: "bootstrap \<Rightarrow> string" where
  "ca_object b = path_Join [go_trim ''/'' (bo_ca_prefix b), ''ca.crt'']"

definition list_prefix :: "string \<Rightarrow> string option" where
  "list_prefix pre = (if pre \<noteq> [] then Some (pre @ ''/'') else None)"

subsection \<open>Amazon S3\<close>

text \<open>An error of the API with its code, which is empty for other errors.\<close>

type_synonym ('w, 'a) s3_call = "'w \<Rightarrow> ((string \<times> goerr) + 'a) \<times> 'w"

record s3_head =
  hd_version :: string
  hd_etag :: string
  hd_metadata :: "string gomap"
  hd_encryption :: string

record s3_put_input =
  pi_if_none_match :: string
  pi_encryption :: string
  pi_metadata :: "string gomap"

record 'w s3_api =
  s3_head_object :: "string \<Rightarrow> string \<Rightarrow> ('w, s3_head) s3_call"
  s3_get_object :: "string \<Rightarrow> string \<Rightarrow> ('w, string result) s3_call"
  s3_list_objects :: "string \<Rightarrow> string option \<Rightarrow> ('w, int option \<times> nat) s3_call"
  s3_put_object :: "string \<Rightarrow> string \<Rightarrow> string \<Rightarrow> s3_put_input \<Rightarrow> ('w, unit) s3_call"

definition completion_key :: string where "completion_key = ''podplane-seed''"

definition lookup_string :: "string gomap \<Rightarrow> string \<Rightarrow> string" where
  "lookup_string m k = (case map_of m k of Some v \<Rightarrow> v | None \<Rightarrow> [])"

definition s3_meta :: "s3_head \<Rightarrow> snapshot_meta" where
  "s3_meta h = \<lparr>mt_version = (if hd_version h = [] then hd_etag h else hd_version h),
     mt_completion = lookup_string (hd_metadata h) completion_key, mt_encrypted = (hd_encryption h \<noteq> [])\<rparr>"

definition s3_Metadata :: "'w s3_api \<Rightarrow> seed_options \<Rightarrow> ('w, snapshot_meta) op" where
  "s3_Metadata api opts w =
     (case s3_head_object api (sd_bucket opts) (objectKey opts) w of
        (Inl (code, _), w') \<Rightarrow>
          (Inl (if code = ''NotFound'' \<or> code = ''NoSuchKey'' then errSnapshotAbsent else Errorf ''cannot read S3 seed metadata'' []), w')
      | (Inr out, w') \<Rightarrow> (Inr (s3_meta out), w'))"

definition requireEmptyS3Prefix :: "'w s3_api \<Rightarrow> string \<Rightarrow> string \<Rightarrow> ('w, unit) op" where
  "requireEmptyS3Prefix api bucket pre w =
     (case s3_list_objects api bucket (list_prefix pre) w of
        (Inl (_, e), w') \<Rightarrow> (Inl (Wrapf ''check S3 prefix s3://%s/%s is empty: %w'' [S bucket, S pre] e), w')
      | (Inr (count, n), w') \<Rightarrow>
          (if (case count of Some k \<Rightarrow> k > 0 | None \<Rightarrow> False) \<or> n > 0
           then Inl (Errorf ''S3 prefix s3://%s/%s already contains Netsy state or other objects'' [S bucket, S pre]) else Inr (), w'))"

definition s3_PublicCA :: "'w s3_api \<Rightarrow> bootstrap \<Rightarrow> ('w, string) op" where
  "s3_PublicCA api b w =
     (case s3_get_object api (bo_ca_bucket b) (ca_object b) w of
        (Inl (code, _), w') \<Rightarrow>
          (Inl (if code = ''NoSuchKey'' then errSnapshotAbsent else Errorf ''cannot read Nstance public CA from S3'' []), w')
      | (Inr body, w') \<Rightarrow> (readPublicCA body, w'))"

definition s3_Upload :: "'w s3_api \<Rightarrow> seed_options \<Rightarrow> string \<Rightarrow> string \<Rightarrow> ('w, unit) op" where
  "s3_Upload api opts snapshot completion w =
     (case s3_put_object api (sd_bucket opts) (objectKey opts) snapshot
        \<lparr>pi_if_none_match = ''*'', pi_encryption = ''AES256'', pi_metadata = [(completion_key, completion)]\<rparr> w of
        (Inl _, w') \<Rightarrow> (Inl (Errorf ''S3 create-only seed upload failed'' []), w')
      | (Inr _, w') \<Rightarrow> (Inr (), w'))"

definition s3SeedStore :: "'w s3_api \<Rightarrow> seed_options \<Rightarrow> 'w seed_store" where
  "s3SeedStore api opts =
     \<lparr>ss_metadata = s3_Metadata api opts, ss_require_empty = requireEmptyS3Prefix api (sd_bucket opts) (objectPrefix opts),
      ss_public_ca = s3_PublicCA api, ss_upload = s3_Upload api opts\<rparr>"

subsection \<open>Google Cloud Storage\<close>

record gcs_attrs =
  ga_generation :: int
  ga_metadata :: "string gomap"

text \<open>\<open>NotFound\<close> is \<open>storage.ErrObjectNotExist\<close>. The next object of a listing is there or not.\<close>

record 'w gcs_api =
  gc_attrs :: "string \<Rightarrow> string \<Rightarrow> ('w, gcs_attrs) call"
  gc_read :: "string \<Rightarrow> string \<Rightarrow> ('w, string result) call"
  gc_next :: "string \<Rightarrow> string option \<Rightarrow> ('w, bool) op"
  gc_write :: "string \<Rightarrow> string \<Rightarrow> bool \<Rightarrow> string \<Rightarrow> string gomap \<Rightarrow> ('w, unit) op"

definition gcs_meta :: "gcs_attrs \<Rightarrow> snapshot_meta" where
  "gcs_meta a = \<lparr>mt_version = int_string (ga_generation a), mt_completion = lookup_string (ga_metadata a) completion_key, mt_encrypted = True\<rparr>"

definition gcs_Metadata :: "'w gcs_api \<Rightarrow> seed_options \<Rightarrow> ('w, snapshot_meta) op" where
  "gcs_Metadata api opts w =
     (case gc_attrs api (sd_bucket opts) (objectKey opts) w of
        (Inl (NotFound _), w') \<Rightarrow> (Inl errSnapshotAbsent, w')
      | (Inl _, w') \<Rightarrow> (Inl (Errorf ''cannot read GCS seed metadata'' []), w')
      | (Inr a, w') \<Rightarrow> (Inr (gcs_meta a), w'))"

definition requireEmptyGCSPrefix :: "'w gcs_api \<Rightarrow> string \<Rightarrow> string \<Rightarrow> ('w, unit) op" where
  "requireEmptyGCSPrefix api bucket pre w =
     (case gc_next api bucket (list_prefix pre) w of
        (Inl e, w') \<Rightarrow> (Inl (Wrapf ''check GCS prefix gs://%s/%s is empty: %w'' [S bucket, S pre] e), w')
      | (Inr another, w') \<Rightarrow>
          (if another then Inl (Errorf ''GCS prefix gs://%s/%s already contains Netsy state or other objects'' [S bucket, S pre]) else Inr (), w'))"

definition gcs_PublicCA :: "'w gcs_api \<Rightarrow> bootstrap \<Rightarrow> ('w, string) op" where
  "gcs_PublicCA api b w =
     (case gc_read api (bo_ca_bucket b) (ca_object b) w of
        (Inl (NotFound _), w') \<Rightarrow> (Inl errSnapshotAbsent, w')
      | (Inl _, w') \<Rightarrow> (Inl (Errorf ''cannot read Nstance public CA from GCS'' []), w')
      | (Inr body, w') \<Rightarrow> (readPublicCA body, w'))"

definition gcs_Upload :: "'w gcs_api \<Rightarrow> seed_options \<Rightarrow> string \<Rightarrow> string \<Rightarrow> ('w, unit) op" where
  "gcs_Upload api opts snapshot completion =
     reportS (Errorf ''GCS create-only seed upload failed'' [])
       (gc_write api (sd_bucket opts) (objectKey opts) True snapshot [(completion_key, completion)])"

definition gcsSeedStore :: "'w gcs_api \<Rightarrow> seed_options \<Rightarrow> 'w seed_store" where
  "gcsSeedStore api opts =
     \<lparr>ss_metadata = gcs_Metadata api opts, ss_require_empty = requireEmptyGCSPrefix api (sd_bucket opts) (objectPrefix opts),
      ss_public_ca = gcs_PublicCA api, ss_upload = gcs_Upload api opts\<rparr>"

section \<open>The environment\<close>

text \<open>
  A CA certificate is whether it is one, and the times between which it is valid. The clock and whether the wait has
  been cancelled depend on the state of the world.
\<close>

record 'w create_env =
  se_seed :: seed_env
  se_keys :: "'w key_env"
  se_load :: "string \<Rightarrow> cluster_config result"
  se_published :: "string \<Rightarrow> string \<Rightarrow> string result"
  se_temp :: "string result"
  se_temp_dir :: "unit result"
  se_sha512 :: "string \<Rightarrow> string"
  se_standardize :: "string \<Rightarrow> string result"
  se_encode :: "seed_record list \<Rightarrow> string \<Rightarrow> string result"
  se_identity_json :: "string list \<Rightarrow> string"
  se_certificate :: "string \<Rightarrow> (bool \<times> int \<times> int) result"
  se_now :: "'w \<Rightarrow> int"
  se_cancelled :: "'w \<Rightarrow> bool"
  se_token :: "string \<Rightarrow> string \<Rightarrow> string \<Rightarrow> 'w \<Rightarrow> string result"

section \<open>The seed file\<close>

definition hex_char :: "char \<Rightarrow> bool" where
  "hex_char c \<longleftrightarrow> is_digit c \<or> (CHR ''a'' \<le> c \<and> c \<le> CHR ''f'') \<or> (CHR ''A'' \<le> c \<and> c \<le> CHR ''F'')"

text \<open>\<open>VerifySeedFile\<close>; the digest has 128 digits, so decoding fails only at one that is not hexadecimal.\<close>

definition VerifySeedFile :: "'w create_env \<Rightarrow> string result \<Rightarrow> string \<Rightarrow> unit result" where
  "VerifySeedFile env contents expected =
     (if expected = [] then Inl (Errorf ''expected seed digest is required'' [])
      else case go_cut CHR '':'' expected of
        None \<Rightarrow> Inl (Errorf ''invalid expected seed digest %q'' [S expected])
      | Some (algorithm, encoded) \<Rightarrow>
          if algorithm \<noteq> ''sha512'' \<or> length encoded \<noteq> 128 then Inl (Errorf ''invalid expected seed digest %q'' [S expected])
          else if \<not> list_all hex_char encoded
          then Inl (Wrapf ''invalid expected seed digest %q: %w'' [S expected] (Sentinel ''hex''))
          else case contents of
            Inl e \<Rightarrow> Inl (Wrapf ''open Podplane seed file for verification: %w'' [] e)
          | Inr data \<Rightarrow>
              let actual = ''sha512:'' @ hex_string (se_sha512 env data) in
              if actual \<noteq> expected then Inl (Errorf ''podplane seed file digest is %s, want %s'' [S actual, S expected]) else Inr ())"

definition ParseName :: "string \<Rightarrow> string result" where
  "ParseName value =
     (let value = (if value = [] then ''agentic'' else value) in
      if value \<in> {''none'', ''minimal'', ''platform'', ''agentic''} then Inr value
      else Inl (Errorf ''invalid cluster.seed.name %q (must be %q, %q, %q, or %q)''
        [S value, S ''none'', S ''minimal'', S ''platform'', S ''agentic'']))"

record seed_identity =
  si_name :: string
  si_version :: string
  si_digest :: string

definition ReadClusterSeed :: "'w create_env \<Rightarrow> string \<Rightarrow> seed_identity result" where
  "ReadClusterSeed env path =
     bindR (se_load env path) (\<lambda>cfg.
       let seed = cl_seed (cc_cluster cfg) in
       if se_name seed = [] then Inr \<lparr>si_name = ''none'', si_version = [], si_digest = []\<rparr>
       else bindR (ParseName (se_name seed)) (\<lambda>name. Inr \<lparr>si_name = name, si_version = se_version seed, si_digest = se_digest seed\<rparr>))"


text \<open>The published seed of the configuration, by name and version; a cluster without a seed has no path.\<close>

definition ResolveSeedPath :: "'w create_env \<Rightarrow> seed_identity \<Rightarrow> string result" where
  "ResolveSeedPath env seed =
     bindR (ParseName (si_name seed)) (\<lambda>name.
       if name = ''none'' then Inr []
       else if si_version seed = [] then Inl (Errorf ''cluster.seed.version is required when cluster.seed.name is %q'' [S name])
       else bindR (se_published env name (si_version seed)) (\<lambda>path.
         bindR (VerifySeedFile env (en_readFile (se_seed env) path) (si_digest seed)) (\<lambda>_. Inr path)))"

definition ResolveClusterSeedPath :: "'w create_env \<Rightarrow> string \<Rightarrow> string result" where
  "ResolveClusterSeedPath env path =
     bindR (ReadClusterSeed env path) (\<lambda>seed. if si_name seed = ''none'' then Inr [] else ResolveSeedPath env seed)"

text \<open>
  A seed given by a URL is downloaded to a temporary file, which the environment of the result can read. Like the
  code, anything but an HTTP or HTTPS URL with a host is a path.
\<close>

definition download_seed :: "'w create_env \<Rightarrow> string \<Rightarrow> string result" where
  "download_seed env source =
     (case en_get (se_seed env) source of
        Inl e \<Rightarrow> Inl (Wrapf ''download Podplane seed file %s: %w'' [S source] e)
      | Inr (code, status, body) \<Rightarrow>
          if code < 200 \<or> code \<ge> 300 then Inl (Errorf ''download Podplane seed file %s: HTTP %s'' [S source, S status])
          else wrapR ''write temporary seed file: %w'' [] body)"

definition resolveExplicitSeedPath :: "'w create_env \<Rightarrow> string \<Rightarrow> string \<Rightarrow> (string \<times> 'w create_env) result" where
  "resolveExplicitSeedPath env source digest =
     (case en_url (se_seed env) source of
        Some (scheme, host) \<Rightarrow>
          if host = [] \<or> (scheme \<noteq> ''http'' \<and> scheme \<noteq> ''https'')
          then bindR (VerifySeedFile env (en_readFile (se_seed env) source) digest) (\<lambda>_. Inr (source, env))
          else bindR (wrapR ''create temporary seed file: %w'' [] (se_temp env)) (\<lambda>tmp.
            bindR (download_seed env source) (\<lambda>data.
            bindR (VerifySeedFile env (Inr data) digest) (\<lambda>_.
              Inr (tmp, env\<lparr>se_seed := (se_seed env)\<lparr>en_readFile := (en_readFile (se_seed env))(tmp := Inr data)\<rparr>\<rparr>))))
      | None \<Rightarrow> bindR (VerifySeedFile env (en_readFile (se_seed env) source) digest) (\<lambda>_. Inr (source, env)))"

definition resolveSeedPath :: "'w create_env \<Rightarrow> seed_options \<Rightarrow> (string \<times> 'w create_env) result" where
  "resolveSeedPath env opts =
     (if sd_seed_path opts \<noteq> [] then
        bindR (ReadClusterSeed env (sd_config_path opts)) (\<lambda>seed. resolveExplicitSeedPath env (sd_seed_path opts) (si_digest seed))
      else bindR (wrapR ''create temporary deps cache: %w'' [] (se_temp_dir env)) (\<lambda>_.
        bindR (ResolveClusterSeedPath env (sd_config_path opts)) (\<lambda>path. Inr (path, env))))"

section \<open>The bootstrap of the operator\<close>

definition bootstrap_secret :: "seed_options \<Rightarrow> bootstrap \<Rightarrow> cloud_secret_options result" where
  "bootstrap_secret opts b =
     bindR (nstanceSecret (bo_provider b) (bo_secret_prefix b) ''registration-nonce.key'' (sd_region opts) (sd_profile opts) (sd_project opts)) (\<lambda>secret.
       if Identity secret \<noteq> bo_signing_id b \<or> bo_signing_version b = [] \<or> length (bo_fingerprint b) \<noteq> 64
       then Inl (Errorf ''bootstrap must reference the signing-key resource's identity, version, and public-key fingerprint'' [])
       else Inr secret)"

record scope_config =
  sf_id :: string
  sf_seed :: string
  sf_providers :: "string list"

definition decode_scope :: "scope_config decoder" where
  "decode_scope = decode_struct
     [(''cluster'', decode_struct
        [(''id'', field_of sf_id sf_id_update decode_str),
         (''seed'', decode_struct [(''name'', field_of sf_seed sf_seed_update decode_str)]),
         (''providers'', field_of sf_providers sf_providers_update
            (decode_slice (decode_struct [(''kind'', decode_str)]) []))])]"

definition no_scope :: scope_config where
  "no_scope = \<lparr>sf_id = [], sf_seed = [], sf_providers = []\<rparr>"

definition read_scope :: "'w create_env \<Rightarrow> string \<Rightarrow> scope_config option result" where
  "read_scope env path =
     bindR (replaceR (Errorf ''cannot read cluster configuration for bootstrap scope'' []) (en_readFile (se_seed env) path)) (\<lambda>contents.
     bindR (replaceR (Errorf ''invalid cluster configuration for bootstrap scope'' []) (se_standardize env contents)) (\<lambda>contents.
       Inr (case en_unmarshal (se_seed env) contents of Inl _ \<Rightarrow> None | Inr j \<Rightarrow> decode_scope j no_scope)))"

definition check_scope :: "bootstrap \<Rightarrow> scope_config option \<Rightarrow> unit result" where
  "check_scope b scope =
     (case scope of
        None \<Rightarrow> Inl (Errorf ''operator bootstrap requires a matching cluster_id and a platform or agentic seed'' [])
      | Some cfg \<Rightarrow>
          if sf_id cfg \<noteq> bo_cluster_id b \<or> \<not> HasPlatformComponents (sf_seed cfg)
          then Inl (Errorf ''operator bootstrap requires a matching cluster_id and a platform or agentic seed'' [])
          else if list_ex (\<lambda>kind. kind = ''aws'' \<or> kind = ''google'') (sf_providers cfg) then Inr ()
          else Inl (Errorf ''operator bootstrap requires an AWS or Google Cloud provider'' []))"

definition validateBootstrapScope :: "'w create_env \<Rightarrow> seed_options \<Rightarrow> unit result" where
  "validateBootstrapScope env opts =
     (case sd_bootstrap opts of
        None \<Rightarrow> Inr ()
      | Some b \<Rightarrow>
          bindR (bootstrap_secret opts b) (\<lambda>_.
            if list_ex (\<lambda>v. length v > 63 \<or> \<not> label_pattern v) [bo_namespace b, bo_ca_config_map b, bo_nonce_secret b]
            then Inl (Errorf ''bootstrap namespace and object names must be DNS labels of at most 63 characters'' [])
            else if bo_cluster_id b = [] \<or> bo_tenant b = [] \<or> bo_ca_bucket b = []
            then Inl (Errorf ''bootstrap requires cluster_id, tenant, and ca_bucket'' [])
            else bindR (read_scope env (sd_config_path opts)) (check_scope b)))"

text \<open>Whether the release enables the Nstance operator; a value that does not decode changes nothing.\<close>

definition decode_enabled :: "bool gomap decoder" where
  "decode_enabled =
     decode_struct [(''spec'', decode_struct [(''values'', decode_struct [(''platform'', decode_struct [(''components'', decode_struct
       [(''apps'', decode_gomap (decode_struct [(''enabled'', decode_bool)]) False)])])])])]"

definition nstance_operator_enabled :: "bool \<Rightarrow> seed_record \<Rightarrow> bool" where
  "nstance_operator_enabled enabled r =
     (if rc_key r \<noteq> platformComponentsHelmReleaseKey then enabled
      else case Option.bind (rc_value r) (\<lambda>j. decode_enabled j []) of
        None \<Rightarrow> enabled
      | Some apps \<Rightarrow> map_of apps ''nstance-operator'' = Some True)"

definition ca_key :: "bootstrap \<Rightarrow> string" where
  "ca_key b = ''/registry/configmaps/'' @ bo_namespace b @ ''/'' @ bo_ca_config_map b"
definition nonce_key :: "bootstrap \<Rightarrow> string" where
  "nonce_key b = ''/registry/secrets/'' @ bo_namespace b @ ''/'' @ bo_nonce_secret b"
definition namespace_key :: "bootstrap \<Rightarrow> string" where
  "namespace_key b = ''/registry/namespaces/'' @ bo_namespace b"

definition new_record :: "string \<Rightarrow> fields \<Rightarrow> seed_record" where
  "new_record key obj = \<lparr>rc_key = key, rc_value = Some (JObj obj), rc_revision = 0, rc_create = 0, rc_prev = 0,
     rc_created = True, rc_version = 1, rc_leader = []\<rparr>"

definition namespace_record :: "bootstrap \<Rightarrow> seed_record" where
  "namespace_record b = new_record (namespace_key b)
     [(''apiVersion'', JStr ''v1''), (''kind'', JStr ''Namespace''), (''metadata'', JObj [(''name'', JStr (bo_namespace b))])]"

definition ca_record :: "bootstrap \<Rightarrow> string \<Rightarrow> seed_record" where
  "ca_record b ca = new_record (ca_key b)
     [(''apiVersion'', JStr ''v1''), (''data'', JObj [(''ca.crt'', JStr ca)]), (''kind'', JStr ''ConfigMap''),
      (''metadata'', JObj [(''name'', JStr (bo_ca_config_map b)), (''namespace'', JStr (bo_namespace b))])]"

definition nonce_record :: "bootstrap \<Rightarrow> string \<Rightarrow> seed_record" where
  "nonce_record b token = new_record (nonce_key b)
     [(''apiVersion'', JStr ''v1''), (''data'', JObj [(''nonce.jwt'', JStr (std_encode token))]), (''kind'', JStr ''Secret''),
      (''metadata'', JObj [(''name'', JStr (bo_nonce_secret b)), (''namespace'', JStr (bo_namespace b))]), (''type'', JStr ''Opaque'')]"

definition bootstrap_records :: "seed_record list \<Rightarrow> bootstrap \<Rightarrow> string \<Rightarrow> string \<Rightarrow> seed_record list result" where
  "bootstrap_records records b ca token =
     (if list_ex (\<lambda>r. rc_key r = ca_key b \<or> rc_key r = nonce_key b) records
      then Inl (Errorf ''generic seed already contains operator bootstrap objects; refusing to overwrite them'' [])
      else if \<not> foldl nstance_operator_enabled False records
      then Inl (Errorf ''nstance-operator provider overlay is disabled; omit nstance_bootstrap'' [])
      else Inr (map (\<lambda>(i, r). renumber i r) (enumerate 0
        (records @ (if list_ex (\<lambda>r. rc_key r = namespace_key b) records then [] else [namespace_record b]) @
         [ca_record b ca, nonce_record b token]))))"

definition addOperatorBootstrap :: "'w create_env \<Rightarrow> string \<Rightarrow> bootstrap \<Rightarrow> string \<Rightarrow> string \<Rightarrow> string result" where
  "addOperatorBootstrap env snapshot b ca token =
     bindR (replaceR (Errorf ''cannot decode cluster-specific snapshot'' []) (en_snapshot (se_seed env) snapshot)) (\<lambda>records.
     bindR (bootstrap_records records b ca token) (\<lambda>records.
       replaceR (Errorf ''cannot encode operator bootstrap snapshot'' []) (se_encode env records (bo_cluster_id b))))"

section \<open>Runs\<close>

text \<open>What a run did, in order, and whether provisioning a secret and uploading the snapshot succeeded.\<close>

datatype sevent =
    CheckedSnapshot
  | CheckedEmpty
  | ReadCA
  | OpenedKeys
  | CheckedKey
  | ReadKey
  | EnsuredComponent provision bool
  | UploadedSnapshot string string bool

record 'w srun =
  sl_events :: "sevent list"
  sl_rest :: 'w

definition seen :: "('a result \<Rightarrow> sevent) \<Rightarrow> ('w, 'a) op \<Rightarrow> ('w srun, 'a) op" where
  "seen ev m s = (case m (sl_rest s) of (r, w') \<Rightarrow> (r, \<lparr>sl_events = sl_events s @ [ev r], sl_rest = w'\<rparr>))"

definition succeeded :: "'a result \<Rightarrow> bool" where
  "succeeded r \<longleftrightarrow> (case r of Inl _ \<Rightarrow> False | Inr _ \<Rightarrow> True)"

section \<open>Adopting a snapshot\<close>

definition seed_identity_list :: "seed_options \<Rightarrow> string list" where
  "seed_identity_list opts =
     [sd_config_path opts, sd_seed_path opts, sd_values_file opts, sd_values_content opts] @
     (case sd_bootstrap opts of
        None \<Rightarrow> []
      | Some b \<Rightarrow> [bo_provider b, bo_secret_prefix b, bo_signing_id b, bo_signing_version b, bo_fingerprint b, bo_cluster_id b,
          bo_tenant b, bo_namespace b, bo_ca_bucket b, bo_ca_prefix b, bo_ca_config_map b, bo_nonce_secret b])"

definition seedCompletion :: "'w create_env \<Rightarrow> seed_options \<Rightarrow> string" where
  "seedCompletion env opts =
     ''v1-'' @ hex_string (en_sha256 (se_seed env) (se_identity_json env (seed_identity_list opts)))"

definition completes :: "'w create_env \<Rightarrow> seed_options \<Rightarrow> snapshot_meta \<Rightarrow> bool" where
  "completes env opts meta \<longleftrightarrow> mt_completion meta = seedCompletion env opts \<and> (sd_bootstrap opts \<noteq> None \<longrightarrow> mt_encrypted meta)"

definition completedSeed :: "'w create_env \<Rightarrow> seed_options \<Rightarrow> 'w seed_store \<Rightarrow> ('w srun, snapshot_meta option) op" where
  "completedSeed env opts store s =
     (case seen (\<lambda>_. CheckedSnapshot) (ss_metadata store) s of
        (Inl e, s') \<Rightarrow> (if errors_is e errSnapshotAbsent then Inr None else Inl e, s')
      | (Inr meta, s') \<Rightarrow>
          (if \<not> completes env opts meta
           then Inl (Errorf ''existing bootstrap snapshot does not match the completed seed scope or encryption contract; refusing to overwrite it'' [])
           else Inr (Some meta), s'))"

text \<open>After a failure, the snapshot that another run has completed, or the error.\<close>

definition or_winner :: "'w create_env \<Rightarrow> seed_options \<Rightarrow> 'w seed_store \<Rightarrow> goerr \<Rightarrow> ('w srun, snapshot_meta) op" where
  "or_winner env opts store e s =
     (case completedSeed env opts store s of
        (Inr (Some meta), s') \<Rightarrow> (Inr meta, s')
      | (_, s') \<Rightarrow> (Inl e, s'))"

definition when_empty :: "'w create_env \<Rightarrow> seed_options \<Rightarrow> 'w seed_store \<Rightarrow> ('w srun, snapshot_meta) op \<Rightarrow> ('w srun, snapshot_meta) op" where
  "when_empty env opts store m s =
     (case seen (\<lambda>_. CheckedEmpty) (ss_require_empty store) s of
        (Inl e, s') \<Rightarrow> or_winner env opts store e s'
      | (Inr _, s') \<Rightarrow> m s')"

section \<open>Rendering\<close>

definition render_snapshot :: "'w create_env \<Rightarrow> seed_options \<Rightarrow> (string \<times> provision list) result" where
  "render_snapshot env opts =
     bindR (validateBootstrapScope env opts) (\<lambda>_.
     bindR (resolveSeedPath env opts) (\<lambda>(path, env').
     bindR (Prepare (se_seed env') (se_load env (sd_config_path opts))
         \<lparr>so_seed_path = path, so_node_certificate = False, so_values_content = sd_values_content opts, so_values_file = sd_values_file opts\<rparr>) (\<lambda>prepared.
     bindR (ParseValues (Some (JObj (ps_values prepared)))) (\<lambda>cfg.
     bindR (RequiredSecrets cfg None) (\<lambda>required.
     bindR (wrapR ''write Netsy snapshot: %w'' [] (se_encode env (ps_records prepared) (ps_cluster prepared))) (\<lambda>snapshot.
       Inr (snapshot, required)))))))"

section \<open>The certificate of Nstance\<close>

definition check_ca :: "'w create_env \<Rightarrow> string \<Rightarrow> 'w \<Rightarrow> string result" where
  "check_ca env ca w =
     (case ke_pem_decode (se_keys env) ca of
        None \<Rightarrow> Inl (Errorf ''public Nstance ca.crt must contain one PEM CA certificate'' [])
      | Some (b, rest) \<Rightarrow>
          if pb_type b \<noteq> ''CERTIFICATE'' \<or> trim_space rest \<noteq> [] then Inl (Errorf ''public Nstance ca.crt must contain one PEM CA certificate'' [])
          else case se_certificate env (pb_bytes b) of
            Inr (is_ca, not_before, not_after) \<Rightarrow>
              if \<not> is_ca \<or> se_now env w < not_before \<or> se_now env w > not_after
              then Inl (Errorf ''public Nstance ca.crt is not a valid current CA certificate'' []) else Inr ca
          | Inl _ \<Rightarrow> Inl (Errorf ''public Nstance ca.crt is not a valid current CA certificate'' []))"

text \<open>
  The wait ends at the latest when its deadline of 5 minutes has passed, so after 150 timers of 2 seconds, or when it is
  cancelled before the next timer.
\<close>

definition ca_rounds :: nat where "ca_rounds = 150"

fun waitPublicCA :: "'w create_env \<Rightarrow> ('w srun, string) op \<Rightarrow> nat \<Rightarrow> ('w srun, string) op" where
  "waitPublicCA env read n s =
     (case read s of
        (Inr ca, s') \<Rightarrow> (check_ca env ca (sl_rest s'), s')
      | (Inl e, s') \<Rightarrow>
          if \<not> errors_is e errSnapshotAbsent then (Inl e, s')
          else if se_cancelled env (sl_rest s') then (Inl (Errorf ''timed out or cancelled waiting for Nstance public ca.crt'' []), s')
          else case n of
            0 \<Rightarrow> (Inl (Errorf ''timed out or cancelled waiting for Nstance public ca.crt'' []), s')
          | Suc n \<Rightarrow> waitPublicCA env read n s')"

section \<open>The token of the operator\<close>

datatype injected = Winner snapshot_meta | Snapshot string

definition key_changed :: goerr where
  "key_changed = Errorf ''recorded Nstance signing-key identity or version changed; restore the original key'' []"

definition fingerprint_mismatch :: goerr where
  "fingerprint_mismatch = Errorf ''recorded Nstance signing-key fingerprint mismatch; restore the original key'' []"

definition signing_key :: "'w create_env \<Rightarrow> bootstrap \<Rightarrow> 'w cloud_store \<Rightarrow> ('w srun, string) op" where
  "signing_key env b keys =
     bindS (reportS key_changed (seen (\<lambda>_. CheckedKey) (st_metadata keys))) (\<lambda>current.
     if cm_identity current \<noteq> bo_signing_id b \<or> cm_version current \<noteq> bo_signing_version b then liftS (Inl key_changed)
     else bindS (seen (\<lambda>_. ReadKey) (st_value keys (bo_signing_version b))) (\<lambda>key.
       bindS (reportS fingerprint_mismatch (liftS (ke_signing_fingerprint (se_keys env) key))) (\<lambda>fingerprint.
       liftS (if fingerprint \<noteq> bo_fingerprint b then Inl fingerprint_mismatch else Inr key))))"

definition with_token ::
  "'w create_env \<Rightarrow> seed_options \<Rightarrow> (cloud_secret_options \<Rightarrow> ('w, 'w cloud_store) op) \<Rightarrow> bootstrap \<Rightarrow> string \<Rightarrow> string \<Rightarrow> ('w srun, injected) op" where
  "with_token env opts open_keys b snapshot ca =
     bindS (liftS (bootstrap_secret opts b)) (\<lambda>secret.
     bindS (reportS (Errorf ''cannot configure Nstance signing-key backend'' []) (seen (\<lambda>_. OpenedKeys) (open_keys secret))) (\<lambda>keys.
     bindS (signing_key env b keys) (\<lambda>key.
     bindS (reportS (Errorf ''cannot generate Nstance operator registration nonce'' [])
       (drawS (\<lambda>s. se_token env key (bo_cluster_id b) (bo_tenant b) (sl_rest s)))) (\<lambda>token.
     liftS (map_sum id Snapshot (addOperatorBootstrap env snapshot b ca token))))))"

definition inject_bootstrap ::
  "'w create_env \<Rightarrow> seed_options \<Rightarrow> 'w seed_store \<Rightarrow> (cloud_secret_options \<Rightarrow> ('w, 'w cloud_store) op) \<Rightarrow> string \<Rightarrow> ('w srun, injected) op" where
  "inject_bootstrap env opts store open_keys snapshot =
     (case sd_bootstrap opts of
        None \<Rightarrow> liftS (Inr (Snapshot snapshot))
      | Some b \<Rightarrow>
          bindS (liftS (addOperatorBootstrap env snapshot b [] [])) (\<lambda>_.
          bindS (waitPublicCA env (seen (\<lambda>_. ReadCA) (ss_public_ca store b)) ca_rounds) (\<lambda>ca.
          bindS (completedSeed env opts store) (\<lambda>adopted.
            (case adopted of
               Some meta \<Rightarrow> liftS (Inr (Winner meta))
             | None \<Rightarrow> with_token env opts open_keys b snapshot ca)))))"

section \<open>Publishing\<close>

fun ensure_components ::
  "'w create_env \<Rightarrow> seed_options \<Rightarrow> (cloud_secret_options \<Rightarrow> ('w, 'w cloud_store) op) \<Rightarrow> provision list \<Rightarrow> ('w srun, unit) op" where
  "ensure_components env opts open_keys [] = liftS (Inr ())"
| "ensure_components env opts open_keys (q # qs) =
     bindS (seen (\<lambda>r. EnsuredComponent q (succeeded r)) (ensureComponentSecret (se_keys env) open_keys (sd_region opts) (sd_profile opts) q)) (\<lambda>_.
       ensure_components env opts open_keys qs)"

definition publish :: "'w create_env \<Rightarrow> seed_options \<Rightarrow> 'w seed_store \<Rightarrow> string \<Rightarrow> ('w srun, snapshot_meta) op" where
  "publish env opts store snapshot s =
     (case seen (\<lambda>r. UploadedSnapshot snapshot (seedCompletion env opts) (succeeded r)) (ss_upload store snapshot (seedCompletion env opts)) s of
        (Inl _, s') \<Rightarrow>
          or_winner env opts store (Errorf ''cannot upload create-only Netsy snapshot; retry will adopt a completed upload, never overwrite live state'' []) s'
      | (Inr _, s') \<Rightarrow>
          (case completedSeed env opts store s' of
             (Inl e, s'') \<Rightarrow> (Inl e, s'')
           | (Inr None, s'') \<Rightarrow> (Inl (Errorf ''uploaded seed metadata is not yet available; retry to adopt'' []), s'')
           | (Inr (Some meta), s'') \<Rightarrow> (Inr meta, s'')))"

definition create_new ::
  "'w create_env \<Rightarrow> seed_options \<Rightarrow> 'w seed_store \<Rightarrow> (cloud_secret_options \<Rightarrow> ('w, 'w cloud_store) op) \<Rightarrow> ('w srun, snapshot_meta) op" where
  "create_new env opts store open_keys =
     bindS (liftS (render_snapshot env opts)) (\<lambda>(snapshot, required).
     bindS (inject_bootstrap env opts store open_keys snapshot) (\<lambda>r.
       (case r of
          Winner meta \<Rightarrow> liftS (Inr meta)
        | Snapshot snapshot \<Rightarrow>
            when_empty env opts store
              (bindS (ensure_components env opts open_keys required) (\<lambda>_. publish env opts store snapshot)))))"

definition createSeed ::
  "'w create_env \<Rightarrow> seed_options \<Rightarrow> 'w seed_store \<Rightarrow> (cloud_secret_options \<Rightarrow> ('w, 'w cloud_store) op) \<Rightarrow> ('w srun, snapshot_meta) op" where
  "createSeed env opts store open_keys =
     bindS (completedSeed env opts store) (\<lambda>adopted.
       (case adopted of
          Some meta \<Rightarrow> liftS (Inr meta)
        | None \<Rightarrow> when_empty env opts store (create_new env opts store open_keys)))"

section \<open>The resources\<close>

record seed_model =
  ns_id :: tf_string
  ns_version :: tf_string
  ns_bootstrap :: "bootstrap option"
  ns_config_path :: tf_string
  ns_seed_path :: tf_string
  ns_values_file :: tf_string
  ns_values_content :: tf_string
  ns_bucket :: tf_string
  ns_prefix :: tf_string
  ns_region :: tf_string
  ns_profile :: tf_string
  ns_project :: tf_string

text \<open>The model of the S3 resource has no project, that of the GCS resource no region and no profile.\<close>

definition seedOptionsFromS3Model :: "seed_model \<Rightarrow> seed_options" where
  "seedOptionsFromS3Model m =
     \<lparr>sd_config_path = stringOr (ns_config_path m) [], sd_seed_path = stringOr (ns_seed_path m) [],
      sd_values_file = stringOr (ns_values_file m) [], sd_values_content = stringOr (ns_values_content m) [],
      sd_bucket = stringOr (ns_bucket m) [], sd_prefix = stringOr (ns_prefix m) [], sd_region = stringOr (ns_region m) [],
      sd_profile = stringOr (ns_profile m) [], sd_project = [], sd_bootstrap = ns_bootstrap m\<rparr>"

definition seedOptionsFromGCSModel :: "seed_model \<Rightarrow> seed_options" where
  "seedOptionsFromGCSModel m =
     \<lparr>sd_config_path = stringOr (ns_config_path m) [], sd_seed_path = stringOr (ns_seed_path m) [],
      sd_values_file = stringOr (ns_values_file m) [], sd_values_content = stringOr (ns_values_content m) [],
      sd_bucket = stringOr (ns_bucket m) [], sd_prefix = stringOr (ns_prefix m) [], sd_region = [], sd_profile = [],
      sd_project = stringOr (ns_project m) [], sd_bootstrap = ns_bootstrap m\<rparr>"

record 'w storages =
  sto_s3 :: "string \<Rightarrow> string \<Rightarrow> ('w, 'w s3_api) op"
  sto_gcs :: "string \<Rightarrow> ('w, 'w gcs_api) op"

definition unknown_values :: "seed_model \<Rightarrow> gerror" where
  "unknown_values plan =
     (if ns_values_content plan = TfUnknown
      then Some (Wrapf ''Resolve Netsy seed values'' [] (Errorf ''values_content must be known before creating the Netsy seed'' []))
      else if ns_values_file plan = TfUnknown
      then Some (Wrapf ''Resolve Netsy seed values'' [] (Errorf ''values_file must be known before creating the Netsy seed'' []))
      else None)"

definition seed_url :: "string \<Rightarrow> seed_options \<Rightarrow> string" where
  "seed_url scheme opts = scheme @ ''://'' @ sd_bucket opts @ ''/'' @ objectKey opts"

text \<open>What follows the opening of the storage, which is the same for both.\<close>

definition seed_create ::
  "'w create_env \<Rightarrow> 'w clouds \<Rightarrow> string \<Rightarrow> seed_options \<Rightarrow> seed_model \<Rightarrow> 'w seed_store \<Rightarrow> ('w srun, seed_model) op" where
  "seed_create env clouds scheme opts plan store =
     bindS (wrapS ''Create or adopt Netsy seed'' [] (createSeed env opts store (newCloudSecretStore clouds))) (\<lambda>meta.
       liftS (Inr (plan\<lparr>ns_version := TfKnown (mt_version meta), ns_id := TfKnown (seed_url scheme opts)\<rparr>)))"

definition on_rest :: "('w, 'a) op \<Rightarrow> ('w srun, 'a) op" where
  "on_rest m s = (case m (sl_rest s) of (r, w') \<Rightarrow> (r, s\<lparr>sl_rest := w'\<rparr>))"

definition seed_s3_create :: "'w create_env \<Rightarrow> 'w clouds \<Rightarrow> 'w storages \<Rightarrow> seed_model \<Rightarrow> ('w srun, seed_model) op" where
  "seed_s3_create env clouds storages plan =
     (let opts = seedOptionsFromS3Model plan in
      bindS (liftS (err_result (unknown_values plan))) (\<lambda>_.
      bindS (wrapS ''Configure Netsy seed storage'' [] (wrapS ''load AWS configuration: %w'' [] (on_rest (sto_s3 storages (sd_region opts) (sd_profile opts))))) (\<lambda>api.
      seed_create env clouds ''s3'' opts plan (s3SeedStore api opts))))"

definition seed_gcs_create :: "'w create_env \<Rightarrow> 'w clouds \<Rightarrow> 'w storages \<Rightarrow> seed_model \<Rightarrow> ('w srun, seed_model) op" where
  "seed_gcs_create env clouds storages plan =
     (let opts = seedOptionsFromGCSModel plan in
      bindS (liftS (err_result (unknown_values plan))) (\<lambda>_.
      bindS (wrapS ''Configure Netsy seed storage'' [] (wrapS ''create GCS client: %w'' [] (on_rest (sto_gcs storages (sd_project opts))))) (\<lambda>api.
      seed_create env clouds ''gs'' opts plan (gcsSeedStore api opts))))"

definition seed_loss :: goerr where
  "seed_loss = signer_loss ''Netsy seed loss detected''
     ''Cannot verify the original bootstrap object version. Do not re-upload a seed to an initialized cluster.''"

definition seed_check :: "'w create_env \<Rightarrow> seed_options \<Rightarrow> seed_model \<Rightarrow> 'w seed_store \<Rightarrow> ('w, seed_model) op" where
  "seed_check env opts m store =
     bindS (reportS seed_loss (ss_metadata store)) (\<lambda>meta.
       liftS (if mt_version meta \<noteq> value_string (ns_version m) \<or>
           (ns_bootstrap m \<noteq> None \<and> (mt_completion meta \<noteq> seedCompletion env opts \<or> \<not> mt_encrypted meta))
         then Inl seed_loss else Inr (m\<lparr>ns_version := TfKnown (mt_version meta)\<rparr>)))"

definition seed_s3_read :: "'w create_env \<Rightarrow> 'w storages \<Rightarrow> seed_model \<Rightarrow> ('w, seed_model) op" where
  "seed_s3_read env storages m =
     (let opts = seedOptionsFromS3Model m in
      bindS (wrapS ''Read Netsy seed metadata'' [] (wrapS ''load AWS configuration: %w'' [] (sto_s3 storages (sd_region opts) (sd_profile opts)))) (\<lambda>api.
      seed_check env opts m (s3SeedStore api opts)))"

definition seed_gcs_read :: "'w create_env \<Rightarrow> 'w storages \<Rightarrow> seed_model \<Rightarrow> ('w, seed_model) op" where
  "seed_gcs_read env storages m =
     (let opts = seedOptionsFromGCSModel m in
      bindS (wrapS ''Read Netsy seed metadata'' [] (wrapS ''create GCS client: %w'' [] (sto_gcs storages (sd_project opts)))) (\<lambda>api.
      seed_check env opts m (gcsSeedStore api opts)))"

definition seed_s3_update :: "seed_model \<Rightarrow> seed_model" where
  "seed_s3_update plan = plan\<lparr>ns_id := TfKnown (seed_url ''s3'' (seedOptionsFromS3Model plan))\<rparr>"

definition seed_gcs_update :: "seed_model \<Rightarrow> seed_model" where
  "seed_gcs_update plan = plan\<lparr>ns_id := TfKnown (seed_url ''gs'' (seedOptionsFromGCSModel plan))\<rparr>"

definition seed_delete :: "('w, seed_model option) op" where
  "seed_delete = liftS (Inr None)"

end
