(* ===== verification/CloudSecretsSpec.thy ===== *)
theory CloudSecretsSpec
  imports KeyResources
begin

text \<open>
  What a durable store promises, as the locale \<open>cloud_store_contract\<close> over the interface \<open>cloudSecretStore\<close>, and its
  three implementations. What each API is documented to do is a predicate on the API and the view \<open>cur\<close> of the world
  that gives the version and the text of the secret's current version, if it has one.
\<close>

section \<open>What the APIs are documented to do\<close>

text \<open>No call changes the current version of an existing secret.\<close>

definition keeps_current :: "('w \<Rightarrow> 'c option) \<Rightarrow> ('w \<Rightarrow> 'r \<times> 'w) \<Rightarrow> bool" where
  "keeps_current cur f \<longleftrightarrow> (\<forall>w. cur w \<noteq> None \<longrightarrow> cur (snd (f w)) = cur w)"

definition gives :: "('w \<Rightarrow> 'c option) \<Rightarrow> ('w \<Rightarrow> (api_error + 'r) \<times> 'w) \<Rightarrow> ('r \<Rightarrow> 'c \<Rightarrow> bool) \<Rightarrow> bool" where
  "gives cur f P \<longleftrightarrow> (\<forall>w r w'. f w = (Inr r, w') \<longrightarrow> (\<forall>c. P r c \<longrightarrow> cur w' = Some c))"

text \<open>
  \<open>CreateSecret\<close> succeeds for a new name only; \<open>GetSecretValue\<close> reads the current version by its stage and any version by
  its identifier, whose value never changes; \<open>DescribeSecret\<close> attaches the stage to the current version.
\<close>

definition aws_lawful :: "'w aws_secrets_api \<Rightarrow> string \<Rightarrow> ('w \<Rightarrow> (string \<times> string) option) \<Rightarrow> bool" where
  "aws_lawful api name cur \<longleftrightarrow>
     (\<forall>v tags. keeps_current cur (sm_create api name v tags)) \<and> (\<forall>sel. keeps_current cur (sm_get api name sel)) \<and> keeps_current cur (sm_describe api name) \<and>
     (\<forall>v tags. gives cur (sm_create api name v tags) (\<lambda>r c. \<exists>ver. r = Some ver \<and> ver \<noteq> [] \<and> c = (ver, v))) \<and>
     gives cur (sm_get api name (Stage ''AWSCURRENT'')) (\<lambda>r c. \<exists>x t. r = Some x \<and> av_text x = Some t \<and> c = (av_version x, t)) \<and>
     (\<forall>ver w x w' y. sm_get api name (VersionId ver) w = (Inr (Some x), w') \<and> av_version x = ver \<and> cur w' = Some (ver, y) \<longrightarrow> av_text x \<in> {None, Some y}) \<and>
     (\<forall>w vs w' ver stages. sm_describe api name w = (Inr (Some vs), w') \<and> (ver, stages) \<in> set vs \<and> ''AWSCURRENT'' \<in> set stages \<longrightarrow>
        map_option fst (cur w') = Some ver)"

text \<open>\<open>PutParameter\<close> leaves an existing parameter alone when it is not to overwrite.\<close>

definition ssm_lawful :: "'w aws_ssm_api \<Rightarrow> string \<Rightarrow> ('w \<Rightarrow> (string \<times> string) option) \<Rightarrow> bool" where
  "ssm_lawful api name cur \<longleftrightarrow>
     (\<forall>ty v tags. keeps_current cur (pm_put api name ty v False tags)) \<and> (\<forall>n. keeps_current cur (pm_get api n)) \<and> keeps_current cur (pm_describe api name) \<and>
     (\<forall>ty v over tags. gives cur (pm_put api name ty v over tags) (\<lambda>r c. \<exists>n. r = Some n \<and> c = (int_string n, v))) \<and>
     gives cur (pm_get api name) (\<lambda>r c. \<exists>p t. r = Some p \<and> pa_value p = Some t \<and> c = (int_string (pa_version p), t)) \<and>
     (\<forall>ver w p w' y. pm_get api (name @ '':'' @ ver) w = (Inr (Some p), w') \<and> int_string (pa_version p) = ver \<and> cur w' = Some (ver, y) \<longrightarrow>
        pa_value p \<in> {None, Some y}) \<and>
     (\<forall>w p w'. pm_describe api name w = (Inr (Some [p]), w') \<and> pa_name p = name \<longrightarrow> map_option fst (cur w') = Some (int_string (pa_version p)))"

text \<open>
  \<open>CreateSecret\<close> succeeds for a new secret only, which has no version and to which nobody else adds one; \<open>AddSecretVersion\<close>
  makes a new latest version, whatever the secret has.
\<close>

definition gcp_lawful :: "'w gcp_secrets_api \<Rightarrow> gcp_location \<Rightarrow> ('w \<Rightarrow> (string \<times> string) option) \<Rightarrow> bool" where
  "gcp_lawful api s cur \<longleftrightarrow>
     (\<forall>r labels. keeps_current cur (gs_create api (gl_parent s) (gl_id s) r labels)) \<and> (\<forall>n. keeps_current cur (gs_access api n)) \<and>
     keeps_current cur (gs_version api (latest_version s)) \<and>
     (\<forall>r labels w out w'. gs_create api (gl_parent s) (gl_id s) r labels w = (Inr out, w') \<longrightarrow> cur w = None \<and> cur w' = None) \<and>
     (\<forall>v. gives cur (gs_add api (gl_name s) v) (\<lambda>r c. \<exists>ver. r = Some ver \<and> ver \<noteq> [] \<and> c = (ver, v))) \<and>
     gives cur (gs_access api (latest_version s)) (\<lambda>r c. \<exists>p d. r = Some p \<and> gp_data p = Some d \<and> c = (gp_name p, d)) \<and>
     (\<forall>ver w p w' y. gs_access api ver w = (Inr (Some p), w') \<and> gp_name p = ver \<and> cur w' = Some (ver, y) \<longrightarrow> gp_data p \<in> {None, Some y}) \<and>
     (\<forall>w ver en w'. gs_version api (latest_version s) w = (Inr (Some (ver, en)), w') \<longrightarrow> map_option fst (cur w') = Some ver)"

section \<open>The contract\<close>

text \<open>What a store promises of the secret that \<open>cur\<close> sees and the identity it has in the state of Terraform.\<close>

definition cloud_store_ok :: "'w cloud_store \<Rightarrow> string \<Rightarrow> ('w \<Rightarrow> (string \<times> string) option) \<Rightarrow> bool" where
  "cloud_store_ok st ident cur \<longleftrightarrow>
     (\<forall>v. keeps_current cur (st_create st v)) \<and> keeps_current cur (st_metadata st) \<and> (\<forall>ver. keeps_current cur (st_value st ver)) \<and>
     (\<forall>v w m x w'. st_create st v w = (Inr (m, x), w') \<longrightarrow> cm_identity m = ident \<and> cur w' = Some (cm_version m, x)) \<and>
     (\<forall>w m w'. st_metadata st w = (Inr m, w') \<longrightarrow> cm_identity m = ident \<and> map_option fst (cur w') = Some (cm_version m)) \<and>
     (\<forall>ver w x w' y. st_value st ver w = (Inr x, w') \<and> cur w' = Some (ver, y) \<longrightarrow> x = y)"

locale cloud_store_contract =
  fixes store :: "'a \<Rightarrow> 'w cloud_store"
    and lawful :: "'a \<Rightarrow> ('w \<Rightarrow> (string \<times> string) option) \<Rightarrow> bool"
    and ident :: "'a \<Rightarrow> string"
  assumes create_keeps: "lawful a cur \<Longrightarrow> keeps_current cur (st_create (store a) v)"
    and metadata_keeps: "lawful a cur \<Longrightarrow> keeps_current cur (st_metadata (store a))"
    and value_keeps: "lawful a cur \<Longrightarrow> keeps_current cur (st_value (store a) ver)"
    and create_current: "lawful a cur \<Longrightarrow> st_create (store a) v w = (Inr (m, x), w') \<Longrightarrow>
      cm_identity m = ident a \<and> cur w' = Some (cm_version m, x)"
    and metadata_current: "lawful a cur \<Longrightarrow> st_metadata (store a) w = (Inr m, w') \<Longrightarrow>
      cm_identity m = ident a \<and> map_option fst (cur w') = Some (cm_version m)"
    and value_pinned: "lawful a cur \<Longrightarrow> st_value (store a) ver w = (Inr x, w') \<Longrightarrow> cur w' = Some (ver, y) \<Longrightarrow> x = y"
begin

lemma contract: "lawful a cur \<Longrightarrow> cloud_store_ok (store a) (ident a) cur"
  unfolding cloud_store_ok_def using create_keeps metadata_keeps value_keeps create_current metadata_current value_pinned by metis

end

lemmas store_split = prod.splits sum.splits option.splits if_splits api_error.splits list.splits

lemma keeps_step: "keeps_current cur f \<Longrightarrow> f w = (r, w') \<Longrightarrow> cur w = Some c \<Longrightarrow> cur w' = Some c"
  unfolding keeps_current_def by (metis option.distinct(1) snd_conv)

lemma gives_step: "gives cur f P \<Longrightarrow> f w = (Inr r, w') \<Longrightarrow> P r c \<Longrightarrow> cur w' = Some c"
  unfolding gives_def by blast

lemma keepsI: "(\<And>w r w' c. f w = (r, w') \<Longrightarrow> cur w = Some c \<Longrightarrow> cur w' = Some c) \<Longrightarrow> keeps_current cur f"
  unfolding keeps_current_def by (metis option.exhaust surjective_pairing)

section \<open>AWS Secrets Manager\<close>

lemma current_version_in: "current_version vs = Some ver \<Longrightarrow> \<exists>stages. (ver, stages) \<in> set vs \<and> ''AWSCURRENT'' \<in> set stages"
proof -
  assume "current_version vs = Some ver"
  then obtain x where "find (\<lambda>(_, stages). ''AWSCURRENT'' \<in> set stages) vs = Some x" "fst x = ver"
    by (auto simp: current_version_def)
  then show ?thesis by (cases x) (fastforce simp: find_Some_iff in_set_conv_nth)
qed

lemma aws_store:
  assumes "aws_lawful api (al_name s) cur"
  shows "keeps_current cur (aws_CreateOrAdopt api s v)" "keeps_current cur (aws_Metadata api s)" "keeps_current cur (aws_pinned api s ver)"
    "aws_CreateOrAdopt api s v w = (Inr (m, x), w') \<Longrightarrow> cm_identity m = al_identity s \<and> cur w' = Some (cm_version m, x)"
    "aws_Metadata api s w = (Inr m, w') \<Longrightarrow> cm_identity m = al_identity s \<and> map_option fst (cur w') = Some (cm_version m)"
    "aws_pinned api s ver w = (Inr x, w') \<Longrightarrow> cur w' = Some (ver, y) \<Longrightarrow> x = y"
proof -
  have k: "\<And>v tags. keeps_current cur (sm_create api (al_name s) v tags)" "\<And>sel. keeps_current cur (sm_get api (al_name s) sel)" "keeps_current cur (sm_describe api (al_name s))"
    and c: "\<And>v tags. gives cur (sm_create api (al_name s) v tags) (\<lambda>r c. \<exists>ver. r = Some ver \<and> ver \<noteq> [] \<and> c = (ver, v))"
    and g: "gives cur (sm_get api (al_name s) (Stage ''AWSCURRENT'')) (\<lambda>r c. \<exists>x t. r = Some x \<and> av_text x = Some t \<and> c = (av_version x, t))"
    and p: "\<And>ver w x w' y. sm_get api (al_name s) (VersionId ver) w = (Inr (Some x), w') \<Longrightarrow> av_version x = ver \<Longrightarrow> cur w' = Some (ver, y) \<Longrightarrow> av_text x \<in> {None, Some y}"
    and d: "\<And>w vs w' ver stages. sm_describe api (al_name s) w = (Inr (Some vs), w') \<Longrightarrow> (ver, stages) \<in> set vs \<Longrightarrow> ''AWSCURRENT'' \<in> set stages \<Longrightarrow> map_option fst (cur w') = Some ver"
    using assms unfolding aws_lawful_def by blast+
  show "keeps_current cur (aws_CreateOrAdopt api s v)"
    by (rule keepsI) (auto simp: aws_CreateOrAdopt_def adopt_aws_def split: store_split dest: keeps_step [OF k(1)] keeps_step [OF k(2)])
  show "keeps_current cur (aws_Metadata api s)"
    by (rule keepsI) (auto simp: aws_Metadata_def split: store_split dest: keeps_step [OF k(3)])
  show "keeps_current cur (aws_pinned api s ver)"
    by (rule keepsI) (auto simp: aws_pinned_def split: store_split dest: keeps_step [OF k(2)])
  show "aws_CreateOrAdopt api s v w = (Inr (m, x), w') \<Longrightarrow> cm_identity m = al_identity s \<and> cur w' = Some (cm_version m, x)"
    by (auto simp: aws_CreateOrAdopt_def adopt_aws_def split: store_split dest: gives_step [OF c] gives_step [OF g])
  show "aws_Metadata api s w = (Inr m, w') \<Longrightarrow> cm_identity m = al_identity s \<and> map_option fst (cur w') = Some (cm_version m)"
    by (auto simp: aws_Metadata_def split: store_split dest!: current_version_in dest: d)
  show "aws_pinned api s ver w = (Inr x, w') \<Longrightarrow> cur w' = Some (ver, y) \<Longrightarrow> x = y"
    by (auto simp: aws_pinned_def split: store_split dest: p)
qed

interpretation aws: cloud_store_contract "\<lambda>(api, s). awsSecretsStore api s" "\<lambda>(api, s). aws_lawful api (al_name s)" "\<lambda>(api, s). al_identity s"
  by unfold_locales (auto simp: awsSecretsStore_def aws_store(1-3) dest: aws_store(4-6))

section \<open>AWS Parameter Store\<close>

lemma ssm_store:
  assumes "ssm_lawful api (al_name s) cur"
  shows "keeps_current cur (ssm_CreateOrAdopt api s v)" "keeps_current cur (ssm_Metadata api s)" "keeps_current cur (ssm_pinned api s ver)"
    "ssm_CreateOrAdopt api s v w = (Inr (m, x), w') \<Longrightarrow> cm_identity m = al_identity s \<and> cur w' = Some (cm_version m, x)"
    "ssm_Metadata api s w = (Inr m, w') \<Longrightarrow> cm_identity m = al_identity s \<and> map_option fst (cur w') = Some (cm_version m)"
    "ssm_pinned api s ver w = (Inr x, w') \<Longrightarrow> cur w' = Some (ver, y) \<Longrightarrow> x = y"
proof -
  have k: "\<And>ty v tags. keeps_current cur (pm_put api (al_name s) ty v False tags)" "\<And>n. keeps_current cur (pm_get api n)" "keeps_current cur (pm_describe api (al_name s))"
    and c: "\<And>ty v over tags. gives cur (pm_put api (al_name s) ty v over tags) (\<lambda>r c. \<exists>n. r = Some n \<and> c = (int_string n, v))"
    and g: "gives cur (pm_get api (al_name s)) (\<lambda>r c. \<exists>p t. r = Some p \<and> pa_value p = Some t \<and> c = (int_string (pa_version p), t))"
    and p: "\<And>ver w p w' y. pm_get api (al_name s @ '':'' @ ver) w = (Inr (Some p), w') \<Longrightarrow> int_string (pa_version p) = ver \<Longrightarrow>
      cur w' = Some (ver, y) \<Longrightarrow> pa_value p \<in> {None, Some y}"
    and d: "\<And>w p w'. pm_describe api (al_name s) w = (Inr (Some [p]), w') \<Longrightarrow> pa_name p = al_name s \<Longrightarrow>
      map_option fst (cur w') = Some (int_string (pa_version p))"
    using assms unfolding ssm_lawful_def by blast+
  show "keeps_current cur (ssm_CreateOrAdopt api s v)"
    by (rule keepsI) (auto simp: ssm_CreateOrAdopt_def adopt_ssm_def split: store_split dest: keeps_step [OF k(1)] keeps_step [OF k(2)])
  show "keeps_current cur (ssm_Metadata api s)"
    by (rule keepsI) (auto simp: ssm_Metadata_def split: store_split dest: keeps_step [OF k(3)])
  show "keeps_current cur (ssm_pinned api s ver)"
    by (rule keepsI) (auto simp: ssm_pinned_def split: store_split dest: keeps_step [OF k(2)])
  show "ssm_CreateOrAdopt api s v w = (Inr (m, x), w') \<Longrightarrow> cm_identity m = al_identity s \<and> cur w' = Some (cm_version m, x)"
    by (auto simp: ssm_CreateOrAdopt_def adopt_ssm_def split: store_split dest: gives_step [OF c] gives_step [OF g])
  show "ssm_Metadata api s w = (Inr m, w') \<Longrightarrow> cm_identity m = al_identity s \<and> map_option fst (cur w') = Some (cm_version m)"
    by (auto simp: ssm_Metadata_def split: store_split dest: d)
  show "ssm_pinned api s ver w = (Inr x, w') \<Longrightarrow> cur w' = Some (ver, y) \<Longrightarrow> x = y"
    by (auto simp: ssm_pinned_def split: store_split dest: p [simplified])
qed

interpretation ssm: cloud_store_contract "\<lambda>(api, s). awsSSMStore api s" "\<lambda>(api, s). ssm_lawful api (al_name s)" "\<lambda>(api, s). al_identity s"
  by unfold_locales (auto simp: awsSSMStore_def ssm_store(1-3) dest: ssm_store(4-6))

section \<open>Google Secret Manager\<close>

lemma gcp_winner: "gcpSecretWinner ident p = Inr (m, x) \<Longrightarrow> \<exists>q. p = Some q \<and> gp_data q = Some x \<and> cm_version m = gp_name q \<and> cm_identity m = ident"
  by (auto simp: gcpSecretWinner_def split: option.splits if_splits)

lemma gcp_store:
  assumes "gcp_lawful api s cur"
  shows "keeps_current cur (gcp_CreateOrAdopt api s v)" "keeps_current cur (gcp_Metadata api s)" "keeps_current cur (gcp_pinned api s ver)"
    "gcp_CreateOrAdopt api s v w = (Inr (m, x), w') \<Longrightarrow> cm_identity m = gl_identity s \<and> cur w' = Some (cm_version m, x)"
    "gcp_Metadata api s w = (Inr m, w') \<Longrightarrow> cm_identity m = gl_identity s \<and> map_option fst (cur w') = Some (cm_version m)"
    "gcp_pinned api s ver w = (Inr x, w') \<Longrightarrow> cur w' = Some (ver, y) \<Longrightarrow> x = y"
proof -
  have k: "\<And>r labels. keeps_current cur (gs_create api (gl_parent s) (gl_id s) r labels)" "\<And>n. keeps_current cur (gs_access api n)" "keeps_current cur (gs_version api (latest_version s))"
    and n: "\<And>r labels w out w'. gs_create api (gl_parent s) (gl_id s) r labels w = (Inr out, w') \<Longrightarrow> cur w = None \<and> cur w' = None"
    and c: "\<And>v. gives cur (gs_add api (gl_name s) v) (\<lambda>r c. \<exists>ver. r = Some ver \<and> ver \<noteq> [] \<and> c = (ver, v))"
    and g: "gives cur (gs_access api (latest_version s)) (\<lambda>r c. \<exists>p d. r = Some p \<and> gp_data p = Some d \<and> c = (gp_name p, d))"
    and p: "\<And>ver w p w' y. gs_access api ver w = (Inr (Some p), w') \<Longrightarrow> gp_name p = ver \<Longrightarrow> cur w' = Some (ver, y) \<Longrightarrow> gp_data p \<in> {None, Some y}"
    and d: "\<And>w ver en w'. gs_version api (latest_version s) w = (Inr (Some (ver, en)), w') \<Longrightarrow> map_option fst (cur w') = Some ver"
    using assms unfolding gcp_lawful_def by blast+
  show "keeps_current cur (gcp_CreateOrAdopt api s v)"
    by (rule keepsI) (auto simp: gcp_CreateOrAdopt_def adopt_gcp_def split: store_split dest: keeps_step [OF k(1)] keeps_step [OF k(2)] n)
  show "keeps_current cur (gcp_Metadata api s)"
    by (rule keepsI) (auto simp: gcp_Metadata_def split: store_split dest: keeps_step [OF k(3)])
  show "keeps_current cur (gcp_pinned api s ver)"
    by (rule keepsI) (auto simp: gcp_pinned_def split: store_split dest: keeps_step [OF k(2)])
  show "gcp_CreateOrAdopt api s v w = (Inr (m, x), w') \<Longrightarrow> cm_identity m = gl_identity s \<and> cur w' = Some (cm_version m, x)"
    by (auto simp: gcp_CreateOrAdopt_def adopt_gcp_def add_first_version_def split: store_split dest!: gcp_winner
        dest: gives_step [OF c] gives_step [OF g])
  show "gcp_Metadata api s w = (Inr m, w') \<Longrightarrow> cm_identity m = gl_identity s \<and> map_option fst (cur w') = Some (cm_version m)"
    by (auto simp: gcp_Metadata_def split: store_split dest: d)
  show "gcp_pinned api s ver w = (Inr x, w') \<Longrightarrow> cur w' = Some (ver, y) \<Longrightarrow> x = y"
    by (auto simp: gcp_pinned_def split: store_split dest: p)
qed

interpretation gcp: cloud_store_contract "\<lambda>(api, s). gcpSecretStore api s" "\<lambda>(api, s). gcp_lawful api s" "\<lambda>(api, s). gl_identity s"
  by unfold_locales (auto simp: gcpSecretStore_def gcp_store(1-3) dest: gcp_store(4-6))

end
