(* ===== verification/KeyProps.thy ===== *)
theory KeyProps
  imports CloudSecretsSpec
begin

text \<open>
  What the key resources promise over a store that keeps its contract: an existing key is never replaced, everyone who
  creates the key gets the same one, and a lost or changed key is reported.
\<close>

section \<open>Operations that keep a secret\<close>

named_theorems keeps_intro "operations that keep the current version of a secret"

lemma keeps_bindS: "keeps_current cur m \<Longrightarrow> (\<And>w x w'. m w = (Inr x, w') \<Longrightarrow> keeps_current cur (f x)) \<Longrightarrow> keeps_current cur (bindS m f)"
proof (rule keepsI)
  fix w r w' c
  assume m: "keeps_current cur m" and f: "\<And>w x w'. m w = (Inr x, w') \<Longrightarrow> keeps_current cur (f x)"
    and run: "bindS m f w = (r, w')" and c: "cur w = Some c"
  obtain q v where v: "m w = (q, v)" by fastforce
  with keeps_step [OF m v c] have "cur v = Some c" by simp
  then show "cur w' = Some c"
    using run f [of w _ v] by (cases q) (auto simp: bindS_def v dest: keeps_step)
qed

lemma keeps_simple [keeps_intro]: "keeps_current cur (liftS r)" "keeps_current cur (drawS d)"
  by (simp_all add: keeps_current_def liftS_def drawS_def)

lemma keeps_wrapS [keeps_intro]: "keeps_current cur m \<Longrightarrow> keeps_current cur (wrapS f as m)"
  by (simp add: keeps_current_def)

lemma keeps_reportS [keeps_intro]: "keeps_current cur m \<Longrightarrow> keeps_current cur (reportS e m)"
  by (auto simp: keeps_current_def reportS_def split: prod.splits sum.splits)

lemma reportS_Inr [err_simps]: "reportS e m w = (Inr x, w') \<longleftrightarrow> m w = (Inr x, w')"
  by (auto simp: reportS_def split: prod.splits sum.splits)

lemma drawS_Inr [err_simps]: "drawS f w = (r, w') \<longleftrightarrow> r = f w \<and> w' = w"
  by (auto simp: drawS_def)

section \<open>Opening a store\<close>

text \<open>The clients of the clouds, where \<open>cur\<close> sees the secret of these options; opening a client changes nothing.\<close>

definition clouds_lawful :: "'w clouds \<Rightarrow> cloud_secret_options \<Rightarrow> ('w \<Rightarrow> (string \<times> string) option) \<Rightarrow> bool" where
  "clouds_lawful clouds opts cur \<longleftrightarrow>
     keeps_current cur (cloud_aws clouds (cs_region opts) (cs_profile opts)) \<and>
     keeps_current cur (cloud_gcp clouds (gcp_region (cs_name opts)) (cs_project opts)) \<and>
     (\<forall>w secrets ssm w'. cloud_aws clouds (cs_region opts) (cs_profile opts) w = (Inr (secrets, ssm), w') \<longrightarrow>
        (if cs_provider opts = aws_secrets_manager then aws_lawful secrets (cs_name opts) cur else ssm_lawful ssm (cs_name opts) cur)) \<and>
     (\<forall>w api w'. cloud_gcp clouds (gcp_region (cs_name opts)) (cs_project opts) w = (Inr api, w') \<longrightarrow>
        gcp_lawful api (gcp_location_of opts) cur)"

lemma opened_store:
  assumes "clouds_lawful clouds opts cur" "newCloudSecretStore clouds opts w = (Inr st, w')"
  shows "cloud_store_ok st (Identity opts) cur"
proof -
  have loc: "al_name (aws_location_of opts) = cs_name opts" "al_identity (aws_location_of opts) = Identity opts"
    "gl_identity (gcp_location_of opts) = Identity opts"
    by (simp_all add: aws_location_of_def gcp_location_of_def Let_def)
  consider (aws) secrets ssm where "cs_provider opts = aws_secrets_manager" "st = awsSecretsStore secrets (aws_location_of opts)"
      "cloud_aws clouds (cs_region opts) (cs_profile opts) w = (Inr (secrets, ssm), w')"
    | (ssm) secrets ssm where "cs_provider opts \<noteq> aws_secrets_manager" "st = awsSSMStore ssm (aws_location_of opts)"
      "cloud_aws clouds (cs_region opts) (cs_profile opts) w = (Inr (secrets, ssm), w')"
    | (gcp) api where "st = gcpSecretStore api (gcp_location_of opts)"
      "cloud_gcp clouds (gcp_region (cs_name opts)) (cs_project opts) w = (Inr api, w')"
    using assms(2) by (auto simp: newCloudSecretStore_def err_simps split: if_splits prod.splits)
  then show ?thesis
  proof cases
    case aws
    with assms(1) have "aws_lawful secrets (al_name (aws_location_of opts)) cur" by (auto simp: clouds_lawful_def loc)
    with aws.contract [of "(secrets, aws_location_of opts)"] show ?thesis by (simp add: aws(2) loc)
  next
    case ssm
    with assms(1) have "ssm_lawful ssm (al_name (aws_location_of opts)) cur" by (auto simp: clouds_lawful_def loc)
    with ssm.contract [of "(ssm, aws_location_of opts)"] show ?thesis by (simp add: ssm(2) loc)
  next
    case gcp
    with assms(1) have "gcp_lawful api (gcp_location_of opts) cur" unfolding clouds_lawful_def by blast
    with gcp.contract [of "(api, gcp_location_of opts)"] show ?thesis by (simp add: gcp(1) loc)
  qed
qed

lemma keeps_open [keeps_intro]: "clouds_lawful clouds opts cur \<Longrightarrow> keeps_current cur (newCloudSecretStore clouds opts)"
  unfolding newCloudSecretStore_def by (auto simp: clouds_lawful_def split_def intro!: keeps_bindS keeps_intro)

lemma store_okD:
  assumes "cloud_store_ok st ident cur"
  shows "keeps_current cur (st_create st v)" "keeps_current cur (st_metadata st)" "keeps_current cur (st_value st ver)"
    "st_create st v w = (Inr (m, x), w') \<Longrightarrow> cm_identity m = ident \<and> cur w' = Some (cm_version m, x)"
    "st_metadata st w = (Inr m, w') \<Longrightarrow> cm_identity m = ident \<and> map_option fst (cur w') = Some (cm_version m)"
    "st_value st ver w = (Inr x, w') \<Longrightarrow> cur w' = Some (ver, y) \<Longrightarrow> x = y"
  using assms unfolding cloud_store_ok_def by blast+

text \<open>What a program does with an opened store keeps the secret if it does so for every store with the contract.\<close>

lemma keeps_opened [keeps_intro]:
  assumes "clouds_lawful clouds opts cur" "\<And>st. cloud_store_ok st (Identity opts) cur \<Longrightarrow> keeps_current cur (f st)"
  shows "keeps_current cur (bindS (wrapS s as (newCloudSecretStore clouds opts)) f)" "keeps_current cur (bindS (reportS e (newCloudSecretStore clouds opts)) f)"
  using assms by (auto intro!: keeps_bindS keeps_intro simp: err_simps dest: opened_store)

lemma keeps_lifted [keeps_intro]: "(\<And>x. r = Inr x \<Longrightarrow> keeps_current cur (f x)) \<Longrightarrow> keeps_current cur (bindS (wrapS s as (liftS r)) f)"
  by (rule keeps_bindS) (auto intro: keeps_intro simp: err_simps)

section \<open>Existing keys are kept\<close>

lemma keeps_workload_ca:
  assumes "workloadCAKeySecret (workloadCAOptions m) = Inr opts" "clouds_lawful clouds opts cur"
  shows "keeps_current cur (workload_ca_create env clouds m)" "keeps_current cur (workload_ca_read clouds m)"
  unfolding workload_ca_create_def workload_ca_read_def generateWorkloadCAKey_def assms(1)
  using assms(2) by (auto simp: split_def err_simps intro!: keeps_intro keeps_bindS store_okD(1-3) intro: opened_store)

lemma keeps_registration:
  assumes "nstanceKeyOptions m = Inr opts" "clouds_lawful clouds opts cur"
  shows "keeps_current cur (registration_create env clouds m)" "keeps_current cur (registration_read clouds m)"
  unfolding registration_create_def registration_read_def createNstanceSigningKey_def assms(1) Let_def
  using assms(2) by (auto simp: split_def err_simps intro!: keeps_intro keeps_bindS store_okD(1-3) intro: opened_store)

lemma keeps_account_key:
  assumes "account_key_options m = Inr opts" "clouds_lawful clouds opts cur"
  shows "keeps_current cur (account_key_create env clouds m)" "keeps_current cur (account_key_read clouds m)"
  unfolding account_key_create_def account_key_read_def generate_account_key_def assms(1) Let_def
  using assms(2) by (auto simp: split_def err_simps intro!: keeps_intro keeps_bindS store_okD(1-3) intro: opened_store)

lemma keeps_component:
  assumes "componentSecretOptions region profile r = Inr opts" "clouds_lawful clouds opts cur"
  shows "keeps_current cur (ensureComponentSecret env (newCloudSecretStore clouds) region profile r)"
  unfolding ensureComponentSecret_def assms(1)
  using assms(2) by (auto simp: split_def err_simps intro!: keeps_intro keeps_bindS store_okD(1-3) intro: opened_store)

section \<open>What creating the key records\<close>

lemma workload_ca_created:
  assumes "workloadCAKeySecret (workloadCAOptions m) = Inr opts" "clouds_lawful clouds opts cur"
    "workload_ca_create env clouds m w = (Inr s, w')"
  shows "\<exists>ver x f. cur w' = Some (ver, x) \<and> workloadCAKeyFingerprint env x = Inr f \<and>
    s = m\<lparr>wm_id := TfKnown (Identity opts), wm_identity := TfKnown (Identity opts), wm_version := TfKnown ver, wm_fingerprint := TfKnown f\<rparr>"
proof -
  obtain st g v meta x f where run: "cloud_store_ok st (Identity opts) cur" "st_create st g v = (Inr (meta, x), w')"
      "workloadCAKeyFingerprint env x = Inr f"
    and s: "s = m\<lparr>wm_id := TfKnown (Identity opts), wm_identity := TfKnown (Identity opts), wm_version := TfKnown (cm_version meta), wm_fingerprint := TfKnown f\<rparr>"
    using assms(3) unfolding workload_ca_create_def assms(1)
    by (force simp: err_simps split: if_splits prod.splits dest!: opened_store [OF assms(2)])
  from store_okD(4) [OF run(1,2)] run(3) s show ?thesis by blast
qed

lemma workload_ca_checked:
  assumes "workloadCAKeySecret (workloadCAOptions s) = Inr opts" "clouds_lawful clouds opts cur"
    "workload_ca_read clouds s w = (Inr r, w')"
  shows "r = s \<and> map_option fst (cur w') = Some (value_string (wm_version s))"
  using assms(3) unfolding workload_ca_read_def assms(1)
  by (auto simp: err_simps split: if_splits dest!: opened_store [OF assms(2)] dest: store_okD(5))

text \<open>A read that gets its metadata from a store with the recorded version succeeds.\<close>

lemma workload_ca_accepts:
  assumes "workloadCAKeySecret (workloadCAOptions s) = Inr opts" "clouds_lawful clouds opts cur"
    "newCloudSecretStore clouds opts w = (Inr st, v)" "st_metadata st v = (Inr meta, w')"
    "cur w = Some (value_string (wm_version s), x)" "value_string (wm_identity s) = Identity opts"
  shows "workload_ca_read clouds s w = (Inr s, w')"
proof -
  note ok = opened_store [OF assms(2,3)]
  have "cur v = Some (value_string (wm_version s), x)"
    using keeps_step [OF keeps_open [OF assms(2)] assms(3,5)] .
  from keeps_step [OF store_okD(2) [OF ok] assms(4) this] store_okD(5) [OF ok assms(4)]
  have "cm_version meta = value_string (wm_version s)" "cm_identity meta = Identity opts" by simp_all
  then show ?thesis unfolding workload_ca_read_def assms(1)
    using assms(3,4,6) by (simp add: bindS_def wrapS_def liftS_def)
qed

section \<open>A parameter that holds one secret\<close>

text \<open>A Parameter Store with one parameter, its version counted by whoever overwrites it.\<close>

type_synonym shelf = "(int \<times> string) option"

definition shelf_view :: "shelf \<Rightarrow> (string \<times> string) option" where
  "shelf_view w = map_option (\<lambda>(n, x). (int_string n, x)) w"

definition shelf_parameter :: "string \<Rightarrow> shelf \<Rightarrow> ssm_parameter option" where
  "shelf_parameter name w = map_option (\<lambda>(n, x). \<lparr>pa_name = name, pa_type = secure_string, pa_value = Some x, pa_version = n\<rparr>) w"

definition shelf_api :: "string \<Rightarrow> shelf aws_ssm_api" where
  "shelf_api name =
     \<lparr>pm_put = (\<lambda>n ty v over tags w. case w of
          None \<Rightarrow> (Inr (Some 1), Some (1, v))
        | Some (k, x) \<Rightarrow> if over then (Inr (Some (k + 1)), Some (k + 1, v)) else (Inl (AlreadyExists (Sentinel n)), w)),
      pm_get = (\<lambda>n w. (case shelf_parameter name w of None \<Rightarrow> Inl (NotFound (Sentinel n)) | Some p \<Rightarrow> Inr (Some p), w)),
      pm_describe = (\<lambda>n w. (Inr (Some (case shelf_parameter name w of None \<Rightarrow> [] | Some p \<Rightarrow> [p])), w))\<rparr>"

definition no_secrets :: "'w aws_secrets_api" where
  "no_secrets = \<lparr>sm_create = (\<lambda>n v tags w. (Inl (ApiError (Sentinel n)), w)), sm_get = (\<lambda>n sel w. (Inl (ApiError (Sentinel n)), w)),
     sm_describe = (\<lambda>n w. (Inl (ApiError (Sentinel n)), w))\<rparr>"

definition shelf_clouds :: "string \<Rightarrow> shelf clouds" where
  "shelf_clouds name =
     \<lparr>cloud_aws = (\<lambda>region profile. liftS (Inr (no_secrets, shelf_api name))), cloud_gcp = (\<lambda>region project. liftS (Inl (Sentinel ''gcp'')))\<rparr>"

lemma shelf_lawful: "ssm_lawful (shelf_api name) name shelf_view"
  by (auto simp: ssm_lawful_def keeps_current_def gives_def shelf_api_def shelf_view_def shelf_parameter_def split: option.splits)

lemma shelf_clouds_lawful:
  assumes "cs_provider opts = aws_parameter_store"
  shows "clouds_lawful (shelf_clouds (cs_name opts)) opts shelf_view"
  using shelf_lawful [of "cs_name opts"] assms
  by (simp add: clouds_lawful_def shelf_clouds_def keeps_current_def liftS_def aws_parameter_store_def aws_secrets_manager_def)

definition shelf_model :: workload_ca_model where
  "shelf_model = \<lparr>wm_id = TfUnknown, wm_provider = TfKnown aws_parameter_store, wm_key_prefix = TfKnown ''demo'', wm_region = TfKnown ''us-east-1'',
     wm_profile = TfNull, wm_project = TfNull, wm_identity = TfUnknown, wm_version = TfUnknown, wm_fingerprint = TfUnknown\<rparr>"

text \<open>Keys that are their own encodings.\<close>

definition shelf_env :: "shelf key_env" where
  "shelf_env =
     \<lparr>ke_ed25519 = (\<lambda>_. Inr (Ed25519 ''k'')), ke_ecdsa = (\<lambda>_. Inr (Ecdsa ''P-256'' ''k'')), ke_signing = (\<lambda>_. Inr ''s''), ke_random = (\<lambda>_ _. CHR ''r''),
      ke_pkcs8 = (\<lambda>k. case k of Ed25519 x \<Rightarrow> Inr x | _ \<Rightarrow> Inl (Sentinel ''key'')), ke_parse = (\<lambda>x. Inr (Ed25519 x)),
      ke_public = (\<lambda>k. case k of Ed25519 x \<Rightarrow> Inr x | _ \<Rightarrow> Inl (Sentinel ''key'')), ke_pem = pb_bytes,
      ke_pem_decode = (\<lambda>x. Some (\<lparr>pb_type = ''PRIVATE KEY'', pb_bytes = x\<rparr>, [])), ke_sha256 = id, ke_signing_fingerprint = Inr,
      ke_jwks = (\<lambda>_ _ i. Inr i)\<rparr>"

definition shelf_secret :: cloud_secret_options where
  "shelf_secret = \<lparr>cs_provider = aws_parameter_store, cs_name = ''/demo/workload-ca-key'', cs_region = ''us-east-1'', cs_profile = [], cs_project = [],
     cs_labels = [], cs_tags = []\<rparr>"

lemma shelf_resolves: "workloadCAKeySecret (workloadCAOptions shelf_model) = Inr shelf_secret"
  by code_simp

lemma shelf_created: "workload_ca_create shelf_env (shelf_clouds (cs_name shelf_secret)) shelf_model None =
    (Inr (shelf_model\<lparr>wm_id := TfKnown (Identity shelf_secret), wm_identity := TfKnown (Identity shelf_secret), wm_version := TfKnown ''1'',
       wm_fingerprint := TfKnown ''6b''\<rparr>), Some (1, ''k''))"
  by code_simp

section \<open>The properties\<close>

text \<open>
  C20: Whoever creates the key of the workload CA gets the same key: once a run has created or adopted it, every other
  run that succeeds while the key is current, from the same configuration and on any backend, records the same version
  and the same fingerprint, those of the key the backend holds; reading the resource succeeds when the backend answers
  with the recorded version, and when it succeeds the recorded version is the current one, so that a lost or rotated
  key is reported.
\<close>

theorem workload_ca_key_shared:
  assumes "workloadCAKeySecret (workloadCAOptions m) = Inr opts" "clouds_lawful clouds opts cur"
    "workload_ca_create env clouds m w = (Inr s, w1)" "cur w2 = cur w1"
  shows "(\<exists>ver x f. cur w1 = Some (ver, x) \<and> workloadCAKeyFingerprint env x = Inr f \<and>
       wm_version s = TfKnown ver \<and> wm_fingerprint s = TfKnown f) \<and>
    (\<forall>s' w3. workload_ca_create env clouds m w2 = (Inr s', w3) \<longrightarrow> s' = s \<and> cur w3 = cur w1) \<and>
    (\<forall>st v meta w3. newCloudSecretStore clouds opts w2 = (Inr st, v) \<and> st_metadata st v = (Inr meta, w3) \<longrightarrow>
       workload_ca_read clouds s w2 = (Inr s, w3)) \<and>
    (\<forall>v r w3. workload_ca_read clouds s v = (Inr r, w3) \<longrightarrow> r = s \<and> map_option fst (cur w3) = map_option fst (cur w1))"
proof (intro conjI allI impI)
  obtain ver x f where c: "cur w1 = Some (ver, x)" "workloadCAKeyFingerprint env x = Inr f"
    and s: "s = m\<lparr>wm_id := TfKnown (Identity opts), wm_identity := TfKnown (Identity opts), wm_version := TfKnown ver, wm_fingerprint := TfKnown f\<rparr>"
    using workload_ca_created [OF assms(1-3)] by blast
  then have o: "workloadCAKeySecret (workloadCAOptions s) = Inr opts" using assms(1) by (simp add: workloadCAOptions_def)
  have v: "value_string (wm_version s) = ver" "value_string (wm_identity s) = Identity opts"
    by (simp_all add: s value_string_def stringOr_def)
  show "\<exists>ver x f. cur w1 = Some (ver, x) \<and> workloadCAKeyFingerprint env x = Inr f \<and> wm_version s = TfKnown ver \<and> wm_fingerprint s = TfKnown f"
    using c s by auto
  show "s' = s" "cur w3 = cur w1" if run: "workload_ca_create env clouds m w2 = (Inr s', w3)" for s' w3
  proof -
    have "cur w3 = Some (ver, x)" using keeps_step [OF keeps_workload_ca(1) [OF assms(1,2)] run] c(1) assms(4) by simp
    with workload_ca_created [OF assms(1,2) run] c s show "s' = s" "cur w3 = cur w1" by auto
  qed
  show "workload_ca_read clouds s w2 = (Inr s, w3)"
    if "newCloudSecretStore clouds opts w2 = (Inr st, v) \<and> st_metadata st v = (Inr meta, w3)" for st v meta w3
    using workload_ca_accepts [OF o assms(2), of w2 st v meta w3 x] that assms(4) c(1) v by simp
  show "r = s" "map_option fst (cur w3) = map_option fst (cur w1)" if "workload_ca_read clouds s v = (Inr r, w3)" for v r w3
    using workload_ca_checked [OF o assms(2) that] c(1) v by simp_all
qed

theorem workload_ca_key_shared_witness:
  "\<exists>s. workload_ca_create shelf_env (shelf_clouds (cs_name shelf_secret)) shelf_model None = (Inr s, Some (1, ''k'')) \<and>
     (\<forall>s' w3. workload_ca_create shelf_env (shelf_clouds (cs_name shelf_secret)) shelf_model (Some (1, ''k'')) = (Inr s', w3) \<longrightarrow> s' = s)"
  using workload_ca_key_shared [OF shelf_resolves shelf_clouds_lawful shelf_created refl] shelf_created by (auto simp: shelf_secret_def)

text \<open>
  C11: Nothing that the resources and the seed do to a secret changes one that exists: creating and reading the key of
  the workload CA, the registration key and the service account key, and ensuring a component's secret leave the
  current version of an existing secret as it is, whether or not they succeed, on AWS Secrets Manager, AWS Parameter
  Store and Google Secret Manager.
\<close>

theorem existing_secrets_kept:
  assumes "clouds_lawful clouds opts cur" "cur w \<noteq> None"
  shows "(workloadCAKeySecret (workloadCAOptions m) = Inr opts \<longrightarrow>
       cur (snd (workload_ca_create env clouds m w)) = cur w \<and> cur (snd (workload_ca_read clouds m w)) = cur w) \<and>
    (nstanceKeyOptions n = Inr opts \<longrightarrow>
       cur (snd (registration_create env clouds n w)) = cur w \<and> cur (snd (registration_read clouds n w)) = cur w) \<and>
    (account_key_options a = Inr opts \<longrightarrow>
       cur (snd (account_key_create env clouds a w)) = cur w \<and> cur (snd (account_key_read clouds a w)) = cur w) \<and>
    (componentSecretOptions region profile r = Inr opts \<longrightarrow>
       cur (snd (ensureComponentSecret env (newCloudSecretStore clouds) region profile r w)) = cur w)"
  using keeps_workload_ca [OF _ assms(1)] keeps_registration [OF _ assms(1)] keeps_account_key [OF _ assms(1)]
    keeps_component [OF _ assms(1)] assms(2)
  by (simp add: keeps_current_def)

theorem existing_secrets_kept_witness:
  "shelf_view (snd (workload_ca_create shelf_env (shelf_clouds (cs_name shelf_secret)) shelf_model (Some (7, ''old'')))) = Some (''7'', ''old'')"
proof -
  have "shelf_view (Some (7, ''old'')) = Some (''7'', ''old'')" by code_simp
  then show ?thesis
    using existing_secrets_kept [OF shelf_clouds_lawful, of shelf_secret "Some (7, ''old'')"] shelf_resolves by (simp add: shelf_secret_def)
qed

end
