(* ===== verification/SeedCreateSpec.thy ===== *)
theory SeedCreateSpec
  imports SeedCreate KeyProps
begin

text \<open>
  What a store of snapshots promises, as the locale \<open>seed_store_contract\<close> over the interface \<open>seedSnapshotStore\<close> with
  its implementations for S3 and GCS, and what a run of \<open>createSeed\<close> does, step by step: the events it adds, and what
  it keeps.
\<close>

section \<open>What the storage APIs are documented to do\<close>

text \<open>
  The view \<open>obj\<close> gives the metadata of the bootstrap object. A conditional write, by \<open>If-None-Match: *\<close> or by the
  condition that the object does not exist, succeeds only when there is none and leaves an existing one alone.
\<close>

definition s3_lawful :: "'w s3_api \<Rightarrow> seed_options \<Rightarrow> ('w \<Rightarrow> snapshot_meta option) \<Rightarrow> bool" where
  "s3_lawful api opts obj \<longleftrightarrow>
     keeps_current obj (s3_head_object api (sd_bucket opts) (objectKey opts)) \<and> (\<forall>b k. keeps_current obj (s3_get_object api b k)) \<and>
     (\<forall>b p. keeps_current obj (s3_list_objects api b p)) \<and>
     (\<forall>body inp. pi_if_none_match inp = ''*'' \<longrightarrow> keeps_current obj (s3_put_object api (sd_bucket opts) (objectKey opts) body inp)) \<and>
     (\<forall>w h w'. s3_head_object api (sd_bucket opts) (objectKey opts) w = (Inr h, w') \<longrightarrow> obj w' = Some (s3_meta h)) \<and>
     (\<forall>body inp w u w'. s3_put_object api (sd_bucket opts) (objectKey opts) body inp w = (Inr u, w') \<and> pi_if_none_match inp = ''*'' \<longrightarrow> obj w = None)"

definition gcs_lawful :: "'w gcs_api \<Rightarrow> seed_options \<Rightarrow> ('w \<Rightarrow> snapshot_meta option) \<Rightarrow> bool" where
  "gcs_lawful api opts obj \<longleftrightarrow>
     keeps_current obj (gc_attrs api (sd_bucket opts) (objectKey opts)) \<and> (\<forall>b k. keeps_current obj (gc_read api b k)) \<and>
     (\<forall>b p. keeps_current obj (gc_next api b p)) \<and>
     (\<forall>body meta. keeps_current obj (gc_write api (sd_bucket opts) (objectKey opts) True body meta)) \<and>
     (\<forall>w a w'. gc_attrs api (sd_bucket opts) (objectKey opts) w = (Inr a, w') \<longrightarrow> obj w' = Some (gcs_meta a)) \<and>
     (\<forall>body meta w u w'. gc_write api (sd_bucket opts) (objectKey opts) True body meta w = (Inr u, w') \<longrightarrow> obj w = None)"

section \<open>The contract\<close>

definition seed_store_ok :: "'w seed_store \<Rightarrow> ('w \<Rightarrow> snapshot_meta option) \<Rightarrow> bool" where
  "seed_store_ok st obj \<longleftrightarrow>
     keeps_current obj (ss_metadata st) \<and> keeps_current obj (ss_require_empty st) \<and> (\<forall>b. keeps_current obj (ss_public_ca st b)) \<and> (\<forall>x c. keeps_current obj (ss_upload st x c)) \<and>
     (\<forall>w m w'. ss_metadata st w = (Inr m, w') \<longrightarrow> obj w' = Some m) \<and>
     (\<forall>x c w u w'. ss_upload st x c w = (Inr u, w') \<longrightarrow> obj w = None)"

locale seed_store_contract =
  fixes store :: "'a \<Rightarrow> 'w seed_store"
    and lawful :: "'a \<Rightarrow> ('w \<Rightarrow> snapshot_meta option) \<Rightarrow> bool"
  assumes metadata_keeps: "lawful a obj \<Longrightarrow> keeps_current obj (ss_metadata (store a))"
    and empty_keeps: "lawful a obj \<Longrightarrow> keeps_current obj (ss_require_empty (store a))"
    and ca_keeps: "lawful a obj \<Longrightarrow> keeps_current obj (ss_public_ca (store a) b)"
    and upload_keeps: "lawful a obj \<Longrightarrow> keeps_current obj (ss_upload (store a) x c)"
    and metadata_current: "lawful a obj \<Longrightarrow> ss_metadata (store a) w = (Inr m, w') \<Longrightarrow> obj w' = Some m"
    and upload_once: "lawful a obj \<Longrightarrow> ss_upload (store a) x c w = (Inr u, w') \<Longrightarrow> obj w = None"
begin

lemma contract: "lawful a obj \<Longrightarrow> seed_store_ok (store a) obj"
  unfolding seed_store_ok_def using metadata_keeps empty_keeps ca_keeps upload_keeps metadata_current upload_once by metis

end

lemma s3_store:
  assumes "s3_lawful api opts obj"
  shows "keeps_current obj (s3_Metadata api opts)" "keeps_current obj (requireEmptyS3Prefix api b p)" "keeps_current obj (s3_PublicCA api bs)" "keeps_current obj (s3_Upload api opts x c)"
    "s3_Metadata api opts w = (Inr m, w') \<Longrightarrow> obj w' = Some m" "s3_Upload api opts x c w = (Inr u, w') \<Longrightarrow> obj w = None"
proof -
  have k: "keeps_current obj (s3_head_object api (sd_bucket opts) (objectKey opts))" "\<And>b k. keeps_current obj (s3_get_object api b k)" "\<And>b p. keeps_current obj (s3_list_objects api b p)"
      "\<And>body inp. pi_if_none_match inp = ''*'' \<Longrightarrow> keeps_current obj (s3_put_object api (sd_bucket opts) (objectKey opts) body inp)"
    and h: "\<And>w h w'. s3_head_object api (sd_bucket opts) (objectKey opts) w = (Inr h, w') \<Longrightarrow> obj w' = Some (s3_meta h)"
    and p: "\<And>body inp w u w'. s3_put_object api (sd_bucket opts) (objectKey opts) body inp w = (Inr u, w') \<Longrightarrow> pi_if_none_match inp = ''*'' \<Longrightarrow> obj w = None"
    using assms unfolding s3_lawful_def by blast+
  show "keeps_current obj (s3_Metadata api opts)"
    by (rule keepsI) (auto simp: s3_Metadata_def split: prod.splits sum.splits dest: keeps_step [OF k(1)])
  show "keeps_current obj (requireEmptyS3Prefix api b p)"
    by (rule keepsI) (auto simp: requireEmptyS3Prefix_def split: prod.splits sum.splits dest: keeps_step [OF k(3)])
  show "keeps_current obj (s3_PublicCA api bs)"
    by (rule keepsI) (auto simp: s3_PublicCA_def split: prod.splits sum.splits dest: keeps_step [OF k(2)])
  show "keeps_current obj (s3_Upload api opts x c)"
    by (rule keepsI) (auto simp: s3_Upload_def split: prod.splits sum.splits dest: keeps_step [OF k(4), rotated])
  show "s3_Metadata api opts w = (Inr m, w') \<Longrightarrow> obj w' = Some m"
    by (auto simp: s3_Metadata_def split: prod.splits sum.splits dest: h)
  show "s3_Upload api opts x c w = (Inr u, w') \<Longrightarrow> obj w = None"
    by (auto simp: s3_Upload_def split: prod.splits sum.splits dest: p)
qed

interpretation s3: seed_store_contract "\<lambda>(api, opts). s3SeedStore api opts" "\<lambda>(api, opts). s3_lawful api opts"
  by unfold_locales (auto simp: s3SeedStore_def s3_store(1-4) dest: s3_store(5,6))

lemma gcs_store:
  assumes "gcs_lawful api opts obj"
  shows "keeps_current obj (gcs_Metadata api opts)" "keeps_current obj (requireEmptyGCSPrefix api b p)" "keeps_current obj (gcs_PublicCA api bs)" "keeps_current obj (gcs_Upload api opts x c)"
    "gcs_Metadata api opts w = (Inr m, w') \<Longrightarrow> obj w' = Some m" "gcs_Upload api opts x c w = (Inr u, w') \<Longrightarrow> obj w = None"
proof -
  have k: "keeps_current obj (gc_attrs api (sd_bucket opts) (objectKey opts))" "\<And>b k. keeps_current obj (gc_read api b k)" "\<And>b p. keeps_current obj (gc_next api b p)"
      "\<And>body meta. keeps_current obj (gc_write api (sd_bucket opts) (objectKey opts) True body meta)"
    and h: "\<And>w a w'. gc_attrs api (sd_bucket opts) (objectKey opts) w = (Inr a, w') \<Longrightarrow> obj w' = Some (gcs_meta a)"
    and p: "\<And>body meta w u w'. gc_write api (sd_bucket opts) (objectKey opts) True body meta w = (Inr u, w') \<Longrightarrow> obj w = None"
    using assms unfolding gcs_lawful_def by blast+
  show "keeps_current obj (gcs_Metadata api opts)"
    by (rule keepsI) (auto simp: gcs_Metadata_def split: store_split dest: keeps_step [OF k(1)])
  show "keeps_current obj (requireEmptyGCSPrefix api b p)"
    by (rule keepsI) (auto simp: requireEmptyGCSPrefix_def split: prod.splits sum.splits dest: keeps_step [OF k(3)])
  show "keeps_current obj (gcs_PublicCA api bs)"
    by (rule keepsI) (auto simp: gcs_PublicCA_def split: store_split dest: keeps_step [OF k(2)])
  show "keeps_current obj (gcs_Upload api opts x c)" unfolding gcs_Upload_def by (intro keeps_intro k(4))
  show "gcs_Metadata api opts w = (Inr m, w') \<Longrightarrow> obj w' = Some m"
    by (auto simp: gcs_Metadata_def split: store_split dest: h)
  show "gcs_Upload api opts x c w = (Inr u, w') \<Longrightarrow> obj w = None"
    by (auto simp: gcs_Upload_def err_simps dest: p)
qed

interpretation gcs: seed_store_contract "\<lambda>(api, opts). gcsSeedStore api opts" "\<lambda>(api, opts). gcs_lawful api opts"
  by unfold_locales (auto simp: gcsSeedStore_def gcs_store(1-4) dest: gcs_store(5,6))

section \<open>What a run keeps\<close>

abbreviation rest_view :: "('w \<Rightarrow> 'c option) \<Rightarrow> 'w srun \<Rightarrow> 'c option" where
  "rest_view cur \<equiv> (\<lambda>s. cur (sl_rest s))"

lemma keeps_seen [keeps_intro]: "keeps_current cur m \<Longrightarrow> keeps_current (rest_view cur) (seen ev m)"
  by (rule keepsI) (auto simp: seen_def split: prod.splits dest: keeps_step)

lemma seen_Inr [err_simps]: "seen ev m s = (Inr x, s') \<longleftrightarrow>
    m (sl_rest s) = (Inr x, sl_rest s') \<and> sl_events s' = sl_events s @ [ev (Inr x)]"
  by (cases s') (auto simp: seen_def split: prod.splits)

text \<open>Everything that a run does to the outside: the operations of the snapshot store and those on secrets.\<close>

definition run_keeps :: "'w seed_store \<Rightarrow> (cloud_secret_options \<Rightarrow> ('w, 'w cloud_store) op) \<Rightarrow> ('w \<Rightarrow> 'c option) \<Rightarrow> bool" where
  "run_keeps st open_keys cur \<longleftrightarrow>
     keeps_current cur (ss_metadata st) \<and> keeps_current cur (ss_require_empty st) \<and> (\<forall>b. keeps_current cur (ss_public_ca st b)) \<and> (\<forall>x c. keeps_current cur (ss_upload st x c)) \<and>
     (\<forall>x. keeps_current cur (open_keys x)) \<and>
     (\<forall>x w k w'. open_keys x w = (Inr k, w') \<longrightarrow> (\<forall>v. keeps_current cur (st_create k v)) \<and> keeps_current cur (st_metadata k) \<and> (\<forall>v. keeps_current cur (st_value k v)))"

lemma run_keepsD:
  assumes "run_keeps st open_keys cur"
  shows "keeps_current cur (ss_metadata st)" "keeps_current cur (ss_require_empty st)" "keeps_current cur (ss_public_ca st b)" "keeps_current cur (ss_upload st x c)" "keeps_current cur (open_keys y)"
    "open_keys y w = (Inr k, w') \<Longrightarrow> keeps_current cur (st_create k v)" "open_keys y w = (Inr k, w') \<Longrightarrow> keeps_current cur (st_metadata k)"
    "open_keys y w = (Inr k, w') \<Longrightarrow> keeps_current cur (st_value k v)"
  using assms unfolding run_keeps_def by blast+

lemma keeps_case: "keeps_current cur m \<Longrightarrow> (\<And>r. keeps_current cur (g r)) \<Longrightarrow> keeps_current cur (\<lambda>s. case m s of (r, s') \<Rightarrow> g r s')"
  by (rule keepsI) (auto split: prod.splits dest: keeps_step)

lemma keeps_completed [keeps_intro]: "keeps_current cur (ss_metadata st) \<Longrightarrow> keeps_current (rest_view cur) (completedSeed env opts st)"
  by (rule keepsI) (auto simp: completedSeed_def split: prod.splits sum.splits dest: keeps_step [OF keeps_seen])

lemma keeps_winner [keeps_intro]: "keeps_current cur (ss_metadata st) \<Longrightarrow> keeps_current (rest_view cur) (or_winner env opts st e)"
  by (rule keepsI) (auto simp: or_winner_def split: prod.splits sum.splits option.splits dest: keeps_step [OF keeps_completed])

lemma keeps_when_empty:
  assumes "keeps_current cur (ss_metadata st)" "keeps_current cur (ss_require_empty st)" "keeps_current (rest_view cur) m"
  shows "keeps_current (rest_view cur) (when_empty env opts st m)"
proof (rule keepsI)
  fix s r s' c assume run: "when_empty env opts st m s = (r, s')" and c: "cur (sl_rest s) = Some c"
  obtain q v where q: "seen (\<lambda>_. CheckedEmpty) (ss_require_empty st) s = (q, v)" by fastforce
  have "cur (sl_rest v) = Some c" using keeps_step [OF keeps_seen [OF assms(2)] q] c by simp
  then show "cur (sl_rest s') = Some c"
    using run keeps_step [OF keeps_winner [OF assms(1)]] keeps_step [OF assms(3)] by (cases q) (auto simp: when_empty_def q)
qed

declare waitPublicCA.simps [simp del]

lemma keeps_wait:
  assumes "keeps_current (rest_view cur) read"
  shows "keeps_current (rest_view cur) (waitPublicCA env read n)"
proof (induction n)
  case 0
  show ?case by (rule keepsI) (auto simp: waitPublicCA.simps [of _ _ 0] split: prod.splits sum.splits if_splits dest: keeps_step [OF assms])
next
  case (Suc n)
  show ?case by (rule keepsI) (auto simp: waitPublicCA.simps [of _ _ "Suc n"] split: prod.splits sum.splits if_splits
      dest: keeps_step [OF assms] keeps_step [OF Suc])
qed

lemma keeps_ensure:
  assumes "run_keeps st open_keys cur"
  shows "keeps_current cur (ensureComponentSecret env open_keys region profile q)"
  unfolding ensureComponentSecret_def
  by (auto simp: split_def err_simps intro!: keeps_intro keeps_bindS run_keepsD(5) [OF assms] dest: run_keepsD(6) [OF assms])

lemma keeps_ensure_components:
  assumes "run_keeps st open_keys cur"
  shows "keeps_current (rest_view cur) (ensure_components env opts open_keys qs)"
proof (induction qs)
  case (Cons q qs)
  then show ?case using keeps_ensure [OF assms] by (auto intro!: keeps_bindS keeps_intro)
qed (simp add: keeps_intro)

lemma keeps_token:
  assumes "run_keeps st open_keys cur"
  shows "keeps_current (rest_view cur) (with_token env opts open_keys b snapshot ca)"
  unfolding with_token_def signing_key_def
  by (auto simp: err_simps intro!: keeps_intro keeps_bindS run_keepsD(5) [OF assms] dest: run_keepsD(7,8) [OF assms])

lemma keeps_inject:
  assumes "run_keeps st open_keys cur"
  shows "keeps_current (rest_view cur) (inject_bootstrap env opts st open_keys snapshot)"
  unfolding inject_bootstrap_def
  by (auto intro!: keeps_intro keeps_bindS keeps_wait keeps_token [OF assms] run_keepsD [OF assms] split: option.split)

lemma keeps_publish:
  assumes "run_keeps st open_keys cur"
  shows "keeps_current (rest_view cur) (publish env opts st snapshot)"
  by (rule keepsI) (auto simp: publish_def split: prod.splits sum.splits option.splits
      dest: keeps_step [OF keeps_seen [OF run_keepsD(4) [OF assms]]] keeps_step [OF keeps_winner [OF run_keepsD(1) [OF assms]]]
        keeps_step [OF keeps_completed [OF run_keepsD(1) [OF assms]]])

lemma keeps_createSeed:
  assumes "run_keeps st open_keys cur"
  shows "keeps_current (rest_view cur) (createSeed env opts st open_keys)"
  unfolding createSeed_def create_new_def
  by (auto simp: split_def intro!: keeps_intro keeps_bindS keeps_when_empty keeps_inject [OF assms] keeps_ensure_components [OF assms]
      keeps_publish [OF assms] run_keepsD [OF assms] split: option.split injected.split)

section \<open>What a run records\<close>

text \<open>A run adds events that satisfy a predicate.\<close>

definition adds :: "(sevent \<Rightarrow> bool) \<Rightarrow> ('w srun, 'a) op \<Rightarrow> bool" where
  "adds P m \<longleftrightarrow> (\<forall>s. \<exists>evs. sl_events (snd (m s)) = sl_events s @ evs \<and> list_all P evs)"

named_theorems adds_intro "events that a run adds"

lemma addsI: "(\<And>s r s'. m s = (r, s') \<Longrightarrow> \<exists>evs. sl_events s' = sl_events s @ evs \<and> list_all P evs) \<Longrightarrow> adds P m"
  unfolding adds_def by (metis surjective_pairing)

lemma addsD: "adds P m \<Longrightarrow> m s = (r, s') \<Longrightarrow> \<exists>evs. sl_events s' = sl_events s @ evs \<and> list_all P evs"
  unfolding adds_def by (metis snd_conv)

lemma adds_bindS:
  assumes "adds P m" "\<And>x. adds P (f x)"
  shows "adds P (bindS m f)"
proof (rule addsI)
  fix s r s' assume run: "bindS m f s = (r, s')"
  obtain q v where q: "m s = (q, v)" by fastforce
  obtain e1 where e1: "sl_events v = sl_events s @ e1" "list_all P e1" using addsD [OF assms(1) q] by blast
  show "\<exists>evs. sl_events s' = sl_events s @ evs \<and> list_all P evs"
  proof (cases q)
    case (Inl e)
    then show ?thesis using run q e1 by (auto simp: bindS_def)
  next
    case (Inr x)
    then have "f x v = (r, s')" using run q by (simp add: bindS_def)
    from addsD [OF assms(2) this] e1 show ?thesis by auto
  qed
qed

lemma adds_simple [adds_intro]: "adds P (liftS r)" "adds P (drawS d)"
  by (auto simp: adds_def liftS_def drawS_def)

lemma adds_reportS [adds_intro]: "adds P m \<Longrightarrow> adds P (reportS e m)"
  by (rule addsI) (auto simp: reportS_def split: prod.splits sum.splits dest: addsD)

lemma adds_seen [adds_intro]: "(\<And>r. P (ev r)) \<Longrightarrow> adds P (seen ev m)"
  by (auto simp: adds_def seen_def split: prod.splits)

lemma adds_completed [adds_intro]: "P CheckedSnapshot \<Longrightarrow> adds P (completedSeed env opts st)"
  by (auto simp: adds_def completedSeed_def seen_def split: prod.splits sum.splits)

lemma adds_wait [adds_intro]:
  assumes "adds P read"
  shows "adds P (waitPublicCA env read n)"
proof (induction n)
  case 0
  show ?case by (rule addsI) (auto simp: waitPublicCA.simps [of _ _ 0] split: prod.splits sum.splits if_splits dest: addsD [OF assms])
next
  case (Suc n)
  show ?case
  proof (rule addsI)
    fix s r s' assume run: "waitPublicCA env read (Suc n) s = (r, s')"
    obtain q v where q: "read s = (q, v)" by fastforce
    obtain e1 where e1: "sl_events v = sl_events s @ e1" "list_all P e1" using addsD [OF assms q] by blast
    from run have "s' = v \<or> waitPublicCA env read n v = (r, s')"
      by (auto simp: waitPublicCA.simps [of _ _ "Suc n"] q split: sum.splits if_splits)
    with e1 addsD [OF Suc, of v r s'] show "\<exists>evs. sl_events s' = sl_events s @ evs \<and> list_all P evs" by auto
  qed
qed

text \<open>The events before the secrets of the components.\<close>

definition inspects :: "sevent \<Rightarrow> bool" where
  "inspects e \<longleftrightarrow> e \<in> {CheckedSnapshot, CheckedEmpty, ReadCA, OpenedKeys, CheckedKey, ReadKey}"

lemma adds_inject: "adds inspects (inject_bootstrap env opts st open_keys snapshot)"
  unfolding inject_bootstrap_def with_token_def signing_key_def
  by (auto intro!: adds_intro adds_bindS simp: inspects_def split: option.split)

lemma completed_events: "completedSeed env opts st s = (r, s') \<Longrightarrow> sl_events s' = sl_events s @ [CheckedSnapshot]"
  by (auto simp: completedSeed_def seen_def split: prod.splits sum.splits)

lemma winner_events: "or_winner env opts st e s = (r, s') \<Longrightarrow> sl_events s' = sl_events s @ [CheckedSnapshot]"
  by (auto simp: or_winner_def split: prod.splits sum.splits option.splits dest: completed_events)

lemma publish_events: "publish env opts st snapshot s = (r, s') \<Longrightarrow>
    \<exists>ok. sl_events s' = sl_events s @ [UploadedSnapshot snapshot (seedCompletion env opts) ok, CheckedSnapshot]"
  by (auto simp: publish_def seen_def split: prod.splits sum.splits option.splits dest!: completed_events winner_events)

lemma ensure_events:
  "ensure_components env opts open_keys qs s = (Inr (), s') \<Longrightarrow> sl_events s' = sl_events s @ map (\<lambda>q. EnsuredComponent q True) qs"
proof (induction qs arbitrary: s)
  case (Cons q qs)
  then show ?case by (force simp: err_simps succeeded_def)
qed (simp add: err_simps)

definition ensures :: "sevent \<Rightarrow> bool" where
  "ensures e \<longleftrightarrow> (case e of EnsuredComponent _ _ \<Rightarrow> True | _ \<Rightarrow> False)"

lemma adds_ensure: "adds ensures (ensure_components env opts open_keys qs)"
  by (induction qs) (auto intro!: adds_intro adds_bindS simp: ensures_def)

end
