(* ===== verification/SeedCreateProps.thy ===== *)
theory SeedCreateProps
  imports SeedCreateSpec SeedProps
begin

text \<open>
  What creating the seed promises: the snapshot is published last, after the secrets of its components; it is
  published once, and every run with the same options adopts it.
\<close>

section \<open>A run that uploads\<close>

lemma quiet_no_upload: "list_all inspects evs \<Longrightarrow> UploadedSnapshot x c ok \<notin> set evs" "list_all ensures evs \<Longrightarrow> UploadedSnapshot x c ok \<notin> set evs"
  by (auto simp: list_all_iff inspects_def ensures_def)

lemma seen_events: "seen ev m s = (r, s') \<Longrightarrow> sl_events s' = sl_events s @ [ev r]"
  by (auto simp: seen_def split: prod.splits)

text \<open>An upload in the events is one of the operation behind the check for an empty prefix.\<close>

lemma when_empty_upload:
  assumes "when_empty env opts st m s = (r, s')" "UploadedSnapshot x c ok \<in> set (sl_events s')" "UploadedSnapshot x c ok \<notin> set (sl_events s)"
  shows "\<exists>v. m v = (r, s') \<and> sl_events v = sl_events s @ [CheckedEmpty]"
proof -
  obtain q v where q: "seen (\<lambda>_. CheckedEmpty) (ss_require_empty st) s = (q, v)" by fastforce
  note ev = seen_events [OF q]
  show ?thesis
  proof (cases q)
    case (Inl e)
    then have "or_winner env opts st e v = (r, s')" using assms(1) by (simp add: when_empty_def q)
    from winner_events [OF this] ev assms(2,3) show ?thesis by simp
  next
    case (Inr u)
    then show ?thesis using assms(1) ev by (auto simp: when_empty_def q)
  qed
qed

lemma map_sum_Inr: "map_sum id f r = Inr x \<longleftrightarrow> (\<exists>y. r = Inr y \<and> x = f y)" "Inr x = map_sum id f r \<longleftrightarrow> (\<exists>y. r = Inr y \<and> x = f y)"
  by (cases r; auto)+

lemma with_token_snapshot:
  assumes "with_token env opts open_keys b base ca s = (Inr x, s')"
  shows "ReadKey \<in> set (sl_events s') \<and> (\<exists>snap token. x = Snapshot snap \<and> addOperatorBootstrap env base b ca token = Inr snap)"
  using assms unfolding with_token_def signing_key_def by (auto simp: err_simps map_sum_Inr split: if_splits)

lemma injected_snapshot:
  assumes "inject_bootstrap env opts st open_keys base s = (Inr (Snapshot snap), s')"
  shows "case sd_bootstrap opts of None \<Rightarrow> snap = base
    | Some b \<Rightarrow> ReadKey \<in> set (sl_events s') \<and> (\<exists>ca token. addOperatorBootstrap env base b ca token = Inr snap)"
proof (cases "sd_bootstrap opts")
  case None
  then show ?thesis using assms by (simp add: inject_bootstrap_def err_simps)
next
  case (Some b)
  obtain ca v where "with_token env opts open_keys b base ca v = (Inr (Snapshot snap), s')"
    using assms Some by (auto simp: inject_bootstrap_def err_simps split: option.splits)
  from with_token_snapshot [OF this] Some show ?thesis by auto
qed

lemma create_new_upload:
  assumes "create_new env opts st open_keys s = (r, s')" "UploadedSnapshot x c ok \<in> set (sl_events s')" "list_all inspects (sl_events s)"
  shows "\<exists>base required snap v1 v2. render_snapshot env opts = Inr (base, required) \<and>
    list_all inspects (butlast (sl_events v1)) \<and> sl_events v1 \<noteq> [] \<and> last (sl_events v1) = CheckedEmpty \<and>
    ensure_components env opts open_keys required v1 = (Inr (), v2) \<and> publish env opts st snap v2 = (r, s') \<and>
    (case sd_bootstrap opts of None \<Rightarrow> snap = base
     | Some b \<Rightarrow> ReadKey \<in> set (sl_events v1) \<and> (\<exists>ca token. addOperatorBootstrap env base b ca token = Inr snap))"
proof -
  note quiet = quiet_no_upload
  from assms quiet obtain base required where rd: "render_snapshot env opts = Inr (base, required)"
    by (cases "render_snapshot env opts") (auto simp: create_new_def liftS_def bindS_def)
  obtain q v where q: "inject_bootstrap env opts st open_keys base s = (q, v)" by fastforce
  obtain evs where evs: "sl_events v = sl_events s @ evs" "list_all inspects evs" using addsD [OF adds_inject q] by blast
  have no: "UploadedSnapshot x c ok \<notin> set (sl_events v)" using evs assms(3) quiet by auto
  have run: "bindS (inject_bootstrap env opts st open_keys base) (\<lambda>r. case r of Winner meta \<Rightarrow> liftS (Inr meta)
      | Snapshot snapshot \<Rightarrow> when_empty env opts st
          (bindS (ensure_components env opts open_keys required) (\<lambda>_. publish env opts st snapshot))) s = (r, s')"
    using assms(1) by (simp add: create_new_def rd)
  have "s' \<noteq> v" using no assms(2) by auto
  with run q obtain snap where snap: "q = Inr (Snapshot snap)"
    by (auto simp: bindS_def liftS_def split: sum.splits injected.splits)
  then have "when_empty env opts st (bindS (ensure_components env opts open_keys required) (\<lambda>_. publish env opts st snap)) v = (r, s')"
    using run q by simp
  from when_empty_upload [OF this assms(2) no] obtain v1
    where v1: "bindS (ensure_components env opts open_keys required) (\<lambda>_. publish env opts st snap) v1 = (r, s')" "sl_events v1 = sl_events v @ [CheckedEmpty]"
    by blast
  obtain p v2 where p: "ensure_components env opts open_keys required v1 = (p, v2)" by fastforce
  obtain es where es: "sl_events v2 = sl_events v1 @ es" "list_all ensures es" using addsD [OF adds_ensure p] by blast
  have "s' \<noteq> v2" using es no assms(2) v1(2) quiet by auto
  then have "p = Inr ()" "publish env opts st snap v2 = (r, s')" using v1(1) p by (auto simp: bindS_def split: sum.splits)
  moreover have "butlast (sl_events v1) = sl_events v" "sl_events v1 \<noteq> []" "last (sl_events v1) = CheckedEmpty" using v1(2) by simp_all
  then have "list_all inspects (butlast (sl_events v1))" "sl_events v1 \<noteq> []" "last (sl_events v1) = CheckedEmpty"
    using evs assms(3) by simp_all
  moreover have "case sd_bootstrap opts of None \<Rightarrow> snap = base
     | Some b \<Rightarrow> ReadKey \<in> set (sl_events v1) \<and> (\<exists>ca token. addOperatorBootstrap env base b ca token = Inr snap)"
    using injected_snapshot [OF q [unfolded snap]] v1(2) by (auto split: option.splits)
  ultimately show ?thesis using rd p by blast
qed

lemma createSeed_upload:
  assumes "createSeed env opts st open_keys \<lparr>sl_events = [], sl_rest = w\<rparr> = (r, s)" "UploadedSnapshot x c ok \<in> set (sl_events s)"
  shows "\<exists>base required snap v1 v2. render_snapshot env opts = Inr (base, required) \<and>
    list_all inspects (butlast (sl_events v1)) \<and> sl_events v1 \<noteq> [] \<and> last (sl_events v1) = CheckedEmpty \<and>
    ensure_components env opts open_keys required v1 = (Inr (), v2) \<and> publish env opts st snap v2 = (r, s) \<and>
    (case sd_bootstrap opts of None \<Rightarrow> snap = base
     | Some b \<Rightarrow> ReadKey \<in> set (sl_events v1) \<and> (\<exists>ca token. addOperatorBootstrap env base b ca token = Inr snap))"
proof -
  obtain q v where q: "completedSeed env opts st \<lparr>sl_events = [], sl_rest = w\<rparr> = (q, v)" by fastforce
  have ev: "sl_events v = [CheckedSnapshot]" using completed_events [OF q] by simp
  have "s \<noteq> v" using assms(2) ev by auto
  then have "when_empty env opts st (create_new env opts st open_keys) v = (r, s)"
    using assms(1) q by (auto simp: createSeed_def bindS_def liftS_def split: sum.splits option.splits)
  from when_empty_upload [OF this assms(2)] ev obtain v0
    where "create_new env opts st open_keys v0 = (r, s)" "sl_events v0 = [CheckedSnapshot, CheckedEmpty]" by auto
  with create_new_upload [OF this(1) assms(2)] show ?thesis by (simp add: inspects_def)
qed

section \<open>The snapshot is published last\<close>

text \<open>
  C2: A run that creates a seed uploads the snapshot at most once and as its last change to the outside: before it come
  only checks of the snapshot and of the prefix, the last of which found the prefix empty, reads of the certificate and
  of the signing key, and then the successful provisioning of every secret that the rendered components require, in
  their order; after it comes only the check of what was published. What is uploaded is the rendered snapshot, with the
  operator's records and a token made from the signing key when a bootstrap is configured. A failure of any step means
  that nothing is published.
\<close>

theorem snapshot_published_last:
  assumes "createSeed env opts st open_keys \<lparr>sl_events = [], sl_rest = w\<rparr> = (r, s)" "UploadedSnapshot snap c ok \<in> set (sl_events s)"
  shows "\<exists>base required pre. render_snapshot env opts = Inr (base, required) \<and>
    sl_events s = pre @ [CheckedEmpty] @ map (\<lambda>q. EnsuredComponent q True) required @ [UploadedSnapshot snap c ok, CheckedSnapshot] \<and>
    list_all inspects pre \<and> c = seedCompletion env opts \<and>
    (case sd_bootstrap opts of None \<Rightarrow> snap = base
     | Some b \<Rightarrow> ReadKey \<in> set pre \<and> (\<exists>ca token. addOperatorBootstrap env base b ca token = Inr snap))"
proof -
  from createSeed_upload [OF assms] obtain base required snap' v1 v2 where rd: "render_snapshot env opts = Inr (base, required)"
    and pre: "list_all inspects (butlast (sl_events v1))" "sl_events v1 \<noteq> []" "last (sl_events v1) = CheckedEmpty"
    and en: "ensure_components env opts open_keys required v1 = (Inr (), v2)" and pub: "publish env opts st snap' v2 = (r, s)"
    and inj: "case sd_bootstrap opts of None \<Rightarrow> snap' = base
      | Some b \<Rightarrow> ReadKey \<in> set (sl_events v1) \<and> (\<exists>ca token. addOperatorBootstrap env base b ca token = Inr snap')"
    by blast
  define p where "p = butlast (sl_events v1)"
  have v1: "sl_events v1 = p @ [CheckedEmpty]" using pre by (metis append_butlast_last_id p_def)
  from publish_events [OF pub] ensure_events [OF en] v1 obtain ok' where
    evs: "sl_events s = p @ [CheckedEmpty] @ map (\<lambda>q. EnsuredComponent q True) required @ [UploadedSnapshot snap' (seedCompletion env opts) ok', CheckedSnapshot]"
    by auto
  have "list_all inspects p" using pre by (simp add: p_def)
  moreover from this have "UploadedSnapshot snap c ok \<notin> set p" using quiet_no_upload by blast
  then have "snap = snap'" "c = seedCompletion env opts" "ok = ok'" using assms(2) evs by auto
  moreover have "ReadKey \<in> set (sl_events v1) \<longleftrightarrow> ReadKey \<in> set p" by (simp add: v1)
  ultimately show ?thesis using rd evs inj by (auto split: option.splits)
qed

section \<open>The keys of published components\<close>




section \<open>Every run adopts the same snapshot\<close>

definition keys_keep :: "(cloud_secret_options \<Rightarrow> ('w, 'w cloud_store) op) \<Rightarrow> ('w \<Rightarrow> 'c option) \<Rightarrow> bool" where
  "keys_keep open_keys cur \<longleftrightarrow>
     (\<forall>x. keeps_current cur (open_keys x)) \<and>
     (\<forall>x w k w'. open_keys x w = (Inr k, w') \<longrightarrow> (\<forall>v. keeps_current cur (st_create k v)) \<and> keeps_current cur (st_metadata k) \<and> (\<forall>v. keeps_current cur (st_value k v)))"

lemma run_keepsI: "seed_store_ok st obj \<Longrightarrow> keys_keep open_keys obj \<Longrightarrow> run_keeps st open_keys obj"
  unfolding seed_store_ok_def keys_keep_def run_keeps_def by blast

definition ends_current :: "'w create_env \<Rightarrow> seed_options \<Rightarrow> ('w \<Rightarrow> snapshot_meta option) \<Rightarrow> ('w srun, snapshot_meta) op \<Rightarrow> bool" where
  "ends_current env opts obj m \<longleftrightarrow> (\<forall>s x s'. m s = (Inr x, s') \<longrightarrow> obj (sl_rest s') = Some x \<and> completes env opts x)"

lemma completed_current:
  assumes "seed_store_ok st obj" "completedSeed env opts st s = (Inr (Some x), s')"
  shows "obj (sl_rest s') = Some x \<and> completes env opts x"
  using assms by (auto simp: completedSeed_def seen_def seed_store_ok_def split: prod.splits sum.splits if_splits)

lemma winner_current: "seed_store_ok st obj \<Longrightarrow> ends_current env opts obj (or_winner env opts st e)"
  by (auto simp: ends_current_def or_winner_def split: prod.splits sum.splits option.splits dest: completed_current)

lemma when_empty_current:
  assumes "seed_store_ok st obj" "ends_current env opts obj m"
  shows "ends_current env opts obj (when_empty env opts st m)"
  using assms(2) winner_current [OF assms(1), of env opts] unfolding ends_current_def
  by (auto simp: when_empty_def split: prod.splits sum.splits)

lemma publish_current: "seed_store_ok st obj \<Longrightarrow> ends_current env opts obj (publish env opts st snapshot)"
  using winner_current [of st obj env opts] unfolding ends_current_def
  by (auto simp: publish_def split: prod.splits sum.splits option.splits dest: completed_current)

lemma with_token_no_winner: "with_token env opts open_keys b base ca s \<noteq> (Inr (Winner m), s')"
  using with_token_snapshot [of env opts open_keys b base ca s "Winner m" s'] by auto

lemma injected_winner:
  assumes "seed_store_ok st obj" "inject_bootstrap env opts st open_keys base s = (Inr (Winner m), s')"
  shows "obj (sl_rest s') = Some m \<and> completes env opts m"
  using assms(2) by (auto simp: inject_bootstrap_def err_simps with_token_no_winner split: option.splits dest: completed_current [OF assms(1)])

lemma create_new_current:
  assumes "seed_store_ok st obj"
  shows "ends_current env opts obj (create_new env opts st open_keys)"
proof -
  have "ends_current env opts obj (bindS (ensure_components env opts open_keys required) (\<lambda>_. publish env opts st snap))" for required snap
    using publish_current [OF assms, of env opts snap] unfolding ends_current_def by (auto simp: err_simps)
  note we = when_empty_current [OF assms this, unfolded ends_current_def]
  show ?thesis unfolding ends_current_def
  proof (intro allI impI)
    fix s x s' assume "create_new env opts st open_keys s = (Inr x, s')"
    then obtain base required q v where q: "inject_bootstrap env opts st open_keys base s = (Inr q, v)"
      and run: "(case q of Winner meta \<Rightarrow> liftS (Inr meta) | Snapshot snapshot \<Rightarrow> when_empty env opts st
          (bindS (ensure_components env opts open_keys required) (\<lambda>_. publish env opts st snapshot))) v = (Inr x, s')"
      by (auto simp: create_new_def err_simps split: prod.splits)
    show "obj (sl_rest s') = Some x \<and> completes env opts x"
    proof (cases q)
      case (Winner m)
      then show ?thesis using q run injected_winner [OF assms, of env opts open_keys base s m v] by (simp add: err_simps)
    next
      case (Snapshot snap)
      then show ?thesis using run we by auto
    qed
  qed
qed

lemma createSeed_current:
  assumes "seed_store_ok st obj"
  shows "ends_current env opts obj (createSeed env opts st open_keys)"
  using when_empty_current [OF assms create_new_current [OF assms], of env opts]
  unfolding ends_current_def createSeed_def by (auto simp: err_simps split: option.splits dest: completed_current [OF assms])

text \<open>
  C5: A cluster has one seed snapshot. A run that succeeds, on S3 or on Google Cloud Storage, reports the bootstrap
  object that the bucket then holds, marked as complete for its own options; every later or concurrent run that succeeds
  while that object stands reports the same object and has the same completion marker; and no run, whether or not it
  succeeds, changes an object that exists, because every write is conditional.
\<close>

theorem one_seed_for_all:
  assumes "st = s3SeedStore api opts \<and> s3_lawful api opts obj \<or> st = gcsSeedStore gapi opts \<and> gcs_lawful gapi opts obj"
    and "keys_keep open_keys obj"
  shows "(createSeed env opts st open_keys s = (Inr meta, s1) \<longrightarrow> obj (sl_rest s1) = Some meta \<and> completes env opts meta) \<and>
    (createSeed env opts st open_keys s = (Inr meta, s1) \<and> obj (sl_rest s2) = obj (sl_rest s1) \<and>
       createSeed env' opts' st open_keys s2 = (Inr meta', s3) \<longrightarrow>
       meta' = meta \<and> seedCompletion env' opts' = seedCompletion env opts \<and> obj (sl_rest s3) = obj (sl_rest s1)) \<and>
    (obj (sl_rest s) \<noteq> None \<longrightarrow> obj (sl_rest (snd (createSeed env opts st open_keys s))) = obj (sl_rest s))"
proof -
  have ok: "seed_store_ok st obj" using assms(1) s3.contract [of "(api, opts)"] gcs.contract [of "(gapi, opts)"] by auto
  note kept = keeps_createSeed [OF run_keepsI [OF ok assms(2)]]
  note cur = createSeed_current [OF ok, unfolded ends_current_def]
  have "meta' = meta \<and> seedCompletion env' opts' = seedCompletion env opts \<and> obj (sl_rest s3) = obj (sl_rest s1)"
    if run: "createSeed env opts st open_keys s = (Inr meta, s1)" and same: "obj (sl_rest s2) = obj (sl_rest s1)"
      and run': "createSeed env' opts' st open_keys s2 = (Inr meta', s3)"
  proof -
    from cur run have c: "obj (sl_rest s1) = Some meta" "completes env opts meta" by blast+
    with keeps_step [OF kept run'] same have "obj (sl_rest s3) = Some meta" by simp
    moreover from cur run' have "obj (sl_rest s3) = Some meta'" "completes env' opts' meta'" by blast+
    ultimately show ?thesis using c by (simp add: completes_def)
  qed
  then show ?thesis using cur kept by (auto simp: keeps_current_def)
qed

section \<open>An example\<close>

text \<open>A world with one parameter and one bucket, which holds the bootstrap object or nothing.\<close>

type_synonym small_world = "shelf \<times> s3_head option"

definition on_shelf :: "(shelf \<Rightarrow> 'r \<times> shelf) \<Rightarrow> small_world \<Rightarrow> 'r \<times> small_world" where
  "on_shelf f w = (case f (fst w) of (r, a) \<Rightarrow> (r, (a, snd w)))"

definition small_ssm :: "string \<Rightarrow> small_world aws_ssm_api" where
  "small_ssm name = \<lparr>pm_put = (\<lambda>n ty v over tags. on_shelf (pm_put (shelf_api name) n ty v over tags)),
     pm_get = (\<lambda>n. on_shelf (pm_get (shelf_api name) n)), pm_describe = (\<lambda>n. on_shelf (pm_describe (shelf_api name) n))\<rparr>"

definition small_clouds :: "string \<Rightarrow> small_world clouds" where
  "small_clouds name = \<lparr>cloud_aws = (\<lambda>region profile. liftS (Inr (no_secrets, small_ssm name))),
     cloud_gcp = (\<lambda>region project. liftS (Inl (Sentinel ''gcp'')))\<rparr>"

definition small_s3 :: "small_world s3_api" where
  "small_s3 =
     \<lparr>s3_head_object = (\<lambda>b k w. (case snd w of None \<Rightarrow> Inl (''NotFound'', Sentinel k) | Some h \<Rightarrow> Inr h, w)),
      s3_get_object = (\<lambda>b k w. (Inl (''NoSuchKey'', Sentinel k), w)),
      s3_list_objects = (\<lambda>b p w. (Inr (None, if snd w = None then 0 else 1), w)),
      s3_put_object = (\<lambda>b k body inp w.
        if pi_if_none_match inp = ''*'' \<and> snd w \<noteq> None then (Inl (''PreconditionFailed'', Sentinel k), w)
        else (Inr (), (fst w, Some \<lparr>hd_version = ''v1'', hd_etag = [], hd_metadata = pi_metadata inp, hd_encryption = pi_encryption inp\<rparr>)))\<rparr>"

definition small_object :: "small_world \<Rightarrow> snapshot_meta option" where
  "small_object w = map_option s3_meta (snd w)"


lemma small_lawful: "s3_lawful small_s3 opts small_object"
  by (auto simp: s3_lawful_def keeps_current_def small_s3_def small_object_def split: option.splits)



lemma keeps_snd: "keeps_current small_object (on_shelf f)"
  by (simp add: keeps_current_def on_shelf_def small_object_def split_def)


text \<open>The seed of an example cluster whose overrides enable the source gateway, with its key in the parameter.\<close>

definition gateway_values :: fields where
  "gateway_values = [(''platform'', JObj [(''components'', JObj [(''apps'', JObj [(''sourcegateway'', JObj [(''enabled'', JBool True)])]),
     (''values'', JObj [(''podplane-operator'', JObj [(''podplane'', JObj [(''operator'', JObj [(''config'', JObj
       [(''cluster'', JObj [(''id'', JStr ''demo'')]), (''secrets'', JObj [(''defaultProvider'', JStr ''main''), (''providers'', JObj [(''main'', JObj
         [(''kind'', JStr ''aws''), (''keyPrefix'', JStr ''demo''), (''objectType'', JStr ''ssmparameter'')])])])])])])])])])])]"

definition small_env :: "small_world create_env" where
  "small_env =
     \<lparr>se_seed = ex_seed_env\<lparr>en_yaml := (\<lambda>_. Inr (Some gateway_values)),
        en_readFile := (\<lambda>path. if path = ''over.yaml'' \<or> path = ''seed'' then Inr ''s'' else Inl (Sentinel ''none''))\<rparr>,
      se_keys = \<lparr>ke_ed25519 = (\<lambda>_. Inl (Sentinel ''key'')), ke_ecdsa = (\<lambda>_. Inl (Sentinel ''key'')), ke_signing = (\<lambda>_. Inl (Sentinel ''key'')),
        ke_random = (\<lambda>_ _. CHR ''r''), ke_pkcs8 = (\<lambda>_. Inl (Sentinel ''key'')), ke_parse = (\<lambda>_. Inl (Sentinel ''key'')),
        ke_public = (\<lambda>_. Inl (Sentinel ''key'')), ke_pem = pb_bytes, ke_pem_decode = (\<lambda>_. None), ke_sha256 = id,
        ke_signing_fingerprint = Inr, ke_jwks = (\<lambda>_ _ i. Inr i)\<rparr>,
      se_load = (\<lambda>_. Inr (ex_config\<lparr>cc_cluster := (cc_cluster ex_config)
        \<lparr>cl_seed := \<lparr>se_name = ''agentic'', se_version = ''1'', se_digest = ''sha512:'' @ replicate 128 CHR ''0''\<rparr>\<rparr>\<rparr>)),
      se_published = (\<lambda>_ _. Inl (Sentinel ''none'')), se_temp = Inl (Sentinel ''none''), se_temp_dir = Inr (),
      se_sha512 = (\<lambda>_. replicate 64 CHR 0x00), se_standardize = Inr, se_encode = (\<lambda>_ _. Inr ''snapshot''), se_identity_json = concat,
      se_certificate = (\<lambda>_. Inl (Sentinel ''none'')), se_now = (\<lambda>_. 0), se_cancelled = (\<lambda>_. False), se_token = (\<lambda>_ _ _ _. Inl (Sentinel ''none''))\<rparr>"

definition small_options :: seed_options where
  "small_options = \<lparr>sd_config_path = ''cluster.jsonc'', sd_seed_path = ''seed'', sd_values_file = ''over.yaml'', sd_values_content = [],
     sd_bucket = ''netsy'', sd_prefix = ''demo'', sd_region = ''us-east-1'', sd_profile = [], sd_project = [], sd_bootstrap = None\<rparr>"

definition gateway_name :: string where
  "gateway_name = ''/demo/platform-sourcegateway/sourcegateway/encryption-key''"

definition small_run :: "snapshot_meta result \<times> small_world srun" where
  "small_run = createSeed small_env small_options (s3SeedStore small_s3 small_options) (newCloudSecretStore (small_clouds gateway_name))
     \<lparr>sl_events = [], sl_rest = (None, None)\<rparr>"


lemma ssm_store_keeps:
  assumes "\<And>n ty v tags. keeps_current cur (pm_put api n ty v False tags)" "\<And>n. keeps_current cur (pm_get api n)" "\<And>n. keeps_current cur (pm_describe api n)"
  shows "keeps_current cur (ssm_CreateOrAdopt api s v)" "keeps_current cur (ssm_Metadata api s)" "keeps_current cur (ssm_pinned api s ver)"
  by (rule keepsI, auto simp: ssm_CreateOrAdopt_def adopt_ssm_def ssm_Metadata_def ssm_pinned_def split: store_split
      dest: keeps_step [OF assms(1)] keeps_step [OF assms(2)] keeps_step [OF assms(3)])+

lemma no_secrets_keeps: "keeps_current cur (aws_CreateOrAdopt no_secrets s v)" "keeps_current cur (aws_Metadata no_secrets s)" "keeps_current cur (aws_pinned no_secrets s ver)"
  by (simp_all add: keeps_current_def aws_CreateOrAdopt_def aws_Metadata_def aws_pinned_def no_secrets_def)

lemma small_keys_keep:
  assumes "\<And>n ty v tags. keeps_current cur (pm_put (small_ssm name) n ty v False tags)" "\<And>n. keeps_current cur (pm_get (small_ssm name) n)"
    "\<And>n. keeps_current cur (pm_describe (small_ssm name) n)"
  shows "keys_keep (newCloudSecretStore (small_clouds name)) cur"
proof -
  have "keeps_current cur (newCloudSecretStore (small_clouds name) x)" for x
    by (auto simp: newCloudSecretStore_def small_clouds_def split_def intro!: keeps_bindS keeps_intro)
  then show ?thesis
    using ssm_store_keeps [of cur "small_ssm name"] assms no_secrets_keeps [of cur]
    by (auto simp: keys_keep_def newCloudSecretStore_def small_clouds_def err_simps awsSecretsStore_def awsSSMStore_def split: if_splits)
qed

lemma small_object_keys: "keys_keep (newCloudSecretStore (small_clouds name)) small_object"
  by (rule small_keys_keep) (simp_all add: small_ssm_def keeps_snd)


text \<open>The run of the example: what it did and what it left.\<close>

definition small_done :: bool where
  "small_done \<longleftrightarrow> (case small_run of (Inr m, s) \<Rightarrow> UploadedSnapshot ''snapshot'' (seedCompletion small_env small_options) True \<in> set (sl_events s) \<and>
     sl_rest s = (Some (1, ''cnJycnJycnJycnJycnJycnJycnJycnJycnJycnJycnI=''), snd (sl_rest s)) \<and> small_object (sl_rest s) = Some m | _ \<Rightarrow> False)"

lemma small_runs: small_done
  by code_simp


lemma small_run_done:
  obtains m s where "small_run = (Inr m, s)" "UploadedSnapshot ''snapshot'' (seedCompletion small_env small_options) True \<in> set (sl_events s)"
  using small_runs by (auto simp: small_done_def split: prod.splits sum.splits)

theorem snapshot_published_last_witness:
  "\<exists>m s base required pre. small_run = (Inr m, s) \<and> render_snapshot small_env small_options = Inr (base, required) \<and>
     sl_events s = pre @ [CheckedEmpty] @ map (\<lambda>q. EnsuredComponent q True) required @
       [UploadedSnapshot ''snapshot'' (seedCompletion small_env small_options) True, CheckedSnapshot]"
proof -
  obtain m s where run: "small_run = (Inr m, s)" "UploadedSnapshot ''snapshot'' (seedCompletion small_env small_options) True \<in> set (sl_events s)"
    by (rule small_run_done)
  from snapshot_published_last [OF run(1) [unfolded small_run_def] run(2)] run(1) show ?thesis by blast
qed


theorem one_seed_for_all_witness:
  "\<exists>m s. small_run = (Inr m, s) \<and> small_object (sl_rest s) = Some m \<and> completes small_env small_options m"
proof -
  obtain m s where run: "small_run = (Inr m, s)" by (rule small_run_done)
  have "s3SeedStore small_s3 small_options = s3SeedStore small_s3 small_options \<and> s3_lawful small_s3 small_options small_object \<or>
      s3SeedStore small_s3 small_options = gcsSeedStore undefined small_options \<and> gcs_lawful undefined small_options small_object"
    using small_lawful by blast
  from one_seed_for_all [OF this small_object_keys] run show ?thesis unfolding small_run_def by blast
qed

end
