(* ===== verification/Spec2Isabelle.thy ===== *)
theory Spec2Isabelle
  imports FakevaultProps ClusterProps S3Props SeedProps OidcProps ComponentsProps ClusterDeleteProps ClusterSleepProps TfProps SeedCreateProps
begin

text \<open>
  \<^bold>\<open>Podplane\<close> is a command line program (Go) that creates and runs Kubernetes clusters on AWS, Google Cloud and a
  developer's machine. A cluster is described by one configuration file. From it the program generates Terraform
  files for the cloud (\<open>internal/tfgen\<close>), prepares the \<^emph>\<open>seed\<close>, the records of the first state of the cluster's API
  server (\<open>pkg/netsyseed\<close>), and later installs, uninstalls, wakes, sleeps and deletes through \<open>kubectl\<close>, \<open>helm\<close> and the
  cloud APIs. For a local cluster it also runs the services that the cloud would provide: a fake Vault for secrets
  (\<open>internal/fakevault\<close>), a fake S3 (\<open>internal/s3fake\<close>) and an OpenID provider (\<open>internal/oidcserver\<close>).

  \<^bold>\<open>How the parts interact.\<close> \<open>clusterconfig.Validate\<close> decides which configurations are accepted; the generator, the seed,
  the component commands and the deletion all take an accepted configuration and rely on what acceptance means for them
  (\<open>ClusterFacts\<close>, used by \<open>SeedProps\<close>, \<open>ComponentsFacts\<close> and \<open>TfFacts\<close>). The generator calls the machine
  specification (\<open>clusterspec\<close>) and the version of the provider (\<open>buildvars\<close>). The component commands compute plans over
  the values that the seed delivered, and create the secrets that a component needs before it is enabled. The fake Vault's
  handler works on the store through the Go interface \<open>Store\<close>, and the store on the file system and the keyring.
\<close>

section \<open>The theories\<close>

text \<open>
  \<^bold>\<open>Shared.\<close>
  \<^item> \<open>Prelude\<close>: Go errors (\<open>goerr\<close>: a message, a wrapped error or a sentinel, with \<open>errors.Is\<close> as \<open>errors_is\<close>), results (\<open>goerr + 'a\<close>), Go
    maps as association lists in iteration order with \<open>gomap_ok\<close> for distinct keys, the lemma collections.
  \<^item> \<open>GoStrings\<close>, \<open>GoBase64\<close>, \<open>Json\<close>, \<open>JsonDecode\<close>, \<open>Netip\<close>, \<open>Filesystem\<close>: what the source uses of Go's standard library,
    with the functions of \<open>strings\<close>, \<open>path.Clean\<close>, \<open>url.PathEscape\<close>, \<open>base64\<close>, \<open>json.Unmarshal\<close> into structs and into
    \<open>any\<close>, \<open>netip\<close> on words of 32 and 128 bits, and a file system whose every call can fail and whose interrupted writes
    leave torn contents. A Go string is a list of bytes.

  \<^bold>\<open>Fake Vault\<close> (\<open>internal/fakevault\<close>).
  \<^item> \<open>FakevaultPaths\<close>: \<open>CleanPath\<close>, cluster IDs, KV-v2 paths, identities of \<open>store.go\<close> and \<open>handler.go\<close>.
  \<^item> \<open>FakevaultStore\<close>: \<open>FileStore\<close>: the record of the process state is the disk, the keyring and the archive; every exported
    operation, each with its file and keyring calls in the order of the code. \<open>FakevaultStoreSpec\<close> is its specification: the
    abstraction is the map of secrets by cluster and path, and each operation is a function on it.
  \<^item> \<open>FakevaultHandler\<close>: \<open>ServeHTTP\<close>, authentication, login, every KV endpoint. \<open>FakevaultService\<close>: the locale \<open>vault_store\<close>
    is the Go interface \<open>Store\<close> with the laws that a handler relies on, interpreted on \<open>FileStore\<close> (\<open>fsv\<close>).
    \<open>FakevaultAccess\<close> and \<open>FakevaultProps\<close>: who may read and write what; versions, compare-and-set, atomic replacement.

  \<^bold>\<open>Cluster configuration\<close> (\<open>internal/clusterconfig\<close>).
  \<^item> \<open>ClusterConfig\<close>: the structs of \<open>types.go\<close> as records, their resolved values, \<open>registry.go\<close>, \<open>service_network.go\<close>,
    \<open>draft.go\<close>. \<open>ClusterValidate\<close>: every validator of \<open>validate.go\<close> with its message. \<open>ClusterFacts\<close>, \<open>ClusterNames\<close>,
    \<open>ClusterProps\<close>: what acceptance establishes, and that it does not depend on the order of maps.

  \<^bold>\<open>Fake S3\<close> (\<open>internal/s3fake\<close>).
  \<^item> \<open>S3Listing\<close>: listings page by page; the locale \<open>paged_listing\<close> is what one page promises and derives that the walk
    over all pages lists everything once. It is interpreted on the bucket listing (\<open>bucket\<close>) and, in \<open>S3Pages\<close>, on the parts
    and the uploads (\<open>parts\<close>, \<open>uploads\<close>).
  \<^item> \<open>S3Multipart\<close>: the durable uploads: directories, control records, part files, the assembling reader.
    \<open>S3MultipartSpec\<close>, \<open>S3Client\<close>, \<open>S3Props\<close>: completion, round trips, isolation, reachable states.

  \<^bold>\<open>Seeds\<close> (\<open>pkg/netsyseed\<close>).
  \<^item> \<open>SeedRecords\<close>, \<open>SeedValues\<close> (\<open>values.go\<close>), \<open>SeedEnvoy\<close> (\<open>envoy.go\<close>), \<open>SeedNetwork\<close> and \<open>SeedPrepare\<close>
    (\<open>snapshot.go\<close>). \<open>SeedFacts\<close>, \<open>SeedNetworkFacts\<close>, \<open>SeedIngress\<close>, \<open>SeedWellFormed\<close>, \<open>SeedPipeline\<close>, \<open>SeedProps\<close>: what each
    step leaves alone, addresses, listeners and certificates, the well-formedness of the values.

  \<^bold>\<open>OpenID provider\<close> (\<open>internal/oidcserver\<close>). \<open>OidcServer\<close>: code store, endpoints, tokens. \<open>OidcProps\<close>: traces of
  requests; codes are redeemed at most once and only as issued.

  \<^bold>\<open>Components\<close> (\<open>internal/components\<close>, \<open>internal/cmd/install.go\<close>, \<open>uninstall.go\<close>).
  \<^item> \<open>Components\<close>: the parsed values and the dependency walk; \<open>ComponentsFacts\<close>: the walk is the reflexive transitive
    closure. \<open>ComponentsValues\<close>: the patch of the release values. \<open>ComponentsCmd\<close>: the command bodies as sequences of
    events; the locale \<open>helm_values\<close> is what a command relies on of the release store, interpreted on the merged values
    (\<open>release\<close>). \<open>ComponentsProps\<close>: plans, sequences of commands, secrets before components.

  \<^bold>\<open>Deleting, sleeping, access.\<close> \<open>ClusterDelete\<close> (\<open>internal/clusterdelete\<close>): the workflow over an explicit clock.
  \<open>Kubectl\<close> (\<open>internal/kubectl\<close>) and \<open>ClusterSleep\<close> (\<open>internal/clustersleep\<close>): sequences of \<open>kubectl\<close> calls. Their
  properties are in \<open>ClusterDeleteProps\<close> and \<open>ClusterSleepProps\<close>.

  \<^bold>\<open>Terraform generation\<close> (\<open>internal/tfgen\<close>, \<open>internal/clusterspec\<close>, \<open>internal/buildvars\<close>).
  \<^item> \<open>Hcl\<close> (\<open>hcl.go\<close>, \<open>write.go\<close>): values, blocks, documents and their text. \<open>BuildVars\<close>, \<open>ClusterSpec\<close>: provider versions,
    certificates and environment of machines. \<open>TfValues\<close>, \<open>TfStack\<close>, \<open>TfCloud\<close>, \<open>TfCluster\<close>: \<open>cluster.go\<close>, \<open>runtime.go\<close>,
    \<open>aws.go\<close> and \<open>google.go\<close>, one definition per function and per section of \<open>renderCluster\<close>.
  \<^item> \<open>TfOrder\<close>: every definition is invariant under the canonical order of maps. \<open>TfFacts\<close>, \<open>TfText\<close>, \<open>TfEnv\<close>, \<open>TfProps\<close>:
    when the generation succeeds, that its references resolve, what HCL and a shell read back.
\<close>

section \<open>Conventions, bounds and fuel\<close>

text \<open>
  Every \<open>return err\<close> of the source is an \<open>Inl\<close> or a \<open>Some error\<close> branch, with the format string and its arguments as data.
  Machine integers are words, or integers with the wrap-around written out (\<open>wrap64\<close> in the store's versions,
  \<open>64 word\<close> in provider versions, 32 and 128 bit words for addresses). Iteration over a Go map follows the list that stands for it, so a
  statement for all lists is one for all iteration orders.

  Loops: the page walks of \<open>S3Listing\<close> take a number of pages as fuel, and the completeness theorems state that the number of entries
  suffices. The dependency walk of \<open>Components\<close> carries the stack of the code and terminates because
  the set of unvisited components shrinks. The offset loop of \<open>SeedNetwork\<close> counts up to the size of a network and has a
  measure. The retry loop for upload identifiers draws from a given list of identifiers. The polling loops of \<open>ClusterDelete\<close> are partial
  functions into \<open>option\<close> over a clock, and \<open>polling_ends\<close> states that they return.

  Parameters stand for what is not in the repository, or is a library that the source only calls: AES-GCM (symbolic), SHA-256, MD5, the JWT library, \<open>url.Parse\<close> and
  \<open>mail.ParseAddress\<close>, YAML and JSON text, \<open>hclwrite.Format\<close>, the OCI reference parser, the gofakes3 backend, the cloud SDKs,
  \<open>kubectl\<close> and \<open>helm\<close>. What is assumed of them is a named hypothesis of the theorem, with a witness.
\<close>

section \<open>Not modelled\<close>

text \<open>
  \<^item> Terminal output and interaction: \<open>internal/tui\<close>, the wizards of \<open>clustercreate\<close> and \<open>oidccreate\<close>, the printing of \<open>internal/cmd\<close>.
  \<^item> Processes, sockets and virtual machines: \<open>internal/local\<close>, \<open>internal/vm\<close>, \<open>internal/osboot\<close>, \<open>internal/execwrap\<close>,
    \<open>internal/pid\<close>, \<open>internal/health\<close>; their behaviour is that of the operating system and of QEMU.
  \<^item> Downloads, registries and archives: \<open>internal/deps\<close> (but the manifest of machine images), \<open>internal/bundle\<close>, \<open>internal/filecache\<close>,
    \<open>internal/registryclient\<close>, \<open>internal/tfdeps\<close>, \<open>pkg/seeds\<close>; they compose HTTP, OCI and tar libraries.
  \<^item> Cloud clients and Terraform: \<open>internal/cloud\<close>, \<open>internal/secrets\<close> (but the requirements of components), \<open>internal/tfprovider\<close>, \<open>internal/tfexec\<close>,
    \<open>internal/tfstate\<close>; they are calls of SDKs and of the Terraform plugin framework.
  \<^item> The OIDC stack of \<open>internal/tfgen/oidc.go\<close> and its configuration \<open>internal/oidcconfig\<close>, and the shell script of \<open>pkg/userdata\<close>.
\<close>

end
